(* ===== verification/Prelude.thy ===== *)
theory Prelude
  imports Main "HOL-Library.List_Lexorder" "HOL-Library.Char_ord"
begin

text \<open>
  Shared vocabulary of the CloudDesk-OS development.

  \<^item> Rust strings and byte slices are \<open>string\<close> (lists of bytes). Character classes are the ASCII
    ones of the standard library (\<open>is_ascii_*\<close>); \<open>str::trim\<close> and \<open>str::to_lowercase\<close> are modelled on
    their ASCII part and leave every other byte alone.
  \<^item> A fallible operation returns \<open>'e + 'a\<close>, with \<open>Inl\<close> the error.
  \<^item> An SQL table is the list of its rows in row order; \<open>UPDATE\<close>, \<open>DELETE\<close>, \<open>SELECT\<close> and the number
    of affected rows are functions on that list. A primary key and the \<open>CHECK\<close> constraints of a table
    are the predicate \<open>table_ok\<close>.
  \<^item> Five interfaces are stated as locales: an \<open>UPDATE\<close> that keeps keys and row constraints
    (\<open>row_update\<close>), an enumeration with a textual form (\<open>text_codec\<close>), an operation scoped by the owner
    of the rows (\<open>owner_scoped\<close>), a table whose rows
    are only appended and updated within bounds (\<open>row_history\<close>), and a step system with an inductive
    invariant (\<open>inv_system\<close>).
\<close>

section \<open>Collections of facts\<close>

named_theorems table_defs \<open>definitions of the SQL table operations\<close>
named_theorems table_simps \<open>rewrite rules for the SQL table operations\<close>

section \<open>Types\<close>

type_synonym bytes = string
type_synonym 'r sql_table = "'r list"

section \<open>Results\<close>

definition is_ok :: "'e + 'a \<Rightarrow> bool" where
  "is_ok r = (case r of Inl _ \<Rightarrow> False | Inr _ \<Rightarrow> True)"

definition res_bind :: "'e + 'a \<Rightarrow> ('a \<Rightarrow> 'e + 'b) \<Rightarrow> 'e + 'b" where
  "res_bind r f = (case r of Inl e \<Rightarrow> Inl e | Inr a \<Rightarrow> f a)"

definition res_of_option :: "'e \<Rightarrow> 'a option \<Rightarrow> 'e + 'a" where
  "res_of_option e x = (case x of None \<Rightarrow> Inl e | Some a \<Rightarrow> Inr a)"

lemma is_ok_simps [simp]: "is_ok (Inr a)" "\<not> is_ok (Inl e)"
  by (simp_all add: is_ok_def)

lemma res_bind_simps [simp]:
  "res_bind (Inl e) f = Inl e" "res_bind (Inr a) f = f a"
  by (simp_all add: res_bind_def)

lemma res_bind_ok: "res_bind r f = Inr b \<longleftrightarrow> (\<exists>a. r = Inr a \<and> f a = Inr b)"
  by (cases r) auto

lemma res_of_option_simps [simp]:
  "res_of_option e None = Inl e" "res_of_option e (Some a) = Inr a"
  by (simp_all add: res_of_option_def)

lemma res_of_option_ok: "res_of_option e x = Inr a \<longleftrightarrow> x = Some a"
  by (cases x) auto

section \<open>Characters and strings\<close>

definition code_of :: "char \<Rightarrow> nat" where
  "code_of c = of_char c"

definition is_ascii_lowercase :: "char \<Rightarrow> bool" where
  "is_ascii_lowercase c \<longleftrightarrow> 97 \<le> code_of c \<and> code_of c \<le> 122"

definition is_ascii_uppercase :: "char \<Rightarrow> bool" where
  "is_ascii_uppercase c \<longleftrightarrow> 65 \<le> code_of c \<and> code_of c \<le> 90"

definition is_ascii_digit :: "char \<Rightarrow> bool" where
  "is_ascii_digit c \<longleftrightarrow> 48 \<le> code_of c \<and> code_of c \<le> 57"

definition is_ascii_alphanumeric :: "char \<Rightarrow> bool" where
  "is_ascii_alphanumeric c \<longleftrightarrow> is_ascii_lowercase c \<or> is_ascii_uppercase c \<or> is_ascii_digit c"

definition is_whitespace :: "char \<Rightarrow> bool" where
  "is_whitespace c \<longleftrightarrow> code_of c = 32 \<or> (9 \<le> code_of c \<and> code_of c \<le> 13)"

definition to_lower :: "char \<Rightarrow> char" where
  "to_lower c = (if is_ascii_uppercase c then char_of (code_of c + 32) else c)"

definition to_upper :: "char \<Rightarrow> char" where
  "to_upper c = (if is_ascii_lowercase c then char_of (code_of c - 32) else c)"

definition to_lowercase :: "string \<Rightarrow> string" where
  "to_lowercase s = map to_lower s"

definition trim :: "string \<Rightarrow> string" where
  "trim s = rev (dropWhile is_whitespace (rev (dropWhile is_whitespace s)))"

text \<open>\<open>str::split\<close> at a character: always at least one segment.\<close>

fun split_char :: "char \<Rightarrow> string \<Rightarrow> string list" where
  "split_char c [] = [[]]"
| "split_char c (x # xs) =
     (if x = c then [] # split_char c xs
      else case split_char c xs of [] \<Rightarrow> [[x]] | seg # segs \<Rightarrow> (x # seg) # segs)"

text \<open>
  \<open>Path::components\<close> on Unix: a leading \<open>/\<close> is \<open>RootDir\<close>, a leading \<open>.\<close> is \<open>CurDir\<close>; empty segments and all other
  \<open>.\<close> segments disappear.
\<close>

datatype path_component = RootDir | CurDir | ParentDir | Normal string

definition path_components :: "string \<Rightarrow> string list" where
  "path_components p = filter (\<lambda>c. c \<noteq> [] \<and> c \<noteq> ''.'') (split_char CHR ''/'' p)"

definition components :: "string \<Rightarrow> path_component list" where
  "components p =
     (case split_char CHR ''/'' p of
        [] # _ # _ \<Rightarrow> [RootDir]
      | (c # _) \<Rightarrow> if c = ''.'' then [CurDir] else []
      | [] \<Rightarrow> []) @
     map (\<lambda>c. if c = ''..'' then ParentDir else Normal c) (path_components p)"

text \<open>\<open>from_str\<close> of the unsigned integers: an optional plus sign and decimal digits, within the bounds of the type.\<close>

definition digits_value :: "string \<Rightarrow> nat" where
  "digits_value s = foldl (\<lambda>n c. 10 * n + (code_of c - 48)) 0 s"

definition parse_unsigned :: "nat \<Rightarrow> string \<Rightarrow> nat option" where
  "parse_unsigned bound s =
     (let ds = (case s of c # cs \<Rightarrow> if c = CHR ''+'' then cs else s | [] \<Rightarrow> []) in
      if ds = [] \<or> \<not> list_all is_ascii_digit ds \<or> digits_value ds > bound then None else Some (digits_value ds))"

text \<open>Decimal notation of a natural number.\<close>

fun decimal :: "nat \<Rightarrow> string" where
  "decimal n = (if n < 10 then [char_of (48 + n)] else decimal (n div 10) @ [char_of (48 + n mod 10)])"

declare decimal.simps [simp del]

definition I64_MAX :: int where
  "I64_MAX = 2 ^ 63 - 1"

lemmas char_class_defs =
  is_ascii_lowercase_def is_ascii_uppercase_def is_ascii_digit_def is_ascii_alphanumeric_def
  is_whitespace_def to_lower_def to_upper_def code_of_def

lemma to_lower_not_upper: "\<not> is_ascii_uppercase (to_lower c)"
  by (auto simp: char_class_defs)

lemma to_lower_idem [simp]: "to_lower (to_lower c) = to_lower c"
  by (simp add: to_lower_def [of "to_lower c"] to_lower_not_upper)

lemma to_upper_not_lower: "\<not> is_ascii_lowercase (to_upper c)"
  by (auto simp: char_class_defs)

lemma to_upper_idem [simp]: "to_upper (to_upper c) = to_upper c"
  by (simp add: to_upper_def [of "to_upper c"] to_upper_not_lower)

lemma is_whitespace_to_lower [simp]: "is_whitespace (to_lower c) = is_whitespace c"
  by (auto simp: char_class_defs)

lemma trim_lowercase: "trim (to_lowercase s) = to_lowercase (trim s)"
  by (simp add: trim_def to_lowercase_def dropWhile_map rev_map comp_def)

lemma digit_char:
  assumes "n < 10"
  shows "is_ascii_digit (char_of (48 + n))" "code_of (char_of (48 + n)) - 48 = n"
  using assms by (simp_all add: is_ascii_digit_def code_of_def)

lemma digits_value_snoc: "digits_value (s @ [c]) = 10 * digits_value s + (code_of c - 48)"
  by (simp add: digits_value_def)

lemma decimal_digits: "decimal n \<noteq> [] \<and> list_all is_ascii_digit (decimal n) \<and> digits_value (decimal n) = n"
proof (induction n rule: decimal.induct)
  case (1 n)
  show ?case
  proof (cases "n < 10")
    case True
    then show ?thesis using digit_char [of n] by (simp add: decimal.simps [of n] digits_value_def)
  next
    case False
    then show ?thesis
      using 1 digit_char [of "n mod 10"] by (simp add: decimal.simps [of n] digits_value_snoc)
  qed
qed

lemma dropWhile_snoc_ends:
  "ys \<noteq> [] \<Longrightarrow> \<not> P (last ys) \<Longrightarrow> dropWhile P (rev ys) = rev ys"
  by (cases ys rule: rev_cases) auto

lemma trim_idem [simp]: "trim (trim s) = trim s"
proof -
  let ?a = "dropWhile is_whitespace s"
  let ?b = "dropWhile is_whitespace (rev ?a)"
  have "dropWhile is_whitespace (rev ?b) = rev ?b"
  proof (cases "?b = []")
    case True
    then show ?thesis by (simp only: rev.simps dropWhile.simps)
  next
    case False
    have "?b = drop (length (takeWhile is_whitespace (rev ?a))) (rev ?a)"
      by (simp add: dropWhile_eq_drop)
    then have "last ?b = last (rev ?a)"
      using False by (simp add: last_drop)
    moreover have "last (rev ?a) = hd ?a"
      using False by (simp add: last_rev)
    moreover have "?a \<noteq> []"
      using False by (metis dropWhile.simps(1) rev.simps(1))
    then have "\<not> is_whitespace (hd ?a)"
      by (rule hd_dropWhile)
    ultimately show ?thesis
      using False by (intro dropWhile_snoc_ends) auto
  qed
  then show ?thesis
    by (simp add: trim_def dropWhile_idem)
qed

lemma split_char_no_sep: "seg \<in> set (split_char c s) \<Longrightarrow> c \<notin> set seg"
  by (induction c s arbitrary: seg rule: split_char.induct) (auto split: if_splits list.splits)

lemma split_char_subset: "seg \<in> set (split_char c s) \<Longrightarrow> set seg \<subseteq> set s"
  by (induction c s arbitrary: seg rule: split_char.induct) (fastforce split: if_splits list.splits)+

lemma split_char_nonempty [simp]: "split_char c s \<noteq> []"
  by (cases s) (auto split: list.splits)

lemma split_char_append: "c \<notin> set s \<Longrightarrow> split_char c (s @ c # t) = s # split_char c t"
  by (induction s) auto

lemma split_char_id: "c \<notin> set s \<Longrightarrow> split_char c s = [s]"
  by (induction s) auto

text \<open>Joining two names with a separator that does not occur in the second is injective.\<close>

lemma sep_inj:
  assumes "a @ c # b = a' @ c # b'" and "c \<notin> set b" and "c \<notin> set b'"
  shows "a = a' \<and> b = b'"
  using assms
proof (induction a arbitrary: a')
  case Nil
  then show ?case by (cases a') auto
next
  case (Cons x a)
  then show ?case by (cases a') auto
qed

lemma sep_inj_left:
  assumes "a @ c # b = a' @ c # b'" and "c \<notin> set a" and "c \<notin> set a'"
  shows "a = a' \<and> b = b'"
  using assms
proof (induction a arbitrary: a')
  case Nil
  then show ?case by (cases a') auto
next
  case (Cons x a)
  then show ?case by (cases a') auto
qed

lemma find_Some_in: "List.find P xs = Some x \<Longrightarrow> x \<in> set xs \<and> P x"
  by (induction xs) (auto split: if_splits)

section \<open>SQL tables\<close>

definition sql_first :: "('r \<Rightarrow> bool) \<Rightarrow> 'r sql_table \<Rightarrow> 'r option" where
  [table_defs]: "sql_first P t = List.find P t"

definition sql_update :: "('r \<Rightarrow> bool) \<Rightarrow> ('r \<Rightarrow> 'r) \<Rightarrow> 'r sql_table \<Rightarrow> 'r sql_table" where
  [table_defs]: "sql_update P f t = map (\<lambda>r. if P r then f r else r) t"

definition sql_affected :: "('r \<Rightarrow> bool) \<Rightarrow> 'r sql_table \<Rightarrow> nat" where
  [table_defs]: "sql_affected P t = length (filter P t)"

definition sql_delete :: "('r \<Rightarrow> bool) \<Rightarrow> 'r sql_table \<Rightarrow> 'r sql_table" where
  [table_defs]: "sql_delete P t = filter (\<lambda>r. \<not> P r) t"

definition table_ok :: "('r \<Rightarrow> 'k) \<Rightarrow> ('r \<Rightarrow> bool) \<Rightarrow> 'r sql_table \<Rightarrow> bool" where
  "table_ok key ok t \<longleftrightarrow> distinct (map key t) \<and> list_all ok t"

lemma sql_first_Some: "sql_first P t = Some r \<Longrightarrow> r \<in> set t \<and> P r"
  by (induction t) (auto simp: sql_first_def split: if_splits)

lemma sql_first_None: "sql_first P t = None \<longleftrightarrow> (\<forall>r\<in>set t. \<not> P r)"
  by (auto simp: sql_first_def find_None_iff)

lemma sql_first_append:
  "sql_first P (t @ u) = (case sql_first P t of None \<Rightarrow> sql_first P u | Some r \<Rightarrow> Some r)"
  by (induction t) (auto simp: sql_first_def)

lemma sql_affected_zero: "sql_affected P t = 0 \<longleftrightarrow> (\<forall>r\<in>set t. \<not> P r)"
  by (simp add: sql_affected_def filter_empty_conv)

lemma set_sql_update: "set (sql_update P f t) = (\<lambda>r. if P r then f r else r) ` set t"
  by (simp add: sql_update_def)

lemma length_sql_update [simp]: "length (sql_update P f t) = length t"
  by (simp add: sql_update_def)

lemma sql_update_clears: "(\<And>r. P r \<Longrightarrow> \<not> P (f r)) \<Longrightarrow> sql_affected P (sql_update P f t) = 0"
  by (auto simp: sql_affected_def sql_update_def filter_empty_conv)

lemma sql_update_none: "sql_affected P t = 0 \<Longrightarrow> sql_update P f t = t"
  by (induction t) (auto simp: sql_affected_def sql_update_def split: if_splits)

lemma sql_update_hit: "x \<in> set t \<Longrightarrow> P x \<Longrightarrow> f x \<in> set (sql_update P f t)"
  by (force simp: set_sql_update)

lemma sql_update_miss: "x \<in> set t \<Longrightarrow> \<not> P x \<Longrightarrow> x \<in> set (sql_update P f t)"
  by (force simp: set_sql_update)

lemma sql_update_noop: "\<forall>r\<in>set t. \<not> P r \<Longrightarrow> sql_update P f t = t"
  by (induction t) (auto simp: sql_update_def)

lemma filter_sql_update_other:
  assumes "\<And>r. P r \<Longrightarrow> \<not> Q r \<and> \<not> Q (f r)"
  shows "filter Q (sql_update P f t) = filter Q t"
  using assms by (induction t) (auto simp: sql_update_def)

lemma filter_sql_delete_other:
  assumes "\<And>r. P r \<Longrightarrow> \<not> Q r"
  shows "filter Q (sql_delete P t) = filter Q t"
  using assms by (induction t) (auto simp: sql_delete_def)

lemma sql_first_update:
  assumes "\<And>r. key (f r) = key r"
  shows "sql_first (\<lambda>r. key r = k) (sql_update P f t) =
    map_option (\<lambda>r. if P r then f r else r) (sql_first (\<lambda>r. key r = k) t)"
  using assms by (induction t) (auto simp: sql_first_def sql_update_def)

lemma sql_first_delete_same: "sql_first P (sql_delete P t) = None"
  by (simp add: sql_first_None sql_delete_def)

lemma sql_first_delete_other:
  assumes "\<And>r. Q r \<Longrightarrow> \<not> P r"
  shows "sql_first Q (sql_delete P t) = sql_first Q t"
  using assms by (induction t) (auto simp: sql_first_def sql_delete_def)

lemma table_ok_Nil [simp]: "table_ok key ok []"
  by (simp add: table_ok_def)

lemma table_ok_insert:
  "table_ok key ok t \<Longrightarrow> key r \<notin> key ` set t \<Longrightarrow> ok r \<Longrightarrow> table_ok key ok (t @ [r])"
  by (auto simp: table_ok_def)

lemma table_ok_delete: "table_ok key ok t \<Longrightarrow> table_ok key ok (sql_delete P t)"
  by (auto simp: table_ok_def sql_delete_def list_all_iff intro: distinct_map_filter)

lemma table_ok_rowD: "table_ok key ok t \<Longrightarrow> r \<in> set t \<Longrightarrow> ok r"
  by (simp add: table_ok_def list_all_iff)

lemma distinct_key_find:
  assumes "distinct (map key t)" and "r \<in> set t"
  shows "sql_first (\<lambda>x. key x = key r) t = Some r"
  using assms by (induction t) (auto simp: sql_first_def)

lemma distinct_key_find_where:
  assumes "distinct (map key t)"
  shows "sql_first (\<lambda>x. key x = k \<and> Q x) t = Some r \<longleftrightarrow> r \<in> set t \<and> key r = k \<and> Q r"
proof
  assume "sql_first (\<lambda>x. key x = k \<and> Q x) t = Some r"
  then show "r \<in> set t \<and> key r = k \<and> Q r" by (auto dest: sql_first_Some)
next
  assume r: "r \<in> set t \<and> key r = k \<and> Q r"
  with assms show "sql_first (\<lambda>x. key x = k \<and> Q x) t = Some r"
  proof (induction t)
    case (Cons x t)
    then show ?case by (cases "x = r") (auto simp: sql_first_def image_iff)
  qed simp
qed

lemma table_ok_find:
  "table_ok key ok t \<Longrightarrow> r \<in> set t \<Longrightarrow> sql_first (\<lambda>x. key x = key r) t = Some r"
  by (simp add: table_ok_def distinct_key_find)

lemma table_ok_same_key:
  "table_ok key ok t \<Longrightarrow> r \<in> set t \<Longrightarrow> r' \<in> set t \<Longrightarrow> key r = key r' \<Longrightarrow> r = r'"
  by (metis option.inject table_ok_find)

lemma distinct_key_neq: "distinct (map key (a # t)) \<Longrightarrow> x \<in> set t \<Longrightarrow> key x \<noteq> key a"
  by (metis distinct.simps(2) image_eqI list.map(2) list.set_map)

lemma distinct_key_affected:
  assumes "distinct (map key t)"
  shows "sql_affected (\<lambda>r. key r = k \<and> P r) t \<le> 1"
  using assms
proof (induction t)
  case Nil
  then show ?case by (simp add: sql_affected_def)
next
  case (Cons x t)
  show ?case
  proof (cases "key x = k \<and> P x")
    case True
    with Cons.prems have "\<forall>r\<in>set t. key r \<noteq> k" using distinct_key_neq [OF Cons.prems] by auto
    then have "filter (\<lambda>r. key r = k \<and> P r) t = []" by (simp add: filter_empty_conv)
    with True show ?thesis by (simp add: sql_affected_def)
  next
    case False
    with Cons show ?thesis by (auto simp: sql_affected_def)
  qed
qed

lemma affected_one_iff:
  assumes "distinct (map key t)"
  shows "sql_affected (\<lambda>r. key r = k \<and> P r) t = 1 \<longleftrightarrow> (\<exists>r\<in>set t. key r = k \<and> P r)"
proof -
  have "sql_affected (\<lambda>r. key r = k \<and> P r) t \<noteq> 0 \<longleftrightarrow> (\<exists>r\<in>set t. key r = k \<and> P r)"
    by (simp add: sql_affected_zero)
  then show ?thesis
    using distinct_key_affected [OF assms, of k P] by linarith
qed

section \<open>Interfaces\<close>

text \<open>An \<open>UPDATE ... SET ... WHERE P\<close> that leaves the primary key alone and keeps the row constraint.\<close>

locale row_update =
  fixes key :: "'r \<Rightarrow> 'k" and ok :: "'r \<Rightarrow> bool" and P :: "'r \<Rightarrow> bool" and f :: "'r \<Rightarrow> 'r"
  assumes key_kept: "key (f r) = key r"
    and ok_kept: "P r \<Longrightarrow> ok r \<Longrightarrow> ok (f r)"
begin

lemma keys_update: "map key (sql_update P f t) = map key t"
  by (simp add: sql_update_def key_kept)

lemma table_update: "table_ok key ok t \<Longrightarrow> table_ok key ok (sql_update P f t)"
  unfolding table_ok_def keys_update
  by (auto simp: list_all_iff set_sql_update ok_kept)

lemma find_update:
  "sql_first (\<lambda>r. key r = k) (sql_update P f t) =
    map_option (\<lambda>r. if P r then f r else r) (sql_first (\<lambda>r. key r = k) t)"
  by (rule sql_first_update) (rule key_kept)

lemma find_update_other:
  "(\<And>r. P r \<Longrightarrow> key r \<noteq> k) \<Longrightarrow>
    sql_first (\<lambda>r. key r = k) (sql_update P f t) = sql_first (\<lambda>r. key r = k) t"
  by (cases "sql_first (\<lambda>r. key r = k) t")
    (auto simp: find_update dest: sql_first_Some)

end

text \<open>An enumeration with a textual form in the database or in the API.\<close>

locale text_codec =
  fixes render :: "'a \<Rightarrow> string" and parse :: "string \<Rightarrow> 'a option"
  assumes parse_render: "parse (render x) = Some x"
    and parse_only: "parse s = Some x \<Longrightarrow> s = render x"
begin

lemma parse_iff: "parse s = Some x \<longleftrightarrow> s = render x"
  using parse_only parse_render by blast

lemma render_inj: "render x = render y \<Longrightarrow> x = y"
  by (metis option.inject parse_render)

lemma parse_None_iff: "parse s = None \<longleftrightarrow> s \<notin> range render"
  using parse_iff [of s] by (cases "parse s") (auto simp: parse_render)

end

text \<open>
  Commands that users perform on a shared state: they keep it well formed, and the part of the state that
  belongs to one user is the same after every command of another. Runs of commands then keep the part of
  everybody who does not take part.
\<close>

locale tenants =
  fixes view :: "string \<Rightarrow> 's \<Rightarrow> 'v" and wf :: "'s \<Rightarrow> bool"
    and act :: "string \<Rightarrow> 'c \<Rightarrow> 's \<Rightarrow> 's"
  assumes act_wf: "wf s \<Longrightarrow> wf (act u c s)"
    and act_view: "wf s \<Longrightarrow> u \<noteq> v \<Longrightarrow> view v (act u c s) = view v s"
begin

lemma run_wf: "wf s \<Longrightarrow> wf (fold (\<lambda>(u, c). act u c) cs s)"
  by (induction cs arbitrary: s) (auto simp: act_wf)

lemma run_view_kept:
  "wf s \<Longrightarrow> v \<notin> fst ` set cs \<Longrightarrow> view v (fold (\<lambda>(u, c). act u c) cs s) = view v s"
proof (induction cs arbitrary: s)
  case Nil
  then show ?case by simp
next
  case (Cons uc cs)
  obtain u c where uc: "uc = (u, c)" by (cases uc)
  with Cons.prems have "u \<noteq> v" and "v \<notin> fst ` set cs" by auto
  with Cons.IH [of "act u c s"] Cons.prems(1) uc show ?case
    by (simp add: act_view act_wf)
qed

end

text \<open>The case of one table with an owner column.\<close>

locale owner_scoped =
  fixes owner :: "'r \<Rightarrow> string" and wf :: "'r list \<Rightarrow> bool"
    and act :: "string \<Rightarrow> 'c \<Rightarrow> 'r list \<Rightarrow> 'r list"
  assumes wf_kept: "wf t \<Longrightarrow> wf (act u c t)"
    and others_kept: "wf t \<Longrightarrow> u \<noteq> v \<Longrightarrow>
      filter (\<lambda>r. owner r = v) (act u c t) = filter (\<lambda>r. owner r = v) t"

sublocale owner_scoped \<subseteq> tenants "\<lambda>v. filter (\<lambda>r. owner r = v)" wf act
  by unfold_locales (auto simp: wf_kept others_kept)

text \<open>
  A table whose rows are never deleted and change only within a preorder \<open>kept\<close>: what held of a row in
  that preorder holds of its later version.
\<close>

locale row_history =
  fixes kept :: "'r \<Rightarrow> 'r \<Rightarrow> bool"
  assumes kept_refl: "kept r r"
    and kept_trans: "kept r s \<Longrightarrow> kept s t \<Longrightarrow> kept r t"
begin

definition evolves :: "'r list \<Rightarrow> 'r list \<Rightarrow> bool" where
  "evolves t t' \<longleftrightarrow> (\<exists>u v. t' = u @ v \<and> list_all2 kept t u)"

lemma evolves_refl: "evolves t t"
  unfolding evolves_def by (intro exI [of _ t] exI [of _ "[]"]) (simp add: list_all2_same kept_refl)

lemma evolves_append: "evolves t (t @ v)"
  unfolding evolves_def by (intro exI [of _ t] exI [of _ v]) (simp add: list_all2_same kept_refl)

lemma evolves_update: "(\<And>r. P r \<Longrightarrow> kept r (f r)) \<Longrightarrow> evolves t (sql_update P f t)"
  unfolding evolves_def
  by (intro exI [of _ "sql_update P f t"] exI [of _ "[]"])
    (auto simp: sql_update_def list.rel_map list_all2_same kept_refl)

lemma evolves_trans:
  assumes "evolves s t" "evolves t u"
  shows "evolves s u"
proof -
  obtain t1 v where t: "t = t1 @ v" "list_all2 kept s t1"
    using assms(1) unfolding evolves_def by blast
  obtain u1 w where u: "u = u1 @ w" "list_all2 kept t u1"
    using assms(2) unfolding evolves_def by blast
  from u(2) t(1) obtain a b where ab: "u1 = a @ b" "list_all2 kept t1 a"
    by (auto simp: list_all2_append1)
  have "list_all2 kept s a"
    by (rule list_all2_trans [OF _ t(2) ab(2)]) (rule kept_trans)
  then show ?thesis
    unfolding evolves_def u(1) ab(1) by auto
qed

lemma evolves_row: "evolves t t' \<Longrightarrow> r \<in> set t \<Longrightarrow> \<exists>r'\<in>set t'. kept r r'"
  unfolding evolves_def by (fastforce simp: list_all2_conv_all_nth in_set_conv_nth nth_append)

lemma evolves_nonempty: "evolves t t' \<Longrightarrow> t \<noteq> [] \<Longrightarrow> t' \<noteq> []"
  unfolding evolves_def by auto

lemma run_evolves:
  assumes "step\<^sup>*\<^sup>* x y" "\<And>x y. step x y \<Longrightarrow> evolves (tbl x) (tbl y)"
  shows "evolves (tbl x) (tbl y)"
  using assms(1)
  by (induction rule: rtranclp_induct) (auto intro: evolves_refl evolves_trans assms(2))

end

text \<open>A step system with an inductive invariant.\<close>

locale inv_system =
  fixes init :: "'s \<Rightarrow> bool" and step :: "'s \<Rightarrow> 's \<Rightarrow> bool" and inv :: "'s \<Rightarrow> bool"
  assumes init_inv: "init s \<Longrightarrow> inv s"
    and step_inv: "inv s \<Longrightarrow> step s s' \<Longrightarrow> inv s'"
begin

lemma run_inv: "step\<^sup>*\<^sup>* s s' \<Longrightarrow> inv s \<Longrightarrow> inv s'"
  by (induction rule: rtranclp_induct) (auto intro: step_inv)

lemma reach_inv: "init s \<Longrightarrow> step\<^sup>*\<^sup>* s s' \<Longrightarrow> inv s'"
  using init_inv run_inv by blast

end

end
