(* ===== verification/Permissions.thy ===== *)
theory Permissions
  imports Prelude
begin

text \<open>
  The capability registry (\<open>crates/permissions/src/lib.rs\<close>) and the application manifest that may only
  ask for registered capabilities (\<open>crates/runtime/src/lib.rs\<close>). JSON parsing belongs to
  \<open>serde_json\<close> and is the parameter \<open>from_str\<close> of \<open>from_json\<close>.
\<close>

section \<open>Capabilities\<close>

definition CAPABILITIES :: "string list" where
  "CAPABILITIES =
    [''files.local.read'', ''files.local.write'', ''files.root.request'',
     ''files.permissions.change'', ''remote.servers.read'', ''remote.servers.manage'',
     ''remote.terminal.open'', ''transfers.create'', ''transfers.cancel'',
     ''terminal.local.open'', ''apps.browser.use'', ''apps.code.use'', ''apps.office.use'',
     ''apps.media.use'', ''runtime.admin'', ''system.services.manage'',
     ''system.packages.manage'', ''system.firewall.manage'', ''system.power.manage'',
     ''users.manage'', ''roles.manage'', ''audit.read'', ''secrets.manage'']"

definition is_known_capability :: "string \<Rightarrow> bool" where
  "is_known_capability v \<longleftrightarrow> list_ex (\<lambda>c. c = v) CAPABILITIES"

lemma is_known_capability_iff: "is_known_capability v \<longleftrightarrow> v \<in> set CAPABILITIES"
  by (auto simp: is_known_capability_def list_ex_iff)

lemma distinct_CAPABILITIES: "distinct CAPABILITIES"
  by (simp add: CAPABILITIES_def)

section \<open>Application manifests\<close>

datatype RuntimeDependency = DepBrowser | DepCode | DepOffice | DepMedia

record AppManifest =
  am_id :: string
  am_name :: string
  am_icon :: string
  am_route :: string
  am_required_permissions :: "string list"
  am_file_associations :: "string list"
  am_runtime_dependency :: "RuntimeDependency option"
  am_enabled :: bool

datatype ManifestError =
    ManifestJson
  | InvalidId string
  | InvalidRoute string
  | ManifestUnknownCapability string

definition is_identifier :: "string \<Rightarrow> bool" where
  "is_identifier v \<longleftrightarrow>
     v \<noteq> [] \<and> list_all (\<lambda>b. is_ascii_lowercase b \<or> is_ascii_digit b \<or> b = CHR ''-'') v"

definition manifest_validate :: "AppManifest \<Rightarrow> ManifestError + unit" where
  "manifest_validate m =
     (if \<not> is_identifier (am_id m) then Inl (InvalidId (am_id m))
      else if take 1 (am_route m) \<noteq> ''/'' then Inl (InvalidRoute (am_route m))
      else case List.find (\<lambda>p. \<not> is_known_capability p) (am_required_permissions m) of
          Some p \<Rightarrow> Inl (ManifestUnknownCapability p)
        | None \<Rightarrow> Inr ())"

definition from_json :: "(string \<Rightarrow> AppManifest option) \<Rightarrow> string \<Rightarrow> ManifestError + AppManifest" where
  "from_json from_str contents =
     res_bind (res_of_option ManifestJson (from_str contents))
       (\<lambda>m. res_bind (manifest_validate m) (\<lambda>_. Inr m))"

lemma manifest_validate_ok_iff:
  "manifest_validate m = Inr () \<longleftrightarrow>
     is_identifier (am_id m) \<and> take 1 (am_route m) = ''/'' \<and>
     set (am_required_permissions m) \<subseteq> set CAPABILITIES"
  by (auto simp: manifest_validate_def find_None_iff is_known_capability_iff
      dest: find_Some_in split: option.splits)

lemma from_json_ok_iff:
  "from_json from_str c = Inr m \<longleftrightarrow> from_str c = Some m \<and> manifest_validate m = Inr ()"
  by (auto simp: from_json_def res_bind_ok res_of_option_ok)

end
