(* ===== verification/Audit_Log.thy ===== *)
theory Audit_Log
  imports Prelude "HOL-Library.Multiset"
begin

text \<open>
  The hash-chained audit log (\<open>crates/audit/src/lib.rs\<close>; table and triggers in
  \<open>migrations/0002_identity_auth_rbac_audit.sql\<close> and \<open>0006_auth_and_audit_hardening.sql\<close>).

  A JSON value keeps its numbers opaque (type \<open>'n\<close>). \<open>serde_json\<close> printing and parsing and SHA-256 are
  third-party code: they are the fields of \<open>audit_env\<close>, an argument of every definition that uses them.
  A SQL transaction that ends in an error leaves the database as it was. Lock contention of
  \<open>append_in_transaction\<close> is the argument \<open>locked\<close> of \<open>append\<close>: which attempts meet a locked database.
\<close>

section \<open>JSON values and their canonical order\<close>

datatype 'n json =
    JNull
  | JBool bool
  | JNumber 'n
  | JString string
  | JArray "'n json list"
  | JObject "(string \<times> 'n json) list"

function sort_json :: "'n json \<Rightarrow> 'n json" where
  "sort_json (JObject es) = JObject (map (\<lambda>(k, v). (k, sort_json v)) (sort_key fst es))"
| "sort_json (JArray vs) = JArray (map sort_json vs)"
| "sort_json JNull = JNull"
| "sort_json (JBool b) = JBool b"
| "sort_json (JNumber n) = JNumber n"
| "sort_json (JString s) = JString s"
  by pat_completeness auto

lemma size_json_member: "(k, v) \<in> set es \<Longrightarrow> size v < Suc (size_list (size_prod (\<lambda>_. 0) size) es)"
  by (induction es) auto

termination sort_json
proof (relation "measure size", goal_cases)
  case 1
  show ?case by simp
next
  case (2 es x k v)
  then show ?case using size_json_member [of k v es] by simp
next
  case (3 vs v)
  then show ?case by (simp add: size_list_estimation' less_Suc_eq_le)
qed

section \<open>Events, rows and the environment\<close>

record 'n NewAuditEvent =
  ev_timestamp :: int
  ev_user_id :: "string option"
  ev_role_snapshot :: "string list"
  ev_session_id_hash :: "string option"
  ev_source_ip :: string
  ev_user_agent :: string
  ev_action :: string
  ev_resource_type :: string
  ev_resource_id :: "string option"
  ev_path :: "string option"
  ev_remote_target :: "string option"
  ev_result :: string
  ev_metadata :: "'n json"

record CanonicalEvent =
  ce_timestamp :: int
  ce_user_id :: "string option"
  ce_role_snapshot :: string
  ce_session_id_hash :: "string option"
  ce_source_ip :: string
  ce_user_agent :: string
  ce_action :: string
  ce_resource_type :: string
  ce_resource_id :: "string option"
  ce_path :: "string option"
  ce_remote_target :: "string option"
  ce_result :: string
  ce_metadata_json :: string
  ce_previous_hash :: string

text \<open>A row of \<open>audit_events\<close> has the columns of the canonical event, its id and its hash.\<close>

record audit_row = CanonicalEvent +
  ar_id :: int
  ar_event_hash :: string

record AuditReceipt =
  receipt_id :: int
  receipt_event_hash :: string

record audit_db =
  audit_events :: "audit_row list"
  audit_last_hash :: string
  audit_next_id :: int

datatype AuditError = AuditDatabase | AuditSerialization | BrokenChain int | InvalidHash int

record 'n audit_env =
  roles_to_string :: "string list \<Rightarrow> string option"
  roles_from_str :: "string \<Rightarrow> string list option"
  json_to_string :: "'n json \<Rightarrow> string option"
  json_from_str :: "string \<Rightarrow> 'n json option"
  event_to_vec :: "CanonicalEvent \<Rightarrow> bytes option"
  sha256_hex :: "bytes \<Rightarrow> string"

section \<open>Operations\<close>

definition canonical_json :: "'n audit_env \<Rightarrow> 'n json \<Rightarrow> string option" where
  "canonical_json env v = json_to_string env (sort_json v)"

definition canonical_event ::
    "'n NewAuditEvent \<Rightarrow> string \<Rightarrow> string \<Rightarrow> string \<Rightarrow> CanonicalEvent" where
  "canonical_event ev role_snapshot metadata_json previous_hash =
     \<lparr>ce_timestamp = ev_timestamp ev, ce_user_id = ev_user_id ev,
      ce_role_snapshot = role_snapshot, ce_session_id_hash = ev_session_id_hash ev,
      ce_source_ip = ev_source_ip ev, ce_user_agent = ev_user_agent ev,
      ce_action = ev_action ev, ce_resource_type = ev_resource_type ev,
      ce_resource_id = ev_resource_id ev, ce_path = ev_path ev,
      ce_remote_target = ev_remote_target ev, ce_result = ev_result ev,
      ce_metadata_json = metadata_json, ce_previous_hash = previous_hash\<rparr>"

definition hash_event ::
    "'n audit_env \<Rightarrow> 'n NewAuditEvent \<Rightarrow> string \<Rightarrow> string \<Rightarrow> string \<Rightarrow> string option" where
  "hash_event env ev role_snapshot metadata_json previous_hash =
     map_option (sha256_hex env)
       (event_to_vec env (canonical_event ev role_snapshot metadata_json previous_hash))"

definition audit_row_of :: "CanonicalEvent \<Rightarrow> int \<Rightarrow> string \<Rightarrow> audit_row" where
  "audit_row_of ce i h = CanonicalEvent.extend ce (audit_row.fields i h)"

text \<open>
  \<open>append_in_transaction\<close>: read the head, print, hash, insert, move the head. The insertion fails when
  another row has the same hash (\<open>event_hash TEXT NOT NULL UNIQUE\<close>).
\<close>

definition append_in_transaction ::
    "'n audit_env \<Rightarrow> 'n NewAuditEvent \<Rightarrow> audit_db \<Rightarrow> AuditError + AuditReceipt \<times> audit_db" where
  "append_in_transaction env ev db =
     (let previous_hash = audit_last_hash db in
      res_bind (res_of_option AuditSerialization (roles_to_string env (ev_role_snapshot ev)))
        (\<lambda>role_snapshot.
      res_bind (res_of_option AuditSerialization (canonical_json env (ev_metadata ev)))
        (\<lambda>metadata_json.
      res_bind (res_of_option AuditSerialization
                 (hash_event env ev role_snapshot metadata_json previous_hash))
        (\<lambda>event_hash.
      if event_hash \<in> ar_event_hash ` set (audit_events db) then Inl AuditDatabase
      else
        (let rid = audit_next_id db;
             row = audit_row_of (canonical_event ev role_snapshot metadata_json previous_hash)
                     rid event_hash in
         Inr (\<lparr>receipt_id = rid, receipt_event_hash = event_hash\<rparr>,
              db\<lparr>audit_events := audit_events db @ [row], audit_last_hash := event_hash,
                 audit_next_id := rid + 1\<rparr>))))))"

text \<open>
  \<open>append\<close>: one transaction per attempt, retried while the database is locked; the 31st locked attempt
  gives up.
\<close>

function append_attempts ::
    "'n audit_env \<Rightarrow> (nat \<Rightarrow> bool) \<Rightarrow> 'n NewAuditEvent \<Rightarrow> nat \<Rightarrow> audit_db \<Rightarrow>
     (AuditError + AuditReceipt) \<times> audit_db" where
  "append_attempts env locked ev attempts db =
     (if locked attempts then
        (if attempts + 1 > 30 then (Inl AuditDatabase, db)
         else append_attempts env locked ev (attempts + 1) db)
      else case append_in_transaction env ev db of
          Inr (receipt, db') \<Rightarrow> (Inr receipt, db')
        | Inl e \<Rightarrow> (Inl e, db))"
  by pat_completeness auto
termination
  by (relation "measure (\<lambda>(_, _, _, attempts, _). 31 - attempts)") auto

declare append_attempts.simps [simp del]

definition append_audit ::
    "'n audit_env \<Rightarrow> (nat \<Rightarrow> bool) \<Rightarrow> 'n NewAuditEvent \<Rightarrow> audit_db \<Rightarrow>
     (AuditError + AuditReceipt) \<times> audit_db" where
  "append_audit env locked ev db = append_attempts env locked ev 0 db"

text \<open>\<open>verify_chain\<close>: the event is rebuilt from the columns and hashed again.\<close>

definition event_of_row :: "audit_row \<Rightarrow> string list \<Rightarrow> 'n json \<Rightarrow> 'n NewAuditEvent" where
  "event_of_row row roles metadata =
     \<lparr>ev_timestamp = ce_timestamp row, ev_user_id = ce_user_id row,
      ev_role_snapshot = roles, ev_session_id_hash = ce_session_id_hash row,
      ev_source_ip = ce_source_ip row, ev_user_agent = ce_user_agent row,
      ev_action = ce_action row, ev_resource_type = ce_resource_type row,
      ev_resource_id = ce_resource_id row, ev_path = ce_path row,
      ev_remote_target = ce_remote_target row, ev_result = ce_result row,
      ev_metadata = metadata\<rparr>"

fun verify_rows :: "'n audit_env \<Rightarrow> string \<Rightarrow> audit_row list \<Rightarrow> AuditError + unit" where
  "verify_rows env expected_previous [] = Inr ()"
| "verify_rows env expected_previous (row # rows) =
     (if ce_previous_hash row \<noteq> expected_previous then Inl (BrokenChain (ar_id row))
      else
        res_bind (res_of_option AuditSerialization (roles_from_str env (ce_role_snapshot row)))
          (\<lambda>roles.
        res_bind (res_of_option AuditSerialization (json_from_str env (ce_metadata_json row)))
          (\<lambda>metadata.
        res_bind (res_of_option AuditSerialization
            (hash_event env (event_of_row row roles metadata) (ce_role_snapshot row)
               (ce_metadata_json row) (ce_previous_hash row)))
          (\<lambda>calculated.
        if calculated \<noteq> ar_event_hash row then Inl (InvalidHash (ar_id row))
        else verify_rows env (ar_event_hash row) rows))))"

definition verify_chain :: "'n audit_env \<Rightarrow> audit_db \<Rightarrow> AuditError + unit" where
  "verify_chain env db = verify_rows env [] (sort_key ar_id (audit_events db))"

definition empty_audit :: audit_db where
  "empty_audit = \<lparr>audit_events = [], audit_last_hash = [], audit_next_id = 1\<rparr>"

section \<open>What verification means\<close>

definition row_canonical :: "audit_row \<Rightarrow> CanonicalEvent" where
  "row_canonical row = CanonicalEvent.truncate row"

definition row_digest :: "'n audit_env \<Rightarrow> CanonicalEvent \<Rightarrow> string option" where
  "row_digest env ce = map_option (sha256_hex env) (event_to_vec env ce)"

definition row_valid :: "'n audit_env \<Rightarrow> audit_row \<Rightarrow> bool" where
  "row_valid env row \<longleftrightarrow>
     roles_from_str env (ce_role_snapshot row) \<noteq> None \<and>
     json_from_str env (ce_metadata_json row) \<noteq> None \<and>
     row_digest env (row_canonical row) = Some (ar_event_hash row)"

fun linked :: "string \<Rightarrow> audit_row list \<Rightarrow> bool" where
  "linked h [] = True"
| "linked h (r # rs) = (ce_previous_hash r = h \<and> linked (ar_event_hash r) rs)"

definition head_of :: "string \<Rightarrow> audit_row list \<Rightarrow> string" where
  "head_of h rows = (if rows = [] then h else ar_event_hash (last rows))"

lemma hash_event_of_row:
  "hash_event env (event_of_row row roles md) (ce_role_snapshot row) (ce_metadata_json row)
     (ce_previous_hash row) = row_digest env (row_canonical row)"
  by (simp add: hash_event_def event_of_row_def canonical_event_def row_digest_def row_canonical_def
      CanonicalEvent.defs)

lemma verify_rows_ok:
  "verify_rows env h rows = Inr () \<longleftrightarrow> linked h rows \<and> list_all (row_valid env) rows"
proof (induction rows arbitrary: h)
  case Nil
  show ?case by simp
next
  case (Cons r rs)
  show ?case
    by (auto simp: Cons.IH res_bind_ok res_of_option_ok hash_event_of_row row_valid_def)
qed

lemma linked_append: "linked h (xs @ ys) \<longleftrightarrow> linked h xs \<and> linked (head_of h xs) ys"
  by (induction xs arbitrary: h) (auto simp: head_of_def)

lemma head_of_snoc [simp]: "head_of h (rows @ [r]) = ar_event_hash r"
  by (simp add: head_of_def)

lemma head_of_Nil [simp]: "head_of h [] = h"
  by (simp add: head_of_def)

lemma row_of_fields [simp]:
  "row_canonical (audit_row_of ce i h) = ce"
  "ar_id (audit_row_of ce i h) = i"
  "ar_event_hash (audit_row_of ce i h) = h"
  "ce_previous_hash (audit_row_of ce i h) = ce_previous_hash ce"
  "ce_role_snapshot (audit_row_of ce i h) = ce_role_snapshot ce"
  "ce_metadata_json (audit_row_of ce i h) = ce_metadata_json ce"
  by (simp_all add: audit_row_of_def row_canonical_def CanonicalEvent.defs audit_row.defs)

lemma row_canonical_previous: "ce_previous_hash (row_canonical r) = ce_previous_hash r"
  by (simp add: row_canonical_def CanonicalEvent.defs)

lemma verify_rows_append:
  "verify_rows env h (xs @ ys) =
     res_bind (verify_rows env h xs) (\<lambda>_. verify_rows env (head_of h xs) ys)"
proof (induction xs arbitrary: h)
  case Nil
  show ?case by simp
next
  case (Cons r rs)
  have "head_of (ar_event_hash r) rs = head_of h (r # rs)"
    by (simp add: head_of_def)
  then show ?case
    by (auto simp: Cons.IH res_bind_def split: sum.splits)
qed

section \<open>The invariant of the log\<close>

definition audit_env_ok :: "'n audit_env \<Rightarrow> bool" where
  "audit_env_ok env \<longleftrightarrow>
     (\<forall>rs s. roles_to_string env rs = Some s \<longrightarrow> roles_from_str env s \<noteq> None) \<and>
     (\<forall>v s. json_to_string env v = Some s \<longrightarrow> json_from_str env s \<noteq> None)"

definition audit_inv :: "'n audit_env \<Rightarrow> audit_db \<Rightarrow> bool" where
  "audit_inv env db \<longleftrightarrow>
     linked [] (audit_events db) \<and> list_all (row_valid env) (audit_events db) \<and>
     audit_last_hash db = head_of [] (audit_events db) \<and>
     sorted_wrt (<) (map ar_id (audit_events db)) \<and>
     (\<forall>r\<in>set (audit_events db). ar_id r < audit_next_id db) \<and>
     distinct (map ar_event_hash (audit_events db))"

definition audit_step :: "'n audit_env \<Rightarrow> audit_db \<Rightarrow> audit_db \<Rightarrow> bool" where
  "audit_step env db db' \<longleftrightarrow> (\<exists>locked ev. snd (append_audit env locked ev db) = db')"

lemma append_in_transaction_cases:
  assumes "append_in_transaction env ev db = Inr (receipt, db')"
  obtains rs md h where
    "roles_to_string env (ev_role_snapshot ev) = Some rs"
    "canonical_json env (ev_metadata ev) = Some md"
    "row_digest env (canonical_event ev rs md (audit_last_hash db)) = Some h"
    "h \<notin> ar_event_hash ` set (audit_events db)"
    "receipt = \<lparr>receipt_id = audit_next_id db, receipt_event_hash = h\<rparr>"
    "db' = db\<lparr>audit_events := audit_events db @
               [audit_row_of (canonical_event ev rs md (audit_last_hash db)) (audit_next_id db) h],
             audit_last_hash := h, audit_next_id := audit_next_id db + 1\<rparr>"
  using assms
  by (auto simp: append_in_transaction_def Let_def res_bind_ok res_of_option_ok hash_event_def
      row_digest_def split: if_splits)

lemma append_in_transaction_inv:
  assumes env: "audit_env_ok env" and inv: "audit_inv env db"
    and app: "append_in_transaction env ev db = Inr (receipt, db')"
  shows "audit_inv env db'"
proof -
  from app obtain rs md h where rs: "roles_to_string env (ev_role_snapshot ev) = Some rs"
    and md: "canonical_json env (ev_metadata ev) = Some md"
    and h: "row_digest env (canonical_event ev rs md (audit_last_hash db)) = Some h"
    and new: "h \<notin> ar_event_hash ` set (audit_events db)"
    and db': "db' = db\<lparr>audit_events := audit_events db @
               [audit_row_of (canonical_event ev rs md (audit_last_hash db)) (audit_next_id db) h],
             audit_last_hash := h, audit_next_id := audit_next_id db + 1\<rparr>"
    by (rule append_in_transaction_cases)
  let ?row = "audit_row_of (canonical_event ev rs md (audit_last_hash db)) (audit_next_id db) h"
  have "roles_from_str env rs \<noteq> None" and "json_from_str env md \<noteq> None"
    using env rs md by (auto simp: audit_env_ok_def canonical_json_def)
  with h have "row_valid env ?row"
    by (simp add: row_valid_def canonical_event_def)
  with inv new show ?thesis
    by (auto simp: audit_inv_def db' linked_append sorted_wrt_append canonical_event_def
        intro: less_trans dest: bspec)
qed

lemma append_attempts_cases:
  "append_attempts env locked ev attempts db = (Inr receipt, db') \<Longrightarrow>
     append_in_transaction env ev db = Inr (receipt, db')"
  "append_attempts env locked ev attempts db = (Inl e, db') \<Longrightarrow> db' = db"
proof (induction env locked ev attempts db rule: append_attempts.induct)
  case (1 env locked ev attempts db)
  {
    case 1
    then show ?case
      using "1.IH"(1) by (subst (asm) append_attempts.simps) (auto split: if_splits sum.splits)
  next
    case 2
    then show ?case
      using "1.IH"(2) by (subst (asm) append_attempts.simps) (auto split: if_splits sum.splits)
  }
qed

lemma append_audit_step_inv:
  assumes "audit_env_ok env" "audit_inv env db" "audit_step env db db'"
  shows "audit_inv env db'"
proof -
  obtain locked ev r where r: "append_audit env locked ev db = (r, db')"
    using assms(3) by (metis audit_step_def prod.collapse)
  show ?thesis
  proof (cases r)
    case (Inl e)
    with r assms(2) show ?thesis by (auto simp: append_audit_def dest: append_attempts_cases)
  next
    case (Inr receipt)
    with r show ?thesis
      using append_in_transaction_inv [OF assms(1,2)]
      by (auto simp: append_audit_def dest: append_attempts_cases)
  qed
qed

lemma audit_inv_empty: "audit_inv env empty_audit"
  by (simp add: empty_audit_def audit_inv_def)

interpretation audit_sys: inv_system
  "\<lambda>db. audit_env_ok env \<and> db = empty_audit" "audit_step env"
  "\<lambda>db. audit_env_ok env \<and> audit_inv env db" for env
  by unfold_locales (auto intro: audit_inv_empty append_audit_step_inv)

lemma reachable_audit_inv:
  "audit_env_ok env \<Longrightarrow> (audit_step env)\<^sup>*\<^sup>* empty_audit db \<Longrightarrow> audit_inv env db"
  using audit_sys.reach_inv by blast

lemma audit_inv_sorted:
  "audit_inv env db \<Longrightarrow> sort_key ar_id (audit_events db) = audit_events db"
  by (auto simp: audit_inv_def strict_sorted_iff intro: sort_key_id_if_sorted)

section \<open>Properties\<close>

text \<open>An environment for the concrete instances: digests are the action and the previous hash.\<close>

definition demo_audit_env :: "int audit_env" where
  "demo_audit_env =
     \<lparr>roles_to_string = (\<lambda>rs. Some (concat rs)), roles_from_str = (\<lambda>s. Some [s]),
      json_to_string = (\<lambda>_. Some ''{}''), json_from_str = (\<lambda>_. Some (JObject [])),
      event_to_vec = (\<lambda>ce. Some (ce_action ce @ ce_previous_hash ce)),
      sha256_hex = (\<lambda>b. CHR ''#'' # b)\<rparr>"

definition demo_event :: "string \<Rightarrow> int NewAuditEvent" where
  "demo_event action =
     \<lparr>ev_timestamp = 1700000000, ev_user_id = Some ''u1'', ev_role_snapshot = [''Administrator''],
      ev_session_id_hash = None, ev_source_ip = ''127.0.0.1'', ev_user_agent = ''test'',
      ev_action = action, ev_resource_type = ''session'', ev_resource_id = None, ev_path = None,
      ev_remote_target = None, ev_result = ''success'', ev_metadata = JObject []\<rparr>"

definition demo_log :: "string list \<Rightarrow> audit_db" where
  "demo_log actions =
     fold (\<lambda>a db. snd (append_audit demo_audit_env (\<lambda>_. False) (demo_event a) db)) actions empty_audit"

lemma demo_audit_env_ok: "audit_env_ok demo_audit_env"
  by (simp add: audit_env_ok_def demo_audit_env_def)

lemma demo_log_reachable_from:
  "(audit_step demo_audit_env)\<^sup>*\<^sup>* db0
     (fold (\<lambda>a db. snd (append_audit demo_audit_env (\<lambda>_. False) (demo_event a) db)) actions db0)"
proof (induction actions arbitrary: db0)
  case Nil
  show ?case by simp
next
  case (Cons a actions)
  let ?db1 = "snd (append_audit demo_audit_env (\<lambda>_. False) (demo_event a) db0)"
  have "audit_step demo_audit_env db0 ?db1"
    unfolding audit_step_def by blast
  then have "(audit_step demo_audit_env)\<^sup>*\<^sup>* db0
      (fold (\<lambda>a db. snd (append_audit demo_audit_env (\<lambda>_. False) (demo_event a) db)) actions ?db1)"
    using Cons.IH by (rule converse_rtranclp_into_rtranclp)
  then show ?case by simp
qed

lemma demo_log_reachable: "(audit_step demo_audit_env)\<^sup>*\<^sup>* empty_audit (demo_log actions)"
  unfolding demo_log_def by (rule demo_log_reachable_from)

text \<open>
  (C2) Whatever events are appended to a fresh log, and however often the database was locked in
  between, the log passes \<open>verify_chain\<close> and the stored chain head is the hash of its last event.
\<close>

theorem audit_log_always_verifies:
  assumes "audit_env_ok env" and "(audit_step env)\<^sup>*\<^sup>* empty_audit db"
  shows "verify_chain env db = Inr () \<and> audit_last_hash db = head_of [] (audit_events db)"
proof -
  have inv: "audit_inv env db" using assms by (rule reachable_audit_inv)
  then show ?thesis
    by (simp add: verify_chain_def audit_inv_sorted [OF inv] verify_rows_ok audit_inv_def)
qed

theorem audit_log_always_verifies_witness:
  "verify_chain demo_audit_env (demo_log [''auth.login'', ''auth.logout'']) = Inr () \<and>
   audit_last_hash (demo_log [''auth.login'', ''auth.logout'']) = ''#auth.logout#auth.login''"
  using audit_log_always_verifies [OF demo_audit_env_ok demo_log_reachable, of "[''auth.login'', ''auth.logout'']"]
  by (simp add: demo_log_def append_audit_def append_attempts.simps append_in_transaction_def Let_def
      demo_audit_env_def demo_event_def canonical_json_def hash_event_def canonical_event_def
      empty_audit_def)

subsection \<open>Tamper evidence\<close>

lemma row_valid_hash_nonempty:
  "row_valid env r \<Longrightarrow> \<forall>b. sha256_hex env b \<noteq> [] \<Longrightarrow> ar_event_hash r \<noteq> []"
  by (auto simp: row_valid_def row_digest_def)

lemma chain_unique:
  assumes "\<forall>b. sha256_hex env b \<noteq> []"
    and "linked [] xs" and "list_all (row_valid env) xs"
    and "linked [] ys" and "list_all (row_valid env) ys"
    and "head_of [] xs = head_of [] ys"
    and "\<forall>r\<in>set xs. \<forall>r'\<in>set ys.
           row_digest env (row_canonical r) = row_digest env (row_canonical r') \<longrightarrow>
           row_canonical r = row_canonical r'"
  shows "map row_canonical xs = map row_canonical ys"
  using assms
proof (induction xs arbitrary: ys rule: rev_induct)
  case Nil
  then show ?case
    using row_valid_hash_nonempty [of env, symmetric] by (cases ys rule: rev_cases) auto
next
  case (snoc x xs)
  show ?case
  proof (cases ys rule: rev_cases)
    case Nil
    with snoc.prems show ?thesis
      using row_valid_hash_nonempty [of env x] by auto
  next
    case (snoc ys' y)
    note ys = this
    have "row_digest env (row_canonical x) = row_digest env (row_canonical y)"
      using snoc.prems(3,5,6) ys by (simp add: row_valid_def)
    with snoc.prems(7) ys have xy: "row_canonical x = row_canonical y" by simp
    then have "ce_previous_hash x = ce_previous_hash y"
      by (metis row_canonical_previous)
    with snoc.prems ys have "map row_canonical xs = map row_canonical ys'"
      by (intro snoc.IH) (auto simp: linked_append)
    with xy ys show ?thesis by simp
  qed
qed

text \<open>
  Two logs that both verify and end in the same hash record the same history, provided that no two
  of their events collide under SHA-256 and that a digest is never the empty string.
\<close>

theorem audit_head_determines_history:
  assumes "verify_chain env db = Inr ()" and "verify_chain env db' = Inr ()"
    and "head_of [] (sort_key ar_id (audit_events db)) = head_of [] (sort_key ar_id (audit_events db'))"
    and "\<forall>b. sha256_hex env b \<noteq> []"
    and "\<forall>r\<in>set (audit_events db). \<forall>r'\<in>set (audit_events db').
           row_digest env (row_canonical r) = row_digest env (row_canonical r') \<longrightarrow>
           row_canonical r = row_canonical r'"
  shows "map row_canonical (sort_key ar_id (audit_events db)) =
         map row_canonical (sort_key ar_id (audit_events db'))"
  using assms by (intro chain_unique [of env]) (auto simp: verify_chain_def verify_rows_ok)

lemmas demo_audit_simps =
  demo_log_def append_audit_def append_attempts.simps append_in_transaction_def Let_def
  demo_audit_env_def demo_event_def canonical_json_def hash_event_def canonical_event_def
  empty_audit_def audit_row_of_def audit_row.defs CanonicalEvent.defs row_digest_def row_canonical_def

theorem audit_head_determines_history_witness:
  "map row_canonical (sort_key ar_id (audit_events (demo_log [''a'', ''b'']))) =
   map row_canonical (sort_key ar_id (audit_events
     ((demo_log [''a'', ''b''])\<lparr>audit_events := rev (audit_events (demo_log [''a'', ''b'']))\<rparr>)))"
proof (rule audit_head_determines_history [where env = demo_audit_env])
  show "verify_chain demo_audit_env (demo_log [''a'', ''b'']) = Inr ()"
    by (simp add: verify_chain_def demo_audit_simps event_of_row_def)
  show "verify_chain demo_audit_env
     ((demo_log [''a'', ''b''])\<lparr>audit_events := rev (audit_events (demo_log [''a'', ''b'']))\<rparr>) = Inr ()"
    by (simp add: verify_chain_def demo_audit_simps event_of_row_def)
  show "\<forall>b. sha256_hex demo_audit_env b \<noteq> []"
    by (simp add: demo_audit_env_def)
qed (simp_all add: demo_audit_simps)

text \<open>
  (C11) Verification pinpoints a removed event: when an event of a log built by \<open>append\<close> is deleted,
  \<open>verify_chain\<close> reports a chain broken before the event that followed it.
\<close>

theorem audit_deletion_detected:
  assumes "audit_env_ok env" and "(audit_step env)\<^sup>*\<^sup>* empty_audit db"
    and "\<forall>b. sha256_hex env b \<noteq> []"
    and "audit_events db = xs @ r # r' # ys"
  shows "verify_chain env (db\<lparr>audit_events := xs @ r' # ys\<rparr>) = Inl (BrokenChain (ar_id r'))"
proof -
  have inv: "audit_inv env db" using assms(1,2) by (rule reachable_audit_inv)
  then have sorted: "sorted_wrt (<) (map ar_id (xs @ r' # ys))"
    and lk: "linked [] xs" "ce_previous_hash r = head_of [] xs" "ce_previous_hash r' = ar_event_hash r"
    and val: "list_all (row_valid env) xs" "row_valid env r"
    and dist: "ar_event_hash r \<notin> ar_event_hash ` set xs"
    by (auto simp: audit_inv_def assms(4) linked_append sorted_wrt_append)
  have "head_of [] xs \<noteq> ar_event_hash r"
  proof (cases xs rule: rev_cases)
    case Nil
    with row_valid_hash_nonempty [OF val(2) assms(3)] show ?thesis by simp
  next
    case (snoc ys y)
    with dist show ?thesis by auto
  qed
  then have "verify_rows env [] (xs @ r' # ys) = Inl (BrokenChain (ar_id r'))"
    using lk val by (simp add: verify_rows_append verify_rows_ok [THEN iffD2])
  moreover have "sort_key ar_id (xs @ r' # ys) = xs @ r' # ys"
    using sorted by (intro sort_key_id_if_sorted) (simp add: strict_sorted_iff)
  ultimately show ?thesis by (simp add: verify_chain_def)
qed

theorem audit_deletion_detected_witness:
  "verify_chain demo_audit_env
     ((demo_log [''a'', ''b'', ''c''])\<lparr>audit_events :=
        [audit_events (demo_log [''a'', ''b'', ''c'']) ! 0,
         audit_events (demo_log [''a'', ''b'', ''c'']) ! 2]\<rparr>) = Inl (BrokenChain 3)"
proof -
  let ?l = "audit_events (demo_log [''a'', ''b'', ''c''])"
  have split: "?l = [?l ! 0] @ ?l ! 1 # ?l ! 2 # []"
    by (simp add: demo_audit_simps)
  have "\<forall>b. sha256_hex demo_audit_env b \<noteq> []"
    by (simp add: demo_audit_env_def)
  from audit_deletion_detected [OF demo_audit_env_ok demo_log_reachable this split]
  have "verify_chain demo_audit_env ((demo_log [''a'', ''b'', ''c''])\<lparr>audit_events := [?l ! 0] @ ?l ! 2 # []\<rparr>)
      = Inl (BrokenChain (ar_id (?l ! 2)))" .
  moreover have "ar_id (?l ! 2) = 3" by (simp add: demo_audit_simps)
  ultimately show ?thesis by simp
qed

text \<open>
  Verification pinpoints an edited event: replacing the content of an event of a log built by
  \<open>append\<close>, with its id, its previous hash and its own hash kept, is reported as an invalid hash of that
  event, provided the two contents do not collide under SHA-256.
\<close>

theorem audit_edit_detected:
  assumes "audit_env_ok env" and "(audit_step env)\<^sup>*\<^sup>* empty_audit db"
    and "audit_events db = xs @ r # ys"
    and "ar_id r' = ar_id r" and "ce_previous_hash r' = ce_previous_hash r"
    and "ar_event_hash r' = ar_event_hash r"
    and "roles_from_str env (ce_role_snapshot r') \<noteq> None"
    and "json_from_str env (ce_metadata_json r') \<noteq> None"
    and "row_digest env (row_canonical r') = Some d"
    and "row_digest env (row_canonical r) \<noteq> row_digest env (row_canonical r')"
  shows "verify_chain env (db\<lparr>audit_events := xs @ r' # ys\<rparr>) = Inl (InvalidHash (ar_id r))"
proof -
  have inv: "audit_inv env db" using assms(1,2) by (rule reachable_audit_inv)
  then have sorted: "sorted_wrt (<) (map ar_id (xs @ r' # ys))"
    and lk: "linked [] xs" "ce_previous_hash r' = head_of [] xs"
    and val: "list_all (row_valid env) xs" "row_valid env r"
    by (auto simp: audit_inv_def assms(3-6) linked_append sorted_wrt_append)
  have "ar_event_hash r' \<noteq> d"
    using val(2) assms(6,9,10) by (auto simp: row_valid_def)
  then have "verify_rows env [] (xs @ r' # ys) = Inl (InvalidHash (ar_id r))"
    using lk val assms(4,7-9) hash_event_of_row [of env r', unfolded lk(2)]
    by (auto simp: verify_rows_append verify_rows_ok [THEN iffD2])
  moreover have "sort_key ar_id (xs @ r' # ys) = xs @ r' # ys"
    using sorted by (intro sort_key_id_if_sorted) (simp add: strict_sorted_iff)
  ultimately show ?thesis by (simp add: verify_chain_def)
qed

theorem audit_edit_detected_witness:
  "verify_chain demo_audit_env
     ((demo_log [''a'', ''b''])\<lparr>audit_events :=
        [(audit_events (demo_log [''a'', ''b'']) ! 0)\<lparr>ce_action := ''x''\<rparr>,
         audit_events (demo_log [''a'', ''b'']) ! 1]\<rparr>) = Inl (InvalidHash 1)"
proof -
  let ?l = "audit_events (demo_log [''a'', ''b''])"
  let ?r = "(?l ! 0)\<lparr>ce_action := ''x''\<rparr>"
  have split: "?l = [] @ ?l ! 0 # [?l ! 1]"
    by (simp add: demo_audit_simps)
  have "verify_chain demo_audit_env ((demo_log [''a'', ''b''])\<lparr>audit_events := [] @ ?r # [?l ! 1]\<rparr>)
      = Inl (InvalidHash (ar_id (?l ! 0)))"
    by (rule audit_edit_detected [OF demo_audit_env_ok demo_log_reachable split, where d = "''#x''"])
      (simp_all add: demo_audit_simps)
  moreover have "ar_id (?l ! 0) = 1" by (simp add: demo_audit_simps)
  ultimately show ?thesis by simp
qed

text \<open>
  Verification never consults the stored chain head: dropping the newest events of a log that
  verifies leaves a log that verifies, so a truncated history goes unnoticed.
\<close>

theorem audit_truncation_undetected:
  assumes "verify_chain env db = Inr ()"
  shows "verify_chain env (db\<lparr>audit_events := take n (sort_key ar_id (audit_events db))\<rparr>) = Inr ()"
proof -
  let ?rows = "sort_key ar_id (audit_events db)"
  have "sorted (map ar_id (take n ?rows))"
    by (simp add: take_map [symmetric] sorted_wrt_take)
  then have "sort_key ar_id (take n ?rows) = take n ?rows"
    by (rule sort_key_id_if_sorted)
  moreover have "verify_rows env [] (take n ?rows) = Inr ()"
    using assms verify_rows_append [of env "[]" "take n ?rows" "drop n ?rows"]
    by (auto simp: verify_chain_def res_bind_def split: sum.splits)
  ultimately show ?thesis
    by (simp add: verify_chain_def)
qed

theorem audit_truncation_undetected_witness:
  "verify_chain demo_audit_env
     ((demo_log [''a'', ''b''])\<lparr>audit_events :=
        take 1 (sort_key ar_id (audit_events (demo_log [''a'', ''b''])))\<rparr>) = Inr ()"
  by (rule audit_truncation_undetected) (simp add: verify_chain_def demo_audit_simps event_of_row_def)

subsection \<open>Contention and canonical form\<close>

lemma append_attempts_prefix:
  "append_attempts env (\<lambda>i. i < k) ev a db =
     (if a < k \<and> 30 < k then (Inl AuditDatabase, db) else append_attempts env (\<lambda>_. False) ev a db)"
  if "a \<le> 30"
  using that
proof (induction "31 - a" arbitrary: a)
  case 0
  then show ?case by simp
next
  case (Suc n)
  show ?case
  proof (cases "a < k")
    case False
    then show ?thesis by (simp add: append_attempts.simps [of _ _ _ a])
  next
    case True
    show ?thesis
    proof (cases "a = 30")
      case True
      with \<open>a < k\<close> show ?thesis by (simp add: append_attempts.simps [of _ "\<lambda>i. i < k"])
    next
      case False
      with Suc have "append_attempts env (\<lambda>i. i < k) ev (Suc a) db =
        (if Suc a < k \<and> 30 < k then (Inl AuditDatabase, db)
         else append_attempts env (\<lambda>_. False) ev (Suc a) db)"
        by (intro Suc.hyps) auto
      with \<open>a < k\<close> False Suc.prems show ?thesis
        by (auto simp: append_attempts.simps [of _ _ _ a] append_attempts.simps [of _ "\<lambda>_. False"])
    qed
  qed
qed

text \<open>
  \<open>append\<close> outlasts up to thirty locked attempts with the result of an uncontended append, and on
  the thirty-first it returns a database error and leaves the log as it was.
\<close>

theorem append_retry_bound:
  "append_audit env (\<lambda>i. i < k) ev db =
     (if k \<le> 30 then append_audit env (\<lambda>_. False) ev db else (Inl AuditDatabase, db))"
  by (simp add: append_audit_def append_attempts_prefix)

text \<open>Two JSON values that differ in the order of object members, at any depth.\<close>

inductive json_perm :: "'n json \<Rightarrow> 'n json \<Rightarrow> bool" where
  same: "json_perm v v"
| array: "list_all2 json_perm vs ws \<Longrightarrow> json_perm (JArray vs) (JArray ws)"
| object: "mset es' = mset es \<Longrightarrow>
    list_all2 (\<lambda>p q. fst p = fst q \<and> json_perm (snd p) (snd q)) es' fs \<Longrightarrow>
    json_perm (JObject es) (JObject fs)"

fun json_wf :: "'n json \<Rightarrow> bool" where
  "json_wf (JObject es) = (distinct (map fst es) \<and> (\<forall>e\<in>set es. json_wf (snd e)))"
| "json_wf (JArray vs) = (\<forall>v\<in>set vs. json_wf v)"
| "json_wf v = True"

lemma insort_key_rel:
  "list_all2 (\<lambda>p q. fst p = fst q \<and> R p q) xs ys \<Longrightarrow> fst x = fst y \<Longrightarrow> R x y \<Longrightarrow>
   list_all2 (\<lambda>p q. fst p = fst q \<and> R p q) (insort_key fst x xs) (insort_key fst y ys)"
  by (induction xs ys rule: list_all2_induct) auto

lemma sort_key_rel:
  "list_all2 (\<lambda>p q. fst p = fst q \<and> R p q) xs ys \<Longrightarrow>
   list_all2 (\<lambda>p q. fst p = fst q \<and> R p q) (sort_key fst xs) (sort_key fst ys)"
  by (induction xs ys rule: list_all2_induct) (auto intro: insort_key_rel)

lemma filter_own_key: "distinct (map fst zs) \<Longrightarrow> k \<in> set zs \<Longrightarrow> filter (\<lambda>x. fst k = fst x) zs = [k]"
  by (induction zs) (auto simp: filter_empty_conv rev_image_eqI)

lemma sort_key_mset_eq:
  assumes "mset xs = mset ys" and "distinct (map fst xs)"
  shows "sort_key fst xs = sort_key fst ys"
proof (rule properties_for_sort_key)
  show "mset (sort_key fst ys) = mset xs" using assms by simp
  show "sorted (map fst (sort_key fst ys))" by simp
  fix k
  assume k: "k \<in> set (sort_key fst ys)"
  have "mset (map fst (sort_key fst ys)) = mset (map fst xs)"
    using assms(1) by simp
  then have d: "distinct (map fst (sort_key fst ys))"
    using assms(2) mset_eq_imp_distinct_iff by blast
  have "k \<in> set xs" using k assms(1) mset_eq_setD by fastforce
  then show "filter (\<lambda>x. fst k = fst x) (sort_key fst ys) = filter (\<lambda>x. fst k = fst x) xs"
    using filter_own_key [OF d k] filter_own_key [OF assms(2)] by simp
qed

lemma sort_json_list:
  "list_all2 (\<lambda>p q. fst p = fst q \<and> sort_json (snd p) = sort_json (snd q)) xs ys \<Longrightarrow>
   map (\<lambda>(k, v). (k, sort_json v)) xs = map (\<lambda>(k, v). (k, sort_json v)) ys"
  by (induction xs ys rule: list_all2_induct) auto

text \<open>
  The hashed metadata text does not depend on the order of object members: two JSON values without
  duplicate keys that differ only in member order, at any depth, have the same canonical text.
\<close>

theorem canonical_json_order_insensitive:
  assumes "json_perm v w" and "json_wf v"
  shows "canonical_json env v = canonical_json env w"
proof -
  have "sort_json v = sort_json w"
    using assms
  proof (induction rule: json_perm.induct)
    case (same v)
    show ?case by simp
  next
    case (array vs ws)
    then have "map sort_json vs = map sort_json ws"
      by (auto simp: list_all2_conv_all_nth intro!: nth_equalityI)
    then show ?case by simp
  next
    case (object es' es fs)
    have wf: "\<forall>e\<in>set es'. json_wf (snd e)" and d: "distinct (map fst es')"
      using object.prems object.hyps(1) mset_eq_setD mset_eq_imp_distinct_iff
      by (fastforce, metis json_wf.simps(1) mset_map)
    have "list_all2 (\<lambda>p q. fst p = fst q \<and> sort_json (snd p) = sort_json (snd q)) es' fs"
      using object.IH wf by (auto simp: list_all2_conv_all_nth)
    then have "map (\<lambda>(k, v). (k, sort_json v)) (sort_key fst es') =
        map (\<lambda>(k, v). (k, sort_json v)) (sort_key fst fs)"
      by (intro sort_json_list) (rule sort_key_rel)
    moreover have "sort_key fst es' = sort_key fst es"
      by (rule sort_key_mset_eq) (use object.hyps(1) d in auto)
    ultimately show ?case by simp
  qed
  then show ?thesis by (simp add: canonical_json_def)
qed

theorem canonical_json_order_insensitive_witness:
  "canonical_json demo_audit_env (JObject [(''z'', JNumber 2), (''a'', JNumber 1)]) =
   canonical_json demo_audit_env (JObject [(''a'', JNumber 1), (''z'', JNumber 2)])"
proof (rule canonical_json_order_insensitive)
  show "json_perm (JObject [(''z'', JNumber (2::int)), (''a'', JNumber 1)])
      (JObject [(''a'', JNumber 1), (''z'', JNumber 2)])"
    by (rule json_perm.object [where es' = "[(''a'', JNumber 1), (''z'', JNumber 2)]"])
      (auto intro: json_perm.same)
qed simp

end
