(* ===== verification/Secrets.thy ===== *)
theory Secrets
  imports Prelude
begin

text \<open>
  Authenticated encryption of secrets (\<open>crates/secrets/src/lib.rs\<close>): the envelope format
  version byte, nonce, ciphertext. AES-256-GCM (\<open>aes_gcm\<close>) and base64 (\<open>base64\<close>) are third-party
  code: they are the fields of \<open>aead_env\<close>. The nonce that \<open>encrypt\<close> draws from the operating system
  is an argument. What the code relies on is named: \<open>aead_correct\<close>, \<open>aead_total\<close>, \<open>aead_binding\<close>
  and \<open>b64_correct\<close>.
\<close>

section \<open>The cipher\<close>

definition KEY_LENGTH :: nat where
  "KEY_LENGTH = 32"

definition NONCE_LENGTH :: nat where
  "NONCE_LENGTH = 12"

definition FORMAT_VERSION :: char where
  "FORMAT_VERSION = CHR 0x01"

datatype SecretError = SecretRead | InvalidKeyLength | SecretEncrypt | InvalidEnvelope | SecretDecrypt

record SecretCipher =
  cipher_key :: bytes

record aead_env =
  aead_seal :: "bytes \<Rightarrow> bytes \<Rightarrow> bytes \<Rightarrow> bytes \<Rightarrow> bytes option" \<comment> \<open>key, nonce, aad, message\<close>
  aead_open :: "bytes \<Rightarrow> bytes \<Rightarrow> bytes \<Rightarrow> bytes \<Rightarrow> bytes option" \<comment> \<open>key, nonce, aad, ciphertext\<close>
  b64_encode :: "bytes \<Rightarrow> string"
  b64_decode :: "string \<Rightarrow> bytes option"

definition new_cipher :: "bytes \<Rightarrow> SecretError + SecretCipher" where
  "new_cipher key =
     (if length key = KEY_LENGTH then Inr \<lparr>cipher_key = key\<rparr> else Inl InvalidKeyLength)"

definition load_cipher :: "bytes option \<Rightarrow> SecretError + SecretCipher" where
  "load_cipher file = res_bind (res_of_option SecretRead file) new_cipher"

definition encrypt ::
    "aead_env \<Rightarrow> SecretCipher \<Rightarrow> bytes \<Rightarrow> bytes \<Rightarrow> bytes \<Rightarrow> SecretError + string" where
  "encrypt env c nonce plaintext ctx =
     (if length (cipher_key c) \<noteq> KEY_LENGTH then Inl InvalidKeyLength
      else
        res_bind (res_of_option SecretEncrypt (aead_seal env (cipher_key c) nonce ctx plaintext))
          (\<lambda>ciphertext. Inr (b64_encode env ([FORMAT_VERSION] @ nonce @ ciphertext))))"

definition decrypt ::
    "aead_env \<Rightarrow> SecretCipher \<Rightarrow> string \<Rightarrow> bytes \<Rightarrow> SecretError + bytes" where
  "decrypt env c envelope ctx =
     res_bind (res_of_option InvalidEnvelope (b64_decode env envelope)) (\<lambda>e.
     if length e \<le> 1 + NONCE_LENGTH \<or> e ! 0 \<noteq> FORMAT_VERSION then Inl InvalidEnvelope
     else if length (cipher_key c) \<noteq> KEY_LENGTH then Inl InvalidKeyLength
     else res_of_option SecretDecrypt
            (aead_open env (cipher_key c) (take NONCE_LENGTH (drop 1 e)) ctx
               (drop (1 + NONCE_LENGTH) e)))"

section \<open>What the code relies on\<close>

text \<open>Opening what was sealed gives the message back; a ciphertext carries a tag and is not empty.\<close>

definition aead_correct :: "aead_env \<Rightarrow> bool" where
  "aead_correct env \<longleftrightarrow>
     (\<forall>k n a msg c. aead_seal env k n a msg = Some c \<longrightarrow> c \<noteq> [] \<and> aead_open env k n a c = Some msg)"

text \<open>Sealing succeeds for a key and nonce of the right length and a message of at most 1 MiB.\<close>

definition aead_total :: "aead_env \<Rightarrow> bool" where
  "aead_total env \<longleftrightarrow>
     (\<forall>k n a msg. length k = KEY_LENGTH \<longrightarrow> length n = NONCE_LENGTH \<longrightarrow> length msg \<le> 1024 * 1024 \<longrightarrow>
        aead_seal env k n a msg \<noteq> None)"

text \<open>A ciphertext does not open under another key or other associated data.\<close>

definition aead_binding :: "aead_env \<Rightarrow> bool" where
  "aead_binding env \<longleftrightarrow>
     (\<forall>k n a msg c k' a'. aead_seal env k n a msg = Some c \<longrightarrow> (k', a') \<noteq> (k, a) \<longrightarrow>
        aead_open env k' n a' c = None)"

definition b64_correct :: "aead_env \<Rightarrow> bool" where
  "b64_correct env \<longleftrightarrow> (\<forall>b. b64_decode env (b64_encode env b) = Some b)"

section \<open>Lemmas\<close>

lemma new_cipher_ok: "new_cipher key = Inr c \<longleftrightarrow> length key = KEY_LENGTH \<and> c = \<lparr>cipher_key = key\<rparr>"
  by (auto simp: new_cipher_def)

lemma encrypt_ok:
  "encrypt env c nonce pt ctx = Inr s \<longleftrightarrow>
     length (cipher_key c) = KEY_LENGTH \<and>
     (\<exists>ct. aead_seal env (cipher_key c) nonce ctx pt = Some ct \<and>
           s = b64_encode env (FORMAT_VERSION # nonce @ ct))"
  by (auto simp: encrypt_def res_bind_ok res_of_option_ok)

lemma encrypt_succeeds:
  assumes "aead_total env" "length (cipher_key c) = KEY_LENGTH" "length nonce = NONCE_LENGTH"
    "length pt \<le> 1024 * 1024"
  obtains s where "encrypt env c nonce pt ctx = Inr s"
proof -
  from assms obtain ct where "aead_seal env (cipher_key c) nonce ctx pt = Some ct"
    unfolding aead_total_def by blast
  with assms(2) that show ?thesis by (simp add: encrypt_def)
qed

lemma decrypt_envelope:
  assumes "b64_correct env" "length nonce = NONCE_LENGTH" "ct \<noteq> []"
  shows "decrypt env c (b64_encode env (FORMAT_VERSION # nonce @ ct)) ctx =
     (if length (cipher_key c) \<noteq> KEY_LENGTH then Inl InvalidKeyLength
      else res_of_option SecretDecrypt (aead_open env (cipher_key c) nonce ctx ct))"
  using assms by (simp add: decrypt_def b64_correct_def)

lemma decrypt_encrypt:
  assumes "aead_correct env" "b64_correct env" "length nonce = NONCE_LENGTH"
    and "encrypt env c nonce pt ctx = Inr s"
  shows "decrypt env c s ctx = Inr pt"
proof -
  from assms(4) obtain ct where key: "length (cipher_key c) = KEY_LENGTH"
    and ct: "aead_seal env (cipher_key c) nonce ctx pt = Some ct"
    and s: "s = b64_encode env (FORMAT_VERSION # nonce @ ct)"
    by (auto simp: encrypt_ok)
  from ct assms(1) have "ct \<noteq> []" "aead_open env (cipher_key c) nonce ctx ct = Some pt"
    by (auto simp: aead_correct_def)
  with key s decrypt_envelope [OF assms(2,3)] show ?thesis by simp
qed

lemma decrypt_other:
  assumes "aead_correct env" "aead_binding env" "b64_correct env" "length nonce = NONCE_LENGTH"
    and "encrypt env c nonce pt ctx = Inr s"
    and "cipher_key c' \<noteq> cipher_key c \<or> ctx' \<noteq> ctx" and "length (cipher_key c') = KEY_LENGTH"
  shows "decrypt env c' s ctx' = Inl SecretDecrypt"
proof -
  from assms(5) obtain ct where
    ct: "aead_seal env (cipher_key c) nonce ctx pt = Some ct"
    and s: "s = b64_encode env (FORMAT_VERSION # nonce @ ct)"
    by (auto simp: encrypt_ok)
  from ct assms(1) have "ct \<noteq> []" by (auto simp: aead_correct_def)
  moreover from ct assms(2,6) have "aead_open env (cipher_key c') nonce ctx' ct = None"
    unfolding aead_binding_def by blast
  ultimately show ?thesis
    using s assms(7) decrypt_envelope [OF assms(3,4)] by simp
qed

section \<open>A concrete environment\<close>

text \<open>
  An instance that satisfies the named assumptions: the "ciphertext" spells out key, nonce and
  associated data in a prefix-free code before the message.
\<close>

definition spell :: "string \<Rightarrow> string" where
  "spell s = concat (map (\<lambda>c. [CHR ''1'', c]) s) @ ''0''"

lemma spell_prefix_free: "spell s @ r = spell s' @ r' \<longleftrightarrow> s = s' \<and> r = r'"
proof (induction s arbitrary: s')
  case Nil
  show ?case by (cases s') (auto simp: spell_def)
next
  case (Cons c s)
  show ?case
  proof (cases s')
    case Nil
    then show ?thesis by (auto simp: spell_def)
  next
    case (Cons c' s'')
    then show ?thesis
      using Cons.IH [of s''] by (auto simp: spell_def)
  qed
qed

definition demo_aead :: aead_env where
  "demo_aead =
     \<lparr>aead_seal = (\<lambda>k n a m. Some (spell k @ spell n @ spell a @ m)),
      aead_open = (\<lambda>k n a c.
        let p = spell k @ spell n @ spell a in
        if take (length p) c = p then Some (drop (length p) c) else None),
      b64_encode = (\<lambda>b. b), b64_decode = Some\<rparr>"

lemma spell_nonempty [simp]: "spell s \<noteq> []"
  by (simp add: spell_def)

lemma demo_aead_correct: "aead_correct demo_aead"
  by (simp add: aead_correct_def demo_aead_def Let_def)

lemma demo_aead_total: "aead_total demo_aead"
  by (simp add: aead_total_def demo_aead_def)

lemma demo_aead_binding: "aead_binding demo_aead"
proof -
  have "take (length p') (spell k @ spell n @ spell a @ m) \<noteq> p'"
    if "(k', a') \<noteq> (k, a)" "p' = spell k' @ spell n @ spell a'" for k n a m k' a' p'
  proof
    assume *: "take (length p') (spell k @ spell n @ spell a @ m) = p'"
    have "spell k @ spell n @ spell a @ m =
        take (length p') (spell k @ spell n @ spell a @ m) @
        drop (length p') (spell k @ spell n @ spell a @ m)"
      by (rule append_take_drop_id [symmetric])
    then obtain r where "spell k @ spell n @ spell a @ m = p' @ r"
      unfolding * by blast
    with that show False by (simp add: spell_prefix_free)
  qed
  then show ?thesis
    by (auto simp: aead_binding_def demo_aead_def Let_def)
qed

lemma demo_b64_correct: "b64_correct demo_aead"
  by (simp add: b64_correct_def demo_aead_def)

lemmas demo_aead_ok = demo_aead_correct demo_aead_total demo_aead_binding demo_b64_correct

text \<open>
  Decrypting an envelope under the cipher and context it was encrypted with gives the plaintext
  back, and under any other 32-byte key or any other context it is refused.
\<close>

theorem secret_round_trip:
  assumes "aead_correct env" and "aead_binding env" and "b64_correct env"
    and "length nonce = NONCE_LENGTH" and "length (cipher_key c') = KEY_LENGTH"
    and "encrypt env c nonce plaintext ctx = Inr envelope"
  shows "decrypt env c' envelope ctx' =
    (if cipher_key c' = cipher_key c \<and> ctx' = ctx then Inr plaintext else Inl SecretDecrypt)"
proof (cases "cipher_key c' = cipher_key c \<and> ctx' = ctx")
  case True
  then have "c' = c" by (cases c; cases c') auto
  with True show ?thesis
    using decrypt_encrypt [OF assms(1,3,4,6)] by simp
next
  case False
  then show ?thesis
    using decrypt_other [OF assms(1-4,6) _ assms(5)] by auto
qed

theorem secret_round_trip_witness:
  "decrypt demo_aead \<lparr>cipher_key = replicate 32 CHR ''k''\<rparr>
     (FORMAT_VERSION # replicate 12 CHR ''n'' @
        spell (replicate 32 CHR ''k'') @ spell (replicate 12 CHR ''n'') @ spell ''user:1:totp'' @ ''pw'')
     ''user:2:totp'' = Inl SecretDecrypt"
  using secret_round_trip [OF demo_aead_correct demo_aead_binding demo_b64_correct,
      of "replicate 12 CHR ''n''" "\<lparr>cipher_key = replicate 32 CHR ''k''\<rparr>"
         "\<lparr>cipher_key = replicate 32 CHR ''k''\<rparr>" "''pw''" "''user:1:totp''" _ "''user:2:totp''"]
  by (simp add: NONCE_LENGTH_def KEY_LENGTH_def encrypt_def demo_aead_def)

end
