(* ===== verification/Vault.thy ===== *)
theory Vault
  imports Secrets
begin

text \<open>
  The secrets vault (\<open>crates/vault/src/lib.rs\<close>): envelope encryption of each record with its own data
  key, wrapped by the master key, over the table \<open>vault_secrets\<close>. The random record id, data keys,
  nonces and tombstones, the clock and the set of known users (foreign key of \<open>owner_user_id\<close>) are
  arguments. An operation that fails leaves the table alone, so it returns no table.
\<close>

section \<open>State\<close>

record vault_row =
  vs_id :: string
  vs_owner_user_id :: string
  vs_kind :: string
  vs_label :: string
  vs_encrypted_value :: string
  vs_encrypted_data_key :: "string option"
  vs_created_at :: int
  vs_updated_at :: int
  vs_last_revealed_at :: "int option"

record SecretMetadata =
  sm_id :: string
  sm_kind :: string
  sm_label :: string
  sm_created_at :: int
  sm_updated_at :: int
  sm_last_revealed_at :: "int option"

datatype VaultError =
    VaultDatabase
  | VaultSecret SecretError
  | VaultInvalidKind
  | VaultInvalidLabel
  | VaultInvalidValue
  | VaultNotFound

text \<open>The randomness that one envelope takes: the data key and the nonces of value and key.\<close>

record envelope_rnd =
  rnd_data_key :: bytes
  rnd_value_nonce :: bytes
  rnd_key_nonce :: bytes

definition secret_err :: "SecretError + 'a \<Rightarrow> VaultError + 'a" where
  "secret_err r = (case r of Inl e \<Rightarrow> Inl (VaultSecret e) | Inr a \<Rightarrow> Inr a)"

section \<open>Validation and contexts\<close>

definition validate_metadata :: "string \<Rightarrow> string \<Rightarrow> bytes \<Rightarrow> VaultError + unit" where
  "validate_metadata kind label val =
     (if kind = [] \<or> length kind > 64 \<or>
         \<not> list_all (\<lambda>b. is_ascii_alphanumeric b \<or> b \<in> {CHR ''.'', CHR ''_'', CHR ''-''}) kind
      then Inl VaultInvalidKind
      else if trim label = [] \<or> length label > 256 then Inl VaultInvalidLabel
      else if val = [] \<or> length val > 1024 * 1024 then Inl VaultInvalidValue
      else Inr ())"

definition legacy_context :: "string \<Rightarrow> string \<Rightarrow> bytes" where
  "legacy_context owner i = ''vault:'' @ owner @ '':'' @ i"

definition key_context :: "string \<Rightarrow> string \<Rightarrow> bytes" where
  "key_context owner i = ''vault:key:'' @ owner @ '':'' @ i"

definition value_context :: "string \<Rightarrow> string \<Rightarrow> bytes" where
  "value_context owner i = ''vault:value:'' @ owner @ '':'' @ i"

section \<open>Operations\<close>

text \<open>The block shared by \<open>create\<close>, \<open>rotate\<close> and \<open>upgrade_to_envelope\<close>.\<close>

definition seal_envelope ::
    "aead_env \<Rightarrow> SecretCipher \<Rightarrow> envelope_rnd \<Rightarrow> string \<Rightarrow> string \<Rightarrow> bytes \<Rightarrow> VaultError + string \<times> string"
  where
  "seal_envelope env master rnd owner i val =
     res_bind (secret_err (new_cipher (rnd_data_key rnd))) (\<lambda>data_cipher.
     res_bind (secret_err (encrypt env data_cipher (rnd_value_nonce rnd) val (value_context owner i)))
       (\<lambda>encrypted.
     res_bind (secret_err (encrypt env master (rnd_key_nonce rnd) (rnd_data_key rnd) (key_context owner i)))
       (\<lambda>encrypted_data_key. Inr (encrypted, encrypted_data_key))))"

definition vault_create ::
    "aead_env \<Rightarrow> SecretCipher \<Rightarrow> (string \<Rightarrow> bool) \<Rightarrow> string \<Rightarrow> envelope_rnd \<Rightarrow> int \<Rightarrow>
     string \<Rightarrow> string \<Rightarrow> string \<Rightarrow> bytes \<Rightarrow> vault_row list \<Rightarrow> VaultError + string \<times> vault_row list" where
  "vault_create env master known i rnd now owner kind label val rows =
     res_bind (validate_metadata kind label val) (\<lambda>_.
     res_bind (seal_envelope env master rnd owner i val) (\<lambda>(encrypted, encrypted_data_key).
     if \<not> known owner \<or> i \<in> vs_id ` set rows then Inl VaultDatabase
     else Inr (i, rows @
       [\<lparr>vs_id = i, vs_owner_user_id = owner, vs_kind = kind, vs_label = trim label,
         vs_encrypted_value = encrypted, vs_encrypted_data_key = Some encrypted_data_key,
         vs_created_at = now, vs_updated_at = now, vs_last_revealed_at = None\<rparr>])))"

definition metadata_of_row :: "vault_row \<Rightarrow> SecretMetadata" where
  "metadata_of_row r =
     \<lparr>sm_id = vs_id r, sm_kind = vs_kind r, sm_label = vs_label r, sm_created_at = vs_created_at r,
      sm_updated_at = vs_updated_at r, sm_last_revealed_at = vs_last_revealed_at r\<rparr>"

definition vault_list :: "string \<Rightarrow> vault_row list \<Rightarrow> SecretMetadata list" where
  "vault_list owner rows =
     map metadata_of_row
       (sort_key vs_label (sort_key vs_id (filter (\<lambda>r. vs_owner_user_id r = owner) rows)))"

definition set_envelope :: "string \<Rightarrow> string \<Rightarrow> int \<Rightarrow> vault_row \<Rightarrow> vault_row" where
  "set_envelope encrypted encrypted_data_key now r =
     r\<lparr>vs_encrypted_value := encrypted, vs_encrypted_data_key := Some encrypted_data_key,
       vs_updated_at := now\<rparr>"

abbreviation owned :: "string \<Rightarrow> string \<Rightarrow> vault_row \<Rightarrow> bool" where
  "owned owner i \<equiv> \<lambda>r. vs_id r = i \<and> vs_owner_user_id r = owner"

definition upgrade_to_envelope ::
    "aead_env \<Rightarrow> SecretCipher \<Rightarrow> envelope_rnd \<Rightarrow> int \<Rightarrow> string \<Rightarrow> string \<Rightarrow> bytes \<Rightarrow> vault_row list \<Rightarrow>
     VaultError + vault_row list" where
  "upgrade_to_envelope env master rnd now owner i plaintext rows =
     res_bind (seal_envelope env master rnd owner i plaintext) (\<lambda>(encrypted, encrypted_data_key).
     Inr (sql_update (owned owner i) (set_envelope encrypted encrypted_data_key now) rows))"

text \<open>Reading one record: through its data key, or directly under the master key for legacy records.\<close>

definition open_row :: "aead_env \<Rightarrow> SecretCipher \<Rightarrow> vault_row \<Rightarrow> VaultError + bytes" where
  "open_row env master row =
     (let owner = vs_owner_user_id row; i = vs_id row in
      case vs_encrypted_data_key row of
        Some encrypted_data_key \<Rightarrow>
          res_bind (secret_err (decrypt env master encrypted_data_key (key_context owner i))) (\<lambda>data_key.
          res_bind (secret_err (new_cipher data_key)) (\<lambda>data_cipher.
          secret_err (decrypt env data_cipher (vs_encrypted_value row) (value_context owner i))))
      | None \<Rightarrow> secret_err (decrypt env master (vs_encrypted_value row) (legacy_context owner i)))"

definition vault_reveal ::
    "aead_env \<Rightarrow> SecretCipher \<Rightarrow> envelope_rnd \<Rightarrow> int \<Rightarrow> int \<Rightarrow> string \<Rightarrow> string \<Rightarrow> vault_row list \<Rightarrow>
     VaultError + bytes \<times> vault_row list" where
  "vault_reveal env master rnd now_upgrade now owner i rows =
     res_bind (res_of_option VaultNotFound (sql_first (owned owner i) rows)) (\<lambda>row.
     res_bind (open_row env master row) (\<lambda>plaintext.
     let rows' =
       (if vs_encrypted_data_key row = None then
          (case upgrade_to_envelope env master rnd now_upgrade owner i plaintext rows of
             Inl _ \<Rightarrow> rows
           | Inr rows' \<Rightarrow> rows')
        else rows) in
     Inr (plaintext,
          sql_update (\<lambda>r. vs_id r = i) (\<lambda>r. r\<lparr>vs_last_revealed_at := Some now\<rparr>) rows')))"

definition vault_rotate ::
    "aead_env \<Rightarrow> SecretCipher \<Rightarrow> envelope_rnd \<Rightarrow> int \<Rightarrow> string \<Rightarrow> string \<Rightarrow> bytes \<Rightarrow> vault_row list \<Rightarrow>
     VaultError + vault_row list" where
  "vault_rotate env master rnd now owner i val rows =
     (if val = [] \<or> length val > 1024 * 1024 then Inl VaultInvalidValue
      else
        res_bind (seal_envelope env master rnd owner i val) (\<lambda>(encrypted, encrypted_data_key).
        if sql_affected (owned owner i) rows = 1
        then Inr (sql_update (owned owner i) (set_envelope encrypted encrypted_data_key now) rows)
        else Inl VaultNotFound))"

definition vault_delete ::
    "string \<Rightarrow> string \<Rightarrow> int \<Rightarrow> string \<Rightarrow> string \<Rightarrow> vault_row list \<Rightarrow> VaultError + vault_row list" where
  "vault_delete tombstone_value tombstone_key now owner i rows =
     (let overwritten =
        sql_update (owned owner i) (set_envelope tombstone_value tombstone_key now) rows in
      if sql_affected (owned owner i) rows \<noteq> 1 then Inl VaultNotFound
      else if sql_affected (owned owner i) overwritten \<noteq> 1 then Inl VaultNotFound
      else Inr (sql_delete (owned owner i) overwritten))"

text \<open>
  \<open>rewrap_all_keys\<close>: one transaction over the rows as they were fetched; row number \<open>k\<close> takes the
  randomness \<open>rnd k\<close> and the time \<open>now k\<close>.
\<close>

fun rewrap_loop ::
    "aead_env \<Rightarrow> SecretCipher \<Rightarrow> SecretCipher \<Rightarrow> (nat \<Rightarrow> envelope_rnd) \<Rightarrow> (nat \<Rightarrow> int) \<Rightarrow> nat \<Rightarrow>
     vault_row list \<Rightarrow> vault_row list \<Rightarrow> VaultError + nat \<times> vault_row list" where
  "rewrap_loop env old_cipher new_cipher' rnd now count [] table = Inr (count, table)"
| "rewrap_loop env old_cipher new_cipher' rnd now count (row # rows) table =
     (let i = vs_id row; owner = vs_owner_user_id row in
      case vs_encrypted_data_key row of
        Some edk \<Rightarrow>
          res_bind (secret_err (decrypt env old_cipher edk (key_context owner i))) (\<lambda>data_key.
          res_bind (secret_err (encrypt env new_cipher' (rnd_key_nonce (rnd count)) data_key
                     (key_context owner i))) (\<lambda>new_edk.
          rewrap_loop env old_cipher new_cipher' rnd now (count + 1) rows
            (sql_update (\<lambda>r. vs_id r = i)
               (\<lambda>r. r\<lparr>vs_encrypted_data_key := Some new_edk, vs_updated_at := now count\<rparr>) table)))
      | None \<Rightarrow>
          res_bind (secret_err (decrypt env old_cipher (vs_encrypted_value row)
                     (legacy_context owner i))) (\<lambda>plaintext.
          res_bind (seal_envelope env new_cipher' (rnd count) owner i plaintext)
            (\<lambda>(new_encrypted, new_edk).
          rewrap_loop env old_cipher new_cipher' rnd now (count + 1) rows
            (sql_update (\<lambda>r. vs_id r = i) (set_envelope new_encrypted new_edk (now count)) table))))"

definition rewrap_all_keys ::
    "aead_env \<Rightarrow> SecretCipher \<Rightarrow> SecretCipher \<Rightarrow> (nat \<Rightarrow> envelope_rnd) \<Rightarrow> (nat \<Rightarrow> int) \<Rightarrow>
     vault_row list \<Rightarrow> VaultError + nat \<times> vault_row list" where
  "rewrap_all_keys env old_cipher new_cipher' rnd now rows =
     rewrap_loop env old_cipher new_cipher' rnd now 0 rows rows"

section \<open>Envelopes\<close>

lemma secret_err_ok [simp]: "secret_err r = Inr a \<longleftrightarrow> r = Inr a"
  by (cases r) (auto simp: secret_err_def)

lemma secret_err_simps [simp]:
  "secret_err (Inr a) = Inr a" "secret_err (Inl e) = Inl (VaultSecret e)"
  by (simp_all add: secret_err_def)

definition rnd_ok :: "envelope_rnd \<Rightarrow> bool" where
  "rnd_ok rnd \<longleftrightarrow> length (rnd_data_key rnd) = KEY_LENGTH \<and>
     length (rnd_value_nonce rnd) = NONCE_LENGTH \<and> length (rnd_key_nonce rnd) = NONCE_LENGTH"

lemma seal_envelope_ok:
  "seal_envelope env master rnd owner i val = Inr (ev, ek) \<longleftrightarrow>
     length (rnd_data_key rnd) = KEY_LENGTH \<and>
     encrypt env \<lparr>cipher_key = rnd_data_key rnd\<rparr> (rnd_value_nonce rnd) val (value_context owner i) = Inr ev \<and>
     encrypt env master (rnd_key_nonce rnd) (rnd_data_key rnd) (key_context owner i) = Inr ek"
  by (auto simp: seal_envelope_def res_bind_ok new_cipher_ok)

lemma seal_envelope_opens:
  assumes "aead_correct env" "b64_correct env" "rnd_ok rnd"
    and "seal_envelope env master rnd (vs_owner_user_id r) (vs_id r) val = Inr (ev, ek)"
    and "vs_encrypted_value r = ev" "vs_encrypted_data_key r = Some ek"
  shows "open_row env master r = Inr val"
proof -
  let ?dc = "\<lparr>cipher_key = rnd_data_key rnd\<rparr>"
  from assms(3,4) have n: "length (rnd_value_nonce rnd) = NONCE_LENGTH" "length (rnd_key_nonce rnd) = NONCE_LENGTH"
    and e: "encrypt env ?dc (rnd_value_nonce rnd) val (value_context (vs_owner_user_id r) (vs_id r)) = Inr ev"
      "encrypt env master (rnd_key_nonce rnd) (rnd_data_key rnd)
         (key_context (vs_owner_user_id r) (vs_id r)) = Inr ek"
    by (auto simp: seal_envelope_ok rnd_ok_def)
  have "decrypt env master ek (key_context (vs_owner_user_id r) (vs_id r)) = Inr (rnd_data_key rnd)"
    and "decrypt env ?dc ev (value_context (vs_owner_user_id r) (vs_id r)) = Inr val"
    using decrypt_encrypt [OF assms(1,2) n(2) e(2)] decrypt_encrypt [OF assms(1,2) n(1) e(1)] by auto
  moreover have "new_cipher (rnd_data_key rnd) = Inr ?dc"
    using assms(3) by (simp add: new_cipher_ok rnd_ok_def)
  ultimately show ?thesis
    using assms(5,6) by (simp add: open_row_def)
qed

lemma seal_envelope_succeeds:
  assumes "aead_total env" "rnd_ok rnd" "length (cipher_key master) = KEY_LENGTH"
    "length val \<le> 1024 * 1024"
  obtains ev ek where "seal_envelope env master rnd owner i val = Inr (ev, ek)"
proof -
  obtain ev where "encrypt env \<lparr>cipher_key = rnd_data_key rnd\<rparr> (rnd_value_nonce rnd) val
      (value_context owner i) = Inr ev"
    using encrypt_succeeds [OF assms(1), of "\<lparr>cipher_key = rnd_data_key rnd\<rparr>" "rnd_value_nonce rnd" val]
      assms(2,4) by (auto simp: rnd_ok_def)
  moreover obtain ek where "encrypt env master (rnd_key_nonce rnd) (rnd_data_key rnd)
      (key_context owner i) = Inr ek"
    using encrypt_succeeds [OF assms(1,3), of "rnd_key_nonce rnd" "rnd_data_key rnd"]
      assms(2) by (auto simp: rnd_ok_def KEY_LENGTH_def)
  ultimately show ?thesis
    using assms(2) that by (simp add: seal_envelope_ok rnd_ok_def)
qed

section \<open>The table\<close>

definition vault_wf :: "vault_row list \<Rightarrow> bool" where
  "vault_wf rows \<longleftrightarrow> table_ok vs_id (\<lambda>_. True) rows"

lemma vault_wf_distinct: "vault_wf rows \<longleftrightarrow> distinct (map vs_id rows)"
  by (simp add: vault_wf_def table_ok_def list_all_iff)

interpretation envelope_update: row_update vs_id "\<lambda>_. True" P "set_envelope ev ek now" for P ev ek now
  by unfold_locales (simp_all add: set_envelope_def)

interpretation reveal_update: row_update vs_id "\<lambda>_. True" P
  "\<lambda>r. r\<lparr>vs_last_revealed_at := Some now\<rparr>" for P now
  by unfold_locales simp_all

interpretation rewrap_update: row_update vs_id "\<lambda>_. True" P
  "\<lambda>r. r\<lparr>vs_encrypted_data_key := Some ek, vs_updated_at := now\<rparr>" for P ek now
  by unfold_locales simp_all

lemma set_envelope_simps [simp]:
  "vs_id (set_envelope ev ek now r) = vs_id r"
  "vs_owner_user_id (set_envelope ev ek now r) = vs_owner_user_id r"
  "vs_encrypted_value (set_envelope ev ek now r) = ev"
  "vs_encrypted_data_key (set_envelope ev ek now r) = Some ek"
  by (simp_all add: set_envelope_def)

lemma owned_find:
  "vault_wf rows \<Longrightarrow> sql_first (owned owner i) rows = Some r \<longleftrightarrow> r \<in> set rows \<and> owned owner i r"
  by (simp add: vault_wf_distinct distinct_key_find_where)

lemma vault_reveal_result:
  "map_sum id fst (vault_reveal env master rnd t1 t2 owner i rows) =
     res_bind (res_of_option VaultNotFound (sql_first (owned owner i) rows)) (open_row env master)"
  by (auto simp: vault_reveal_def res_bind_def Let_def split: sum.splits)

lemma vault_reveal_table:
  assumes "vault_reveal env master rnd t1 t2 owner i rows = Inr (pt, rows')"
  obtains ts where "rows' = sql_update (\<lambda>r. vs_id r = i) (\<lambda>r. r\<lparr>vs_last_revealed_at := Some t2\<rparr>) ts"
    and "ts = rows \<or> (\<exists>ev ek. ts = sql_update (owned owner i) (set_envelope ev ek t1) rows)"
    and "\<exists>r\<in>set rows. owned owner i r"
  using assms
  by (fastforce simp: vault_reveal_def upgrade_to_envelope_def res_bind_ok res_of_option_ok Let_def
      res_bind_def dest: sql_first_Some split: if_splits sum.splits)

section \<open>Properties\<close>

definition demo_rnd :: envelope_rnd where
  "demo_rnd = \<lparr>rnd_data_key = replicate 32 CHR ''d'', rnd_value_nonce = replicate 12 CHR ''v'',
     rnd_key_nonce = replicate 12 CHR ''w''\<rparr>"

definition demo_master :: "char \<Rightarrow> SecretCipher" where
  "demo_master c = \<lparr>cipher_key = replicate 32 c\<rparr>"

lemma demo_rnd_ok: "rnd_ok demo_rnd"
  by (simp add: rnd_ok_def demo_rnd_def KEY_LENGTH_def NONCE_LENGTH_def)

lemma demo_master_key: "length (cipher_key (demo_master c)) = KEY_LENGTH"
  by (simp add: demo_master_def KEY_LENGTH_def)

lemmas demo_vault_simps =
  vault_create_def validate_metadata_def seal_envelope_def new_cipher_def encrypt_def demo_aead_def
  demo_rnd_def demo_master_def KEY_LENGTH_def NONCE_LENGTH_def trim_def char_class_defs

text \<open>
  A created secret is revealed to its owner with the stored value, and to anybody else the record
  does not exist.
\<close>

theorem vault_create_then_reveal:
  assumes "aead_correct env" and "b64_correct env" and "rnd_ok rnd"
    and "vault_create env master known i rnd now owner kind label val rows = Inr (i', rows')"
  shows "map_sum id fst (vault_reveal env master rnd' t1 t2 user i' rows') =
    (if user = owner then Inr val else Inl VaultNotFound)"
proof -
  from assms(4) obtain ev ek row where i': "i' = i" and rows': "rows' = rows @ [row]"
    and fresh: "i \<notin> vs_id ` set rows"
    and seal: "seal_envelope env master rnd owner i val = Inr (ev, ek)"
    and row: "vs_id row = i" "vs_owner_user_id row = owner" "vs_encrypted_value row = ev"
      "vs_encrypted_data_key row = Some ek"
    by (auto simp: vault_create_def res_bind_ok split: if_splits)
  have "sql_first (owned user i) rows = None"
    using fresh by (auto simp: sql_first_None)
  then have "sql_first (owned user i) rows' = (if user = owner then Some row else None)"
    using row by (auto simp: rows' sql_first_append) (auto simp: sql_first_def)
  moreover have "open_row env master row = Inr val"
    using assms(1-3) seal row by (intro seal_envelope_opens) auto
  ultimately show ?thesis
    by (simp add: vault_reveal_result i')
qed

theorem vault_create_then_reveal_witness:
  "\<exists>rows. vault_create demo_aead (demo_master CHR ''m'') (\<lambda>_. True) ''1f'' demo_rnd 7 ''alice''
        ''ssh.password'' ''Server'' ''pw'' [] = Inr (''1f'', rows) \<and>
     map_sum id fst (vault_reveal demo_aead (demo_master CHR ''m'') demo_rnd 8 9 ''bob'' ''1f'' rows) =
       Inl VaultNotFound"
proof -
  obtain rows where rows: "vault_create demo_aead (demo_master CHR ''m'') (\<lambda>_. True) ''1f'' demo_rnd 7
      ''alice'' ''ssh.password'' ''Server'' ''pw'' [] = Inr (''1f'', rows)"
    by (simp add: demo_vault_simps)
  with vault_create_then_reveal [OF demo_aead_correct demo_b64_correct demo_rnd_ok rows,
      of demo_rnd 8 9 "''bob''"]
  show ?thesis by auto
qed

text \<open>
  Rotating a secret makes the new value the revealed one; deleting it makes it unknown to every
  user and leaves every other record exactly as it was.
\<close>

theorem vault_rotate_and_delete:
  assumes "aead_correct env" and "b64_correct env" and "rnd_ok rnd" and "vault_wf rows"
    and "vault_rotate env master rnd now owner i val rows = Inr rotated"
    and "vault_delete tv tk now' owner i rotated = Inr deleted"
  shows "map_sum id fst (vault_reveal env master rnd' t1 t2 owner i rotated) = Inr val \<and>
     map_sum id fst (vault_reveal env master rnd' t1 t2 user i deleted) = Inl VaultNotFound \<and>
     deleted = filter (\<lambda>r. vs_id r \<noteq> i) rows"
proof -
  from assms(5) obtain ev ek where seal: "seal_envelope env master rnd owner i val = Inr (ev, ek)"
    and rot: "rotated = sql_update (owned owner i) (set_envelope ev ek now) rows"
    and one: "sql_affected (owned owner i) rows = 1"
    by (auto simp: vault_rotate_def res_bind_ok split: if_splits)
  from one assms(4) obtain r where r: "r \<in> set rows" "owned owner i r"
    using affected_one_iff [of vs_id rows i "\<lambda>r. vs_owner_user_id r = owner"]
    by (auto simp: vault_wf_distinct)
  have wf: "vault_wf rotated"
    using assms(4) envelope_update.table_update by (simp add: rot vault_wf_def)
  have "set_envelope ev ek now r \<in> set rotated"
    using r by (auto simp: rot intro: sql_update_hit)
  then have "sql_first (owned owner i) rotated = Some (set_envelope ev ek now r)"
    using wf r by (simp add: owned_find)
  moreover have "open_row env master (set_envelope ev ek now r) = Inr val"
    using seal r assms(1-3) by (intro seal_envelope_opens) auto
  ultimately have "map_sum id fst (vault_reveal env master rnd' t1 t2 owner i rotated) = Inr val"
    by (simp add: vault_reveal_result)
  have same: "vs_id x = i \<longleftrightarrow> owned owner i x" if "x \<in> set rows" for x
    using that r assms(4) by (auto simp: vault_wf_def dest: table_ok_same_key)
  have "deleted = sql_delete (owned owner i) (sql_update (owned owner i) (set_envelope tv tk now') rotated)"
    using assms(6) by (auto simp: vault_delete_def Let_def split: if_splits)
  then have del: "deleted = filter (\<lambda>r. vs_id r \<noteq> i) rows"
    using same unfolding rot sql_delete_def sql_update_def filter_map comp_def
    by (induction rows arbitrary: deleted) (auto simp: map_idI)
  then have "map_sum id fst (vault_reveal env master rnd' t1 t2 user i deleted) = Inl VaultNotFound"
    by (simp add: vault_reveal_result sql_first_None [THEN iffD2])
  with \<open>map_sum id fst (vault_reveal env master rnd' t1 t2 owner i rotated) = Inr val\<close> del
  show ?thesis by blast
qed

definition demo_legacy_row :: vault_row where
  "demo_legacy_row =
     \<lparr>vs_id = ''1f'', vs_owner_user_id = ''alice'', vs_kind = ''ssh.password'', vs_label = ''Server'',
      vs_encrypted_value = FORMAT_VERSION # replicate 12 CHR ''n'' @
        spell (replicate 32 CHR ''m'') @ spell (replicate 12 CHR ''n'') @ spell ''vault:alice:1f'' @ ''pw'',
      vs_encrypted_data_key = None, vs_created_at = 1, vs_updated_at = 1, vs_last_revealed_at = None\<rparr>"

lemma demo_legacy_opens: "open_row demo_aead (demo_master CHR ''m'') demo_legacy_row = Inr ''pw''"
  by (simp add: open_row_def demo_legacy_row_def legacy_context_def decrypt_def demo_aead_def
      demo_master_def KEY_LENGTH_def NONCE_LENGTH_def)

theorem vault_rotate_and_delete_witness:
  "\<exists>rotated deleted.
     vault_rotate demo_aead (demo_master CHR ''m'') demo_rnd 5 ''alice'' ''1f'' ''new'' [demo_legacy_row]
       = Inr rotated \<and>
     vault_delete ''x'' ''y'' 6 ''alice'' ''1f'' rotated = Inr deleted \<and>
     map_sum id fst (vault_reveal demo_aead (demo_master CHR ''m'') demo_rnd 7 8 ''alice'' ''1f'' rotated)
       = Inr ''new'' \<and> deleted = []"
proof -
  obtain rotated where rotated: "vault_rotate demo_aead (demo_master CHR ''m'') demo_rnd 5 ''alice'' ''1f''
      ''new'' [demo_legacy_row] = Inr rotated"
    by (simp add: vault_rotate_def demo_vault_simps demo_legacy_row_def sql_affected_def)
  then obtain deleted where deleted: "vault_delete ''x'' ''y'' 6 ''alice'' ''1f'' rotated = Inr deleted"
    by (auto simp: vault_rotate_def demo_vault_simps demo_legacy_row_def sql_affected_def
        vault_delete_def sql_update_def set_envelope_def Let_def)
  have "vault_wf [demo_legacy_row]" by (simp add: vault_wf_distinct)
  from vault_rotate_and_delete [OF demo_aead_correct demo_b64_correct demo_rnd_ok this rotated deleted,
      of demo_rnd 7 8]
  have "map_sum id fst (vault_reveal demo_aead (demo_master CHR ''m'') demo_rnd 7 8 ''alice'' ''1f'' rotated)
       = Inr ''new''" and "deleted = []"
    by (auto simp: demo_legacy_row_def)
  with rotated deleted show ?thesis by blast
qed

subsection \<open>Lazy migration of legacy records\<close>

text \<open>Revealing a legacy record rewrites it as an envelope that opens to the same plaintext.\<close>

lemma vault_reveal_migrates:
  assumes "aead_correct env" "b64_correct env" "aead_total env" "rnd_ok rnd" "vault_wf rows"
    and "length (cipher_key master) = KEY_LENGTH"
    and "r \<in> set rows" "owned owner i r" "vs_encrypted_data_key r = None"
    and "open_row env master r = Inr pt" "length pt \<le> 1024 * 1024"
  shows "\<exists>rows'. vault_reveal env master rnd t1 t2 owner i rows = Inr (pt, rows') \<and>
    (\<exists>r'\<in>set rows'. owned owner i r' \<and> vs_encrypted_data_key r' \<noteq> None \<and>
       open_row env master r' = Inr pt)"
proof -
  obtain ev ek where seal: "seal_envelope env master rnd owner i pt = Inr (ev, ek)"
    using seal_envelope_succeeds [OF assms(3,4,6,11)] by blast
  let ?rows' = "sql_update (\<lambda>r. vs_id r = i) (\<lambda>r. r\<lparr>vs_last_revealed_at := Some t2\<rparr>)
    (sql_update (owned owner i) (set_envelope ev ek t1) rows)"
  let ?r' = "(set_envelope ev ek t1 r)\<lparr>vs_last_revealed_at := Some t2\<rparr>"
  have "sql_first (owned owner i) rows = Some r"
    using assms(5,7,8) by (simp add: owned_find)
  then have "vault_reveal env master rnd t1 t2 owner i rows = Inr (pt, ?rows')"
    using assms(9,10) seal by (simp add: vault_reveal_def upgrade_to_envelope_def)
  moreover have "?r' \<in> set ?rows'"
    using assms(7,8) by (intro sql_update_hit) auto
  moreover have "open_row env master ?r' = Inr pt"
    using assms(1,2,4,8) seal by (intro seal_envelope_opens) auto
  moreover have "owned owner i ?r' \<and> vs_encrypted_data_key ?r' \<noteq> None"
    using assms(8) by simp
  ultimately show ?thesis by blast
qed

subsection \<open>Master-key rotation\<close>

lemma open_row_envelope:
  assumes "open_row env master r = Inr pt" "vs_encrypted_data_key r = Some edk"
  obtains dk where "decrypt env master edk (key_context (vs_owner_user_id r) (vs_id r)) = Inr dk"
    and "length dk = KEY_LENGTH"
    and "decrypt env \<lparr>cipher_key = dk\<rparr> (vs_encrypted_value r)
           (value_context (vs_owner_user_id r) (vs_id r)) = Inr pt"
  using assms by (auto simp: open_row_def Let_def res_bind_ok new_cipher_ok)

definition rewrapped :: "aead_env \<Rightarrow> SecretCipher \<Rightarrow> bytes \<Rightarrow> vault_row \<Rightarrow> vault_row \<Rightarrow> bool" where
  "rewrapped env new pt r r' \<longleftrightarrow>
     vs_id r' = vs_id r \<and> vs_owner_user_id r' = vs_owner_user_id r \<and> vs_kind r' = vs_kind r \<and>
     vs_label r' = vs_label r \<and> vs_created_at r' = vs_created_at r \<and>
     vs_encrypted_data_key r' \<noteq> None \<and> open_row env new r' = Inr pt"

lemma rewrap_one:
  assumes "aead_correct env" "b64_correct env" "aead_total env" "\<forall>k. rnd_ok (rnd k)"
    and "length (cipher_key new) = KEY_LENGTH"
    and "open_row env old row = Inr pt" "length pt \<le> 1024 * 1024"
  obtains f where
    "rewrap_loop env old new rnd now count (row # rows) table =
       rewrap_loop env old new rnd now (count + 1) rows (sql_update (\<lambda>r. vs_id r = vs_id row) f table)"
    and "\<And>r. vs_id (f r) = vs_id r" and "rewrapped env new pt row (f row)"
proof (cases "vs_encrypted_data_key row")
  case None
  let ?i = "vs_id row" and ?o = "vs_owner_user_id row"
  have dec: "decrypt env old (vs_encrypted_value row) (legacy_context ?o ?i) = Inr pt"
    using assms(6) None by (simp add: open_row_def)
  obtain ev ek where seal: "seal_envelope env new (rnd count) ?o ?i pt = Inr (ev, ek)"
    using seal_envelope_succeeds [of env "rnd count" new pt] assms(3-5,7) by blast
  have "open_row env new (set_envelope ev ek (now count) row) = Inr pt"
    using assms(1,2,4) seal by (intro seal_envelope_opens [of _ "rnd count"]) auto
  then have "rewrapped env new pt row (set_envelope ev ek (now count) row)"
    by (simp add: rewrapped_def) (simp add: set_envelope_def)
  with None dec seal show ?thesis
    by (intro that [of "set_envelope ev ek (now count)"]) (simp_all add: Let_def)
next
  case (Some edk)
  let ?i = "vs_id row" and ?o = "vs_owner_user_id row"
  obtain dk where dk: "decrypt env old edk (key_context ?o ?i) = Inr dk" "length dk = KEY_LENGTH"
    "decrypt env \<lparr>cipher_key = dk\<rparr> (vs_encrypted_value row) (value_context ?o ?i) = Inr pt"
    using assms(6) Some by (rule open_row_envelope)
  have n: "length (rnd_key_nonce (rnd count)) = NONCE_LENGTH"
    using assms(4) by (simp add: rnd_ok_def)
  obtain ek where ek: "encrypt env new (rnd_key_nonce (rnd count)) dk (key_context ?o ?i) = Inr ek"
    using encrypt_succeeds [OF assms(3,5) n, of dk] dk(2) by (auto simp: KEY_LENGTH_def)
  let ?f = "\<lambda>r. r\<lparr>vs_encrypted_data_key := Some ek, vs_updated_at := now count\<rparr>"
  have "decrypt env new ek (key_context ?o ?i) = Inr dk"
    by (rule decrypt_encrypt [OF assms(1,2) n ek])
  with dk have "rewrapped env new pt row (?f row)"
    by (simp add: rewrapped_def open_row_def new_cipher_def)
  with Some dk ek show ?thesis
    by (intro that [of ?f]) (simp_all add: Let_def)
qed

lemma rewrap_loop_ok:
  assumes env: "aead_correct env" "b64_correct env" "aead_total env" "\<forall>k. rnd_ok (rnd k)"
    "length (cipher_key new) = KEY_LENGTH"
    and "distinct (map vs_id rows)" "set rows \<subseteq> set table"
    and "\<forall>r\<in>set rows. \<exists>pt. open_row env old r = Inr pt \<and> length pt \<le> 1024 * 1024"
  shows "\<exists>table'. rewrap_loop env old new rnd now count rows table = Inr (count + length rows, table') \<and>
    map vs_id table' = map vs_id table \<and>
    (\<forall>r\<in>set rows. \<exists>r'\<in>set table'. rewrapped env new (projr (open_row env old r)) r r') \<and>
    (\<forall>r\<in>set table. vs_id r \<notin> vs_id ` set rows \<longrightarrow> r \<in> set table')"
  using assms(6-8)
proof (induction rows arbitrary: count table)
  case Nil
  then show ?case by auto
next
  case (Cons row rows)
  obtain pt where pt: "open_row env old row = Inr pt" "length pt \<le> 1024 * 1024"
    using Cons.prems(3) by auto
  obtain f where step: "rewrap_loop env old new rnd now count (row # rows) table =
       rewrap_loop env old new rnd now (count + 1) rows (sql_update (\<lambda>r. vs_id r = vs_id row) f table)"
    and key: "\<And>r. vs_id (f r) = vs_id r" and rw: "rewrapped env new pt row (f row)"
    using rewrap_one [OF env pt] by blast
  let ?t = "sql_update (\<lambda>r. vs_id r = vs_id row) f table"
  have "x \<in> set ?t" if "x \<in> set rows" for x
  proof (rule sql_update_miss)
    show "x \<in> set table" using that Cons.prems(2) by auto
    show "\<not> vs_id x = vs_id row" using distinct_key_neq [OF Cons.prems(1) that] .
  qed
  then have "set rows \<subseteq> set ?t" by blast
  with Cons.IH [of ?t "count + 1"] Cons.prems obtain table' where
    t': "rewrap_loop env old new rnd now (count + 1) rows ?t = Inr (count + 1 + length rows, table')"
      "map vs_id table' = map vs_id ?t"
      "\<forall>r\<in>set rows. \<exists>r'\<in>set table'. rewrapped env new (projr (open_row env old r)) r r'"
      "\<forall>r\<in>set ?t. vs_id r \<notin> vs_id ` set rows \<longrightarrow> r \<in> set table'"
    by auto
  have "f row \<in> set ?t"
    using Cons.prems(2) by (auto intro: sql_update_hit)
  then have "f row \<in> set table'"
    using t'(4) Cons.prems(1) by (auto simp: key)
  moreover have "map vs_id table' = map vs_id table"
    using t'(2) by (simp add: sql_update_def key)
  moreover have "\<forall>r\<in>set table. vs_id r \<notin> vs_id ` set (row # rows) \<longrightarrow> r \<in> set table'"
    using t'(4) by (auto intro!: sql_update_miss)
  ultimately show ?case
    using t'(1,3) step rw pt by auto
qed

text \<open>
  (C6) Rotating the master key over the whole vault succeeds on every table whose records are readable
  under the old key, counts every record, keeps ids, owners and metadata, and leaves every record readable
  under the new key with the same plaintext, legacy records included.
\<close>

theorem vault_rewrap_preserves_secrets:
  assumes "aead_correct env" and "b64_correct env" and "aead_total env" and "\<forall>k. rnd_ok (rnd k)"
    and "length (cipher_key new) = KEY_LENGTH" and "vault_wf rows"
    and "\<forall>r\<in>set rows. \<exists>pt. open_row env old r = Inr pt \<and> length pt \<le> 1024 * 1024"
  shows "\<exists>rows'. rewrap_all_keys env old new rnd now rows = Inr (length rows, rows') \<and>
    map vs_id rows' = map vs_id rows \<and>
    (\<forall>r\<in>set rows. \<exists>r'\<in>set rows'. rewrapped env new (projr (open_row env old r)) r r')"
  using rewrap_loop_ok [OF assms(1-5), of rows rows old now 0] assms(6,7)
  by (auto simp: rewrap_all_keys_def vault_wf_distinct)

theorem vault_rewrap_preserves_secrets_witness:
  "\<exists>rows'. rewrap_all_keys demo_aead (demo_master CHR ''m'') (demo_master CHR ''q'') (\<lambda>_. demo_rnd) int
      [demo_legacy_row] = Inr (1, rows') \<and>
    (\<exists>r'\<in>set rows'. rewrapped demo_aead (demo_master CHR ''q'') ''pw'' demo_legacy_row r')"
  using vault_rewrap_preserves_secrets [OF demo_aead_correct demo_b64_correct demo_aead_total,
      of "\<lambda>_. demo_rnd" "demo_master CHR ''q''" "[demo_legacy_row]" "demo_master CHR ''m''" int]
  by (simp add: demo_rnd_ok demo_master_key vault_wf_distinct demo_legacy_opens) blast

subsection \<open>Associated data\<close>

lemma key_context_inj:
  assumes "key_context o1 i1 = key_context o2 i2" and "CHR '':'' \<notin> set i1" and "CHR '':'' \<notin> set i2"
  shows "o1 = o2 \<and> i1 = i2"
  using assms sep_inj [of o1 "CHR '':''" i1 o2 i2] by (simp add: key_context_def)

text \<open>
  (C15) A ciphertext and its wrapped data key copied into another record, of the same or of another user,
  do not decrypt there: the associated data binds them to owner and record id (ids contain no colon).
\<close>

theorem vault_transplant_rejected:
  assumes "aead_correct env" and "aead_binding env" and "b64_correct env" and "rnd_ok rnd"
    and "seal_envelope env master rnd owner i val = Inr (ev, ek)"
    and "(vs_owner_user_id r, vs_id r) \<noteq> (owner, i)"
    and "CHR '':'' \<notin> set i" and "CHR '':'' \<notin> set (vs_id r)"
  shows "open_row env master (r\<lparr>vs_encrypted_value := ev, vs_encrypted_data_key := Some ek\<rparr>) =
    Inl (VaultSecret SecretDecrypt)"
proof -
  have "key_context (vs_owner_user_id r) (vs_id r) \<noteq> key_context owner i"
    using key_context_inj assms(6-8) by blast
  moreover have enc: "encrypt env master (rnd_key_nonce rnd) (rnd_data_key rnd) (key_context owner i) = Inr ek"
    and "length (rnd_key_nonce rnd) = NONCE_LENGTH"
    using assms(4,5) by (auto simp: seal_envelope_ok rnd_ok_def)
  moreover have "length (cipher_key master) = KEY_LENGTH"
    using enc by (simp add: encrypt_ok)
  ultimately have "decrypt env master ek (key_context (vs_owner_user_id r) (vs_id r)) = Inl SecretDecrypt"
    by (intro decrypt_other [OF assms(1-3)]) auto
  then show ?thesis by (simp add: open_row_def)
qed

theorem vault_transplant_rejected_witness:
  "\<exists>ev ek. seal_envelope demo_aead (demo_master CHR ''m'') demo_rnd ''alice'' ''aa'' ''pw'' = Inr (ev, ek) \<and>
     open_row demo_aead (demo_master CHR ''m'')
       (demo_legacy_row\<lparr>vs_encrypted_value := ev, vs_encrypted_data_key := Some ek\<rparr>) =
     Inl (VaultSecret SecretDecrypt)"
proof -
  obtain ev ek where seal:
    "seal_envelope demo_aead (demo_master CHR ''m'') demo_rnd ''alice'' ''aa'' ''pw'' = Inr (ev, ek)"
    by (rule seal_envelope_succeeds [OF demo_aead_total demo_rnd_ok demo_master_key]) auto
  from vault_transplant_rejected [OF demo_aead_correct demo_aead_binding demo_b64_correct demo_rnd_ok seal,
      of demo_legacy_row] seal
  show ?thesis by (simp add: demo_legacy_row_def)
qed

subsection \<open>Separation of users\<close>

datatype vault_cmd =
    CmdCreate string envelope_rnd int string string bytes
  | CmdReveal envelope_rnd int int string
  | CmdRotate envelope_rnd int string bytes
  | CmdDelete string string int string

definition table_after :: "vault_row list \<Rightarrow> VaultError + vault_row list \<Rightarrow> vault_row list" where
  "table_after rows r = (case r of Inl _ \<Rightarrow> rows | Inr rows' \<Rightarrow> rows')"

fun vault_act ::
    "aead_env \<Rightarrow> SecretCipher \<Rightarrow> (string \<Rightarrow> bool) \<Rightarrow> string \<Rightarrow> vault_cmd \<Rightarrow> vault_row list \<Rightarrow> vault_row list"
  where
  "vault_act env master known u (CmdCreate i rnd now kind label val) rows =
     table_after rows (map_sum id snd (vault_create env master known i rnd now u kind label val rows))"
| "vault_act env master known u (CmdReveal rnd t1 t2 i) rows =
     table_after rows (map_sum id snd (vault_reveal env master rnd t1 t2 u i rows))"
| "vault_act env master known u (CmdRotate rnd now i val) rows =
     table_after rows (vault_rotate env master rnd now u i val rows)"
| "vault_act env master known u (CmdDelete tv tk now i) rows =
     table_after rows (vault_delete tv tk now u i rows)"

lemma filter_owned_update:
  "u \<noteq> v \<Longrightarrow> filter (\<lambda>r. vs_owner_user_id r = v) (sql_update (owned u i) (set_envelope ev ek t) rows) =
     filter (\<lambda>r. vs_owner_user_id r = v) rows"
  by (rule filter_sql_update_other) auto

lemma owned_update_wf: "vault_wf rows \<Longrightarrow> vault_wf (sql_update P (set_envelope ev ek t) rows)"
  using envelope_update.table_update by (simp add: vault_wf_def)

lemma reveal_update_others:
  assumes "vault_wf ts" "r \<in> set ts" "owned u i r" "u \<noteq> v"
  shows "filter (\<lambda>r. vs_owner_user_id r = v)
      (sql_update (\<lambda>r. vs_id r = i) (\<lambda>r. r\<lparr>vs_last_revealed_at := Some t\<rparr>) ts) =
    filter (\<lambda>r. vs_owner_user_id r = v) ts"
proof -
  have "vs_owner_user_id x = u" if "x \<in> set ts" "vs_id x = i" for x
    using assms that by (auto simp: vault_wf_def dest: table_ok_same_key)
  with assms(4) show ?thesis
    unfolding sql_update_def by (induction ts) auto
qed

lemma vault_reveal_scoped:
  assumes "vault_wf rows" and "vault_reveal env master rnd t1 t2 u i rows = Inr (pt, rows')"
  shows "vault_wf rows'"
    and "u \<noteq> v \<Longrightarrow> filter (\<lambda>r. vs_owner_user_id r = v) rows' = filter (\<lambda>r. vs_owner_user_id r = v) rows"
proof -
  from assms(2) obtain ts where
    rows': "rows' = sql_update (\<lambda>r. vs_id r = i) (\<lambda>r. r\<lparr>vs_last_revealed_at := Some t2\<rparr>) ts"
    and ts: "ts = rows \<or> (\<exists>ev ek. ts = sql_update (owned u i) (set_envelope ev ek t1) rows)"
    and ex: "\<exists>r\<in>set rows. owned u i r"
    by (rule vault_reveal_table)
  have wf: "vault_wf ts" using ts assms(1) owned_update_wf by auto
  then show "vault_wf rows'"
    using reveal_update.table_update by (simp add: rows' vault_wf_def)
  obtain r where "r \<in> set ts" "owned u i r"
    using ts ex by (fastforce dest: sql_update_hit [where P = "owned u i"])
  then show "filter (\<lambda>r. vs_owner_user_id r = v) rows' = filter (\<lambda>r. vs_owner_user_id r = v) rows"
    if "u \<noteq> v"
    using that reveal_update_others [OF wf] ts filter_owned_update by (auto simp: rows')
qed

lemma vault_act_scoped:
  assumes "vault_wf rows"
  shows "vault_wf (vault_act env master known u c rows) \<and>
    (u \<noteq> v \<longrightarrow> filter (\<lambda>r. vs_owner_user_id r = v) (vault_act env master known u c rows) =
       filter (\<lambda>r. vs_owner_user_id r = v) rows)"
proof (cases c)
  case (CmdCreate i rnd now kind label val)
  with assms show ?thesis
    by (auto simp: table_after_def vault_create_def res_bind_def vault_wf_distinct split: sum.splits)
next
  case (CmdReveal rnd t1 t2 i)
  show ?thesis
  proof (cases "vault_reveal env master rnd t1 t2 u i rows")
    case (Inl e)
    with CmdReveal assms show ?thesis by (simp add: table_after_def)
  next
    case (Inr p)
    then obtain pt rows' where "vault_reveal env master rnd t1 t2 u i rows = Inr (pt, rows')"
      by (cases p) auto
    with CmdReveal vault_reveal_scoped [OF assms this] show ?thesis by (simp add: table_after_def)
  qed
next
  case (CmdRotate rnd now i val)
  with assms show ?thesis
    by (auto simp: table_after_def vault_rotate_def res_bind_def owned_update_wf filter_owned_update
        split: sum.splits)
next
  case (CmdDelete tv tk now i)
  have "filter (\<lambda>r. vs_owner_user_id r = v)
      (sql_delete (owned u i) (sql_update (owned u i) (set_envelope tv tk now) rows)) =
      filter (\<lambda>r. vs_owner_user_id r = v) rows" if "u \<noteq> v"
    using that by (subst filter_sql_delete_other) (auto simp: filter_owned_update)
  with CmdDelete assms owned_update_wf show ?thesis
    by (auto simp: table_after_def vault_delete_def Let_def vault_wf_def table_ok_delete split: sum.splits)
qed

interpretation vault_users: owner_scoped vs_owner_user_id vault_wf "vault_act env master known"
  for env master known
  by unfold_locales (use vault_act_scoped in blast)+

text \<open>
  (C16) Separation of users: whatever other users create, reveal, rotate or delete, in any order and with
  any ids, the records of a user who takes no part stay exactly as they were.
\<close>

theorem vault_tenant_isolation:
  assumes "vault_wf rows" and "v \<notin> fst ` set cmds"
  shows "filter (\<lambda>r. vs_owner_user_id r = v) (fold (\<lambda>(u, c). vault_act env master known u c) cmds rows) =
    filter (\<lambda>r. vs_owner_user_id r = v) rows"
  using assms by (rule vault_users.run_view_kept)

theorem vault_tenant_isolation_witness:
  "filter (\<lambda>r. vs_owner_user_id r = ''alice'')
     (fold (\<lambda>(u, c). vault_act demo_aead (demo_master CHR ''m'') (\<lambda>_. True) u c)
        [(''bob'', CmdDelete ''x'' ''y'' 4 ''1f''), (''bob'', CmdRotate demo_rnd 5 ''1f'' ''evil'')]
        [demo_legacy_row]) = [demo_legacy_row]"
proof -
  have "vault_wf [demo_legacy_row]" by (simp add: vault_wf_distinct)
  from vault_tenant_isolation [OF this, of "''alice''"
      "[(''bob'', CmdDelete ''x'' ''y'' 4 ''1f''), (''bob'', CmdRotate demo_rnd 5 ''1f'' ''evil'')]"]
  show ?thesis by (simp add: demo_legacy_row_def)
qed

end
