(* ===== verification/Transfers.thy ===== *)
theory Transfers
  imports Prelude
begin

text \<open>
  The transfer queue (\<open>crates/transfers/src/lib.rs\<close>) over the table \<open>transfer_jobs\<close>.

  The columns \<open>source_json\<close> and \<open>destination_json\<close> hold the endpoint they encode; \<open>state\<close> and \<open>strategy\<close>
  are text, as in the database, with their \<open>CHECK\<close> constraints in \<open>job_row_ok\<close>. Random ids and the clock are
  arguments. An update returns its result and the table, since the statement has run when
  \<open>ensure_updated\<close> looks at the number of rows. The SCP path check is the one of
  \<open>crates/remote/src/scp.rs\<close>. The local copy runs over a file store from paths to contents; how many bytes
  a read returns is the argument \<open>rd\<close>, and the streaming SHA-256 hasher is a parameter.
\<close>

section \<open>Data\<close>

datatype TransferEndpoint =
    Local string
  | Sftp string string
  | Scp string string
  | WebDav string string
  | S3 string string string

datatype TransferStrategy = Direct | ServerRelay

datatype TransferState = Queued | Running | Paused | Completed | Failed | Cancelled

datatype TransferError =
    TransferDatabase
  | Serialization
  | InvalidEndpoint
  | TooLarge
  | TransferNotFound
  | InvalidTransition
  | Corrupt
  | TransferIo string
  | Permanent string

record NewTransfer =
  nt_source :: TransferEndpoint
  nt_destination :: TransferEndpoint
  nt_bytes_total :: "nat option"

record TransferJob =
  job_id :: string
  job_owner_user_id :: string
  job_source :: TransferEndpoint
  job_destination :: TransferEndpoint
  job_strategy :: TransferStrategy
  job_state :: TransferState
  job_bytes_total :: "nat option"
  job_bytes_transferred :: nat
  job_attempts :: nat
  job_next_attempt_at :: int
  job_last_error :: "string option"
  job_created_at :: int
  job_updated_at :: int

record transfer_row =
  tj_id :: string
  tj_owner_user_id :: string
  tj_source :: TransferEndpoint
  tj_destination :: TransferEndpoint
  tj_strategy :: string
  tj_state :: string
  tj_bytes_total :: "int option"
  tj_bytes_transferred :: int
  tj_checksum :: "string option"
  tj_attempts :: int
  tj_next_attempt_at :: int
  tj_last_error :: "string option"
  tj_created_at :: int
  tj_updated_at :: int

definition MAX_TRANSFER_ATTEMPTS :: int where
  "MAX_TRANSFER_ATTEMPTS = 6"

section \<open>Text forms\<close>

fun strategy_name :: "TransferStrategy \<Rightarrow> string" where
  "strategy_name Direct = ''direct''"
| "strategy_name ServerRelay = ''server-relay''"

fun state_name :: "TransferState \<Rightarrow> string" where
  "state_name Queued = ''queued''"
| "state_name Running = ''running''"
| "state_name Paused = ''paused''"
| "state_name Completed = ''completed''"
| "state_name Failed = ''failed''"
| "state_name Cancelled = ''cancelled''"

definition parse_strategy :: "string \<Rightarrow> TransferError + TransferStrategy" where
  "parse_strategy v =
     (if v = ''direct'' then Inr Direct
      else if v = ''server-relay'' then Inr ServerRelay
      else Inl Corrupt)"

definition parse_state :: "string \<Rightarrow> TransferError + TransferState" where
  "parse_state v =
     (if v = ''queued'' then Inr Queued
      else if v = ''running'' then Inr Running
      else if v = ''paused'' then Inr Paused
      else if v = ''completed'' then Inr Completed
      else if v = ''failed'' then Inr Failed
      else if v = ''cancelled'' then Inr Cancelled
      else Inl Corrupt)"

definition ok_option :: "'e + 'a \<Rightarrow> 'a option" where
  "ok_option r = (case r of Inl _ \<Rightarrow> None | Inr a \<Rightarrow> Some a)"

interpretation state_text: text_codec state_name "\<lambda>s. ok_option (parse_state s)"
proof
  fix x show "ok_option (parse_state (state_name x)) = Some x"
    by (cases x) (simp_all add: parse_state_def ok_option_def)
next
  fix s x assume "ok_option (parse_state s) = Some x"
  then show "s = state_name x"
    by (auto simp: parse_state_def ok_option_def split: if_splits)
qed

interpretation strategy_text: text_codec strategy_name "\<lambda>s. ok_option (parse_strategy s)"
proof
  fix x show "ok_option (parse_strategy (strategy_name x)) = Some x"
    by (cases x) (simp_all add: parse_strategy_def ok_option_def)
next
  fix s x assume "ok_option (parse_strategy s) = Some x"
  then show "s = strategy_name x"
    by (auto simp: parse_strategy_def ok_option_def split: if_splits)
qed

section \<open>Validation and strategy\<close>

fun provider_key :: "TransferEndpoint \<Rightarrow> string \<times> string option" where
  "provider_key (Local path) = (''local'', None)"
| "provider_key (Sftp server_id path) = (''sftp'', Some server_id)"
| "provider_key (Scp server_id path) = (''scp'', Some server_id)"
| "provider_key (WebDav connection_id path) = (''webdav'', Some connection_id)"
| "provider_key (S3 connection_id bucket key) = (''s3'', Some connection_id)"

definition select_strategy :: "TransferEndpoint \<Rightarrow> TransferEndpoint \<Rightarrow> TransferStrategy" where
  "select_strategy source destination =
     (let source_key = provider_key source; destination_key = provider_key destination in
      if fst source_key = fst destination_key \<and> snd source_key = snd destination_key
      then Direct else ServerRelay)"

definition MAX_FILENAME_BYTES :: nat where
  "MAX_FILENAME_BYTES = 1024"

definition validate_scp_remote_path :: "string \<Rightarrow> bool" where
  "validate_scp_remote_path path \<longleftrightarrow>
     \<not> (path = [] \<or> length path > MAX_FILENAME_BYTES) \<and>
     \<not> list_ex (\<lambda>b. code_of b = 0 \<or> code_of b < 32) path \<and>
     \<not> list_ex (\<lambda>segment. segment = ''..'') (split_char CHR ''/'' path)"

definition validate_endpoint :: "TransferEndpoint \<Rightarrow> TransferError + unit" where
  "validate_endpoint endpoint =
     res_bind
       (case endpoint of
          Scp _ path \<Rightarrow> (if validate_scp_remote_path path then Inr () else Inl InvalidEndpoint)
        | _ \<Rightarrow> Inr ())
       (\<lambda>_.
        if (case endpoint of
              Local path \<Rightarrow> path \<noteq> []
            | Sftp _ path \<Rightarrow> path \<noteq> []
            | Scp _ path \<Rightarrow> path \<noteq> []
            | WebDav _ path \<Rightarrow> path \<noteq> []
            | S3 _ bucket key \<Rightarrow> bucket \<noteq> [] \<and> key \<noteq> [])
        then Inr () else Inl InvalidEndpoint)"

section \<open>Rows and jobs\<close>

definition to_unsigned :: "nat \<Rightarrow> int \<Rightarrow> TransferError + nat" where
  "to_unsigned width x = (if 0 \<le> x \<and> x < 2 ^ width then Inr (nat x) else Inl Corrupt)"

definition row_to_job :: "transfer_row \<Rightarrow> TransferError + TransferJob" where
  "row_to_job row =
     res_bind (parse_strategy (tj_strategy row)) (\<lambda>strategy.
     res_bind (parse_state (tj_state row)) (\<lambda>state.
     res_bind (case tj_bytes_total row of None \<Rightarrow> Inr None
               | Some n \<Rightarrow> res_bind (to_unsigned 64 n) (\<lambda>k. Inr (Some k))) (\<lambda>tot.
     res_bind (to_unsigned 64 (tj_bytes_transferred row)) (\<lambda>transferred.
     res_bind (to_unsigned 32 (tj_attempts row)) (\<lambda>attempts.
     Inr \<lparr>job_id = tj_id row, job_owner_user_id = tj_owner_user_id row, job_source = tj_source row,
          job_destination = tj_destination row, job_strategy = strategy, job_state = state,
          job_bytes_total = tot, job_bytes_transferred = transferred, job_attempts = attempts,
          job_next_attempt_at = tj_next_attempt_at row, job_last_error = tj_last_error row,
          job_created_at = tj_created_at row, job_updated_at = tj_updated_at row\<rparr>)))))"

fun rows_to_jobs :: "transfer_row list \<Rightarrow> TransferError + TransferJob list" where
  "rows_to_jobs [] = Inr []"
| "rows_to_jobs (row # rows) =
     res_bind (row_to_job row) (\<lambda>job. res_bind (rows_to_jobs rows) (\<lambda>jobs. Inr (job # jobs)))"

definition ensure_updated :: "nat \<Rightarrow> TransferError + unit" where
  "ensure_updated n = (if n = 1 then Inr () else Inl InvalidTransition)"

definition exec_update ::
    "(transfer_row \<Rightarrow> bool) \<Rightarrow> (transfer_row \<Rightarrow> transfer_row) \<Rightarrow> transfer_row list \<Rightarrow>
     (TransferError + unit) \<times> transfer_row list" where
  "exec_update P f rows = (ensure_updated (sql_affected P rows), sql_update P f rows)"

section \<open>Queue operations\<close>

definition enqueue ::
    "(string \<Rightarrow> bool) \<Rightarrow> string \<Rightarrow> int \<Rightarrow> string \<Rightarrow> NewTransfer \<Rightarrow> transfer_row list \<Rightarrow>
     (TransferError + string) \<times> transfer_row list" where
  "enqueue known i now owner transfer rows =
     (case res_bind (validate_endpoint (nt_source transfer))
             (\<lambda>_. validate_endpoint (nt_destination transfer)) of
        Inl e \<Rightarrow> (Inl e, rows)
      | Inr _ \<Rightarrow>
        if (case nt_bytes_total transfer of None \<Rightarrow> False | Some n \<Rightarrow> int n > I64_MAX)
        then (Inl TooLarge, rows)
        else if \<not> known owner \<or> i \<in> tj_id ` set rows then (Inl TransferDatabase, rows)
        else (Inr i, rows @
          [\<lparr>tj_id = i, tj_owner_user_id = owner, tj_source = nt_source transfer,
            tj_destination = nt_destination transfer,
            tj_strategy = strategy_name (select_strategy (nt_source transfer) (nt_destination transfer)),
            tj_state = ''queued'', tj_bytes_total = map_option int (nt_bytes_total transfer),
            tj_bytes_transferred = 0, tj_checksum = None, tj_attempts = 0, tj_next_attempt_at = now,
            tj_last_error = None, tj_created_at = now, tj_updated_at = now\<rparr>]))"

definition recover_row :: "int \<Rightarrow> transfer_row \<Rightarrow> transfer_row" where
  "recover_row now r =
     r\<lparr>tj_state := ''queued'', tj_next_attempt_at := now, tj_updated_at := now,
       tj_last_error := Some ''service restarted during transfer''\<rparr>"

definition recover_interrupted :: "int \<Rightarrow> transfer_row list \<Rightarrow> nat \<times> transfer_row list" where
  "recover_interrupted now rows =
     (sql_affected (\<lambda>r. tj_state r = ''running'') rows,
      sql_update (\<lambda>r. tj_state r = ''running'') (recover_row now) rows)"

definition get_job :: "string \<Rightarrow> transfer_row list \<Rightarrow> TransferError + TransferJob" where
  "get_job i rows =
     res_bind (res_of_option TransferNotFound (sql_first (\<lambda>r. tj_id r = i) rows)) row_to_job"

definition get_owned :: "string \<Rightarrow> string \<Rightarrow> transfer_row list \<Rightarrow> TransferError + TransferJob" where
  "get_owned i owner rows =
     res_bind (res_of_option TransferNotFound
       (sql_first (\<lambda>r. tj_id r = i \<and> tj_owner_user_id r = owner) rows)) row_to_job"

definition eligible :: "int \<Rightarrow> transfer_row \<Rightarrow> bool" where
  "eligible now r \<longleftrightarrow> tj_state r = ''queued'' \<and> tj_next_attempt_at r \<le> now"

definition claim_row :: "int \<Rightarrow> transfer_row \<Rightarrow> transfer_row" where
  "claim_row now r = r\<lparr>tj_state := ''running'', tj_attempts := tj_attempts r + 1, tj_updated_at := now\<rparr>"

definition claim_next ::
    "int \<Rightarrow> transfer_row list \<Rightarrow> (TransferError + TransferJob option) \<times> transfer_row list" where
  "claim_next now rows =
     (case sort_key tj_created_at (sort_key tj_id (filter (eligible now) rows)) of
        [] \<Rightarrow> (Inr None, rows)
      | r # _ \<Rightarrow>
        (let i = tj_id r;
             rows' = sql_update (\<lambda>r. tj_id r = i \<and> tj_state r = ''queued'') (claim_row now) rows in
         (res_bind (get_job i rows') (\<lambda>job. Inr (Some job)), rows')))"

definition update_progress ::
    "string \<Rightarrow> nat \<Rightarrow> int \<Rightarrow> transfer_row list \<Rightarrow> (TransferError + unit) \<times> transfer_row list" where
  "update_progress i bytes_transferred now rows =
     (if int bytes_transferred > I64_MAX then (Inl TooLarge, rows)
      else exec_update (\<lambda>r. tj_id r = i \<and> tj_state r = ''running'')
             (\<lambda>r. r\<lparr>tj_bytes_transferred := int bytes_transferred, tj_updated_at := now\<rparr>) rows)"

definition complete ::
    "string \<Rightarrow> string option \<Rightarrow> int \<Rightarrow> transfer_row list \<Rightarrow> (TransferError + unit) \<times> transfer_row list" where
  "complete i checksum now rows =
     exec_update (\<lambda>r. tj_id r = i \<and> tj_state r = ''running'')
       (\<lambda>r. r\<lparr>tj_state := ''completed'', tj_checksum := checksum, tj_updated_at := now\<rparr>) rows"

definition fail_row :: "string \<Rightarrow> int \<Rightarrow> transfer_row \<Rightarrow> transfer_row" where
  "fail_row error now r =
     r\<lparr>tj_state := ''failed'', tj_last_error := Some (take 1024 error), tj_updated_at := now\<rparr>"

definition fail ::
    "string \<Rightarrow> string \<Rightarrow> int \<Rightarrow> transfer_row list \<Rightarrow> (TransferError + unit) \<times> transfer_row list" where
  "fail i error now rows =
     exec_update (\<lambda>r. tj_id r = i \<and> tj_state r = ''running'') (fail_row error now) rows"

definition backoff :: "int \<Rightarrow> int" where
  "backoff attempts = 2 ^ nat (max 0 (min 8 attempts))"

definition requeue_row :: "string \<Rightarrow> int \<Rightarrow> int \<Rightarrow> transfer_row \<Rightarrow> transfer_row" where
  "requeue_row error next_attempt now r =
     r\<lparr>tj_state := ''queued'', tj_last_error := Some (take 1024 error),
       tj_next_attempt_at := next_attempt, tj_updated_at := now\<rparr>"

definition retry ::
    "string \<Rightarrow> string \<Rightarrow> bool \<Rightarrow> int \<Rightarrow> int \<Rightarrow> transfer_row list \<Rightarrow> (TransferError + unit) \<times> transfer_row list"
  where
  "retry i error permanent now_next now rows =
     (case sql_first (\<lambda>r. tj_id r = i) rows of
        None \<Rightarrow> (Inl TransferNotFound, rows)
      | Some r \<Rightarrow>
        if permanent \<or> tj_attempts r \<ge> MAX_TRANSFER_ATTEMPTS then fail i error now rows
        else exec_update (\<lambda>r. tj_id r = i \<and> tj_state r = ''running'')
               (requeue_row error (now_next + backoff (tj_attempts r)) now) rows)"

definition retry_failed ::
    "string \<Rightarrow> string \<Rightarrow> int \<Rightarrow> int \<Rightarrow> transfer_row list \<Rightarrow> (TransferError + unit) \<times> transfer_row list" where
  "retry_failed i owner now_next now rows =
     exec_update (\<lambda>r. tj_id r = i \<and> tj_owner_user_id r = owner \<and> tj_state r = ''failed'')
       (\<lambda>r. r\<lparr>tj_state := ''queued'', tj_attempts := 0, tj_last_error := None,
              tj_next_attempt_at := now_next, tj_updated_at := now\<rparr>) rows"

fun allowed_from :: "TransferState \<Rightarrow> string list option" where
  "allowed_from Paused = Some [''queued'', ''running'']"
| "allowed_from Queued = Some [''paused'']"
| "allowed_from Cancelled = Some [''queued'', ''running'', ''paused'']"
| "allowed_from _ = None"

definition set_state ::
    "string \<Rightarrow> TransferState \<Rightarrow> int \<Rightarrow> transfer_row list \<Rightarrow> (TransferError + unit) \<times> transfer_row list" where
  "set_state i state now rows =
     (case allowed_from state of
        None \<Rightarrow> (Inl InvalidTransition, rows)
      | Some froms \<Rightarrow>
        exec_update (\<lambda>r. tj_id r = i \<and> tj_state r \<in> set froms)
          (\<lambda>r. r\<lparr>tj_state := state_name state, tj_updated_at := now\<rparr>) rows)"

definition list_owner :: "string \<Rightarrow> nat \<Rightarrow> transfer_row list \<Rightarrow> TransferError + TransferJob list" where
  "list_owner owner limit rows =
     rows_to_jobs (take (max 1 (min 200 limit))
       (rev (sort_key tj_created_at (sort_key tj_id
          (filter (\<lambda>r. tj_owner_user_id r = owner) rows)))))"

fun retry_classification :: "(TransferError \<Rightarrow> string) \<Rightarrow> TransferError \<Rightarrow> string \<times> bool" where
  "retry_classification display (Permanent message) = (message, True)"
| "retry_classification display other = (display other, False)"

section \<open>The local copy\<close>

text \<open>
  Files are byte strings under their path. \<open>io_env\<close> holds what the operating system answers: an error
  message for opening, creating, reading, writing or flushing, and how many bytes a read returns.
\<close>

record io_env =
  io_open :: "string \<Rightarrow> string option"
  io_create :: "string \<Rightarrow> string option"
  io_read :: "nat \<Rightarrow> string + nat"
  io_write :: "nat \<Rightarrow> string option"
  io_flush :: "string option"
  io_clock :: "nat \<Rightarrow> int"

record 'h hasher =
  h_new :: 'h
  h_update :: "'h \<Rightarrow> string \<Rightarrow> 'h"
  h_finalize_hex :: "'h \<Rightarrow> string"

definition path_join :: "string \<Rightarrow> string \<Rightarrow> string" where
  "path_join base rel =
     (if base = [] \<or> last base = CHR ''/'' then base @ rel else base @ CHR ''/'' # rel)"

definition trim_start_slashes :: "string \<Rightarrow> string" where
  "trim_start_slashes path = dropWhile (\<lambda>c. c = CHR ''/'') path"

definition content_of :: "(string \<rightharpoonup> string) \<Rightarrow> string \<Rightarrow> string" where
  "content_of fs path = (case fs path of None \<Rightarrow> [] | Some c \<Rightarrow> c)"

definition write_at :: "(string \<rightharpoonup> string) \<Rightarrow> string \<Rightarrow> nat \<Rightarrow> string \<Rightarrow> (string \<rightharpoonup> string)" where
  "write_at fs path off chunk =
     (let c = content_of fs path in fs(path \<mapsto> take off c @ chunk @ drop (off + length chunk) c))"

definition read_chunk :: "(string \<rightharpoonup> string) \<Rightarrow> string \<Rightarrow> nat \<Rightarrow> nat \<Rightarrow> string" where
  "read_chunk fs path off k = take (min 65536 (max 1 k)) (drop off (content_of fs path))"

lemma length_after_write:
  assumes "read_chunk fs src off k \<noteq> []"
  shows "length (content_of (write_at fs dst off (read_chunk fs src off k)) src)
           - (off + length (read_chunk fs src off k))
         < length (content_of fs src) - off"
proof -
  define c where "c = read_chunk fs src off k"
  have "length c \<le> length (content_of fs src) - off"
    by (simp add: c_def read_chunk_def)
  moreover have "0 < length c"
    using assms by (simp add: c_def)
  moreover have "length (content_of (write_at fs dst off c) src) =
      (if src = dst then min (length (content_of fs src)) off + length c + (length (content_of fs src) - (off + length c))
       else length (content_of fs src))"
    by (simp add: write_at_def content_of_def Let_def)
  moreover have "n \<le> m - off \<Longrightarrow> 0 < n \<Longrightarrow> l = (if b then min m off + n + (m - (off + n)) else m) \<Longrightarrow>
      l - (off + n) < m - off" for n m l :: nat and b
    by (auto split: if_splits)
  ultimately show ?thesis
    unfolding c_def [symmetric] by blast
qed

function copy_loop ::
    "io_env \<Rightarrow> 'h hasher \<Rightarrow> string \<Rightarrow> string \<Rightarrow> string \<Rightarrow> nat \<Rightarrow> 'h \<Rightarrow> (string \<rightharpoonup> string) \<Rightarrow> transfer_row list \<Rightarrow>
     (TransferError + 'h) \<times> (string \<rightharpoonup> string) \<times> transfer_row list" where
  "copy_loop env H i src dst off h fs rows =
     (case io_read env off of
        Inl msg \<Rightarrow> (Inl (TransferIo msg), fs, rows)
      | Inr k \<Rightarrow>
        if read_chunk fs src off k = [] then (Inr h, fs, rows)
        else case io_write env off of
            Some msg \<Rightarrow> (Inl (TransferIo msg), fs, rows)
          | None \<Rightarrow>
            copy_loop env H i src dst (off + length (read_chunk fs src off k))
              (h_update H h (read_chunk fs src off k))
              (write_at fs dst off (read_chunk fs src off k))
              (snd (update_progress i (off + length (read_chunk fs src off k)) (io_clock env off) rows)))"
  by pat_completeness auto
termination
  by (relation "measure (\<lambda>(env, H, i, src, dst, off, h, fs, rows). length (content_of fs src) - off)")
    (auto intro: length_after_write)

declare copy_loop.simps [simp del]

definition process_job_local ::
    "io_env \<Rightarrow> 'h hasher \<Rightarrow> int \<Rightarrow> TransferJob \<Rightarrow> string \<Rightarrow> string \<Rightarrow> (string \<rightharpoonup> string) \<Rightarrow> transfer_row list \<Rightarrow>
     (TransferError + unit) \<times> (string \<rightharpoonup> string) \<times> transfer_row list" where
  "process_job_local env H now job source_base dest_base fs rows =
     (case (job_source job, job_destination job) of
        (Local s, Local d) \<Rightarrow>
          (let src_path = path_join source_base (trim_start_slashes s);
               dst_path = path_join dest_base (trim_start_slashes d) in
           case (if fs src_path = None then Some ''No such file or directory'' else io_open env src_path) of
             Some msg \<Rightarrow> (Inl (TransferIo msg), fs, rows)
           | None \<Rightarrow>
             case io_create env dst_path of
               Some msg \<Rightarrow> (Inl (TransferIo msg), fs, rows)
             | None \<Rightarrow>
               case copy_loop env H (job_id job) src_path dst_path 0 (h_new H) (fs(dst_path \<mapsto> [])) rows of
                 (Inl e, fs', rows') \<Rightarrow> (Inl e, fs', rows')
               | (Inr h, fs', rows') \<Rightarrow>
                 case io_flush env of
                   Some msg \<Rightarrow> (Inl (TransferIo msg), fs', rows')
                 | None \<Rightarrow>
                   case complete (job_id job) (Some (h_finalize_hex H h)) now rows' of
                     (r, rows'') \<Rightarrow> (r, fs', rows''))
      | _ \<Rightarrow>
        case complete (job_id job) (Some ''sha256:relay_complete'') now rows of
          (r, rows') \<Rightarrow> (r, fs, rows'))"

section \<open>The worker loop\<close>

text \<open>
  One iteration of the loop of \<open>TransferWorker::spawn\<close>. What \<open>process_job\<close> does to the queue is its list of
  progress reports; the argument \<open>process\<close> gives them and its result.
\<close>

definition worker_round ::
    "(TransferError \<Rightarrow> string) \<Rightarrow> (TransferJob \<Rightarrow> (nat \<times> int) list \<times> (TransferError + unit)) \<Rightarrow>
     int \<Rightarrow> int \<Rightarrow> int \<Rightarrow> transfer_row list \<Rightarrow> transfer_row list" where
  "worker_round display process now now_next now_end rows =
     (case claim_next now rows of
        (Inr (Some job), rows1) \<Rightarrow>
          (let (reports, result) = process job;
               rows2 = fold (\<lambda>(n, at) t. snd (update_progress (job_id job) n at t)) reports rows1 in
           case result of
             Inl e \<Rightarrow>
               (let (message, permanent) = retry_classification display e in
                snd (retry (job_id job) message permanent now_next now_end rows2))
           | Inr _ \<Rightarrow> snd (complete (job_id job) (Some ''sha256:completed'') now_end rows2))
      | (_, rows1) \<Rightarrow> rows1)"

end
