(* ===== verification/Transfer_Queue.thy ===== *)
theory Transfer_Queue
  imports Transfers
begin

text \<open>
  Histories of the transfer queue. A history is a list of commands, one per operation of
  \<open>TransferQueue\<close> that changes the table; \<open>job_step\<close> is the state machine of a single job, and every
  command acts on every row as one of its steps. The properties are about histories: what a terminal
  state means, who is claimed next, how often a job can be attempted, and what a restart does to that.
\<close>

section \<open>Histories\<close>

datatype queue_cmd =
    Enqueue string int string NewTransfer
  | Recover int
  | Claim int
  | Progress string nat int
  | Complete string "string option" int
  | Retry string string bool int int
  | Fail string string int
  | RetryFailed string string int int
  | SetState string TransferState int

fun queue_do :: "(string \<Rightarrow> bool) \<Rightarrow> queue_cmd \<Rightarrow> transfer_row list \<Rightarrow> transfer_row list" where
  "queue_do known (Enqueue i now owner transfer) t = snd (enqueue known i now owner transfer t)"
| "queue_do known (Recover now) t = snd (recover_interrupted now t)"
| "queue_do known (Claim now) t = snd (claim_next now t)"
| "queue_do known (Progress i n now) t = snd (update_progress i n now t)"
| "queue_do known (Complete i checksum now) t = snd (complete i checksum now t)"
| "queue_do known (Retry i err permanent now_next now) t = snd (retry i err permanent now_next now t)"
| "queue_do known (Fail i err now) t = snd (fail i err now t)"
| "queue_do known (RetryFailed i owner now_next now) t = snd (retry_failed i owner now_next now t)"
| "queue_do known (SetState i state now) t = snd (set_state i state now t)"

definition queue_run :: "(string \<Rightarrow> bool) \<Rightarrow> queue_cmd list \<Rightarrow> transfer_row list \<Rightarrow> transfer_row list" where
  "queue_run known cs t = fold (queue_do known) cs t"

text \<open>The row constraint after \<open>n\<close> commands: the \<open>CHECK\<close>s of the table and the ranges of the counters.\<close>

definition job_row_ok :: "nat \<Rightarrow> transfer_row \<Rightarrow> bool" where
  "job_row_ok n r \<longleftrightarrow>
     tj_state r \<in> range state_name \<and> tj_strategy r \<in> range strategy_name \<and>
     (case tj_bytes_total r of None \<Rightarrow> True | Some b \<Rightarrow> 0 \<le> b \<and> b \<le> I64_MAX) \<and>
     0 \<le> tj_bytes_transferred r \<and> tj_bytes_transferred r \<le> I64_MAX \<and>
     0 \<le> tj_attempts r \<and> tj_attempts r \<le> int n"

section \<open>The state machine of a job\<close>

inductive job_step :: "queue_cmd \<Rightarrow> transfer_row \<Rightarrow> transfer_row \<Rightarrow> bool" where
  keep: "job_step c r r"
| recover: "tj_state r = ''running'' \<Longrightarrow> job_step (Recover now) r (recover_row now r)"
| claim: "eligible now r \<Longrightarrow> job_step (Claim now) r (claim_row now r)"
| progress: "tj_id r = i \<Longrightarrow> tj_state r = ''running'' \<Longrightarrow> int n \<le> I64_MAX \<Longrightarrow>
    job_step (Progress i n now) r (r\<lparr>tj_bytes_transferred := int n, tj_updated_at := now\<rparr>)"
| complete: "tj_id r = i \<Longrightarrow> tj_state r = ''running'' \<Longrightarrow>
    job_step (Complete i checksum now) r
      (r\<lparr>tj_state := ''completed'', tj_checksum := checksum, tj_updated_at := now\<rparr>)"
| fail: "tj_id r = i \<Longrightarrow> tj_state r = ''running'' \<Longrightarrow> job_step (Fail i err now) r (fail_row err now r)"
| give_up: "tj_id r = i \<Longrightarrow> tj_state r = ''running'' \<Longrightarrow> permanent \<or> MAX_TRANSFER_ATTEMPTS \<le> tj_attempts r \<Longrightarrow>
    job_step (Retry i err permanent now_next now) r (fail_row err now r)"
| requeue: "tj_id r = i \<Longrightarrow> tj_state r = ''running'' \<Longrightarrow> \<not> permanent \<Longrightarrow> tj_attempts r < MAX_TRANSFER_ATTEMPTS \<Longrightarrow>
    job_step (Retry i err permanent now_next now) r
      (requeue_row err (now_next + backoff (tj_attempts r)) now r)"
| retry_failed: "tj_id r = i \<Longrightarrow> tj_owner_user_id r = owner \<Longrightarrow> tj_state r = ''failed'' \<Longrightarrow>
    job_step (RetryFailed i owner now_next now) r
      (r\<lparr>tj_state := ''queued'', tj_attempts := 0, tj_last_error := None,
         tj_next_attempt_at := now_next, tj_updated_at := now\<rparr>)"
| set_state: "tj_id r = i \<Longrightarrow> allowed_from state = Some froms \<Longrightarrow> tj_state r \<in> set froms \<Longrightarrow>
    job_step (SetState i state now) r (r\<lparr>tj_state := state_name state, tj_updated_at := now\<rparr>)"

inductive_cases job_stepE: "job_step c r r'"

lemmas row_defs = recover_row_def claim_row_def fail_row_def requeue_row_def

definition acts :: "queue_cmd \<Rightarrow> transfer_row list \<Rightarrow> transfer_row list \<Rightarrow> bool" where
  "acts c t t' \<longleftrightarrow> (\<exists>g. t' = map g t \<and> (\<forall>r\<in>set t. job_step c r (g r)))"

lemma acts_refl: "acts c t t"
  unfolding acts_def by (intro exI [of _ id]) (simp add: job_step.keep)

lemma acts_update:
  assumes "\<And>r. r \<in> set t \<Longrightarrow> P r \<Longrightarrow> job_step c r (f r)"
  shows "acts c t (sql_update P f t)"
  unfolding acts_def sql_update_def
  using assms by (intro exI [of _ "\<lambda>r. if P r then f r else r"]) (auto intro: job_step.keep)

lemma acts_exec: "(\<And>r. r \<in> set t \<Longrightarrow> P r \<Longrightarrow> job_step c r (f r)) \<Longrightarrow> acts c t (snd (exec_update P f t))"
  by (simp add: exec_update_def acts_update)

text \<open>The row that \<open>claim_next\<close> picks: the oldest eligible one, ties by id.\<close>

definition next_row :: "int \<Rightarrow> transfer_row list \<Rightarrow> transfer_row option" where
  "next_row now t =
     (case sort_key tj_created_at (sort_key tj_id (filter (eligible now) t)) of [] \<Rightarrow> None | r # _ \<Rightarrow> Some r)"

lemma sort_keys_hd:
  assumes "sort_key f (sort_key g xs) = r # rs" and "x \<in> set xs"
  shows "f r < f x \<or> f r = f x \<and> g r \<le> g x"
proof -
  let ?ys = "sort_key g xs"
  have "sorted (map f (r # rs))"
    using sorted_sort_key [of f ?ys] assms(1) by simp
  moreover have x: "x \<in> set (r # rs)"
    using assms by (metis set_sort)
  ultimately have le: "f r \<le> f x" by auto
  have "filter (\<lambda>y. f y = f r) ?ys = filter (\<lambda>y. f y = f r) (r # rs)"
    using sort_key_stable [of f "f r" ?ys] assms(1) by simp
  moreover have "sorted (map g (filter (\<lambda>y. f y = f r) ?ys))"
    by (rule sorted_filter) (rule sorted_sort_key)
  ultimately have "sorted (map g (r # filter (\<lambda>y. f y = f r) rs))" by simp
  then have "f x = f r \<longrightarrow> g r \<le> g x"
    using x by auto
  with le show ?thesis by auto
qed

lemma next_row_Some:
  assumes "next_row now t = Some r"
  shows "r \<in> set t" and "eligible now r"
    and "\<And>x. x \<in> set t \<Longrightarrow> eligible now x \<Longrightarrow>
      tj_created_at r < tj_created_at x \<or> tj_created_at r = tj_created_at x \<and> tj_id r \<le> tj_id x"
proof -
  obtain rs where eq: "sort_key tj_created_at (sort_key tj_id (filter (eligible now) t)) = r # rs"
    using assms by (auto simp: next_row_def split: list.splits)
  then have "r \<in> set (sort_key tj_created_at (sort_key tj_id (filter (eligible now) t)))" by simp
  then show "r \<in> set t" and "eligible now r" by simp_all
  show "\<And>x. x \<in> set t \<Longrightarrow> eligible now x \<Longrightarrow>
      tj_created_at r < tj_created_at x \<or> tj_created_at r = tj_created_at x \<and> tj_id r \<le> tj_id x"
    using sort_keys_hd [OF eq] by simp
qed

lemma next_row_None: "next_row now t = None \<longleftrightarrow> (\<forall>r\<in>set t. \<not> eligible now r)"
proof -
  let ?s = "sort_key tj_created_at (sort_key tj_id (filter (eligible now) t))"
  have "next_row now t = None \<longleftrightarrow> ?s = []"
    unfolding next_row_def by (simp split: list.splits)
  also have "\<dots> \<longleftrightarrow> set ?s = {}"
    by (rule set_empty [symmetric])
  finally show ?thesis by auto
qed

lemma claim_next_next_row:
  "claim_next now t =
     (case next_row now t of None \<Rightarrow> (Inr None, t)
      | Some r \<Rightarrow>
        (let t' = sql_update (\<lambda>x. tj_id x = tj_id r \<and> tj_state x = ''queued'') (claim_row now) t in
         (res_bind (get_job (tj_id r) t') (\<lambda>job. Inr (Some job)), t')))"
  by (simp add: claim_next_def next_row_def Let_def split: list.splits)

lemma claim_update_eq:
  assumes "distinct (map tj_id t)" and "r \<in> set t" and "eligible now r"
  shows "sql_update (\<lambda>x. tj_id x = tj_id r \<and> tj_state x = ''queued'') (claim_row now) t =
    sql_update (\<lambda>x. x = r) (claim_row now) t"
proof -
  have "tj_id x = tj_id r \<and> tj_state x = ''queued'' \<longleftrightarrow> x = r" if "x \<in> set t" for x
    using assms that by (auto simp: eligible_def distinct_map inj_on_def)
  then show ?thesis by (simp add: sql_update_def)
qed

lemma acts_claim:
  assumes "distinct (map tj_id t)"
  shows "acts (Claim now) t (snd (claim_next now t))"
proof (cases "next_row now t")
  case None
  then show ?thesis by (simp add: claim_next_next_row acts_refl)
next
  case (Some r)
  with next_row_Some [OF Some] assms show ?thesis
    by (auto simp: claim_next_next_row Let_def claim_update_eq intro!: acts_update job_step.claim)
qed

lemma acts_retry:
  assumes "distinct (map tj_id t)"
  shows "acts (Retry i err permanent now_next now) t (snd (retry i err permanent now_next now t))"
proof (cases "sql_first (\<lambda>r. tj_id r = i) t")
  case None
  then show ?thesis by (simp add: retry_def acts_refl)
next
  case (Some r)
  then have r: "r \<in> set t" "tj_id r = i" by (auto dest: sql_first_Some)
  have same: "x = r" if "x \<in> set t" "tj_id x = i" for x
    using assms r that by (auto simp: distinct_map inj_on_def)
  show ?thesis
  proof (cases "permanent \<or> MAX_TRANSFER_ATTEMPTS \<le> tj_attempts r")
    case True
    with Some same show ?thesis
      by (auto simp: retry_def fail_def intro!: acts_exec job_step.give_up)
  next
    case False
    have "acts (Retry i err permanent now_next now) t
      (snd (exec_update (\<lambda>r. tj_id r = i \<and> tj_state r = ''running'')
         (requeue_row err (now_next + backoff (tj_attempts r)) now) t))"
      using False same by (intro acts_exec) (metis job_step.requeue not_le)
    with Some False show ?thesis by (simp add: retry_def)
  qed
qed

text \<open>Every command that is not an insertion acts on every row as a step of the state machine.\<close>

lemma queue_do_acts:
  assumes "distinct (map tj_id t)"
  shows "(\<forall>i now owner tr. c \<noteq> Enqueue i now owner tr) \<Longrightarrow> acts c t (queue_do known c t)"
proof (cases c)
  case (Recover now)
  then show ?thesis by (auto simp: recover_interrupted_def intro!: acts_update job_step.recover)
next
  case (Progress i n now)
  then show ?thesis
    by (auto simp: update_progress_def intro!: acts_refl acts_exec job_step.progress)
next
  case (SetState i state now)
  then show ?thesis
    by (auto simp: set_state_def split: option.splits intro!: acts_refl acts_exec job_step.set_state)
qed (auto simp: acts_claim acts_retry assms complete_def fail_def retry_failed_def
       intro!: acts_exec job_step.complete job_step.fail job_step.retry_failed)

section \<open>Invariants of the state machine\<close>

lemma job_step_key: "job_step c r r' \<Longrightarrow> tj_id r' = tj_id r \<and> tj_owner_user_id r' = tj_owner_user_id r"
  by (cases rule: job_step.cases) (auto simp: row_defs)

lemma job_row_ok_mono: "job_row_ok n r \<Longrightarrow> n \<le> m \<Longrightarrow> job_row_ok m r"
  by (auto simp: job_row_ok_def)

lemma state_names [simp]:
  "''queued'' \<in> range state_name" "''running'' \<in> range state_name" "''completed'' \<in> range state_name"
  "''failed'' \<in> range state_name"
  by (metis rangeI state_name.simps(1), metis rangeI state_name.simps(2), metis rangeI state_name.simps(4),
      metis rangeI state_name.simps(5))

lemma job_step_ok: "job_step c r r' \<Longrightarrow> job_row_ok n r \<Longrightarrow> job_row_ok (Suc n) r'"
  by (cases rule: job_step.cases) (auto simp: row_defs job_row_ok_def split: option.splits)

lemma acts_key: "acts c t t' \<Longrightarrow> map tj_id t' = map tj_id t"
  using job_step_key by (fastforce simp: acts_def)

lemma acts_ok:
  assumes "acts c t t'" and "table_ok tj_id (job_row_ok n) t"
  shows "table_ok tj_id (job_row_ok (Suc n)) t'"
  using assms job_step_ok unfolding table_ok_def acts_key [OF assms(1)]
  by (fastforce simp: list_all_iff acts_def)

lemma enqueue_rows:
  "snd (enqueue known i now owner tr t) = t \<or>
   (\<exists>r. snd (enqueue known i now owner tr t) = t @ [r] \<and> tj_id r \<notin> tj_id ` set t \<and>
        job_row_ok 0 r \<and> tj_state r = ''queued'')"
  by (auto simp: enqueue_def job_row_ok_def I64_MAX_def split: sum.splits option.splits)

text \<open>The cases of a command: it inserts one fresh row, or it acts on the rows.\<close>

lemma queue_do_cases:
  assumes "distinct (map tj_id t)"
  obtains (insert) r where "queue_do known c t = t @ [r]" and "tj_id r \<notin> tj_id ` set t"
      and "job_row_ok 0 r" and "tj_state r = ''queued''"
    | (act) "acts c t (queue_do known c t)"
proof (cases "\<exists>i now owner tr. c = Enqueue i now owner tr")
  case True
  then obtain i now owner tr where "c = Enqueue i now owner tr" by blast
  then show ?thesis
    using enqueue_rows [of known i now owner tr t] insert act acts_refl by fastforce
next
  case False
  then show ?thesis using act queue_do_acts [OF assms] by blast
qed

definition queue_init :: "nat \<times> transfer_row list \<Rightarrow> bool" where
  "queue_init s \<longleftrightarrow> s = (0, [])"

definition queue_step :: "(string \<Rightarrow> bool) \<Rightarrow> nat \<times> transfer_row list \<Rightarrow> nat \<times> transfer_row list \<Rightarrow> bool" where
  "queue_step known s s' \<longleftrightarrow> fst s' = Suc (fst s) \<and> (\<exists>c. snd s' = queue_do known c (snd s))"

definition queue_inv :: "nat \<times> transfer_row list \<Rightarrow> bool" where
  "queue_inv s \<longleftrightarrow> table_ok tj_id (job_row_ok (fst s)) (snd s)"

lemma queue_do_inv:
  assumes "table_ok tj_id (job_row_ok n) t"
  shows "table_ok tj_id (job_row_ok (Suc n)) (queue_do known c t)"
proof -
  have d: "distinct (map tj_id t)" using assms by (simp add: table_ok_def)
  have up: "table_ok tj_id (job_row_ok (Suc n)) t"
    using assms by (auto simp: table_ok_def list_all_iff intro: job_row_ok_mono)
  from d show ?thesis
  proof (cases rule: queue_do_cases [where known = known and c = c])
    case (insert r)
    with up show ?thesis by (auto intro!: table_ok_insert intro: job_row_ok_mono)
  next
    case act
    with assms show ?thesis by (rule acts_ok [rotated])
  qed
qed

interpretation queue_sys: inv_system queue_init "queue_step known" queue_inv for known
  by unfold_locales (auto simp: queue_init_def queue_step_def queue_inv_def queue_do_inv)

lemma queue_run_steps: "(queue_step known)\<^sup>*\<^sup>* (n, t) (n + length cs, queue_run known cs t)"
proof (induction cs arbitrary: n t)
  case Nil
  then show ?case by (simp add: queue_run_def)
next
  case (Cons c cs)
  have "queue_step known (n, t) (Suc n, queue_do known c t)" by (auto simp: queue_step_def)
  moreover have "(queue_step known)\<^sup>*\<^sup>* (Suc n, queue_do known c t) (Suc n + length cs, queue_run known cs (queue_do known c t))"
    by (rule Cons.IH)
  ultimately show ?case
    by (simp add: queue_run_def converse_rtranclp_into_rtranclp)
qed

lemma queue_run_inv: "table_ok tj_id (job_row_ok (length cs)) (queue_run known cs [])"
  using queue_sys.reach_inv [of "(0, [])" known, OF _ queue_run_steps [of known 0 "[]" cs]]
  by (simp add: queue_init_def queue_inv_def)

lemma queue_run_distinct: "distinct (map tj_id t) \<Longrightarrow> distinct (map tj_id (queue_run known cs t))"
proof (induction cs arbitrary: t)
  case (Cons c cs)
  from Cons.prems have "distinct (map tj_id (queue_do known c t))"
  proof (cases rule: queue_do_cases [where known = known and c = c])
    case act
    with Cons.prems show ?thesis by (simp add: acts_key)
  qed (use Cons.prems in auto)
  with Cons.IH show ?case by (simp add: queue_run_def)
qed (simp add: queue_run_def)

text \<open>Rows that no step can change survive any history.\<close>

lemma queue_run_row_kept:
  assumes "\<And>c r'. c \<in> set cs \<Longrightarrow> job_step c r r' \<Longrightarrow> r' = r"
    and "distinct (map tj_id t)" and "r \<in> set t"
  shows "r \<in> set (queue_run known cs t)"
  using assms
proof (induction cs arbitrary: t)
  case (Cons c cs)
  have "r \<in> set (queue_do known c t)"
    using Cons.prems(2)
  proof (cases rule: queue_do_cases [where known = known and c = c])
    case act
    with Cons.prems show ?thesis by (force simp: acts_def)
  qed (use Cons.prems in auto)
  moreover have "distinct (map tj_id (queue_do known c t))"
    using queue_run_distinct [OF Cons.prems(2), of known "[c]"] by (simp add: queue_run_def)
  ultimately have "r \<in> set (queue_run known cs (queue_do known c t))"
    using Cons.prems(1) by (intro Cons.IH) auto
  then show ?case by (simp add: queue_run_def)
qed (simp add: queue_run_def)

lemma decode_row:
  assumes "job_row_ok n r" and "n < 2 ^ 32"
  obtains job where "row_to_job r = Inr job" and "state_name (job_state job) = tj_state r"
    and "job_id job = tj_id r" and "job_owner_user_id job = tj_owner_user_id r"
    and "int (job_attempts job) = tj_attempts r"
proof -
  obtain st sy where st: "tj_state r = state_name st" and sy: "tj_strategy r = strategy_name sy"
    using assms(1) by (auto simp: job_row_ok_def)
  have ps: "parse_state (state_name st) = Inr st" and py: "parse_strategy (strategy_name sy) = Inr sy"
    by (cases st; simp add: parse_state_def) (cases sy; simp add: parse_strategy_def)
  have "\<exists>b. (case tj_bytes_total r of None \<Rightarrow> Inr None
      | Some n \<Rightarrow> res_bind (to_unsigned 64 n) (\<lambda>k. Inr (Some k))) = Inr b"
    using assms(1) by (auto simp: job_row_ok_def to_unsigned_def I64_MAX_def split: option.splits)
  moreover have "to_unsigned 64 (tj_bytes_transferred r) = Inr (nat (tj_bytes_transferred r))"
    using assms(1) by (auto simp: job_row_ok_def to_unsigned_def I64_MAX_def)
  moreover have "to_unsigned 32 (tj_attempts r) = Inr (nat (tj_attempts r))"
    using assms by (auto simp: job_row_ok_def to_unsigned_def)
  ultimately show ?thesis
    using that assms(1) unfolding row_to_job_def st sy ps py by (auto simp: job_row_ok_def)
qed

section \<open>Properties of the queue\<close>

lemma job_step_terminal:
  "job_step c r r' \<Longrightarrow> tj_state r = ''completed'' \<or> tj_state r = ''cancelled'' \<Longrightarrow> r' = r"
  by (cases rule: job_step.cases) (auto simp: eligible_def elim!: allowed_from.elims)

lemma job_step_failed:
  "job_step c r r' \<Longrightarrow> tj_state r = ''failed'' \<Longrightarrow>
    (\<And>a b. c \<noteq> RetryFailed (tj_id r) (tj_owner_user_id r) a b) \<Longrightarrow> r' = r"
  by (cases rule: job_step.cases) (auto simp: eligible_def elim!: allowed_from.elims)

definition terminal_for :: "queue_cmd list \<Rightarrow> transfer_row \<Rightarrow> bool" where
  "terminal_for cs r \<longleftrightarrow>
     tj_state r = ''completed'' \<or> tj_state r = ''cancelled'' \<or>
     tj_state r = ''failed'' \<and>
       \<not> list_ex (\<lambda>c. case c of RetryFailed i owner _ _ \<Rightarrow> i = tj_id r \<and> owner = tj_owner_user_id r
                            | _ \<Rightarrow> False) cs"

text \<open>
  (C4) Terminal states are final. A job that a history has brought to completed or cancelled is never
  changed again by any later history, and a failed job only by a \<open>retry_failed\<close> for that job by its owner.
\<close>

theorem terminal_states_absorbing:
  assumes "r \<in> set (queue_run known cs [])" and "terminal_for cs' r"
  shows "r \<in> set (queue_run known cs' (queue_run known cs []))"
proof (rule queue_run_row_kept [OF _ queue_run_distinct assms(1)])
  fix c r' assume c: "c \<in> set cs'" and step: "job_step c r r'"
  show "r' = r"
  proof (cases "tj_state r = ''failed''")
    case True
    with c assms(2) have "c \<noteq> RetryFailed (tj_id r) (tj_owner_user_id r) a b" for a b
      by (auto simp: terminal_for_def list_ex_iff)
    with True show ?thesis using job_step_failed [OF step] by blast
  next
    case False
    with assms(2) show ?thesis using job_step_terminal [OF step] by (auto simp: terminal_for_def)
  qed
qed simp

lemma get_job_row:
  assumes "distinct (map tj_id t)" and "r \<in> set t"
  shows "get_job (tj_id r) t = row_to_job r"
  using distinct_key_find [OF assms] by (simp add: get_job_def res_of_option_def)

lemma get_job_id: "get_job i t = Inr job \<Longrightarrow> job_id job = i"
  by (auto simp: get_job_def row_to_job_def res_bind_ok res_of_option_ok dest!: sql_first_Some)

lemma get_owned_row:
  assumes "distinct (map tj_id t)" and "r \<in> set t"
  shows "get_owned (tj_id r) owner t =
    (if owner = tj_owner_user_id r then row_to_job r else Inl TransferNotFound)"
proof (cases "owner = tj_owner_user_id r")
  case True
  then have "sql_first (\<lambda>x. tj_id x = tj_id r \<and> tj_owner_user_id x = owner) t = Some r"
    using assms by (simp add: distinct_key_find_where)
  with True show ?thesis by (simp add: get_owned_def res_of_option_def)
next
  case False
  then have "sql_first (\<lambda>x. tj_id x = tj_id r \<and> tj_owner_user_id x = owner) t = None"
    using assms by (auto simp: sql_first_None distinct_map inj_on_def)
  with False show ?thesis by (simp add: get_owned_def res_of_option_def)
qed

lemma rows_to_jobs_ok:
  assumes "\<And>r. r \<in> set rs \<Longrightarrow> job_row_ok n r" and "n < 2 ^ 32"
  shows "\<exists>jobs. rows_to_jobs rs = Inr jobs \<and> map job_id jobs = map tj_id rs \<and>
    map job_owner_user_id jobs = map tj_owner_user_id rs"
  using assms(1)
proof (induction rs)
  case (Cons r rs)
  then obtain jobs where "rows_to_jobs rs = Inr jobs" "map job_id jobs = map tj_id rs"
    "map job_owner_user_id jobs = map tj_owner_user_id rs" by auto
  moreover obtain job where "row_to_job r = Inr job" "job_id job = tj_id r"
    "job_owner_user_id job = tj_owner_user_id r"
    using Cons.prems assms(2) by (metis decode_row list.set_intros(1))
  ultimately show ?case by auto
qed simp

text \<open>
  No history of fewer than \<open>2 ^ 32\<close> operations leaves a job that cannot be read: every row decodes, is
  returned to its owner, is not found for anybody else, and the owner's listing succeeds with at most
  200 jobs, all of them the owner's.
\<close>

theorem queue_jobs_readable:
  assumes "length cs < 2 ^ 32" and "r \<in> set (queue_run known cs [])"
  shows "(\<exists>job. get_owned (tj_id r) (tj_owner_user_id r) (queue_run known cs []) = Inr job \<and>
            get_job (tj_id r) (queue_run known cs []) = Inr job \<and>
            state_name (job_state job) = tj_state r \<and> job_id job = tj_id r) \<and>
         (other \<noteq> tj_owner_user_id r \<longrightarrow>
            get_owned (tj_id r) other (queue_run known cs []) = Inl TransferNotFound) \<and>
         (\<exists>jobs. list_owner other limit (queue_run known cs []) = Inr jobs \<and> length jobs \<le> 200 \<and>
            (\<forall>job\<in>set jobs. job_owner_user_id job = other))"
proof -
  let ?t = "queue_run known cs []"
  have ok: "table_ok tj_id (job_row_ok (length cs)) ?t" by (rule queue_run_inv)
  then have d: "distinct (map tj_id ?t)" by (simp add: table_ok_def)
  obtain job where "row_to_job r = Inr job" "state_name (job_state job) = tj_state r" "job_id job = tj_id r"
    using decode_row [OF table_ok_rowD [OF ok assms(2)] assms(1)] .
  moreover have "\<exists>jobs. list_owner other limit ?t = Inr jobs \<and> length jobs \<le> 200 \<and>
      (\<forall>job\<in>set jobs. job_owner_user_id job = other)"
  proof -
    define rs where "rs = take (max 1 (min 200 limit)) (rev (sort_key tj_created_at (sort_key tj_id
      (filter (\<lambda>r. tj_owner_user_id r = other) ?t))))"
    have sub: "set rs \<subseteq> {r \<in> set ?t. tj_owner_user_id r = other}"
      unfolding rs_def by (rule subset_trans [OF set_take_subset]) auto
    with ok have "\<And>r. r \<in> set rs \<Longrightarrow> job_row_ok (length cs) r" by (auto dest: table_ok_rowD)
    from rows_to_jobs_ok [OF this assms(1)] obtain jobs where jobs: "rows_to_jobs rs = Inr jobs"
      "map job_id jobs = map tj_id rs" "map job_owner_user_id jobs = map tj_owner_user_id rs" by blast
    have "length jobs = length rs" using jobs(2) by (metis length_map)
    have "length rs \<le> 200" by (simp add: rs_def)
    have "job_owner_user_id ` set jobs = tj_owner_user_id ` set rs"
      using jobs(3) by (metis list.set_map)
    then have "\<forall>job\<in>set jobs. job_owner_user_id job \<in> tj_owner_user_id ` set rs"
      by blast
    with sub have "\<forall>job\<in>set jobs. job_owner_user_id job = other"
      by auto
    moreover note \<open>length jobs = length rs\<close> \<open>length rs \<le> 200\<close>
    moreover have "list_owner other limit ?t = rows_to_jobs rs"
      by (simp add: list_owner_def rs_def)
    ultimately show ?thesis
      using jobs(1) by auto
  qed
  ultimately show ?thesis
    using get_owned_row [OF d assms(2)] get_job_row [OF d assms(2)] by simp
qed

text \<open>
  Claiming is first in, first out. If some job is due, \<open>claim_next\<close> returns the due job with the least
  creation time (ties by id), running and with one more attempt, and changes no other row; if no job is
  due it returns \<open>None\<close> and changes nothing.
\<close>

theorem claim_next_fifo:
  assumes "length cs < 2 ^ 32 - 1"
  shows "(\<exists>r job. r \<in> set (queue_run known cs []) \<and> eligible now r \<and>
            (\<forall>x\<in>set (queue_run known cs []). eligible now x \<longrightarrow>
               tj_created_at r < tj_created_at x \<or> tj_created_at r = tj_created_at x \<and> tj_id r \<le> tj_id x) \<and>
            claim_next now (queue_run known cs []) =
              (Inr (Some job), map (\<lambda>x. if x = r then claim_row now r else x) (queue_run known cs [])) \<and>
            job_id job = tj_id r \<and> job_state job = Running \<and> int (job_attempts job) = tj_attempts r + 1)
       \<or> (\<forall>r\<in>set (queue_run known cs []). \<not> eligible now r) \<and>
          claim_next now (queue_run known cs []) = (Inr None, queue_run known cs [])"
proof (cases "next_row now (queue_run known cs [])")
  case None
  then have "claim_next now (queue_run known cs []) = (Inr None, queue_run known cs [])"
    by (simp add: claim_next_next_row)
  with None show ?thesis unfolding next_row_None by blast
next
  case (Some r)
  let ?t = "queue_run known cs []"
  have ok: "table_ok tj_id (job_row_ok (length cs)) ?t" by (rule queue_run_inv)
  then have d: "distinct (map tj_id ?t)" by (simp add: table_ok_def)
  note r = next_row_Some [OF Some]
  define t' where "t' = map (\<lambda>x. if x = r then claim_row now r else x) ?t"
  have upd: "sql_update (\<lambda>x. tj_id x = tj_id r \<and> tj_state x = ''queued'') (claim_row now) ?t = t'"
    using claim_update_eq [OF d r(1,2)] by (simp add: sql_update_def t'_def if_distrib cong: if_cong)
  have "map tj_id t' = map tj_id ?t" by (auto simp: t'_def claim_row_def)
  then have "distinct (map tj_id t')" using d by simp
  moreover have "claim_row now r \<in> set t'"
    using r(1) by (force simp: t'_def)
  ultimately have get: "get_job (tj_id r) t' = row_to_job (claim_row now r)"
    using get_job_row [of t' "claim_row now r"] by (simp add: claim_row_def)
  have "job_row_ok (Suc (length cs)) (claim_row now r)"
    using table_ok_rowD [OF ok r(1)] job_step.claim [OF r(2)] job_step_ok by blast
  then obtain job where job: "row_to_job (claim_row now r) = Inr job"
    "state_name (job_state job) = tj_state (claim_row now r)" "job_id job = tj_id (claim_row now r)"
    "int (job_attempts job) = tj_attempts (claim_row now r)"
    using assms by (elim decode_row) simp_all
  then have "job_state job = Running"
    using state_text.render_inj [of "job_state job" Running] by (simp add: claim_row_def)
  with job r get upd Some show ?thesis
    by (intro disjI1 exI [of _ r] exI [of _ job]) (simp add: claim_next_next_row claim_row_def t'_def)
qed

text \<open>
  A claim is exclusive. After a job has been claimed, a second claim that follows at once never
  returns the same job, whatever the clock says.
\<close>

theorem claims_exclusive:
  assumes "claim_next now (queue_run known cs []) = (Inr (Some j), t')"
    and "claim_next now' t' = (Inr (Some j'), t'')"
  shows "job_id j \<noteq> job_id j'"
proof -
  let ?t = "queue_run known cs []"
  obtain r where r: "next_row now ?t = Some r"
    using assms(1) by (cases "next_row now ?t") (simp_all add: claim_next_next_row)
  with assms(1) have t': "t' = sql_update (\<lambda>x. tj_id x = tj_id r \<and> tj_state x = ''queued'') (claim_row now) ?t"
    and j: "get_job (tj_id r) t' = Inr j"
    by (auto simp: claim_next_next_row Let_def res_bind_ok)
  obtain r' where r': "next_row now' t' = Some r'"
    using assms(2) by (cases "next_row now' t'") (simp_all add: claim_next_next_row)
  with assms(2) have j': "get_job (tj_id r') t'' = Inr j'"
    by (auto simp: claim_next_next_row Let_def res_bind_ok)
  have "tj_id x \<noteq> tj_id r" if "x \<in> set t'" "eligible now' x" for x
    using that by (auto simp: t' set_sql_update eligible_def claim_row_def split: if_splits)
  then show ?thesis
    using get_job_id [OF j] get_job_id [OF j'] next_row_Some(1,2) [OF r'] by metis
qed

section \<open>Attempts\<close>

definition within_budget :: "transfer_row \<Rightarrow> bool" where
  "within_budget r \<longleftrightarrow> tj_attempts r \<le> MAX_TRANSFER_ATTEMPTS \<and>
     (tj_state r = ''queued'' \<longrightarrow> tj_attempts r < MAX_TRANSFER_ATTEMPTS)"

fun spends_budget :: "queue_cmd \<Rightarrow> bool" where
  "spends_budget (Recover now) = False"
| "spends_budget (SetState i state now) = (state \<noteq> Queued)"
| "spends_budget _ = True"

lemma job_step_budget:
  "job_step c r r' \<Longrightarrow> spends_budget c \<Longrightarrow> within_budget r \<Longrightarrow> within_budget r'"
  by (cases rule: job_step.cases)
    (auto simp: row_defs within_budget_def eligible_def MAX_TRANSFER_ATTEMPTS_def elim!: allowed_from.elims)

lemma queue_do_budget:
  assumes "distinct (map tj_id t)" and "spends_budget c" and "\<forall>r\<in>set t. within_budget r"
  shows "\<forall>r\<in>set (queue_do known c t). within_budget r"
  using assms(1)
proof (cases rule: queue_do_cases [where known = known and c = c])
  case (insert r)
  then have "within_budget r" by (simp add: within_budget_def job_row_ok_def MAX_TRANSFER_ATTEMPTS_def)
  with insert(1) assms(3) show ?thesis by simp
next
  case act
  with assms(2,3) job_step_budget show ?thesis by (fastforce simp: acts_def)
qed

lemma queue_run_budget:
  assumes "distinct (map tj_id t)" and "list_all spends_budget cs" and "\<forall>r\<in>set t. within_budget r"
  shows "\<forall>r\<in>set (queue_run known cs t). within_budget r"
  using assms
proof (induction cs arbitrary: t)
  case (Cons c cs)
  have "distinct (map tj_id (queue_do known c t))"
    using queue_run_distinct [OF Cons.prems(1), of known "[c]"] by (simp add: queue_run_def)
  moreover have "\<forall>r\<in>set (queue_do known c t). within_budget r"
    using Cons.prems by (intro queue_do_budget) auto
  ultimately have "\<forall>r\<in>set (queue_run known cs (queue_do known c t)). within_budget r"
    using Cons.prems(2) by (intro Cons.IH) auto
  then show ?case by (simp add: queue_run_def)
qed (simp add: queue_run_def)

text \<open>
  The retry budget. In any history without a service restart and without resuming a paused job, no job
  is attempted more than six times before its owner asks for a retry, and a job that waits in the queue
  has at least one attempt left; so a job whose attempts all fail ends in failed.
\<close>

theorem attempts_bounded:
  assumes "list_all spends_budget cs" and "r \<in> set (queue_run known cs [])"
  shows "tj_attempts r \<le> 6 \<and> (tj_state r = ''queued'' \<longrightarrow> tj_attempts r < 6)"
  using queue_run_budget [of "[]" cs known] assms
  by (auto simp: within_budget_def MAX_TRANSFER_ATTEMPTS_def)

text \<open>
  What \<open>retry\<close> does with a running job: it fails for good when the error is permanent or the sixth
  attempt is over, and otherwise waits again for twice as long as after the previous attempt, at most
  32 seconds. A retry of a job in another state is refused and changes nothing.
\<close>

theorem retry_outcome:
  assumes "r \<in> set (queue_run known cs [])" and "1 \<le> tj_attempts r"
  shows "retry (tj_id r) err permanent now_next now (queue_run known cs []) =
     (if tj_state r \<noteq> ''running'' then (Inl InvalidTransition, queue_run known cs [])
      else (Inr (), map (\<lambda>x. if x = r
         then (if permanent \<or> 6 \<le> tj_attempts r
               then r\<lparr>tj_state := ''failed'', tj_last_error := Some (take 1024 err), tj_updated_at := now\<rparr>
               else r\<lparr>tj_state := ''queued'', tj_last_error := Some (take 1024 err),
                      tj_next_attempt_at := now_next + 2 ^ nat (tj_attempts r), tj_updated_at := now\<rparr>)
         else x) (queue_run known cs [])))"
proof -
  let ?t = "queue_run known cs []"
  let ?P = "\<lambda>x. tj_id x = tj_id r \<and> tj_state x = ''running''"
  have d: "distinct (map tj_id ?t)" by (rule queue_run_distinct) simp
  have find: "sql_first (\<lambda>x. tj_id x = tj_id r) ?t = Some r"
    by (rule distinct_key_find [OF d assms(1)])
  have same: "tj_id x = tj_id r \<longleftrightarrow> x = r" if "x \<in> set ?t" for x
    using d assms(1) that by (auto simp: distinct_map inj_on_def)
  have exec: "exec_update ?P f ?t =
      (if tj_state r \<noteq> ''running'' then (Inl InvalidTransition, ?t)
       else (Inr (), map (\<lambda>x. if x = r then f r else x) ?t))" for f
  proof (cases "tj_state r = ''running''")
    case True
    then have "sql_affected ?P ?t = 1"
      using affected_one_iff [OF d, of "tj_id r" "\<lambda>x. tj_state x = ''running''"] assms(1) by blast
    moreover have "sql_update ?P f ?t = map (\<lambda>x. if x = r then f r else x) ?t"
      using True same by (auto simp: sql_update_def)
    ultimately show ?thesis using True unfolding exec_update_def ensure_updated_def by simp
  next
    case False
    then have "\<forall>x\<in>set ?t. \<not> ?P x" using same by auto
    with False show ?thesis
      by (simp add: exec_update_def ensure_updated_def sql_update_noop sql_affected_zero [THEN iffD2])
  qed
  show ?thesis
    using assms(2)
    by (auto simp: retry_def find fail_def exec fail_row_def requeue_row_def MAX_TRANSFER_ATTEMPTS_def
        backoff_def min_def max_def)
qed

text \<open>
  A restart does not spend the budget. Claims that alternate with \<open>recover_interrupted\<close> bring the only
  job of a queue to any number of attempts, queued each time and never failed.
\<close>

theorem restart_cycle_unbounded:
  assumes "tj_state r = ''queued''" and "tj_next_attempt_at r \<le> now"
  shows "\<exists>r'. queue_run known (concat (replicate n [Claim now, Recover now])) [r] = [r'] \<and>
     tj_id r' = tj_id r \<and> tj_state r' = ''queued'' \<and> tj_attempts r' = tj_attempts r + int n"
  using assms
proof (induction n arbitrary: r)
  case 0
  then show ?case by (simp add: queue_run_def)
next
  case (Suc n)
  let ?r1 = "recover_row now (claim_row now r)"
  have "queue_do known (Recover now) (queue_do known (Claim now) [r]) = [?r1]"
    using Suc.prems
    by (simp add: claim_next_def eligible_def recover_interrupted_def Let_def sql_update_def)
      (simp add: claim_row_def)
  moreover have "\<exists>r'. queue_run known (concat (replicate n [Claim now, Recover now])) [?r1] = [r'] \<and>
     tj_id r' = tj_id ?r1 \<and> tj_state r' = ''queued'' \<and> tj_attempts r' = tj_attempts ?r1 + int n"
    by (rule Suc.IH) (simp_all add: recover_row_def)
  ultimately show ?case
    by (simp add: queue_run_def row_defs add.assoc del: queue_do.simps)
qed

text \<open>
  Recovery at start runs beside the worker loop. When it falls between a claim and the end of that
  job, the job is back in the queue and due, with its attempt counted, and the worker's report that it
  completed is refused: the transfer is carried out again.
\<close>

theorem startup_recovery_race:
  assumes "claim_next now (queue_run known cs []) = (Inr (Some job), t1)"
    and "t2 = snd (recover_interrupted now_recover t1)"
  shows "complete (job_id job) checksum now_end t2 = (Inl InvalidTransition, t2) \<and>
    (\<exists>r\<in>set t2. tj_id r = job_id job \<and> eligible now_recover r)"
proof -
  let ?t = "queue_run known cs []"
  have d: "distinct (map tj_id ?t)" by (rule queue_run_distinct) simp
  obtain r where r: "next_row now ?t = Some r"
    using assms(1) by (cases "next_row now ?t") (simp_all add: claim_next_next_row)
  with assms(1) have t1: "t1 = sql_update (\<lambda>x. tj_id x = tj_id r \<and> tj_state x = ''queued'') (claim_row now) ?t"
    and j: "get_job (tj_id r) t1 = Inr job"
    by (auto simp: claim_next_next_row Let_def res_bind_ok)
  have "claim_row now r \<in> set t1"
    unfolding t1 using next_row_Some [OF r] by (auto simp: eligible_def intro: sql_update_hit)
  then have "recover_row now_recover (claim_row now r) \<in> set t2"
    unfolding assms(2) recover_interrupted_def snd_conv by (rule sql_update_hit) (simp add: claim_row_def)
  then have "\<exists>r\<in>set t2. tj_id r = job_id job \<and> eligible now_recover r"
    by (rule bexI [rotated]) (simp add: get_job_id [OF j] row_defs eligible_def)
  moreover have none: "\<forall>x\<in>set t2. \<not> (tj_id x = job_id job \<and> tj_state x = ''running'')"
    unfolding assms(2) recover_interrupted_def by (auto simp: set_sql_update recover_row_def)
  ultimately show ?thesis
    by (simp add: complete_def exec_update_def ensure_updated_def sql_update_noop [OF none]
        sql_affected_zero [THEN iffD2, OF none])
qed

section \<open>Examples\<close>

definition demo_transfer :: NewTransfer where
  "demo_transfer = \<lparr>nt_source = Local ''/a'', nt_destination = Sftp ''s'' ''/b'', nt_bytes_total = Some 100\<rparr>"

definition demo_claimed :: "queue_cmd list" where
  "demo_claimed = [Enqueue ''j1'' 0 ''u'' demo_transfer, Claim 5]"

definition demo_row :: transfer_row where
  "demo_row = \<lparr>tj_id = ''j1'', tj_owner_user_id = ''u'', tj_source = Local ''/a'', tj_destination = Sftp ''s'' ''/b'',
     tj_strategy = ''server-relay'', tj_state = ''running'', tj_bytes_total = Some 100, tj_bytes_transferred = 0,
     tj_checksum = None, tj_attempts = 1, tj_next_attempt_at = 0, tj_last_error = None,
     tj_created_at = 0, tj_updated_at = 5\<rparr>"

lemmas queue_eval = queue_run_def enqueue_def validate_endpoint_def select_strategy_def demo_transfer_def
  claim_next_def eligible_def Let_def claim_row_def sql_update_def I64_MAX_def get_job_def sql_first_def
  row_to_job_def to_unsigned_def parse_state_def parse_strategy_def

lemma demo_claimed_rows: "queue_run (\<lambda>_. True) demo_claimed [] = [demo_row]"
  by (simp add: demo_claimed_def queue_eval demo_row_def)

definition demo_done :: "queue_cmd list" where
  "demo_done = demo_claimed @ [Complete ''j1'' None 9]"

definition demo_done_row :: transfer_row where
  "demo_done_row = demo_row\<lparr>tj_state := ''completed'', tj_updated_at := 9\<rparr>"

lemma demo_done_rows: "queue_run (\<lambda>_. True) demo_done [] = [demo_done_row]"
proof -
  have "queue_run (\<lambda>_. True) demo_done [] =
      queue_do (\<lambda>_. True) (Complete ''j1'' None 9) (queue_run (\<lambda>_. True) demo_claimed [])"
    by (simp add: demo_done_def queue_run_def)
  then show ?thesis
    by (simp add: demo_claimed_rows complete_def exec_update_def sql_update_def demo_row_def demo_done_row_def)
qed

theorem terminal_states_absorbing_witness:
  "demo_done_row \<in> set (queue_run (\<lambda>_. True) [Recover 10, Claim 11, SetState ''j1'' Cancelled 12]
     (queue_run (\<lambda>_. True) demo_done []))"
  by (rule terminal_states_absorbing)
    (simp add: demo_done_rows, simp add: terminal_for_def demo_done_row_def)

theorem queue_jobs_readable_witness:
  "(\<exists>job. get_owned ''j1'' ''u'' (queue_run (\<lambda>_. True) demo_claimed []) = Inr job \<and> job_id job = ''j1'') \<and>
   get_owned ''j1'' ''v'' (queue_run (\<lambda>_. True) demo_claimed []) = Inl TransferNotFound"
  using queue_jobs_readable [of demo_claimed demo_row "\<lambda>_. True" "''v''" 10]
  unfolding demo_claimed_rows
  by (simp add: demo_claimed_def) (auto simp: demo_row_def)

theorem claim_next_fifo_witness:
  "\<exists>job. claim_next 5 (queue_run (\<lambda>_. True) [Enqueue ''j1'' 0 ''u'' demo_transfer] []) = (Inr (Some job), [demo_row])
     \<and> job_state job = Running"
  using claim_next_fifo [of "[Enqueue ''j1'' 0 ''u'' demo_transfer]" "\<lambda>_. True" 5]
  by (auto simp: queue_run_def enqueue_def validate_endpoint_def select_strategy_def demo_transfer_def I64_MAX_def
      eligible_def claim_row_def demo_row_def)

theorem claims_exclusive_witness:
  "\<exists>j t' j' t''. claim_next 5 (queue_run (\<lambda>_. True)
      [Enqueue ''j1'' 0 ''u'' demo_transfer, Enqueue ''j2'' 1 ''u'' demo_transfer] []) = (Inr (Some j), t') \<and>
      claim_next 6 t' = (Inr (Some j'), t'') \<and> job_id j \<noteq> job_id j'"
proof -
  have "\<exists>j t'. claim_next 5 (queue_run (\<lambda>_. True)
      [Enqueue ''j1'' 0 ''u'' demo_transfer, Enqueue ''j2'' 1 ''u'' demo_transfer] []) = (Inr (Some j), t') \<and>
      (\<exists>j' t''. claim_next 6 t' = (Inr (Some j'), t''))"
    by (simp add: queue_eval)
  then show ?thesis using claims_exclusive by metis
qed

theorem attempts_bounded_witness: "tj_attempts demo_row \<le> 6"
  using attempts_bounded [of demo_claimed demo_row "\<lambda>_. True"]
  unfolding demo_claimed_rows by (simp add: demo_claimed_def)

theorem retry_outcome_witness:
  "retry ''j1'' ''timeout'' False 20 20 (queue_run (\<lambda>_. True) demo_claimed []) =
    (Inr (), [demo_row\<lparr>tj_state := ''queued'', tj_last_error := Some ''timeout'', tj_next_attempt_at := 22,
                       tj_updated_at := 20\<rparr>])"
  using retry_outcome [of demo_row "\<lambda>_. True" demo_claimed "''timeout''" False 20 20]
  unfolding demo_claimed_rows by (simp add: demo_row_def)

theorem restart_cycle_unbounded_witness:
  "\<exists>r'. queue_run (\<lambda>_. True) (concat (replicate 100 [Claim 30, Recover 30])) [demo_row\<lparr>tj_state := ''queued''\<rparr>] = [r'] \<and>
     tj_state r' = ''queued'' \<and> tj_attempts r' = 101"
  using restart_cycle_unbounded [of "demo_row\<lparr>tj_state := ''queued''\<rparr>" 30 "\<lambda>_. True" 100]
  by (auto simp: demo_row_def)

theorem startup_recovery_race_witness:
  "\<exists>job t1. claim_next 5 (queue_run (\<lambda>_. True) [Enqueue ''j1'' 0 ''u'' demo_transfer] []) = (Inr (Some job), t1) \<and>
     fst (complete (job_id job) None 9 (snd (recover_interrupted 6 t1))) = Inl InvalidTransition"
proof -
  have "\<exists>job t1. claim_next 5 (queue_run (\<lambda>_. True) [Enqueue ''j1'' 0 ''u'' demo_transfer] []) = (Inr (Some job), t1)"
    by (simp add: queue_eval)
  then obtain job t1 where
    c: "claim_next 5 (queue_run (\<lambda>_. True) [Enqueue ''j1'' 0 ''u'' demo_transfer] []) = (Inr (Some job), t1)"
    by blast
  from startup_recovery_race [OF this refl, of None 9 6] c show ?thesis by auto
qed

end
