(* ===== verification/Transfer_Copy.thy ===== *)
theory Transfer_Copy
  imports Transfers
begin

text \<open>
  The local copy (\<open>process_job_local\<close>): the copy loop delivers the source file and its digest whatever
  sizes the reads return, provided the two paths differ; when they are the same path the file is lost.
\<close>

section \<open>The copy loop\<close>

definition no_io_errors :: "io_env \<Rightarrow> bool" where
  "no_io_errors env \<longleftrightarrow>
     (\<forall>path. io_open env path = None \<and> io_create env path = None) \<and>
     (\<forall>off. (\<exists>k. io_read env off = Inr k) \<and> io_write env off = None) \<and> io_flush env = None"

text \<open>A streaming hasher computes the digest of the concatenation of what it is given.\<close>

definition hasher_ok :: "'h hasher \<Rightarrow> (string \<Rightarrow> string) \<Rightarrow> bool" where
  "hasher_ok H digest \<longleftrightarrow>
     (\<forall>cs. h_finalize_hex H (foldl (h_update H) (h_new H) cs) = digest (concat cs))"

definition running_job :: "string \<Rightarrow> transfer_row \<Rightarrow> bool" where
  "running_job i r \<longleftrightarrow> tj_id r = i \<and> tj_state r = ''running''"

definition set_progress :: "nat \<Rightarrow> int \<Rightarrow> transfer_row \<Rightarrow> transfer_row" where
  "set_progress n u r = r\<lparr>tj_bytes_transferred := int n, tj_updated_at := u\<rparr>"

lemma update_progress_rows:
  "int n \<le> I64_MAX \<Longrightarrow> snd (update_progress i n u rows) = sql_update (running_job i) (set_progress n u) rows"
  by (simp add: update_progress_def exec_update_def running_job_def [abs_def] set_progress_def [abs_def])

lemma set_progress_twice:
  "sql_update (running_job i) (set_progress n u) (sql_update (running_job i) (set_progress m v) rows) =
   sql_update (running_job i) (set_progress n u) rows"
  by (simp add: sql_update_def running_job_def set_progress_def)

text \<open>From offset \<open>off\<close> the loop writes the rest of the source and reports the total size at the end.\<close>

lemma copy_loop_correct:
  assumes "no_io_errors env" and "src \<noteq> dst" and "fs src = Some c" and "fs dst = Some (take off c)"
    and "off \<le> length c" and "int (length c) \<le> I64_MAX"
  shows "\<exists>cs rows'. concat cs = drop off c \<and>
    copy_loop env H i src dst off h fs rows = (Inr (foldl (h_update H) h cs), fs(dst \<mapsto> c), rows') \<and>
    (if off = length c then rows' = rows
     else \<exists>u. rows' = sql_update (running_job i) (set_progress (length c) u) rows)"
  using assms
proof (induction "length c - off" arbitrary: off h fs rows rule: less_induct)
  case less
  obtain k where k: "io_read env off = Inr k" and w: "io_write env off = None"
    using less.prems(1) unfolding no_io_errors_def by blast
  define chunk where "chunk = read_chunk fs src off k"
  have chunk: "chunk = take (min 65536 (max 1 k)) (drop off c)"
    using less.prems(3) by (simp add: chunk_def read_chunk_def content_of_def)
  show ?case
  proof (cases "off = length c")
    case True
    then have "fs(dst \<mapsto> c) = fs" using less.prems(4) by auto
    with True k chunk chunk_def show ?thesis
      by (intro exI [of _ "[]"] exI [of _ rows]) (simp add: copy_loop.simps [of env])
  next
    case False
    let ?off = "off + length chunk"
    have ne: "chunk \<noteq> []" and le: "?off \<le> length c"
      using False less.prems(5) by (auto simp: chunk)
    have fs': "write_at fs dst off chunk = fs(dst \<mapsto> take ?off c)"
      using less.prems(4,5) by (simp add: write_at_def content_of_def Let_def chunk take_add min_def)
    let ?rows = "sql_update (running_job i) (set_progress ?off (io_clock env off)) rows"
    have step: "copy_loop env H i src dst off h fs rows =
        copy_loop env H i src dst ?off (h_update H h chunk) (fs(dst \<mapsto> take ?off c)) ?rows"
      using k w ne le less.prems(6) fs'
      by (simp add: copy_loop.simps [of env _ _ _ _ off] chunk_def [symmetric] update_progress_rows)
    have rest: "drop off c = chunk @ drop ?off c"
    proof -
      have "xs = take n xs @ drop (length (take n xs)) xs" for n and xs :: string
        by (cases "n \<le> length xs") auto
      from this [of "drop off c" "min 65536 (max 1 k)"] show ?thesis
        by (simp only: chunk [symmetric] drop_drop add.commute)
    qed
    have "length c - ?off < length c - off"
      using ne le by (cases chunk) auto
    then obtain cs rows' where IH: "concat cs = drop ?off c"
      "copy_loop env H i src dst ?off (h_update H h chunk) (fs(dst \<mapsto> take ?off c)) ?rows =
        (Inr (foldl (h_update H) (h_update H h chunk) cs), (fs(dst \<mapsto> take ?off c))(dst \<mapsto> c), rows')"
      "if ?off = length c then rows' = ?rows
       else \<exists>u. rows' = sql_update (running_job i) (set_progress (length c) u) ?rows"
      using less.hyps [of ?off "fs(dst \<mapsto> take ?off c)" "h_update H h chunk" ?rows] ne le less.prems by auto
    from IH(3) have "\<exists>u. rows' = sql_update (running_job i) (set_progress (length c) u) rows"
      by (auto simp: set_progress_twice split: if_splits)
    with IH step rest False show ?thesis
      by (intro exI [of _ "chunk # cs"] exI [of _ rows']) simp
  qed
qed

section \<open>Copying a file\<close>

definition local_job :: "TransferJob \<Rightarrow> string \<Rightarrow> string \<Rightarrow> bool" where
  "local_job job s d \<longleftrightarrow> job_source job = Local s \<and> job_destination job = Local d"

lemma complete_running:
  assumes "distinct (map tj_id rows)" and "r \<in> set rows" and "tj_id r = i" and "tj_state r = ''running''"
  shows "complete i (Some ck) now rows =
    (Inr (), map (\<lambda>x. if x = r then r\<lparr>tj_state := ''completed'', tj_checksum := Some ck, tj_updated_at := now\<rparr>
                      else x) rows)"
proof -
  have "sql_affected (\<lambda>r. tj_id r = i \<and> tj_state r = ''running'') rows = 1"
    using affected_one_iff [OF assms(1), of i "\<lambda>r. tj_state r = ''running''"] assms(2-4) by blast
  moreover have "tj_id x = i \<and> tj_state x = ''running'' \<longleftrightarrow> x = r" if "x \<in> set rows" for x
    using assms that by (auto simp: distinct_map inj_on_def)
  ultimately show ?thesis
    unfolding complete_def exec_update_def ensure_updated_def by (simp add: sql_update_def)
qed

lemma complete_after_progress:
  assumes "distinct (map tj_id rows)" and "r \<in> set rows" and "tj_id r = i" and "tj_state r = ''running''"
  shows "complete i (Some ck) now (sql_update (running_job i) (set_progress n u) rows) =
    (Inr (), map (\<lambda>x. if x = r then r\<lparr>tj_state := ''completed'', tj_bytes_transferred := int n,
                        tj_checksum := Some ck, tj_updated_at := now\<rparr> else x) rows)"
proof -
  let ?rows = "sql_update (running_job i) (set_progress n u) rows"
  have same: "running_job i x \<longleftrightarrow> x = r" if "x \<in> set rows" for x
    using assms that by (auto simp: running_job_def distinct_map inj_on_def)
  have rows: "?rows = map (\<lambda>x. if x = r then set_progress n u r else x) rows"
    using same by (auto simp: sql_update_def)
  have "map tj_id ?rows = map tj_id rows"
    by (auto simp: sql_update_def set_progress_def)
  then have d: "distinct (map tj_id ?rows)" using assms(1) by simp
  have mem: "set_progress n u r \<in> set ?rows"
    unfolding rows using assms(2) by force
  have other: "x \<noteq> set_progress n u r" if "x \<in> set rows" "x \<noteq> r" for x
    using that assms(1,2) by (auto simp: set_progress_def distinct_map inj_on_def)
  show ?thesis
    unfolding complete_running [OF d mem, unfolded set_progress_def, simplified, OF assms(3,4), folded set_progress_def]
    using other by (auto simp: rows set_progress_def)
qed


text \<open>
  Copying a file onto its own path destroys it. Creating the destination truncates the file before the
  first read, so the loop ends at once; the job is reported completed with the digest of nothing.
\<close>

theorem local_copy_onto_itself:
  assumes "no_io_errors env" and "hasher_ok H digest" and "local_job job s d"
    and "src = path_join source_base (trim_start_slashes s)"
    and "src = path_join dest_base (trim_start_slashes d)" and "fs src = Some c"
    and "distinct (map tj_id rows)" and "r \<in> set rows" and "tj_id r = job_id job" and "tj_state r = ''running''"
  shows "process_job_local env H now job source_base dest_base fs rows =
    (Inr (), fs(src \<mapsto> []),
     map (\<lambda>x. if x = r then r\<lparr>tj_state := ''completed'', tj_checksum := Some (digest []), tj_updated_at := now\<rparr>
              else x) rows)"
proof -
  have io: "io_open env src = None" "io_create env src = None" "io_flush env = None"
    using assms(1) by (simp_all add: no_io_errors_def)
  obtain k where "io_read env 0 = Inr k" using assms(1) unfolding no_io_errors_def by blast
  then have "copy_loop env H (job_id job) src src 0 (h_new H) (fs(src \<mapsto> [])) rows =
      (Inr (h_new H), fs(src \<mapsto> []), rows)"
    by (simp add: copy_loop.simps read_chunk_def content_of_def)
  moreover have "h_finalize_hex H (h_new H) = digest []"
    using assms(2) by (auto simp: hasher_ok_def dest: spec [of _ "[]"])
  ultimately show ?thesis
    using assms(3,6) io complete_running [OF assms(7-10)]
    by (simp add: process_job_local_def local_job_def assms(4) [symmetric] assms(5) [symmetric] Let_def)
qed

section \<open>Examples\<close>

definition demo_env :: io_env where
  "demo_env = \<lparr>io_open = (\<lambda>_. None), io_create = (\<lambda>_. None), io_read = (\<lambda>_. Inr 2), io_write = (\<lambda>_. None),
     io_flush = None, io_clock = (\<lambda>_. 7)\<rparr>"

definition demo_hasher :: "string hasher" where
  "demo_hasher = \<lparr>h_new = [], h_update = (\<lambda>h c. h @ c), h_finalize_hex = (\<lambda>h. h)\<rparr>"

definition demo_job :: "string \<Rightarrow> TransferJob" where
  "demo_job d = \<lparr>job_id = ''j'', job_owner_user_id = ''u'', job_source = Local ''/x'', job_destination = Local d,
     job_strategy = Direct, job_state = Running, job_bytes_total = None, job_bytes_transferred = 0,
     job_attempts = 1, job_next_attempt_at = 0, job_last_error = None, job_created_at = 0, job_updated_at = 0\<rparr>"

definition demo_running :: transfer_row where
  "demo_running = \<lparr>tj_id = ''j'', tj_owner_user_id = ''u'', tj_source = Local ''/x'', tj_destination = Local ''/y'',
     tj_strategy = ''direct'', tj_state = ''running'', tj_bytes_total = None, tj_bytes_transferred = 0,
     tj_checksum = None, tj_attempts = 1, tj_next_attempt_at = 0, tj_last_error = None,
     tj_created_at = 0, tj_updated_at = 0\<rparr>"

lemma demo_parts: "no_io_errors demo_env" "hasher_ok demo_hasher (\<lambda>s. s)"
proof -
  have "foldl (\<lambda>h c. h @ c) h cs = h @ concat cs" for h :: string and cs
    by (induction cs arbitrary: h) auto
  then show "hasher_ok demo_hasher (\<lambda>s. s)" by (simp add: hasher_ok_def demo_hasher_def)
qed (simp add: no_io_errors_def demo_env_def)


theorem local_copy_onto_itself_witness:
  "process_job_local demo_env demo_hasher 9 (demo_job ''/x'') ''/s'' ''/s'' [''/s/x'' \<mapsto> ''hello''] [demo_running] =
    (Inr (), [''/s/x'' \<mapsto> []],
     [demo_running\<lparr>tj_state := ''completed'', tj_checksum := Some [], tj_updated_at := 9\<rparr>])"
proof -
  have p: "''/s/x'' = path_join ''/s'' (trim_start_slashes ''/x'')"
    by (simp add: path_join_def trim_start_slashes_def)
  have "local_job (demo_job ''/x'') ''/x'' ''/x''" by (simp add: local_job_def demo_job_def)
  from local_copy_onto_itself [OF demo_parts this p p, of "[''/s/x'' \<mapsto> ''hello'']" "''hello''" "[demo_running]" demo_running 9]
  show ?thesis by (simp add: demo_job_def demo_running_def)
qed

end
