(* ===== verification/Runtime_Store.thy ===== *)
theory Runtime_Store
  imports Prelude
begin

text \<open>
  The vocabulary, the persistence layer, the port allocator and the state directories of the runtime
  orchestrator (\<open>crates/orchestrator/src/model.rs\<close>, \<open>store.rs\<close>, \<open>port.rs\<close>, \<open>storage.rs\<close>).

  Rows of \<open>runtime_instances\<close> hold text where the database does. The foreign key on \<open>owner_user_id\<close> is the
  argument \<open>known\<close>. A path is a list of components below the file system root; what the operating system
  answers to \<open>bind\<close>, \<open>mkdir\<close> and \<open>rmdir\<close> is an argument.
\<close>

section \<open>Vocabulary\<close>

datatype RuntimeKind = Code | Office | Browser | TestFixture

datatype InstanceState = Unavailable | Disabled | Stopped | Starting | Running | Unhealthy | Stopping | Failed

datatype Persistence = Persistent | Ephemeral

record InstanceId =
  id_kind :: RuntimeKind
  id_owner_user_id :: string
  id_instance_id :: string

fun kind_str :: "RuntimeKind \<Rightarrow> string" where
  "kind_str Code = ''code''"
| "kind_str Office = ''office''"
| "kind_str Browser = ''browser''"
| "kind_str TestFixture = ''test_fixture''"

definition kind_parse :: "string \<Rightarrow> RuntimeKind option" where
  "kind_parse v =
     (if v = ''code'' then Some Code
      else if v = ''office'' then Some Office
      else if v = ''browser'' then Some Browser
      else if v = ''test_fixture'' then Some TestFixture
      else None)"

definition is_selectable :: "RuntimeKind \<Rightarrow> bool" where
  "is_selectable k \<longleftrightarrow> k \<noteq> TestFixture"

definition all_kinds :: "RuntimeKind list" where
  "all_kinds = [Code, Office, Browser, TestFixture]"

fun inst_state_str :: "InstanceState \<Rightarrow> string" where
  "inst_state_str Unavailable = ''unavailable''"
| "inst_state_str Disabled = ''disabled''"
| "inst_state_str Stopped = ''stopped''"
| "inst_state_str Starting = ''starting''"
| "inst_state_str Running = ''running''"
| "inst_state_str Unhealthy = ''unhealthy''"
| "inst_state_str Stopping = ''stopping''"
| "inst_state_str Failed = ''failed''"

definition inst_state_parse :: "string \<Rightarrow> InstanceState" where
  "inst_state_parse v =
     (if v = ''unavailable'' then Unavailable
      else if v = ''disabled'' then Disabled
      else if v = ''starting'' then Starting
      else if v = ''running'' then Running
      else if v = ''unhealthy'' then Unhealthy
      else if v = ''stopping'' then Stopping
      else if v = ''failed'' then Failed
      else Stopped)"

fun is_terminal_for_reconciliation :: "InstanceState \<Rightarrow> bool" where
  "is_terminal_for_reconciliation Stopped = True"
| "is_terminal_for_reconciliation Failed = True"
| "is_terminal_for_reconciliation Disabled = True"
| "is_terminal_for_reconciliation _ = False"

fun persistence_str :: "Persistence \<Rightarrow> string" where
  "persistence_str Persistent = ''persistent''"
| "persistence_str Ephemeral = ''ephemeral''"

interpretation kind_text: text_codec kind_str kind_parse
proof
  fix x show "kind_parse (kind_str x) = Some x" by (cases x) (simp_all add: kind_parse_def)
next
  fix s x assume "kind_parse s = Some x"
  then show "s = kind_str x" by (auto simp: kind_parse_def split: if_splits)
qed

lemma inst_state_parse_str [simp]: "inst_state_parse (inst_state_str s) = s"
  by (cases s) (simp_all add: inst_state_parse_def)

section \<open>Rows\<close>

record runtime_row =
  ri_kind :: string
  ri_owner_user_id :: string
  ri_instance_id :: string
  ri_generation :: int
  ri_state :: string
  ri_persistence :: string
  ri_port :: "int option"
  ri_pid :: "int option"
  ri_created_at :: int
  ri_updated_at :: int
  ri_last_activity_at :: int
  ri_restart_count :: int
  ri_exit_code :: "int option"
  ri_exit_signal :: "string option"
  ri_failure_message :: "string option"

record InstanceRow =
  ir_kind :: RuntimeKind
  ir_owner_user_id :: string
  ir_instance_id :: string
  ir_generation :: int
  ir_state :: InstanceState
  ir_persistence :: Persistence
  ir_port :: "int option"
  ir_pid :: "int option"
  ir_created_at :: int
  ir_updated_at :: int
  ir_last_activity_at :: int
  ir_restart_count :: int
  ir_exit_code :: "int option"
  ir_exit_signal :: "string option"
  ir_failure_message :: "string option"

definition row_to_instance :: "runtime_row \<Rightarrow> InstanceRow option" where
  "row_to_instance r =
     map_option (\<lambda>kind.
       \<lparr>ir_kind = kind, ir_owner_user_id = ri_owner_user_id r, ir_instance_id = ri_instance_id r,
        ir_generation = ri_generation r, ir_state = inst_state_parse (ri_state r),
        ir_persistence = (if ri_persistence r = ''persistent'' then Persistent else Ephemeral),
        ir_port = ri_port r, ir_pid = ri_pid r, ir_created_at = ri_created_at r,
        ir_updated_at = ri_updated_at r, ir_last_activity_at = ri_last_activity_at r,
        ir_restart_count = ri_restart_count r, ir_exit_code = ri_exit_code r,
        ir_exit_signal = ri_exit_signal r, ir_failure_message = ri_failure_message r\<rparr>)
     (kind_parse (ri_kind r))"

definition row_key :: "runtime_row \<Rightarrow> string \<times> string \<times> string" where
  "row_key r = (ri_kind r, ri_owner_user_id r, ri_instance_id r)"

definition id_key :: "InstanceId \<Rightarrow> string \<times> string \<times> string" where
  "id_key i = (kind_str (id_kind i), id_owner_user_id i, id_instance_id i)"

definition row_of :: "InstanceId \<Rightarrow> runtime_row \<Rightarrow> bool" where
  "row_of i r \<longleftrightarrow> row_key r = id_key i"

section \<open>Store operations\<close>

definition store_upsert_instance ::
    "(string \<Rightarrow> bool) \<Rightarrow> int \<Rightarrow> InstanceId \<Rightarrow> nat \<Rightarrow> InstanceState \<Rightarrow> Persistence \<Rightarrow> nat option \<Rightarrow> nat option \<Rightarrow>
     runtime_row list \<Rightarrow> unit option \<times> runtime_row list" where
  "store_upsert_instance known ts i generation state persistence port pid rows =
     (let g = (if int generation \<le> I64_MAX then int generation else I64_MAX) in
      if \<not> known (id_owner_user_id i) then (None, rows)
      else if list_ex (row_of i) rows
      then (Some (), sql_update (row_of i)
             (\<lambda>r. r\<lparr>ri_generation := g, ri_state := inst_state_str state,
                    ri_persistence := persistence_str persistence, ri_port := map_option int port,
                    ri_pid := map_option int pid, ri_updated_at := ts\<rparr>) rows)
      else (Some (), rows @
        [\<lparr>ri_kind = kind_str (id_kind i), ri_owner_user_id = id_owner_user_id i,
          ri_instance_id = id_instance_id i, ri_generation = g, ri_state = inst_state_str state,
          ri_persistence = persistence_str persistence, ri_port = map_option int port,
          ri_pid = map_option int pid, ri_created_at = ts, ri_updated_at = ts, ri_last_activity_at = ts,
          ri_restart_count = 0, ri_exit_code = None, ri_exit_signal = None, ri_failure_message = None\<rparr>]))"

definition store_set_state ::
    "int \<Rightarrow> InstanceId \<Rightarrow> InstanceState \<Rightarrow> string option \<Rightarrow> runtime_row list \<Rightarrow> runtime_row list" where
  "store_set_state ts i state failure_message rows =
     sql_update (row_of i)
       (\<lambda>r. r\<lparr>ri_state := inst_state_str state, ri_failure_message := failure_message, ri_updated_at := ts\<rparr>) rows"

definition store_record_exit ::
    "int \<Rightarrow> InstanceId \<Rightarrow> int option \<Rightarrow> string option \<Rightarrow> runtime_row list \<Rightarrow> runtime_row list" where
  "store_record_exit ts i exit_code exit_signal rows =
     sql_update (row_of i)
       (\<lambda>r. r\<lparr>ri_exit_code := exit_code, ri_exit_signal := exit_signal, ri_updated_at := ts\<rparr>) rows"

definition store_touch_activity :: "int \<Rightarrow> InstanceId \<Rightarrow> runtime_row list \<Rightarrow> runtime_row list" where
  "store_touch_activity ts i rows = sql_update (row_of i) (\<lambda>r. r\<lparr>ri_last_activity_at := ts\<rparr>) rows"

definition store_get :: "InstanceId \<Rightarrow> runtime_row list \<Rightarrow> InstanceRow option" where
  "store_get i rows = Option.bind (sql_first (row_of i) rows) row_to_instance"

definition store_increment_restart_count ::
    "int \<Rightarrow> InstanceId \<Rightarrow> runtime_row list \<Rightarrow> int \<times> runtime_row list" where
  "store_increment_restart_count ts i rows =
     (let rows' = sql_update (row_of i)
            (\<lambda>r. r\<lparr>ri_restart_count := ri_restart_count r + 1, ri_updated_at := ts\<rparr>) rows in
      (case store_get i rows' of None \<Rightarrow> 0 | Some r \<Rightarrow> ir_restart_count r, rows'))"

definition store_list_for_owner :: "string \<Rightarrow> runtime_row list \<Rightarrow> InstanceRow list" where
  "store_list_for_owner owner rows =
     List.map_filter row_to_instance (sort_key ri_created_at (filter (\<lambda>r. ri_owner_user_id r = owner) rows))"

definition store_list_all :: "runtime_row list \<Rightarrow> InstanceRow list" where
  "store_list_all rows = List.map_filter row_to_instance rows"

definition store_delete :: "InstanceId \<Rightarrow> runtime_row list \<Rightarrow> runtime_row list" where
  "store_delete i rows = sql_delete (row_of i) rows"

section \<open>Ports\<close>

text \<open>Attempt \<open>k\<close> of the allocator is offered port \<open>offers k\<close>, or none when \<open>bind\<close> fails.\<close>

fun allocate_loop :: "nat \<Rightarrow> nat \<Rightarrow> (nat \<Rightarrow> nat option) \<Rightarrow> nat set \<Rightarrow> nat option \<times> nat set" where
  "allocate_loop 0 k offers reserved = (None, reserved)"
| "allocate_loop (Suc left) k offers reserved =
     (case offers k of
        None \<Rightarrow> allocate_loop left (Suc k) offers reserved
      | Some p \<Rightarrow>
        if p \<notin> reserved then (Some p, insert p reserved)
        else allocate_loop left (Suc k) offers reserved)"

definition allocate :: "(nat \<Rightarrow> nat option) \<Rightarrow> nat set \<Rightarrow> nat option \<times> nat set" where
  "allocate offers reserved = allocate_loop 32 0 offers reserved"

definition release :: "nat \<Rightarrow> nat set \<Rightarrow> nat set" where
  "release p reserved = reserved - {p}"

lemma allocate_loop_fresh:
  "allocate_loop left k offers reserved = (port, reserved') \<Longrightarrow>
    (case port of None \<Rightarrow> reserved' = reserved | Some p \<Rightarrow> p \<notin> reserved \<and> reserved' = insert p reserved)"
  by (induction left k offers reserved rule: allocate_loop.induct)
    (auto split: option.splits if_splits)

lemma allocate_fresh:
  assumes "allocate offers reserved = (port, reserved')"
  obtains (none) "port = None" and "reserved' = reserved"
    | (some) p where "port = Some p" and "p \<notin> reserved" and "reserved' = insert p reserved"
  using allocate_loop_fresh [OF assms [unfolded allocate_def]] by (cases port) auto

section \<open>State directories\<close>

datatype fs_node = Directory | Symlink | OtherFile

datatype StorageError = InvalidSegment string | StorageIo | SymlinkRejected "string list"

definition is_safe_segment :: "string \<Rightarrow> bool" where
  "is_safe_segment v \<longleftrightarrow> v \<noteq> [] \<and> list_all (\<lambda>b. is_ascii_alphanumeric b \<or> b = CHR ''-'' \<or> b = CHR ''_'') v"

definition create_dir_symlink_safe ::
    "(string list \<Rightarrow> bool) \<Rightarrow> string list \<Rightarrow> (string list \<rightharpoonup> fs_node) \<Rightarrow>
     (StorageError + unit) \<times> (string list \<rightharpoonup> fs_node)" where
  "create_dir_symlink_safe mkdir_ok path fs =
     (case fs path of
        Some Symlink \<Rightarrow> (Inl (SymlinkRejected path), fs)
      | Some OtherFile \<Rightarrow> (Inl StorageIo, fs)
      | Some Directory \<Rightarrow> (Inr (), fs)
      | None \<Rightarrow> if mkdir_ok path then (Inr (), fs(path \<mapsto> Directory)) else (Inl StorageIo, fs))"

fun create_segments ::
    "(string list \<Rightarrow> bool) \<Rightarrow> string list \<Rightarrow> string list \<Rightarrow> (string list \<rightharpoonup> fs_node) \<Rightarrow>
     (StorageError + string list) \<times> (string list \<rightharpoonup> fs_node)" where
  "create_segments mkdir_ok path [] fs = (Inr path, fs)"
| "create_segments mkdir_ok path (segment # segments) fs =
     (let path' = path @ [segment] in
      case create_dir_symlink_safe mkdir_ok path' fs of
        (Inl e, fs') \<Rightarrow> (Inl e, fs')
      | (Inr _, fs') \<Rightarrow> create_segments mkdir_ok path' segments fs')"

definition instance_state_dir ::
    "(string list \<Rightarrow> bool) \<Rightarrow> string list \<Rightarrow> InstanceId \<Rightarrow> (string list \<rightharpoonup> fs_node) \<Rightarrow>
     (StorageError + string list) \<times> (string list \<rightharpoonup> fs_node)" where
  "instance_state_dir mkdir_ok runtime_root i fs =
     (if \<not> is_safe_segment (id_owner_user_id i) then (Inl (InvalidSegment (id_owner_user_id i)), fs)
      else if \<not> is_safe_segment (id_instance_id i) then (Inl (InvalidSegment (id_instance_id i)), fs)
      else
        case create_dir_symlink_safe mkdir_ok runtime_root fs of
          (Inl e, fs') \<Rightarrow> (Inl e, fs')
        | (Inr _, fs') \<Rightarrow>
          create_segments mkdir_ok runtime_root
            [kind_str (id_kind i), ''users'', id_owner_user_id i, id_instance_id i] fs')"

definition below :: "string list \<Rightarrow> string list \<Rightarrow> bool" where
  "below dir path \<longleftrightarrow> take (length dir) path = dir"

definition remove_instance_state_dir ::
    "(string list \<Rightarrow> bool) \<Rightarrow> (string list \<Rightarrow> bool) \<Rightarrow> string list \<Rightarrow> InstanceId \<Rightarrow> (string list \<rightharpoonup> fs_node) \<Rightarrow>
     (StorageError + unit) \<times> (string list \<rightharpoonup> fs_node)" where
  "remove_instance_state_dir mkdir_ok remove_ok runtime_root i fs =
     (case instance_state_dir mkdir_ok runtime_root i fs of
        (Inl e, fs') \<Rightarrow> (Inl e, fs')
      | (Inr dir, fs') \<Rightarrow>
        if remove_ok dir then (Inr (), (\<lambda>path. if below dir path then None else fs' path))
        else (Inl StorageIo, fs'))"

lemma create_dir_ok:
  assumes "create_dir_symlink_safe mkdir_ok path fs = (r, fs')"
  shows "fs \<subseteq>\<^sub>m fs'" and "r = Inr () \<Longrightarrow> fs' path = Some Directory"
    and "fs' p \<noteq> fs p \<Longrightarrow> p = path"
  using assms
  by (auto simp: create_dir_symlink_safe_def map_le_def split: option.splits fs_node.splits if_splits)

definition level :: "string list \<Rightarrow> string list \<Rightarrow> string list \<Rightarrow> bool" where
  "level path segs p \<longleftrightarrow> (\<exists>n. length path < n \<and> n \<le> length (path @ segs) \<and> p = take n (path @ segs))"

lemma level_Cons: "level path (s # segs) p \<longleftrightarrow> p = path @ [s] \<or> level (path @ [s]) segs p"
proof
  assume "level path (s # segs) p"
  then obtain n where n: "length path < n" "n \<le> length (path @ s # segs)" "p = take n (path @ s # segs)"
    by (auto simp: level_def)
  show "p = path @ [s] \<or> level (path @ [s]) segs p"
  proof (cases "n = Suc (length path)")
    case True
    with n(3) show ?thesis by simp
  next
    case False
    with n show ?thesis by (auto simp: level_def intro!: exI [of _ n])
  qed
next
  assume "p = path @ [s] \<or> level (path @ [s]) segs p"
  then show "level path (s # segs) p"
  proof
    assume "p = path @ [s]"
    then show ?thesis by (auto simp: level_def intro!: exI [of _ "Suc (length path)"])
  next
    assume "level (path @ [s]) segs p"
    then obtain n where "Suc (length path) < n" "n \<le> length (path @ s # segs)" "p = take n (path @ s # segs)"
      by (auto simp: level_def)
    then show ?thesis unfolding level_def by (intro exI [of _ n]) simp
  qed
qed

lemma level_below: "level path segs p \<Longrightarrow> below path p"
  by (auto simp: level_def below_def)

lemma create_segments_ok:
  assumes "create_segments mkdir_ok path segs fs = (r, fs')"
  shows "fs \<subseteq>\<^sub>m fs' \<and> (\<forall>p. fs' p \<noteq> fs p \<longrightarrow> level path segs p) \<and>
    (\<forall>dir. r = Inr dir \<longrightarrow> dir = path @ segs \<and> (\<forall>p. level path segs p \<longrightarrow> fs' p = Some Directory))"
  using assms
proof (induction mkdir_ok path segs fs rule: create_segments.induct)
  case (1 mkdir_ok path fs)
  then show ?case by (auto simp: level_def)
next
  case (2 mkdir_ok path segment segments fs)
  let ?path = "path @ [segment]"
  obtain r1 fs1 where c: "create_dir_symlink_safe mkdir_ok ?path fs = (r1, fs1)" by fastforce
  note c1 = create_dir_ok [OF c]
  show ?case
  proof (cases r1)
    case (Inl e)
    with 2(2) c c1 show ?thesis by (auto simp: level_Cons)
  next
    case (Inr u)
    with 2(2) c have rec: "create_segments mkdir_ok ?path segments fs1 = (r, fs')" by simp
    note IH = 2(1) [OF refl c [symmetric] Inr rec]
    have "fs' ?path = Some Directory"
      using c1(2) Inr IH by (auto simp: map_le_def dom_def)
    moreover have "fs \<subseteq>\<^sub>m fs'" using c1(1) IH map_le_trans by blast
    moreover have "\<forall>p. fs' p \<noteq> fs p \<longrightarrow> level path (segment # segments) p"
      using IH c1(3) unfolding level_Cons by metis
    ultimately show ?thesis
      using IH by (auto simp: level_Cons)
  qed
qed

definition state_path :: "string list \<Rightarrow> InstanceId \<Rightarrow> string list" where
  "state_path root i = root @ [kind_str (id_kind i), ''users'', id_owner_user_id i, id_instance_id i]"

lemma instance_state_dir_effect:
  assumes "instance_state_dir mkdir_ok root i fs = (r, fs')"
  shows "fs \<subseteq>\<^sub>m fs'"
    and "fs' p \<noteq> fs p \<Longrightarrow> \<exists>n. length root \<le> n \<and> n \<le> length (state_path root i) \<and> p = take n (state_path root i)"
    and "r = Inr dir \<Longrightarrow> dir = state_path root i"
    and "r = Inr dir \<Longrightarrow> length root \<le> n \<Longrightarrow> n \<le> length dir \<Longrightarrow> fs' (take n dir) = Some Directory"
proof -
  let ?segs = "[kind_str (id_kind i), ''users'', id_owner_user_id i, id_instance_id i]"
  obtain r1 fs1 where c: "create_dir_symlink_safe mkdir_ok root fs = (r1, fs1)" by fastforce
  note c1 = create_dir_ok [OF c]
  consider (bad) "fs' = fs" "\<forall>d. r \<noteq> Inr d"
    | (fail) e where "r1 = Inl e" "fs' = fs1" "r = Inl e"
    | (ok) "r1 = Inr ()" "create_segments mkdir_ok root ?segs fs1 = (r, fs')"
    using assms c by (cases r1) (auto simp: instance_state_dir_def split: if_splits)
  then have "fs \<subseteq>\<^sub>m fs' \<and>
    (\<forall>p. fs' p \<noteq> fs p \<longrightarrow> (\<exists>n. length root \<le> n \<and> n \<le> length (state_path root i) \<and> p = take n (state_path root i))) \<and>
    (\<forall>dir. r = Inr dir \<longrightarrow> dir = state_path root i \<and>
      (\<forall>n. length root \<le> n \<and> n \<le> length dir \<longrightarrow> fs' (take n dir) = Some Directory))"
  proof cases
    case bad
    then show ?thesis by simp
  next
    case fail
    then show ?thesis
      using c1(1,3) by (auto simp: state_path_def intro!: exI [of _ "length root"])
  next
    case ok
    note s = create_segments_ok [OF ok(2)]
    have root': "fs' root = Some Directory"
      using c1(2) [OF ok(1)] s by (auto simp: map_le_def dom_def)
    have lvl: "level root ?segs (take n (state_path root i))"
      if "length root < n" "n \<le> length (state_path root i)" for n
      using that unfolding level_def state_path_def by blast
    have "\<forall>p. fs' p \<noteq> fs p \<longrightarrow> p = root \<or> level root ?segs p"
      using s c1(3) by metis
    then have "\<forall>p. fs' p \<noteq> fs p \<longrightarrow>
        (\<exists>n. length root \<le> n \<and> n \<le> length (state_path root i) \<and> p = take n (state_path root i))"
      unfolding level_def state_path_def
      by (metis (no_types, lifting) append_eq_conv_conj le_add1 length_append less_imp_le_nat order_refl)
    moreover have "fs' (take n (state_path root i)) = Some Directory"
      if "r = Inr dir" "length root \<le> n" "n \<le> length (state_path root i)" for n dir
    proof (cases "n = length root")
      case True
      with root' show ?thesis by (simp add: state_path_def)
    next
      case False
      with that s lvl [of n] show ?thesis by auto
    qed
    moreover have "dir = state_path root i" if "r = Inr dir" for dir
      using s that by (simp add: state_path_def)
    moreover have "fs \<subseteq>\<^sub>m fs'" using s c1(1) map_le_trans by blast
    ultimately show ?thesis by blast
  qed
  then show "fs \<subseteq>\<^sub>m fs'"
    and "fs' p \<noteq> fs p \<Longrightarrow> \<exists>n. length root \<le> n \<and> n \<le> length (state_path root i) \<and> p = take n (state_path root i)"
    and "r = Inr dir \<Longrightarrow> dir = state_path root i"
    and "r = Inr dir \<Longrightarrow> length root \<le> n \<Longrightarrow> n \<le> length dir \<Longrightarrow> fs' (take n dir) = Some Directory"
    by blast+
qed

text \<open>
  State directories are confined and never reached through a link. When \<open>instance_state_dir\<close> succeeds,
  the directory is the one of that kind, owner and instance below the runtime root, every level from the
  root down is a real directory that was already one or did not exist, nothing that existed was changed,
  and no path outside the root was touched; owner and instance are single path components.
\<close>

theorem state_dir_confined:
  assumes "instance_state_dir mkdir_ok root i fs = (Inr dir, fs')"
  shows "dir = root @ [kind_str (id_kind i), ''users'', id_owner_user_id i, id_instance_id i] \<and>
    (\<forall>n. length root \<le> n \<and> n \<le> length dir \<longrightarrow>
       fs' (take n dir) = Some Directory \<and> fs (take n dir) \<noteq> Some Symlink) \<and>
    fs \<subseteq>\<^sub>m fs' \<and> (\<forall>p. fs' p \<noteq> fs p \<longrightarrow> below root p) \<and>
    CHR ''/'' \<notin> set (id_owner_user_id i) \<and> CHR ''/'' \<notin> set (id_instance_id i) \<and>
    id_owner_user_id i \<noteq> ''..'' \<and> id_instance_id i \<noteq> ''..''"
proof -
  have safe: "is_safe_segment (id_owner_user_id i)" "is_safe_segment (id_instance_id i)"
    using assms by (auto simp: instance_state_dir_def split: if_splits)
  have seg: "CHR ''/'' \<notin> set v \<and> v \<noteq> ''..''" if "is_safe_segment v" for v
    using that by (auto simp: is_safe_segment_def list_all_iff char_class_defs)
  note e = instance_state_dir_effect [OF assms]
  have "fs p \<noteq> Some Symlink" if "fs' p = Some Directory" for p
    using e(1) that by (auto simp: map_le_def dom_def)
  moreover have "below root p" if "fs' p \<noteq> fs p" for p
    using e(2) [OF that] by (auto simp: below_def state_path_def min_def)
  ultimately show ?thesis
    using e(1) e(3) [OF refl] e(4) [OF refl] seg safe unfolding state_path_def by blast
qed

text \<open>
  Removing the state of one instance leaves the state of every other instance as it was, whether the
  removal succeeds or not.
\<close>

theorem remove_state_dir_isolated:
  assumes "i \<noteq> j" and "below (state_path root j) p"
  shows "snd (remove_instance_state_dir mkdir_ok remove_ok root i fs) p = fs p"
proof -
  obtain r fs' where d: "instance_state_dir mkdir_ok root i fs = (r, fs')" by fastforce
  note e = instance_state_dir_effect [OF d]
  have len: "length (state_path root i) = length (state_path root j)" by (simp add: state_path_def)
  have ne: "state_path root i \<noteq> state_path root j"
    using assms(1) kind_text.render_inj by (auto simp: state_path_def InstanceId.equality)
  then have nb: "\<not> below (state_path root i) p"
    using assms(2) len by (auto simp: below_def)
  have "fs' p = fs p"
  proof (rule ccontr)
    assume "fs' p \<noteq> fs p"
    from e(2) [OF this] obtain n where n: "n \<le> length (state_path root i)" "p = take n (state_path root i)"
      by blast
    have "take (length (state_path root j)) p = state_path root j" using assms(2) by (simp add: below_def)
    then have "length (state_path root j) \<le> length p"
      by (metis length_take min.cobounded2 min.commute)
    with n len have "p = state_path root i" by simp
    with nb show False by (simp add: below_def)
  qed
  with d e(3) nb show ?thesis
    by (auto simp: remove_instance_state_dir_def split: sum.splits)
qed

end
