(* ===== verification/Runtime_Manager.thy ===== *)
theory Runtime_Manager
  imports Runtime_Store "HOL-Library.AList" Complex_Main
begin

text \<open>
  The runtime manager (\<open>crates/orchestrator/src/manager.rs\<close>).

  An operation of the manager takes the lock of an instance, drops it while it waits for an adapter, and
  takes it again: \<open>start_instance\<close> is \<open>start_begin\<close>, \<open>start_launch\<close>, \<open>start_finish\<close>, and \<open>stop_live\<close> is
  \<open>stop_begin\<close>, \<open>stop_finish\<close>. Each of these runs without interruption; the operations compose them as the
  code does, and a race is an interleaving of them. The supervisor task of a started instance is an entry
  of \<open>mg_supervisors\<close>, and \<open>supervisor_tick\<close> is one turn of its loop.

  The live instances are an association list, in the order in which the hash map iterates. Adapters are
  parameters: what they answer is an argument, what they are asked to do is the trace \<open>mg_calls\<close>.
  Instants are milliseconds.
\<close>

section \<open>State\<close>

datatype AdapterError =
  AdapterUnavailable string | AdapterStorage string | AdapterStart string | AdapterStop string | AdapterTimeout

datatype StartError =
    UnknownKind
  | StartDisabled
  | StartUnavailable string
  | PerUserLimitReached
  | GlobalLimitReached
  | StartNotFound
  | StartNotOwner
  | StartAdapter AdapterError
  | StartStorage StorageError
  | StartDb
  | StartTimeout

datatype StopError = StopNotFound | StopNotOwner | StopDb

datatype Availability = Available string | AvailUnavailable string

datatype HealthStatus = Ready | NotReadyYet | HealthUnhealthy

datatype RunningHandle = Process "nat option" | Opaque string

record ResourcePolicy =
  max_instances_global :: nat
  max_instances_per_user :: nat
  memory_limit_bytes :: "nat option"
  pids_limit :: "nat option"
  cpu_quota_fraction :: "rat option"
  start_timeout :: nat
  health_timeout :: nat
  stop_timeout :: nat
  idle_timeout :: "nat option"

definition default_policy :: ResourcePolicy where
  "default_policy =
     \<lparr>max_instances_global = 8, max_instances_per_user = 1, memory_limit_bytes = Some (512 * 1024 * 1024),
      pids_limit = Some 64, cpu_quota_fraction = Some 1, start_timeout = 20000, health_timeout = 10000,
      stop_timeout = 10000, idle_timeout = Some (30 * 60 * 1000)\<rparr>"

record InstanceContext =
  cx_id :: InstanceId
  cx_generation :: nat
  cx_runtime_root :: "string list"
  cx_state_dir :: "string list"
  cx_policy :: ResourcePolicy
  cx_port :: "nat option"

record InstanceRuntime =
  rt_state :: InstanceState
  rt_handle :: "RunningHandle option"
  rt_generation :: nat
  rt_cgroup :: "string option"
  rt_last_activity :: nat
  rt_port :: "nat option"

record LiveInstance =
  li_ctx :: InstanceContext
  li_persistence :: Persistence
  li_runtime :: InstanceRuntime

type_synonym InstanceKey = "RuntimeKind \<times> string \<times> string"

datatype adapter_call =
    CallPrepare InstanceContext
  | CallStart InstanceContext RunningHandle
  | CallStop InstanceContext RunningHandle
  | CallKill InstanceContext RunningHandle
  | CallCleanup InstanceContext

record supervisor =
  sv_key :: InstanceKey
  sv_ctx :: InstanceContext
  sv_generation :: nat
  sv_reserved_port :: "nat option"

record manager =
  mg_enabled :: "RuntimeKind \<rightharpoonup> bool"
  mg_rows :: "runtime_row list"
  mg_reserved :: "nat set"
  mg_live :: "(InstanceKey \<times> LiveInstance) list"
  mg_supervisors :: "supervisor list"
  mg_calls :: "adapter_call list"
  mg_fs :: "string list \<rightharpoonup> fs_node"

text \<open>What is fixed for the life of the manager, and the parameters that stand for the system.\<close>

record manager_env =
  me_adapters :: "RuntimeKind \<Rightarrow> bool"
  me_availability :: "RuntimeKind \<Rightarrow> Availability"
  me_runtime_root :: "string list"
  me_policy :: ResourcePolicy
  me_kind_policies :: "RuntimeKind \<rightharpoonup> ResourcePolicy"
  me_known :: "string \<Rightarrow> bool"
  me_mkdir_ok :: "string list \<Rightarrow> bool"
  me_remove_ok :: "string list \<Rightarrow> bool"

definition CRASH_LOOP_MAX_RESTARTS :: int where
  "CRASH_LOOP_MAX_RESTARTS = 3"

definition key_of :: "InstanceId \<Rightarrow> InstanceKey" where
  "key_of i = (id_kind i, id_owner_user_id i, id_instance_id i)"

definition policy_for :: "manager_env \<Rightarrow> RuntimeKind \<Rightarrow> ResourcePolicy" where
  "policy_for env kind = (case me_kind_policies env kind of None \<Rightarrow> me_policy env | Some p \<Rightarrow> p)"

definition availability :: "manager_env \<Rightarrow> RuntimeKind \<Rightarrow> Availability" where
  "availability env kind =
     (if me_adapters env kind then me_availability env kind else AvailUnavailable ''runtime kind not registered'')"

definition is_enabled :: "RuntimeKind \<Rightarrow> manager \<Rightarrow> bool" where
  "is_enabled kind m = (case mg_enabled m kind of None \<Rightarrow> False | Some b \<Rightarrow> b)"

definition get_live :: "InstanceId \<Rightarrow> manager \<Rightarrow> LiveInstance option" where
  "get_live i m = map_of (mg_live m) (key_of i)"

definition put_live :: "LiveInstance \<Rightarrow> manager \<Rightarrow> manager" where
  "put_live li m = m\<lparr>mg_live := AList.update (key_of (cx_id (li_ctx li))) li (mg_live m)\<rparr>"

definition set_runtime :: "InstanceRuntime \<Rightarrow> LiveInstance \<Rightarrow> LiveInstance" where
  "set_runtime rt li = li\<lparr>li_runtime := rt\<rparr>"

definition in_rows :: "(runtime_row list \<Rightarrow> runtime_row list) \<Rightarrow> manager \<Rightarrow> manager" where
  "in_rows f m = m\<lparr>mg_rows := f (mg_rows m)\<rparr>"

definition release_opt :: "nat option \<Rightarrow> manager \<Rightarrow> manager" where
  "release_opt port m = (case port of None \<Rightarrow> m | Some p \<Rightarrow> m\<lparr>mg_reserved := release p (mg_reserved m)\<rparr>)"

definition call :: "adapter_call \<Rightarrow> manager \<Rightarrow> manager" where
  "call c m = m\<lparr>mg_calls := mg_calls m @ [c]\<rparr>"

section \<open>Creating an instance\<close>

definition counted :: "RuntimeKind \<Rightarrow> InstanceRow list \<Rightarrow> nat" where
  "counted kind rows = length (filter (\<lambda>r. ir_kind r = kind \<and> ir_state r \<noteq> Failed) rows)"

definition create_instance ::
    "manager_env \<Rightarrow> string \<Rightarrow> int \<Rightarrow> nat \<Rightarrow> string \<Rightarrow> RuntimeKind \<Rightarrow> Persistence \<Rightarrow> manager \<Rightarrow>
     (StartError + InstanceId) \<times> manager" where
  "create_instance env instance_id ts instant owner kind persistence m =
     (if \<not> me_adapters env kind then (Inl UnknownKind, m)
      else if \<not> is_enabled kind m then (Inl StartDisabled, m)
      else case availability env kind of
        AvailUnavailable reason \<Rightarrow> (Inl (StartUnavailable reason), m)
      | Available _ \<Rightarrow>
        let policy = policy_for env kind in
        if counted kind (store_list_for_owner owner (mg_rows m)) \<ge> max_instances_per_user policy
        then (Inl PerUserLimitReached, m)
        else if counted kind (store_list_all (mg_rows m)) \<ge> max_instances_global policy
        then (Inl GlobalLimitReached, m)
        else
          let i = \<lparr>id_kind = kind, id_owner_user_id = owner, id_instance_id = instance_id\<rparr> in
          case instance_state_dir (me_mkdir_ok env) (me_runtime_root env) i (mg_fs m) of
            (Inl e, fs') \<Rightarrow> (Inl (StartStorage e), m\<lparr>mg_fs := fs'\<rparr>)
          | (Inr state_dir, fs') \<Rightarrow>
            case store_upsert_instance (me_known env) ts i 0 Stopped persistence None None (mg_rows m) of
              (None, rows') \<Rightarrow> (Inl StartDb, m\<lparr>mg_fs := fs', mg_rows := rows'\<rparr>)
            | (Some _, rows') \<Rightarrow>
              let ctx = \<lparr>cx_id = i, cx_generation = 0, cx_runtime_root = me_runtime_root env,
                         cx_state_dir = state_dir, cx_policy = policy, cx_port = None\<rparr>;
                  rt = \<lparr>rt_state = Stopped, rt_handle = None, rt_generation = 0, rt_cgroup = None,
                        rt_last_activity = instant, rt_port = None\<rparr>;
                  li = \<lparr>li_ctx = ctx, li_persistence = persistence, li_runtime = rt\<rparr> in
              (Inr i, put_live li (m\<lparr>mg_fs := fs', mg_rows := rows'\<rparr>)))"

section \<open>Starting\<close>

text \<open>The first locked region: reserve a port, count a new attempt, mark the instance as starting.\<close>

record start_ticket =
  st_ctx :: InstanceContext
  st_generation :: nat
  st_port :: "nat option"

definition start_begin ::
    "manager_env \<Rightarrow> int \<Rightarrow> (nat \<Rightarrow> nat option) \<Rightarrow> string \<Rightarrow> InstanceId \<Rightarrow> manager \<Rightarrow>
     (StartError + start_ticket option) \<times> manager" where
  "start_begin env ts offers owner i m =
     (if id_owner_user_id i \<noteq> owner then (Inl StartNotOwner, m)
      else if \<not> is_enabled (id_kind i) m then (Inl StartDisabled, m)
      else case get_live i m of
        None \<Rightarrow> (Inl StartNotFound, m)
      | Some li \<Rightarrow>
        if \<not> me_adapters env (id_kind i) then (Inl UnknownKind, m)
        else
          let rt = li_runtime li in
          if rt_state rt = Running \<or> rt_state rt = Starting then (Inr None, m)
          else
            let generation = rt_generation rt + 1;
                (port, reserved') = allocate offers (mg_reserved m);
                ctx = (li_ctx li)\<lparr>cx_generation := generation, cx_port := port\<rparr>;
                li' = set_runtime (rt\<lparr>rt_generation := generation, rt_state := Starting, rt_port := port\<rparr>) li;
                m1 = put_live li' (m\<lparr>mg_reserved := reserved'\<rparr>);
                (r, rows') = store_upsert_instance (me_known env) ts i generation Starting
                               (li_persistence li) port None (mg_rows m1);
                m2 = m1\<lparr>mg_rows := rows'\<rparr> in
            case r of
              None \<Rightarrow> (Inl StartDb, m2)
            | Some _ \<Rightarrow> (Inr (Some \<lparr>st_ctx = ctx, st_generation = generation, st_port = port\<rparr>), m2))"

text \<open>Between the regions: the state directory, \<open>adapter.prepare\<close> and \<open>adapter.start\<close>, without the lock.\<close>

definition start_launch ::
    "manager_env \<Rightarrow> AdapterError option \<Rightarrow> AdapterError + RunningHandle \<Rightarrow> InstanceId \<Rightarrow> start_ticket \<Rightarrow> manager \<Rightarrow>
     (StartError + (AdapterError + RunningHandle)) \<times> manager" where
  "start_launch env prepare start_result i ticket m =
     (case instance_state_dir (me_mkdir_ok env) (me_runtime_root env) i (mg_fs m) of
        (Inl e, fs') \<Rightarrow> (Inl (StartStorage e), m\<lparr>mg_fs := fs'\<rparr>)
      | (Inr _, fs') \<Rightarrow>
        let m1 = call (CallPrepare (st_ctx ticket)) (m\<lparr>mg_fs := fs'\<rparr>) in
        case prepare of
          Some e \<Rightarrow> (Inl (StartAdapter e), m1)
        | None \<Rightarrow>
          (Inr start_result,
           case start_result of Inl _ \<Rightarrow> m1 | Inr h \<Rightarrow> call (CallStart (st_ctx ticket) h) m1))"

text \<open>
  The bounded readiness wait. Poll \<open>k\<close> is answered \<open>health k\<close>; between two polls at least 150 ms pass, and
  \<open>delay k\<close> more.
\<close>

function wait_ready :: "(nat \<Rightarrow> HealthStatus) \<Rightarrow> (nat \<Rightarrow> nat) \<Rightarrow> nat \<Rightarrow> nat \<Rightarrow> nat \<Rightarrow> bool" where
  "wait_ready health delay deadline k t =
     (case health k of
        Ready \<Rightarrow> True
      | HealthUnhealthy \<Rightarrow> False
      | NotReadyYet \<Rightarrow>
        if t \<ge> deadline then False
        else wait_ready health delay deadline (Suc k) (t + 150 + delay k))"
  by pat_completeness auto
termination
  by (relation "measure (\<lambda>(health, delay, deadline, k, t). deadline - t)") auto

declare wait_ready.simps [simp del]

definition handle_pid :: "RunningHandle \<Rightarrow> nat option" where
  "handle_pid h = (case h of Process pid \<Rightarrow> pid | Opaque _ \<Rightarrow> None)"

text \<open>The second locked region, held until readiness is settled.\<close>

definition start_finish ::
    "manager_env \<Rightarrow> int \<Rightarrow> (AdapterError \<Rightarrow> string) \<Rightarrow> (string \<Rightarrow> string option) \<Rightarrow>
     (nat \<Rightarrow> HealthStatus) \<Rightarrow> (nat \<Rightarrow> nat) \<Rightarrow> nat \<Rightarrow> nat \<Rightarrow> InstanceId \<Rightarrow> LiveInstance \<Rightarrow> start_ticket \<Rightarrow>
     AdapterError + RunningHandle \<Rightarrow> manager \<Rightarrow> (StartError + unit) \<times> manager" where
  "start_finish env ts display cgroup health delay instant instant_end i li ticket start_result m =
     (let rt = li_runtime li; port = st_port ticket; ctx = st_ctx ticket in
      if rt_generation rt \<noteq> st_generation ticket
      then (Inr (), case start_result of Inl _ \<Rightarrow> m | Inr h \<Rightarrow> call (CallKill ctx h) m)
      else case start_result of
        Inl e \<Rightarrow>
          (Inl (StartAdapter e),
           in_rows (store_set_state ts i Failed (Some (display e)))
             (release_opt port (put_live (set_runtime (rt\<lparr>rt_state := Failed, rt_port := None\<rparr>) li) m)))
      | Inr h \<Rightarrow>
        case store_upsert_instance (me_known env) ts i (st_generation ticket) Starting (li_persistence li)
               port (handle_pid h) (mg_rows m) of
          (None, rows') \<Rightarrow> (Inl StartDb, m\<lparr>mg_rows := rows'\<rparr>)
        | (Some _, rows') \<Rightarrow>
          let m1 = m\<lparr>mg_rows := rows'\<rparr>;
              cg = (case handle_pid h of None \<Rightarrow> None | Some _ \<Rightarrow> cgroup (id_instance_id i));
              deadline = instant + start_timeout (cx_policy ctx) + health_timeout (cx_policy ctx) in
          if \<not> wait_ready health delay deadline 0 instant
          then
            (Inl StartTimeout,
             in_rows (store_set_state ts i Failed (Some ''start/health timeout''))
               (release_opt port
                  (put_live (set_runtime (rt\<lparr>rt_state := Failed, rt_port := None\<rparr>) li) (call (CallKill ctx h) m1))))
          else
            let rt' = rt\<lparr>rt_state := Running, rt_handle := Some h, rt_cgroup := cg,
                         rt_last_activity := instant_end\<rparr>;
                m2 = in_rows (store_set_state ts i Running None) (put_live (set_runtime rt' li) m1) in
            (Inr (), m2\<lparr>mg_supervisors := mg_supervisors m2 @
               [\<lparr>sv_key = key_of i, sv_ctx = ctx, sv_generation = st_generation ticket,
                 sv_reserved_port = port\<rparr>]\<rparr>))"

text \<open>Everything that the system answers in the course of one start.\<close>

record start_env =
  se_ts :: int
  se_offers :: "nat \<Rightarrow> nat option"
  se_prepare :: "AdapterError option"
  se_start :: "AdapterError + RunningHandle"
  se_display :: "AdapterError \<Rightarrow> string"
  se_cgroup :: "string \<Rightarrow> string option"
  se_health :: "nat \<Rightarrow> HealthStatus"
  se_delay :: "nat \<Rightarrow> nat"
  se_instant :: nat
  se_instant_end :: nat

definition start_resume ::
    "manager_env \<Rightarrow> start_env \<Rightarrow> InstanceId \<Rightarrow> start_ticket \<Rightarrow> AdapterError + RunningHandle \<Rightarrow> manager \<Rightarrow>
     (StartError + unit) \<times> manager" where
  "start_resume env se i ticket start_result m =
     (case get_live i m of
        None \<Rightarrow> (Inr (), m)
      | Some li \<Rightarrow>
        start_finish env (se_ts se) (se_display se) (se_cgroup se) (se_health se) (se_delay se)
          (se_instant se) (se_instant_end se) i li ticket start_result m)"

definition start_instance ::
    "manager_env \<Rightarrow> start_env \<Rightarrow> string \<Rightarrow> InstanceId \<Rightarrow> manager \<Rightarrow> (StartError + unit) \<times> manager" where
  "start_instance env se owner i m =
     (case start_begin env (se_ts se) (se_offers se) owner i m of
        (Inl e, m1) \<Rightarrow> (Inl e, m1)
      | (Inr None, m1) \<Rightarrow> (Inr (), m1)
      | (Inr (Some ticket), m1) \<Rightarrow>
        case start_launch env (se_prepare se) (se_start se) i ticket m1 of
          (Inl e, m2) \<Rightarrow> (Inl e, m2)
        | (Inr start_result, m2) \<Rightarrow> start_resume env se i ticket start_result m2)"

section \<open>The supervisor\<close>

text \<open>
  One turn of the loop of \<open>spawn_supervisor\<close>. \<open>exited\<close> is what \<open>try_wait\<close> answers for a process (exit code and
  signal), \<open>status\<close> and \<open>gone\<close> are the adapter's answers. The result says whether the task goes on.
\<close>

definition supervisor_tick ::
    "int \<Rightarrow> (int option \<times> string option) option \<Rightarrow> HealthStatus \<Rightarrow> bool \<Rightarrow> supervisor \<Rightarrow> manager \<Rightarrow> bool \<times> manager" where
  "supervisor_tick ts exited status gone sv m =
     (case map_of (mg_live m) (sv_key sv) of
        None \<Rightarrow> (False, m)
      | Some li \<Rightarrow>
        let rt = li_runtime li; i = cx_id (li_ctx li);
            failed = release_opt (sv_reserved_port sv)
              (put_live (set_runtime (rt\<lparr>rt_state := Failed, rt_handle := None, rt_port := None\<rparr>) li) m) in
        if rt_generation rt \<noteq> sv_generation sv then (False, m)
        else if rt_state rt \<noteq> Running \<and> rt_state rt \<noteq> Unhealthy then (False, m)
        else case rt_handle rt of
          None \<Rightarrow> (False, m)
        | Some h \<Rightarrow>
          case (case h of Process _ \<Rightarrow> exited | Opaque _ \<Rightarrow> None) of
            Some (code, signal) \<Rightarrow>
              (False, in_rows (store_set_state ts i Failed (Some ''unexpected exit''))
                 (in_rows (store_record_exit ts i code signal) failed))
          | None \<Rightarrow>
            if status \<noteq> Ready \<and> gone
            then (False, in_rows (store_set_state ts i Failed (Some ''container exited'')) failed)
            else
              let new_state = (if status = Ready then Running else Unhealthy) in
              if rt_state rt \<noteq> new_state
              then (True, in_rows (store_set_state ts i new_state None)
                      (put_live (set_runtime (rt\<lparr>rt_state := new_state\<rparr>) li) m))
              else (True, m))"

definition run_supervisor ::
    "int \<Rightarrow> (int option \<times> string option) option \<Rightarrow> HealthStatus \<Rightarrow> bool \<Rightarrow> nat \<Rightarrow> manager \<Rightarrow> manager" where
  "run_supervisor ts exited status gone n m =
     (if n < length (mg_supervisors m) then
        case supervisor_tick ts exited status gone (mg_supervisors m ! n) m of
          (True, m') \<Rightarrow> m'
        | (False, m') \<Rightarrow>
          m'\<lparr>mg_supervisors := take n (mg_supervisors m') @ drop (Suc n) (mg_supervisors m')\<rparr>
      else m)"

section \<open>Stopping\<close>

record stop_ticket =
  pt_ctx :: InstanceContext
  pt_handle :: RunningHandle

definition stop_begin :: "manager_env \<Rightarrow> int \<Rightarrow> LiveInstance \<Rightarrow> manager \<Rightarrow> stop_ticket option \<times> manager" where
  "stop_begin env ts li m =
     (let rt = li_runtime li; i = cx_id (li_ctx li) in
      if \<not> me_adapters env (id_kind i) then (None, m)
      else if rt_state rt = Stopped \<or> rt_state rt = Failed then (None, m)
      else case rt_handle rt of
        None \<Rightarrow> (None, put_live (set_runtime (rt\<lparr>rt_state := Stopped\<rparr>) li) m)
      | Some h \<Rightarrow>
        (Some \<lparr>pt_ctx = (li_ctx li)\<lparr>cx_generation := rt_generation rt, cx_port := rt_port rt\<rparr>, pt_handle = h\<rparr>,
         in_rows (store_set_state ts i Stopping None)
           (put_live (set_runtime (rt\<lparr>rt_state := Stopping, rt_handle := None\<rparr>) li) m)))"

text \<open>\<open>timed_out\<close>: the process did not end within \<open>stop_timeout\<close>.\<close>

definition stop_wait :: "bool \<Rightarrow> bool \<Rightarrow> stop_ticket \<Rightarrow> manager \<Rightarrow> manager" where
  "stop_wait force timed_out ticket m =
     (let kill = call (CallKill (pt_ctx ticket) (pt_handle ticket)) in
      if force then kill m
      else
        let m1 = call (CallStop (pt_ctx ticket) (pt_handle ticket)) m in
        case pt_handle ticket of
          Process _ \<Rightarrow> if timed_out then kill m1 else m1
        | Opaque _ \<Rightarrow> m1)"

definition stop_finish :: "int \<Rightarrow> LiveInstance \<Rightarrow> stop_ticket \<Rightarrow> manager \<Rightarrow> manager" where
  "stop_finish ts li ticket m =
     (let rt = li_runtime li;
          m1 = release_opt (rt_port rt)
                 (put_live (set_runtime (rt\<lparr>rt_state := Stopped, rt_handle := None, rt_port := None,
                                            rt_cgroup := None\<rparr>) li) m);
          m2 = in_rows (store_set_state ts (cx_id (li_ctx li)) Stopped None) m1 in
      if li_persistence li = Ephemeral then call (CallCleanup (pt_ctx ticket)) m2 else m2)"

text \<open>The second half of \<open>stop_live\<close>, which looks at the instance as it is then.\<close>

definition stop_resume :: "bool \<Rightarrow> bool \<Rightarrow> int \<Rightarrow> InstanceKey \<Rightarrow> stop_ticket \<Rightarrow> manager \<Rightarrow> manager" where
  "stop_resume force timed_out ts k ticket m =
     (let m1 = stop_wait force timed_out ticket m in
      case map_of (mg_live m1) k of None \<Rightarrow> m1 | Some li \<Rightarrow> stop_finish ts li ticket m1)"

definition stop_live :: "manager_env \<Rightarrow> bool \<Rightarrow> bool \<Rightarrow> int \<Rightarrow> InstanceKey \<Rightarrow> manager \<Rightarrow> manager" where
  "stop_live env force timed_out ts k m =
     (case map_of (mg_live m) k of
        None \<Rightarrow> m
      | Some li \<Rightarrow>
        case stop_begin env ts li m of
          (None, m1) \<Rightarrow> m1
        | (Some ticket, m1) \<Rightarrow> stop_resume force timed_out ts k ticket m1)"

definition stop_instance ::
    "manager_env \<Rightarrow> bool \<Rightarrow> int \<Rightarrow> string \<Rightarrow> InstanceId \<Rightarrow> manager \<Rightarrow> (StopError + unit) \<times> manager" where
  "stop_instance env timed_out ts owner i m =
     (if id_owner_user_id i \<noteq> owner then (Inl StopNotOwner, m)
      else case get_live i m of
        None \<Rightarrow> (Inl StopNotFound, m)
      | Some _ \<Rightarrow> (Inr (), stop_live env False timed_out ts (key_of i) m))"

section \<open>Other operations\<close>

definition restart_instance ::
    "manager_env \<Rightarrow> bool \<Rightarrow> start_env \<Rightarrow> string \<Rightarrow> InstanceId \<Rightarrow> manager \<Rightarrow> (StartError + unit) \<times> manager" where
  "restart_instance env timed_out se owner i m =
     (if id_owner_user_id i \<noteq> owner then (Inl StartNotOwner, m)
      else case get_live i m of
        None \<Rightarrow> (Inl StartNotFound, m)
      | Some _ \<Rightarrow>
        let m1 = stop_live env False timed_out (se_ts se) (key_of i) m;
            (count, rows') = store_increment_restart_count (se_ts se) i (mg_rows m1);
            m2 = m1\<lparr>mg_rows := rows'\<rparr> in
        if count > CRASH_LOOP_MAX_RESTARTS then
          (Inl (StartAdapter (AdapterStart ''crash-loop threshold exceeded'')),
           in_rows (store_set_state (se_ts se) i Failed (Some ''crash-loop threshold exceeded''))
             (case get_live i m2 of
                None \<Rightarrow> m2
              | Some li \<Rightarrow> put_live (set_runtime ((li_runtime li)\<lparr>rt_state := Failed\<rparr>) li) m2))
        else start_instance env se owner i m2)"

definition touch_activity :: "int \<Rightarrow> nat \<Rightarrow> string \<Rightarrow> InstanceId \<Rightarrow> manager \<Rightarrow> (StartError + unit) \<times> manager" where
  "touch_activity ts instant owner i m =
     (if id_owner_user_id i \<noteq> owner then (Inl StartNotOwner, m)
      else case get_live i m of
        None \<Rightarrow> (Inl StartNotFound, m)
      | Some li \<Rightarrow>
        (Inr (), in_rows (store_touch_activity ts i)
           (put_live (set_runtime ((li_runtime li)\<lparr>rt_last_activity := instant\<rparr>) li) m)))"

definition instance_status :: "string \<Rightarrow> InstanceId \<Rightarrow> manager \<Rightarrow> InstanceState option" where
  "instance_status owner i m =
     (if id_owner_user_id i \<noteq> owner then None
      else map_option (\<lambda>li. rt_state (li_runtime li)) (get_live i m))"

definition instance_port :: "string \<Rightarrow> InstanceId \<Rightarrow> manager \<Rightarrow> nat option" where
  "instance_port owner i m =
     (if id_owner_user_id i \<noteq> owner then None
      else case get_live i m of
        None \<Rightarrow> None
      | Some li \<Rightarrow> if rt_state (li_runtime li) \<noteq> Running then None else rt_port (li_runtime li))"

definition stop_all :: "manager_env \<Rightarrow> (InstanceKey \<Rightarrow> bool) \<Rightarrow> int \<Rightarrow> InstanceKey list \<Rightarrow> manager \<Rightarrow> manager" where
  "stop_all env timed_out ts ks m = fold (\<lambda>k. stop_live env False (timed_out k) ts k) ks m"

definition set_enabled ::
    "manager_env \<Rightarrow> (InstanceKey \<Rightarrow> bool) \<Rightarrow> int \<Rightarrow> RuntimeKind \<Rightarrow> bool \<Rightarrow> manager \<Rightarrow> manager" where
  "set_enabled env timed_out ts kind enabled m =
     (let m1 = (if enabled then m
                else stop_all env timed_out ts (filter (\<lambda>(k, _, _). k = kind) (map fst (mg_live m))) m) in
      m1\<lparr>mg_enabled := (mg_enabled m1)(kind \<mapsto> enabled)\<rparr>)"

definition is_idle :: "nat \<Rightarrow> LiveInstance \<Rightarrow> bool" where
  "is_idle instant li \<longleftrightarrow>
     (case idle_timeout (cx_policy (li_ctx li)) of
        None \<Rightarrow> False
      | Some timeout \<Rightarrow>
        rt_state (li_runtime li) = Running \<and> instant - rt_last_activity (li_runtime li) \<ge> timeout)"

definition sweep_idle_once ::
    "manager_env \<Rightarrow> (InstanceKey \<Rightarrow> bool) \<Rightarrow> int \<Rightarrow> (InstanceKey \<Rightarrow> nat) \<Rightarrow> manager \<Rightarrow> manager" where
  "sweep_idle_once env timed_out ts instant m =
     fold (\<lambda>k m.
        case map_of (mg_live m) k of
          None \<Rightarrow> m
        | Some li \<Rightarrow>
          if is_idle (instant k) li then stop_live env False (timed_out k) ts k m else m)
       (map fst (mg_live m)) m"

definition shutdown_all :: "manager_env \<Rightarrow> (InstanceKey \<Rightarrow> bool) \<Rightarrow> int \<Rightarrow> manager \<Rightarrow> manager" where
  "shutdown_all env timed_out ts m = stop_all env timed_out ts (map fst (mg_live m)) m"

fun reconcile_loop :: "manager_env \<Rightarrow> int \<Rightarrow> InstanceRow list \<Rightarrow> nat \<Rightarrow> manager \<Rightarrow> nat \<times> manager" where
  "reconcile_loop env ts [] reconciled m = (reconciled, m)"
| "reconcile_loop env ts (row # rows) reconciled m =
     (if is_terminal_for_reconciliation (ir_state row) then reconcile_loop env ts rows reconciled m
      else
        let i = \<lparr>id_kind = ir_kind row, id_owner_user_id = ir_owner_user_id row,
                 id_instance_id = ir_instance_id row\<rparr>;
            m1 = in_rows (store_set_state ts i Failed (Some ''reconciled after restart'')) m;
            m2 = (if ir_persistence row = Ephemeral
                  then m1\<lparr>mg_fs := snd (remove_instance_state_dir (me_mkdir_ok env) (me_remove_ok env)
                                         (me_runtime_root env) i (mg_fs m1))\<rparr>
                  else m1) in
        reconcile_loop env ts rows (reconciled + 1) m2)"

definition reconcile_on_startup :: "manager_env \<Rightarrow> int \<Rightarrow> manager \<Rightarrow> nat \<times> manager" where
  "reconcile_on_startup env ts m = reconcile_loop env ts (store_list_all (mg_rows m)) 0 m"

end
