(* ===== verification/Runtime_Properties.thy ===== *)
theory Runtime_Properties
  imports Runtime_Manager
begin

text \<open>
  Properties of the runtime manager. Operations that run one after another keep the invariant
  \<open>mgr_inv\<close>: ports are exclusive and reserved, a running instance has a handle, and a supervisor that is
  still in charge knows the port of its instance. The module documentation claims that the lock of an
  instance serialises its operations; the lock is released while an adapter is awaited, and the
  theorems about races show what can happen there.
\<close>

section \<open>Components of the state\<close>

lemma in_rows_simps [simp]:
  "mg_live (in_rows f m) = mg_live m" "mg_reserved (in_rows f m) = mg_reserved m"
  "mg_supervisors (in_rows f m) = mg_supervisors m" "mg_enabled (in_rows f m) = mg_enabled m"
  "mg_rows (in_rows f m) = f (mg_rows m)" "mg_calls (in_rows f m) = mg_calls m" "mg_fs (in_rows f m) = mg_fs m"
  by (simp_all add: in_rows_def)

lemma call_simps [simp]:
  "mg_live (call c m) = mg_live m" "mg_reserved (call c m) = mg_reserved m"
  "mg_supervisors (call c m) = mg_supervisors m" "mg_enabled (call c m) = mg_enabled m"
  "mg_rows (call c m) = mg_rows m" "mg_calls (call c m) = mg_calls m @ [c]" "mg_fs (call c m) = mg_fs m"
  by (simp_all add: call_def)

lemma release_opt_simps [simp]:
  "mg_live (release_opt p m) = mg_live m"
  "mg_reserved (release_opt p m) = mg_reserved m - set_option p"
  "mg_supervisors (release_opt p m) = mg_supervisors m" "mg_enabled (release_opt p m) = mg_enabled m"
  "mg_rows (release_opt p m) = mg_rows m" "mg_calls (release_opt p m) = mg_calls m" "mg_fs (release_opt p m) = mg_fs m"
  by (cases p; simp add: release_opt_def release_def)+

lemma put_live_simps [simp]:
  "map_of (mg_live (put_live li m)) = (map_of (mg_live m))(key_of (cx_id (li_ctx li)) \<mapsto> li)"
  "mg_reserved (put_live li m) = mg_reserved m"
  "mg_supervisors (put_live li m) = mg_supervisors m" "mg_enabled (put_live li m) = mg_enabled m"
  "mg_rows (put_live li m) = mg_rows m" "mg_calls (put_live li m) = mg_calls m" "mg_fs (put_live li m) = mg_fs m"
  by (simp_all add: put_live_def update_conv')

lemma set_runtime_simps [simp]:
  "li_ctx (set_runtime rt li) = li_ctx li" "li_runtime (set_runtime rt li) = rt"
  "li_persistence (set_runtime rt li) = li_persistence li"
  by (simp_all add: set_runtime_def)

section \<open>The invariant\<close>

abbreviation up :: "LiveInstance \<Rightarrow> bool" where
  "up li \<equiv> rt_state (li_runtime li) = Running \<or> rt_state (li_runtime li) = Unhealthy"

abbreviation li_port :: "LiveInstance \<Rightarrow> nat option" where
  "li_port li \<equiv> rt_port (li_runtime li)"

definition live_ok :: "InstanceKey \<Rightarrow> LiveInstance \<Rightarrow> bool" where
  "live_ok k li \<longleftrightarrow>
     key_of (cx_id (li_ctx li)) = k \<and> (up li \<longrightarrow> rt_handle (li_runtime li) \<noteq> None) \<and>
     rt_state (li_runtime li) \<in> {Stopped, Starting, Running, Unhealthy, Failed}"

definition sv_ok :: "LiveInstance \<Rightarrow> supervisor \<Rightarrow> bool" where
  "sv_ok li sv \<longleftrightarrow>
     sv_generation sv \<le> rt_generation (li_runtime li) \<and>
     (sv_generation sv = rt_generation (li_runtime li) \<and> up li \<longrightarrow> sv_reserved_port sv = li_port li)"

definition core_inv :: "(InstanceKey \<rightharpoonup> LiveInstance) \<Rightarrow> nat set \<Rightarrow> supervisor set \<Rightarrow> bool" where
  "core_inv L R S \<longleftrightarrow>
     (\<forall>k li. L k = Some li \<longrightarrow> live_ok k li) \<and>
     (\<forall>k li p. L k = Some li \<longrightarrow> li_port li = Some p \<longrightarrow> p \<in> R) \<and>
     (\<forall>k li k' li' p. L k = Some li \<longrightarrow> L k' = Some li' \<longrightarrow> li_port li = Some p \<longrightarrow> li_port li' = Some p \<longrightarrow> k = k') \<and>
     (\<forall>sv\<in>S. \<exists>li. L (sv_key sv) = Some li \<and> sv_ok li sv)"

definition mgr_inv :: "manager \<Rightarrow> bool" where
  "mgr_inv m \<longleftrightarrow> core_inv (map_of (mg_live m)) (mg_reserved m) (set (mg_supervisors m))"

lemma core_invD:
  assumes "core_inv L R S"
  shows "L k = Some li \<Longrightarrow> live_ok k li"
    and "L k = Some li \<Longrightarrow> li_port li = Some p \<Longrightarrow> p \<in> R"
    and "L k = Some li \<Longrightarrow> L k' = Some li' \<Longrightarrow> li_port li = Some p \<Longrightarrow> li_port li' = Some p \<Longrightarrow> k = k'"
    and "sv \<in> S \<Longrightarrow> \<exists>li. L (sv_key sv) = Some li \<and> sv_ok li sv"
  using assms unfolding core_inv_def by blast+

lemma core_inv_put:
  assumes "core_inv L R S" and "live_ok k li'"
    and new: "\<And>p k' x. li_port li' = Some p \<Longrightarrow> p \<in> R' \<and> (k' \<noteq> k \<longrightarrow> L k' = Some x \<longrightarrow> li_port x \<noteq> Some p)"
    and old: "\<And>k' x p. k' \<noteq> k \<Longrightarrow> L k' = Some x \<Longrightarrow> li_port x = Some p \<Longrightarrow> p \<in> R'"
    and sv: "\<And>sv. sv \<in> S' \<Longrightarrow> sv \<in> S \<and> sv_key sv \<noteq> k \<or> sv_key sv = k \<and> sv_ok li' sv"
  shows "core_inv (L(k \<mapsto> li')) R' S'"
  unfolding core_inv_def
proof (intro conjI allI impI ballI)
  note D = core_invD [OF assms(1)]
  show "live_ok k1 li" if "(L(k \<mapsto> li')) k1 = Some li" for k1 li
    using that assms(2) D(1) [of k1 li] by (cases "k1 = k") auto
  show "p \<in> R'" if "(L(k \<mapsto> li')) k1 = Some li" "li_port li = Some p" for k1 li p
    using that new old [of k1 li p] by (cases "k1 = k") auto
  show "k1 = k2" if "(L(k \<mapsto> li')) k1 = Some li" "(L(k \<mapsto> li')) k2 = Some x" "li_port li = Some p" "li_port x = Some p"
    for k1 li k2 x p
    using that new [of p k1 li] new [of p k2 x] D(3) [of k1 li k2 x p] by (cases "k1 = k"; cases "k2 = k") auto
  show "\<exists>li. (L(k \<mapsto> li')) (sv_key sv) = Some li \<and> sv_ok li sv" if "sv \<in> S'" for sv
    using sv [OF that] D(4) [of sv] by auto
qed

text \<open>A change of one instance that keeps its port or gives it back.\<close>

lemma core_inv_keep:
  assumes "core_inv L R S" and "L k = Some li" and "live_ok k li'"
    and "li_port li' = li_port li \<and> R' = R \<or> li_port li' = None \<and> R' = R - set_option (li_port li)"
    and "\<And>sv. sv \<in> S' \<Longrightarrow> sv \<in> S \<and> sv_key sv \<noteq> k \<or> sv_key sv = k \<and> sv_ok li' sv"
  shows "core_inv (L(k \<mapsto> li')) R' S'"
proof (rule core_inv_put [OF assms(1,3) _ _ assms(5)])
  note D = core_invD [OF assms(1)]
  fix p k' x
  show "p \<in> R' \<and> (k' \<noteq> k \<longrightarrow> L k' = Some x \<longrightarrow> li_port x \<noteq> Some p)" if "li_port li' = Some p"
    using that assms(2,4) D(2) [OF assms(2), of p] D(3) [OF assms(2), of k' x p] by auto
  show "p \<in> R'" if "k' \<noteq> k" "L k' = Some x" "li_port x = Some p"
    using that assms(4) D(2) [OF that(2,3)] D(3) [OF assms(2) that(2), of p] by (cases "li_port li") auto
qed

lemma core_inv_sv:
  assumes "core_inv L R S" and "L k = Some li" and "\<And>sv. sv_ok li sv \<Longrightarrow> sv_ok li' sv" and "sv \<in> S"
  shows "sv \<in> S \<and> sv_key sv \<noteq> k \<or> sv_key sv = k \<and> sv_ok li' sv"
  using core_invD(4) [OF assms(1,4)] assms(2,3,4) by (cases "sv_key sv = k") auto

lemma mgr_inv_live: "mgr_inv m \<Longrightarrow> map_of (mg_live m) k = Some li \<Longrightarrow> live_ok k li"
  unfolding mgr_inv_def by (rule core_invD(1))

lemma mgr_inv_change:
  assumes "mgr_inv m" and "map_of (mg_live m) k = Some li"
    and "map_of (mg_live m') = (map_of (mg_live m))(k \<mapsto> li')" and "mg_supervisors m' = mg_supervisors m"
    and "live_ok k li'"
    and "li_port li' = li_port li \<and> mg_reserved m' = mg_reserved m \<or>
         li_port li' = None \<and> mg_reserved m' = mg_reserved m - set_option (li_port li)"
    and "\<And>sv. sv_ok li sv \<Longrightarrow> sv_ok li' sv"
  shows "mgr_inv m'"
  using core_inv_keep [OF assms(1) [unfolded mgr_inv_def] assms(2,5,6), of "set (mg_supervisors m)"]
    core_inv_sv [OF assms(1) [unfolded mgr_inv_def] assms(2,7)] assms(3,4)
  unfolding mgr_inv_def by simp

lemma mgr_inv_same:
  "mgr_inv m \<Longrightarrow> mg_live m' = mg_live m \<Longrightarrow> mg_reserved m' = mg_reserved m \<Longrightarrow>
    mg_supervisors m' = mg_supervisors m \<Longrightarrow> mgr_inv m'"
  by (simp add: mgr_inv_def)

section \<open>Stopping keeps the invariant\<close>

definition halted :: "LiveInstance \<Rightarrow> LiveInstance" where
  "halted li = set_runtime ((li_runtime li)\<lparr>rt_state := Stopped, rt_handle := None, rt_port := None,
                                            rt_cgroup := None\<rparr>) li"

lemma halted_simps [simp]:
  "li_ctx (halted li) = li_ctx li" "rt_state (li_runtime (halted li)) = Stopped"
  "rt_port (li_runtime (halted li)) = None" "rt_generation (li_runtime (halted li)) = rt_generation (li_runtime li)"
  "rt_handle (li_runtime (halted li)) = None"
  by (simp_all add: halted_def)

lemma stop_wait_simps [simp]:
  "mg_live (stop_wait force t tk m) = mg_live m" "mg_reserved (stop_wait force t tk m) = mg_reserved m"
  "mg_supervisors (stop_wait force t tk m) = mg_supervisors m" "mg_enabled (stop_wait force t tk m) = mg_enabled m"
  "mg_rows (stop_wait force t tk m) = mg_rows m"
  by (simp_all add: stop_wait_def Let_def split: RunningHandle.splits)

text \<open>The effect of an uninterrupted \<open>stop_live\<close> on one instance.\<close>

lemma stop_live_cases:
  assumes "map_of (mg_live m) k = Some li" and "key_of (cx_id (li_ctx li)) = k"
  obtains (none) "stop_live env force t ts k m = m"
      and "\<not> me_adapters env (id_kind (cx_id (li_ctx li))) \<or> rt_state (li_runtime li) \<in> {Stopped, Failed}"
    | (bare) "rt_handle (li_runtime li) = None"
      and "stop_live env force t ts k m = put_live (set_runtime ((li_runtime li)\<lparr>rt_state := Stopped\<rparr>) li) m"
    | (full) h where "rt_handle (li_runtime li) = Some h"
      and "map_of (mg_live (stop_live env force t ts k m)) = (map_of (mg_live m))(k \<mapsto> halted li)"
      and "mg_reserved (stop_live env force t ts k m) = mg_reserved m - set_option (li_port li)"
      and "mg_supervisors (stop_live env force t ts k m) = mg_supervisors m"
      and "mg_enabled (stop_live env force t ts k m) = mg_enabled m"
proof (cases "\<not> me_adapters env (id_kind (cx_id (li_ctx li))) \<or> rt_state (li_runtime li) \<in> {Stopped, Failed}")
  case True
  then have "stop_live env force t ts k m = m"
    using assms by (auto simp: stop_live_def stop_begin_def Let_def)
  with True show ?thesis using none by blast
next
  case False
  show ?thesis
  proof (cases "rt_handle (li_runtime li)")
    case None
    then show ?thesis
      using False assms bare by (simp add: stop_live_def stop_begin_def Let_def)
  next
    case (Some h)
    show ?thesis
      by (rule full [OF Some])
        (use False Some assms in \<open>simp_all add: stop_live_def stop_begin_def stop_resume_def stop_finish_def Let_def
          halted_def set_runtime_def\<close>)
  qed
qed

lemma stop_live_inv:
  assumes "mgr_inv m"
  shows "mgr_inv (stop_live env force t ts k m)"
proof (cases "map_of (mg_live m) k")
  case None
  with assms show ?thesis by (simp add: stop_live_def)
next
  case (Some li)
  have ok: "live_ok k li" by (rule mgr_inv_live [OF assms Some])
  then have key: "key_of (cx_id (li_ctx li)) = k" by (simp add: live_ok_def)
  from Some key show ?thesis
  proof (cases rule: stop_live_cases [where env = env and force = force and t = t and ts = ts])
    case none
    with assms show ?thesis by simp
  next
    case bare
    show ?thesis
      unfolding bare(2)
      by (rule mgr_inv_change [OF assms Some, where li' = "set_runtime ((li_runtime li)\<lparr>rt_state := Stopped\<rparr>) li"])
        (use key ok in \<open>auto simp: live_ok_def sv_ok_def\<close>)
  next
    case (full h)
    show ?thesis
      by (rule mgr_inv_change [OF assms Some full(2,4)])
        (use key full(3) in \<open>auto simp: live_ok_def sv_ok_def\<close>)
  qed
qed

lemma stop_all_inv: "mgr_inv m \<Longrightarrow> mgr_inv (stop_all env t ts ks m)"
  unfolding stop_all_def by (induction ks arbitrary: m) (simp_all add: stop_live_inv)

section \<open>Starting keeps the invariant\<close>

lemma start_launch_simps:
  assumes "start_launch env prepare sr i tk m = (r, m')"
  shows "mg_live m' = mg_live m" "mg_reserved m' = mg_reserved m" "mg_supervisors m' = mg_supervisors m"
    "mg_enabled m' = mg_enabled m" "mg_rows m' = mg_rows m" "\<And>x. r = Inr x \<Longrightarrow> x = sr"
  using assms by (auto simp: start_launch_def Let_def split: prod.splits sum.splits option.splits)

definition attempt :: "start_ticket \<Rightarrow> LiveInstance \<Rightarrow> LiveInstance" where
  "attempt tk li = set_runtime ((li_runtime li)\<lparr>rt_generation := st_generation tk, rt_state := Starting,
                                                rt_port := st_port tk\<rparr>) li"

text \<open>The effect of the first locked region of a start.\<close>

lemma start_begin_cases:
  assumes "start_begin env ts offers owner i m = (r, m')"
  obtains (none) "m' = m" and "\<And>tk. r \<noteq> Inr (Some tk)"
    | (begun) li tk where "get_live i m = Some li" and "st_generation tk = rt_generation (li_runtime li) + 1"
      and "allocate offers (mg_reserved m) = (st_port tk, mg_reserved m')"
      and "map_of (mg_live m') = (map_of (mg_live m))(key_of (cx_id (li_ctx li)) \<mapsto> attempt tk li)"
      and "mg_supervisors m' = mg_supervisors m" and "mg_enabled m' = mg_enabled m"
      and "r = Inl StartDb \<or> r = Inr (Some tk)"
      and "rt_state (li_runtime li) \<noteq> Running" and "rt_state (li_runtime li) \<noteq> Starting"
proof (cases "id_owner_user_id i \<noteq> owner \<or> \<not> is_enabled (id_kind i) m \<or> get_live i m = None \<or>
    \<not> me_adapters env (id_kind i) \<or>
    (\<exists>li. get_live i m = Some li \<and> (rt_state (li_runtime li) = Running \<or> rt_state (li_runtime li) = Starting))")
  case True
  then have "m' = m \<and> (\<forall>tk. r \<noteq> Inr (Some tk))"
    using assms by (auto simp: start_begin_def Let_def split: option.splits if_splits)
  then show ?thesis using none by blast
next
  case False
  then obtain li where li: "get_live i m = Some li"
    and st: "rt_state (li_runtime li) \<noteq> Running" "rt_state (li_runtime li) \<noteq> Starting" by auto
  obtain port reserved' where al: "allocate offers (mg_reserved m) = (port, reserved')" by fastforce
  define tk where "tk = \<lparr>st_ctx = (li_ctx li)\<lparr>cx_generation := rt_generation (li_runtime li) + 1, cx_port := port\<rparr>,
      st_generation = rt_generation (li_runtime li) + 1, st_port = port\<rparr>"
  have r: "(r = Inl StartDb \<or> r = Inr (Some tk)) \<and> mg_reserved m' = reserved' \<and>
     mg_supervisors m' = mg_supervisors m \<and> mg_enabled m' = mg_enabled m \<and>
     map_of (mg_live m') = (map_of (mg_live m))(key_of (cx_id (li_ctx li)) \<mapsto> attempt tk li)"
    using False li al assms
    by (auto simp: start_begin_def Let_def tk_def attempt_def set_runtime_def
        split: prod.splits option.splits if_splits)
  show ?thesis
    by (rule begun [of li tk]) (use r li st al in \<open>auto simp: tk_def\<close>)
qed

lemma start_begin_inv:
  assumes "mgr_inv m" and "start_begin env ts offers owner i m = (r, m')"
  shows "mgr_inv m'"
  using assms(2)
proof (cases rule: start_begin_cases)
  case none
  with assms(1) show ?thesis by simp
next
  case (begun li tk)
  let ?k = "key_of (cx_id (li_ctx li))"
  have L: "map_of (mg_live m) (key_of i) = Some li" using begun(1) by (simp add: get_live_def)
  have k: "?k = key_of i" using mgr_inv_live [OF assms(1) L] by (simp add: live_ok_def)
  note D = core_invD [OF assms(1) [unfolded mgr_inv_def]]
  have sub: "mg_reserved m \<subseteq> mg_reserved m'"
    and new: "\<And>p. st_port tk = Some p \<Longrightarrow> p \<notin> mg_reserved m \<and> p \<in> mg_reserved m'"
    using begun(3) by (auto elim: allocate_fresh)
  have "core_inv ((map_of (mg_live m))(?k \<mapsto> attempt tk li)) (mg_reserved m') (set (mg_supervisors m))"
  proof (rule core_inv_put [OF assms(1) [unfolded mgr_inv_def]])
    show "live_ok ?k (attempt tk li)" by (simp add: live_ok_def attempt_def)
    fix p k' x
    show "p \<in> mg_reserved m' \<and> (k' \<noteq> ?k \<longrightarrow> map_of (mg_live m) k' = Some x \<longrightarrow> li_port x \<noteq> Some p)"
      if "li_port (attempt tk li) = Some p"
      using that new [of p] D(2) [of k' x p] by (auto simp: attempt_def)
    show "p \<in> mg_reserved m'" if "k' \<noteq> ?k" "map_of (mg_live m) k' = Some x" "li_port x = Some p"
      using D(2) [OF that(2,3)] sub by blast
  next
    fix sv assume sv: "sv \<in> set (mg_supervisors m)"
    then show "sv \<in> set (mg_supervisors m) \<and> sv_key sv \<noteq> ?k \<or> sv_key sv = ?k \<and> sv_ok (attempt tk li) sv"
      using D(4) [OF sv] L begun(2) by (cases "sv_key sv = ?k") (auto simp: k sv_ok_def attempt_def)
  qed
  then show ?thesis by (simp add: mgr_inv_def begun(4,5))
qed

lemma start_finish_inv:
  assumes "mgr_inv m" and "map_of (mg_live m) k = Some li"
    and "rt_state (li_runtime li) = Starting" and "li_port li = st_port tk" and "k = key_of i"
    and "\<And>sv. sv \<in> set (mg_supervisors m) \<Longrightarrow> sv_key sv = k \<Longrightarrow> sv_generation sv < st_generation tk"
  shows "mgr_inv (snd (start_finish env ts display cg health delay t0 t1 i li tk sr m))"
proof -
  have key: "key_of (cx_id (li_ctx li)) = k" using mgr_inv_live [OF assms(1,2)] by (simp add: live_ok_def)
  let ?rt = "li_runtime li"
  define bad where "bad = set_runtime (?rt\<lparr>rt_state := Failed, rt_port := None\<rparr>) li"
  have failed: "mgr_inv (in_rows f (release_opt (st_port tk) (put_live bad m')))"
    if "mg_live m' = mg_live m" "mg_reserved m' = mg_reserved m" "mg_supervisors m' = mg_supervisors m" for f m'
    by (rule mgr_inv_change [OF assms(1,2), where li' = bad])
      (use that key assms(4) in \<open>auto simp: bad_def live_ok_def sv_ok_def\<close>)
  show ?thesis
  proof (cases "rt_generation ?rt = st_generation tk")
    case False
    with assms(1) show ?thesis
      by (auto simp: start_finish_def Let_def mgr_inv_def split: sum.splits)
  next
    case gen: True
    show ?thesis
    proof (cases sr)
      case (Inl e)
      with gen show ?thesis
        using failed [of m] by (simp add: start_finish_def Let_def bad_def)
    next
      case (Inr h)
      obtain u rows' where up: "store_upsert_instance (me_known env) ts i (st_generation tk) Starting
          (li_persistence li) (st_port tk) (handle_pid h) (mg_rows m) = (u, rows')" by fastforce
      let ?ready = "wait_ready health delay (t0 + start_timeout (cx_policy (st_ctx tk)) + health_timeout (cx_policy (st_ctx tk))) 0 t0"
      define good where "good = set_runtime (?rt\<lparr>rt_state := Running, rt_handle := Some h,
          rt_cgroup := (case handle_pid h of None \<Rightarrow> None | Some _ \<Rightarrow> cg (id_instance_id i)),
          rt_last_activity := t1\<rparr>) li"
      define sv0 where "sv0 = \<lparr>sv_key = key_of i, sv_ctx = st_ctx tk, sv_generation = st_generation tk,
          sv_reserved_port = st_port tk\<rparr>"
      consider "u = None" | "u \<noteq> None" "\<not> ?ready" | "u \<noteq> None" "?ready" by blast
      then show ?thesis
      proof cases
        case 1
        with gen Inr up assms(1) show ?thesis by (simp add: start_finish_def Let_def mgr_inv_def)
      next
        case 2
        with gen Inr up show ?thesis
          using failed [of "call (CallKill (st_ctx tk) h) (m\<lparr>mg_rows := rows'\<rparr>)"]
          by (auto simp: start_finish_def Let_def bad_def)
      next
        case 3
        have "core_inv ((map_of (mg_live m))(k \<mapsto> good)) (mg_reserved m) (insert sv0 (set (mg_supervisors m)))"
        proof (rule core_inv_keep [OF assms(1) [unfolded mgr_inv_def] assms(2)])
          show "live_ok k good" using key by (simp add: good_def live_ok_def)
          fix sv assume "sv \<in> insert sv0 (set (mg_supervisors m))"
          then consider "sv = sv0" | "sv \<in> set (mg_supervisors m)" "sv_key sv \<noteq> k"
            | "sv \<in> set (mg_supervisors m)" "sv_key sv = k" by blast
          then show "sv \<in> set (mg_supervisors m) \<and> sv_key sv \<noteq> k \<or> sv_key sv = k \<and> sv_ok good sv"
            by cases (use assms(4-6) gen in \<open>auto simp: sv0_def good_def sv_ok_def dest: assms(6)\<close>)
        qed (simp add: good_def)
        with 3 gen Inr up key show ?thesis
          by (auto simp: start_finish_def Let_def mgr_inv_def good_def sv0_def set_runtime_def)
      qed
    qed
  qed
qed

lemma start_instance_inv:
  assumes "mgr_inv m"
  shows "mgr_inv (snd (start_instance env se owner i m))"
proof -
  obtain r m1 where b: "start_begin env (se_ts se) (se_offers se) owner i m = (r, m1)" by fastforce
  have inv1: "mgr_inv m1" by (rule start_begin_inv [OF assms b])
  show ?thesis
  proof (cases "\<exists>tk. r = Inr (Some tk)")
    case False
    then have "snd (start_instance env se owner i m) = m1"
      using b by (auto simp: start_instance_def split: sum.splits option.splits)
    with inv1 show ?thesis by simp
  next
    case True
    then obtain tk where r: "r = Inr (Some tk)" by blast
    obtain r2 m2 where l: "start_launch env (se_prepare se) (se_start se) i tk m1 = (r2, m2)" by fastforce
    note l2 = start_launch_simps [OF l]
    have inv2: "mgr_inv m2" using inv1 l2 by (auto intro: mgr_inv_same)
    obtain li where li: "get_live i m = Some li" and
      m1: "map_of (mg_live m1) = (map_of (mg_live m))(key_of (cx_id (li_ctx li)) \<mapsto> attempt tk li)"
      "mg_supervisors m1 = mg_supervisors m" and gen: "st_generation tk = rt_generation (li_runtime li) + 1"
      using b
    proof (cases rule: start_begin_cases)
      case none
      with r show ?thesis by blast
    next
      case (begun li tk')
      from begun(7) r have eq: "tk' = tk" by simp
      show ?thesis by (rule that [OF begun(1) begun(4) [unfolded eq] begun(5) begun(2) [unfolded eq]])
    qed
    have L: "map_of (mg_live m) (key_of i) = Some li" using li by (simp add: get_live_def)
    have k: "key_of (cx_id (li_ctx li)) = key_of i"
      using mgr_inv_live [OF assms L] by (simp add: live_ok_def)
    have m2L: "map_of (mg_live m2) (key_of i) = Some (attempt tk li)" by (simp add: l2 m1 k)
    have sv: "sv_generation sv < st_generation tk" if "sv \<in> set (mg_supervisors m2)" "sv_key sv = key_of i" for sv
    proof -
      have "sv \<in> set (mg_supervisors m)" using that l2 m1 by simp
      from core_invD(4) [OF assms [unfolded mgr_inv_def] this] L that(2) gen show ?thesis
        by (auto simp: sv_ok_def)
    qed
    have "mgr_inv (snd (start_resume env se i tk sr m2))" for sr
    proof -
      have "start_resume env se i tk sr m2 = start_finish env (se_ts se) (se_display se) (se_cgroup se) (se_health se)
          (se_delay se) (se_instant se) (se_instant_end se) i (attempt tk li) tk sr m2"
        by (simp add: start_resume_def get_live_def m2L)
      moreover have "rt_state (li_runtime (attempt tk li)) = Starting" "li_port (attempt tk li) = st_port tk"
        by (simp_all add: attempt_def)
      ultimately show ?thesis
        using start_finish_inv [OF inv2 m2L _ _ refl sv] by metis
    qed
    with inv2 b r l show ?thesis
      by (auto simp: start_instance_def split: sum.splits)
  qed
qed

section \<open>The other operations keep the invariant\<close>

lemma in_rows_inv [simp]: "mgr_inv (in_rows f m) \<longleftrightarrow> mgr_inv m"
  by (simp add: mgr_inv_def)

lemma mgr_inv_fewer_supervisors:
  "mgr_inv m \<Longrightarrow> set svs \<subseteq> set (mg_supervisors m) \<Longrightarrow> mgr_inv (m\<lparr>mg_supervisors := svs\<rparr>)"
  unfolding mgr_inv_def core_inv_def by auto

lemma put_runtime_inv:
  assumes "mgr_inv m" and "map_of (mg_live m) k = Some li" and "rt_port rt = rt_port (li_runtime li)"
    and "rt_generation rt = rt_generation (li_runtime li)"
    and "rt_state rt = Running \<or> rt_state rt = Unhealthy \<Longrightarrow> up li \<and> rt_handle rt \<noteq> None"
    and "rt_state rt \<in> {Stopped, Starting, Running, Unhealthy, Failed}"
  shows "mgr_inv (put_live (set_runtime rt li) m)"
proof (rule mgr_inv_change [OF assms(1,2), where li' = "set_runtime rt li"])
  have key: "key_of (cx_id (li_ctx li)) = k" using mgr_inv_live [OF assms(1,2)] by (simp add: live_ok_def)
  then show "map_of (mg_live (put_live (set_runtime rt li) m)) = (map_of (mg_live m))(k \<mapsto> set_runtime rt li)"
    by simp
  show "live_ok k (set_runtime rt li)" using key assms(5,6) by (auto simp: live_ok_def)
  show "\<And>sv. sv_ok li sv \<Longrightarrow> sv_ok (set_runtime rt li) sv" using assms(3,4,5) by (auto simp: sv_ok_def)
qed (simp_all add: assms(3))

lemma supervisor_tick_inv:
  assumes "mgr_inv m" and "sv \<in> set (mg_supervisors m)"
  shows "mgr_inv (snd (supervisor_tick ts exited status gone sv m))"
    and "mg_supervisors (snd (supervisor_tick ts exited status gone sv m)) = mg_supervisors m"
proof -
  obtain li where L: "map_of (mg_live m) (sv_key sv) = Some li" and sv: "sv_ok li sv"
    using core_invD(4) [OF assms(1) [unfolded mgr_inv_def] assms(2)] by blast
  let ?rt = "li_runtime li"
  let ?bad = "set_runtime (?rt\<lparr>rt_state := Failed, rt_handle := None, rt_port := None\<rparr>) li"
  let ?failed = "release_opt (sv_reserved_port sv) (put_live ?bad m)"
  have key: "key_of (cx_id (li_ctx li)) = sv_key sv"
    using mgr_inv_live [OF assms(1) L] by (simp add: live_ok_def)
  show "mg_supervisors (snd (supervisor_tick ts exited status gone sv m)) = mg_supervisors m"
    using L by (auto simp: supervisor_tick_def Let_def split: option.splits RunningHandle.splits)
  show "mgr_inv (snd (supervisor_tick ts exited status gone sv m))"
  proof (cases "rt_generation ?rt = sv_generation sv \<and> up li \<and> rt_handle ?rt \<noteq> None")
    case False
    then have "supervisor_tick ts exited status gone sv m = (False, m)"
      using L by (auto simp: supervisor_tick_def Let_def)
    with assms(1) show ?thesis by simp
  next
    case True
    then have "sv_reserved_port sv = li_port li" using sv by (auto simp: sv_ok_def)
    then have failed: "mgr_inv (in_rows f ?failed)" for f
      by (intro mgr_inv_change [OF assms(1) L, where li' = ?bad]) (auto simp: key live_ok_def sv_ok_def)
    have failed2: "mgr_inv (in_rows g (in_rows f ?failed))" for f g
      by (rule mgr_inv_same [OF failed [of f]]) simp_all
    have kept: "mgr_inv (in_rows f (put_live (set_runtime (?rt\<lparr>rt_state := s\<rparr>) li) m))"
      if "s = Running \<or> s = Unhealthy" for f s
      by (rule mgr_inv_same [OF put_runtime_inv [OF assms(1) L, of "?rt\<lparr>rt_state := s\<rparr>"]])
        (use True that in auto)
    obtain h where h: "rt_handle ?rt = Some h" using True by blast
    show ?thesis
      unfolding supervisor_tick_def L option.case Let_def
      using True h failed failed2 kept assms(1) by (auto split: RunningHandle.splits option.splits)
  qed
qed

lemma run_supervisor_inv: "mgr_inv m \<Longrightarrow> mgr_inv (run_supervisor ts exited status gone n m)"
proof (cases "n < length (mg_supervisors m)")
  case True
  assume inv: "mgr_inv m"
  let ?sv = "mg_supervisors m ! n"
  have "?sv \<in> set (mg_supervisors m)" using True by simp
  note t = supervisor_tick_inv [OF inv this, of ts exited status gone]
  from t True show ?thesis
    by (auto simp: run_supervisor_def split: prod.splits bool.splits
        intro!: mgr_inv_fewer_supervisors dest: in_set_takeD in_set_dropD)
qed (simp add: run_supervisor_def)

lemma restart_instance_inv:
  assumes "mgr_inv m"
  shows "mgr_inv (snd (restart_instance env t se owner i m))"
proof -
  have s: "mgr_inv (stop_live env False t (se_ts se) (key_of i) m)" (is "mgr_inv ?m1")
    by (rule stop_live_inv [OF assms])
  have r: "mgr_inv (?m1\<lparr>mg_rows := rows\<rparr>)" for rows by (rule mgr_inv_same [OF s]) simp_all
  have f: "mgr_inv (in_rows g (case get_live i (?m1\<lparr>mg_rows := rows\<rparr>) of None \<Rightarrow> ?m1\<lparr>mg_rows := rows\<rparr>
      | Some li \<Rightarrow> put_live (set_runtime ((li_runtime li)\<lparr>rt_state := Failed\<rparr>) li) (?m1\<lparr>mg_rows := rows\<rparr>)))" for g rows
  proof (cases "get_live i (?m1\<lparr>mg_rows := rows\<rparr>)")
    case None
    then show ?thesis using r by simp
  next
    case (Some li)
    have "mgr_inv (put_live (set_runtime ((li_runtime li)\<lparr>rt_state := Failed\<rparr>) li) (?m1\<lparr>mg_rows := rows\<rparr>))"
      by (rule put_runtime_inv [OF r, of _ "key_of i"]) (use Some in \<open>auto simp: get_live_def\<close>)
    with Some show ?thesis by simp
  qed
  show ?thesis
    using assms start_instance_inv [OF r] f
    by (auto simp: restart_instance_def Let_def split: option.splits prod.splits)
qed

lemma touch_activity_inv: "mgr_inv m \<Longrightarrow> mgr_inv (snd (touch_activity ts t owner i m))"
proof (cases "get_live i m")
  case (Some li)
  assume inv: "mgr_inv m"
  have L: "map_of (mg_live m) (key_of i) = Some li" using Some by (simp add: get_live_def)
  have "mgr_inv (put_live (set_runtime ((li_runtime li)\<lparr>rt_last_activity := t\<rparr>) li) m)"
    by (rule put_runtime_inv [OF inv L]) (use mgr_inv_live [OF inv L] in \<open>auto simp: live_ok_def\<close>)
  with Some inv show ?thesis by (auto simp: touch_activity_def intro: mgr_inv_same)
qed (simp add: touch_activity_def)

lemma set_enabled_inv: "mgr_inv m \<Longrightarrow> mgr_inv (set_enabled env t ts kind b m)"
  unfolding set_enabled_def Let_def
  by (rule mgr_inv_same [where m = "if b then m else stop_all env t ts (filter (\<lambda>(k, _, _). k = kind) (map fst (mg_live m))) m"])
    (simp_all add: stop_all_inv)

lemma sweep_idle_inv: "mgr_inv m \<Longrightarrow> mgr_inv (sweep_idle_once env t ts inst m)"
proof -
  have "mgr_inv m \<Longrightarrow> mgr_inv (fold (\<lambda>k m. case map_of (mg_live m) k of None \<Rightarrow> m
      | Some li \<Rightarrow> if is_idle (inst k) li then stop_live env False (t k) ts k m else m) ks m)" for ks
    by (induction ks arbitrary: m) (auto simp: stop_live_inv split: option.splits)
  then show "mgr_inv m \<Longrightarrow> mgr_inv (sweep_idle_once env t ts inst m)"
    unfolding sweep_idle_once_def .
qed

lemma reconcile_loop_live:
  "mg_live (snd (reconcile_loop env ts rows n m)) = mg_live m \<and>
   mg_reserved (snd (reconcile_loop env ts rows n m)) = mg_reserved m \<and>
   mg_supervisors (snd (reconcile_loop env ts rows n m)) = mg_supervisors m"
  by (induction rows arbitrary: n m) (auto simp: Let_def)

lemma reconcile_inv: "mgr_inv m \<Longrightarrow> mgr_inv (snd (reconcile_on_startup env ts m))"
  unfolding reconcile_on_startup_def by (rule mgr_inv_same) (simp_all add: reconcile_loop_live)

lemma create_instance_inv:
  assumes "mgr_inv m" and "map_of (mg_live m) (kind, owner, iid) = None"
  shows "mgr_inv (snd (create_instance env iid ts t owner kind pers m))"
proof -
  let ?k = "(kind, owner, iid)"
  note inv = assms(1) [unfolded mgr_inv_def]
  have new: "core_inv ((map_of (mg_live m))(?k \<mapsto> li)) (mg_reserved m) (set (mg_supervisors m))"
    if "live_ok ?k li" "li_port li = None" for li
  proof (rule core_inv_put [OF inv that(1)])
    fix sv assume sv: "sv \<in> set (mg_supervisors m)"
    then show "sv \<in> set (mg_supervisors m) \<and> sv_key sv \<noteq> ?k \<or> sv_key sv = ?k \<and> sv_ok li sv"
      using core_invD(4) [OF inv sv] assms(2) by (cases "sv_key sv = ?k") auto
  qed (use that core_invD(2) [OF inv] in auto)
  show ?thesis
    using assms(1)
    by (auto simp: create_instance_def Let_def mgr_inv_def key_of_def live_ok_def
        split: Availability.splits prod.splits sum.splits option.splits intro!: new)
qed

section \<open>Histories of the manager\<close>

text \<open>Operations that run one after another; a new instance gets an id that is not in use.\<close>

inductive mgr_step :: "manager_env \<Rightarrow> manager \<Rightarrow> manager \<Rightarrow> bool" for env where
  create: "map_of (mg_live m) (kind, owner, iid) = None \<Longrightarrow>
    mgr_step env m (snd (create_instance env iid ts t owner kind pers m))"
| start: "mgr_step env m (snd (start_instance env se owner i m))"
| stop: "mgr_step env m (snd (stop_instance env timed_out ts owner i m))"
| restart: "mgr_step env m (snd (restart_instance env timed_out se owner i m))"
| touch: "mgr_step env m (snd (touch_activity ts t owner i m))"
| enable: "mgr_step env m (set_enabled env timed_outs ts kind b m)"
| sweep: "mgr_step env m (sweep_idle_once env timed_outs ts instants m)"
| shutdown: "mgr_step env m (shutdown_all env timed_outs ts m)"
| supervise: "mgr_step env m (run_supervisor ts exited status gone n m)"
| reconcile: "mgr_step env m (snd (reconcile_on_startup env ts m))"

definition mgr_init :: "manager \<Rightarrow> bool" where
  "mgr_init m \<longleftrightarrow> mg_live m = [] \<and> mg_reserved m = {} \<and> mg_supervisors m = []"

lemma mgr_init_inv: "mgr_init m \<Longrightarrow> mgr_inv m"
  by (simp add: mgr_init_def mgr_inv_def core_inv_def)

lemma mgr_step_inv: "mgr_step env m m' \<Longrightarrow> mgr_inv m \<Longrightarrow> mgr_inv m'"
proof (induction rule: mgr_step.induct)
  case (stop m timed_out ts owner i)
  then show ?case
    by (auto simp: stop_instance_def stop_live_inv split: option.splits)
next
  case (shutdown m timed_outs ts)
  then show ?case by (simp add: shutdown_all_def stop_all_inv)
qed (simp_all add: create_instance_inv start_instance_inv restart_instance_inv touch_activity_inv set_enabled_inv
       sweep_idle_inv run_supervisor_inv reconcile_inv)

interpretation mgr_sys: inv_system mgr_init "mgr_step env" mgr_inv for env
  by unfold_locales (auto intro: mgr_init_inv mgr_step_inv)


section \<open>Disabling a runtime\<close>

lemma stop_live_result:
  assumes "mgr_inv m" and "map_of (mg_live m) k = Some li" and "me_adapters env (fst k)"
  shows "\<exists>li'. map_of (mg_live (stop_live env force t ts k m)) = (map_of (mg_live m))(k \<mapsto> li') \<and>
    rt_state (li_runtime li') \<in> {Stopped, Failed}"
proof -
  have key: "key_of (cx_id (li_ctx li)) = k"
    using mgr_inv_live [OF assms(1,2)] by (simp add: live_ok_def)
  then have ad: "me_adapters env (id_kind (cx_id (li_ctx li)))"
    using assms(3) by (auto simp: key_of_def)
  from assms(2) key show ?thesis
  proof (cases rule: stop_live_cases [where env = env and force = force and t = t and ts = ts])
    case none
    with ad assms(2) show ?thesis by (intro exI [of _ li]) auto
  next
    case bare
    with key show ?thesis by auto
  next
    case (full h)
    then show ?thesis by (intro exI [of _ "halted li"]) simp
  qed
qed

lemma stop_live_enabled [simp]: "mg_enabled (stop_live env force t ts k m) = mg_enabled m"
  by (auto simp: stop_live_def stop_begin_def stop_resume_def stop_finish_def Let_def split: option.splits)

lemma stop_all_enabled [simp]: "mg_enabled (stop_all env t ts ks m) = mg_enabled m"
  unfolding stop_all_def by (induction ks arbitrary: m) simp_all

lemma stop_all_result:
  assumes "mgr_inv m" and "\<And>k. k \<in> set ks \<Longrightarrow> me_adapters env (fst k) \<and> map_of (mg_live m) k \<noteq> None"
  shows "(\<forall>k. k \<notin> set ks \<longrightarrow> map_of (mg_live (stop_all env t ts ks m)) k = map_of (mg_live m) k) \<and>
    (\<forall>k\<in>set ks. \<exists>li. map_of (mg_live (stop_all env t ts ks m)) k = Some li \<and>
       rt_state (li_runtime li) \<in> {Stopped, Failed})"
  using assms
proof (induction ks rule: rev_induct)
  case Nil
  then show ?case by (simp add: stop_all_def)
next
  case (snoc k ks)
  let ?m = "stop_all env t ts ks m"
  have IH: "(\<forall>k. k \<notin> set ks \<longrightarrow> map_of (mg_live ?m) k = map_of (mg_live m) k) \<and>
    (\<forall>k\<in>set ks. \<exists>li. map_of (mg_live ?m) k = Some li \<and> rt_state (li_runtime li) \<in> {Stopped, Failed})"
    using snoc.prems by (intro snoc.IH) auto
  then obtain li where "map_of (mg_live ?m) k = Some li"
    using snoc.prems(2) [of k] by (cases "k \<in> set ks") auto
  moreover have "me_adapters env (fst k)" using snoc.prems(2) [of k] by simp
  ultimately obtain li' where
    "map_of (mg_live (stop_live env False (t k) ts k ?m)) = (map_of (mg_live ?m))(k \<mapsto> li')"
    "rt_state (li_runtime li') \<in> {Stopped, Failed}"
    using stop_live_result [OF stop_all_inv [OF snoc.prems(1)]] by blast
  moreover have "stop_all env t ts (ks @ [k]) m = stop_live env False (t k) ts k ?m"
    by (simp add: stop_all_def)
  ultimately show ?case using IH by auto
qed

text \<open>
  Disabling a runtime takes it down. Afterwards every instance of that kind is stopped or failed, no
  instance of another kind has been touched, and every start of that kind is refused without effect until
  the runtime is enabled again.
\<close>

theorem disable_stops_all:
  assumes "mgr_init m0" and "(mgr_step env)\<^sup>*\<^sup>* m0 m" and "me_adapters env kind"
    and "m' = set_enabled env timed_out ts kind False m"
  shows "(\<forall>k li. map_of (mg_live m') k = Some li \<longrightarrow> fst k = kind \<longrightarrow> rt_state (li_runtime li) \<in> {Stopped, Failed}) \<and>
    (\<forall>k. fst k \<noteq> kind \<longrightarrow> map_of (mg_live m') k = map_of (mg_live m) k) \<and>
    (\<forall>i se. id_kind i = kind \<longrightarrow> start_instance env se (id_owner_user_id i) i m' = (Inl StartDisabled, m'))"
proof -
  have inv: "mgr_inv m" using mgr_sys.reach_inv [OF assms(1,2)] .
  let ?ks = "filter (\<lambda>(k, _, _). k = kind) (map fst (mg_live m))"
  have ks: "k \<in> set ?ks \<longleftrightarrow> fst k = kind \<and> map_of (mg_live m) k \<noteq> None" for k
    by (auto simp: map_of_eq_None_iff)
  have m': "mg_live m' = mg_live (stop_all env timed_out ts ?ks m)" "mg_enabled m' kind = Some False"
    by (simp_all add: assms(4) set_enabled_def)
  have r: "(\<forall>k. k \<notin> set ?ks \<longrightarrow> map_of (mg_live m') k = map_of (mg_live m) k) \<and>
    (\<forall>k\<in>set ?ks. \<exists>li. map_of (mg_live m') k = Some li \<and> rt_state (li_runtime li) \<in> {Stopped, Failed})"
    unfolding m'(1) by (rule stop_all_result [OF inv]) (simp only: ks assms(3) simp_thms)
  have "rt_state (li_runtime li) \<in> {Stopped, Failed}" if "map_of (mg_live m') k = Some li" "fst k = kind" for k li
    using that r ks [of k] by (metis option.discI option.inject)
  moreover have "map_of (mg_live m') k = map_of (mg_live m) k" if "fst k \<noteq> kind" for k
    using that r ks [of k] by blast
  moreover have "start_instance env se (id_owner_user_id i) i m' = (Inl StartDisabled, m')"
    if "id_kind i = kind" for i se
    using that m'(2) by (simp add: start_instance_def start_begin_def is_enabled_def)
  ultimately show ?thesis by blast
qed

end
