(* ===== verification/Runtime_Recovery.thy ===== *)
theory Runtime_Recovery
  imports Runtime_Properties
begin

text \<open>
  Crash loops and restarts of the service: the persisted restart counter only grows, so an instance that
  has been restarted three times is never restarted again, and reconciliation at startup leaves no row
  that claims to be alive.
\<close>

section \<open>The restart counter\<close>

definition restarts :: "InstanceId \<Rightarrow> runtime_row list \<Rightarrow> int option" where
  "restarts i rows = map_option ri_restart_count (sql_first (row_of i) rows)"

definition keeps :: "runtime_row list \<Rightarrow> runtime_row list \<Rightarrow> bool" where
  "keeps rows rows' \<longleftrightarrow> (\<forall>i n. restarts i rows = Some n \<longrightarrow> (\<exists>n'. n \<le> n' \<and> restarts i rows' = Some n'))"

lemma keeps_refl [simp, intro]: "keeps rows rows"
  by (auto simp: keeps_def)

lemma keeps_trans [trans]: "keeps a b \<Longrightarrow> keeps b c \<Longrightarrow> keeps a c"
  unfolding keeps_def by (meson order_trans)

lemma row_of_update:
  assumes "\<And>r. row_key (f r) = row_key r"
  shows "sql_first (row_of i) (sql_update P f rows) = map_option (\<lambda>r. if P r then f r else r) (sql_first (row_of i) rows)"
  unfolding row_of_def [abs_def] by (rule sql_first_update) (rule assms)

lemma keeps_update:
  assumes "\<And>r. row_key (f r) = row_key r" and "\<And>r. ri_restart_count r \<le> ri_restart_count (f r)"
  shows "keeps rows (sql_update P f rows)"
  unfolding keeps_def
proof (intro allI impI)
  fix i n assume "restarts i rows = Some n"
  then obtain r where r: "sql_first (row_of i) rows = Some r" "ri_restart_count r = n"
    by (auto simp: restarts_def)
  then have "restarts i (sql_update P f rows) = Some (if P r then ri_restart_count (f r) else n)"
    by (simp add: restarts_def row_of_update assms(1))
  then show "\<exists>n'. n \<le> n' \<and> restarts i (sql_update P f rows) = Some n'"
    using r(2) assms(2) [of r] by (cases "P r") auto
qed

lemma keeps_ops [simp, intro]:
  "keeps rows (store_set_state ts i st msg rows)"
  "keeps rows (store_record_exit ts i code sig rows)"
  "keeps rows (store_touch_activity ts i rows)"
  "keeps rows (snd (store_increment_restart_count ts i rows))"
  by (simp_all add: store_set_state_def store_record_exit_def store_touch_activity_def
      store_increment_restart_count_def Let_def keeps_update row_key_def)

lemma keeps_upsert: "keeps rows (snd (store_upsert_instance known ts i g st pers port pid rows))"
proof -
  have "keeps rows (rows @ [r])" for r
    by (auto simp: keeps_def restarts_def sql_first_append split: option.splits)
  then show ?thesis
    by (auto simp: store_upsert_instance_def Let_def row_key_def intro!: keeps_update)
qed

lemma keeps_upsert_eq: "store_upsert_instance known ts i g st pers port pid rows = (u, rows') \<Longrightarrow> keeps rows rows'"
  by (metis keeps_upsert snd_conv)

section \<open>No operation takes restarts back\<close>

lemma stop_live_keeps: "keeps (mg_rows m) (mg_rows (stop_live env force t ts k m))"
  by (auto simp: stop_live_def stop_begin_def stop_resume_def stop_finish_def Let_def
      split: option.splits intro: keeps_trans keeps_ops)

lemma stop_all_keeps: "keeps (mg_rows m) (mg_rows (stop_all env t ts ks m))"
  unfolding stop_all_def
  by (induction ks arbitrary: m) (auto intro: keeps_trans stop_live_keeps)

lemma start_begin_keeps:
  "start_begin env ts offers owner i m = (r, m') \<Longrightarrow> keeps (mg_rows m) (mg_rows m')"
  by (auto simp: start_begin_def Let_def split: option.splits prod.splits if_splits dest: keeps_upsert_eq)

lemma start_finish_keeps:
  "keeps (mg_rows m) (mg_rows (snd (start_finish env ts display cg health delay t0 t1 i li tk sr m)))"
  by (auto simp: start_finish_def Let_def split: sum.splits option.splits prod.splits
      dest!: keeps_upsert_eq intro: keeps_trans keeps_ops)

lemma start_instance_keeps: "keeps (mg_rows m) (mg_rows (snd (start_instance env se owner i m)))"
proof -
  obtain r m1 where b: "start_begin env (se_ts se) (se_offers se) owner i m = (r, m1)" by fastforce
  note k1 = start_begin_keeps [OF b]
  show ?thesis
  proof (cases "\<exists>tk. r = Inr (Some tk)")
    case False
    then have "snd (start_instance env se owner i m) = m1"
      using b by (auto simp: start_instance_def split: sum.splits option.splits)
    with k1 show ?thesis by simp
  next
    case True
    then obtain tk where r: "r = Inr (Some tk)" by blast
    obtain r2 m2 where l: "start_launch env (se_prepare se) (se_start se) i tk m1 = (r2, m2)" by fastforce
    have "mg_rows m2 = mg_rows m1" by (rule start_launch_simps(5) [OF l])
    moreover have "keeps (mg_rows m2) (mg_rows (snd (start_resume env se i tk sr m2)))" for sr
      by (auto simp: start_resume_def start_finish_keeps split: option.splits)
    ultimately show ?thesis
      using b r l k1 by (auto simp: start_instance_def split: sum.splits intro: keeps_trans)
  qed
qed

lemma run_supervisor_keeps: "keeps (mg_rows m) (mg_rows (run_supervisor ts exited status gone n m))"
proof -
  have "keeps (mg_rows m) (mg_rows (snd (supervisor_tick ts exited status gone sv m)))" for sv
    by (auto simp: supervisor_tick_def Let_def split: option.splits RunningHandle.splits intro: keeps_trans keeps_ops)
  then show ?thesis
    by (auto simp: run_supervisor_def split: prod.splits bool.splits) (metis snd_conv)+
qed

lemma restart_instance_keeps: "keeps (mg_rows m) (mg_rows (snd (restart_instance env t se owner i m)))"
proof -
  let ?m1 = "stop_live env False t (se_ts se) (key_of i) m"
  obtain n rows' where inc: "store_increment_restart_count (se_ts se) i (mg_rows ?m1) = (n, rows')" by fastforce
  have "keeps (mg_rows ?m1) rows'" using keeps_ops(4) [of "mg_rows ?m1" "se_ts se" i] inc by simp
  then have k: "keeps (mg_rows m) rows'" using stop_live_keeps keeps_trans by blast
  have "keeps rows' (mg_rows (snd (start_instance env se owner i (?m1\<lparr>mg_rows := rows'\<rparr>))))"
    using start_instance_keeps [of "?m1\<lparr>mg_rows := rows'\<rparr>"] by simp
  with k inc show ?thesis
    by (auto simp: restart_instance_def Let_def split: option.splits intro: keeps_trans keeps_ops)
qed

lemma reconcile_loop_keeps: "keeps (mg_rows m) (mg_rows (snd (reconcile_loop env ts xs n m)))"
proof (induction xs arbitrary: n m)
  case (Cons x xs)
  let ?i = "\<lparr>id_kind = ir_kind x, id_owner_user_id = ir_owner_user_id x, id_instance_id = ir_instance_id x\<rparr>"
  let ?m1 = "in_rows (store_set_state ts ?i Failed (Some ''reconciled after restart'')) m"
  have "keeps (mg_rows m) (mg_rows ?m1)" by simp
  moreover have "keeps (mg_rows ?m1) (mg_rows (snd (reconcile_loop env ts xs n' m2)))"
    if "mg_rows m2 = mg_rows ?m1" for n' m2
    using Cons.IH [of m2 n'] that by simp
  ultimately have "keeps (mg_rows m) (mg_rows (snd (reconcile_loop env ts xs n' m2)))"
    if "mg_rows m2 = mg_rows ?m1" for n' m2
    using that keeps_trans by blast
  then show ?case using Cons.IH [of m n] by (simp add: Let_def)
qed simp

lemma mgr_step_keeps: "mgr_step env m m' \<Longrightarrow> keeps (mg_rows m) (mg_rows m')"
proof (induction rule: mgr_step.induct)
  case (create m kind owner iid ts t pers)
  then show ?case
    by (auto simp: create_instance_def Let_def split: Availability.splits prod.splits sum.splits option.splits
        dest: keeps_upsert_eq)
next
  case (stop m timed_out ts owner i)
  then show ?case by (auto simp: stop_instance_def stop_live_keeps split: option.splits)
next
  case (touch m ts t owner i)
  then show ?case by (auto simp: touch_activity_def split: option.splits)
next
  case (enable m timed_outs ts kind b)
  then show ?case by (auto simp: set_enabled_def Let_def stop_all_keeps)
next
  case (sweep m timed_outs ts instants)
  have "keeps (mg_rows m) (mg_rows (fold (\<lambda>k m. case map_of (mg_live m) k of None \<Rightarrow> m
      | Some li \<Rightarrow> if is_idle (instants k) li then stop_live env False (timed_outs k) ts k m else m) ks m))" for ks m
    by (induction ks arbitrary: m) (auto split: option.splits intro: keeps_trans stop_live_keeps)
  then show ?case by (simp add: sweep_idle_once_def)
next
  case (shutdown m timed_outs ts)
  then show ?case by (simp add: shutdown_all_def stop_all_keeps)
next
  case (reconcile m ts)
  then show ?case by (simp add: reconcile_on_startup_def reconcile_loop_keeps)
qed (simp_all add: start_instance_keeps restart_instance_keeps run_supervisor_keeps)

lemma mgr_steps_keep: "(mgr_step env)\<^sup>*\<^sup>* m m' \<Longrightarrow> keeps (mg_rows m) (mg_rows m')"
  by (induction rule: rtranclp_induct) (auto intro: keeps_trans mgr_step_keeps)

lemma kind_row_decodes: "row_of i r \<Longrightarrow> \<exists>x. row_to_instance r = Some x \<and> ir_restart_count x = ri_restart_count r"
  by (auto simp: row_of_def row_key_def id_key_def row_to_instance_def kind_text.parse_render)

lemma increment_count:
  assumes "restarts i rows = Some n"
  shows "fst (store_increment_restart_count ts i rows) = n + 1"
proof -
  obtain r where r: "sql_first (row_of i) rows = Some r" "ri_restart_count r = n"
    using assms by (auto simp: restarts_def)
  define f where "f = (\<lambda>r :: runtime_row. r\<lparr>ri_restart_count := ri_restart_count r + 1, ri_updated_at := ts\<rparr>)"
  have row: "row_of i r" using sql_first_Some [OF r(1)] by simp
  have "sql_first (row_of i) (sql_update (row_of i) f rows) = Some (f r)"
    using r row by (subst row_of_update) (simp_all add: f_def row_key_def)
  moreover have "row_of i (f r)" using row by (simp add: f_def row_of_def row_key_def)
  ultimately show ?thesis
    using kind_row_decodes [of i "f r"] r(2)
    by (auto simp: store_increment_restart_count_def Let_def store_get_def f_def)
qed

text \<open>
  Crash loops end. Once three restarts of an instance have been counted, every later restart by its
  owner is refused with the crash-loop error and leaves the instance failed, whatever operations ran in
  between; nothing resets the counter.
\<close>

theorem crash_loop_refused:
  assumes "restarts i (mg_rows m) = Some n" and "3 \<le> n" and "(mgr_step env)\<^sup>*\<^sup>* m m'"
    and "mgr_inv m'" and "get_live i m' = Some li" and "id_owner_user_id i = owner"
  shows "fst (restart_instance env timed_out se owner i m') =
      Inl (StartAdapter (AdapterStart ''crash-loop threshold exceeded'')) \<and>
    instance_status owner i (snd (restart_instance env timed_out se owner i m')) = Some Failed"
proof -
  let ?m1 = "stop_live env False timed_out (se_ts se) (key_of i) m'"
  obtain n' where "n \<le> n'" "restarts i (mg_rows ?m1) = Some n'"
    using keeps_trans [OF mgr_steps_keep [OF assms(3)] stop_live_keeps] assms(1) unfolding keeps_def by blast
  then have count: "fst (store_increment_restart_count (se_ts se) i (mg_rows ?m1)) > CRASH_LOOP_MAX_RESTARTS"
    using increment_count [of i "mg_rows ?m1" n'] assms(2) by (simp add: CRASH_LOOP_MAX_RESTARTS_def)
  have L: "map_of (mg_live m') (key_of i) = Some li" using assms(5) by (simp add: get_live_def)
  have key: "key_of (cx_id (li_ctx li)) = key_of i"
    using mgr_inv_live [OF assms(4) L] by (simp add: live_ok_def)
  obtain li' where li': "map_of (mg_live ?m1) (key_of i) = Some li'"
    using L key
    by (cases rule: stop_live_cases [where env = env and force = False and t = timed_out and ts = "se_ts se"])
      (use L key in auto)
  have "key_of (cx_id (li_ctx li')) = key_of i"
    using mgr_inv_live [OF stop_live_inv [OF assms(4)] li'] by (simp add: live_ok_def)
  then show ?thesis
    using count assms(5,6) li'
    by (auto simp: restart_instance_def Let_def get_live_def instance_status_def split: prod.splits)
qed

section \<open>Reconciliation\<close>

definition id_of_row :: "InstanceRow \<Rightarrow> InstanceId" where
  "id_of_row x = \<lparr>id_kind = ir_kind x, id_owner_user_id = ir_owner_user_id x, id_instance_id = ir_instance_id x\<rparr>"

definition mark_failed :: "int \<Rightarrow> runtime_row \<Rightarrow> runtime_row" where
  "mark_failed ts r = r\<lparr>ri_state := ''failed'', ri_failure_message := Some ''reconciled after restart'', ri_updated_at := ts\<rparr>"

definition stale :: "InstanceRow list \<Rightarrow> runtime_row \<Rightarrow> bool" where
  "stale xs r \<longleftrightarrow> list_ex (\<lambda>x. \<not> is_terminal_for_reconciliation (ir_state x) \<and> row_of (id_of_row x) r) xs"

lemma mark_failed_key [simp]: "row_of i (mark_failed ts r) \<longleftrightarrow> row_of i r" "stale xs (mark_failed ts r) \<longleftrightarrow> stale xs r"
  by (simp_all add: mark_failed_def row_of_def row_key_def stale_def)

lemma mark_failed_twice [simp]: "mark_failed ts (mark_failed ts r) = mark_failed ts r"
  by (simp add: mark_failed_def)

lemma reconcile_loop_rows:
  "mg_rows (snd (reconcile_loop env ts xs n m)) = map (\<lambda>r. if stale xs r then mark_failed ts r else r) (mg_rows m) \<and>
   fst (reconcile_loop env ts xs n m) =
     n + length (filter (\<lambda>x. \<not> is_terminal_for_reconciliation (ir_state x)) xs)"
proof (induction xs arbitrary: n m)
  case Nil
  then show ?case by (simp add: stale_def)
next
  case (Cons x xs)
  have set: "store_set_state ts (id_of_row x) Failed (Some ''reconciled after restart'') rows =
      map (\<lambda>r. if row_of (id_of_row x) r then mark_failed ts r else r) rows" for rows
    by (simp add: store_set_state_def sql_update_def mark_failed_def cong: if_cong)
  show ?case
  proof (cases "is_terminal_for_reconciliation (ir_state x)")
    case True
    with Cons.IH [of n m] show ?thesis by (simp add: stale_def)
  next
    case False
    define m2 where "m2 = (if ir_persistence x = Ephemeral
        then (in_rows (store_set_state ts (id_of_row x) Failed (Some ''reconciled after restart'')) m)
               \<lparr>mg_fs := snd (remove_instance_state_dir (me_mkdir_ok env) (me_remove_ok env) (me_runtime_root env)
                  (id_of_row x) (mg_fs m))\<rparr>
        else in_rows (store_set_state ts (id_of_row x) Failed (Some ''reconciled after restart'')) m)"
    have "reconcile_loop env ts (x # xs) n m = reconcile_loop env ts xs (n + 1) m2"
      using False by (simp add: m2_def Let_def id_of_row_def)
    moreover have "mg_rows m2 = map (\<lambda>r. if row_of (id_of_row x) r then mark_failed ts r else r) (mg_rows m)"
      by (simp add: m2_def set)
    ultimately show ?thesis
      using Cons.IH [of "n + 1" m2] False by (auto simp: stale_def)
  qed
qed

lemma reconcile_loop_fs:
  assumes "\<And>x. x \<in> set xs \<Longrightarrow> ir_persistence x = Ephemeral \<Longrightarrow> id_of_row x \<noteq> i"
    and "below (state_path (me_runtime_root env) i) p"
  shows "mg_fs (snd (reconcile_loop env ts xs n m)) p = mg_fs m p"
  using assms(1)
proof (induction xs arbitrary: n m)
  case (Cons x xs)
  let ?rm = "\<lambda>fs. snd (remove_instance_state_dir (me_mkdir_ok env) (me_remove_ok env) (me_runtime_root env) (id_of_row x) fs)"
  have "?rm fs p = fs p" if "ir_persistence x = Ephemeral" for fs
    using remove_state_dir_isolated [OF _ assms(2)] Cons.prems [of x] that by simp
  then show ?case
    using Cons.IH Cons.prems by (simp add: Let_def id_of_row_def)
qed simp

lemma store_list_all_iff: "x \<in> set (store_list_all rows) \<longleftrightarrow> (\<exists>r\<in>set rows. row_to_instance r = Some x)"
  by (force simp: store_list_all_def List.map_filter_def)

lemma row_to_instance_id: "row_to_instance r = Some x \<Longrightarrow> row_of (id_of_row x) r"
  by (auto simp: row_to_instance_def row_of_def row_key_def id_key_def id_of_row_def dest: kind_text.parse_only)

text \<open>
  Reconciliation at startup settles every row. It counts exactly the rows that claimed to be alive,
  afterwards every readable row is in a terminal state, rows that were terminal are unchanged, no row is
  lost, and the state directory of a persistent instance is untouched.
\<close>

theorem reconcile_settles:
  assumes "reconcile_on_startup env ts m = (n, m')" and "distinct (map row_key (mg_rows m))"
  shows "n = length (filter (\<lambda>x. \<not> is_terminal_for_reconciliation (ir_state x)) (store_list_all (mg_rows m))) \<and>
    (\<forall>x\<in>set (store_list_all (mg_rows m')). is_terminal_for_reconciliation (ir_state x)) \<and>
    map row_key (mg_rows m') = map row_key (mg_rows m) \<and>
    (\<forall>r\<in>set (mg_rows m). \<forall>x. row_to_instance r = Some x \<longrightarrow>
       (is_terminal_for_reconciliation (ir_state x) \<longrightarrow> r \<in> set (mg_rows m')) \<and>
       (ir_persistence x = Persistent \<longrightarrow>
          (\<forall>p. below (state_path (me_runtime_root env) (id_of_row x)) p \<longrightarrow> mg_fs m' p = mg_fs m p)))"
proof -
  let ?xs = "store_list_all (mg_rows m)"
  have loop: "reconcile_loop env ts ?xs 0 m = (n, m')" using assms(1) by (simp add: reconcile_on_startup_def)
  have rows: "mg_rows m' = map (\<lambda>r. if stale ?xs r then mark_failed ts r else r) (mg_rows m)"
    and n: "n = length (filter (\<lambda>x. \<not> is_terminal_for_reconciliation (ir_state x)) ?xs)"
    using reconcile_loop_rows [of env ts ?xs 0 m] loop by simp_all
  have same: "r = r'" if "r \<in> set (mg_rows m)" "r' \<in> set (mg_rows m)" "row_of i r" "row_of i r'" for r r' i
    using assms(2) that by (auto simp: row_of_def distinct_map inj_on_def)
  have settled: "is_terminal_for_reconciliation (ir_state x)"
    if r: "r \<in> set (mg_rows m)" and x: "row_to_instance (if stale ?xs r then mark_failed ts r else r) = Some x" for r x
  proof (cases "stale ?xs r")
    case True
    with x show ?thesis by (auto simp: row_to_instance_def mark_failed_def inst_state_parse_def)
  next
    case False
    then have "x \<in> set ?xs" "row_of (id_of_row x) r"
      using r x by (auto simp: store_list_all_iff row_to_instance_id)
    with False show ?thesis by (auto simp: stale_def list_ex_iff)
  qed
  have keep: "r \<in> set (mg_rows m')"
    if r: "r \<in> set (mg_rows m)" and x: "row_to_instance r = Some x" "is_terminal_for_reconciliation (ir_state x)" for r x
  proof -
    have "\<not> stale ?xs r"
    proof
      assume "stale ?xs r"
      then obtain y where y: "y \<in> set ?xs" "\<not> is_terminal_for_reconciliation (ir_state y)" "row_of (id_of_row y) r"
        by (auto simp: stale_def list_ex_iff)
      then obtain r' where "r' \<in> set (mg_rows m)" "row_to_instance r' = Some y" by (auto simp: store_list_all_iff)
      with same [OF r, of r' "id_of_row y"] y(3) row_to_instance_id x y(2) show False by auto
    qed
    with r show ?thesis unfolding rows by (force simp: image_iff)
  qed
  have fs: "mg_fs m' p = mg_fs m p"
    if r: "r \<in> set (mg_rows m)" and x: "row_to_instance r = Some x" "ir_persistence x = Persistent"
      and p: "below (state_path (me_runtime_root env) (id_of_row x)) p" for r x p
  proof -
    have "id_of_row y \<noteq> id_of_row x" if y: "y \<in> set ?xs" "ir_persistence y = Ephemeral" for y
    proof
      assume eq: "id_of_row y = id_of_row x"
      obtain r' where "r' \<in> set (mg_rows m)" "row_to_instance r' = Some y"
        using y(1) by (auto simp: store_list_all_iff)
      with same [OF r, of r' "id_of_row x"] row_to_instance_id eq x y(2) show False by (metis Persistence.distinct(1) option.inject)
    qed
    from reconcile_loop_fs [OF this p, of ?xs ts 0 m] loop show ?thesis by simp
  qed
  have "map row_key (mg_rows m') = map row_key (mg_rows m)"
    unfolding rows by (simp add: mark_failed_def row_key_def)
  moreover have "\<forall>x\<in>set (store_list_all (mg_rows m')). is_terminal_for_reconciliation (ir_state x)"
    using settled by (auto simp: store_list_all_iff rows)
  ultimately show ?thesis using n keep fs by blast
qed

end
