(* ===== verification/Runtime_Races.thy ===== *)
theory Runtime_Races
  imports Runtime_Recovery
begin

text \<open>
  What the manager does when operations on one instance overlap, when an adapter fails between the two
  locked regions of a start, and when an instance is started again without having been stopped.
\<close>

section \<open>Facts about the locked regions\<close>

lemma start_begin_ok:
  "start_begin env ts offers owner i m = (Inr (Some tk), m1) \<Longrightarrow>
    id_owner_user_id i = owner \<and> me_adapters env (id_kind i) \<and> is_enabled (id_kind i) m"
  by (auto simp: start_begin_def Let_def split: option.splits if_splits)

lemma start_begin_live:
  assumes "mgr_inv m" and "start_begin env ts offers owner i m = (Inr (Some tk), m1)" and "get_live i m = Some li"
  shows "get_live i m1 = Some (attempt tk li)" and "key_of (cx_id (li_ctx li)) = key_of i"
    and "st_generation tk = rt_generation (li_runtime li) + 1"
    and "allocate offers (mg_reserved m) = (st_port tk, mg_reserved m1)"
    and "map_of (mg_live m1) = (map_of (mg_live m))(key_of i \<mapsto> attempt tk li)"
proof -
  show key: "key_of (cx_id (li_ctx li)) = key_of i"
    using mgr_inv_live [OF assms(1)] assms(3) by (auto simp: get_live_def live_ok_def)
  from assms(2) have *: "map_of (mg_live m1) = (map_of (mg_live m))(key_of i \<mapsto> attempt tk li) \<and>
     st_generation tk = rt_generation (li_runtime li) + 1 \<and>
     allocate offers (mg_reserved m) = (st_port tk, mg_reserved m1)"
  proof (cases rule: start_begin_cases)
    case none
    then show ?thesis by blast
  next
    case (begun li' tk')
    have "li' = li" "tk' = tk" using begun(1,7) assms(3) by auto
    then show ?thesis using begun(2,3,4) key by simp
  qed
  then show "get_live i m1 = Some (attempt tk li)" by (simp add: get_live_def)
  from * show "st_generation tk = rt_generation (li_runtime li) + 1"
    and "allocate offers (mg_reserved m) = (st_port tk, mg_reserved m1)"
    and "map_of (mg_live m1) = (map_of (mg_live m))(key_of i \<mapsto> attempt tk li)" by auto
qed

lemma upsert_known: "known (id_owner_user_id i) \<Longrightarrow> \<exists>rows'. store_upsert_instance known ts i g st pers port pid rows = (Some (), rows')"
  by (simp add: store_upsert_instance_def Let_def)

definition started :: "start_env \<Rightarrow> InstanceId \<Rightarrow> RunningHandle \<Rightarrow> LiveInstance \<Rightarrow> LiveInstance" where
  "started se i h li = set_runtime ((li_runtime li)\<lparr>rt_state := Running, rt_handle := Some h,
     rt_cgroup := (case handle_pid h of None \<Rightarrow> None | Some _ \<Rightarrow> se_cgroup se (id_instance_id i)),
     rt_last_activity := se_instant_end se\<rparr>) li"

lemma started_simps [simp]:
  "rt_state (li_runtime (started se i h li)) = Running" "rt_handle (li_runtime (started se i h li)) = Some h"
  "rt_port (li_runtime (started se i h li)) = rt_port (li_runtime li)" "li_ctx (started se i h li) = li_ctx li"
  by (simp_all add: started_def)

text \<open>The second region of a start whose attempt is current and whose runtime is ready at once.\<close>

lemma start_resume_ready:
  assumes "get_live i m = Some li" and "key_of (cx_id (li_ctx li)) = key_of i"
    and "rt_generation (li_runtime li) = st_generation tk" and "me_known env (id_owner_user_id i)"
    and "se_health se 0 = Ready"
  shows "fst (start_resume env se i tk (Inr h) m) = Inr ()"
    and "map_of (mg_live (snd (start_resume env se i tk (Inr h) m))) = (map_of (mg_live m))(key_of i \<mapsto> started se i h li)"
    and "mg_reserved (snd (start_resume env se i tk (Inr h) m)) = mg_reserved m"
    and "mg_calls (snd (start_resume env se i tk (Inr h) m)) = mg_calls m"
proof -
  obtain rows' where up: "store_upsert_instance (me_known env) (se_ts se) i (st_generation tk) Starting
      (li_persistence li) (st_port tk) (handle_pid h) (mg_rows m) = (Some (), rows')"
    using upsert_known [of "me_known env" i] assms(4) by metis
  have ready: "wait_ready (se_health se) (se_delay se) d 0 t" for d t
    by (subst wait_ready.simps) (simp add: assms(5))
  show "fst (start_resume env se i tk (Inr h) m) = Inr ()"
    and "map_of (mg_live (snd (start_resume env se i tk (Inr h) m))) = (map_of (mg_live m))(key_of i \<mapsto> started se i h li)"
    and "mg_reserved (snd (start_resume env se i tk (Inr h) m)) = mg_reserved m"
    and "mg_calls (snd (start_resume env se i tk (Inr h) m)) = mg_calls m"
    using assms(1-3) up ready by (simp_all add: start_resume_def start_finish_def Let_def started_def)
qed

lemma stop_finish_effect:
  "map_of (mg_live (stop_finish ts li pt m)) = (map_of (mg_live m))(key_of (cx_id (li_ctx li)) \<mapsto> halted li)"
  "mg_reserved (stop_finish ts li pt m) = mg_reserved m - set_option (rt_port (li_runtime li))"
  by (simp_all add: stop_finish_def halted_def Let_def)

section \<open>Races\<close>

text \<open>
  A stop that arrives while an instance is starting is lost. The lock is free while the adapter starts
  the process, so the stop succeeds at once and the instance is reported stopped; when the adapter
  returns, the attempt is still current and the instance ends up running.
\<close>

theorem stop_during_start_is_lost:
  assumes "mgr_init m0" and "(mgr_step env)\<^sup>*\<^sup>* m0 m"
    and "get_live i m = Some li" and "rt_handle (li_runtime li) = None"
    and "start_begin env ts offers owner i m = (Inr (Some tk), m1)"
    and "stop_instance env timed_out ts' owner i m1 = (r, m2)"
    and "start_launch env None (Inr h) i tk m2 = (Inr (Inr h), m3)"
    and "start_resume env se i tk (Inr h) m3 = (r', m4)"
    and "me_known env owner" and "se_health se 0 = Ready"
  shows "r = Inr () \<and> instance_status owner i m2 = Some Stopped \<and>
    r' = Inr () \<and> instance_status owner i m4 = Some Running"
proof -
  have inv: "mgr_inv m" using mgr_sys.reach_inv [OF assms(1,2)] .
  note ok = start_begin_ok [OF assms(5)]
  note b = start_begin_live [OF inv assms(5,3)]
  let ?li2 = "set_runtime ((li_runtime (attempt tk li))\<lparr>rt_state := Stopped\<rparr>) (attempt tk li)"
  have kind: "id_kind (cx_id (li_ctx li)) = id_kind i" using b(2) by (simp add: key_of_def)
  have L1: "map_of (mg_live m1) (key_of i) = Some (attempt tk li)" using b(1) by (simp add: get_live_def)
  have "stop_instance env timed_out ts' owner i m1 = (Inr (), put_live ?li2 m1)"
    using ok assms(4) L1 kind
    by (simp add: stop_instance_def get_live_def stop_live_def stop_begin_def Let_def attempt_def)
  then have r: "r = Inr ()" and m2: "m2 = put_live ?li2 m1" using assms(6) by simp_all
  have key2: "key_of (cx_id (li_ctx ?li2)) = key_of i" using b(2) by (simp add: attempt_def)
  have L2: "get_live i m2 = Some ?li2" using key2 by (simp add: m2 get_live_def)
  have "get_live i m3 = Some ?li2" using start_launch_simps(1) [OF assms(7)] L2 by (simp add: get_live_def)
  note s = start_resume_ready [OF this key2, of tk env se h]
  have gen: "rt_generation (li_runtime ?li2) = st_generation tk" by (simp add: attempt_def)
  have known: "me_known env (id_owner_user_id i)" using ok assms(9) by simp
  show ?thesis
    using r L2 ok s(1) [OF gen known assms(10)] s(2) [OF gen known assms(10)] assms(8)
    by (simp add: instance_status_def get_live_def)
qed

text \<open>
  A start that overtakes a stop loses its port. While \<open>stop_live\<close> waits for the old process, a start is
  admitted; the end of the stop then takes the new attempt's port away. The new attempt ends up running
  with no port for the proxy, its port is free for others although the process was told to use it, and
  the old port stays reserved for good, held by nobody.
\<close>

theorem start_during_stop_loses_port:
  assumes "mgr_init m0" and "(mgr_step env)\<^sup>*\<^sup>* m0 m"
    and "get_live i m = Some li" and "rt_state (li_runtime li) = Running" and "rt_port (li_runtime li) = Some p"
    and "me_adapters env (id_kind i)"
    and "stop_begin env ts li m = (Some pt, m1)"
    and "start_begin env ts offers owner i m1 = (Inr (Some tk), m2)" and "st_port tk = Some q"
    and "stop_resume False timed_out ts (key_of i) pt m2 = m3"
    and "start_launch env None (Inr h) i tk m3 = (Inr (Inr h), m4)"
    and "start_resume env se i tk (Inr h) m4 = (r, m5)"
    and "me_known env owner" and "se_health se 0 = Ready"
  shows "r = Inr () \<and> instance_status owner i m5 = Some Running \<and> instance_port owner i m5 = None \<and>
    q \<notin> mg_reserved m5 \<and> p \<in> mg_reserved m5 \<and>
    (\<forall>k x. map_of (mg_live m5) k = Some x \<longrightarrow> rt_port (li_runtime x) \<noteq> Some p)"
proof -
  have inv: "mgr_inv m" using mgr_sys.reach_inv [OF assms(1,2)] .
  then have core: "core_inv (map_of (mg_live m)) (mg_reserved m) (set (mg_supervisors m))"
    by (simp add: mgr_inv_def)
  have L: "map_of (mg_live m) (key_of i) = Some li" using assms(3) by (simp add: get_live_def)
  have key: "key_of (cx_id (li_ctx li)) = key_of i"
    using mgr_inv_live [OF inv L] by (simp add: live_ok_def)
  let ?li1 = "set_runtime ((li_runtime li)\<lparr>rt_state := Stopping, rt_handle := None\<rparr>) li"
  have m1: "map_of (mg_live m1) = (map_of (mg_live m))(key_of i \<mapsto> ?li1)" "mg_reserved m1 = mg_reserved m"
    using assms(4,7) key by (auto simp: stop_begin_def Let_def split: option.splits if_splits)
  note ok = start_begin_ok [OF assms(8)]
  from assms(8) have m2: "map_of (mg_live m2) = (map_of (mg_live m))(key_of i \<mapsto> attempt tk ?li1) \<and>
      allocate offers (mg_reserved m) = (st_port tk, mg_reserved m2)"
  proof (cases rule: start_begin_cases)
    case none
    then show ?thesis by blast
  next
    case (begun li' tk')
    have "li' = ?li1" "tk' = tk" using begun(1,7) m1 by (auto simp: get_live_def)
    then show ?thesis using begun(3,4) key m1 by simp
  qed
  then have R2: "mg_reserved m2 = insert q (mg_reserved m)" "q \<notin> mg_reserved m"
    using assms(9) by (auto elim: allocate_fresh)
  let ?li3 = "halted (attempt tk ?li1)"
  have m3: "map_of (mg_live m3) = (map_of (mg_live m))(key_of i \<mapsto> ?li3)" "mg_reserved m3 = mg_reserved m2 - {q}"
  proof -
    have "m3 = stop_finish ts (attempt tk ?li1) pt (stop_wait False timed_out pt m2)"
      using m2 assms(10) by (simp add: stop_resume_def Let_def)
    moreover have "key_of (cx_id (li_ctx (attempt tk ?li1))) = key_of i" "rt_port (li_runtime (attempt tk ?li1)) = Some q"
      using key assms(9) by (simp_all add: attempt_def)
    ultimately show "map_of (mg_live m3) = (map_of (mg_live m))(key_of i \<mapsto> ?li3)" "mg_reserved m3 = mg_reserved m2 - {q}"
      using m2 by (simp_all add: stop_finish_effect)
  qed
  have key3: "key_of (cx_id (li_ctx ?li3)) = key_of i" using key by (simp add: attempt_def)
  have L4: "get_live i m4 = Some ?li3"
    using start_launch_simps(1) [OF assms(11)] m3 by (simp add: get_live_def)
  have R4: "mg_reserved m4 = mg_reserved m"
    using start_launch_simps(2) [OF assms(11)] m3 R2 by simp
  have gen: "rt_generation (li_runtime ?li3) = st_generation tk" by (simp add: attempt_def)
  have known: "me_known env (id_owner_user_id i)" using ok assms(13) by simp
  note s = start_resume_ready [OF L4 key3 gen known assms(14), of h]
  have m5: "map_of (mg_live m5) = (map_of (mg_live m))(key_of i \<mapsto> started se i h ?li3)"
    using s(2) assms(12) start_launch_simps(1) [OF assms(11)] m3 by simp
  have "rt_port (li_runtime x) \<noteq> Some p" if "map_of (mg_live m5) k = Some x" for k x
    using that core_invD(3) [OF core L, of k x p] assms(5) by (cases "k = key_of i") (auto simp: m5)
  moreover have "p \<in> mg_reserved m" using core_invD(2) [OF core L assms(5)] .
  ultimately show ?thesis
    using s(1,3) assms(12) R2 R4 ok m5 by (auto simp: instance_status_def instance_port_def get_live_def)
qed

section \<open>Failures between the locked regions\<close>

text \<open>
  An instance whose preparation fails is starting for ever. The error leaves \<open>start_instance\<close> between the
  two locked regions, so the state stays starting and the port stays reserved; every later start of the
  instance answers success and does nothing.
\<close>

theorem prepare_failure_sticks:
  assumes "mgr_init m0" and "(mgr_step env)\<^sup>*\<^sup>* m0 m" and "get_live i m = Some li"
    and "start_begin env (se_ts se) (se_offers se) owner i m = (Inr (Some tk), m1)"
    and "se_prepare se = Some e" and "start_instance env se owner i m = (r, m')"
  shows "(\<exists>err. r = Inl err) \<and> instance_status owner i m' = Some Starting \<and>
    (\<forall>p. st_port tk = Some p \<longrightarrow> p \<in> mg_reserved m') \<and>
    (\<forall>se'. start_instance env se' owner i m' = (Inr (), m'))"
proof -
  have inv: "mgr_inv m" using mgr_sys.reach_inv [OF assms(1,2)] .
  note ok = start_begin_ok [OF assms(4)] and b = start_begin_live [OF inv assms(4,3)]
  obtain r2 m2 where l: "start_launch env (se_prepare se) (se_start se) i tk m1 = (r2, m2)" by fastforce
  have err: "\<exists>err. r2 = Inl err"
    using l assms(5) by (auto simp: start_launch_def Let_def split: prod.splits sum.splits)
  then have rm: "(\<exists>err. r = Inl err) \<and> m' = m2"
    using assms(4,6) l by (auto simp: start_instance_def)
  note l2 = start_launch_simps [OF l]
  have en: "is_enabled (id_kind i) m1"
    using assms(4) by (cases rule: start_begin_cases) (use ok in \<open>auto simp: is_enabled_def\<close>)
  have L: "get_live i m' = Some (attempt tk li)" "is_enabled (id_kind i) m'"
    using rm l2 b(1) en by (simp_all add: get_live_def is_enabled_def)
  have st: "rt_state (li_runtime (attempt tk li)) = Starting" by (simp add: attempt_def)
  have "p \<in> mg_reserved m'" if "st_port tk = Some p" for p
    using b(4) that rm l2(2) by (auto elim: allocate_fresh)
  moreover have "start_instance env se' owner i m' = (Inr (), m')" for se'
    using L ok st by (simp add: start_instance_def start_begin_def)
  ultimately show ?thesis
    using rm L ok st by (simp add: instance_status_def)
qed

text \<open>
  Starting an unhealthy instance abandons its process. The state unhealthy admits a new start; the old
  handle is overwritten without the adapter having been asked to stop or kill it, and the old port stays
  reserved, held by nobody.
\<close>

theorem start_of_unhealthy_leaks:
  assumes "mgr_init m0" and "(mgr_step env)\<^sup>*\<^sup>* m0 m" and "get_live i m = Some li"
    and "rt_state (li_runtime li) = Unhealthy" and "rt_port (li_runtime li) = Some p"
    and "start_begin env (se_ts se) (se_offers se) owner i m = (Inr (Some tk), m1)"
    and "instance_state_dir (me_mkdir_ok env) (me_runtime_root env) i (mg_fs m1) = (Inr d, fs')"
    and "se_prepare se = None" and "se_start se = Inr h" and "se_health se 0 = Ready" and "me_known env owner"
    and "start_instance env se owner i m = (r, m')"
  shows "(\<exists>old. rt_handle (li_runtime li) = Some old) \<and> r = Inr () \<and>
    (\<exists>li'. get_live i m' = Some li' \<and> rt_state (li_runtime li') = Running \<and> rt_handle (li_runtime li') = Some h) \<and>
    mg_calls m' = mg_calls m @ [CallPrepare (st_ctx tk), CallStart (st_ctx tk) h] \<and>
    p \<in> mg_reserved m' \<and> (\<forall>k x. map_of (mg_live m') k = Some x \<longrightarrow> rt_port (li_runtime x) \<noteq> Some p)"
proof -
  have inv: "mgr_inv m" using mgr_sys.reach_inv [OF assms(1,2)] .
  then have core: "core_inv (map_of (mg_live m)) (mg_reserved m) (set (mg_supervisors m))"
    by (simp add: mgr_inv_def)
  have L: "map_of (mg_live m) (key_of i) = Some li" using assms(3) by (simp add: get_live_def)
  note ok = start_begin_ok [OF assms(6)] and b = start_begin_live [OF inv assms(6,3)]
  obtain m2 where l: "start_launch env (se_prepare se) (se_start se) i tk m1 = (Inr (Inr h), m2)"
    and calls: "mg_calls m2 = mg_calls m1 @ [CallPrepare (st_ctx tk), CallStart (st_ctx tk) h]"
    using assms(7-9) by (simp add: start_launch_def Let_def)
  note l2 = start_launch_simps [OF l]
  have c1: "mg_calls m1 = mg_calls m"
    using assms(6) by (auto simp: start_begin_def Let_def split: option.splits if_splits prod.splits)
  have L2: "get_live i m2 = Some (attempt tk li)" using l2(1) b(1) by (simp add: get_live_def)
  have key: "key_of (cx_id (li_ctx (attempt tk li))) = key_of i" using b(2) by (simp add: attempt_def)
  have gen: "rt_generation (li_runtime (attempt tk li)) = st_generation tk" by (simp add: attempt_def)
  have known: "me_known env (id_owner_user_id i)" using ok assms(11) by simp
  note s = start_resume_ready [OF L2 key gen known assms(10), of h]
  have m': "(r, m') = start_resume env se i tk (Inr h) m2"
    using assms(6,12) l by (simp add: start_instance_def)
  have pR: "p \<in> mg_reserved m" using core_invD(2) [OF core L assms(5)] .
  have R: "p \<in> mg_reserved m1" "st_port tk \<noteq> Some p"
    using pR b(4) by (auto elim: allocate_fresh)
  have live: "map_of (mg_live m') = (map_of (mg_live m))(key_of i \<mapsto> started se i h (attempt tk li))"
    using s(2) m' l2(1) b(5) by (metis fun_upd_upd snd_conv)
  have "rt_port (li_runtime x) \<noteq> Some p" if "map_of (mg_live m') k = Some x" for k x
    using that core_invD(3) [OF core L, of k x p] assms(5) R(2)
    by (cases "k = key_of i") (auto simp: live attempt_def)
  moreover have "r = Inr ()" "mg_reserved m' = mg_reserved m1" "mg_calls m' = mg_calls m2"
    using s(1,3,4) m' l2(2) by (metis fst_conv, metis snd_conv, metis snd_conv)
  moreover have "\<exists>old. rt_handle (li_runtime li) = Some old"
    using mgr_inv_live [OF inv L] assms(4) by (auto simp: live_ok_def)
  ultimately show ?thesis
    using R(1) calls c1 live by (simp add: get_live_def)
qed

section \<open>A concrete history\<close>

definition demo_policy :: ResourcePolicy where
  "demo_policy = \<lparr>max_instances_global = 8, max_instances_per_user = 1, memory_limit_bytes = None, pids_limit = None,
     cpu_quota_fraction = None, start_timeout = 2, health_timeout = 1, stop_timeout = 1, idle_timeout = None\<rparr>"

definition demo_menv :: manager_env where
  "demo_menv = \<lparr>me_adapters = (\<lambda>_. True), me_availability = (\<lambda>_. Available ''ok''), me_runtime_root = [''rt''],
     me_policy = demo_policy, me_kind_policies = Map.empty, me_known = (\<lambda>_. True),
     me_mkdir_ok = (\<lambda>_. True), me_remove_ok = (\<lambda>_. True)\<rparr>"

definition demo_m0 :: manager where
  "demo_m0 = \<lparr>mg_enabled = [Code \<mapsto> True], mg_rows = [], mg_reserved = {}, mg_live = [], mg_supervisors = [],
     mg_calls = [], mg_fs = Map.empty\<rparr>"

definition demo_id :: "string \<Rightarrow> InstanceId" where
  "demo_id x = \<lparr>id_kind = Code, id_owner_user_id = ''u'', id_instance_id = x\<rparr>"

definition demo_se :: "nat \<Rightarrow> AdapterError option \<Rightarrow> AdapterError + RunningHandle \<Rightarrow> start_env" where
  "demo_se port prep res = \<lparr>se_ts = 1, se_offers = (\<lambda>_. Some port), se_prepare = prep, se_start = res,
     se_display = (\<lambda>_. ''failed''), se_cgroup = (\<lambda>_. None), se_health = (\<lambda>_. Ready), se_delay = (\<lambda>_. 0),
     se_instant = 0, se_instant_end = 1\<rparr>"

definition demo_m1 :: manager where
  "demo_m1 = snd (create_instance demo_menv ''a'' 0 0 ''u'' Code Persistent demo_m0)"

definition demo_m2 :: manager where
  "demo_m2 = snd (start_instance demo_menv (demo_se 7 None (Inl (AdapterStart ''no''))) ''u'' (demo_id ''a'') demo_m1)"

definition demo_m3 :: manager where
  "demo_m3 = snd (create_instance demo_menv ''b'' 2 2 ''u'' Code Persistent demo_m2)"

definition demo_m4 :: manager where
  "demo_m4 = snd (start_instance demo_menv (demo_se 8 None (Inr (Opaque ''c1''))) ''u'' (demo_id ''a'') demo_m3)"

definition demo_m5 :: manager where
  "demo_m5 = snd (start_instance demo_menv (demo_se 9 None (Inr (Opaque ''c2''))) ''u'' (demo_id ''b'') demo_m4)"

lemma demo_statuses:
  "max_instances_per_user (policy_for demo_menv Code) = 1"
  "map_of (mg_live demo_m0) (Code, ''u'', ''a'') = None"
  "map_of (mg_live demo_m2) (Code, ''u'', ''b'') = None"
  "instance_status ''u'' (demo_id ''a'') demo_m5 = Some Running"
  "instance_status ''u'' (demo_id ''b'') demo_m5 = Some Running"
  by code_simp+

lemma demo_reach: "mgr_init demo_m0" "(mgr_step demo_menv)\<^sup>*\<^sup>* demo_m0 demo_m1" "(mgr_step demo_menv)\<^sup>*\<^sup>* demo_m0 demo_m5"
proof -
  show "mgr_init demo_m0" by (simp add: mgr_init_def demo_m0_def)
  have s1: "mgr_step demo_menv demo_m0 demo_m1"
    unfolding demo_m1_def by (rule mgr_step.create) (rule demo_statuses(2))
  then show "(mgr_step demo_menv)\<^sup>*\<^sup>* demo_m0 demo_m1" by blast
  have s3: "mgr_step demo_menv demo_m2 demo_m3"
    unfolding demo_m3_def by (rule mgr_step.create) (rule demo_statuses(3))
  have "mgr_step demo_menv demo_m1 demo_m2" "mgr_step demo_menv demo_m3 demo_m4" "mgr_step demo_menv demo_m4 demo_m5"
    unfolding demo_m2_def demo_m4_def demo_m5_def by (rule mgr_step.start)+
  with s1 s3 show "(mgr_step demo_menv)\<^sup>*\<^sup>* demo_m0 demo_m5"
    by (meson converse_rtranclp_into_rtranclp rtranclp.rtrancl_refl)
qed

text \<open>
  The per-user limit can be exceeded. With a limit of one instance per user, a failed instance does not
  count, so a second one is created; the first is still live and can be started again. Operations run
  one after another reach a state in which one user has two running instances of the same kind.
\<close>

theorem per_user_limit_exceeded:
  "\<exists>env m0 m i j. mgr_init m0 \<and> (mgr_step env)\<^sup>*\<^sup>* m0 m \<and> i \<noteq> j \<and> id_kind i = id_kind j \<and>
     id_owner_user_id i = ''u'' \<and> id_owner_user_id j = ''u'' \<and> max_instances_per_user (policy_for env (id_kind i)) = 1 \<and>
     instance_status ''u'' i m = Some Running \<and> instance_status ''u'' j m = Some Running"
  using demo_reach(1,3) demo_statuses(1,4,5)
  by (intro exI [of _ demo_menv] exI [of _ demo_m0] exI [of _ demo_m5] exI [of _ "demo_id ''a''"]
      exI [of _ "demo_id ''b''"]) (simp add: demo_id_def)

section \<open>Examples\<close>

theorem state_dir_confined_witness:
  "\<exists>fs'. instance_state_dir (\<lambda>_. True) [''rt''] (demo_id ''a'') Map.empty =
     (Inr [''rt'', ''code'', ''users'', ''u'', ''a''], fs') \<and> fs' [''rt'', ''code''] = Some Directory"
proof -
  have "\<exists>fs'. instance_state_dir (\<lambda>_. True) [''rt''] (demo_id ''a'') Map.empty =
     (Inr [''rt'', ''code'', ''users'', ''u'', ''a''], fs')"
    by (simp add: instance_state_dir_def demo_id_def is_safe_segment_def char_class_defs create_dir_symlink_safe_def Let_def)
  then obtain fs' where fs': "instance_state_dir (\<lambda>_. True) [''rt''] (demo_id ''a'') Map.empty =
     (Inr [''rt'', ''code'', ''users'', ''u'', ''a''], fs')" by blast
  from state_dir_confined [OF this, THEN conjunct2, THEN conjunct1, rule_format, of 2]
  have "fs' [''rt'', ''code''] = Some Directory" by (simp add: numeral_2_eq_2)
  with fs' show ?thesis by blast
qed

theorem remove_state_dir_isolated_witness:
  "snd (remove_instance_state_dir (\<lambda>_. True) (\<lambda>_. True) [''rt''] (demo_id ''a'')
     [[''rt'', ''code'', ''users'', ''u'', ''b'', ''f''] \<mapsto> OtherFile]) [''rt'', ''code'', ''users'', ''u'', ''b'', ''f'']
   = Some OtherFile"
  using remove_state_dir_isolated [of "demo_id ''a''" "demo_id ''b''" "[''rt'']"
      "[''rt'', ''code'', ''users'', ''u'', ''b'', ''f'']" "\<lambda>_. True" "\<lambda>_. True"
      "[[''rt'', ''code'', ''users'', ''u'', ''b'', ''f''] \<mapsto> OtherFile]"]
  by (simp add: demo_id_def below_def state_path_def)

lemma demo_live:
  "map_option (\<lambda>li. (rt_state (li_runtime li), rt_port (li_runtime li), rt_handle (li_runtime li)))
     (get_live (demo_id ''a'') demo_m5) = Some (Running, Some 8, Some (Opaque ''c1''))"
  "map_option (\<lambda>li. (rt_state (li_runtime li), rt_handle (li_runtime li)))
     (get_live (demo_id ''a'') demo_m1) = Some (Stopped, None)"
  by code_simp+


theorem disable_stops_all_witness:
  "start_instance demo_menv (demo_se 5 None (Inr (Opaque ''c''))) ''u'' (demo_id ''a'')
     (set_enabled demo_menv (\<lambda>_. False) 9 Code False demo_m5) =
   (Inl StartDisabled, set_enabled demo_menv (\<lambda>_. False) 9 Code False demo_m5)"
proof -
  have "me_adapters demo_menv Code" "id_kind (demo_id ''a'') = Code" "id_owner_user_id (demo_id ''a'') = ''u''"
    by (simp_all add: demo_menv_def demo_id_def)
  with disable_stops_all [OF demo_reach(1,3) _ refl, of Code "\<lambda>_. False" 9] show ?thesis by metis
qed

definition demo_worn :: manager where
  "demo_worn = demo_m1\<lparr>mg_rows := map (\<lambda>r. r\<lparr>ri_restart_count := 3\<rparr>) (mg_rows demo_m1)\<rparr>"

theorem crash_loop_refused_witness:
  "fst (restart_instance demo_menv False (demo_se 5 None (Inr (Opaque ''c''))) ''u'' (demo_id ''a'') demo_worn) =
     Inl (StartAdapter (AdapterStart ''crash-loop threshold exceeded''))"
proof -
  have "restarts (demo_id ''a'') (mg_rows demo_worn) = Some 3" by code_simp
  moreover have "mgr_inv demo_worn"
    unfolding demo_worn_def using mgr_sys.reach_inv [OF demo_reach(1,2)] by (rule mgr_inv_same) simp_all
  moreover obtain li where "get_live (demo_id ''a'') demo_worn = Some li"
    using demo_live(2) by (auto simp: demo_worn_def get_live_def)
  ultimately show ?thesis
    using crash_loop_refused [of "demo_id ''a''" demo_worn 3 demo_menv demo_worn li "''u''"]
    by (simp add: demo_id_def)
qed

theorem reconcile_settles_witness:
  "fst (reconcile_on_startup demo_menv 9 demo_m5) = 2 \<and>
   list_all (\<lambda>x. is_terminal_for_reconciliation (ir_state x))
     (store_list_all (mg_rows (snd (reconcile_on_startup demo_menv 9 demo_m5))))"
proof -
  have "distinct (map row_key (mg_rows demo_m5))"
    and "length (filter (\<lambda>x. \<not> is_terminal_for_reconciliation (ir_state x)) (store_list_all (mg_rows demo_m5))) = 2"
    by code_simp+
  with reconcile_settles [of demo_menv 9 demo_m5 "fst (reconcile_on_startup demo_menv 9 demo_m5)"
      "snd (reconcile_on_startup demo_menv 9 demo_m5)"] show ?thesis
    by (simp add: list_all_iff)
qed

definition demo_tk :: "string \<Rightarrow> nat \<Rightarrow> nat \<Rightarrow> start_ticket" where
  "demo_tk x g p = \<lparr>st_ctx = \<lparr>cx_id = demo_id x, cx_generation = g, cx_runtime_root = [''rt''],
       cx_state_dir = [''rt'', ''code'', ''users'', ''u'', x], cx_policy = demo_policy, cx_port = Some p\<rparr>,
     st_generation = g, st_port = Some p\<rparr>"

abbreviation demo_h :: RunningHandle where
  "demo_h \<equiv> Opaque ''c''"

theorem stop_during_start_is_lost_witness:
  "\<exists>m1 m2 m3. start_begin demo_menv 1 (\<lambda>_. Some 7) ''u'' (demo_id ''a'') demo_m1 = (Inr (Some (demo_tk ''a'' 1 7)), m1) \<and>
     stop_instance demo_menv False 2 ''u'' (demo_id ''a'') m1 = (Inr (), m2) \<and>
     start_launch demo_menv None (Inr demo_h) (demo_id ''a'') (demo_tk ''a'' 1 7) m2 = (Inr (Inr demo_h), m3) \<and>
     instance_status ''u'' (demo_id ''a'') (snd (start_resume demo_menv (demo_se 7 None (Inr demo_h)) (demo_id ''a'')
       (demo_tk ''a'' 1 7) (Inr demo_h) m3)) = Some Running"
proof -
  define m1 where "m1 = snd (start_begin demo_menv 1 (\<lambda>_. Some 7) ''u'' (demo_id ''a'') demo_m1)"
  define m2 where "m2 = snd (stop_instance demo_menv False 2 ''u'' (demo_id ''a'') m1)"
  define m3 where "m3 = snd (start_launch demo_menv None (Inr demo_h) (demo_id ''a'') (demo_tk ''a'' 1 7) m2)"
  have "fst (start_begin demo_menv 1 (\<lambda>_. Some 7) ''u'' (demo_id ''a'') demo_m1) = Inr (Some (demo_tk ''a'' 1 7))"
    by code_simp
  then have b: "start_begin demo_menv 1 (\<lambda>_. Some 7) ''u'' (demo_id ''a'') demo_m1 = (Inr (Some (demo_tk ''a'' 1 7)), m1)"
    by (simp add: m1_def prod_eq_iff)
  have "fst (start_launch demo_menv None (Inr demo_h) (demo_id ''a'') (demo_tk ''a'' 1 7) m2) = Inr (Inr demo_h)"
    unfolding m2_def m1_def by code_simp
  then have l: "start_launch demo_menv None (Inr demo_h) (demo_id ''a'') (demo_tk ''a'' 1 7) m2 = (Inr (Inr demo_h), m3)"
    by (simp add: m3_def prod_eq_iff)
  obtain li where li: "get_live (demo_id ''a'') demo_m1 = Some li" "rt_handle (li_runtime li) = None"
    using demo_live(2) by auto
  have st: "stop_instance demo_menv False 2 ''u'' (demo_id ''a'') m1 =
      (fst (stop_instance demo_menv False 2 ''u'' (demo_id ''a'') m1), m2)"
    by (simp add: m2_def)
  have known: "me_known demo_menv ''u''" "se_health (demo_se 7 None (Inr demo_h)) 0 = Ready"
    by (simp_all add: demo_menv_def demo_se_def)
  note w = stop_during_start_is_lost [OF demo_reach(1,2) li b st l prod.collapse [symmetric] known]
  show ?thesis
    using w st b l by metis
qed

theorem prepare_failure_sticks_witness:
  "instance_status ''u'' (demo_id ''a'')
     (snd (start_instance demo_menv (demo_se 7 (Some AdapterTimeout) (Inr demo_h)) ''u'' (demo_id ''a'') demo_m1)) = Some Starting"
proof -
  let ?se = "demo_se 7 (Some AdapterTimeout) (Inr demo_h)"
  have "fst (start_begin demo_menv (se_ts ?se) (se_offers ?se) ''u'' (demo_id ''a'') demo_m1) = Inr (Some (demo_tk ''a'' 1 7))"
    by code_simp
  then have b: "start_begin demo_menv (se_ts ?se) (se_offers ?se) ''u'' (demo_id ''a'') demo_m1 =
      (Inr (Some (demo_tk ''a'' 1 7)), snd (start_begin demo_menv (se_ts ?se) (se_offers ?se) ''u'' (demo_id ''a'') demo_m1))"
    by (simp add: prod_eq_iff)
  obtain li where li: "get_live (demo_id ''a'') demo_m1 = Some li" using demo_live(2) by auto
  have p: "se_prepare ?se = Some AdapterTimeout" by (simp add: demo_se_def)
  show ?thesis
    using prepare_failure_sticks [OF demo_reach(1,2) li b p prod.collapse [symmetric]] by blast
qed

definition demo_m6 :: manager where
  "demo_m6 = run_supervisor 3 None HealthUnhealthy False 0 demo_m5"

lemma demo_m6_facts:
  "map_option (\<lambda>li. (rt_state (li_runtime li), rt_port (li_runtime li))) (get_live (demo_id ''a'') demo_m6) = Some (Unhealthy, Some 8)"
  "fst (start_begin demo_menv 1 (\<lambda>_. Some 7) ''u'' (demo_id ''a'') demo_m6) = Inr (Some (demo_tk ''a'' 3 7))"
  "fst (instance_state_dir (\<lambda>_. True) [''rt''] (demo_id ''a'')
     (mg_fs (snd (start_begin demo_menv 1 (\<lambda>_. Some 7) ''u'' (demo_id ''a'') demo_m6)))) =
   Inr [''rt'', ''code'', ''users'', ''u'', ''a'']"
  by code_simp+

theorem start_of_unhealthy_leaks_witness:
  "mg_calls (snd (start_instance demo_menv (demo_se 7 None (Inr demo_h)) ''u'' (demo_id ''a'') demo_m6)) =
     mg_calls demo_m6 @ [CallPrepare (st_ctx (demo_tk ''a'' 3 7)), CallStart (st_ctx (demo_tk ''a'' 3 7)) demo_h]"
proof -
  let ?se = "demo_se 7 None (Inr demo_h)"
  let ?b = "start_begin demo_menv (se_ts ?se) (se_offers ?se) ''u'' (demo_id ''a'') demo_m6"
  have se: "se_ts ?se = 1" "se_offers ?se = (\<lambda>_. Some 7)" "se_prepare ?se = None" "se_start ?se = Inr demo_h"
    "se_health ?se 0 = Ready" "me_known demo_menv ''u''"
    by (simp_all add: demo_se_def demo_menv_def)
  have reach: "(mgr_step demo_menv)\<^sup>*\<^sup>* demo_m0 demo_m6"
    unfolding demo_m6_def using demo_reach(3) by (rule rtranclp.rtrancl_into_rtrancl) (rule mgr_step.supervise)
  obtain li where li: "get_live (demo_id ''a'') demo_m6 = Some li" "rt_state (li_runtime li) = Unhealthy"
    "rt_port (li_runtime li) = Some 8"
    using demo_m6_facts(1) by auto
  have b: "?b = (Inr (Some (demo_tk ''a'' 3 7)), snd ?b)"
    using demo_m6_facts(2) unfolding se by (simp add: prod_eq_iff)
  have d: "instance_state_dir (me_mkdir_ok demo_menv) (me_runtime_root demo_menv) (demo_id ''a'') (mg_fs (snd ?b)) =
      (Inr [''rt'', ''code'', ''users'', ''u'', ''a''],
       snd (instance_state_dir (me_mkdir_ok demo_menv) (me_runtime_root demo_menv) (demo_id ''a'') (mg_fs (snd ?b))))"
    using demo_m6_facts(3) unfolding se by (simp add: prod_eq_iff demo_menv_def)
  show ?thesis
    using start_of_unhealthy_leaks [OF demo_reach(1) reach li b d se(3-6) prod.collapse [symmetric]] by blast
qed

definition demo_pt :: stop_ticket where
  "demo_pt = \<lparr>pt_ctx = \<lparr>cx_id = demo_id ''a'', cx_generation = 2, cx_runtime_root = [''rt''],
       cx_state_dir = [''rt'', ''code'', ''users'', ''u'', ''a''], cx_policy = demo_policy, cx_port = Some 8\<rparr>,
     pt_handle = Opaque ''c1''\<rparr>"

definition demo_stopping :: manager where
  "demo_stopping = (case get_live (demo_id ''a'') demo_m5 of None \<Rightarrow> demo_m5 | Some li \<Rightarrow> snd (stop_begin demo_menv 1 li demo_m5))"

definition demo_overtaken :: manager where
  "demo_overtaken = stop_resume False False 1 (key_of (demo_id ''a'')) demo_pt
     (snd (start_begin demo_menv 1 (\<lambda>_. Some 7) ''u'' (demo_id ''a'') demo_stopping))"

lemma demo_overtaken_facts:
  "map_option (\<lambda>li. fst (stop_begin demo_menv 1 li demo_m5)) (get_live (demo_id ''a'') demo_m5) = Some (Some demo_pt)"
  "fst (start_begin demo_menv 1 (\<lambda>_. Some 7) ''u'' (demo_id ''a'') demo_stopping) = Inr (Some (demo_tk ''a'' 3 7))"
  "fst (start_launch demo_menv None (Inr demo_h) (demo_id ''a'') (demo_tk ''a'' 3 7) demo_overtaken) = Inr (Inr demo_h)"
  by code_simp+

theorem start_during_stop_loses_port_witness:
  "instance_port ''u'' (demo_id ''a'') (snd (start_resume demo_menv (demo_se 7 None (Inr demo_h)) (demo_id ''a'') (demo_tk ''a'' 3 7)
     (Inr demo_h) (snd (start_launch demo_menv None (Inr demo_h) (demo_id ''a'') (demo_tk ''a'' 3 7) demo_overtaken)))) = None"
proof -
  obtain li where li: "get_live (demo_id ''a'') demo_m5 = Some li" "rt_state (li_runtime li) = Running"
    "rt_port (li_runtime li) = Some 8"
    using demo_live(1) by auto
  have s: "stop_begin demo_menv 1 li demo_m5 = (Some demo_pt, demo_stopping)"
    using demo_overtaken_facts(1) li(1) by (simp add: demo_stopping_def prod_eq_iff)
  have b: "start_begin demo_menv 1 (\<lambda>_. Some 7) ''u'' (demo_id ''a'') demo_stopping =
      (Inr (Some (demo_tk ''a'' 3 7)), snd (start_begin demo_menv 1 (\<lambda>_. Some 7) ''u'' (demo_id ''a'') demo_stopping))"
    using demo_overtaken_facts(2) by (simp add: prod_eq_iff)
  have q: "st_port (demo_tk ''a'' 3 7) = Some 7" by (simp add: demo_tk_def)
  have l: "start_launch demo_menv None (Inr demo_h) (demo_id ''a'') (demo_tk ''a'' 3 7) demo_overtaken =
      (Inr (Inr demo_h), snd (start_launch demo_menv None (Inr demo_h) (demo_id ''a'') (demo_tk ''a'' 3 7) demo_overtaken))"
    using demo_overtaken_facts(3) by (simp add: prod_eq_iff)
  have env: "me_adapters demo_menv (id_kind (demo_id ''a''))" "me_known demo_menv ''u''"
    "se_health (demo_se 7 None (Inr demo_h)) 0 = Ready"
    by (simp_all add: demo_menv_def demo_se_def)
  show ?thesis
    using start_during_stop_loses_port [OF demo_reach(1,3) li env(1) s b q demo_overtaken_def [symmetric] l
        prod.collapse [symmetric] env(2,3)] by blast
qed

end
