(* ===== verification/Auth_Crypto.thy ===== *)
theory Auth_Crypto
  imports Prelude "HOL-Library.Word"
begin

text \<open>
  The credential helpers of \<open>crates/auth/src/lib.rs\<close>: user names and passwords, one-time codes (TOTP),
  recovery codes and the login backoff. HMAC-SHA1 (\<open>hmac\<close>, \<open>sha1\<close>) is the argument \<open>hmac\<close>; its digest is a
  list of bytes. The dynamic truncation works on 32-bit words, as in the code.
\<close>

unbundle bit_operations_syntax

section \<open>Names and passwords\<close>

definition normalize_username :: "string \<Rightarrow> string" where
  "normalize_username username = to_lowercase (trim username)"

definition valid_username :: "string \<Rightarrow> bool" where
  "valid_username username \<longleftrightarrow>
     (let normalized = normalize_username username in
      3 \<le> length normalized \<and> length normalized \<le> 64 \<and>
      list_all (\<lambda>b. is_ascii_alphanumeric b \<or> b \<in> {CHR ''.'', CHR ''_'', CHR ''-''}) normalized)"

definition valid_password :: "string \<Rightarrow> bool" where
  "valid_password password \<longleftrightarrow> \<not> (length password < 12 \<or> length password > 1024)"

lemma normalize_username_idem: "normalize_username (normalize_username u) = normalize_username u"
  by (simp add: normalize_username_def trim_lowercase) (simp add: to_lowercase_def)

section \<open>Backoff\<close>

definition backoff_seconds :: "int \<Rightarrow> int \<Rightarrow> int" where
  "backoff_seconds failure_count maximum_failures =
     (if failure_count < maximum_failures then 0
      else 2 ^ nat (max 0 (min 8 (failure_count - maximum_failures))) * 30)"

lemma backoff_seconds_bounds: "0 \<le> backoff_seconds n k \<and> backoff_seconds n k \<le> 7680"
proof -
  have "(2 :: int) ^ nat (max 0 (min 8 (n - k))) \<le> 2 ^ 8"
    by (rule power_increasing) auto
  then have "2 ^ nat (max 0 (min 8 (n - k))) * 30 \<le> (7680 :: int)"
    using mult_right_mono [of "2 ^ nat (max 0 (min 8 (n - k)))" "2 ^ 8" "30 :: int"] by simp
  then show ?thesis unfolding backoff_seconds_def by auto
qed

lemma backoff_seconds_mono: "n \<le> m \<Longrightarrow> backoff_seconds n k \<le> backoff_seconds m k"
  by (auto simp: backoff_seconds_def intro!: power_increasing)

section \<open>Recovery codes\<close>

definition to_uppercase :: "string \<Rightarrow> string" where
  "to_uppercase s = map to_upper s"

function chunks :: "nat \<Rightarrow> string \<Rightarrow> string list" where
  "chunks n s = (if s = [] \<or> n = 0 then [] else take n s # chunks n (drop n s))"
  by pat_completeness auto
termination
  by (relation "measure (length \<circ> snd)") auto

declare chunks.simps [simp del]

fun join_dash :: "string list \<Rightarrow> string" where
  "join_dash [] = []"
| "join_dash [c] = c"
| "join_dash (c # cs) = c @ CHR ''-'' # join_dash cs"

text \<open>\<open>raw\<close> is \<open>random_identifier(15)\<close>.\<close>

definition grouped_recovery_code :: "string \<Rightarrow> string" where
  "grouped_recovery_code raw = join_dash (chunks 5 (to_uppercase raw))"

definition normalize_recovery_code :: "string \<Rightarrow> string" where
  "normalize_recovery_code code = map to_upper (filter is_ascii_alphanumeric code)"

lemma concat_chunks: "n \<noteq> 0 \<Longrightarrow> concat (chunks n s) = s"
  by (induction n s rule: chunks.induct) (subst chunks.simps, auto)

lemma normalize_append: "normalize_recovery_code (a @ b) = normalize_recovery_code a @ normalize_recovery_code b"
  by (simp add: normalize_recovery_code_def)

lemma normalize_join_dash: "normalize_recovery_code (join_dash cs) = normalize_recovery_code (concat cs)"
proof (induction cs rule: join_dash.induct)
  case (3 c d cs)
  have "normalize_recovery_code (CHR ''-'' # s) = normalize_recovery_code s" for s
    by (simp add: normalize_recovery_code_def char_class_defs)
  with 3 show ?case by (simp add: normalize_append)
qed (simp_all add: normalize_recovery_code_def)

lemma alnum_upper [simp]: "is_ascii_alphanumeric (to_upper c) = is_ascii_alphanumeric c"
  by (auto simp: char_class_defs)

lemma alnum_lower [simp]: "is_ascii_alphanumeric (to_lower c) = is_ascii_alphanumeric c"
  by (auto simp: char_class_defs)

lemma upper_lower [simp]: "to_upper (to_lower c) = to_upper c"
  by (auto simp: char_class_defs)

lemma normalize_map_case:
  "normalize_recovery_code (map to_upper s) = normalize_recovery_code s"
  "normalize_recovery_code (map to_lower s) = normalize_recovery_code s"
  by (induction s) (simp_all add: normalize_recovery_code_def)

text \<open>However a printed code is typed, in either case and with any separators, it reads as it was drawn.\<close>

lemma recovery_code_round_trip:
  "normalize_recovery_code (grouped_recovery_code raw) = normalize_recovery_code raw"
  by (simp add: grouped_recovery_code_def normalize_join_dash concat_chunks to_uppercase_def normalize_map_case)

section \<open>One-time codes\<close>

definition TOTP_PERIOD_SECONDS :: int where
  "TOTP_PERIOD_SECONDS = 30"

definition TOTP_DIGITS :: nat where
  "TOTP_DIGITS = 6"

definition byte_word :: "char \<Rightarrow> 32 word" where
  "byte_word c = word_of_nat (code_of c)"

definition to_be_bytes :: "nat \<Rightarrow> bytes" where
  "to_be_bytes n = map (\<lambda>k. char_of (n div 256 ^ k mod 256)) [7, 6, 5, 4, 3, 2, 1, 0]"

text \<open>\<open>format!("{:0width$}")\<close> of a number below \<open>10 ^ width\<close>.\<close>

definition zero_padded :: "nat \<Rightarrow> nat \<Rightarrow> string" where
  "zero_padded width n = map (\<lambda>k. char_of (48 + n div 10 ^ k mod 10)) (rev [0..<width])"

definition totp_value :: "bytes \<Rightarrow> 32 word" where
  "totp_value digest =
     (let offset = code_of (digest ! (length digest - 1)) mod 16 in
      push_bit 24 (byte_word (digest ! offset) AND 0x7f)
      OR push_bit 16 (byte_word (digest ! (offset + 1)))
      OR push_bit 8 (byte_word (digest ! (offset + 2)))
      OR byte_word (digest ! (offset + 3)))"

text \<open>The counter is clamped at zero, where Rust's division and \<open>div\<close> agree.\<close>

definition totp_at :: "(bytes \<Rightarrow> bytes \<Rightarrow> bytes) \<Rightarrow> bytes \<Rightarrow> int \<Rightarrow> string" where
  "totp_at hmac secret timestamp =
     (let counter = nat (max 0 (timestamp div TOTP_PERIOD_SECONDS));
          digest = hmac secret (to_be_bytes counter) in
      zero_padded TOTP_DIGITS (unat (totp_value digest) mod 10 ^ TOTP_DIGITS))"

definition verify_totp :: "(bytes \<Rightarrow> bytes \<Rightarrow> bytes) \<Rightarrow> bytes \<Rightarrow> string \<Rightarrow> int \<Rightarrow> bool" where
  "verify_totp hmac secret code timestamp \<longleftrightarrow>
     (let normalized = trim code in
      if length normalized \<noteq> TOTP_DIGITS \<or> \<not> list_all is_ascii_digit normalized then False
      else list_ex (\<lambda>off. totp_at hmac secret (timestamp + off * TOTP_PERIOD_SECONDS) = normalized) [-1, 0, 1])"

lemma zero_padded_digits: "length (zero_padded w n) = w" "list_all is_ascii_digit (zero_padded w n)"
proof -
  have "is_ascii_digit (char_of (48 + d mod 10))" for d :: nat
  proof -
    have "d mod 10 < 10" by simp
    then have "48 + d mod 10 < 256" by linarith
    then show ?thesis by (simp add: is_ascii_digit_def code_of_def)
  qed
  then show "list_all is_ascii_digit (zero_padded w n)" by (simp add: zero_padded_def list_all_iff)
qed (simp add: zero_padded_def)

text \<open>The four bytes of the dynamic truncation lie inside a SHA-1 digest.\<close>

lemma totp_offset_in_range:
  "length digest = 20 \<Longrightarrow> code_of (digest ! (length digest - 1)) mod 16 + 3 < length digest"
  by simp

lemma totp_at_digits: "length (totp_at hmac secret t) = 6" "list_all is_ascii_digit (totp_at hmac secret t)"
  by (simp_all add: totp_at_def Let_def zero_padded_digits TOTP_DIGITS_def)

text \<open>
  A one-time code is accepted exactly when it is, up to surrounding blanks, the code of the current, the
  previous or the next period. The checks on length and digits that come first reject nothing else, since
  every generated code has exactly six digits.
\<close>

theorem verify_totp_window:
  "verify_totp hmac secret code t \<longleftrightarrow>
     trim code \<in> {totp_at hmac secret (t - 30), totp_at hmac secret t, totp_at hmac secret (t + 30)}"
  using totp_at_digits [of hmac secret]
  by (auto simp: verify_totp_def Let_def TOTP_PERIOD_SECONDS_def TOTP_DIGITS_def)

end
