(* ===== verification/Auth_Service.thy ===== *)
theory Auth_Service
  imports Auth_Crypto Permissions Audit_Log Secrets
begin

text \<open>
  The authentication service (\<open>crates/auth/src/lib.rs\<close>) over the tables of
  \<open>migrations/0002_identity_auth_rbac_audit.sql\<close> and \<open>0006_auth_and_audit_hardening.sql\<close>.

  An operation returns its result and the database. A transaction that is dropped leaves the database
  as it was; a statement outside of one has run when a later statement fails. Argon2, SHA-256, HMAC-SHA1
  and base32 are fields of \<open>auth_env\<close>; random identifiers and salts are arguments, and so is every read of
  the clock. The rows of a query whose order SQL leaves open come in the order \<open>ae_order\<close>.
\<close>

section \<open>Data\<close>

record AuthPolicy =
  idle_timeout_seconds :: int
  absolute_timeout_seconds :: int
  remember_timeout_seconds :: int
  step_up_seconds :: int
  maximum_failures :: int

definition default_auth_policy :: AuthPolicy where
  "default_auth_policy =
     \<lparr>idle_timeout_seconds = 30 * 60, absolute_timeout_seconds = 12 * 60 * 60,
      remember_timeout_seconds = 30 * 24 * 60 * 60, step_up_seconds = 5 * 60, maximum_failures = 5\<rparr>"

datatype AuthError =
    AuthDatabase
  | PasswordHashFailed string
  | AuthSecret SecretError
  | AuthAudit AuditError
  | InvalidUsername
  | InvalidPassword
  | BootstrapComplete
  | InvalidCredentials
  | RateLimited
  | InvalidSession
  | TotpNotConfigured
  | InvalidSecondFactor
  | PermissionDenied
  | StepUpRequired
  | UnknownRole
  | UnknownCapability
  | UnknownUser
  | InvalidLinuxIdentity
  | InvalidUiMode
  | LinuxIdentityNotMapped
  | UnknownAssignedRoot
  | AuthPanic

record LoginRequest =
  lr_username :: string
  lr_password :: string
  lr_second_factor :: "string option"
  lr_remember_device :: bool
  lr_source_ip :: string
  lr_user_agent :: string
  lr_device_label :: "string option"

record CreateUserRequest =
  cu_username :: string
  cu_display_name :: string
  cu_password :: string
  cu_role_ids :: "string list"

record BootstrapConfiguration =
  bc_ui_mode :: string
  bc_enable_browser :: bool
  bc_enable_code :: bool
  bc_enable_office :: bool
  bc_linux_identity :: "(nat \<times> nat) option"

definition default_bootstrap :: BootstrapConfiguration where
  "default_bootstrap = \<lparr>bc_ui_mode = ''desktop'', bc_enable_browser = False, bc_enable_code = False,
     bc_enable_office = False, bc_linux_identity = None\<rparr>"

record LoginSuccess =
  ls_token :: string
  ls_session_id_hash :: string
  ls_user_id :: string
  ls_username :: string
  ls_absolute_expires_at :: int

record SessionPrincipal =
  sp_user_id :: string
  sp_username :: string
  sp_session_id_hash :: string
  sp_roles :: "string list"
  sp_capabilities :: "string set"
  sp_step_up_expires_at :: "int option"

record LinuxIdentityMapping =
  lim_uid :: nat
  lim_gid :: nat

datatype AssignedRootAccess = RootRead | RootReadWrite

fun access_str :: "AssignedRootAccess \<Rightarrow> string" where
  "access_str RootRead = ''read''"
| "access_str RootReadWrite = ''read-write''"

record AssignedRootSummary =
  ars_id :: string
  ars_label :: string
  ars_read_write :: bool

record ResolvedAssignedRoot =
  rar_id :: string
  rar_path :: string
  rar_read_write :: bool

section \<open>Tables\<close>

record user_row =
  u_id :: string
  u_username :: string
  u_display_name :: string
  u_password_hash :: string
  u_totp_secret :: "string option"
  u_totp_enabled :: bool
  u_linux_uid :: "int option"
  u_linux_gid :: "int option"
  u_disabled :: bool
  u_created_at :: int
  u_updated_at :: int

record session_row =
  s_id_hash :: string
  s_user_id :: string
  s_created_at :: int
  s_last_activity :: int
  s_idle_expires_at :: int
  s_absolute_expires_at :: int
  s_revoked_at :: "int option"
  s_step_up_expires_at :: "int option"
  s_remember_device :: bool
  s_source_ip :: string
  s_user_agent :: string
  s_device_label :: string

record SessionRecord =
  sr_id :: string
  sr_created_at :: int
  sr_last_activity :: int
  sr_idle_expires_at :: int
  sr_absolute_expires_at :: int
  sr_revoked_at :: "int option"
  sr_step_up_expires_at :: "int option"
  sr_remember_device :: bool
  sr_source_ip :: string
  sr_user_agent :: string
  sr_device_label :: string
  sr_current :: bool

record recovery_row =
  rc_id :: string
  rc_user_id :: string
  rc_code_hash :: string
  rc_used_at :: "int option"
  rc_created_at :: int

record throttle_row =
  tb_dimension :: string
  tb_bucket_key :: string
  tb_failure_count :: int
  tb_locked_until :: int
  tb_updated_at :: int

record history_row =
  lh_user_id :: "string option"
  lh_attempted_username :: string
  lh_source_ip :: string
  lh_user_agent :: string
  lh_succeeded :: bool
  lh_reason :: string
  lh_created_at :: int

record role_row =
  ro_id :: string
  ro_name :: string
  ro_description :: string
  ro_created_at :: int

record root_row =
  ar_root_id :: string
  ar_user_id :: string
  ar_path :: string
  ar_access_mode :: string
  ar_created_at :: int

record setting_row =
  se_key :: string
  se_value_json :: string
  se_updated_at :: int
  se_updated_by :: "string option"

record auth_db =
  db_users :: "user_row list"
  db_sessions :: "session_row list"
  db_recovery :: "recovery_row list"
  db_throttle :: "throttle_row list"
  db_history :: "history_row list"
  db_roles :: "role_row list"
  db_permissions :: "string list"
  db_role_permissions :: "(string \<times> string) list"
  db_user_roles :: "(string \<times> string) list"
  db_user_permissions :: "(string \<times> string \<times> string) list"
  db_roots :: "root_row list"
  db_settings :: "setting_row list"
  db_preferences :: "(string \<times> string \<times> int) list"
  db_audit :: audit_db

record 'n auth_env =
  ae_audit :: "'n audit_env"
  ae_locked :: "nat \<Rightarrow> bool"
  ae_aead :: aead_env
  ae_cipher :: SecretCipher
  ae_policy :: AuthPolicy
  ae_dummy_hash :: string
  ae_argon2_hash :: "string \<Rightarrow> string \<Rightarrow> string + string" \<comment> \<open>password, salt\<close>
  ae_phc_ok :: "string \<Rightarrow> bool"
  ae_argon2_verify :: "string \<Rightarrow> string \<Rightarrow> bool" \<comment> \<open>password, encoded hash\<close>
  ae_sha256_hex :: "bytes \<Rightarrow> string"
  ae_hmac_sha1 :: "bytes \<Rightarrow> bytes \<Rightarrow> bytes"
  ae_base32 :: "bytes \<Rightarrow> string"
  ae_order :: "(string \<times> string) list \<Rightarrow> (string \<times> string) list"

section \<open>Helpers\<close>

definition hash_value :: "'n auth_env \<Rightarrow> bytes \<Rightarrow> string" where
  "hash_value env v = ae_sha256_hex env v"

definition hash_password :: "'n auth_env \<Rightarrow> string \<Rightarrow> string \<Rightarrow> AuthError + string" where
  "hash_password env salt password =
     (case ae_argon2_hash env password salt of Inl msg \<Rightarrow> Inl (PasswordHashFailed msg) | Inr h \<Rightarrow> Inr h)"

definition verify_password :: "'n auth_env \<Rightarrow> string \<Rightarrow> string \<Rightarrow> bool" where
  "verify_password env password encoded \<longleftrightarrow> ae_phc_ok env encoded \<and> ae_argon2_verify env password encoded"

definition totp_context :: "string \<Rightarrow> bytes" where
  "totp_context user_id = ''user:'' @ user_id @ '':totp''"

definition validate_username :: "string \<Rightarrow> AuthError + unit" where
  "validate_username u = (if valid_username u then Inr () else Inl InvalidUsername)"

definition validate_password :: "string \<Rightarrow> AuthError + unit" where
  "validate_password p = (if valid_password p then Inr () else Inl InvalidPassword)"

definition audit_event ::
    "int \<Rightarrow> string option \<Rightarrow> string \<Rightarrow> string \<Rightarrow> string option \<Rightarrow> string \<Rightarrow> string \<Rightarrow> string \<Rightarrow> 'n NewAuditEvent" where
  "audit_event timestamp user_id action resource_type resource_id result source_ip user_agent =
     \<lparr>ev_timestamp = timestamp, ev_user_id = user_id, ev_role_snapshot = [], ev_session_id_hash = None,
      ev_source_ip = source_ip, ev_user_agent = user_agent, ev_action = action,
      ev_resource_type = resource_type, ev_resource_id = resource_id, ev_path = None,
      ev_remote_target = None, ev_result = result, ev_metadata = JObject []\<rparr>"

text \<open>Appending to the audit log, as the last step of an operation with result \<open>a\<close>.\<close>

definition audited :: "'n auth_env \<Rightarrow> 'n NewAuditEvent \<Rightarrow> 'a \<Rightarrow> auth_db \<Rightarrow> (AuthError + 'a) \<times> auth_db" where
  "audited env ev a db =
     (case append_audit (ae_audit env) (ae_locked env) ev (db_audit db) of
        (Inl e, log) \<Rightarrow> (Inl (AuthAudit e), db\<lparr>db_audit := log\<rparr>)
      | (Inr _, log) \<Rightarrow> (Inr a, db\<lparr>db_audit := log\<rparr>))"

definition actor_event ::
    "SessionPrincipal \<Rightarrow> int \<Rightarrow> string \<Rightarrow> string \<Rightarrow> string option \<Rightarrow> string \<Rightarrow> string \<Rightarrow> string \<Rightarrow> 'n NewAuditEvent" where
  "actor_event actor now action resource_type resource_id result source_ip user_agent =
     (audit_event now (Some (sp_user_id actor)) action resource_type resource_id result source_ip user_agent)
       \<lparr>ev_role_snapshot := sp_roles actor, ev_session_id_hash := Some (sp_session_id_hash actor)\<rparr>"

definition append_actor_audit ::
    "'n auth_env \<Rightarrow> SessionPrincipal \<Rightarrow> int \<Rightarrow> string \<Rightarrow> string \<Rightarrow> string option \<Rightarrow> string \<Rightarrow> string \<Rightarrow> string \<Rightarrow>
     'a \<Rightarrow> auth_db \<Rightarrow> (AuthError + 'a) \<times> auth_db" where
  "append_actor_audit env actor now action resource_type resource_id result source_ip user_agent a db =
     audited env (actor_event actor now action resource_type resource_id result source_ip user_agent) a db"

definition principal_can :: "SessionPrincipal \<Rightarrow> string \<Rightarrow> bool" where
  "principal_can p capability \<longleftrightarrow> capability \<in> sp_capabilities p"

definition has_fresh_step_up :: "int \<Rightarrow> SessionPrincipal \<Rightarrow> bool" where
  "has_fresh_step_up now p = (case sp_step_up_expires_at p of None \<Rightarrow> False | Some t \<Rightarrow> t > now)"

definition require_actor :: "int \<Rightarrow> SessionPrincipal \<Rightarrow> string \<Rightarrow> bool \<Rightarrow> AuthError + unit" where
  "require_actor now actor capability require_step_up =
     (if \<not> principal_can actor capability then Inl PermissionDenied
      else if require_step_up \<and> \<not> has_fresh_step_up now actor then Inl StepUpRequired
      else Inr ())"

section \<open>Roles and capabilities\<close>

definition insert_ignore :: "'a \<Rightarrow> 'a list \<Rightarrow> 'a list" where
  "insert_ignore x xs = (if x \<in> set xs then xs else xs @ [x])"

definition seed_roles :: "(string \<times> string \<times> string) list" where
  "seed_roles =
     [(''administrator'', ''Administrator'', ''Full CloudDesk administration''),
      (''manager'', ''Manager'', ''Workspace and user workflow management''),
      (''user'', ''User'', ''Standard personal workspace access''),
      (''guest'', ''Guest'', ''Restricted read-only access'')]"

definition seed_shared :: "string list" where
  "seed_shared =
     [''files.local.read'', ''files.local.write'', ''remote.servers.read'', ''remote.servers.manage'',
      ''remote.terminal.open'', ''transfers.create'', ''transfers.cancel'', ''terminal.local.open'',
      ''apps.browser.use'', ''apps.code.use'', ''apps.office.use'', ''apps.media.use'']"

definition insert_role :: "int \<Rightarrow> string \<times> string \<times> string \<Rightarrow> role_row list \<Rightarrow> role_row list" where
  "insert_role now r roles =
     (case r of (i, name, description) \<Rightarrow>
        if list_ex (\<lambda>x. ro_id x = i \<or> ro_name x = name) roles then roles
        else roles @ [\<lparr>ro_id = i, ro_name = name, ro_description = description, ro_created_at = now\<rparr>])"

definition grant_role :: "string \<Rightarrow> string \<Rightarrow> auth_db \<Rightarrow> AuthError + auth_db" where
  "grant_role role capability db =
     (if role \<in> ro_id ` set (db_roles db) \<and> capability \<in> set (db_permissions db)
      then Inr (db\<lparr>db_role_permissions := insert_ignore (role, capability) (db_role_permissions db)\<rparr>)
      else Inl AuthDatabase)"

fun grant_all :: "(string \<times> string) list \<Rightarrow> auth_db \<Rightarrow> AuthError + auth_db" where
  "grant_all [] db = Inr db"
| "grant_all ((role, capability) # gs) db = res_bind (grant_role role capability db) (grant_all gs)"

definition seed_authorization_model :: "int \<Rightarrow> auth_db \<Rightarrow> AuthError + auth_db" where
  "seed_authorization_model now db =
     (let db1 = db\<lparr>db_permissions := fold insert_ignore CAPABILITIES (db_permissions db)\<rparr>;
          db2 = db1\<lparr>db_roles := fold (insert_role now) seed_roles (db_roles db1)\<rparr> in
      grant_all
        (map (\<lambda>c. (''administrator'', c)) CAPABILITIES @
         concat (map (\<lambda>c. [(''manager'', c), (''user'', c)]) seed_shared) @
         [(''guest'', ''files.local.read''), (''guest'', ''apps.browser.use'')])
        db2)"

definition roles_for_user :: "string \<Rightarrow> auth_db \<Rightarrow> string list" where
  "roles_for_user user_id db =
     sort (map ro_name (filter (\<lambda>r. (user_id, ro_id r) \<in> set (db_user_roles db)) (db_roles db)))"

text \<open>The rows of the \<open>UNION ALL\<close>: what the roles allow, then the user's own permissions.\<close>

definition permission_rows :: "string \<Rightarrow> auth_db \<Rightarrow> (string \<times> string) list" where
  "permission_rows user_id db =
     map (\<lambda>(_, c). (c, ''allow'')) (filter (\<lambda>(r, _). (user_id, r) \<in> set (db_user_roles db)) (db_role_permissions db)) @
     map snd (filter (\<lambda>(u, _). u = user_id) (db_user_permissions db))"

definition apply_effect :: "string \<times> string \<Rightarrow> string set \<Rightarrow> string set" where
  "apply_effect r capabilities =
     (case r of (name, effect) \<Rightarrow> if effect = ''deny'' then capabilities - {name} else insert name capabilities)"

definition capabilities_for_user :: "'n auth_env \<Rightarrow> string \<Rightarrow> auth_db \<Rightarrow> string set" where
  "capabilities_for_user env user_id db = fold apply_effect (ae_order env (permission_rows user_id db)) {}"

section \<open>Bootstrap\<close>

definition has_users :: "auth_db \<Rightarrow> bool" where
  "has_users db \<longleftrightarrow> length (db_users db) > 0"

definition same_name :: "string \<Rightarrow> string \<Rightarrow> bool" where
  "same_name a b \<longleftrightarrow> to_lowercase a = to_lowercase b"

definition insert_user :: "user_row \<Rightarrow> auth_db \<Rightarrow> AuthError + auth_db" where
  "insert_user u db =
     (if list_ex (\<lambda>x. u_id x = u_id u \<or> same_name (u_username x) (u_username u)) (db_users db)
      then Inl AuthDatabase else Inr (db\<lparr>db_users := db_users db @ [u]\<rparr>))"

definition insert_user_role :: "string \<Rightarrow> string \<Rightarrow> auth_db \<Rightarrow> AuthError + auth_db" where
  "insert_user_role user_id role_id db =
     (if user_id \<notin> u_id ` set (db_users db) \<or> role_id \<notin> ro_id ` set (db_roles db) \<or>
         (user_id, role_id) \<in> set (db_user_roles db)
      then Inl AuthDatabase
      else Inr (db\<lparr>db_user_roles := db_user_roles db @ [(user_id, role_id)]\<rparr>))"

definition new_user :: "string \<Rightarrow> string \<Rightarrow> string \<Rightarrow> string \<Rightarrow> int \<Rightarrow> user_row" where
  "new_user i username display_name password_hash now =
     \<lparr>u_id = i, u_username = normalize_username username, u_display_name = trim display_name,
      u_password_hash = password_hash, u_totp_secret = None, u_totp_enabled = False, u_linux_uid = None,
      u_linux_gid = None, u_disabled = False, u_created_at = now, u_updated_at = now\<rparr>"

definition json_bool :: "bool \<Rightarrow> string" where
  "json_bool b = (if b then ''true'' else ''false'')"

definition bootstrap_settings :: "BootstrapConfiguration \<Rightarrow> (string \<times> string) list" where
  "bootstrap_settings c =
     [(''ui.default_mode'', CHR 0x22 # bc_ui_mode c @ [CHR 0x22]),
      (''runtime.browser.enabled'', json_bool (bc_enable_browser c)),
      (''runtime.code.enabled'', json_bool (bc_enable_code c)),
      (''runtime.office.enabled'', json_bool (bc_enable_office c))]"

definition set_setting :: "int \<Rightarrow> string \<Rightarrow> string \<times> string \<Rightarrow> setting_row list \<Rightarrow> setting_row list" where
  "set_setting now user_id kv rows =
     sql_update (\<lambda>r. se_key r = fst kv)
       (\<lambda>r. r\<lparr>se_value_json := snd kv, se_updated_at := now, se_updated_by := Some user_id\<rparr>) rows"

definition bootstrap_transaction ::
    "'n auth_env \<Rightarrow> string \<Rightarrow> int \<Rightarrow> int \<Rightarrow> string \<Rightarrow> string \<Rightarrow> string \<Rightarrow> BootstrapConfiguration \<Rightarrow> string \<Rightarrow> string \<Rightarrow>
     auth_db \<Rightarrow> AuthError + auth_db" where
  "bootstrap_transaction env user_id now_seed now username display_name password_hash c source_ip user_agent db =
     res_bind (seed_authorization_model now_seed db) (\<lambda>db1.
     if has_users db1 then Inl BootstrapComplete
     else
       let u = (new_user user_id username display_name password_hash now)
                 \<lparr>u_linux_uid := map_option (\<lambda>(uid, _). int uid) (bc_linux_identity c),
                  u_linux_gid := map_option (\<lambda>(_, gid). int gid) (bc_linux_identity c)\<rparr> in
       res_bind (insert_user u db1) (\<lambda>db2.
       res_bind (insert_user_role user_id ''administrator'' db2) (\<lambda>db3.
       if user_id \<in> fst ` set (db_preferences db3) then Inl AuthDatabase
       else
         let db4 = db3\<lparr>db_settings := fold (set_setting now user_id) (bootstrap_settings c) (db_settings db3),
                       db_preferences := db_preferences db3 @ [(user_id, bc_ui_mode c, now)]\<rparr> in
         case append_in_transaction (ae_audit env)
                (audit_event now (Some user_id) ''bootstrap.administrator.create'' ''user'' (Some user_id)
                   ''success'' source_ip user_agent) (db_audit db4) of
           Inl e \<Rightarrow> Inl (AuthAudit e)
         | Inr (_, log) \<Rightarrow> Inr (db4\<lparr>db_audit := log\<rparr>))))"

definition bootstrap_administrator_configured ::
    "'n auth_env \<Rightarrow> string \<Rightarrow> string \<Rightarrow> int \<Rightarrow> int \<Rightarrow> string \<Rightarrow> string \<Rightarrow> string \<Rightarrow> BootstrapConfiguration \<Rightarrow>
     string \<Rightarrow> string \<Rightarrow> auth_db \<Rightarrow> (AuthError + string) \<times> auth_db" where
  "bootstrap_administrator_configured env user_id salt now_seed now username display_name password c source_ip
     user_agent db =
     (case res_bind (validate_username username) (\<lambda>_.
           res_bind (validate_password password) (\<lambda>_.
           if bc_ui_mode c \<noteq> ''desktop'' \<and> bc_ui_mode c \<noteq> ''dashboard'' then Inl InvalidUiMode
           else if (case bc_linux_identity c of None \<Rightarrow> False | Some (uid, gid) \<Rightarrow> uid = 0 \<or> gid = 0)
           then Inl InvalidLinuxIdentity
           else res_bind (hash_password env salt password) (\<lambda>password_hash.
             bootstrap_transaction env user_id now_seed now username display_name password_hash c
               source_ip user_agent db))) of
        Inl e \<Rightarrow> (Inl e, db)
      | Inr db' \<Rightarrow> (Inr user_id, db'))"

definition bootstrap_administrator ::
    "'n auth_env \<Rightarrow> string \<Rightarrow> string \<Rightarrow> int \<Rightarrow> int \<Rightarrow> string \<Rightarrow> string \<Rightarrow> string \<Rightarrow> string \<Rightarrow> string \<Rightarrow> auth_db \<Rightarrow>
     (AuthError + string) \<times> auth_db" where
  "bootstrap_administrator env user_id salt now_seed now username display_name password source_ip user_agent db =
     bootstrap_administrator_configured env user_id salt now_seed now username display_name password
       default_bootstrap source_ip user_agent db"

section \<open>Throttling\<close>

definition bucket :: "string \<Rightarrow> string \<Rightarrow> throttle_row \<Rightarrow> bool" where
  "bucket dimension key r \<longleftrightarrow> tb_dimension r = dimension \<and> tb_bucket_key r = key"

definition login_bucket :: "string \<Rightarrow> string \<Rightarrow> throttle_row \<Rightarrow> bool" where
  "login_bucket account_key ip_key r \<longleftrightarrow> bucket ''account'' account_key r \<or> bucket ''ip'' ip_key r"

definition sql_max :: "int list \<Rightarrow> int option" where
  "sql_max xs = (case xs of [] \<Rightarrow> None | y # ys \<Rightarrow> Some (fold max ys y))"

definition enforce_rate_limit :: "'n auth_env \<Rightarrow> string \<Rightarrow> string \<Rightarrow> int \<Rightarrow> auth_db \<Rightarrow> AuthError + unit" where
  "enforce_rate_limit env account_key source_ip timestamp db =
     (let ip_key = hash_value env source_ip;
          locked = sql_max (map tb_locked_until (filter (login_bucket account_key ip_key) (db_throttle db))) in
      if (case locked of None \<Rightarrow> False | Some locked_until \<Rightarrow> locked_until > timestamp)
      then Inl RateLimited else Inr ())"

definition bump_bucket :: "int \<Rightarrow> int \<Rightarrow> string \<times> string \<Rightarrow> throttle_row list \<Rightarrow> throttle_row list" where
  "bump_bucket maximum timestamp dk rows =
     (case dk of (dimension, key) \<Rightarrow>
        let rows1 =
              (if list_ex (bucket dimension key) rows
               then sql_update (bucket dimension key)
                      (\<lambda>r. r\<lparr>tb_failure_count := tb_failure_count r + 1, tb_updated_at := timestamp\<rparr>) rows
               else rows @ [\<lparr>tb_dimension = dimension, tb_bucket_key = key, tb_failure_count = 1,
                             tb_locked_until = 0, tb_updated_at = timestamp\<rparr>]);
            failure_count = (case sql_first (bucket dimension key) rows1 of
                               None \<Rightarrow> 1 | Some r \<Rightarrow> tb_failure_count r) in
        sql_update (bucket dimension key)
          (\<lambda>r. r\<lparr>tb_locked_until := timestamp + backoff_seconds failure_count maximum\<rparr>) rows1)"

definition record_login_history ::
    "string option \<Rightarrow> LoginRequest \<Rightarrow> bool \<Rightarrow> string \<Rightarrow> int \<Rightarrow> auth_db \<Rightarrow> auth_db" where
  "record_login_history user_id request succeeded reason timestamp db =
     db\<lparr>db_history := db_history db @
       [\<lparr>lh_user_id = user_id, lh_attempted_username = normalize_username (lr_username request),
         lh_source_ip = lr_source_ip request, lh_user_agent = lr_user_agent request, lh_succeeded = succeeded,
         lh_reason = reason, lh_created_at = timestamp\<rparr>]\<rparr>"

definition record_login_failure ::
    "'n auth_env \<Rightarrow> string \<Rightarrow> string option \<Rightarrow> LoginRequest \<Rightarrow> string \<Rightarrow> int \<Rightarrow> auth_db \<Rightarrow> (AuthError + unit) \<times> auth_db" where
  "record_login_failure env account_key user_id request reason timestamp db =
     (let ip_key = hash_value env (lr_source_ip request);
          db1 = db\<lparr>db_throttle := fold (bump_bucket (maximum_failures (ae_policy env)) timestamp)
                     [(''account'', account_key), (''ip'', ip_key)] (db_throttle db)\<rparr>;
          db2 = record_login_history user_id request False reason timestamp db1 in
      audited env (audit_event timestamp user_id ''auth.login'' ''session'' None ''failure''
                     (lr_source_ip request) (lr_user_agent request)) () db2)"

section \<open>Login and sessions\<close>

definition verify_second_factor ::
    "'n auth_env \<Rightarrow> string \<Rightarrow> string \<Rightarrow> string \<Rightarrow> int \<Rightarrow> auth_db \<Rightarrow> (AuthError + bool) \<times> auth_db" where
  "verify_second_factor env user_id encrypted code timestamp db =
     (case decrypt (ae_aead env) (ae_cipher env) encrypted (totp_context user_id) of
        Inl e \<Rightarrow> (Inl (AuthSecret e), db)
      | Inr secret \<Rightarrow>
        if verify_totp (ae_hmac_sha1 env) secret code timestamp then (Inr True, db)
        else
          let code_hash = hash_value env (normalize_recovery_code code);
              unused = (\<lambda>r. rc_user_id r = user_id \<and> rc_code_hash r = code_hash \<and> rc_used_at r = None) in
          (Inr (sql_affected unused (db_recovery db) = 1),
           db\<lparr>db_recovery := sql_update unused (\<lambda>r. r\<lparr>rc_used_at := Some timestamp\<rparr>) (db_recovery db)\<rparr>))"

definition new_session :: "'n auth_env \<Rightarrow> string \<Rightarrow> string \<Rightarrow> LoginRequest \<Rightarrow> int \<Rightarrow> session_row" where
  "new_session env session_id_hash user_id request timestamp =
     \<lparr>s_id_hash = session_id_hash, s_user_id = user_id, s_created_at = timestamp, s_last_activity = timestamp,
      s_idle_expires_at = timestamp + idle_timeout_seconds (ae_policy env),
      s_absolute_expires_at = timestamp +
        (if lr_remember_device request then remember_timeout_seconds (ae_policy env)
         else absolute_timeout_seconds (ae_policy env)),
      s_revoked_at = None, s_step_up_expires_at = None, s_remember_device = lr_remember_device request,
      s_source_ip = lr_source_ip request, s_user_agent = lr_user_agent request,
      s_device_label = (case lr_device_label request of None \<Rightarrow> [] | Some l \<Rightarrow> l)\<rparr>"

definition open_session ::
    "'n auth_env \<Rightarrow> string \<Rightarrow> string \<Rightarrow> string \<Rightarrow> string \<Rightarrow> LoginRequest \<Rightarrow> int \<Rightarrow> auth_db \<Rightarrow>
     (AuthError + LoginSuccess) \<times> auth_db" where
  "open_session env token account_key user_id username request timestamp db =
     (let ip_key = hash_value env (lr_source_ip request);
          db1 = db\<lparr>db_throttle := sql_delete (login_bucket account_key ip_key) (db_throttle db)\<rparr>;
          db2 = record_login_history (Some user_id) request True ''success'' timestamp db1;
          session_id_hash = hash_value env token;
          s = new_session env session_id_hash user_id request timestamp in
      if session_id_hash \<in> s_id_hash ` set (db_sessions db2) then (Inl AuthDatabase, db2)
      else
        audited env (audit_event timestamp (Some user_id) ''auth.login'' ''session'' (Some session_id_hash)
                       ''success'' (lr_source_ip request) (lr_user_agent request))
          \<lparr>ls_token = token, ls_session_id_hash = session_id_hash, ls_user_id = user_id,
           ls_username = username, ls_absolute_expires_at = s_absolute_expires_at s\<rparr>
          (db2\<lparr>db_sessions := db_sessions db2 @ [s]\<rparr>))"

definition login_second_factor ::
    "'n auth_env \<Rightarrow> string option \<Rightarrow> string option \<Rightarrow> bool \<Rightarrow> bool \<Rightarrow> LoginRequest \<Rightarrow> int \<Rightarrow> auth_db \<Rightarrow>
     (AuthError + bool) \<times> auth_db" where
  "login_second_factor env user_id totp_secret totp_enabled password_valid request timestamp db =
     (if password_valid \<and> totp_enabled then
        (case (user_id, totp_secret, lr_second_factor request) of
           (Some i, Some encrypted, Some code) \<Rightarrow> verify_second_factor env i encrypted code timestamp db
         | _ \<Rightarrow> (Inr False, db))
      else (Inr (\<not> totp_enabled), db))"

definition login ::
    "'n auth_env \<Rightarrow> string \<Rightarrow> int \<Rightarrow> LoginRequest \<Rightarrow> auth_db \<Rightarrow> (AuthError + LoginSuccess) \<times> auth_db" where
  "login env token timestamp request db =
     (let normalized = normalize_username (lr_username request);
          account_key = hash_value env normalized in
      case enforce_rate_limit env account_key (lr_source_ip request) timestamp db of
        Inl e \<Rightarrow> (Inl e, db)
      | Inr _ \<Rightarrow>
        let row = sql_first (\<lambda>u. same_name (u_username u) normalized) (db_users db);
            user_id = map_option u_id row;
            username = (case row of None \<Rightarrow> normalized | Some u \<Rightarrow> u_username u);
            password_hash = (case row of None \<Rightarrow> ae_dummy_hash env | Some u \<Rightarrow> u_password_hash u);
            totp_secret = Option.bind row u_totp_secret;
            totp_enabled = (case row of None \<Rightarrow> False | Some u \<Rightarrow> u_totp_enabled u);
            disabled = (case row of None \<Rightarrow> True | Some u \<Rightarrow> u_disabled u);
            password_valid = verify_password env (lr_password request) password_hash in
        case login_second_factor env user_id totp_secret totp_enabled password_valid request timestamp db of
          (Inl e, db1) \<Rightarrow> (Inl e, db1)
        | (Inr second_factor_valid, db1) \<Rightarrow>
          if \<not> password_valid \<or> \<not> second_factor_valid \<or> disabled \<or> user_id = None then
            (case record_login_failure env account_key user_id request
                    (if password_valid \<and> totp_enabled then ''invalid_second_factor'' else ''invalid_credentials'')
                    timestamp db1 of
               (Inl e, db2) \<Rightarrow> (Inl e, db2)
             | (Inr _, db2) \<Rightarrow> (Inl InvalidCredentials, db2))
          else
            (case user_id of
               None \<Rightarrow> (Inl AuthPanic, db1)
             | Some i \<Rightarrow> open_session env token account_key i username request timestamp db1))"

definition live_session :: "string \<Rightarrow> auth_db \<Rightarrow> (session_row \<times> user_row) option" where
  "live_session session_id_hash db =
     Option.bind (sql_first (\<lambda>s. s_id_hash s = session_id_hash \<and> s_revoked_at s = None) (db_sessions db)) (\<lambda>s.
     map_option (Pair s) (sql_first (\<lambda>u. u_id u = s_user_id s \<and> \<not> u_disabled u) (db_users db)))"

definition authenticate ::
    "'n auth_env \<Rightarrow> int \<Rightarrow> string \<Rightarrow> auth_db \<Rightarrow> (AuthError + SessionPrincipal) \<times> auth_db" where
  "authenticate env timestamp token db =
     (let session_id_hash = hash_value env token in
      case live_session session_id_hash db of
        None \<Rightarrow> (Inl InvalidSession, db)
      | Some (s, u) \<Rightarrow>
        if s_idle_expires_at s \<le> timestamp \<or> s_absolute_expires_at s \<le> timestamp then (Inl InvalidSession, db)
        else
          let refreshed_idle = min (timestamp + idle_timeout_seconds (ae_policy env)) (s_absolute_expires_at s);
              p = \<lparr>sp_user_id = s_user_id s, sp_username = u_username u, sp_session_id_hash = session_id_hash,
                   sp_roles = roles_for_user (s_user_id s) db,
                   sp_capabilities = capabilities_for_user env (s_user_id s) db,
                   sp_step_up_expires_at = s_step_up_expires_at s\<rparr> in
          (Inr p, db\<lparr>db_sessions := sql_update (\<lambda>r. s_id_hash r = session_id_hash)
                       (\<lambda>r. r\<lparr>s_last_activity := timestamp, s_idle_expires_at := refreshed_idle\<rparr>) (db_sessions db)\<rparr>))"

definition revoke ::
    "'n auth_env \<Rightarrow> int \<Rightarrow> int \<Rightarrow> string \<Rightarrow> string \<Rightarrow> string \<Rightarrow> auth_db \<Rightarrow> (AuthError + unit) \<times> auth_db" where
  "revoke env timestamp now_auth token source_ip user_agent db =
     (let session_id_hash = hash_value env token in
      case authenticate env now_auth token db of
        (Inl e, db1) \<Rightarrow> (Inl e, db1)
      | (Inr p, db1) \<Rightarrow>
        audited env (audit_event timestamp (Some (sp_user_id p)) ''auth.logout'' ''session''
                       (Some session_id_hash) ''success'' source_ip user_agent) ()
          (db1\<lparr>db_sessions := sql_update (\<lambda>r. s_id_hash r = session_id_hash)
                 (\<lambda>r. r\<lparr>s_revoked_at := Some timestamp\<rparr>) (db_sessions db1)\<rparr>))"

section \<open>Two-factor enrolment\<close>

definition update_user :: "string \<Rightarrow> (user_row \<Rightarrow> user_row) \<Rightarrow> auth_db \<Rightarrow> auth_db" where
  "update_user user_id f db = db\<lparr>db_users := sql_update (\<lambda>u. u_id u = user_id) f (db_users db)\<rparr>"

definition begin_totp ::
    "'n auth_env \<Rightarrow> bytes \<Rightarrow> bytes \<Rightarrow> int \<Rightarrow> int \<Rightarrow> SessionPrincipal \<Rightarrow> auth_db \<Rightarrow> (AuthError + string) \<times> auth_db" where
  "begin_totp env secret nonce now now_audit p db =
     (case encrypt (ae_aead env) (ae_cipher env) nonce secret (totp_context (sp_user_id p)) of
        Inl e \<Rightarrow> (Inl (AuthSecret e), db)
      | Inr encrypted \<Rightarrow>
        append_actor_audit env p now_audit ''auth.totp.setup.begin'' ''user'' (Some (sp_user_id p)) ''success''
          ''internal'' ''auth-service'' (ae_base32 env secret)
          (update_user (sp_user_id p)
             (\<lambda>u. u\<lparr>u_totp_secret := Some encrypted, u_totp_enabled := False, u_updated_at := now\<rparr>) db))"

definition RECOVERY_CODE_COUNT :: nat where
  "RECOVERY_CODE_COUNT = 10"

definition insert_recovery :: "'n auth_env \<Rightarrow> string \<Rightarrow> int \<Rightarrow> string \<times> string \<Rightarrow> auth_db \<Rightarrow> AuthError + auth_db" where
  "insert_recovery env user_id timestamp ic db =
     (case ic of (i, code) \<Rightarrow>
        let code_hash = hash_value env (normalize_recovery_code code) in
        if user_id \<notin> u_id ` set (db_users db) \<or>
           list_ex (\<lambda>r. rc_id r = i \<or> rc_user_id r = user_id \<and> rc_code_hash r = code_hash) (db_recovery db)
        then Inl AuthDatabase
        else Inr (db\<lparr>db_recovery := db_recovery db @
          [\<lparr>rc_id = i, rc_user_id = user_id, rc_code_hash = code_hash, rc_used_at = None,
            rc_created_at = timestamp\<rparr>]\<rparr>))"

fun insert_recovery_all ::
    "'n auth_env \<Rightarrow> string \<Rightarrow> int \<Rightarrow> (string \<times> string) list \<Rightarrow> auth_db \<Rightarrow> AuthError + auth_db" where
  "insert_recovery_all env user_id timestamp [] db = Inr db"
| "insert_recovery_all env user_id timestamp (ic # ics) db =
     res_bind (insert_recovery env user_id timestamp ic db) (insert_recovery_all env user_id timestamp ics)"

text \<open>A row whose \<open>totp_secret\<close> is \<open>NULL\<close> does not decode as a \<open>String\<close>: the query itself fails.\<close>

definition confirm_totp_at ::
    "'n auth_env \<Rightarrow> (nat \<Rightarrow> string) \<Rightarrow> (nat \<Rightarrow> string) \<Rightarrow> int \<Rightarrow> SessionPrincipal \<Rightarrow> string \<Rightarrow> int \<Rightarrow> auth_db \<Rightarrow>
     (AuthError + string list) \<times> auth_db" where
  "confirm_totp_at env raws ids now_audit p code timestamp db =
     (case sql_first (\<lambda>u. u_id u = sp_user_id p) (db_users db) of
        None \<Rightarrow> (Inl TotpNotConfigured, db)
      | Some u \<Rightarrow>
        (case u_totp_secret u of
           None \<Rightarrow> (Inl AuthDatabase, db)
         | Some encrypted \<Rightarrow>
           (case decrypt (ae_aead env) (ae_cipher env) encrypted (totp_context (sp_user_id p)) of
              Inl e \<Rightarrow> (Inl (AuthSecret e), db)
            | Inr secret \<Rightarrow>
              if \<not> verify_totp (ae_hmac_sha1 env) secret code timestamp then (Inl InvalidSecondFactor, db)
              else
                let codes = map (\<lambda>n. grouped_recovery_code (raws n)) [0..<RECOVERY_CODE_COUNT];
                    db1 = update_user (sp_user_id p)
                            (\<lambda>u. u\<lparr>u_totp_enabled := True, u_updated_at := timestamp\<rparr>) db;
                    db2 = db1\<lparr>db_recovery := sql_delete (\<lambda>r. rc_user_id r = sp_user_id p) (db_recovery db1)\<rparr> in
                (case insert_recovery_all env (sp_user_id p) timestamp
                        (zip (map ids [0..<RECOVERY_CODE_COUNT]) codes) db2 of
                   Inl e \<Rightarrow> (Inl e, db)
                 | Inr db3 \<Rightarrow>
                   append_actor_audit env p now_audit ''auth.totp.enable'' ''user'' (Some (sp_user_id p))
                     ''success'' ''internal'' ''auth-service'' codes db3))))"

definition confirm_totp ::
    "'n auth_env \<Rightarrow> (nat \<Rightarrow> string) \<Rightarrow> (nat \<Rightarrow> string) \<Rightarrow> int \<Rightarrow> int \<Rightarrow> SessionPrincipal \<Rightarrow> string \<Rightarrow> auth_db \<Rightarrow>
     (AuthError + string list) \<times> auth_db" where
  "confirm_totp env raws ids now now_audit p code db = confirm_totp_at env raws ids now_audit p code now db"

text \<open>
  The four reads of the clock in \<open>step_up\<close> are the arguments \<open>now_auth\<close>, \<open>now_code\<close>, \<open>now\<close> and
  \<open>now_audit\<close>. Reading a \<open>NULL\<close> secret as a \<open>String\<close> with \<open>row.get\<close> panics.
\<close>

definition step_up ::
    "'n auth_env \<Rightarrow> int \<Rightarrow> int \<Rightarrow> int \<Rightarrow> int \<Rightarrow> string \<Rightarrow> string \<Rightarrow> string option \<Rightarrow> string \<Rightarrow> string \<Rightarrow> auth_db \<Rightarrow>
     (AuthError + int) \<times> auth_db" where
  "step_up env now_auth now_code now now_audit token password second_factor source_ip user_agent db =
     (case authenticate env now_auth token db of
        (Inl e, db1) \<Rightarrow> (Inl e, db1)
      | (Inr p, db1) \<Rightarrow>
        (case sql_first (\<lambda>u. u_id u = sp_user_id p) (db_users db1) of
           None \<Rightarrow> (Inl AuthDatabase, db1)
         | Some u \<Rightarrow>
           if \<not> verify_password env password (u_password_hash u) then (Inl InvalidCredentials, db1)
           else
             (case (if u_totp_enabled u then
                      (case u_totp_secret u of
                         None \<Rightarrow> (Inl AuthPanic, db1)
                       | Some encrypted \<Rightarrow>
                         (case second_factor of
                            None \<Rightarrow> (Inl InvalidSecondFactor, db1)
                          | Some code \<Rightarrow>
                            (case verify_second_factor env (sp_user_id p) encrypted code now_code db1 of
                               (Inl e, db2) \<Rightarrow> (Inl e, db2)
                             | (Inr False, db2) \<Rightarrow> (Inl InvalidSecondFactor, db2)
                             | (Inr True, db2) \<Rightarrow> (Inr (), db2))))
                    else (Inr (), db1)) of
                (Inl e, db2) \<Rightarrow> (Inl e, db2)
              | (Inr _, db2) \<Rightarrow>
                let expires_at = now + step_up_seconds (ae_policy env) in
                audited env (audit_event now_audit (Some (sp_user_id p)) ''auth.step_up'' ''session''
                               (Some (sp_session_id_hash p)) ''success'' source_ip user_agent) expires_at
                  (db2\<lparr>db_sessions := sql_update (\<lambda>r. s_id_hash r = sp_session_id_hash p)
                         (\<lambda>r. r\<lparr>s_step_up_expires_at := Some expires_at\<rparr>) (db_sessions db2)\<rparr>))))"

section \<open>Administration of users\<close>

fun assign_roles :: "string \<Rightarrow> string list \<Rightarrow> auth_db \<Rightarrow> AuthError + auth_db" where
  "assign_roles user_id [] db = Inr db"
| "assign_roles user_id (r # rs) db =
     (case insert_user_role user_id r db of
        Inl _ \<Rightarrow> Inl UnknownRole
      | Inr db' \<Rightarrow> assign_roles user_id rs db')"

text \<open>An operation with the guard of \<open>require_actor\<close> in front.\<close>

definition guarded ::
    "int \<Rightarrow> SessionPrincipal \<Rightarrow> string \<Rightarrow> (auth_db \<Rightarrow> (AuthError + 'a) \<times> auth_db) \<Rightarrow> auth_db \<Rightarrow>
     (AuthError + 'a) \<times> auth_db" where
  "guarded now_check actor capability body db =
     (case require_actor now_check actor capability True of Inl e \<Rightarrow> (Inl e, db) | Inr _ \<Rightarrow> body db)"

definition create_user ::
    "'n auth_env \<Rightarrow> string \<Rightarrow> string \<Rightarrow> int \<Rightarrow> int \<Rightarrow> int \<Rightarrow> SessionPrincipal \<Rightarrow> CreateUserRequest \<Rightarrow> string \<Rightarrow> string \<Rightarrow>
     auth_db \<Rightarrow> (AuthError + string) \<times> auth_db" where
  "create_user env user_id salt now_check timestamp now_audit actor request source_ip user_agent =
     guarded now_check actor ''users.manage'' (\<lambda>db.
       case res_bind (validate_username (cu_username request)) (\<lambda>_.
            res_bind (validate_password (cu_password request)) (\<lambda>_.
            if cu_role_ids request = [] then Inl UnknownRole
            else res_bind (hash_password env salt (cu_password request)) (\<lambda>password_hash.
              res_bind (insert_user (new_user user_id (cu_username request) (cu_display_name request)
                                       password_hash timestamp) db)
                (assign_roles user_id (cu_role_ids request))))) of
         Inl e \<Rightarrow> (Inl e, db)
       | Inr db1 \<Rightarrow>
         append_actor_audit env actor now_audit ''users.create'' ''user'' (Some user_id) ''success''
           source_ip user_agent user_id db1)"

definition assign_role ::
    "'n auth_env \<Rightarrow> int \<Rightarrow> int \<Rightarrow> SessionPrincipal \<Rightarrow> string \<Rightarrow> string \<Rightarrow> string \<Rightarrow> string \<Rightarrow> auth_db \<Rightarrow>
     (AuthError + unit) \<times> auth_db" where
  "assign_role env now_check now_audit actor user_id role_id source_ip user_agent =
     guarded now_check actor ''roles.manage'' (\<lambda>db.
       if user_id \<notin> u_id ` set (db_users db) \<or> role_id \<notin> ro_id ` set (db_roles db) then (Inl UnknownRole, db)
       else
         append_actor_audit env actor now_audit ''roles.assign'' ''user'' (Some user_id) ''success''
           source_ip user_agent ()
           (db\<lparr>db_user_roles := insert_ignore (user_id, role_id) (db_user_roles db)\<rparr>))"

definition upsert_permission ::
    "string \<Rightarrow> string \<Rightarrow> string \<Rightarrow> (string \<times> string \<times> string) list \<Rightarrow> (string \<times> string \<times> string) list" where
  "upsert_permission user_id capability effect rows =
     (let same = (\<lambda>(u, c, _). u = user_id \<and> c = capability) in
      if list_ex same rows then sql_update same (\<lambda>(u, c, _). (u, c, effect)) rows
      else rows @ [(user_id, capability, effect)])"

definition set_user_permission ::
    "'n auth_env \<Rightarrow> int \<Rightarrow> int \<Rightarrow> SessionPrincipal \<Rightarrow> string \<Rightarrow> string \<Rightarrow> bool \<Rightarrow> string \<Rightarrow> string \<Rightarrow> auth_db \<Rightarrow>
     (AuthError + unit) \<times> auth_db" where
  "set_user_permission env now_check now_audit actor user_id capability allow source_ip user_agent =
     guarded now_check actor ''roles.manage'' (\<lambda>db.
       if \<not> is_known_capability capability then (Inl UnknownCapability, db)
       else if user_id \<notin> u_id ` set (db_users db) \<or> capability \<notin> set (db_permissions db)
       then (Inl AuthDatabase, db)
       else
         append_actor_audit env actor now_audit ''permissions.user.set'' ''user'' (Some user_id) ''success''
           source_ip user_agent ()
           (db\<lparr>db_user_permissions := upsert_permission user_id capability
                  (if allow then ''allow'' else ''deny'') (db_user_permissions db)\<rparr>))"

definition set_linux_identity ::
    "'n auth_env \<Rightarrow> int \<Rightarrow> int \<Rightarrow> int \<Rightarrow> SessionPrincipal \<Rightarrow> string \<Rightarrow> nat \<Rightarrow> nat \<Rightarrow> string \<Rightarrow> string \<Rightarrow> auth_db \<Rightarrow>
     (AuthError + unit) \<times> auth_db" where
  "set_linux_identity env now_check now now_audit actor user_id uid gid source_ip user_agent =
     guarded now_check actor ''users.manage'' (\<lambda>db.
       if uid = 0 \<or> gid = 0 then (Inl InvalidLinuxIdentity, db)
       else
         let db1 = update_user user_id (\<lambda>u. u\<lparr>u_linux_uid := Some (int uid), u_linux_gid := Some (int gid),
                     u_updated_at := now\<rparr>) db in
         if sql_affected (\<lambda>u. u_id u = user_id) (db_users db) \<noteq> 1 then (Inl UnknownUser, db1)
         else append_actor_audit env actor now_audit ''users.linux_identity.set'' ''user'' (Some user_id)
                ''success'' source_ip user_agent () db1)"

definition u32_of :: "int \<Rightarrow> AuthError + nat" where
  "u32_of x = (if 0 \<le> x \<and> x < 2 ^ 32 then Inr (nat x) else Inl InvalidLinuxIdentity)"

definition linux_identity_for_user :: "string \<Rightarrow> auth_db \<Rightarrow> AuthError + LinuxIdentityMapping" where
  "linux_identity_for_user user_id db =
     res_bind (res_of_option AuthDatabase (sql_first (\<lambda>u. u_id u = user_id) (db_users db))) (\<lambda>u.
     res_bind (res_of_option LinuxIdentityNotMapped (u_linux_uid u)) (\<lambda>uid.
     res_bind (res_of_option LinuxIdentityNotMapped (u_linux_gid u)) (\<lambda>gid.
     res_bind (u32_of uid) (\<lambda>uid32.
     res_bind (u32_of gid) (\<lambda>gid32. Inr \<lparr>lim_uid = uid32, lim_gid = gid32\<rparr>)))))"

definition linux_identity :: "SessionPrincipal \<Rightarrow> auth_db \<Rightarrow> AuthError + LinuxIdentityMapping" where
  "linux_identity actor db = linux_identity_for_user (sp_user_id actor) db"

section \<open>Assigned roots\<close>

definition add_assigned_root ::
    "'n auth_env \<Rightarrow> string \<Rightarrow> int \<Rightarrow> int \<Rightarrow> int \<Rightarrow> SessionPrincipal \<Rightarrow> string \<Rightarrow> string \<Rightarrow> AssignedRootAccess \<Rightarrow> string \<Rightarrow>
     string \<Rightarrow> auth_db \<Rightarrow> (AuthError + string) \<times> auth_db" where
  "add_assigned_root env root_id now_check now now_audit actor user_id path access_mode source_ip user_agent =
     guarded now_check actor ''users.manage'' (\<lambda>db.
       if user_id \<notin> u_id ` set (db_users db) \<or>
          list_ex (\<lambda>r. ar_root_id r = root_id \<or> ar_user_id r = user_id \<and> ar_path r = path) (db_roots db)
       then (Inl AuthDatabase, db)
       else
         append_actor_audit env actor now_audit ''users.assigned_root.add'' ''assigned_root'' (Some root_id)
           ''success'' source_ip user_agent root_id
           (db\<lparr>db_roots := db_roots db @
              [\<lparr>ar_root_id = root_id, ar_user_id = user_id, ar_path = path,
                ar_access_mode = access_str access_mode, ar_created_at = now\<rparr>]\<rparr>))"

definition remove_assigned_root ::
    "'n auth_env \<Rightarrow> int \<Rightarrow> int \<Rightarrow> SessionPrincipal \<Rightarrow> string \<Rightarrow> string \<Rightarrow> string \<Rightarrow> auth_db \<Rightarrow> (AuthError + unit) \<times> auth_db" where
  "remove_assigned_root env now_check now_audit actor root_id source_ip user_agent =
     guarded now_check actor ''users.manage'' (\<lambda>db.
       if sql_affected (\<lambda>r. ar_root_id r = root_id) (db_roots db) = 0 then (Inl UnknownAssignedRoot, db)
       else append_actor_audit env actor now_audit ''users.assigned_root.remove'' ''assigned_root''
              (Some root_id) ''success'' source_ip user_agent ()
              (db\<lparr>db_roots := sql_delete (\<lambda>r. ar_root_id r = root_id) (db_roots db)\<rparr>))"

text \<open>\<open>Path::file_name\<close>: the last component, none when it is \<open>..\<close> or when there is no normal one.\<close>

definition path_file_name :: "string \<Rightarrow> string option" where
  "path_file_name p =
     (let cs = path_components p in if cs = [] \<or> last cs = ''..'' then None else Some (last cs))"

definition list_own_assigned_roots :: "SessionPrincipal \<Rightarrow> auth_db \<Rightarrow> AuthError + AssignedRootSummary list" where
  "list_own_assigned_roots actor db =
     Inr (map (\<lambda>r. \<lparr>ars_id = ar_root_id r,
                    ars_label = (case path_file_name (ar_path r) of None \<Rightarrow> ar_path r | Some name \<Rightarrow> name),
                    ars_read_write = (ar_access_mode r = access_str RootReadWrite)\<rparr>)
            (sort_key ar_created_at (filter (\<lambda>r. ar_user_id r = sp_user_id actor) (db_roots db))))"

definition resolve_assigned_root_for_user :: "string \<Rightarrow> string \<Rightarrow> auth_db \<Rightarrow> AuthError + ResolvedAssignedRoot" where
  "resolve_assigned_root_for_user user_id root_id db =
     res_bind (res_of_option UnknownAssignedRoot
                (sql_first (\<lambda>r. ar_root_id r = root_id \<and> ar_user_id r = user_id) (db_roots db))) (\<lambda>r.
     Inr \<lparr>rar_id = root_id, rar_path = ar_path r,
          rar_read_write = (ar_access_mode r = access_str RootReadWrite)\<rparr>)"

definition resolve_own_assigned_root :: "SessionPrincipal \<Rightarrow> string \<Rightarrow> auth_db \<Rightarrow> AuthError + ResolvedAssignedRoot" where
  "resolve_own_assigned_root actor root_id db = resolve_assigned_root_for_user (sp_user_id actor) root_id db"

section \<open>Audit entries and the user's sessions\<close>

definition audit_action ::
    "'n auth_env \<Rightarrow> int \<Rightarrow> SessionPrincipal \<Rightarrow> string \<Rightarrow> string \<Rightarrow> string option \<Rightarrow> string \<Rightarrow> 'n json \<Rightarrow> string \<Rightarrow> string \<Rightarrow>
     auth_db \<Rightarrow> (AuthError + unit) \<times> auth_db" where
  "audit_action env now actor action resource_type resource_id result metadata source_ip user_agent db =
     audited env ((actor_event actor now action resource_type resource_id result source_ip user_agent)
                    \<lparr>ev_metadata := metadata\<rparr>) () db"

definition audit_authorization ::
    "'n auth_env \<Rightarrow> int \<Rightarrow> SessionPrincipal option \<Rightarrow> string \<Rightarrow> bool \<Rightarrow> string \<Rightarrow> string \<Rightarrow> auth_db \<Rightarrow>
     (AuthError + unit) \<times> auth_db" where
  "audit_authorization env now actor capability allowed source_ip user_agent db =
     (let result = (if allowed then ''success'' else ''denied'') in
      audited env
        (case actor of
           None \<Rightarrow> audit_event now None ''authorization.check'' ''capability'' (Some capability) result
                     source_ip user_agent
         | Some p \<Rightarrow> actor_event p now ''authorization.check'' ''capability'' (Some capability) result
                       source_ip user_agent) () db)"

definition sessions :: "SessionPrincipal \<Rightarrow> auth_db \<Rightarrow> AuthError + SessionRecord list" where
  "sessions actor db =
     Inr (map (\<lambda>s. \<lparr>sr_id = s_id_hash s, sr_created_at = s_created_at s, sr_last_activity = s_last_activity s,
                    sr_idle_expires_at = s_idle_expires_at s,
                    sr_absolute_expires_at = s_absolute_expires_at s, sr_revoked_at = s_revoked_at s,
                    sr_step_up_expires_at = s_step_up_expires_at s,
                    sr_remember_device = s_remember_device s, sr_source_ip = s_source_ip s,
                    sr_user_agent = s_user_agent s, sr_device_label = s_device_label s,
                    sr_current = (s_id_hash s = sp_session_id_hash actor)\<rparr>)
            (sort_key (\<lambda>s. - s_created_at s)
               (filter (\<lambda>s. s_user_id s = sp_user_id actor) (db_sessions db))))"

definition revoke_session ::
    "'n auth_env \<Rightarrow> int \<Rightarrow> int \<Rightarrow> SessionPrincipal \<Rightarrow> string \<Rightarrow> string \<Rightarrow> string \<Rightarrow> auth_db \<Rightarrow> (AuthError + unit) \<times> auth_db" where
  "revoke_session env now now_audit actor session_id_hash source_ip user_agent db =
     (case sql_first (\<lambda>s. s_id_hash s = session_id_hash) (db_sessions db) of
        None \<Rightarrow> (Inl InvalidSession, db)
      | Some s \<Rightarrow>
        if s_user_id s \<noteq> sp_user_id actor \<and> \<not> principal_can actor ''users.manage''
        then (Inl PermissionDenied, db)
        else
          append_actor_audit env actor now_audit ''sessions.revoke'' ''session'' (Some session_id_hash)
            ''success'' source_ip user_agent ()
            (db\<lparr>db_sessions := sql_update (\<lambda>r. s_id_hash r = session_id_hash \<and> s_revoked_at r = None)
                   (\<lambda>r. r\<lparr>s_revoked_at := Some now\<rparr>) (db_sessions db)\<rparr>))"

definition reset_totp ::
    "'n auth_env \<Rightarrow> int \<Rightarrow> int \<Rightarrow> int \<Rightarrow> int \<Rightarrow> SessionPrincipal \<Rightarrow> string \<Rightarrow> string \<Rightarrow> string \<Rightarrow> auth_db \<Rightarrow>
     (AuthError + unit) \<times> auth_db" where
  "reset_totp env now_check now_user now_sessions now_audit actor user_id source_ip user_agent =
     guarded now_check actor ''users.manage'' (\<lambda>db.
       append_actor_audit env actor now_audit ''auth.totp.reset'' ''user'' (Some user_id) ''success''
         source_ip user_agent ()
         (let db1 = update_user user_id
                      (\<lambda>u. u\<lparr>u_totp_secret := None, u_totp_enabled := False, u_updated_at := now_user\<rparr>) db in
          db1\<lparr>db_recovery := sql_delete (\<lambda>r. rc_user_id r = user_id) (db_recovery db1),
              db_sessions := sql_update (\<lambda>r. s_user_id r = user_id)
                (\<lambda>r. r\<lparr>s_revoked_at := Some now_sessions\<rparr>) (db_sessions db1)\<rparr>))"

end
