(* ===== verification/Auth_History.thy ===== *)
theory Auth_History
  imports Auth_Service
begin

text \<open>
  Histories of the authentication service: \<open>auth_step\<close> has one rule per public operation that can change
  the database, whatever its arguments and its outcome. Sessions and users are never deleted and change
  only within \<open>session_kept\<close> and \<open>user_kept\<close>; \<open>auth_inv\<close> collects the column constraints that the code
  maintains on top of the keys.
\<close>

section \<open>What the building blocks change\<close>

definition log_after :: "'n auth_env \<Rightarrow> 'n NewAuditEvent \<Rightarrow> auth_db \<Rightarrow> audit_db" where
  "log_after env ev db = snd (append_audit (ae_audit env) (ae_locked env) ev (db_audit db))"

definition log_ok :: "'n auth_env \<Rightarrow> 'n NewAuditEvent \<Rightarrow> auth_db \<Rightarrow> bool" where
  "log_ok env ev db \<longleftrightarrow> is_ok (fst (append_audit (ae_audit env) (ae_locked env) ev (db_audit db)))"

lemma audited_snd [simp]: "snd (audited env ev a db) = db\<lparr>db_audit := log_after env ev db\<rparr>"
  by (auto simp: audited_def log_after_def split: prod.splits sum.splits)

lemma audited_ok: "fst (audited env ev a db) = Inr b \<longleftrightarrow> log_ok env ev db \<and> b = a"
  by (auto simp: audited_def log_ok_def is_ok_def split: prod.splits sum.splits)

lemma audited_err: "fst (audited env ev a db) = Inl e \<Longrightarrow> \<exists>d. e = AuthAudit d"
  by (auto simp: audited_def split: prod.splits sum.splits)

lemma audited_eq_ok: "audited env ev a db = (Inr b, db') \<longleftrightarrow>
    log_ok env ev db \<and> b = a \<and> db' = db\<lparr>db_audit := log_after env ev db\<rparr>"
  using audited_ok [of env ev a db b] audited_snd [of env ev a db] by (metis fst_conv prod.collapse snd_conv)

lemma audited_eq_err: "audited env ev a db = (Inl e, db') \<Longrightarrow>
    (\<exists>d. e = AuthAudit d) \<and> db' = db\<lparr>db_audit := log_after env ev db\<rparr>"
  using audited_err [of env ev a db e] audited_snd [of env ev a db] by (metis fst_conv snd_conv)

lemma guarded_snd: "snd (guarded t actor c body db) =
    (if require_actor t actor c True = Inr () then snd (body db) else db)"
  by (auto simp: guarded_def split: sum.splits)

lemma guarded_ok: "fst (guarded t actor c body db) = Inr a \<longleftrightarrow>
    require_actor t actor c True = Inr () \<and> fst (body db) = Inr a"
  by (auto simp: guarded_def split: sum.splits)

lemma require_actor_ok: "require_actor t actor c True = Inr () \<longleftrightarrow> principal_can actor c \<and> has_fresh_step_up t actor"
  by (simp add: require_actor_def)

lemma update_user_fields [simp]:
  "db_sessions (update_user i f db) = db_sessions db"
  "db_users (update_user i f db) = sql_update (\<lambda>u. u_id u = i) f (db_users db)"
  "db_recovery (update_user i f db) = db_recovery db"
  by (simp_all add: update_user_def)

lemma grant_all_frame: "grant_all gs db = Inr db' \<Longrightarrow> \<exists>rp. db' = db\<lparr>db_role_permissions := rp\<rparr>"
proof (induction gs arbitrary: db)
  case (Cons g gs)
  then show ?case
    by (cases g) (fastforce simp: res_bind_ok grant_role_def split: if_splits)
next
  case Nil
  then show ?case by (auto intro: exI [of _ "db_role_permissions db"])
qed

lemma seed_frame: "seed_authorization_model t db = Inr db' \<Longrightarrow>
    \<exists>ps rs rp. db' = db\<lparr>db_permissions := ps, db_roles := rs, db_role_permissions := rp\<rparr>"
  unfolding seed_authorization_model_def Let_def by (drule grant_all_frame) auto

lemma insert_user_ok: "insert_user u db = Inr db' \<longleftrightarrow>
    u_id u \<notin> u_id ` set (db_users db) \<and> (\<forall>x\<in>set (db_users db). \<not> same_name (u_username x) (u_username u)) \<and>
    db' = db\<lparr>db_users := db_users db @ [u]\<rparr>"
  unfolding insert_user_def list_ex_iff by (auto simp: image_iff) metis

lemma insert_user_role_ok: "insert_user_role i r db = Inr db' \<Longrightarrow>
    db' = db\<lparr>db_user_roles := db_user_roles db @ [(i, r)]\<rparr> \<and> i \<in> u_id ` set (db_users db) \<and>
    r \<in> ro_id ` set (db_roles db)"
  by (auto simp: insert_user_role_def split: if_splits)

lemma assign_roles_frame: "assign_roles i rs db = Inr db' \<Longrightarrow>
    db' = db\<lparr>db_user_roles := db_user_roles db @ map (Pair i) rs\<rparr> \<and> set rs \<subseteq> ro_id ` set (db_roles db)"
proof (induction rs arbitrary: db)
  case (Cons r rs)
  then obtain db1 where 1: "insert_user_role i r db = Inr db1" and rest: "assign_roles i rs db1 = Inr db'"
    by (auto split: sum.splits)
  show ?case
    using insert_user_role_ok [OF 1] Cons.IH [OF rest] by auto
qed simp

lemma insert_recovery_all_frame: "insert_recovery_all env i t ics db = Inr db' \<Longrightarrow>
    \<exists>rows. db' = db\<lparr>db_recovery := db_recovery db @ rows\<rparr> \<and> length rows = length ics \<and>
      list_all (\<lambda>r. rc_user_id r = i \<and> rc_used_at r = None) rows"
proof (induction ics arbitrary: db)
  case (Cons ic ics)
  then obtain db1 where 1: "insert_recovery env i t ic db = Inr db1"
    and rest: "insert_recovery_all env i t ics db1 = Inr db'"
    by (auto simp: res_bind_ok)
  from 1 obtain r where "db1 = db\<lparr>db_recovery := db_recovery db @ [r]\<rparr>" "rc_user_id r = i" "rc_used_at r = None"
    by (cases ic) (auto simp: insert_recovery_def Let_def split: if_splits)
  moreover obtain rows where "db' = db1\<lparr>db_recovery := db_recovery db1 @ rows\<rparr>" "length rows = length ics"
      "list_all (\<lambda>r. rc_user_id r = i \<and> rc_used_at r = None) rows"
    using Cons.IH [OF rest] by blast
  ultimately show ?case by (intro exI [of _ "r # rows"]) simp
qed (auto intro: exI [of _ "[]"])

lemma verify_second_factor_frame: "verify_second_factor env i encrypted code t db = (r, db') \<Longrightarrow>
    \<exists>rows. db' = db\<lparr>db_recovery := rows\<rparr>"
  by (auto simp: verify_second_factor_def Let_def intro: exI [of _ "db_recovery db"] split: sum.splits if_splits)

lemma record_login_failure_frame: "record_login_failure env k i req why t db = (r, db') \<Longrightarrow>
    db_users db' = db_users db \<and> db_sessions db' = db_sessions db \<and> db_recovery db' = db_recovery db \<and>
    db_throttle db' = fold (bump_bucket (maximum_failures (ae_policy env)) t)
      [(''account'', k), (''ip'', hash_value env (lr_source_ip req))] (db_throttle db)"
  unfolding record_login_failure_def Let_def
  by (drule arg_cong [where f = snd]) (auto simp: record_login_history_def)

section \<open>Rows that stay\<close>

definition session_kept :: "session_row \<Rightarrow> session_row \<Rightarrow> bool" where
  "session_kept s s' \<longleftrightarrow>
     s_id_hash s' = s_id_hash s \<and> s_user_id s' = s_user_id s \<and> s_created_at s' = s_created_at s \<and>
     s_absolute_expires_at s' = s_absolute_expires_at s \<and> (s_revoked_at s \<noteq> None \<longrightarrow> s_revoked_at s' \<noteq> None)"

definition user_kept :: "user_row \<Rightarrow> user_row \<Rightarrow> bool" where
  "user_kept u u' \<longleftrightarrow>
     u_id u' = u_id u \<and> u_username u' = u_username u \<and> u_password_hash u' = u_password_hash u \<and>
     u_disabled u' = u_disabled u \<and> u_created_at u' = u_created_at u"

interpretation sh: row_history session_kept
  by unfold_locales (auto simp: session_kept_def)

interpretation uh: row_history user_kept
  by unfold_locales (auto simp: user_kept_def)

section \<open>Steps\<close>

inductive auth_step :: "'n auth_env \<Rightarrow> auth_db \<Rightarrow> auth_db \<Rightarrow> bool" for env where
  seed: "seed_authorization_model t db = Inr db' \<Longrightarrow> auth_step env db db'"
| bootstrap: "\<forall>i g. bc_linux_identity c = Some (i, g) \<longrightarrow> i < 2 ^ 32 \<and> g < 2 ^ 32 \<Longrightarrow>
    auth_step env db (snd (bootstrap_administrator_configured env user_id salt t0 t name dname pw c ip ua db))"
| login: "auth_step env db (snd (login env token t req db))"
| authenticate: "auth_step env db (snd (authenticate env t token db))"
| revoke: "auth_step env db (snd (revoke env t t0 token ip ua db))"
| begin_totp: "auth_step env db (snd (begin_totp env secret nonce t t0 p db))"
| confirm_totp: "auth_step env db (snd (confirm_totp env raws ids t t0 p code db))"
| step_up: "auth_step env db (snd (step_up env t0 t1 t2 t3 token pw code ip ua db))"
| create_user: "auth_step env db (snd (create_user env user_id salt t0 t1 t2 p creq ip ua db))"
| assign_role: "auth_step env db (snd (assign_role env t0 t1 p user_id role ip ua db))"
| set_user_permission: "auth_step env db (snd (set_user_permission env t0 t1 p user_id cap allow ip ua db))"
| set_linux_identity: "uid < 2 ^ 32 \<Longrightarrow> gid < 2 ^ 32 \<Longrightarrow>
    auth_step env db (snd (set_linux_identity env t0 t1 t2 p user_id uid gid ip ua db))"
| add_assigned_root:
    "auth_step env db (snd (add_assigned_root env root_id t0 t1 t2 p user_id path mode ip ua db))"
| remove_assigned_root: "auth_step env db (snd (remove_assigned_root env t0 t1 p root_id ip ua db))"
| audit_action: "auth_step env db (snd (audit_action env t p action rt rid result metadata ip ua db))"
| audit_authorization: "auth_step env db (snd (audit_authorization env t op cap allowed ip ua db))"
| revoke_session: "auth_step env db (snd (revoke_session env t0 t1 p h ip ua db))"
| reset_totp: "auth_step env db (snd (reset_totp env t0 t1 t2 t3 p user_id ip ua db))"

section \<open>The invariant\<close>

definition u32_id :: "int option \<Rightarrow> bool" where
  "u32_id x = (case x of None \<Rightarrow> True | Some i \<Rightarrow> 0 < i \<and> i < 2 ^ 32)"

definition user_ok :: "user_row \<Rightarrow> bool" where
  "user_ok u \<longleftrightarrow> (u_totp_enabled u \<longrightarrow> u_totp_secret u \<noteq> None) \<and> u32_id (u_linux_uid u) \<and> u32_id (u_linux_gid u) \<and>
     (u_linux_uid u = None \<longleftrightarrow> u_linux_gid u = None)"

definition session_ok :: "session_row \<Rightarrow> bool" where
  "session_ok s \<longleftrightarrow> s_idle_expires_at s \<le> s_absolute_expires_at s"

definition name_key :: "user_row \<Rightarrow> string" where
  "name_key u = to_lowercase (u_username u)"

definition auth_inv :: "auth_db \<Rightarrow> bool" where
  "auth_inv db \<longleftrightarrow>
     table_ok u_id user_ok (db_users db) \<and> distinct (map name_key (db_users db)) \<and>
     table_ok s_id_hash session_ok (db_sessions db) \<and>
     s_user_id ` set (db_sessions db) \<subseteq> u_id ` set (db_users db)"

definition policy_ok :: "AuthPolicy \<Rightarrow> bool" where
  "policy_ok pol \<longleftrightarrow> idle_timeout_seconds pol \<le> absolute_timeout_seconds pol \<and>
     idle_timeout_seconds pol \<le> remember_timeout_seconds pol"

text \<open>A change that keeps every row and the invariant; changes compose.\<close>

definition safe_change :: "auth_db \<Rightarrow> auth_db \<Rightarrow> bool" where
  "safe_change db db' \<longleftrightarrow>
     sh.evolves (db_sessions db) (db_sessions db') \<and> uh.evolves (db_users db) (db_users db') \<and>
     (auth_inv db \<longrightarrow> auth_inv db')"

lemma safe_same: "db_sessions db' = db_sessions db \<Longrightarrow> db_users db' = db_users db \<Longrightarrow> safe_change db db'"
  by (simp add: safe_change_def sh.evolves_refl uh.evolves_refl auth_inv_def)

lemma safe_trans: "safe_change a b \<Longrightarrow> safe_change b c \<Longrightarrow> safe_change a c"
  unfolding safe_change_def using sh.evolves_trans uh.evolves_trans by blast

lemma safe_ext: "db_sessions b' = db_sessions b \<Longrightarrow> db_users b' = db_users b \<Longrightarrow> safe_change a b \<Longrightarrow> safe_change a b'"
  using safe_trans safe_same by blast

lemma safe_update_sessions:
  assumes "\<And>s. P s \<Longrightarrow> session_kept s (f s)"
    and "auth_inv db \<Longrightarrow> \<forall>s\<in>set (db_sessions db). P s \<longrightarrow> session_ok (f s)"
    and "db_sessions db' = sql_update P f (db_sessions db)" "db_users db' = db_users db"
  shows "safe_change db db'"
proof -
  have keys: "map s_id_hash (sql_update P f (db_sessions db)) = map s_id_hash (db_sessions db)"
    and owners: "map s_user_id (sql_update P f (db_sessions db)) = map s_user_id (db_sessions db)"
    using assms(1) by (auto simp: sql_update_def session_kept_def)
  have "auth_inv db \<Longrightarrow> auth_inv db'"
    using assms(2-) keys arg_cong [OF owners, of set]
    by (auto simp: auth_inv_def table_ok_def list_all_iff set_sql_update)
  then show ?thesis
    by (simp add: safe_change_def assms(3,4) sh.evolves_update assms(1) uh.evolves_refl)
qed

lemma safe_update_user:
  assumes "\<And>u. user_kept u (f u)" "auth_inv db \<Longrightarrow> \<forall>u\<in>set (db_users db). u_id u = i \<longrightarrow> user_ok (f u)"
    and "db_sessions db' = db_sessions db" "db_users db' = sql_update (\<lambda>u. u_id u = i) f (db_users db)"
  shows "safe_change db db'"
proof -
  have keys: "map u_id (sql_update (\<lambda>u. u_id u = i) f (db_users db)) = map u_id (db_users db)"
    and names: "map name_key (sql_update (\<lambda>u. u_id u = i) f (db_users db)) = map name_key (db_users db)"
    using assms(1) by (auto simp: sql_update_def user_kept_def name_key_def)
  have ids: "u_id ` set (sql_update (\<lambda>u. u_id u = i) f (db_users db)) = u_id ` set (db_users db)"
    using arg_cong [OF keys, of set] by simp
  have "auth_inv db \<Longrightarrow> \<forall>u\<in>set (sql_update (\<lambda>u. u_id u = i) f (db_users db)). user_ok u"
    using assms(2) by (auto simp: auth_inv_def table_ok_def list_all_iff set_sql_update)
  then have "auth_inv db \<Longrightarrow> auth_inv db'"
    unfolding auth_inv_def table_ok_def list_all_iff assms(3,4) keys names ids by blast
  then show ?thesis
    by (simp add: safe_change_def assms(3,4) uh.evolves_update assms(1) sh.evolves_refl)
qed

lemma safe_insert_user:
  assumes "insert_user u db = Inr db'" "user_ok u"
  shows "safe_change db db'"
  using assms
  by (auto simp: safe_change_def insert_user_ok uh.evolves_append sh.evolves_refl auth_inv_def table_ok_insert
      name_key_def same_name_def image_iff)

lemma safe_insert_session:
  assumes "s_id_hash s \<notin> s_id_hash ` set (db_sessions db)" "session_ok s" "s_user_id s \<in> u_id ` set (db_users db)"
    and "db_sessions db' = db_sessions db @ [s]" "db_users db' = db_users db"
  shows "safe_change db db'"
  using assms
  by (auto simp: safe_change_def sh.evolves_append uh.evolves_refl auth_inv_def table_ok_insert)

section \<open>Every operation is a safe change\<close>

lemma safe_revoked: "db_sessions db' = sql_update P (\<lambda>r. r\<lparr>s_revoked_at := Some t\<rparr>) (db_sessions db) \<Longrightarrow>
    db_users db' = db_users db \<Longrightarrow> safe_change db db'"
  by (rule safe_update_sessions [where P = P and f = "\<lambda>r. r\<lparr>s_revoked_at := Some t\<rparr>"])
    (auto simp: session_kept_def session_ok_def auth_inv_def table_ok_def list_all_iff)

lemma safe_stepped: "db_sessions db' = sql_update P (\<lambda>r. r\<lparr>s_step_up_expires_at := Some t\<rparr>) (db_sessions db) \<Longrightarrow>
    db_users db' = db_users db \<Longrightarrow> safe_change db db'"
  by (rule safe_update_sessions [where P = P and f = "\<lambda>r. r\<lparr>s_step_up_expires_at := Some t\<rparr>"])
    (auto simp: session_kept_def session_ok_def auth_inv_def table_ok_def list_all_iff)

lemma live_session_Some: "live_session h db = Some (s, u) \<Longrightarrow>
    s \<in> set (db_sessions db) \<and> s_id_hash s = h \<and> s_revoked_at s = None \<and>
    u \<in> set (db_users db) \<and> u_id u = s_user_id s \<and> \<not> u_disabled u"
  by (auto simp: live_session_def Option.bind_eq_Some_conv dest!: sql_first_Some)

lemma authenticate_cases:
  obtains (refused) e where "authenticate env t token db = (Inl e, db)" "e = InvalidSession"
  | (granted) s u where "live_session (hash_value env token) db = Some (s, u)"
      "t < s_idle_expires_at s" "t < s_absolute_expires_at s"
      "authenticate env t token db =
        (Inr \<lparr>sp_user_id = s_user_id s, sp_username = u_username u, sp_session_id_hash = hash_value env token,
              sp_roles = roles_for_user (s_user_id s) db,
              sp_capabilities = capabilities_for_user env (s_user_id s) db,
              sp_step_up_expires_at = s_step_up_expires_at s\<rparr>,
         db\<lparr>db_sessions := sql_update (\<lambda>r. s_id_hash r = hash_value env token)
              (\<lambda>r. r\<lparr>s_last_activity := t, s_idle_expires_at :=
                 min (t + idle_timeout_seconds (ae_policy env)) (s_absolute_expires_at s)\<rparr>) (db_sessions db)\<rparr>)"
proof (cases "live_session (hash_value env token) db")
  case None
  then show ?thesis using refused by (simp add: authenticate_def)
next
  case (Some su)
  obtain s u where su: "su = (s, u)" by (cases su)
  show ?thesis
  proof (cases "s_idle_expires_at s \<le> t \<or> s_absolute_expires_at s \<le> t")
    case True
    with Some su show ?thesis using refused by (simp add: authenticate_def)
  next
    case False
    with Some su show ?thesis
      by (intro granted [of s u]) (simp_all add: authenticate_def Let_def)
  qed
qed

lemma safe_authenticate: "safe_change db (snd (authenticate env t token db))"
proof (cases rule: authenticate_cases [where env = env and t = t and token = token and db = db])
  case (refused e)
  then show ?thesis by (simp add: safe_same)
next
  case (granted s u)
  let ?f = "\<lambda>r. r\<lparr>s_last_activity := t, s_idle_expires_at :=
    min (t + idle_timeout_seconds (ae_policy env)) (s_absolute_expires_at s)\<rparr>"
  have s: "s \<in> set (db_sessions db)" "s_id_hash s = hash_value env token"
    using live_session_Some [OF granted(1)] by auto
  have "auth_inv db \<Longrightarrow> r \<in> set (db_sessions db) \<Longrightarrow> s_id_hash r = hash_value env token \<Longrightarrow> r = s" for r
    using s table_ok_same_key [of s_id_hash session_ok "db_sessions db" r s] by (auto simp: auth_inv_def)
  then show ?thesis
    using granted(4)
    by (intro safe_update_sessions [where P = "\<lambda>r. s_id_hash r = hash_value env token" and f = ?f])
      (auto simp: session_kept_def session_ok_def)
qed

definition account_key_of :: "'n auth_env \<Rightarrow> LoginRequest \<Rightarrow> string" where
  "account_key_of env req = hash_value env (normalize_username (lr_username req))"

definition named_user :: "LoginRequest \<Rightarrow> auth_db \<Rightarrow> user_row option" where
  "named_user req db = sql_first (\<lambda>u. same_name (u_username u) (normalize_username (lr_username req))) (db_users db)"

text \<open>The ways through \<open>login\<close>: throttled, an unreadable secret, refused, or a session is opened.\<close>

definition second_factor_passed ::
    "'n auth_env \<Rightarrow> user_row \<Rightarrow> LoginRequest \<Rightarrow> int \<Rightarrow> auth_db \<Rightarrow> auth_db \<Rightarrow> bool" where
  "second_factor_passed env u req t db db1 \<longleftrightarrow>
     (if u_totp_enabled u then
        (case (u_totp_secret u, lr_second_factor req) of
           (Some encrypted, Some code) \<Rightarrow> verify_second_factor env (u_id u) encrypted code t db = (Inr True, db1)
         | _ \<Rightarrow> False)
      else db1 = db)"

lemma login_second_factor_frame:
  "login_second_factor env i sec en pv req t db = (r, db1) \<Longrightarrow> \<exists>rows. db1 = db\<lparr>db_recovery := rows\<rparr>"
  unfolding login_second_factor_def
  by (auto split: if_splits option.splits dest: verify_second_factor_frame intro: exI [of _ "db_recovery db"])

lemma login_second_factor_user:
  "login_second_factor env (Some (u_id u)) (u_totp_secret u) (u_totp_enabled u) True req t db = (Inr True, db1) \<longleftrightarrow>
    second_factor_passed env u req t db db1"
  by (auto simp: login_second_factor_def second_factor_passed_def split: option.splits)

lemma login_second_factor_err:
  "login_second_factor env i sec en pv req t db = (Inl e, db1) \<Longrightarrow> db1 = db \<and> (\<exists>x. e = AuthSecret x)"
  by (auto simp: login_second_factor_def verify_second_factor_def Let_def split: if_splits option.splits sum.splits)

lemma login_cases:
  obtains (limited) "enforce_rate_limit env (account_key_of env req) (lr_source_ip req) t db = Inl RateLimited"
      "login env token t req db = (Inl RateLimited, db)"
  | (unreadable) x where "login env token t req db = (Inl (AuthSecret x), db)"
  | (refused) i why rows r db2 where
      "enforce_rate_limit env (account_key_of env req) (lr_source_ip req) t db = Inr ()"
      "record_login_failure env (account_key_of env req) i req why t (db\<lparr>db_recovery := rows\<rparr>) = (r, db2)"
      "login env token t req db = ((case r of Inl e \<Rightarrow> Inl e | Inr _ \<Rightarrow> Inl InvalidCredentials), db2)"
  | (opened) u db1 where
      "enforce_rate_limit env (account_key_of env req) (lr_source_ip req) t db = Inr ()"
      "named_user req db = Some u" "\<not> u_disabled u" "verify_password env (lr_password req) (u_password_hash u)"
      "second_factor_passed env u req t db db1"
      "login env token t req db =
        open_session env token (account_key_of env req) (u_id u) (u_username u) req t db1"
proof (cases "enforce_rate_limit env (account_key_of env req) (lr_source_ip req) t db")
  case (Inl e)
  then have "e = RateLimited" by (auto simp: enforce_rate_limit_def Let_def split: if_splits)
  with Inl show ?thesis using limited by (simp add: login_def account_key_of_def Let_def)
next
  case (Inr x)
  define row where "row = named_user req db"
  define pv where "pv = verify_password env (lr_password req)
    (case row of None \<Rightarrow> ae_dummy_hash env | Some u \<Rightarrow> u_password_hash u)"
  define en where "en = (case row of None \<Rightarrow> False | Some u \<Rightarrow> u_totp_enabled u)"
  obtain r db1 where sf: "login_second_factor env (map_option u_id row) (Option.bind row u_totp_secret) en pv req t db
      = (r, db1)"
    by (cases "login_second_factor env (map_option u_id row) (Option.bind row u_totp_secret) en pv req t db")
  note unfold_login = login_def Let_def account_key_of_def [symmetric] named_user_def [symmetric]
    row_def [symmetric] pv_def [symmetric] en_def [symmetric]
  show ?thesis
  proof (cases r)
    case (Inl e)
    with sf have "db1 = db" "\<exists>x. e = AuthSecret x" using login_second_factor_err by blast+
    with Inl sf Inr show ?thesis
      by (elim exE) (rule unreadable, simp add: unfold_login)
  next
    case r: (Inr sv)
    show ?thesis
    proof (cases "pv \<and> sv \<and> (\<exists>u. row = Some u \<and> \<not> u_disabled u)")
      case False
      obtain rows where rows: "db1 = db\<lparr>db_recovery := rows\<rparr>" using login_second_factor_frame [OF sf] by blast
      let ?why = "if pv \<and> en then ''invalid_second_factor'' else ''invalid_credentials''"
      obtain r' db2 where rf: "record_login_failure env (account_key_of env req) (map_option u_id row) req ?why t db1
          = (r', db2)"
        by (cases "record_login_failure env (account_key_of env req) (map_option u_id row) req ?why t db1")
      have "login env token t req db = ((case r' of Inl e \<Rightarrow> Inl e | Inr _ \<Rightarrow> Inl InvalidCredentials), db2)"
        using False Inr sf r rf by (auto simp: unfold_login split: sum.splits option.splits)
      then show ?thesis using Inr by (intro refused [OF _ rf [unfolded rows]]) simp_all
    next
      case True
      then obtain u where u: "row = Some u" "\<not> u_disabled u" "pv" "sv" by blast
      have "second_factor_passed env u req t db db1"
        using sf r u by (simp add: login_second_factor_user [symmetric] en_def)
      then show ?thesis
        using u Inr sf r by (intro opened [of u db1]) (auto simp: unfold_login pv_def en_def)
    qed
  qed
qed

lemma second_factor_passed_frame: "second_factor_passed env u req t db db1 \<Longrightarrow> \<exists>rows. db1 = db\<lparr>db_recovery := rows\<rparr>"
  by (auto simp: second_factor_passed_def split: if_splits option.splits dest: verify_second_factor_frame
      intro: exI [of _ "db_recovery db"])

lemma open_session_snd:
  "snd (open_session env token k i name req t db) =
    (let h = hash_value env token;
         db2 = record_login_history (Some i) req True ''success'' t
                 (db\<lparr>db_throttle := sql_delete (login_bucket k (hash_value env (lr_source_ip req))) (db_throttle db)\<rparr>);
         db3 = db2\<lparr>db_sessions := db_sessions db2 @ [new_session env h i req t]\<rparr> in
     if h \<in> s_id_hash ` set (db_sessions db) then db2
     else db3\<lparr>db_audit := log_after env (audit_event t (Some i) ''auth.login'' ''session'' (Some h) ''success''
                             (lr_source_ip req) (lr_user_agent req)) db3\<rparr>)"
  by (simp add: open_session_def Let_def record_login_history_def)

lemma safe_open_session:
  assumes "policy_ok (ae_policy env)" "i \<in> u_id ` set (db_users db)"
  shows "safe_change db (snd (open_session env token k i name req t db))"
proof (cases "hash_value env token \<in> s_id_hash ` set (db_sessions db)")
  case True
  then show ?thesis by (simp add: open_session_snd Let_def record_login_history_def safe_same)
next
  case False
  show ?thesis
    by (rule safe_insert_session [where s = "new_session env (hash_value env token) i req t"])
      (use False assms in \<open>simp_all add: open_session_snd Let_def record_login_history_def new_session_def
        session_ok_def policy_ok_def\<close>)
qed

lemma safe_login:
  assumes "policy_ok (ae_policy env)"
  shows "safe_change db (snd (login env token t req db))"
proof (cases rule: login_cases [where env = env and req = req and t = t and db = db and token = token])
  case limited
  then show ?thesis by (simp add: safe_same)
next
  case (unreadable x)
  then show ?thesis by (simp add: safe_same)
next
  case (refused i why rows r db2)
  then show ?thesis
    using record_login_failure_frame [OF refused(2)] by (simp add: safe_same)
next
  case (opened u db1)
  obtain rows where db1: "db1 = db\<lparr>db_recovery := rows\<rparr>" using second_factor_passed_frame [OF opened(5)] by blast
  have "u \<in> set (db_users db1)" using opened(2) db1 by (auto simp: named_user_def dest: sql_first_Some)
  then have "safe_change db1 (snd (login env token t req db))"
    unfolding opened(6) using assms by (intro safe_open_session) auto
  moreover have "safe_change db db1" using db1 by (simp add: safe_same)
  ultimately show ?thesis by (rule safe_trans [rotated])
qed

lemma safe_revoke: "safe_change db (snd (revoke env t t0 token ip ua db))"
proof (cases "authenticate env t0 token db")
  case (Pair r db1)
  have 1: "safe_change db db1" using safe_authenticate [of db env t0 token] Pair by simp
  have "safe_change db1 (snd (revoke env t t0 token ip ua db))"
    using Pair
    by (cases r) (auto simp: revoke_def Let_def safe_same intro!: safe_revoked)
  with 1 show ?thesis by (rule safe_trans)
qed

lemma step_up_frame:
  assumes "authenticate env t0 token db = (Inr p, db1)"
  shows "db_users (snd (step_up env t0 t1 t2 t3 token pw code ip ua db)) = db_users db1 \<and>
    (db_sessions (snd (step_up env t0 t1 t2 t3 token pw code ip ua db)) = db_sessions db1 \<or>
     db_sessions (snd (step_up env t0 t1 t2 t3 token pw code ip ua db)) =
       sql_update (\<lambda>r. s_id_hash r = sp_session_id_hash p)
         (\<lambda>r. r\<lparr>s_step_up_expires_at := Some (t2 + step_up_seconds (ae_policy env))\<rparr>) (db_sessions db1))"
  using assms
  by (auto simp: step_up_def Let_def split: option.splits prod.splits sum.splits bool.splits
      dest!: verify_second_factor_frame)

lemma safe_step_up: "safe_change db (snd (step_up env t0 t1 t2 t3 token pw code ip ua db))"
proof (cases "authenticate env t0 token db")
  case (Pair r db1)
  have 1: "safe_change db db1" using safe_authenticate [of db env t0 token] Pair by simp
  have "safe_change db1 (snd (step_up env t0 t1 t2 t3 token pw code ip ua db))"
  proof (cases r)
    case (Inl e)
    with Pair show ?thesis by (simp add: step_up_def safe_same)
  next
    case (Inr p)
    with Pair step_up_frame show ?thesis by (metis safe_same safe_stepped)
  qed
  with 1 show ?thesis by (rule safe_trans)
qed

lemma safe_update_totp:
  assumes "auth_inv db \<Longrightarrow> \<forall>u\<in>set (db_users db). u_id u = i \<longrightarrow> en \<longrightarrow> sec (u_totp_secret u) \<noteq> None"
    and "db_sessions db' = db_sessions db"
    and "db_users db' = sql_update (\<lambda>u. u_id u = i)
      (\<lambda>u. u\<lparr>u_totp_secret := sec (u_totp_secret u), u_totp_enabled := en, u_updated_at := t\<rparr>) (db_users db)"
  shows "safe_change db db'"
  by (rule safe_update_user [OF _ _ assms(2,3)])
    (use assms(1) in \<open>auto simp: user_kept_def user_ok_def auth_inv_def table_ok_def list_all_iff\<close>)

lemma safe_begin_totp: "safe_change db (snd (begin_totp env secret nonce t t0 p db))"
proof (cases "encrypt (ae_aead env) (ae_cipher env) nonce secret (totp_context (sp_user_id p))")
  case (Inl e)
  then show ?thesis by (simp add: begin_totp_def safe_same)
next
  case (Inr x)
  then show ?thesis
    by (intro safe_update_totp [where en = False and sec = "\<lambda>_. Some x" and i = "sp_user_id p" and t = t])
      (simp_all add: begin_totp_def append_actor_audit_def)
qed

lemma safe_confirm_totp: "safe_change db (snd (confirm_totp env raws ids t t0 p code db))"
proof (cases "is_ok (fst (confirm_totp env raws ids t t0 p code db)) \<or>
    db_users (snd (confirm_totp env raws ids t t0 p code db)) \<noteq> db_users db")
  case True
  then obtain u x where u: "sql_first (\<lambda>u. u_id u = sp_user_id p) (db_users db) = Some u" "u_totp_secret u = Some x"
    by (auto simp: confirm_totp_def confirm_totp_at_def split: option.splits)
  have "auth_inv db \<Longrightarrow> v \<in> set (db_users db) \<Longrightarrow> u_id v = sp_user_id p \<Longrightarrow> v = u" for v
    using table_ok_find [of u_id user_ok "db_users db" v] u by (simp add: auth_inv_def)
  moreover have "db_sessions (snd (confirm_totp env raws ids t t0 p code db)) = db_sessions db"
    "db_users (snd (confirm_totp env raws ids t t0 p code db)) = sql_update (\<lambda>u. u_id u = sp_user_id p)
      (\<lambda>u. u\<lparr>u_totp_secret := u_totp_secret u, u_totp_enabled := True, u_updated_at := t\<rparr>) (db_users db)"
    using True u
    by (auto simp: confirm_totp_def confirm_totp_at_def append_actor_audit_def Let_def
        split: sum.splits if_splits dest!: insert_recovery_all_frame)
  ultimately show ?thesis
    using u by (intro safe_update_totp [where en = True and sec = "\<lambda>x. x" and i = "sp_user_id p" and t = t]) auto
next
  case False
  then show ?thesis
    by (intro safe_same)
      (auto simp: confirm_totp_def confirm_totp_at_def append_actor_audit_def Let_def
        split: option.splits sum.splits if_splits dest!: insert_recovery_all_frame)
qed

lemma new_user_ok: "user_ok (new_user i name dname h t)"
  by (simp add: user_ok_def new_user_def u32_id_def)

lemma safe_create_user: "safe_change db (snd (create_user env i salt t0 t1 t2 p creq ip ua db))"
proof (cases "db_users (snd (create_user env i salt t0 t1 t2 p creq ip ua db)) = db_users db")
  case True
  then show ?thesis
    by (intro safe_same)
      (auto simp: create_user_def guarded_snd append_actor_audit_def res_bind_ok insert_user_ok
        split: sum.splits if_splits dest!: assign_roles_frame)
next
  case False
  then obtain h db1 db2 where ins: "insert_user (new_user i (cu_username creq) (cu_display_name creq) h t1) db = Inr db1"
    and rest: "assign_roles i (cu_role_ids creq) db1 = Inr db2"
      "db_users (snd (create_user env i salt t0 t1 t2 p creq ip ua db)) = db_users db2"
      "db_sessions (snd (create_user env i salt t0 t1 t2 p creq ip ua db)) = db_sessions db2"
    by (auto simp: create_user_def guarded_snd append_actor_audit_def res_bind_ok
        split: sum.splits if_splits)
  have "safe_change db db1" using ins new_user_ok by (rule safe_insert_user)
  then show ?thesis
    by (rule safe_ext [rotated 2]) (use rest assign_roles_frame [OF rest(1)] in auto)
qed

lemma safe_frames:
  "safe_change db (snd (assign_role env t0 t1 p i role ip ua db))"
  "safe_change db (snd (set_user_permission env t0 t1 p i cap allow ip ua db))"
  "safe_change db (snd (add_assigned_root env root_id t0 t1 t2 p i path mode ip ua db))"
  "safe_change db (snd (remove_assigned_root env t0 t1 p root_id ip ua db))"
  "safe_change db (snd (audit_action env t p action rt rid result metadata ip ua db))"
  "safe_change db (snd (audit_authorization env t op cap allowed ip ua db))"
  by (auto simp: assign_role_def set_user_permission_def add_assigned_root_def remove_assigned_root_def
      audit_action_def audit_authorization_def guarded_snd append_actor_audit_def Let_def intro!: safe_same)

lemma safe_set_linux_identity:
  assumes "uid < 2 ^ 32" "gid < 2 ^ 32"
  shows "safe_change db (snd (set_linux_identity env t0 t1 t2 p i uid gid ip ua db))"
proof (cases "require_actor t0 p ''users.manage'' True = Inr () \<and> uid \<noteq> 0 \<and> gid \<noteq> 0")
  case True
  then show ?thesis
    using assms
    by (intro safe_update_user [where i = i and
          f = "\<lambda>u. u\<lparr>u_linux_uid := Some (int uid), u_linux_gid := Some (int gid), u_updated_at := t1\<rparr>"])
      (auto simp: set_linux_identity_def guarded_snd append_actor_audit_def Let_def user_kept_def user_ok_def
        u32_id_def auth_inv_def table_ok_def list_all_iff)
next
  case False
  then show ?thesis by (auto simp: set_linux_identity_def guarded_snd Let_def safe_same)
qed

lemma safe_revoke_session: "safe_change db (snd (revoke_session env t0 t1 p h ip ua db))"
  by (auto simp: revoke_session_def append_actor_audit_def safe_same split: option.splits
      intro!: safe_revoked [where P = "\<lambda>r. s_id_hash r = h \<and> s_revoked_at r = None" and t = t0])

lemma safe_reset_totp: "safe_change db (snd (reset_totp env t0 t1 t2 t3 p i ip ua db))"
proof (cases "require_actor t0 p ''users.manage'' True = Inr ()")
  case True
  let ?db1 = "update_user i (\<lambda>u. u\<lparr>u_totp_secret := None, u_totp_enabled := False, u_updated_at := t1\<rparr>) db"
  have "safe_change db ?db1"
    by (rule safe_update_totp [where en = False and sec = "\<lambda>_. None" and i = i and t = t1]) simp_all
  moreover have "safe_change ?db1 (snd (reset_totp env t0 t1 t2 t3 p i ip ua db))"
    using True
    by (intro safe_revoked [where P = "\<lambda>r. s_user_id r = i" and t = t2])
      (simp_all add: reset_totp_def guarded_snd append_actor_audit_def Let_def)
  ultimately show ?thesis by (rule safe_trans)
next
  case False
  then show ?thesis by (simp add: reset_totp_def guarded_snd safe_same)
qed

definition administrator :: "string \<Rightarrow> int \<Rightarrow> string \<Rightarrow> string \<Rightarrow> string \<Rightarrow> BootstrapConfiguration \<Rightarrow> user_row" where
  "administrator i t name dname h c =
     (new_user i name dname h t)
       \<lparr>u_linux_uid := map_option (\<lambda>(uid, _). int uid) (bc_linux_identity c),
        u_linux_gid := map_option (\<lambda>(_, gid). int gid) (bc_linux_identity c)\<rparr>"

lemma bootstrap_transaction_ok:
  assumes "bootstrap_transaction env i t0 t name dname h c ip ua db = Inr db'"
  obtains db1 db2 db3 where "seed_authorization_model t0 db = Inr db1" "db_users db = []"
    "insert_user (administrator i t name dname h c) db1 = Inr db2"
    "insert_user_role i ''administrator'' db2 = Inr db3"
    "db_users db' = db_users db3" "db_sessions db' = db_sessions db3" "db_user_roles db' = db_user_roles db3"
    "db_role_permissions db' = db_role_permissions db3" "db_user_permissions db' = db_user_permissions db3"
  using assms seed_frame
  by (fastforce simp: bootstrap_transaction_def res_bind_ok has_users_def administrator_def [symmetric] Let_def
      split: if_splits sum.splits)

lemma bootstrap_ok:
  "bootstrap_administrator_configured env i salt t0 t name dname pw c ip ua db = (Inr j, db') \<longleftrightarrow>
    j = i \<and> valid_username name \<and> valid_password pw \<and> bc_ui_mode c \<in> {''desktop'', ''dashboard''} \<and>
    (\<forall>uid gid. bc_linux_identity c = Some (uid, gid) \<longrightarrow> uid \<noteq> 0 \<and> gid \<noteq> 0) \<and>
    (\<exists>h. hash_password env salt pw = Inr h \<and> bootstrap_transaction env i t0 t name dname h c ip ua db = Inr db')"
  by (auto simp: bootstrap_administrator_configured_def res_bind_ok validate_username_def validate_password_def
      split: sum.splits option.splits if_splits)

lemma bootstrap_err: "fst (bootstrap_administrator_configured env i salt t0 t name dname pw c ip ua db) = Inl e \<Longrightarrow>
    snd (bootstrap_administrator_configured env i salt t0 t name dname pw c ip ua db) = db"
  by (auto simp: bootstrap_administrator_configured_def split: sum.splits)

lemma administrator_ok:
  assumes "\<forall>uid gid. bc_linux_identity c = Some (uid, gid) \<longrightarrow> uid \<noteq> 0 \<and> gid \<noteq> 0 \<and> uid < 2 ^ 32 \<and> gid < 2 ^ 32"
  shows "user_ok (administrator i t name dname h c)"
  using assms by (cases "bc_linux_identity c") (auto simp: administrator_def user_ok_def new_user_def u32_id_def)

lemma safe_bootstrap:
  assumes "\<forall>i g. bc_linux_identity c = Some (i, g) \<longrightarrow> i < 2 ^ 32 \<and> g < 2 ^ 32"
  shows "safe_change db (snd (bootstrap_administrator_configured env i salt t0 t name dname pw c ip ua db))"
proof (cases "bootstrap_administrator_configured env i salt t0 t name dname pw c ip ua db")
  case (Pair r db')
  show ?thesis
  proof (cases r)
    case (Inl e)
    with Pair bootstrap_err show ?thesis by (metis fst_conv safe_same)
  next
    case (Inr j)
    with Pair obtain h where ok: "bootstrap_transaction env i t0 t name dname h c ip ua db = Inr db'"
        "\<forall>uid gid. bc_linux_identity c = Some (uid, gid) \<longrightarrow> uid \<noteq> 0 \<and> gid \<noteq> 0"
      by (auto simp: bootstrap_ok)
    obtain db1 db2 db3 where parts: "seed_authorization_model t0 db = Inr db1"
      "insert_user (administrator i t name dname h c) db1 = Inr db2"
      "insert_user_role i ''administrator'' db2 = Inr db3"
      "db_users db' = db_users db3" "db_sessions db' = db_sessions db3"
      using ok(1) by (rule bootstrap_transaction_ok)
    have "safe_change db db1" using seed_frame [OF parts(1)] by (auto intro!: safe_same)
    moreover have "safe_change db1 db2"
      using parts(2) assms ok(2) by (auto intro!: safe_insert_user administrator_ok)
    moreover have "safe_change db2 db'"
      using insert_user_role_ok [OF parts(3)] parts(4,5) by (simp add: safe_same)
    ultimately show ?thesis using Pair safe_trans by auto
  qed
qed

lemma safe_seed: "seed_authorization_model t db = Inr db' \<Longrightarrow> safe_change db db'"
  by (auto dest!: seed_frame intro!: safe_same)

lemmas safe_ops =
  safe_seed safe_bootstrap safe_login safe_authenticate safe_revoke safe_begin_totp safe_confirm_totp safe_step_up
  safe_create_user safe_frames safe_set_linux_identity safe_revoke_session safe_reset_totp

lemma safe_step: "policy_ok (ae_policy env) \<Longrightarrow> auth_step env db db' \<Longrightarrow> safe_change db db'"
  by (erule auth_step.cases) (simp_all add: safe_ops)

section \<open>Runs\<close>

definition auth_start :: "'n auth_env \<Rightarrow> auth_db \<Rightarrow> bool" where
  "auth_start env db \<longleftrightarrow> policy_ok (ae_policy env) \<and> db_users db = [] \<and> db_sessions db = []"

lemma start_inv: "auth_start env db \<Longrightarrow> auth_inv db"
  by (simp add: auth_start_def auth_inv_def)

lemma step_keeps_inv: "policy_ok (ae_policy env) \<Longrightarrow> auth_step env db db' \<Longrightarrow> auth_inv db \<Longrightarrow> auth_inv db'"
  using safe_step unfolding safe_change_def by blast

interpretation auth_sys: inv_system "auth_start env" "\<lambda>db db'. policy_ok (ae_policy env) \<and> auth_step env db db'" auth_inv
  for env
  by unfold_locales (auto intro: start_inv step_keeps_inv)

definition auth_run :: "'n auth_env \<Rightarrow> auth_db \<Rightarrow> auth_db \<Rightarrow> bool" where
  "auth_run env = (\<lambda>db db'. policy_ok (ae_policy env) \<and> auth_step env db db')\<^sup>*\<^sup>*"

lemma auth_run_inv: "auth_run env db db' \<Longrightarrow> auth_inv db \<Longrightarrow> auth_inv db'"
  unfolding auth_run_def by (rule auth_sys.run_inv)

lemma auth_run_sessions: "auth_run env db db' \<Longrightarrow> sh.evolves (db_sessions db) (db_sessions db')"
  unfolding auth_run_def by (erule sh.run_evolves) (auto simp: safe_change_def dest: safe_step)

lemma auth_run_users: "auth_run env db db' \<Longrightarrow> uh.evolves (db_users db) (db_users db')"
  unfolding auth_run_def by (erule uh.run_evolves) (auto simp: safe_change_def dest: safe_step)

end
