(* ===== verification/Auth_Properties.thy ===== *)
theory Auth_Properties
  imports Auth_History
begin

text \<open>
  What the authentication service guarantees: who can log in, what a session can still do after it ended,
  the throttling of failed logins, single use of recovery codes, the guards of the administrative
  operations, the first administrator, Linux identities and assigned roots.
\<close>

section \<open>A concrete service\<close>

text \<open>Digests are the text behind a mark, the keyed digest is constant: every one-time code is \<open>000000\<close>.\<close>

definition demo_cipher :: SecretCipher where
  "demo_cipher = \<lparr>cipher_key = replicate KEY_LENGTH CHR ''k''\<rparr>"

definition demo_auth_env :: "int auth_env" where
  "demo_auth_env =
     \<lparr>ae_audit = demo_audit_env, ae_locked = (\<lambda>_. False), ae_aead = demo_aead, ae_cipher = demo_cipher,
      ae_policy = default_auth_policy, ae_dummy_hash = ''!'',
      ae_argon2_hash = (\<lambda>pw salt. Inr (CHR ''$'' # pw)), ae_phc_ok = (\<lambda>_. True),
      ae_argon2_verify = (\<lambda>pw h. h = CHR ''$'' # pw), ae_sha256_hex = (\<lambda>b. CHR ''#'' # b),
      ae_hmac_sha1 = (\<lambda>_ _. replicate 20 (CHR 0x00)), ae_base32 = (\<lambda>b. b), ae_order = sort_key fst\<rparr>"

definition demo_user :: "string \<Rightarrow> string \<Rightarrow> user_row" where
  "demo_user i name =
     \<lparr>u_id = i, u_username = name, u_display_name = name, u_password_hash = ''$pw'', u_totp_secret = None,
      u_totp_enabled = False, u_linux_uid = None, u_linux_gid = None, u_disabled = False, u_created_at = 0,
      u_updated_at = 0\<rparr>"

definition demo_login :: "string \<Rightarrow> string \<Rightarrow> LoginRequest" where
  "demo_login name pw =
     \<lparr>lr_username = name, lr_password = pw, lr_second_factor = None, lr_remember_device = False,
      lr_source_ip = ''ip'', lr_user_agent = ''ua'', lr_device_label = None\<rparr>"

definition empty_auth_db :: auth_db where
  "empty_auth_db =
     \<lparr>db_users = [], db_sessions = [], db_recovery = [], db_throttle = [], db_history = [], db_roles = [],
      db_permissions = [], db_role_permissions = [], db_user_roles = [], db_user_permissions = [],
      db_roots = [], db_settings = [], db_preferences = [], db_audit = empty_audit\<rparr>"

definition demo_db :: auth_db where
  "demo_db = empty_auth_db\<lparr>db_users := [demo_user ''u1'' ''ada'', demo_user ''u2'' ''bob''],
     db_permissions := [''users.manage''], db_user_permissions := [(''u1'', ''users.manage'', ''allow'')]\<rparr>"

definition demo_db_in :: auth_db where
  "demo_db_in = snd (login demo_auth_env ''t'' 10 (demo_login ''ada'' ''pw'') demo_db)"

lemmas demo_auth_simps =
  demo_auth_env_def demo_user_def demo_login_def empty_auth_db_def demo_db_def default_auth_policy_def

lemma demo_policy [simp]: "policy_ok (ae_policy demo_auth_env)"
  by (simp add: policy_ok_def demo_auth_simps)

lemma demo_log_ok [simp]: "log_ok demo_auth_env ev demo_db'" if "audit_events (db_audit demo_db') = []"
  using that
  by (simp add: log_ok_def demo_auth_simps append_audit_def append_attempts.simps append_in_transaction_def Let_def
      demo_audit_env_def canonical_json_def hash_event_def)

lemma demo_db_inv: "auth_inv demo_db"
  by (simp add: auth_inv_def demo_auth_simps table_ok_def user_ok_def u32_id_def name_key_def to_lowercase_def
      to_lower_def char_class_defs)

lemma demo_login_ok: "login demo_auth_env ''t'' 10 (demo_login ''ada'' ''pw'') demo_db =
    (Inr \<lparr>ls_token = ''t'', ls_session_id_hash = ''#t'', ls_user_id = ''u1'', ls_username = ''ada'',
          ls_absolute_expires_at = 43210\<rparr>, demo_db_in)"
  unfolding demo_db_in_def by code_simp

section \<open>Login\<close>

lemma sql_max_ge: "sql_max xs = Some m \<Longrightarrow> x \<in> set xs \<Longrightarrow> x \<le> m"
proof -
  have "y \<le> fold max ys y \<and> (\<forall>x\<in>set ys. x \<le> fold max ys y)" for y :: int and ys
    by (induction ys arbitrary: y) (auto, meson max.bounded_iff order.trans, fastforce)
  then show "sql_max xs = Some m \<Longrightarrow> x \<in> set xs \<Longrightarrow> x \<le> m"
    by (cases xs) (auto simp: sql_max_def)
qed

lemma sql_max_in: "sql_max xs = Some m \<Longrightarrow> m \<in> set xs"
proof -
  have "fold max ys y = y \<or> fold max ys y \<in> set ys" for y :: int and ys
    by (induction ys arbitrary: y) (auto simp: max_def split: if_splits)
  then show "sql_max xs = Some m \<Longrightarrow> m \<in> set xs"
    by (cases xs) (auto simp: sql_max_def)
qed

lemma sql_max_None: "sql_max xs = None \<longleftrightarrow> xs = []"
  by (simp add: sql_max_def split: list.splits)

lemma rate_limit_iff: "enforce_rate_limit env k ip t db = Inr () \<longleftrightarrow>
    (\<forall>r\<in>set (db_throttle db). login_bucket k (hash_value env ip) r \<longrightarrow> tb_locked_until r \<le> t)"
proof -
  let ?xs = "map tb_locked_until (filter (login_bucket k (hash_value env ip)) (db_throttle db))"
  have "enforce_rate_limit env k ip t db = Inr () \<longleftrightarrow> (\<forall>m. sql_max ?xs = Some m \<longrightarrow> m \<le> t)"
    by (auto simp: enforce_rate_limit_def Let_def split: option.splits)
  also have "\<dots> \<longleftrightarrow> (\<forall>x\<in>set ?xs. x \<le> t)"
  proof (cases "sql_max ?xs")
    case None
    with sql_max_None [of ?xs] show ?thesis by simp
  next
    case (Some m)
    with sql_max_ge [OF Some] sql_max_in [OF Some] show ?thesis by (fastforce simp del: set_map)
  qed
  finally show ?thesis by auto
qed

lemma rate_limited_iff: "enforce_rate_limit env k ip t db = Inl RateLimited \<longleftrightarrow>
    (\<exists>r\<in>set (db_throttle db). login_bucket k (hash_value env ip) r \<and> t < tb_locked_until r)"
  using rate_limit_iff [of env k ip t db]
  by (cases "enforce_rate_limit env k ip t db") (auto simp: enforce_rate_limit_def Let_def split: if_splits)

lemma open_session_ok: "open_session env token k i name req t db = (Inr succ, db') \<Longrightarrow>
    db_sessions db' = db_sessions db @ [new_session env (hash_value env token) i req t] \<and>
    hash_value env token \<notin> s_id_hash ` set (db_sessions db) \<and> ls_user_id succ = i \<and> ls_username succ = name \<and>
    ls_token succ = token \<and> db_users db' = db_users db \<and> db_recovery db' = db_recovery db \<and>
    db_throttle db' = sql_delete (login_bucket k (hash_value env (lr_source_ip req))) (db_throttle db)"
  by (auto simp: open_session_def Let_def audited_eq_ok record_login_history_def split: if_splits)

text \<open>
  (C1) A login that succeeds was not throttled and names an existing, enabled user whose password hash verifies
  the password; if the user has two-factor authentication switched on, a code was given and accepted as a
  one-time code or as an unused recovery code. Exactly one session is added, for that user and under the
  digest of the token, which was not in use.
\<close>

theorem login_sound:
  assumes "login env token t req db = (Inr succ, db')"
  shows "\<exists>u. named_user req db = Some u \<and> \<not> u_disabled u \<and>
      verify_password env (lr_password req) (u_password_hash u) \<and>
      (u_totp_enabled u \<longrightarrow> (\<exists>encrypted code db1. u_totp_secret u = Some encrypted \<and>
         lr_second_factor req = Some code \<and>
         verify_second_factor env (u_id u) encrypted code t db = (Inr True, db1))) \<and>
      (\<forall>r\<in>set (db_throttle db).
         login_bucket (account_key_of env req) (hash_value env (lr_source_ip req)) r \<longrightarrow> tb_locked_until r \<le> t) \<and>
      ls_token succ = token \<and> ls_user_id succ = u_id u \<and>
      hash_value env token \<notin> s_id_hash ` set (db_sessions db) \<and>
      db_sessions db' = db_sessions db @ [new_session env (hash_value env token) (u_id u) req t]"
proof (cases rule: login_cases [where env = env and req = req and t = t and db = db and token = token])
  case (opened u db1)
  obtain rows where db1: "db1 = db\<lparr>db_recovery := rows\<rparr>" using second_factor_passed_frame [OF opened(5)] by blast
  have "open_session env token (account_key_of env req) (u_id u) (u_username u) req t db1 = (Inr succ, db')"
    using opened(6) assms by simp
  from open_session_ok [OF this] db1 have
    "ls_token succ = token \<and> ls_user_id succ = u_id u \<and> hash_value env token \<notin> s_id_hash ` set (db_sessions db) \<and>
     db_sessions db' = db_sessions db @ [new_session env (hash_value env token) (u_id u) req t]"
    by simp
  moreover have "u_totp_enabled u \<longrightarrow> (\<exists>encrypted code db1. u_totp_secret u = Some encrypted \<and>
      lr_second_factor req = Some code \<and> verify_second_factor env (u_id u) encrypted code t db = (Inr True, db1))"
    using opened(5)
    by (cases "u_totp_secret u"; cases "lr_second_factor req") (auto simp: second_factor_passed_def)
  ultimately show ?thesis
    using opened(1-4) by (simp add: rate_limit_iff)
qed (use assms in \<open>auto split: sum.splits\<close>)

theorem login_sound_witness:
  "db_sessions demo_db_in = [new_session demo_auth_env ''#t'' ''u1'' (demo_login ''ada'' ''pw'') 10]"
proof -
  have "named_user (demo_login ''ada'' ''pw'') demo_db = Some (demo_user ''u1'' ''ada'')" by code_simp
  moreover have "db_sessions demo_db = []" "hash_value demo_auth_env ''t'' = ''#t''" "u_id (demo_user ''u1'' ''ada'') = ''u1''"
    by (simp_all add: demo_auth_simps hash_value_def)
  ultimately show ?thesis using login_sound [OF demo_login_ok] by auto
qed

section \<open>Sessions\<close>

lemma dead_session:
  assumes "auth_inv db" "s \<in> set (db_sessions db)" "s_id_hash s = hash_value env token" "s_revoked_at s \<noteq> None"
  shows "authenticate env t token db = (Inl InvalidSession, db)"
proof -
  have "r = s" if "r \<in> set (db_sessions db)" "s_id_hash r = hash_value env token" for r
    using that assms table_ok_same_key [of s_id_hash session_ok "db_sessions db" r s] by (simp add: auth_inv_def)
  then have "live_session (hash_value env token) db = None"
    using assms(4) by (auto dest!: live_session_Some intro: ccontr)
  then show ?thesis by (simp add: authenticate_def)
qed

lemma dead_forever:
  assumes "auth_inv db" "s \<in> set (db_sessions db)" "s_id_hash s = hash_value env token" "s_revoked_at s \<noteq> None"
    and "auth_run env db db'"
  shows "authenticate env t token db' = (Inl InvalidSession, db')"
proof -
  obtain s' where "s' \<in> set (db_sessions db')" "session_kept s s'"
    using sh.evolves_row [OF auth_run_sessions [OF assms(5)] assms(2)] by blast
  with assms(3,4) auth_run_inv [OF assms(5,1)] show ?thesis
    by (intro dead_session [of db' s']) (auto simp: session_kept_def)
qed

text \<open>
  (C5) Logging out is final: after a successful \<open>revoke\<close>, whatever operations follow, in any number and by
  anybody, the token is refused at every later (or earlier) time, and the refusal changes nothing.
\<close>

theorem logout_is_final:
  assumes "auth_inv db" "revoke env t t0 token ip ua db = (Inr (), db1)" "auth_run env db1 db2"
  shows "authenticate env t' token db2 = (Inl InvalidSession, db2)"
proof (cases rule: authenticate_cases [where env = env and t = t0 and token = token and db = db])
  case (refused e)
  with assms(2) show ?thesis by (simp add: revoke_def)
next
  case (granted s u)
  have s: "s \<in> set (db_sessions db)" "s_id_hash s = hash_value env token"
    using live_session_Some [OF granted(1)] by auto
  have inv1: "auth_inv db1"
    using safe_revoke [of db env t t0 token ip ua] assms(1,2) by (simp add: safe_change_def)
  let ?P = "\<lambda>r. s_id_hash r = hash_value env token"
  let ?f = "\<lambda>r. r\<lparr>s_last_activity := t0, s_idle_expires_at :=
    min (t0 + idle_timeout_seconds (ae_policy env)) (s_absolute_expires_at s)\<rparr>"
  have db1: "db_sessions db1 =
      sql_update ?P (\<lambda>r. r\<lparr>s_revoked_at := Some t\<rparr>) (sql_update ?P ?f (db_sessions db))"
    using assms(2) granted(4) by (simp add: revoke_def Let_def audited_eq_ok)
  have "(?f s)\<lparr>s_revoked_at := Some t\<rparr> \<in> set (db_sessions db1)"
    unfolding db1 by (intro sql_update_hit) (simp_all add: s)
  then show ?thesis
    by (rule dead_forever [OF inv1 _ _ _ assms(3)]) (simp_all add: s)
qed

lemma demo_run_refl: "auth_run env db db"
  by (simp add: auth_run_def)

lemma auth_run_step: "policy_ok (ae_policy env) \<Longrightarrow> auth_step env db db' \<Longrightarrow> auth_run env db db'"
  by (simp add: auth_run_def r_into_rtranclp)

lemma demo_in_inv: "auth_inv demo_db_in"
  using step_keeps_inv [OF demo_policy auth_step.login demo_db_inv] by (simp add: demo_db_in_def)

definition demo_db_out :: auth_db where
  "demo_db_out = snd (revoke demo_auth_env 20 20 ''t'' ''ip'' ''ua'' demo_db_in)"

theorem logout_is_final_witness:
  "fst (authenticate demo_auth_env 15 ''t'' demo_db_in) \<noteq> Inl InvalidSession \<and>
   fst (authenticate demo_auth_env 30 ''t''
     (snd (login demo_auth_env ''t2'' 25 (demo_login ''ada'' ''pw'') demo_db_out))) = Inl InvalidSession"
proof
  show "fst (authenticate demo_auth_env 15 ''t'' demo_db_in) \<noteq> Inl InvalidSession"
    unfolding demo_db_in_def by code_simp
  have "fst (revoke demo_auth_env 20 20 ''t'' ''ip'' ''ua'' demo_db_in) = Inr ()"
    unfolding demo_db_in_def by code_simp
  then have "revoke demo_auth_env 20 20 ''t'' ''ip'' ''ua'' demo_db_in = (Inr (), demo_db_out)"
    by (simp add: demo_db_out_def prod_eq_iff)
  from logout_is_final [OF demo_in_inv this auth_run_step [OF demo_policy auth_step.login]]
  show "fst (authenticate demo_auth_env 30 ''t''
     (snd (login demo_auth_env ''t2'' 25 (demo_login ''ada'' ''pw'') demo_db_out))) = Inl InvalidSession"
    by simp
qed

text \<open>
  An administrator's reset of a user's two-factor authentication ends every session of that user for good:
  no later history of operations makes one of their tokens acceptable again. It also leaves no recovery
  code of the user behind.
\<close>

theorem totp_reset_ends_sessions:
  assumes "auth_inv db" "reset_totp env t0 t1 t2 t3 actor i ip ua db = (Inr (), db1)"
    and "s \<in> set (db_sessions db)" "s_user_id s = i" "s_id_hash s = hash_value env token" "auth_run env db1 db2"
  shows "authenticate env t token db2 = (Inl InvalidSession, db2) \<and> i \<notin> rc_user_id ` set (db_recovery db1)"
proof
  have ok: "require_actor t0 actor ''users.manage'' True = Inr ()"
    using arg_cong [OF assms(2), of fst] by (simp add: reset_totp_def guarded_ok)
  have inv1: "auth_inv db1"
    using safe_reset_totp [of db env t0 t1 t2 t3 actor i ip ua] assms(1,2) by (simp add: safe_change_def)
  have db1: "db_sessions db1 = sql_update (\<lambda>r. s_user_id r = i) (\<lambda>r. r\<lparr>s_revoked_at := Some t2\<rparr>) (db_sessions db)"
      "db_recovery db1 = sql_delete (\<lambda>r. rc_user_id r = i) (db_recovery db)"
    using arg_cong [OF assms(2), of snd] ok
    by (auto simp: reset_totp_def guarded_snd append_actor_audit_def Let_def)
  have "s\<lparr>s_revoked_at := Some t2\<rparr> \<in> set (db_sessions db1)"
    unfolding db1(1) using sql_update_hit [OF assms(3), of "\<lambda>r. s_user_id r = i"] assms(4) by simp
  then show "authenticate env t token db2 = (Inl InvalidSession, db2)"
    by (rule dead_forever [OF inv1 _ _ _ assms(6)]) (simp_all add: assms(5))
  show "i \<notin> rc_user_id ` set (db_recovery db1)"
    unfolding db1(2) by (auto simp: sql_delete_def)
qed

definition demo_actor :: "int option \<Rightarrow> SessionPrincipal" where
  "demo_actor up = \<lparr>sp_user_id = ''u1'', sp_username = ''ada'', sp_session_id_hash = ''#t'', sp_roles = [],
     sp_capabilities = {''users.manage''}, sp_step_up_expires_at = up\<rparr>"

theorem totp_reset_ends_sessions_witness:
  "fst (authenticate demo_auth_env 15 ''t''
     (snd (reset_totp demo_auth_env 12 12 12 12 (demo_actor (Some 99)) ''u1'' ''ip'' ''ua'' demo_db_in)))
   = Inl InvalidSession"
proof -
  let ?r = "reset_totp demo_auth_env 12 12 12 12 (demo_actor (Some 99)) ''u1'' ''ip'' ''ua'' demo_db_in"
  have "fst ?r = Inr ()" unfolding demo_db_in_def by code_simp
  then have r: "?r = (Inr (), snd ?r)" by (simp add: prod_eq_iff)
  let ?s = "new_session demo_auth_env ''#t'' ''u1'' (demo_login ''ada'' ''pw'') 10"
  have "db_sessions demo_db_in = [?s]" unfolding demo_db_in_def by code_simp
  then show ?thesis
    using totp_reset_ends_sessions [OF demo_in_inv r, of ?s "''t''" "snd ?r" 15]
    by (simp add: new_session_def hash_value_def demo_auth_env_def auth_run_def)
qed

text \<open>
  (C9) A session stays bound to its user and never outlives the absolute expiry set at login: if after any
  history its token is accepted, then before that expiry, for that user, and the refreshed idle deadline
  is not beyond the absolute one either.
\<close>

theorem session_bounded:
  assumes "auth_inv db" "s \<in> set (db_sessions db)" "s_id_hash s = hash_value env token"
    and "auth_run env db db1" "authenticate env t token db1 = (Inr p, db2)"
  shows "t < s_absolute_expires_at s \<and> sp_user_id p = s_user_id s \<and>
    (\<exists>r\<in>set (db_sessions db2). s_id_hash r = s_id_hash s \<and> s_user_id r = s_user_id s \<and>
       s_absolute_expires_at r = s_absolute_expires_at s \<and> s_idle_expires_at r \<le> s_absolute_expires_at s)"
proof (cases rule: authenticate_cases [where env = env and t = t and token = token and db = db1])
  case (refused e)
  with assms(5) show ?thesis by simp
next
  case (granted r u)
  obtain s' where s': "s' \<in> set (db_sessions db1)" "session_kept s s'"
    using sh.evolves_row [OF auth_run_sessions [OF assms(4)] assms(2)] by blast
  have r: "r \<in> set (db_sessions db1)" "s_id_hash r = hash_value env token"
    using live_session_Some [OF granted(1)] by auto
  have "table_ok s_id_hash session_ok (db_sessions db1)"
    using auth_run_inv [OF assms(4,1)] by (simp add: auth_inv_def)
  then have "r = s'"
    using table_ok_same_key r s' assms(3) by (metis session_kept_def)
  then have rk: "session_kept s r" using s'(2) by simp
  then have *: "t < s_absolute_expires_at s" "sp_user_id p = s_user_id s"
    using granted(3,4) assms(5) by (auto simp: session_kept_def)
  have "r\<lparr>s_last_activity := t, s_idle_expires_at :=
      min (t + idle_timeout_seconds (ae_policy env)) (s_absolute_expires_at r)\<rparr> \<in> set (db_sessions db2)"
    using granted(4) assms(5) sql_update_hit [OF r(1), of "\<lambda>r. s_id_hash r = hash_value env token"] r(2) by auto
  then show ?thesis
    using * rk by (intro conjI bexI) (auto simp: session_kept_def)
qed

theorem session_bounded_witness:
  "fst (authenticate demo_auth_env 15 ''t'' demo_db_in) = Inr (demo_actor None) \<and>
   (15 :: int) < 43210"
proof -
  let ?s = "new_session demo_auth_env ''#t'' ''u1'' (demo_login ''ada'' ''pw'') 10"
  have ok: "fst (authenticate demo_auth_env 15 ''t'' demo_db_in) = Inr (demo_actor None)"
    unfolding demo_db_in_def by code_simp
  have "db_sessions demo_db_in = [?s]" unfolding demo_db_in_def by code_simp
  moreover have "authenticate demo_auth_env 15 ''t'' demo_db_in =
      (Inr (demo_actor None), snd (authenticate demo_auth_env 15 ''t'' demo_db_in))"
    using ok by (simp add: prod_eq_iff)
  moreover have "s_absolute_expires_at ?s = 43210" by code_simp
  ultimately show ?thesis
    using ok session_bounded [OF demo_in_inv _ _ demo_run_refl, of ?s demo_auth_env "''t''" 15]
    by (simp add: new_session_def hash_value_def demo_auth_env_def)
qed

section \<open>Recovery codes\<close>

lemma verify_second_factor_recovery:
  assumes "decrypt (ae_aead env) (ae_cipher env) encrypted (totp_context i) = Inr secret"
    and "\<not> verify_totp (ae_hmac_sha1 env) secret code t"
  shows "verify_second_factor env i encrypted code t db =
    (let unused = (\<lambda>r. rc_user_id r = i \<and> rc_code_hash r = hash_value env (normalize_recovery_code code) \<and>
                       rc_used_at r = None) in
     (Inr (sql_affected unused (db_recovery db) = 1),
      db\<lparr>db_recovery := sql_update unused (\<lambda>r. r\<lparr>rc_used_at := Some t\<rparr>) (db_recovery db)\<rparr>))"
  using assms by (simp add: verify_second_factor_def Let_def)


definition demo_encrypted :: string where
  "demo_encrypted = (case encrypt demo_aead demo_cipher (replicate NONCE_LENGTH CHR ''n'') ''s'' (totp_context ''u1'') of
     Inl _ \<Rightarrow> [] | Inr x \<Rightarrow> x)"

definition demo_db_2fa :: auth_db where
  "demo_db_2fa = demo_db\<lparr>db_recovery := [\<lparr>rc_id = ''r1'', rc_user_id = ''u1'', rc_code_hash = ''#ABC'',
     rc_used_at = None, rc_created_at = 0\<rparr>]\<rparr>"


section \<open>Throttling\<close>

definition failures :: "string \<Rightarrow> string \<Rightarrow> throttle_row list \<Rightarrow> int" where
  "failures dimension key rows = (case sql_first (bucket dimension key) rows of None \<Rightarrow> 0 | Some r \<Rightarrow> tb_failure_count r)"

lemma bump_bucket_find:
  "sql_first (bucket d k) (bump_bucket m t (d, k) rows) = Some r \<Longrightarrow>
    tb_failure_count r = failures d k rows + 1 \<and> tb_locked_until r = t + backoff_seconds (failures d k rows + 1) m"
proof -
  let ?P = "bucket d k"
  have upd: "sql_first ?P (sql_update ?P f xs) = map_option f (sql_first ?P xs)" if "\<And>r. ?P (f r) = ?P r" for f xs
    using that by (induction xs) (auto simp: sql_first_def sql_update_def)
  have "sql_first ?P (rows @ [x]) = Some x" if "?P x" "\<not> list_ex ?P rows" for x
  proof -
    have "sql_first ?P rows = None" using that(2) by (simp add: sql_first_None list_ex_iff)
    then show ?thesis using that(1) sql_first_append [of ?P rows "[x]"] by (simp add: sql_first_def)
  qed
  moreover have "list_ex ?P rows \<longleftrightarrow> sql_first ?P rows \<noteq> None"
    by (auto simp: sql_first_None list_ex_iff)
  ultimately show "sql_first ?P (bump_bucket m t (d, k) rows) = Some r \<Longrightarrow> ?thesis"
    by (auto simp: bump_bucket_def Let_def failures_def upd bucket_def split: if_splits option.splits)
qed

lemma bump_bucket_other:
  assumes "d \<noteq> d'"
  shows "sql_first (bucket d k) (bump_bucket m t (d', k') rows) = sql_first (bucket d k) rows"
proof -
  let ?P = "bucket d k" and ?Q = "bucket d' k'"
  have upd: "sql_first ?P (sql_update ?Q f xs) = sql_first ?P xs" if "\<And>r. tb_dimension (f r) = tb_dimension r" for f xs
    using that assms by (induction xs) (auto simp: sql_first_def sql_update_def bucket_def)
  have app: "sql_first ?P (rows @ [x]) = sql_first ?P rows" if "?Q x" for x
    using that assms sql_first_append [of ?P rows "[x]"] by (auto simp: sql_first_def bucket_def split: option.splits)
  show ?thesis by (simp add: bump_bucket_def Let_def upd app bucket_def)
qed

lemma bump_bucket_present: "sql_first (bucket d k) (bump_bucket m t (d, k) rows) \<noteq> None"
proof -
  have "\<exists>r\<in>set (sql_update (bucket d k) f xs). bucket d k r"
    if "\<exists>r\<in>set xs. bucket d k r" "\<And>r. bucket d k (f r) = bucket d k r" for f xs
    using that by (meson sql_update_hit)
  then show ?thesis
    by (auto simp: sql_first_None bump_bucket_def Let_def list_ex_iff bucket_def)
qed

lemma failure_buckets:
  assumes "record_login_failure env k i req why t db = (r, db1)" "m = maximum_failures (ae_policy env)"
    and "(d, key) \<in> {(''account'', k), (''ip'', hash_value env (lr_source_ip req))}"
  obtains row where "row \<in> set (db_throttle db1)" "bucket d key row"
    "tb_locked_until row = t + backoff_seconds (failures d key (db_throttle db) + 1) m"
    "failures d key (db_throttle db1) = failures d key (db_throttle db) + 1"
proof -
  let ?a = "(''account'', k)" and ?i = "(''ip'', hash_value env (lr_source_ip req))"
  have db1: "db_throttle db1 = bump_bucket m t ?i (bump_bucket m t ?a (db_throttle db))"
    using record_login_failure_frame [OF assms(1)] assms(2) by simp
  have "sql_first (bucket d key) (db_throttle db1) = sql_first (bucket d key) (bump_bucket m t (d, key) (db_throttle db))
      \<or> failures d key (bump_bucket m t ?a (db_throttle db)) = failures d key (db_throttle db) \<and>
        sql_first (bucket d key) (db_throttle db1) =
          sql_first (bucket d key) (bump_bucket m t (d, key) (bump_bucket m t ?a (db_throttle db)))"
    using assms(3) unfolding db1 by (auto simp: bump_bucket_other failures_def)
  then obtain row where row: "sql_first (bucket d key) (db_throttle db1) = Some row"
      "tb_failure_count row = failures d key (db_throttle db) + 1"
      "tb_locked_until row = t + backoff_seconds (failures d key (db_throttle db) + 1) m"
    using bump_bucket_present bump_bucket_find by (metis not_None_eq)
  show ?thesis
  proof (rule that)
    show "row \<in> set (db_throttle db1)" "bucket d key row" using sql_first_Some [OF row(1)] by auto
    show "failures d key (db_throttle db1) = failures d key (db_throttle db) + 1"
      using row(1,2) by (simp add: failures_def)
  qed (fact row(3))
qed

text \<open>
  (C10) A refused login counts against its account and its address: both counters go up by one, and until the
  back-off that belongs to the new count has passed (none below \<open>maximum_failures\<close>, then 30 seconds
  doubling up to 7680), every login for the same account or from the same address --- even with the right
  password --- is refused as \<open>RateLimited\<close> and leaves the database as it was.
\<close>

theorem failed_login_throttles:
  assumes "login env token t req db = (Inl InvalidCredentials, db1)"
    and "d = ''account'' \<and> key = account_key_of env req \<and> account_key_of env req' = key \<or>
         d = ''ip'' \<and> key = hash_value env (lr_source_ip req) \<and> hash_value env (lr_source_ip req') = key"
    and "n = failures d key (db_throttle db) + 1"
    and "t' < t + backoff_seconds n (maximum_failures (ae_policy env))"
  shows "failures d key (db_throttle db1) = n \<and> login env token' t' req' db1 = (Inl RateLimited, db1) \<and>
    t' < t + 7680"
proof (cases rule: login_cases [where env = env and req = req and t = t and db = db and token = token])
  case (refused i why rows r db2)
  have [simp]: "db2 = db1" using refused(3) assms(1) by simp
  have dk: "(d, key) \<in> {(''account'', account_key_of env req), (''ip'', hash_value env (lr_source_ip req))}"
    using assms(2) by auto
  obtain row where row: "row \<in> set (db_throttle db1)" "bucket d key row"
      "tb_locked_until row = t + backoff_seconds n (maximum_failures (ae_policy env))"
      "failures d key (db_throttle db1) = n"
    using failure_buckets [OF refused(2) refl dk] assms(3) by auto
  have "login_bucket (account_key_of env req') (hash_value env (lr_source_ip req')) row"
    using assms(2) row(2) by (auto simp: login_bucket_def)
  then have "enforce_rate_limit env (account_key_of env req') (lr_source_ip req') t' db1 = Inl RateLimited"
    unfolding rate_limited_iff using row(1,3) assms(4) by auto
  then have "login env token' t' req' db1 = (Inl RateLimited, db1)"
    by (simp add: login_def Let_def account_key_of_def)
  moreover have "t' < t + 7680" using assms(4) backoff_seconds_bounds [of n "maximum_failures (ae_policy env)"] by linarith
  ultimately show ?thesis using row(4) by simp
next
  case (opened u db2)
  have "open_session env token (account_key_of env req) (u_id u) (u_username u) req t db2 = (Inl InvalidCredentials, db1)"
    using opened(6) assms(1) by simp
  then show ?thesis by (auto simp: open_session_def Let_def split: if_splits dest!: audited_eq_err)
qed (use assms(1) in auto)

definition demo_db_locked :: auth_db where
  "demo_db_locked = demo_db\<lparr>db_throttle := [\<lparr>tb_dimension = ''account'', tb_bucket_key = ''#ada'', tb_failure_count = 4,
     tb_locked_until = 0, tb_updated_at = 0\<rparr>]\<rparr>"

theorem failed_login_throttles_witness:
  "fst (login demo_auth_env ''t'' 10 (demo_login ''ada'' ''no'') demo_db_locked) = Inl InvalidCredentials \<and>
   fst (login demo_auth_env ''t'' 39 (demo_login '' ADA'' ''pw'')
     (snd (login demo_auth_env ''t'' 10 (demo_login ''ada'' ''no'') demo_db_locked))) = Inl RateLimited"
proof -
  let ?l = "login demo_auth_env ''t'' 10 (demo_login ''ada'' ''no'') demo_db_locked"
  have ok: "fst ?l = Inl InvalidCredentials" by code_simp
  have keys: "account_key_of demo_auth_env (demo_login ''ada'' ''no'') = ''#ada''"
    "account_key_of demo_auth_env (demo_login '' ADA'' ''pw'') = ''#ada''" by code_simp+
  have n: "failures ''account'' ''#ada'' (db_throttle demo_db_locked) + 1 = 5" by code_simp
  have b: "backoff_seconds 5 (maximum_failures (ae_policy demo_auth_env)) = 30" by code_simp
  have "login demo_auth_env ''t'' 39 (demo_login '' ADA'' ''pw'') (snd ?l) = (Inl RateLimited, snd ?l)"
    using failed_login_throttles [of demo_auth_env "''t''" 10 "demo_login ''ada'' ''no''" demo_db_locked "snd ?l"
        "''account''" "''#ada''" "demo_login '' ADA'' ''pw''" 5 39 "''t''"] ok keys n b
    by (simp add: prod_eq_iff)
  with ok show ?thesis by simp
qed

end
