(* ===== verification/Auth_Admin.thy ===== *)
theory Auth_Admin
  imports Auth_Properties
begin

text \<open>
  The administrative side of the authentication service: the guards in front of every privileged operation,
  the first administrator and the capabilities of its role, capabilities that are denied, Linux identities,
  assigned roots and the two-factor columns.
\<close>

section \<open>Guards\<close>

lemma guarded_denied: "\<not> principal_can actor c \<Longrightarrow> guarded t actor c body db = (Inl PermissionDenied, db)"
  by (simp add: guarded_def require_actor_def)

lemma guarded_stale: "principal_can actor c \<Longrightarrow> \<not> has_fresh_step_up t actor \<Longrightarrow>
    guarded t actor c body db = (Inl StepUpRequired, db)"
  by (simp add: guarded_def require_actor_def)

definition refusal :: "int \<Rightarrow> SessionPrincipal \<Rightarrow> string \<Rightarrow> AuthError" where
  "refusal t actor c = (if principal_can actor c then StepUpRequired else PermissionDenied)"

lemma guarded_refused: "\<not> (principal_can actor c \<and> has_fresh_step_up t actor) \<Longrightarrow>
    guarded t actor c body db = (Inl (refusal t actor c), db)"
  by (auto simp: refusal_def guarded_denied guarded_stale)



section \<open>The first administrator\<close>

lemma fold_allow: "(\<forall>r\<in>set rows. snd r \<noteq> ''deny'') \<Longrightarrow> fold apply_effect rows caps = caps \<union> fst ` set rows"
  by (induction rows arbitrary: caps) (auto simp: apply_effect_def split: prod.splits)

lemma insert_ignore_set [simp]: "set (insert_ignore x xs) = insert x (set xs)"
  by (auto simp: insert_ignore_def)

lemma grant_all_grants:
  "grant_all gs db = Inr db' \<Longrightarrow> set (db_role_permissions db') = set gs \<union> set (db_role_permissions db)"
  by (induction gs db rule: grant_all.induct)
    (auto simp: res_bind_ok grant_role_def split: if_splits)

lemma seed_grants: "seed_authorization_model t db = Inr db' \<Longrightarrow> c \<in> set CAPABILITIES \<Longrightarrow>
    (''administrator'', c) \<in> set (db_role_permissions db')"
  unfolding seed_authorization_model_def Let_def by (drule grant_all_grants) simp

lemma no_second_bootstrap:
  assumes "db_users db \<noteq> []"
  shows "\<exists>e. bootstrap_administrator_configured env i salt t0 t name dname pw c ip ua db = (Inl e, db)"
proof (cases "bootstrap_administrator_configured env i salt t0 t name dname pw c ip ua db")
  case (Pair r db')
  show ?thesis
  proof (cases r)
    case (Inl e)
    with Pair bootstrap_err [of env i salt t0 t name dname pw c ip ua db] show ?thesis by simp
  next
    case (Inr j)
    with Pair obtain h where "bootstrap_transaction env i t0 t name dname h c ip ua db = Inr db'"
      by (auto simp: bootstrap_ok)
    then show ?thesis using assms by (auto elim: bootstrap_transaction_ok)
  qed
qed

text \<open>
  The first administrator can be created only once, and gets everything: a bootstrap that succeeds found no
  user, leaves exactly the new one with the administrator role, and --- since no permission of this user can
  have been denied yet --- the user holds every known capability, in whatever order the rows are read. After
  that, whatever happens, no bootstrap succeeds again, and a well-formed attempt is answered
  \<open>BootstrapComplete\<close>, provided the role model can be seeded.
\<close>

theorem bootstrap_once:
  assumes "bootstrap_administrator_configured env i salt t0 t name dname pw c ip ua db = (Inr j, db1)"
    and "\<forall>p\<in>set (db_user_permissions db). fst p \<noteq> i" "\<forall>rows. set (ae_order env rows) = set rows"
    and "auth_run env db1 db2"
  shows "db_users db = [] \<and> map u_id (db_users db1) = [i] \<and> set CAPABILITIES \<subseteq> capabilities_for_user env i db1 \<and>
    (\<forall>i' salt' t0' t' name' dname' pw' c' ip' ua'. \<exists>e.
       bootstrap_administrator_configured env i' salt' t0' t' name' dname' pw' c' ip' ua' db2 = (Inl e, db2))"
proof -
  obtain h where "bootstrap_transaction env i t0 t name dname h c ip ua db = Inr db1"
    using assms(1) by (auto simp: bootstrap_ok)
  then obtain d1 d2 d3 where parts: "seed_authorization_model t0 db = Inr d1" "db_users db = []"
    "insert_user (administrator i t name dname h c) d1 = Inr d2" "insert_user_role i ''administrator'' d2 = Inr d3"
    "db_users db1 = db_users d3" "db_user_roles db1 = db_user_roles d3"
    "db_role_permissions db1 = db_role_permissions d3" "db_user_permissions db1 = db_user_permissions d3"
    by (rule bootstrap_transaction_ok)
  have d1: "db_users d1 = []" "db_user_permissions d1 = db_user_permissions db"
    using seed_frame [OF parts(1)] parts(2) by auto
  have d2: "db_users d2 = [administrator i t name dname h c]" "db_user_permissions d2 = db_user_permissions db"
      "db_role_permissions d2 = db_role_permissions d1"
    using parts(3) d1 by (auto simp: insert_user_ok)
  have d3: "db_users d3 = db_users d2" "db_user_permissions d3 = db_user_permissions d2"
      "db_role_permissions d3 = db_role_permissions d2" "(i, ''administrator'') \<in> set (db_user_roles d3)"
    using insert_user_role_ok [OF parts(4)] by auto
  have ids: "map u_id (db_users db1) = [i]"
    by (simp add: parts(5) d3 d2 administrator_def new_user_def)
  let ?rows = "permission_rows i db1"
  have "fst ` set ?rows \<subseteq> capabilities_for_user env i db1"
  proof -
    have "\<forall>r\<in>set ?rows. snd r \<noteq> ''deny''"
      using assms(2) by (auto simp: permission_rows_def parts(8) d3 d2)
    then show ?thesis
      using assms(3) by (simp add: capabilities_for_user_def fold_allow)
  qed
  moreover have "c \<in> fst ` set ?rows" if "c \<in> set CAPABILITIES" for c
    using seed_grants [OF parts(1) that] d3 d2 by (force simp: permission_rows_def parts(6,7))
  ultimately have caps: "set CAPABILITIES \<subseteq> capabilities_for_user env i db1" by blast
  have "db_users db2 \<noteq> []"
    using uh.evolves_nonempty [OF auth_run_users [OF assms(4)]] ids by fastforce
  then have "\<exists>e. bootstrap_administrator_configured env i' salt' t0' t' name' dname' pw' c' ip' ua' db2 = (Inl e, db2)"
    for i' salt' t0' t' name' dname' pw' c' ip' ua'
    by (rule no_second_bootstrap)
  with parts(2) ids caps show ?thesis by blast
qed

theorem bootstrap_once_witness:
  "is_ok (fst (bootstrap_administrator demo_auth_env ''a'' [] 1 2 ''Root'' ''Root'' ''long password'' ''ip'' ''ua'' empty_auth_db)) \<and>
   \<not> is_ok (fst (bootstrap_administrator demo_auth_env ''b'' [] 3 4 ''Eve'' ''Eve'' ''long password'' ''ip'' ''ua''
     (snd (bootstrap_administrator demo_auth_env ''a'' [] 1 2 ''Root'' ''Root'' ''long password'' ''ip'' ''ua'' empty_auth_db))))"
proof -
  let ?b = "bootstrap_administrator_configured demo_auth_env ''a'' [] 1 2 ''Root'' ''Root'' ''long password''
    default_bootstrap ''ip'' ''ua'' empty_auth_db"
  have ok: "fst ?b = Inr ''a''" by code_simp
  then have b: "?b = (Inr ''a'', snd ?b)" by (simp add: prod_eq_iff)
  have "\<forall>p\<in>set (db_user_permissions empty_auth_db). fst p \<noteq> ''a''" "\<forall>rows. set (ae_order demo_auth_env rows) = set rows"
    by (simp_all add: empty_auth_db_def demo_auth_env_def)
  from bootstrap_once [OF b this demo_run_refl] obtain e where
    "bootstrap_administrator_configured demo_auth_env ''b'' [] 3 4 ''Eve'' ''Eve'' ''long password''
      default_bootstrap ''ip'' ''ua'' (snd ?b) = (Inl e, snd ?b)"
    by blast
  with ok show ?thesis by (simp add: bootstrap_administrator_def)
qed

section \<open>Denied capabilities\<close>

lemma fold_effect_cong: "(c \<in> A \<longleftrightarrow> c \<in> B) \<Longrightarrow> c \<in> fold apply_effect rs A \<longleftrightarrow> c \<in> fold apply_effect rs B"
proof (induction rs arbitrary: A B)
  case (Cons r rs)
  have "c \<in> apply_effect r A \<longleftrightarrow> c \<in> apply_effect r B"
    using Cons.prems by (cases r) (simp add: apply_effect_def)
  then have "c \<in> fold apply_effect rs (apply_effect r A) \<longleftrightarrow> c \<in> fold apply_effect rs (apply_effect r B)"
    by (rule Cons.IH)
  then show ?case by simp
qed simp

lemma fold_effect_same_name:
  "c \<in> fold apply_effect rows S \<longleftrightarrow> c \<in> fold apply_effect (filter (\<lambda>r. fst r = c) rows) S"
proof (induction rows arbitrary: S)
  case (Cons r rows)
  show ?case
  proof (cases "fst r = c")
    case True
    then show ?thesis using Cons.IH by simp
  next
    case False
    then have "c \<in> apply_effect r S \<longleftrightarrow> c \<in> S" by (cases r) (simp add: apply_effect_def)
    then show ?thesis using False Cons.IH [of S] fold_effect_cong [of c "apply_effect r S" S rows] by simp
  qed
qed simp

definition own_rows :: "string \<Rightarrow> (string \<times> string \<times> string) list \<Rightarrow> (string \<times> string) list" where
  "own_rows i rows = map snd (filter (\<lambda>(u, _). u = i) rows)"

lemma own_rows_absent: "(i, c) \<notin> (\<lambda>(u, c, _). (u, c)) ` set rows \<Longrightarrow> filter (\<lambda>r. fst r = c) (own_rows i rows) = []"
  by (force simp: own_rows_def filter_empty_conv)

lemma own_rows_unique:
  "(i, c, e) \<in> set rows \<Longrightarrow> distinct (map (\<lambda>(u, c, _). (u, c)) rows) \<Longrightarrow>
    filter (\<lambda>r. fst r = c) (own_rows i rows) = [(c, e)]"
proof (induction rows)
  case (Cons row rows)
  obtain u c' e' where row: "row = (u, c', e')" by (cases row)
  show ?case
  proof (cases "(i, c, e) \<in> set rows")
    case True
    then have "(u, c') \<noteq> (i, c)" using Cons.prems(2) row by force
    with True Cons row show ?thesis by (auto simp: own_rows_def)
  next
    case False
    with Cons.prems row own_rows_absent [of i c rows] show ?thesis by (simp add: own_rows_def)
  qed
qed simp

lemma fold_effect_last_deny: "rows \<noteq> [] \<Longrightarrow> last rows = (c, ''deny'') \<Longrightarrow> c \<notin> fold apply_effect rows S"
  by (induction rows arbitrary: S) (auto simp: apply_effect_def split: if_splits)

text \<open>
  A permission that is denied to a user directly is not among the user's capabilities, whatever the user's
  roles grant, if rows with the same name are read in the order of the query's two parts (a stable order). The
  table has one row per user and permission.
\<close>

theorem deny_overrides_roles:
  assumes "ae_order env = sort_key fst" "(i, c, ''deny'') \<in> set (db_user_permissions db)"
    and "distinct (map (\<lambda>(u, c, _). (u, c)) (db_user_permissions db))"
  shows "c \<notin> capabilities_for_user env i db"
proof -
  have "filter (\<lambda>r. fst r = c) (own_rows i (db_user_permissions db)) = [(c, ''deny'')]"
    using assms(2,3) by (rule own_rows_unique)
  then have "last (filter (\<lambda>r. fst r = c) (permission_rows i db)) = (c, ''deny'')"
    "filter (\<lambda>r. fst r = c) (permission_rows i db) \<noteq> []"
    by (simp_all add: permission_rows_def own_rows_def)
  then have "c \<notin> fold apply_effect (filter (\<lambda>r. fst r = c) (permission_rows i db)) {}"
    by (intro fold_effect_last_deny)
  then show ?thesis
    unfolding capabilities_for_user_def assms(1)
    by (subst fold_effect_same_name) (simp add: sort_key_stable)
qed

definition demo_db_deny :: auth_db where
  "demo_db_deny = empty_auth_db\<lparr>db_role_permissions := [(''user'', ''x'')], db_user_roles := [(''u1'', ''user'')],
     db_user_permissions := [(''u1'', ''x'', ''deny'')]\<rparr>"

theorem deny_overrides_roles_witness:
  "(''u1'', ''user'') \<in> set (db_user_roles demo_db_deny) \<and> ''x'' \<notin> capabilities_for_user demo_auth_env ''u1'' demo_db_deny"
  using deny_overrides_roles [of demo_auth_env "''u1''" "''x''" demo_db_deny]
  by (simp add: demo_auth_env_def demo_db_deny_def empty_auth_db_def)

text \<open>
  The query orders its rows by name only. Another order that it allows grants what was denied.
\<close>

theorem deny_ignored_in_some_order:
  "\<exists>env :: int auth_env. (\<forall>rows. mset (ae_order env rows) = mset rows \<and> sorted (map fst (ae_order env rows))) \<and>
     (\<exists>db. (''u1'', ''x'', ''deny'') \<in> set (db_user_permissions db) \<and> ''x'' \<in> capabilities_for_user env ''u1'' db)"
proof (intro exI conjI allI)
  let ?env = "demo_auth_env\<lparr>ae_order := (\<lambda>rows. sort_key fst (rev rows))\<rparr>"
  show "mset (ae_order ?env rows) = mset rows" "sorted (map fst (ae_order ?env rows))" for rows
    by simp_all
  show "(''u1'', ''x'', ''deny'') \<in> set (db_user_permissions demo_db_deny)"
    "''x'' \<in> capabilities_for_user ?env ''u1'' demo_db_deny"
    by (simp_all add: demo_db_deny_def empty_auth_db_def capabilities_for_user_def permission_rows_def apply_effect_def)
qed

section \<open>Reachable databases\<close>

text \<open>
  (C13) On every database the service can reach from an installation without users, a user's Linux identity is a
  pair of nonzero 32-bit numbers: \<open>linux_identity_for_user\<close> never yields root, never finds a value it
  cannot convert, and otherwise says that the user is missing or not mapped.
\<close>

theorem linux_identity_never_root:
  assumes "auth_start env db0" "auth_run env db0 db"
  shows "case linux_identity_for_user i db of
      Inr m \<Rightarrow> 0 < lim_uid m \<and> lim_uid m < 2 ^ 32 \<and> 0 < lim_gid m \<and> lim_gid m < 2 ^ 32
    | Inl e \<Rightarrow> e = AuthDatabase \<or> e = LinuxIdentityNotMapped"
proof (cases "sql_first (\<lambda>u. u_id u = i) (db_users db)")
  case None
  then show ?thesis by (simp add: linux_identity_for_user_def)
next
  case (Some u)
  have "auth_inv db" using auth_run_inv [OF assms(2) start_inv [OF assms(1)]] .
  then have ok: "user_ok u"
    using sql_first_Some [OF Some] table_ok_rowD [of u_id user_ok "db_users db" u] by (simp add: auth_inv_def)
  show ?thesis
  proof (cases "u_linux_uid u")
    case None
    with Some show ?thesis by (simp add: linux_identity_for_user_def)
  next
    case uid: (Some uid)
    with ok obtain gid where gid: "u_linux_gid u = Some gid" by (auto simp: user_ok_def)
    with ok uid have "0 < uid" "uid < 2 ^ 32" "0 < gid" "gid < 2 ^ 32"
      by (auto simp: user_ok_def u32_id_def)
    with Some uid gid show ?thesis by (simp add: linux_identity_for_user_def u32_of_def nat_less_iff)
  qed
qed

definition demo_db_mapped :: auth_db where
  "demo_db_mapped = snd (bootstrap_administrator_configured demo_auth_env ''a'' [] 1 2 ''Root'' ''Root'' ''long password''
     (default_bootstrap\<lparr>bc_linux_identity := Some (7, 8)\<rparr>) ''ip'' ''ua'' empty_auth_db)"

theorem linux_identity_never_root_witness:
  "linux_identity_for_user ''a'' demo_db_mapped = Inr \<lparr>lim_uid = 7, lim_gid = 8\<rparr> \<and> (0 :: nat) < 7"
proof -
  have m: "linux_identity_for_user ''a'' demo_db_mapped = Inr \<lparr>lim_uid = 7, lim_gid = 8\<rparr>"
    unfolding demo_db_mapped_def by code_simp
  have "auth_start demo_auth_env empty_auth_db" by (simp add: auth_start_def empty_auth_db_def)
  moreover have "auth_run demo_auth_env empty_auth_db demo_db_mapped"
    unfolding demo_db_mapped_def by (intro auth_run_step auth_step.bootstrap demo_policy) simp
  ultimately show ?thesis
    using m linux_identity_never_root [of demo_auth_env empty_auth_db demo_db_mapped "''a''"] by simp
qed

text \<open>
  The service never panics on a reachable database: the secret of a user with two-factor authentication is
  there when \<open>step_up\<close> reads it without a check, and \<open>login\<close> unwraps the user only when there is one.
\<close>

theorem auth_never_panics:
  assumes "auth_start env db0" "auth_run env db0 db"
  shows "fst (step_up env t0 t1 t2 t3 token pw code ip ua db) \<noteq> Inl AuthPanic \<and>
    fst (login env token t req db) \<noteq> Inl AuthPanic"
proof
  have inv: "auth_inv db" using auth_run_inv [OF assms(2) start_inv [OF assms(1)]] .
  have totp: "u_totp_secret u \<noteq> None" if "u \<in> set (db_users db)" "u_totp_enabled u" for u
    using inv that by (auto simp: auth_inv_def table_ok_def list_all_iff user_ok_def)
  have vsf: "verify_second_factor env i x c t d = (Inl e, d') \<Longrightarrow> e \<noteq> AuthPanic" for i x c t d e d'
    by (auto simp: verify_second_factor_def Let_def split: sum.splits if_splits)
  show "fst (step_up env t0 t1 t2 t3 token pw code ip ua db) \<noteq> Inl AuthPanic"
  proof (cases rule: authenticate_cases [where env = env and t = t0 and token = token and db = db])
    case (refused e)
    then show ?thesis by (simp add: step_up_def)
  next
    case (granted s u)
    define p db1 where "p = projr (fst (authenticate env t0 token db))" "db1 = snd (authenticate env t0 token db)"
    have auth: "authenticate env t0 token db = (Inr p, db1)" "db_users db1 = db_users db"
      unfolding p_db1_def granted(4) by simp_all
    then show ?thesis
      using totp [OF sql_first_Some [of "\<lambda>u. u_id u = sp_user_id p", THEN conjunct1]]
      by (auto simp: step_up_def Let_def split: option.splits prod.splits sum.splits bool.splits
          dest: vsf audited_err)
  qed
  show "fst (login env token t req db) \<noteq> Inl AuthPanic"
  proof (cases rule: login_cases [where env = env and req = req and t = t and db = db and token = token])
    case (refused i why rows r db2)
    then show ?thesis
      by (auto simp: record_login_failure_def Let_def split: sum.splits dest!: audited_eq_err)
  next
    case (opened u db1)
    then show ?thesis by (auto simp: open_session_def Let_def dest: audited_err)
  qed simp_all
qed

theorem auth_never_panics_witness:
  "fst (step_up demo_auth_env 5 5 5 5 ''t'' ''pw'' None ''ip'' ''ua'' demo_db_mapped) \<noteq> Inl AuthPanic"
proof -
  have "auth_start demo_auth_env empty_auth_db" by (simp add: auth_start_def empty_auth_db_def)
  moreover have "auth_run demo_auth_env empty_auth_db demo_db_mapped"
    unfolding demo_db_mapped_def by (intro auth_run_step auth_step.bootstrap demo_policy) simp
  ultimately show ?thesis using auth_never_panics by blast
qed

section \<open>Step-up\<close>



text \<open>
  A wrong password at step-up leaves no trace: no counter of the throttle, no entry of the login history, no
  audit event, so that nothing limits the number of guesses a stolen session can make.
\<close>

theorem step_up_guess_untracked:
  "fst (step_up env t0 t1 t2 t3 token pw code ip ua db) = Inl InvalidCredentials \<Longrightarrow>
    db_throttle (snd (step_up env t0 t1 t2 t3 token pw code ip ua db)) = db_throttle db \<and>
    db_history (snd (step_up env t0 t1 t2 t3 token pw code ip ua db)) = db_history db \<and>
    db_audit (snd (step_up env t0 t1 t2 t3 token pw code ip ua db)) = db_audit db"
proof (cases rule: authenticate_cases [where env = env and t = t0 and token = token and db = db])
  case (refused e)
  then show ?thesis by (simp add: step_up_def)
next
  case (granted s u)
  assume "fst (step_up env t0 t1 t2 t3 token pw code ip ua db) = Inl InvalidCredentials"
  with granted(4) show ?thesis
    by (auto simp: step_up_def Let_def verify_second_factor_def split: option.splits if_splits sum.splits bool.splits
        prod.splits dest!: audited_err)
qed

text \<open>
  The code answers \<open>TotpNotConfigured\<close> only for a user that does not exist; for one that never started the
  enrolment it reports a database error.
\<close>

theorem confirm_without_enrolment:
  assumes "sql_first (\<lambda>u. u_id u = sp_user_id p) (db_users db) = Some u" "u_totp_secret u = None"
  shows "confirm_totp env raws ids t t0 p code db = (Inl AuthDatabase, db)"
  using assms by (simp add: confirm_totp_def confirm_totp_at_def)

section \<open>Assigned roots\<close>

lemma add_root_ok: "add_assigned_root env rid t0 t1 t2 actor i path mode ip ua db = (Inr r, db1) \<Longrightarrow>
    r = rid \<and> rid \<notin> ar_root_id ` set (db_roots db) \<and>
    db_roots db1 = db_roots db @ [\<lparr>ar_root_id = rid, ar_user_id = i, ar_path = path,
      ar_access_mode = access_str mode, ar_created_at = t1\<rparr>]"
  by (auto simp: add_assigned_root_def guarded_def append_actor_audit_def audited_eq_ok list_ex_iff
      split: sum.splits if_splits)

lemma remove_root_ok: "remove_assigned_root env t0 t1 actor rid ip ua db = (Inr (), db1) \<Longrightarrow>
    db_roots db1 = sql_delete (\<lambda>r. ar_root_id r = rid) (db_roots db)"
  by (auto simp: remove_assigned_root_def guarded_def append_actor_audit_def audited_eq_ok
      split: sum.splits if_splits)

lemma access_str_read_write: "access_str m = ''read-write'' \<longleftrightarrow> m = RootReadWrite"
  by (cases m) simp_all

text \<open>
  An assigned root is what the administrator granted, to that user only, until it is taken back: right after
  it is added, its identifier resolves for the user to the path and the access mode given; for everybody else
  it is \<open>UnknownAssignedRoot\<close>, exactly as an identifier that does not exist; and after its removal it is
  unknown to everybody.
\<close>

theorem assigned_root_round_trip:
  assumes "add_assigned_root env rid t0 t1 t2 actor i path mode ip ua db = (Inr r, db1)"
    and "remove_assigned_root env t3 t4 actor' rid ip' ua' db1 = (Inr (), db2)"
  shows "resolve_assigned_root_for_user j rid db1 =
      (if j = i then Inr \<lparr>rar_id = rid, rar_path = path, rar_read_write = (mode = RootReadWrite)\<rparr>
       else Inl UnknownAssignedRoot) \<and>
    resolve_assigned_root_for_user j rid db2 = Inl UnknownAssignedRoot"
proof
  note add = add_root_ok [OF assms(1)]
  let ?P = "\<lambda>r. ar_root_id r = rid \<and> ar_user_id r = j"
  have "sql_first ?P (db_roots db) = None" using add by (auto simp: sql_first_None)
  then have "sql_first ?P (db_roots db1) = (if j = i then
      Some \<lparr>ar_root_id = rid, ar_user_id = i, ar_path = path, ar_access_mode = access_str mode, ar_created_at = t1\<rparr>
      else None)"
    using add sql_first_append [of ?P "db_roots db"] by (simp add: sql_first_def)
  then show "resolve_assigned_root_for_user j rid db1 =
      (if j = i then Inr \<lparr>rar_id = rid, rar_path = path, rar_read_write = (mode = RootReadWrite)\<rparr>
       else Inl UnknownAssignedRoot)"
    by (simp add: resolve_assigned_root_for_user_def access_str_read_write)
  have "sql_first ?P (db_roots db2) = None"
    using remove_root_ok [OF assms(2)] by (auto simp: sql_first_None sql_delete_def)
  then show "resolve_assigned_root_for_user j rid db2 = Inl UnknownAssignedRoot"
    by (simp add: resolve_assigned_root_for_user_def)
qed

definition demo_db_root :: auth_db where
  "demo_db_root = snd (add_assigned_root demo_auth_env ''r'' 1 1 1 (demo_actor (Some 9)) ''u2'' ''/srv/bob'' RootRead
     ''ip'' ''ua'' demo_db)"

theorem assigned_root_round_trip_witness:
  "resolve_assigned_root_for_user ''u2'' ''r'' demo_db_root =
     Inr \<lparr>rar_id = ''r'', rar_path = ''/srv/bob'', rar_read_write = False\<rparr> \<and>
   resolve_assigned_root_for_user ''u1'' ''r'' demo_db_root = Inl UnknownAssignedRoot"
proof -
  let ?a = "add_assigned_root demo_auth_env ''r'' 1 1 1 (demo_actor (Some 9)) ''u2'' ''/srv/bob'' RootRead ''ip'' ''ua'' demo_db"
  let ?d = "remove_assigned_root demo_auth_env 2 2 (demo_actor (Some 9)) ''r'' ''ip'' ''ua'' demo_db_root"
  have "fst ?a = Inr ''r''" by code_simp
  then have a: "?a = (Inr ''r'', demo_db_root)" by (simp add: demo_db_root_def prod_eq_iff)
  have "fst ?d = Inr ()" unfolding demo_db_root_def by code_simp
  then have d: "?d = (Inr (), snd ?d)" by (simp add: prod_eq_iff)
  show ?thesis
    using assigned_root_round_trip [OF a d, of "''u2''"] assigned_root_round_trip [OF a d, of "''u1''"] by simp
qed

end
