(* ===== verification/Vfs_Paths.thy ===== *)
theory Vfs_Paths
  imports Prelude
begin

text \<open>
  Virtual paths, archive entry names and access control lists of the file service
  (\<open>crates/vfs/src/lib.rs\<close>, \<open>acl.rs\<close>, \<open>archive.rs\<close>). A path relative to the root of a provider is the list of
  its components; the empty list is the root itself, which the code writes \<open>.\<close>.
\<close>

section \<open>Errors\<close>

datatype io_error = IoNotFound | IoOther string

datatype VfsError =
    Traversal
  | InvalidPath
  | NonUtf8Name
  | VfsReadOnly
  | SymlinkReadDenied
  | TooLarge
  | VfsIo io_error
  | UnsafeArchiveEntry string
  | ArchiveEntryLinkDenied
  | ArchiveQuotaExceeded
  | InvalidArchive string
  | EmptyArchiveSelection
  | Unsupported
  | InvalidAclEntry string

section \<open>Virtual paths\<close>

fun push_components :: "path_component list \<Rightarrow> string list \<Rightarrow> VfsError + string list" where
  "push_components [] acc = Inr acc"
| "push_components (Normal v # cs) acc = push_components cs (acc @ [v])"
| "push_components (CurDir # cs) acc = push_components cs acc"
| "push_components (RootDir # cs) acc = push_components cs acc"
| "push_components (ParentDir # cs) acc = Inl Traversal"

definition normalize_virtual_path :: "string \<Rightarrow> bool \<Rightarrow> VfsError + string list" where
  "normalize_virtual_path path allow_root =
     (if CHR 0x00 \<in> set path then Inl InvalidPath
      else res_bind (push_components (components path) []) (\<lambda>normalized.
        if normalized = [] \<and> \<not> allow_root then Inl InvalidPath else Inr normalized))"

definition trim_slashes :: "string \<Rightarrow> string" where
  "trim_slashes s = rev (dropWhile (\<lambda>c. c = CHR ''/'') (rev (dropWhile (\<lambda>c. c = CHR ''/'') s)))"

definition canonical_virtual :: "string \<Rightarrow> string" where
  "canonical_virtual path =
     (let trimmed = trim_slashes path in if trimmed = [] then ''/'' else CHR ''/'' # trimmed)"

definition join_virtual :: "string \<Rightarrow> string \<Rightarrow> string" where
  "join_virtual parent name =
     (let p = canonical_virtual parent in if p = ''/'' then CHR ''/'' # name else p @ CHR ''/'' # name)"

fun push_safe :: "string \<Rightarrow> path_component list \<Rightarrow> string list \<Rightarrow> VfsError + string list" where
  "push_safe raw [] acc = Inr acc"
| "push_safe raw (Normal v # cs) acc = push_safe raw cs (acc @ [v])"
| "push_safe raw (CurDir # cs) acc = push_safe raw cs acc"
| "push_safe raw (_ # cs) acc = Inl (UnsafeArchiveEntry raw)"

definition is_ascii_alphabetic :: "char \<Rightarrow> bool" where
  "is_ascii_alphabetic c \<longleftrightarrow> is_ascii_lowercase c \<or> is_ascii_uppercase c"

definition safe_entry_path :: "string \<Rightarrow> VfsError + string list" where
  "safe_entry_path raw =
     (if raw = [] \<or> CHR 0x00 \<in> set raw \<or> CHR 0x5C \<in> set raw then Inl (UnsafeArchiveEntry raw)
      else if (case raw of a # b # _ \<Rightarrow> b = CHR '':'' \<and> is_ascii_alphabetic a | _ \<Rightarrow> False)
      then Inl (UnsafeArchiveEntry raw)
      else res_bind (push_safe raw (components raw) []) (\<lambda>safe.
        if safe = [] then Inl (UnsafeArchiveEntry raw) else Inr safe))"

section \<open>Access control lists\<close>

datatype AclQualifierKind = OwningUser | AclUser | OwningGroup | AclGroup | AclMask | AclOther

record AclEntry =
  acl_kind :: AclQualifierKind
  acl_name :: "string option"
  acl_read :: bool
  acl_write :: bool
  acl_execute :: bool

definition parse_permissions :: "string \<Rightarrow> (bool \<times> bool \<times> bool) option" where
  "parse_permissions field =
     (if length field \<noteq> 3 then None
      else Some (field ! 0 = CHR ''r'', field ! 1 = CHR ''w'', field ! 2 = CHR ''x''))"

text \<open>\<open>str::splitn(3, ':')\<close>: at most two splits, the rest stays in one piece.\<close>

fun splitn :: "nat \<Rightarrow> char \<Rightarrow> string \<Rightarrow> string list" where
  "splitn 0 c s = []"
| "splitn (Suc 0) c s = [s]"
| "splitn (Suc (Suc n)) c s =
     (if c \<in> set s then takeWhile (\<lambda>x. x \<noteq> c) s # splitn (Suc n) c (tl (dropWhile (\<lambda>x. x \<noteq> c) s)) else [s])"

definition parse_acl_line :: "string \<Rightarrow> AclEntry option" where
  "parse_acl_line raw =
     (let line = trim raw in
      if line = [] \<or> hd line = CHR ''#'' then None
      else case splitn 3 CHR '':'' line of
          [tag, qualifier, perms] \<Rightarrow>
            (case parse_permissions perms of
               None \<Rightarrow> None
             | Some (r, w, x) \<Rightarrow>
               let entry = (\<lambda>k n. Some \<lparr>acl_kind = k, acl_name = n, acl_read = r, acl_write = w, acl_execute = x\<rparr>) in
               if tag = ''user'' then (if qualifier = [] then entry OwningUser None else entry AclUser (Some qualifier))
               else if tag = ''group'' then (if qualifier = [] then entry OwningGroup None else entry AclGroup (Some qualifier))
               else if tag = ''mask'' then entry AclMask None
               else if tag = ''other'' then entry AclOther None
               else None)
        | _ \<Rightarrow> None)"

text \<open>\<open>str::lines\<close>: a final empty line and carriage returns make no difference after \<open>trim\<close>.\<close>

definition text_lines :: "string \<Rightarrow> string list" where
  "text_lines s = split_char (CHR 0x0A) s"

definition parse_getfacl_output :: "string \<Rightarrow> AclEntry list" where
  "parse_getfacl_output text = List.map_filter parse_acl_line (text_lines text)"

definition valid_qualifier_name :: "string \<Rightarrow> bool" where
  "valid_qualifier_name name \<longleftrightarrow>
     name \<noteq> [] \<and> length name \<le> 64 \<and>
     list_all (\<lambda>b. is_ascii_alphanumeric b \<or> b = CHR ''_'' \<or> b = CHR ''-'' \<or> b = CHR ''.'') name"

definition perms_text :: "AclEntry \<Rightarrow> string" where
  "perms_text e =
     [if acl_read e then CHR ''r'' else CHR ''-'', if acl_write e then CHR ''w'' else CHR ''-'',
      if acl_execute e then CHR ''x'' else CHR ''-'']"

definition format_entry_spec :: "AclEntry \<Rightarrow> VfsError + string" where
  "format_entry_spec e =
     (let perms = perms_text e;
          named = (\<lambda>t. case acl_name e of
             None \<Rightarrow> Inl (InvalidAclEntry ''ACL entry missing qualifier name'')
           | Some name \<Rightarrow>
             if \<not> valid_qualifier_name name then Inl (InvalidAclEntry (''unsafe ACL qualifier name: '' @ name))
             else Inr (t # CHR '':'' # name @ CHR '':'' # perms)) in
      case acl_kind e of
        OwningUser \<Rightarrow> Inr (''u::'' @ perms)
      | OwningGroup \<Rightarrow> Inr (''g::'' @ perms)
      | AclMask \<Rightarrow> Inr (''m::'' @ perms)
      | AclOther \<Rightarrow> Inr (''o::'' @ perms)
      | AclUser \<Rightarrow> named CHR ''u''
      | AclGroup \<Rightarrow> named CHR ''g'')"

fun format_specs :: "AclEntry list \<Rightarrow> VfsError + string list" where
  "format_specs [] = Inr []"
| "format_specs (e # es) = res_bind (format_entry_spec e) (\<lambda>s. res_bind (format_specs es) (\<lambda>ss. Inr (s # ss)))"

fun join_with :: "char \<Rightarrow> string list \<Rightarrow> string" where
  "join_with c [] = []"
| "join_with c [s] = s"
| "join_with c (s # ss) = s @ c # join_with c ss"

section \<open>What the checks on paths mean\<close>

definition confined_component :: "string \<Rightarrow> bool" where
  "confined_component c \<longleftrightarrow>
     c \<noteq> [] \<and> c \<noteq> ''.'' \<and> c \<noteq> ''..'' \<and> CHR ''/'' \<notin> set c \<and> CHR 0x00 \<notin> set c"

definition confined :: "string list \<Rightarrow> bool" where
  "confined p \<longleftrightarrow> list_all confined_component p"

text \<open>Resolution of a path text against a directory, the way the system follows it: \<open>..\<close> goes up.\<close>

fun lexical :: "string list \<Rightarrow> string list \<Rightarrow> string list" where
  "lexical R [] = R"
| "lexical R (c # cs) =
     (if c = [] \<or> c = ''.'' then lexical R cs
      else if c = ''..'' then lexical (butlast R) cs
      else lexical (R @ [c]) cs)"

definition resolve_below :: "string list \<Rightarrow> string \<Rightarrow> string list" where
  "resolve_below R path = lexical R (split_char CHR ''/'' path)"

lemma push_components_names:
  "push_components (map (\<lambda>c. if c = ''..'' then ParentDir else Normal c) cs) acc =
     (if ''..'' \<in> set cs then Inl Traversal else Inr (acc @ cs))"
  by (induction cs arbitrary: acc) auto

lemma push_components_path:
  "push_components (components path) [] =
     (if ''..'' \<in> set (path_components path) then Inl Traversal else Inr (path_components path))"
  by (auto simp: components_def push_components_names split: list.splits)

lemma push_safe_names:
  "push_safe raw (map (\<lambda>c. if c = ''..'' then ParentDir else Normal c) cs) acc =
     (if ''..'' \<in> set cs then Inl (UnsafeArchiveEntry raw) else Inr (acc @ cs))"
  by (induction cs arbitrary: acc) auto

lemma push_safe_ok: "push_safe raw (components raw) [] = Inr p \<Longrightarrow> p = path_components raw \<and> ''..'' \<notin> set p"
  by (auto simp: components_def push_safe_names split: list.splits if_splits)

lemma in_path_components: "c \<in> set (path_components path) \<longleftrightarrow>
    c \<in> set (split_char CHR ''/'' path) \<and> c \<noteq> [] \<and> c \<noteq> ''.''"
  by (auto simp: path_components_def)

lemma path_components_confined:
  assumes "CHR 0x00 \<notin> set path" "''..'' \<notin> set (path_components path)"
  shows "confined (path_components path)"
  unfolding confined_def list_all_iff
proof
  fix c assume c: "c \<in> set (path_components path)"
  then have "c \<in> set (split_char CHR ''/'' path)" "c \<noteq> []" "c \<noteq> ''.''" by (auto simp: in_path_components)
  moreover from this have "CHR ''/'' \<notin> set c" "CHR 0x00 \<notin> set c"
    using split_char_no_sep [of c "CHR ''/''" path] split_char_subset [of c "CHR ''/''" path] assms(1) by auto
  ultimately show "confined_component c" using c assms(2) by (auto simp: confined_component_def)
qed

lemma lexical_no_parent: "''..'' \<notin> set cs \<Longrightarrow> lexical R cs = R @ filter (\<lambda>c. c \<noteq> [] \<and> c \<noteq> ''.'') cs"
  by (induction cs arbitrary: R) auto

lemma normalize_ok: "normalize_virtual_path path r = Inr p \<longleftrightarrow>
    CHR 0x00 \<notin> set path \<and> ''..'' \<notin> set (split_char CHR ''/'' path) \<and> p = path_components path \<and> (p = [] \<longrightarrow> r)"
  by (auto simp: normalize_virtual_path_def res_bind_ok push_components_path in_path_components split: if_splits)

lemma normalize_confined: "normalize_virtual_path path r = Inr p \<Longrightarrow> confined p"
  using path_components_confined by (auto simp: normalize_ok in_path_components)

lemma safe_entry_ok: "safe_entry_path raw = Inr p \<Longrightarrow>
    confined p \<and> p \<noteq> [] \<and> p = path_components raw \<and> ''..'' \<notin> set (split_char CHR ''/'' raw)"
  using path_components_confined [of raw]
  by (auto simp: safe_entry_path_def res_bind_ok in_path_components split: if_splits dest!: push_safe_ok)

lemma safe_entry_confined: "safe_entry_path raw = Inr p \<Longrightarrow> confined p"
  using safe_entry_ok by blast

lemma split_join: "ss \<noteq> [] \<Longrightarrow> \<forall>s\<in>set ss. c \<notin> set s \<Longrightarrow> split_char c (join_with c ss) = ss"
  by (induction c ss rule: join_with.induct) (auto simp: split_char_id split_char_append)

text \<open>
  The virtual paths and archive entry names that the checks let through stay below the root they are applied
  to: the components that remain are plain names, and following the original text from any directory leads
  exactly to those names below it. Every path of plain names is accepted and comes back unchanged, and a text
  with a \<open>..\<close> segment is always refused.
\<close>

theorem virtual_paths_confined:
  "(normalize_virtual_path path r = Inr p \<longrightarrow> confined p \<and> resolve_below R path = R @ p) \<and>
   (safe_entry_path path = Inr q \<longrightarrow> confined q \<and> q \<noteq> [] \<and> resolve_below R path = R @ q) \<and>
   (confined s \<and> s \<noteq> [] \<longrightarrow> normalize_virtual_path (join_with CHR ''/'' s) r = Inr s) \<and>
   (''..'' \<in> set (split_char CHR ''/'' path) \<longrightarrow>
      \<not> is_ok (normalize_virtual_path path r) \<and> \<not> is_ok (safe_entry_path path))"
proof (intro conjI impI)
  show "confined p" "resolve_below R path = R @ p" if "normalize_virtual_path path r = Inr p"
    using that normalize_confined by (auto simp: normalize_ok resolve_below_def lexical_no_parent path_components_def)
  show "confined q" "q \<noteq> []" "resolve_below R path = R @ q" if "safe_entry_path path = Inr q"
    using safe_entry_ok [OF that] by (auto simp: resolve_below_def lexical_no_parent path_components_def)
  show "normalize_virtual_path (join_with CHR ''/'' s) r = Inr s" if s: "confined s \<and> s \<noteq> []"
  proof -
    have "CHR 0x00 \<notin> set (join_with CHR ''/'' ss)" if "\<forall>c\<in>set ss. CHR 0x00 \<notin> set c" for ss
      using that by (induction "CHR ''/''" ss rule: join_with.induct) auto
    moreover have "split_char CHR ''/'' (join_with CHR ''/'' s) = s"
      using s by (intro split_join) (auto simp: confined_def list_all_iff confined_component_def)
    ultimately show ?thesis
      using s by (auto simp: normalize_ok path_components_def confined_def list_all_iff confined_component_def)
  qed
  assume up: "''..'' \<in> set (split_char CHR ''/'' path)"
  then show "\<not> is_ok (normalize_virtual_path path r)"
    using normalize_ok [of path r] by (cases "normalize_virtual_path path r") auto
  show "\<not> is_ok (safe_entry_path path)"
    using up safe_entry_ok [of path] by (cases "safe_entry_path path") auto
qed

theorem virtual_paths_confined_witness:
  "normalize_virtual_path ''/docs/./a.txt'' False = Inr [''docs'', ''a.txt''] \<and>
   resolve_below [''srv''] ''/docs/./a.txt'' = [''srv'', ''docs'', ''a.txt''] \<and>
   \<not> is_ok (normalize_virtual_path ''docs/../../etc'' True)"
proof -
  have "normalize_virtual_path ''/docs/./a.txt'' False = Inr [''docs'', ''a.txt'']" by code_simp
  moreover have "''..'' \<in> set (split_char CHR ''/'' ''docs/../../etc'')" by code_simp
  ultimately show ?thesis
    using virtual_paths_confined [of "''/docs/./a.txt''" False "[''docs'', ''a.txt'']" "[''srv'']"]
      virtual_paths_confined [of "''docs/../../etc''" True] by auto
qed

section \<open>What the text of an access control list means\<close>

text \<open>The short form that \<open>setfacl -m\<close> documents: entries separated by commas, three fields separated by colons.\<close>

definition acl_of :: "AclQualifierKind \<Rightarrow> string option \<Rightarrow> bool \<times> bool \<times> bool \<Rightarrow> AclEntry" where
  "acl_of k n rwx = (case rwx of (r, w, x) \<Rightarrow>
     \<lparr>acl_kind = k, acl_name = n, acl_read = r, acl_write = w, acl_execute = x\<rparr>)"

definition setfacl_entry :: "string \<Rightarrow> AclEntry option" where
  "setfacl_entry spec =
     (case split_char CHR '':'' spec of
        [tag, q, perms] \<Rightarrow>
          Option.bind (parse_permissions perms) (\<lambda>rwx.
            if tag = ''u'' then Some (if q = [] then acl_of OwningUser None rwx else acl_of AclUser (Some q) rwx)
            else if tag = ''g'' then Some (if q = [] then acl_of OwningGroup None rwx else acl_of AclGroup (Some q) rwx)
            else if tag = ''m'' \<and> q = [] then Some (acl_of AclMask None rwx)
            else if tag = ''o'' \<and> q = [] then Some (acl_of AclOther None rwx)
            else None)
      | _ \<Rightarrow> None)"

text \<open>The entry as meant: a name counts only for a named user or group.\<close>

definition meant :: "AclEntry \<Rightarrow> AclEntry" where
  "meant e = e\<lparr>acl_name := (if acl_kind e \<in> {AclUser, AclGroup} then acl_name e else None)\<rparr>"

lemma perms_text_parse: "parse_permissions (perms_text e) = Some (acl_read e, acl_write e, acl_execute e)"
  by (simp add: parse_permissions_def perms_text_def)

lemma perms_text_clean: "CHR '':'' \<notin> set (perms_text e)" "CHR '','' \<notin> set (perms_text e)"
  by (auto simp: perms_text_def)

lemma valid_qualifier_clean:
  assumes "valid_qualifier_name n"
  shows "CHR '':'' \<notin> set n" "CHR '','' \<notin> set n" "n \<noteq> []"
proof -
  have "\<not> is_ascii_alphanumeric CHR '':''" "\<not> is_ascii_alphanumeric CHR '',''"
    by (simp_all add: char_class_defs)
  then show "CHR '':'' \<notin> set n" "CHR '','' \<notin> set n" "n \<noteq> []"
    using assms by (auto simp: valid_qualifier_name_def list_all_iff)
qed

lemma split_three:
  "c \<notin> set a \<Longrightarrow> c \<notin> set b \<Longrightarrow> c \<notin> set d \<Longrightarrow> split_char c (a @ c # b @ c # d) = [a, b, d]"
  by (simp add: split_char_append split_char_id)

lemma format_entry_spec_meaning:
  assumes "format_entry_spec e = Inr spec"
  shows "setfacl_entry spec = Some (meant e) \<and> CHR '','' \<notin> set spec"
proof -
  obtain t q where spec: "spec = t # CHR '':'' # q @ CHR '':'' # perms_text e"
    "t \<noteq> CHR '':''" "t \<noteq> CHR '',''" "CHR '':'' \<notin> set q" "CHR '','' \<notin> set q"
    and tq: "(t, q) = (case acl_kind e of
        OwningUser \<Rightarrow> (CHR ''u'', []) | OwningGroup \<Rightarrow> (CHR ''g'', []) | AclMask \<Rightarrow> (CHR ''m'', [])
      | AclOther \<Rightarrow> (CHR ''o'', []) | AclUser \<Rightarrow> (CHR ''u'', the (acl_name e)) | AclGroup \<Rightarrow> (CHR ''g'', the (acl_name e)))"
    "acl_kind e \<in> {AclUser, AclGroup} \<longrightarrow> acl_name e = Some q \<and> q \<noteq> []"
    using assms valid_qualifier_clean
    by (cases "acl_kind e"; cases "acl_name e") (auto simp: format_entry_spec_def Let_def split: if_splits)
  have "split_char CHR '':'' spec = [[t], q, perms_text e]"
    using split_three [of "CHR '':''" "[t]" q "perms_text e"] spec perms_text_clean by simp
  then have "setfacl_entry spec = Some (meant e)"
    using tq by (cases "acl_kind e"; cases e)
      (auto simp: setfacl_entry_def perms_text_parse acl_of_def meant_def)
  then show ?thesis using spec perms_text_clean by auto
qed

lemma format_specs_meaning:
  "format_specs es = Inr ss \<Longrightarrow> map setfacl_entry ss = map (Some \<circ> meant) es \<and> (\<forall>s\<in>set ss. CHR '','' \<notin> set s)"
  by (induction es arbitrary: ss) (auto simp: res_bind_ok dest: format_entry_spec_meaning)

text \<open>
  The one argument that \<open>set_acl\<close> builds for \<open>setfacl\<close> is read back as exactly the entries that were asked for, in
  their order: no user or group name that passes \<open>valid_qualifier_name\<close> can add an entry, change a tag or
  change permissions.
\<close>

theorem acl_argument_unambiguous:
  assumes "format_specs es = Inr ss" "es \<noteq> []"
  shows "map setfacl_entry (split_char CHR '','' (join_with CHR '','' ss)) = map (Some \<circ> meant) es"
proof -
  have "ss \<noteq> []" using assms by (cases es) (auto simp: res_bind_ok)
  with format_specs_meaning [OF assms(1)] show ?thesis by (simp add: split_join)
qed

theorem acl_argument_unambiguous_witness:
  "format_specs [acl_of AclUser (Some ''bob'') (True, False, False), acl_of AclMask None (True, True, True)] =
     Inr [''u:bob:r--'', ''m::rwx''] \<and>
   map setfacl_entry (split_char CHR '','' ''u:bob:r--,m::rwx'') =
     [Some (acl_of AclUser (Some ''bob'') (True, False, False)), Some (acl_of AclMask None (True, True, True))]"
proof -
  let ?es = "[acl_of AclUser (Some ''bob'') (True, False, False), acl_of AclMask None (True, True, True)]"
  have f: "format_specs ?es = Inr [''u:bob:r--'', ''m::rwx'']" by code_simp
  show ?thesis
    using acl_argument_unambiguous [OF f] f by (simp add: meant_def acl_of_def)
qed

text \<open>
  A line of \<open>getfacl\<close> whose permissions the mask restricts carries the effective ones as a trailing comment; the
  parser drops the whole entry.
\<close>

lemma effective_comment_drops_entry:
  "parse_acl_line ''user:bob:rwx'' = Some (acl_of AclUser (Some ''bob'') (True, True, True)) \<and>
   parse_acl_line (''user:bob:rwx'' @ CHR 0x09 # ''#effective:r--'') = None"
  by code_simp

end
