(* ===== verification/Vfs.thy ===== *)
theory Vfs
  imports Vfs_Paths "HOL-Library.Product_Lexorder"
begin

text \<open>
  The local file provider (\<open>crates/vfs/src/lib.rs\<close>), its archives (\<open>archive.rs\<close>) and access control lists
  (\<open>acl.rs\<close>). The directory handle of \<open>cap_std\<close>, the zip and tar libraries and the programs \<open>getfacl\<close> and
  \<open>setfacl\<close> are the fields of \<open>dir_ops\<close>: what they read is a function of the file system \<open>'fs\<close>, what they change is its
  next value. An archive that is being extracted is what it was when it was opened.

  Walks over directory trees carry fuel; \<open>None\<close> is fuel that ran out, and \<open>tree_depth\<close> bounds what is enough.
\<close>

section \<open>Data\<close>

datatype EntryKind = KFile | KDirectory | KSymlink | KOther

record VfsEntry =
  ve_name :: string
  ve_path :: string
  ve_kind :: EntryKind
  ve_size :: nat
  ve_modified_at :: "int option"
  ve_mode :: nat
  ve_uid :: nat
  ve_gid :: nat

datatype ProviderFeature = PRead | PWrite | PTrash | POwnership | PPermissions | PAcl | PResumableUpload

datatype ArchiveFormat = Zip | TarGz

datatype LocalFileOperation =
    OpList string
  | OpStat string
  | OpCreateDirectory string
  | OpRename string string
  | OpCopyFile string string
  | OpTrash string
  | OpReadPreview string nat
  | OpWriteFile string bytes
  | OpChmod string nat
  | OpSearch string string nat
  | OpCreateArchive "string list" string ArchiveFormat
  | OpExtractArchive string string ArchiveFormat
  | OpReadAcl string
  | OpSetAcl string "AclEntry list"

fun requires_write :: "LocalFileOperation \<Rightarrow> bool" where
  "requires_write (OpCreateDirectory _) = True"
| "requires_write (OpRename _ _) = True"
| "requires_write (OpCopyFile _ _) = True"
| "requires_write (OpTrash _) = True"
| "requires_write (OpWriteFile _ _) = True"
| "requires_write (OpChmod _ _) = True"
| "requires_write (OpCreateArchive _ _ _) = True"
| "requires_write (OpExtractArchive _ _ _) = True"
| "requires_write (OpSetAcl _ _) = True"
| "requires_write _ = False"

datatype LocalFileResult =
    REntries "VfsEntry list" "ProviderFeature list"
  | REntry VfsEntry
  | RComplete
  | RCopied nat
  | RTrashed string
  | RPreview bytes
  | RWritten nat
  | RSearchResults "VfsEntry list"
  | RArchiveCreated string nat nat
  | RArchiveExtracted nat nat
  | RAcl "AclEntry list" bool

record ArchiveOutcome =
  ao_entries :: nat
  ao_bytes :: nat

section \<open>What the provider stands on\<close>

record metadata =
  md_kind :: EntryKind
  md_len :: nat
  md_modified :: "int option" \<comment> \<open>seconds since the epoch, where the system says so\<close>
  md_mode :: nat
  md_uid :: nat
  md_gid :: nat

type_synonym chunks = "(io_error + bytes) list"

record zip_entry =
  ze_name :: string
  ze_symlink :: bool
  ze_dir :: bool
  ze_data :: chunks

datatype tar_type = TFile | TDir | TSymlink | THardLink | TOther

record tar_entry =
  te_type :: tar_type
  te_path :: "string + string"
  te_data :: chunks

record program_output =
  po_success :: bool
  po_stdout :: string
  po_stderr :: string

type_synonym ('a, 'fs) io = "'fs \<Rightarrow> (io_error + 'a) \<times> 'fs"

record ('w, 'fs) dir_ops =
  d_entries :: "string list \<Rightarrow> 'fs \<Rightarrow> io_error + (io_error + string option) list" \<comment> \<open>\<open>open_dir\<close>, \<open>entries\<close>\<close>
  d_child_metadata :: "string list \<Rightarrow> string \<Rightarrow> 'fs \<Rightarrow> io_error + metadata"
  d_symlink_metadata :: "string list \<Rightarrow> 'fs \<Rightarrow> io_error + metadata"
  d_metadata :: "string list \<Rightarrow> 'fs \<Rightarrow> io_error + metadata"
  d_open :: "string list \<Rightarrow> 'fs \<Rightarrow> io_error + unit"
  d_read :: "string list \<Rightarrow> 'fs \<Rightarrow> io_error + bytes"
  d_create_dir :: "string list \<Rightarrow> (unit, 'fs) io"
  d_create_dir_all :: "string list \<Rightarrow> (unit, 'fs) io"
  d_rename :: "string list \<Rightarrow> string list \<Rightarrow> (unit, 'fs) io"
  d_copy :: "string list \<Rightarrow> string list \<Rightarrow> (nat, 'fs) io"
  d_write :: "string list \<Rightarrow> bytes \<Rightarrow> (unit, 'fs) io"
  d_create :: "string list \<Rightarrow> (unit, 'fs) io"
  d_append :: "string list \<Rightarrow> bytes \<Rightarrow> (unit, 'fs) io"
  d_set_mode :: "string list \<Rightarrow> nat \<Rightarrow> (unit, 'fs) io"
  d_remove_file :: "string list \<Rightarrow> (unit, 'fs) io"
  d_remove_dir :: "string list \<Rightarrow> (unit, 'fs) io"
  d_real_path :: "string list \<Rightarrow> 'fs \<Rightarrow> io_error + string" \<comment> \<open>\<open>open\<close>, \<open>readlink\<close> of the descriptor\<close>
  d_getfacl :: "string \<Rightarrow> 'fs \<Rightarrow> io_error + program_output"
  d_setfacl :: "string \<Rightarrow> string \<Rightarrow> (program_output, 'fs) io"
  d_zip :: "string list \<Rightarrow> 'fs \<Rightarrow> string + (string + zip_entry) list"
  d_tar :: "string list \<Rightarrow> 'fs \<Rightarrow> string + (string + tar_entry) list"
  w_new :: "string list \<Rightarrow> 'w"
  w_dir :: "string \<Rightarrow> 'w \<Rightarrow> ('w, 'fs) io"
  w_start :: "string \<Rightarrow> 'w \<Rightarrow> ('w, 'fs) io"
  w_copy :: "string list \<Rightarrow> 'w \<Rightarrow> (nat \<times> 'w, 'fs) io" \<comment> \<open>\<open>io::copy\<close> from an open file\<close>
  w_append :: "string \<Rightarrow> nat \<Rightarrow> string list \<Rightarrow> 'w \<Rightarrow> ('w, 'fs) io"
  w_finish :: "'w \<Rightarrow> (unit, 'fs) io"

record ('w, 'fs) LocalProvider =
  lp_dir :: "('w, 'fs) dir_ops"
  lp_writable :: bool

definition vfs_io :: "io_error + 'a \<Rightarrow> VfsError + 'a" where
  "vfs_io r = (case r of Inl e \<Rightarrow> Inl (VfsIo e) | Inr a \<Rightarrow> Inr a)"

text \<open>Sequencing of operations that may change the file system.\<close>

definition io_bind ::
    "(VfsError + 'a) \<times> 'fs \<Rightarrow> ('a \<Rightarrow> 'fs \<Rightarrow> (VfsError + 'b) \<times> 'fs) \<Rightarrow> (VfsError + 'b) \<times> 'fs" where
  "io_bind r f = (case r of (Inl e, fs) \<Rightarrow> (Inl e, fs) | (Inr a, fs) \<Rightarrow> f a fs)"

definition run_io :: "(io_error + 'a) \<times> 'fs \<Rightarrow> (VfsError + 'a) \<times> 'fs" where
  "run_io r = (vfs_io (fst r), snd r)"

definition pure_io :: "VfsError + 'a \<Rightarrow> 'fs \<Rightarrow> (VfsError + 'a) \<times> 'fs" where
  "pure_io r fs = (r, fs)"

section \<open>Entries\<close>

definition system_time :: "int \<Rightarrow> int option" where
  "system_time v = (if 0 \<le> v \<and> v \<le> I64_MAX then Some v else None)"

definition entry_from_metadata :: "string \<Rightarrow> string \<Rightarrow> metadata \<Rightarrow> VfsEntry" where
  "entry_from_metadata name path m =
     \<lparr>ve_name = name, ve_path = path, ve_kind = md_kind m, ve_size = md_len m,
      ve_modified_at = Option.bind (md_modified m) system_time, ve_mode = md_mode m, ve_uid = md_uid m,
      ve_gid = md_gid m\<rparr>"

definition capabilities :: "('w, 'fs) LocalProvider \<Rightarrow> ProviderFeature list" where
  "capabilities p =
     PRead # (if lp_writable p then [PWrite, PTrash, POwnership, PPermissions, PAcl, PResumableUpload] else [])"

definition require_write :: "('w, 'fs) LocalProvider \<Rightarrow> VfsError + unit" where
  "require_write p = (if lp_writable p then Inr () else Inl VfsReadOnly)"

definition provider_entry :: "('w, 'fs) LocalProvider \<Rightarrow> string list \<Rightarrow> string \<Rightarrow> 'fs \<Rightarrow> VfsError + VfsEntry" where
  "provider_entry p relative display_path fs =
     res_bind (vfs_io (d_symlink_metadata (lp_dir p) relative fs)) (\<lambda>m.
       Inr (entry_from_metadata (if relative = [] then ''/'' else last relative) display_path m))"

fun list_items ::
    "('w, 'fs) dir_ops \<Rightarrow> string list \<Rightarrow> string \<Rightarrow> (io_error + string option) list \<Rightarrow> 'fs \<Rightarrow> VfsError + VfsEntry list" where
  "list_items d relative path [] fs = Inr []"
| "list_items d relative path (item # items) fs =
     res_bind (vfs_io item) (\<lambda>name.
     res_bind (res_of_option NonUtf8Name name) (\<lambda>name.
     res_bind (vfs_io (d_child_metadata d relative name fs)) (\<lambda>m.
     res_bind (list_items d relative path items fs) (\<lambda>entries.
       Inr (entry_from_metadata name (join_virtual path name) m # entries)))))"

definition entry_order :: "VfsEntry \<Rightarrow> bool \<times> string" where
  "entry_order e = (ve_kind e \<noteq> KDirectory, to_lowercase (ve_name e))"

definition vfs_list :: "('w, 'fs) LocalProvider \<Rightarrow> string \<Rightarrow> 'fs \<Rightarrow> VfsError + VfsEntry list" where
  "vfs_list p path fs =
     res_bind (normalize_virtual_path path True) (\<lambda>relative.
     res_bind (vfs_io (d_entries (lp_dir p) relative fs)) (\<lambda>items.
     res_bind (list_items (lp_dir p) relative path items fs) (\<lambda>entries.
       Inr (sort_key entry_order entries))))"

definition vfs_stat :: "('w, 'fs) LocalProvider \<Rightarrow> string \<Rightarrow> 'fs \<Rightarrow> VfsError + VfsEntry" where
  "vfs_stat p path fs =
     res_bind (normalize_virtual_path path False) (\<lambda>relative. provider_entry p relative (canonical_virtual path) fs)"

section \<open>Operations that write\<close>

definition create_directory :: "('w, 'fs) LocalProvider \<Rightarrow> string \<Rightarrow> 'fs \<Rightarrow> (VfsError + unit) \<times> 'fs" where
  "create_directory p path fs =
     io_bind (pure_io (require_write p) fs) (\<lambda>_ fs.
     io_bind (pure_io (normalize_virtual_path path False) fs) (\<lambda>relative fs.
     run_io (d_create_dir (lp_dir p) relative fs)))"

definition vfs_rename :: "('w, 'fs) LocalProvider \<Rightarrow> string \<Rightarrow> string \<Rightarrow> 'fs \<Rightarrow> (VfsError + unit) \<times> 'fs" where
  "vfs_rename p from_path to_path fs =
     io_bind (pure_io (require_write p) fs) (\<lambda>_ fs.
     io_bind (pure_io (normalize_virtual_path from_path False) fs) (\<lambda>a fs.
     io_bind (pure_io (normalize_virtual_path to_path False) fs) (\<lambda>b fs.
     run_io (d_rename (lp_dir p) a b fs))))"

definition copy_file :: "('w, 'fs) LocalProvider \<Rightarrow> string \<Rightarrow> string \<Rightarrow> 'fs \<Rightarrow> (VfsError + nat) \<times> 'fs" where
  "copy_file p from_path to_path fs =
     io_bind (pure_io (require_write p) fs) (\<lambda>_ fs.
     io_bind (pure_io (normalize_virtual_path from_path False) fs) (\<lambda>a fs.
     io_bind (pure_io (normalize_virtual_path to_path False) fs) (\<lambda>b fs.
     run_io (d_copy (lp_dir p) a b fs))))"

definition trash :: "('w, 'fs) LocalProvider \<Rightarrow> nat \<Rightarrow> string \<Rightarrow> 'fs \<Rightarrow> (VfsError + string) \<times> 'fs" where
  "trash p now path fs =
     io_bind (pure_io (require_write p) fs) (\<lambda>_ fs.
     io_bind (pure_io (normalize_virtual_path path False) fs) (\<lambda>relative fs.
     io_bind (pure_io (if relative = [] then Inl InvalidPath else Inr (last relative)) fs) (\<lambda>name fs.
     let trash_directory = [''.Trash'', ''clouddesk''];
         destination = trash_directory @ [decimal now @ CHR ''-'' # name] in
     io_bind (run_io (d_create_dir_all (lp_dir p) trash_directory fs)) (\<lambda>_ fs.
     io_bind (run_io (d_rename (lp_dir p) relative destination fs)) (\<lambda>_ fs.
     (Inr (CHR ''/'' # join_with CHR ''/'' destination), fs))))))"

definition read_limited :: "('w, 'fs) LocalProvider \<Rightarrow> string \<Rightarrow> nat \<Rightarrow> 'fs \<Rightarrow> VfsError + bytes" where
  "read_limited p path maximum_bytes fs =
     res_bind (normalize_virtual_path path False) (\<lambda>relative.
     res_bind (vfs_io (d_symlink_metadata (lp_dir p) relative fs)) (\<lambda>m.
     if md_kind m = KSymlink then Inl SymlinkReadDenied
     else if md_len m > maximum_bytes then Inl TooLarge
     else vfs_io (d_read (lp_dir p) relative fs)))"

definition write_file :: "('w, 'fs) LocalProvider \<Rightarrow> string \<Rightarrow> bytes \<Rightarrow> 'fs \<Rightarrow> (VfsError + nat) \<times> 'fs" where
  "write_file p path content fs =
     io_bind (pure_io (require_write p) fs) (\<lambda>_ fs.
     io_bind (pure_io (normalize_virtual_path path False) fs) (\<lambda>relative fs.
     io_bind (if butlast relative \<noteq> [] then run_io (d_create_dir_all (lp_dir p) (butlast relative) fs)
              else (Inr (), fs)) (\<lambda>_ fs.
     io_bind (run_io (d_write (lp_dir p) relative content fs)) (\<lambda>_ fs. (Inr (length content), fs)))))"

definition chmod :: "('w, 'fs) LocalProvider \<Rightarrow> string \<Rightarrow> nat \<Rightarrow> 'fs \<Rightarrow> (VfsError + unit) \<times> 'fs" where
  "chmod p path mode fs =
     io_bind (pure_io (require_write p) fs) (\<lambda>_ fs.
     io_bind (pure_io (normalize_virtual_path path False) fs) (\<lambda>relative fs.
     run_io (d_set_mode (lp_dir p) relative (mode mod 4096) fs)))"

section \<open>Search\<close>

definition str_contains :: "string \<Rightarrow> string \<Rightarrow> bool" where
  "str_contains needle s \<longleftrightarrow> list_ex (\<lambda>k. take (length needle) (drop k s) = needle) [0..<Suc (length s)]"

text \<open>
  One directory of the walk. The result says whether the limit was reached; the stack has its top first.
\<close>

fun search_items ::
    "('w, 'fs) dir_ops \<Rightarrow> string list \<Rightarrow> string \<Rightarrow> string \<Rightarrow> nat \<Rightarrow> (io_error + string option) list \<Rightarrow> 'fs \<Rightarrow>
     (string list \<times> string) list \<Rightarrow> VfsEntry list \<Rightarrow> bool \<times> (string list \<times> string) list \<times> VfsEntry list" where
  "search_items d rel virt query limit [] fs stack results = (False, stack, results)"
| "search_items d rel virt query limit (item # items) fs stack results =
     (case item of
        Inr (Some name) \<Rightarrow>
          (case d_child_metadata d rel name fs of
             Inl _ \<Rightarrow> search_items d rel virt query limit items fs stack results
           | Inr m \<Rightarrow>
             let child_virt = join_virtual virt name;
                 child_rel = rel @ [name];
                 found = str_contains query (to_lowercase name);
                 results' = (if found then results @ [entry_from_metadata name child_virt m] else results);
                 stack' = (if md_kind m = KDirectory \<and> length stack < 100 then (child_rel, child_virt) # stack else stack) in
             if found \<and> length results' \<ge> limit then (True, stack, results')
             else search_items d rel virt query limit items fs stack' results')
      | _ \<Rightarrow> search_items d rel virt query limit items fs stack results)"

fun search_loop ::
    "nat \<Rightarrow> ('w, 'fs) dir_ops \<Rightarrow> string \<Rightarrow> nat \<Rightarrow> 'fs \<Rightarrow> (string list \<times> string) list \<Rightarrow> VfsEntry list \<Rightarrow>
     VfsEntry list option" where
  "search_loop fuel d query limit fs [] results = Some results"
| "search_loop 0 d query limit fs (_ # _) results = None"
| "search_loop (Suc fuel) d query limit fs ((rel, virt) # stack) results =
     (case d_entries d rel fs of
        Inl _ \<Rightarrow> search_loop fuel d query limit fs stack results
      | Inr items \<Rightarrow>
        (case search_items d rel virt query limit items fs stack results of
           (True, _, results') \<Rightarrow> Some results'
         | (False, stack', results') \<Rightarrow> search_loop fuel d query limit fs stack' results'))"

definition vfs_search ::
    "nat \<Rightarrow> ('w, 'fs) LocalProvider \<Rightarrow> string \<Rightarrow> string \<Rightarrow> nat \<Rightarrow> 'fs \<Rightarrow> (VfsError + VfsEntry list) option" where
  "vfs_search fuel p path query maximum_results fs =
     (case normalize_virtual_path path True of
        Inl e \<Rightarrow> Some (Inl e)
      | Inr root_rel \<Rightarrow>
        map_option Inr (search_loop fuel (lp_dir p) (to_lowercase query) (max 1 (min 200 maximum_results)) fs
          [(root_rel, canonical_virtual path)] []))"

section \<open>Archives\<close>

definition MAX_EXTRACT_ENTRIES :: nat where
  "MAX_EXTRACT_ENTRIES = 100000"

definition MAX_EXTRACT_BYTES :: nat where
  "MAX_EXTRACT_BYTES = 4 * 1024 * 1024 * 1024"

datatype WalkKind = WalkFile | WalkDirectory | SkippedSymlink

definition entry_name_of :: "string list \<Rightarrow> string" where
  "entry_name_of source = map (\<lambda>c. if c = CHR 0x5C then CHR ''/'' else c) (join_with CHR ''/'' source)"

definition child_names :: "(io_error + string option) list \<Rightarrow> string list" where
  "child_names items = sort (List.map_filter (\<lambda>i. case i of Inr (Some n) \<Rightarrow> Some n | _ \<Rightarrow> None) items)"

text \<open>The state of a walk: the archive writer, what was counted, and the file system.\<close>

type_synonym ('w, 'fs) walk_state = "'w \<times> ArchiveOutcome \<times> 'fs"

type_synonym ('w, 'fs) visitor =
  "string \<Rightarrow> WalkKind \<Rightarrow> string list \<Rightarrow> ('w, 'fs) walk_state \<Rightarrow> (VfsError + unit) \<times> ('w, 'fs) walk_state"

fun walk_source ::
    "nat \<Rightarrow> ('w, 'fs) dir_ops \<Rightarrow> ('w, 'fs) visitor \<Rightarrow> string list \<Rightarrow> ('w, 'fs) walk_state \<Rightarrow>
     ((VfsError + unit) \<times> ('w, 'fs) walk_state) option"
  and walk_children ::
    "nat \<Rightarrow> ('w, 'fs) dir_ops \<Rightarrow> ('w, 'fs) visitor \<Rightarrow> string list \<Rightarrow> string list \<Rightarrow> ('w, 'fs) walk_state \<Rightarrow>
     ((VfsError + unit) \<times> ('w, 'fs) walk_state) option" where
  "walk_source 0 d visit source st = None"
| "walk_source (Suc fuel) d visit source st =
     (case d_symlink_metadata d source (snd (snd st)) of
        Inl e \<Rightarrow> Some (Inl (VfsIo e), st)
      | Inr m \<Rightarrow>
        if md_kind m = KSymlink then Some (visit (entry_name_of source) SkippedSymlink source st)
        else if md_kind m = KDirectory then
          (case visit (entry_name_of source) WalkDirectory source st of
             (Inl e, st1) \<Rightarrow> Some (Inl e, st1)
           | (Inr _, st1) \<Rightarrow>
             (case d_entries d source (snd (snd st1)) of
                Inl e \<Rightarrow> Some (Inl (VfsIo e), st1)
              | Inr items \<Rightarrow> walk_children fuel d visit source (child_names items) st1))
        else Some (visit (entry_name_of source) WalkFile source st))"
| "walk_children fuel d visit source [] st = Some (Inr (), st)"
| "walk_children fuel d visit source (name # names) st =
     (case walk_source fuel d visit (source @ [name]) st of
        None \<Rightarrow> None
      | Some (Inl e, st1) \<Rightarrow> Some (Inl e, st1)
      | Some (Inr _, st1) \<Rightarrow> walk_children fuel d visit source names st1)"

definition on_writer ::
    "(io_error + 'w) \<times> 'fs \<Rightarrow> ('w, 'fs) walk_state \<Rightarrow> nat \<Rightarrow> (VfsError + unit) \<times> ('w, 'fs) walk_state" where
  "on_writer r st bytes =
     (case (r, st) of
        ((Inl e, fs), (w, out, _)) \<Rightarrow> (Inl (VfsIo e), (w, out, fs))
      | ((Inr w', fs), (w, out, _)) \<Rightarrow>
        (Inr (), (w', out\<lparr>ao_entries := ao_entries out + 1, ao_bytes := ao_bytes out + bytes\<rparr>, fs)))"

definition zip_visit :: "('w, 'fs) dir_ops \<Rightarrow> ('w, 'fs) visitor" where
  "zip_visit d entry_name kind rel st =
     (case st of (w, out, fs) \<Rightarrow>
        (case kind of
           SkippedSymlink \<Rightarrow> (Inr (), st)
         | WalkDirectory \<Rightarrow> on_writer (w_dir d (entry_name @ ''/'') w fs) st 0
         | WalkFile \<Rightarrow>
           (case w_start d entry_name w fs of
              (Inl e, fs1) \<Rightarrow> (Inl (VfsIo e), (w, out, fs1))
            | (Inr w1, fs1) \<Rightarrow>
              (case d_open d rel fs1 of
                 Inl e \<Rightarrow> (Inl (VfsIo e), (w1, out, fs1))
               | Inr _ \<Rightarrow>
                 (case w_copy d rel w1 fs1 of
                    (Inl e, fs2) \<Rightarrow> (Inl (VfsIo e), (w1, out, fs2))
                  | (Inr (n, w2), fs2) \<Rightarrow> on_writer (Inr w2, fs2) (w1, out, fs2) n)))))"

definition tar_visit :: "('w, 'fs) dir_ops \<Rightarrow> ('w, 'fs) visitor" where
  "tar_visit d entry_name kind rel st =
     (case st of (w, out, fs) \<Rightarrow>
        (case kind of
           SkippedSymlink \<Rightarrow> (Inr (), st)
         | WalkDirectory \<Rightarrow> on_writer (w_dir d (entry_name @ ''/'') w fs) st 0
         | WalkFile \<Rightarrow>
           (case d_open d rel fs of
              Inl e \<Rightarrow> (Inl (VfsIo e), st)
            | Inr _ \<Rightarrow>
              (case d_metadata d rel fs of
                 Inl e \<Rightarrow> (Inl (VfsIo e), st)
               | Inr m \<Rightarrow> on_writer (w_append d entry_name (md_len m) rel w fs) st (md_len m)))))"

fun walk_sources ::
    "nat \<Rightarrow> ('w, 'fs) dir_ops \<Rightarrow> ('w, 'fs) visitor \<Rightarrow> string list list \<Rightarrow> ('w, 'fs) walk_state \<Rightarrow>
     ((VfsError + unit) \<times> ('w, 'fs) walk_state) option" where
  "walk_sources fuel d visit [] st = Some (Inr (), st)"
| "walk_sources fuel d visit (source # sources) st =
     (case walk_source fuel d visit source st of
        None \<Rightarrow> None
      | Some (Inl e, st1) \<Rightarrow> Some (Inl e, st1)
      | Some (Inr _, st1) \<Rightarrow> walk_sources fuel d visit sources st1)"

definition write_archive ::
    "nat \<Rightarrow> ('w, 'fs) dir_ops \<Rightarrow> ('w, 'fs) visitor \<Rightarrow> string list list \<Rightarrow> string list \<Rightarrow> 'fs \<Rightarrow>
     ((VfsError + ArchiveOutcome) \<times> 'fs) option" where
  "write_archive fuel d visit sources destination fs =
     (case d_create d destination fs of
        (Inl e, fs1) \<Rightarrow> Some (Inl (VfsIo e), fs1)
      | (Inr _, fs1) \<Rightarrow>
        (case walk_sources fuel d visit sources (w_new d destination, \<lparr>ao_entries = 0, ao_bytes = 0\<rparr>, fs1) of
           None \<Rightarrow> None
         | Some (Inl e, (_, _, fs2)) \<Rightarrow> Some (Inl e, fs2)
         | Some (Inr _, (w, out, fs2)) \<Rightarrow>
           (case w_finish d w fs2 of
              (Inl e, fs3) \<Rightarrow> Some (Inl (VfsIo e), fs3)
            | (Inr _, fs3) \<Rightarrow> Some (Inr out, fs3))))"

fun normalize_all :: "string list \<Rightarrow> VfsError + string list list" where
  "normalize_all [] = Inr []"
| "normalize_all (s # ss) =
     res_bind (normalize_virtual_path s False) (\<lambda>p. res_bind (normalize_all ss) (\<lambda>ps. Inr (p # ps)))"

definition create_archive ::
    "nat \<Rightarrow> ('w, 'fs) LocalProvider \<Rightarrow> string list \<Rightarrow> string \<Rightarrow> ArchiveFormat \<Rightarrow> 'fs \<Rightarrow>
     ((VfsError + ArchiveOutcome) \<times> 'fs) option" where
  "create_archive fuel p sources destination format fs =
     (if \<not> lp_writable p then Some (Inl VfsReadOnly, fs)
      else if sources = [] then Some (Inl EmptyArchiveSelection, fs)
      else case normalize_virtual_path destination False of
          Inl e \<Rightarrow> Some (Inl e, fs)
        | Inr dest \<Rightarrow>
          (case (if butlast dest \<noteq> [] then run_io (d_create_dir_all (lp_dir p) (butlast dest) fs) else (Inr (), fs)) of
             (Inl e, fs1) \<Rightarrow> Some (Inl e, fs1)
           | (Inr _, fs1) \<Rightarrow>
             (case normalize_all sources of
                Inl e \<Rightarrow> Some (Inl e, fs1)
              | Inr resolved \<Rightarrow>
                write_archive fuel (lp_dir p)
                  (case format of Zip \<Rightarrow> zip_visit (lp_dir p) | TarGz \<Rightarrow> tar_visit (lp_dir p)) resolved dest fs1)))"

section \<open>Extraction\<close>

fun copy_with_quota ::
    "('w, 'fs) dir_ops \<Rightarrow> string list \<Rightarrow> chunks \<Rightarrow> nat \<Rightarrow> 'fs \<Rightarrow> (VfsError + nat) \<times> 'fs" where
  "copy_with_quota d target [] running_total fs = (Inr running_total, fs)"
| "copy_with_quota d target (Inl e # cs) running_total fs = (Inl (VfsIo e), fs)"
| "copy_with_quota d target (Inr b # cs) running_total fs =
     (if b = [] then (Inr running_total, fs)
      else if running_total + length b > MAX_EXTRACT_BYTES then (Inl ArchiveQuotaExceeded, fs)
      else case d_append d target b fs of
          (Inl e, fs1) \<Rightarrow> (Inl (VfsIo e), fs1)
        | (Inr _, fs1) \<Rightarrow> copy_with_quota d target cs (running_total + length b) fs1)"

text \<open>A file entry: its parent directories, the file itself, which is recorded before its content is copied.\<close>

definition extract_file ::
    "('w, 'fs) dir_ops \<Rightarrow> string list \<Rightarrow> chunks \<Rightarrow> string list list \<Rightarrow> nat \<Rightarrow> 'fs \<Rightarrow>
     (VfsError + nat) \<times> string list list \<times> 'fs" where
  "extract_file d target chunks created bytes fs =
     (case d_create_dir_all d (butlast target) fs of
        (Inl e, fs1) \<Rightarrow> (Inl (VfsIo e), created, fs1)
      | (Inr _, fs1) \<Rightarrow>
        (case d_create d target fs1 of
           (Inl e, fs2) \<Rightarrow> (Inl (VfsIo e), created, fs2)
         | (Inr _, fs2) \<Rightarrow>
           (case copy_with_quota d target chunks bytes fs2 of
              (r, fs3) \<Rightarrow> (r, created @ [target], fs3))))"

definition extract_dir ::
    "('w, 'fs) dir_ops \<Rightarrow> string list \<Rightarrow> string list list \<Rightarrow> nat \<Rightarrow> 'fs \<Rightarrow>
     (VfsError + nat) \<times> string list list \<times> 'fs" where
  "extract_dir d target created bytes fs =
     (case d_create_dir_all d target fs of
        (Inl e, fs1) \<Rightarrow> (Inl (VfsIo e), created, fs1)
      | (Inr _, fs1) \<Rightarrow> (Inr bytes, created @ [target], fs1))"

fun zip_loop ::
    "('w, 'fs) dir_ops \<Rightarrow> string list \<Rightarrow> (string + zip_entry) list \<Rightarrow> ArchiveOutcome \<Rightarrow> string list list \<Rightarrow> 'fs \<Rightarrow>
     (VfsError + ArchiveOutcome) \<times> string list list \<times> 'fs" where
  "zip_loop d destination [] out created fs = (Inr out, created, fs)"
| "zip_loop d destination (Inl msg # es) out created fs = (Inl (InvalidArchive msg), created, fs)"
| "zip_loop d destination (Inr e # es) out created fs =
     (if ze_symlink e then (Inl ArchiveEntryLinkDenied, created, fs)
      else case safe_entry_path (ze_name e) of
          Inl err \<Rightarrow> (Inl err, created, fs)
        | Inr safe \<Rightarrow>
          (case (if ze_dir e then extract_dir d (destination @ safe) created (ao_bytes out) fs
                 else extract_file d (destination @ safe) (ze_data e) created (ao_bytes out) fs) of
             (Inl err, created1, fs1) \<Rightarrow> (Inl err, created1, fs1)
           | (Inr bytes, created1, fs1) \<Rightarrow>
             zip_loop d destination es \<lparr>ao_entries = ao_entries out + 1, ao_bytes = bytes\<rparr> created1 fs1))"

definition extract_zip ::
    "('w, 'fs) dir_ops \<Rightarrow> string list \<Rightarrow> string list \<Rightarrow> 'fs \<Rightarrow> (VfsError + ArchiveOutcome) \<times> string list list \<times> 'fs" where
  "extract_zip d archive_relative destination fs =
     (case d_open d archive_relative fs of
        Inl e \<Rightarrow> (Inl (VfsIo e), [], fs)
      | Inr _ \<Rightarrow>
        (case d_zip d archive_relative fs of
           Inl msg \<Rightarrow> (Inl (InvalidArchive msg), [], fs)
         | Inr entries \<Rightarrow>
           if length entries > MAX_EXTRACT_ENTRIES then (Inl ArchiveQuotaExceeded, [], fs)
           else zip_loop d destination entries \<lparr>ao_entries = 0, ao_bytes = 0\<rparr> [] fs))"

fun tar_loop ::
    "('w, 'fs) dir_ops \<Rightarrow> string list \<Rightarrow> (string + tar_entry) list \<Rightarrow> ArchiveOutcome \<Rightarrow> string list list \<Rightarrow> 'fs \<Rightarrow>
     (VfsError + ArchiveOutcome) \<times> string list list \<times> 'fs" where
  "tar_loop d destination [] out created fs = (Inr out, created, fs)"
| "tar_loop d destination (Inl msg # es) out created fs = (Inl (InvalidArchive msg), created, fs)"
| "tar_loop d destination (Inr e # es) out created fs =
     (if ao_entries out + 1 > MAX_EXTRACT_ENTRIES then (Inl ArchiveQuotaExceeded, created, fs)
      else if te_type e = TSymlink \<or> te_type e = THardLink then (Inl ArchiveEntryLinkDenied, created, fs)
      else case te_path e of
          Inl msg \<Rightarrow> (Inl (InvalidArchive msg), created, fs)
        | Inr raw \<Rightarrow>
          (case safe_entry_path raw of
             Inl err \<Rightarrow> (Inl err, created, fs)
           | Inr safe \<Rightarrow>
             if te_type e \<noteq> TDir \<and> te_type e \<noteq> TFile then (Inl ArchiveEntryLinkDenied, created, fs)
             else
               (case (if te_type e = TDir then extract_dir d (destination @ safe) created (ao_bytes out) fs
                      else extract_file d (destination @ safe) (te_data e) created (ao_bytes out) fs) of
                  (Inl err, created1, fs1) \<Rightarrow> (Inl err, created1, fs1)
                | (Inr bytes, created1, fs1) \<Rightarrow>
                  tar_loop d destination es \<lparr>ao_entries = ao_entries out + 1, ao_bytes = bytes\<rparr> created1 fs1)))"

definition extract_tar_gz ::
    "('w, 'fs) dir_ops \<Rightarrow> string list \<Rightarrow> string list \<Rightarrow> 'fs \<Rightarrow> (VfsError + ArchiveOutcome) \<times> string list list \<times> 'fs" where
  "extract_tar_gz d archive_relative destination fs =
     (case d_open d archive_relative fs of
        Inl e \<Rightarrow> (Inl (VfsIo e), [], fs)
      | Inr _ \<Rightarrow>
        (case d_tar d archive_relative fs of
           Inl msg \<Rightarrow> (Inl (InvalidArchive msg), [], fs)
         | Inr entries \<Rightarrow> tar_loop d destination entries \<lparr>ao_entries = 0, ao_bytes = 0\<rparr> [] fs))"

definition cleanup_partial_extraction :: "('w, 'fs) dir_ops \<Rightarrow> string list list \<Rightarrow> 'fs \<Rightarrow> 'fs" where
  "cleanup_partial_extraction d created fs =
     fold (\<lambda>p fs. snd (d_remove_dir d p fs)) (rev created)
       (fold (\<lambda>p fs. snd (d_remove_file d p fs)) (rev created) fs)"

definition extract_archive ::
    "('w, 'fs) LocalProvider \<Rightarrow> string \<Rightarrow> string \<Rightarrow> ArchiveFormat \<Rightarrow> 'fs \<Rightarrow> (VfsError + ArchiveOutcome) \<times> 'fs" where
  "extract_archive p archive_path destination format fs =
     (if \<not> lp_writable p then (Inl VfsReadOnly, fs)
      else case normalize_virtual_path archive_path False of
          Inl e \<Rightarrow> (Inl e, fs)
        | Inr archive_relative \<Rightarrow>
          (case normalize_virtual_path destination True of
             Inl e \<Rightarrow> (Inl e, fs)
           | Inr dest \<Rightarrow>
             (case d_create_dir_all (lp_dir p) dest fs of
                (Inl e, fs1) \<Rightarrow> (Inl (VfsIo e), fs1)
              | (Inr _, fs1) \<Rightarrow>
                (case (case format of Zip \<Rightarrow> extract_zip (lp_dir p) archive_relative dest fs1
                                    | TarGz \<Rightarrow> extract_tar_gz (lp_dir p) archive_relative dest fs1) of
                   (Inl e, created, fs2) \<Rightarrow> (Inl e, cleanup_partial_extraction (lp_dir p) created fs2)
                 | (Inr out, created, fs2) \<Rightarrow> (Inr out, fs2)))))"

section \<open>Access control lists\<close>

definition read_acl :: "('w, 'fs) LocalProvider \<Rightarrow> string \<Rightarrow> 'fs \<Rightarrow> VfsError + AclEntry list \<times> bool" where
  "read_acl p path fs =
     res_bind (normalize_virtual_path path False) (\<lambda>relative.
     res_bind (vfs_io (d_real_path (lp_dir p) relative fs)) (\<lambda>real_path.
     case d_getfacl (lp_dir p) real_path fs of
       Inl IoNotFound \<Rightarrow> Inr ([], False)
     | Inl e \<Rightarrow> Inl (VfsIo e)
     | Inr out \<Rightarrow> if \<not> po_success out then Inr ([], False) else Inr (parse_getfacl_output (po_stdout out), True)))"

definition set_acl :: "('w, 'fs) LocalProvider \<Rightarrow> string \<Rightarrow> AclEntry list \<Rightarrow> 'fs \<Rightarrow> (VfsError + unit) \<times> 'fs" where
  "set_acl p path entries fs =
     (if \<not> lp_writable p then (Inl VfsReadOnly, fs)
      else if entries = [] then (Inl (InvalidAclEntry ''no ACL entries supplied''), fs)
      else
        io_bind (pure_io (normalize_virtual_path path False) fs) (\<lambda>relative fs.
        io_bind (pure_io (vfs_io (d_real_path (lp_dir p) relative fs)) fs) (\<lambda>real_path fs.
        io_bind (pure_io (format_specs entries) fs) (\<lambda>specs fs.
        case d_setfacl (lp_dir p) (join_with CHR '','' specs) real_path fs of
          (Inl IoNotFound, fs1) \<Rightarrow> (Inl Unsupported, fs1)
        | (Inl e, fs1) \<Rightarrow> (Inl (VfsIo e), fs1)
        | (Inr out, fs1) \<Rightarrow>
          if po_success out then (Inr (), fs1)
          else if str_contains ''not supported'' (to_lowercase (po_stderr out)) then (Inl Unsupported, fs1)
          else (Inl (VfsIo (IoOther (po_stderr out))), fs1)))))"

section \<open>The typed operations\<close>

definition with_result :: "('a \<Rightarrow> LocalFileResult) \<Rightarrow> (VfsError + 'a) \<times> 'fs \<Rightarrow> ((VfsError + LocalFileResult) \<times> 'fs) option" where
  "with_result f r = Some (io_bind r (\<lambda>a fs. (Inr (f a), fs)))"

fun execute_on ::
    "nat \<Rightarrow> ('w, 'fs) LocalProvider \<Rightarrow> nat \<Rightarrow> LocalFileOperation \<Rightarrow> 'fs \<Rightarrow> ((VfsError + LocalFileResult) \<times> 'fs) option" where
  "execute_on fuel p now (OpList path) fs =
     with_result (\<lambda>es. REntries es (capabilities p)) (vfs_list p path fs, fs)"
| "execute_on fuel p now (OpStat path) fs = with_result REntry (vfs_stat p path fs, fs)"
| "execute_on fuel p now (OpCreateDirectory path) fs = with_result (\<lambda>_. RComplete) (create_directory p path fs)"
| "execute_on fuel p now (OpRename a b) fs = with_result (\<lambda>_. RComplete) (vfs_rename p a b fs)"
| "execute_on fuel p now (OpCopyFile a b) fs = with_result RCopied (copy_file p a b fs)"
| "execute_on fuel p now (OpTrash path) fs = with_result RTrashed (trash p now path fs)"
| "execute_on fuel p now (OpReadPreview path maximum_bytes) fs =
     with_result RPreview (read_limited p path (min maximum_bytes (12 * 1024)) fs, fs)"
| "execute_on fuel p now (OpWriteFile path content) fs = with_result RWritten (write_file p path content fs)"
| "execute_on fuel p now (OpChmod path mode) fs = with_result (\<lambda>_. RComplete) (chmod p path mode fs)"
| "execute_on fuel p now (OpSearch path query maximum_results) fs =
     (case vfs_search fuel p path query maximum_results fs of
        None \<Rightarrow> None
      | Some r \<Rightarrow> with_result RSearchResults (r, fs))"
| "execute_on fuel p now (OpCreateArchive sources destination format) fs =
     (case create_archive fuel p sources destination format fs of
        None \<Rightarrow> None
      | Some r \<Rightarrow> with_result (\<lambda>out. RArchiveCreated (canonical_virtual destination) (ao_entries out) (ao_bytes out)) r)"
| "execute_on fuel p now (OpExtractArchive archive destination format) fs =
     with_result (\<lambda>out. RArchiveExtracted (ao_entries out) (ao_bytes out))
       (extract_archive p archive destination format fs)"
| "execute_on fuel p now (OpReadAcl path) fs = with_result (\<lambda>(es, supported). RAcl es supported) (read_acl p path fs, fs)"
| "execute_on fuel p now (OpSetAcl path entries) fs = with_result (\<lambda>_. RComplete) (set_acl p path entries fs)"

text \<open>Opening the root (\<open>canonicalize\<close>, \<open>open_ambient_dir\<close>) is what the system answers: a directory or an error.\<close>

definition open_provider :: "io_error + ('w, 'fs) dir_ops \<Rightarrow> bool \<Rightarrow> VfsError + ('w, 'fs) LocalProvider" where
  "open_provider opened writable = res_bind (vfs_io opened) (\<lambda>d. Inr \<lparr>lp_dir = d, lp_writable = writable\<rparr>)"

definition execute_local ::
    "nat \<Rightarrow> io_error + ('w, 'fs) dir_ops \<Rightarrow> bool \<Rightarrow> nat \<Rightarrow> LocalFileOperation \<Rightarrow> 'fs \<Rightarrow>
     ((VfsError + LocalFileResult) \<times> 'fs) option" where
  "execute_local fuel opened writable now operation fs =
     (case open_provider opened writable of
        Inl e \<Rightarrow> Some (Inl e, fs)
      | Inr p \<Rightarrow> execute_on fuel p now operation fs)"

end
