(* ===== verification/Vfs_Properties.thy ===== *)
theory Vfs_Properties
  imports Vfs
begin

text \<open>
  What the file provider guarantees, whatever directory handle it stands on: a read-only provider changes
  nothing, the handle is only ever asked for plain names below its root, searches end within their limit,
  extraction keeps its quotas and a failed one removes what it recorded.
\<close>

lemma io_bind_simps [simp]:
  "io_bind (Inl e, fs) f = (Inl e, fs)" "io_bind (Inr a, fs) f = f a fs"
  by (simp_all add: io_bind_def)

lemma run_io_simps [simp]: "run_io (Inl e, fs) = (Inl (VfsIo e), fs)" "run_io (Inr a, fs) = (Inr a, fs)"
  by (simp_all add: run_io_def vfs_io_def)

lemma pure_io_simp [simp]: "pure_io r fs = (r, fs)"
  by (simp add: pure_io_def)

lemma vfs_io_simps [simp]: "vfs_io (Inl e) = Inl (VfsIo e)" "vfs_io (Inr a) = Inr a"
  by (simp_all add: vfs_io_def)

lemma with_result_simps [simp]:
  "with_result f (Inl e, fs) = Some (Inl e, fs)" "with_result f (Inr a, fs) = Some (Inr (f a), fs)"
  by (simp_all add: with_result_def)

lemma with_result_pure: "with_result f (r, fs) = Some (r', fs') \<Longrightarrow> fs' = fs"
  by (cases r) (auto simp: with_result_def)

section \<open>A concrete directory\<close>

text \<open>
  Files with their contents; a directory is there when something is below it. One archive, \<open>z.zip\<close>, holds a
  file \<open>a\<close> and an entry that is refused.
\<close>

type_synonym demo_fs = "(string list \<times> bytes) list"

definition demo_is_dir :: "string list \<Rightarrow> demo_fs \<Rightarrow> bool" where
  "demo_is_dir p fs \<longleftrightarrow> p = [] \<or> list_ex (\<lambda>(q, _). length p < length q \<and> take (length p) q = p) fs"

definition demo_metadata :: "string list \<Rightarrow> demo_fs \<Rightarrow> io_error + metadata" where
  "demo_metadata p fs =
     (let m = (\<lambda>k n. \<lparr>md_kind = k, md_len = n, md_modified = Some 0, md_mode = 420, md_uid = 1, md_gid = 1\<rparr>) in
      case map_of fs p of
        Some b \<Rightarrow> Inr (m KFile (length b))
      | None \<Rightarrow> if demo_is_dir p fs then Inr (m KDirectory 0) else Inl IoNotFound)"

definition demo_put :: "string list \<Rightarrow> bytes \<Rightarrow> demo_fs \<Rightarrow> demo_fs" where
  "demo_put p b fs = (p, b) # filter (\<lambda>x. fst x \<noteq> p) fs"

definition demo_del :: "string list \<Rightarrow> demo_fs \<Rightarrow> demo_fs" where
  "demo_del p fs = filter (\<lambda>x. fst x \<noteq> p) fs"

definition demo_zip :: "(string + zip_entry) list" where
  "demo_zip =
     [Inr \<lparr>ze_name = ''a'', ze_symlink = False, ze_dir = False, ze_data = [Inr ''new'']\<rparr>,
      Inr \<lparr>ze_name = ''../b'', ze_symlink = False, ze_dir = False, ze_data = []\<rparr>]"

definition plain_name :: "string \<Rightarrow> bool" where
  "plain_name c \<longleftrightarrow> c \<noteq> [] \<and> c \<noteq> ''.'' \<and> c \<noteq> ''..'' \<and> CHR ''/'' \<notin> set c \<and> CHR 0x00 \<notin> set c"

definition demo_dir :: "(unit, demo_fs) dir_ops" where
  "demo_dir =
     \<lparr>d_entries = (\<lambda>p fs. if demo_is_dir p fs
        then Inr (map (\<lambda>n. Inr (Some n)) (filter plain_name (remdups (map (\<lambda>(q, _). q ! length p)
               (filter (\<lambda>(q, _). length p < length q \<and> take (length p) q = p) fs)))))
        else Inl IoNotFound),
      d_child_metadata = (\<lambda>p n. demo_metadata (p @ [n])), d_symlink_metadata = demo_metadata,
      d_metadata = demo_metadata,
      d_open = (\<lambda>p fs. if map_of fs p = None then Inl IoNotFound else Inr ()),
      d_read = (\<lambda>p fs. case map_of fs p of None \<Rightarrow> Inl IoNotFound | Some b \<Rightarrow> Inr b),
      d_create_dir = (\<lambda>p fs. (Inr (), fs)), d_create_dir_all = (\<lambda>p fs. (Inr (), fs)),
      d_rename = (\<lambda>p q fs. case map_of fs p of None \<Rightarrow> (Inl IoNotFound, fs)
        | Some b \<Rightarrow> (Inr (), demo_put q b (demo_del p fs))),
      d_copy = (\<lambda>p q fs. case map_of fs p of None \<Rightarrow> (Inl IoNotFound, fs)
        | Some b \<Rightarrow> (Inr (length b), demo_put q b fs)),
      d_write = (\<lambda>p b fs. (Inr (), demo_put p b fs)), d_create = (\<lambda>p fs. (Inr (), demo_put p [] fs)),
      d_append = (\<lambda>p b fs. case map_of fs p of None \<Rightarrow> (Inl IoNotFound, fs)
        | Some a \<Rightarrow> (Inr (), demo_put p (a @ b) fs)),
      d_set_mode = (\<lambda>p m fs. (Inr (), fs)), d_remove_file = (\<lambda>p fs. (Inr (), demo_del p fs)),
      d_remove_dir = (\<lambda>p fs. (Inl IoNotFound, fs)), d_real_path = (\<lambda>p fs. Inl IoNotFound),
      d_getfacl = (\<lambda>_ _. Inl IoNotFound), d_setfacl = (\<lambda>_ _ fs. (Inl IoNotFound, fs)),
      d_zip = (\<lambda>p fs. Inr (if p = [''z.zip''] then demo_zip else take 1 demo_zip)), d_tar = (\<lambda>p fs. Inl []),
      w_new = (\<lambda>_. ()), w_dir = (\<lambda>_ w fs. (Inr w, fs)), w_start = (\<lambda>_ w fs. (Inr w, fs)),
      w_copy = (\<lambda>_ w fs. (Inr (0, w), fs)), w_append = (\<lambda>_ _ _ w fs. (Inr w, fs)), w_finish = (\<lambda>_ fs. (Inr (), fs))\<rparr>"

definition demo_provider :: "bool \<Rightarrow> (unit, demo_fs) LocalProvider" where
  "demo_provider writable = \<lparr>lp_dir = demo_dir, lp_writable = writable\<rparr>"

definition demo_files :: demo_fs where
  "demo_files = [([''a''], ''old''), ([''z.zip''], []), ([''y.zip''], [])]"

section \<open>Read-only providers\<close>

lemmas vfs_op_defs =
  create_directory_def vfs_rename_def copy_file_def trash_def write_file_def chmod_def create_archive_def
  extract_archive_def set_acl_def require_write_def

text \<open>
  A provider that is not writable never changes the file system, whatever it is asked, and every operation
  that would is refused with \<open>ReadOnly\<close> before anything else is looked at.
\<close>

theorem read_only_provider:
  assumes "\<not> lp_writable p" "execute_on fuel p now operation fs = Some (r, fs')"
  shows "fs' = fs \<and> (requires_write operation \<longrightarrow> r = Inl VfsReadOnly)"
  using assms
  by (cases operation)
    (auto simp: vfs_op_defs dest: with_result_pure split: option.splits)

theorem read_only_provider_witness:
  "execute_on 9 (demo_provider False) 0 (OpWriteFile ''/a'' ''x'') demo_files = Some (Inl VfsReadOnly, demo_files)"
proof -
  have "execute_on 9 (demo_provider False) 0 (OpWriteFile ''/a'' ''x'') demo_files \<noteq> None"
    by (simp add: with_result_def)
  then obtain r fs' where x: "execute_on 9 (demo_provider False) 0 (OpWriteFile ''/a'' ''x'') demo_files = Some (r, fs')"
    by fast
  from read_only_provider [OF _ this] show ?thesis using x by (simp add: demo_provider_def)
qed

section \<open>Confinement\<close>

text \<open>The same handle, except that it refuses every path that is not a list of plain names.\<close>

definition only :: "string list \<Rightarrow> 'a \<Rightarrow> 'a \<Rightarrow> 'a" where
  "only p refused a = (if confined p then a else refused)"

definition sandboxed :: "('w, 'fs) dir_ops \<Rightarrow> ('w, 'fs) dir_ops" where
  "sandboxed d = d
     \<lparr>d_entries := (\<lambda>p fs. only p (Inl IoNotFound) (d_entries d p fs)),
      d_child_metadata := (\<lambda>p n fs. only (p @ [n]) (Inl IoNotFound) (d_child_metadata d p n fs)),
      d_symlink_metadata := (\<lambda>p fs. only p (Inl IoNotFound) (d_symlink_metadata d p fs)),
      d_metadata := (\<lambda>p fs. only p (Inl IoNotFound) (d_metadata d p fs)),
      d_open := (\<lambda>p fs. only p (Inl IoNotFound) (d_open d p fs)),
      d_read := (\<lambda>p fs. only p (Inl IoNotFound) (d_read d p fs)),
      d_create_dir := (\<lambda>p fs. only p (Inl IoNotFound, fs) (d_create_dir d p fs)),
      d_create_dir_all := (\<lambda>p fs. only p (Inl IoNotFound, fs) (d_create_dir_all d p fs)),
      d_rename := (\<lambda>p q fs. only (p @ q) (Inl IoNotFound, fs) (d_rename d p q fs)),
      d_copy := (\<lambda>p q fs. only (p @ q) (Inl IoNotFound, fs) (d_copy d p q fs)),
      d_write := (\<lambda>p b fs. only p (Inl IoNotFound, fs) (d_write d p b fs)),
      d_create := (\<lambda>p fs. only p (Inl IoNotFound, fs) (d_create d p fs)),
      d_append := (\<lambda>p b fs. only p (Inl IoNotFound, fs) (d_append d p b fs)),
      d_set_mode := (\<lambda>p m fs. only p (Inl IoNotFound, fs) (d_set_mode d p m fs)),
      d_remove_file := (\<lambda>p fs. only p (Inl IoNotFound, fs) (d_remove_file d p fs)),
      d_remove_dir := (\<lambda>p fs. only p (Inl IoNotFound, fs) (d_remove_dir d p fs)),
      d_real_path := (\<lambda>p fs. only p (Inl IoNotFound) (d_real_path d p fs)),
      d_zip := (\<lambda>p fs. only p (Inl []) (d_zip d p fs)),
      d_tar := (\<lambda>p fs. only p (Inl []) (d_tar d p fs)),
      w_copy := (\<lambda>p w fs. only p (Inl IoNotFound, fs) (w_copy d p w fs)),
      w_append := (\<lambda>n k p w fs. only p (Inl IoNotFound, fs) (w_append d n k p w fs))\<rparr>"

text \<open>Names that a directory lists are plain names, as the system guarantees.\<close>

definition plain_item :: "io_error + string option \<Rightarrow> bool" where
  "plain_item i = (case i of Inr (Some n) \<Rightarrow> confined_component n | _ \<Rightarrow> True)"

definition names_ok :: "('w, 'fs) dir_ops \<Rightarrow> bool" where
  "names_ok d \<longleftrightarrow> (\<forall>p fs items. d_entries d p fs = Inr items \<longrightarrow> list_all plain_item items)"

lemma plain_item_simps [simp]: "plain_item (Inr (Some n)) = confined_component n"
  by (simp add: plain_item_def)

lemma only_confined [simp]: "confined p \<Longrightarrow> only p r a = a"
  by (simp add: only_def)

lemma confined_simps [simp]: "confined []" "confined (p @ q) \<longleftrightarrow> confined p \<and> confined q"
  "confined (c # p) \<longleftrightarrow> confined_component c \<and> confined p"
  by (simp_all add: confined_def)

lemma confined_butlast: "confined p \<Longrightarrow> confined (butlast p)"
  by (auto simp: confined_def list_all_iff dest: in_set_butlastD)

lemma sandboxed_ops [simp]:
  "confined p \<Longrightarrow> d_entries (sandboxed d) p = d_entries d p"
  "confined p \<Longrightarrow> confined_component n \<Longrightarrow> d_child_metadata (sandboxed d) p n = d_child_metadata d p n"
  "confined p \<Longrightarrow> d_symlink_metadata (sandboxed d) p = d_symlink_metadata d p"
  "confined p \<Longrightarrow> d_metadata (sandboxed d) p = d_metadata d p"
  "confined p \<Longrightarrow> d_open (sandboxed d) p = d_open d p"
  "confined p \<Longrightarrow> d_read (sandboxed d) p = d_read d p"
  "confined p \<Longrightarrow> d_create_dir (sandboxed d) p = d_create_dir d p"
  "confined p \<Longrightarrow> d_create_dir_all (sandboxed d) p = d_create_dir_all d p"
  "confined p \<Longrightarrow> confined q \<Longrightarrow> d_rename (sandboxed d) p q = d_rename d p q"
  "confined p \<Longrightarrow> confined q \<Longrightarrow> d_copy (sandboxed d) p q = d_copy d p q"
  "confined p \<Longrightarrow> d_write (sandboxed d) p = d_write d p"
  "confined p \<Longrightarrow> d_create (sandboxed d) p = d_create d p"
  "confined p \<Longrightarrow> d_append (sandboxed d) p = d_append d p"
  "confined p \<Longrightarrow> d_set_mode (sandboxed d) p = d_set_mode d p"
  "confined p \<Longrightarrow> d_remove_file (sandboxed d) p = d_remove_file d p"
  "confined p \<Longrightarrow> d_remove_dir (sandboxed d) p = d_remove_dir d p"
  "confined p \<Longrightarrow> d_real_path (sandboxed d) p = d_real_path d p"
  "confined p \<Longrightarrow> d_zip (sandboxed d) p = d_zip d p"
  "confined p \<Longrightarrow> d_tar (sandboxed d) p = d_tar d p"
  "confined p \<Longrightarrow> w_copy (sandboxed d) p = w_copy d p"
  "confined p \<Longrightarrow> w_append (sandboxed d) n k p = w_append d n k p"
  "d_getfacl (sandboxed d) = d_getfacl d" "d_setfacl (sandboxed d) = d_setfacl d"
  "w_new (sandboxed d) = w_new d" "w_dir (sandboxed d) = w_dir d" "w_start (sandboxed d) = w_start d"
  "w_finish (sandboxed d) = w_finish d"
  by (simp_all add: sandboxed_def fun_eq_iff)

abbreviation sandboxed_provider :: "('w, 'fs) LocalProvider \<Rightarrow> ('w, 'fs) LocalProvider" where
  "sandboxed_provider p \<equiv> p\<lparr>lp_dir := sandboxed (lp_dir p)\<rparr>"

lemma sandboxed_list_items:
  "confined rel \<Longrightarrow> list_all plain_item items \<Longrightarrow>
    list_items (sandboxed d) rel path items fs = list_items d rel path items fs"
proof (induction items)
  case (Cons item items)
  then show ?case by (cases item; cases "projr item") auto
qed simp

lemma sandboxed_search_items:
  "confined rel \<Longrightarrow> list_all plain_item items \<Longrightarrow>
    search_items (sandboxed d) rel virt query limit items fs stack results =
      search_items d rel virt query limit items fs stack results"
proof (induction items arbitrary: stack results)
  case (Cons item items)
  then show ?case by (cases item; cases "projr item") (auto simp: Let_def split: sum.splits)
qed simp

definition stack_ok :: "(string list \<times> string) list \<Rightarrow> bool" where
  "stack_ok stack \<longleftrightarrow> list_all (confined \<circ> fst) stack"

lemma stack_ok_simps [simp]: "stack_ok []" "stack_ok ((p, v) # st) \<longleftrightarrow> confined p \<and> stack_ok st"
  by (simp_all add: stack_ok_def)

lemma search_items_confined:
  "confined rel \<Longrightarrow> list_all plain_item items \<Longrightarrow> stack_ok stack \<Longrightarrow>
    search_items d rel virt query limit items fs stack results = (b, stack', results') \<Longrightarrow> stack_ok stack'"
proof (induction items arbitrary: stack results)
  case (Cons item items)
  show ?case
  proof (cases item)
    case (Inr on)
    show ?thesis
    proof (cases on)
      case (Some n)
      have IH: "search_items d rel virt query limit items fs st rs = (b, stack', results') \<Longrightarrow> stack_ok st \<Longrightarrow>
          stack_ok stack'" for st rs
        using Cons.IH Cons.prems by simp
      from Inr Some Cons.prems show ?thesis
        by (auto simp: Let_def split: sum.splits if_splits intro: IH)
    qed (use Inr Cons in auto)
  qed (use Cons in auto)
qed simp

lemma sandboxed_search_loop:
  assumes "names_ok d"
  shows "stack_ok stack \<Longrightarrow>
    search_loop fuel (sandboxed d) query limit fs stack results = search_loop fuel d query limit fs stack results"
proof (induction fuel arbitrary: stack results)
  case 0
  then show ?case by (cases stack) auto
next
  case (Suc fuel)
  show ?case
  proof (cases stack)
    case (Cons x rest)
    obtain rel virt where x: "x = (rel, virt)" by (cases x)
    with Cons Suc.prems have ok: "confined rel" "stack_ok rest" by auto
    show ?thesis
    proof (cases "d_entries d rel fs")
      case (Inl e)
      with Cons x ok Suc.IH show ?thesis by simp
    next
      case (Inr items)
      then have items: "list_all plain_item items" using assms by (auto simp: names_ok_def)
      obtain b st rs where si: "search_items d rel virt query limit items fs rest results = (b, st, rs)"
        by (cases "search_items d rel virt query limit items fs rest results")
      have "stack_ok st" using search_items_confined [OF ok(1) items ok(2) si] .
      with Cons x ok Inr items si Suc.IH show ?thesis
        by (cases b) (simp_all add: sandboxed_search_items)
    qed
  qed simp
qed

lemma child_names_plain: "list_all plain_item items \<Longrightarrow> n \<in> set (child_names items) \<Longrightarrow> confined_component n"
  by (induction items) (auto simp: child_names_def List.map_filter_simps plain_item_def split: sum.splits option.splits)

lemma sandboxed_visit:
  "confined rel \<Longrightarrow> zip_visit (sandboxed d) name kind rel st = zip_visit d name kind rel st"
  "confined rel \<Longrightarrow> tar_visit (sandboxed d) name kind rel st = tar_visit d name kind rel st"
  by (auto simp: zip_visit_def tar_visit_def split: prod.splits WalkKind.splits sum.splits)

lemma sandboxed_walk_children:
  assumes "\<And>p st. confined p \<Longrightarrow> walk_source fuel (sandboxed d) visit' p st = walk_source fuel d visit p st"
    and "confined source"
  shows "\<forall>n\<in>set names. confined_component n \<Longrightarrow>
    walk_children fuel (sandboxed d) visit' source names st = walk_children fuel d visit source names st"
  using assms(2)
proof (induction names arbitrary: st)
  case (Cons n names)
  then show ?case
    by (simp add: assms(1) split: option.split prod.split sum.split)
qed simp

lemma sandboxed_walk:
  assumes "names_ok d" "\<And>name kind rel st. confined rel \<Longrightarrow> visit' name kind rel st = visit name kind rel st"
  shows "confined source \<Longrightarrow> walk_source fuel (sandboxed d) visit' source st = walk_source fuel d visit source st"
proof (induction fuel arbitrary: source st)
  case (Suc fuel)
  have "\<forall>n\<in>set (child_names items). confined_component n" if "d_entries d source fs = Inr items" for items fs
  proof -
    have "list_all plain_item items" using assms(1) that by (simp add: names_ok_def)
    then show ?thesis using child_names_plain by blast
  qed
  note kids = sandboxed_walk_children [OF Suc.IH Suc.prems this]
  obtain r st1 where v: "visit (entry_name_of source) WalkDirectory source st = (r, st1)"
    by (cases "visit (entry_name_of source) WalkDirectory source st")
  show ?case
    using Suc.prems by (auto simp: assms(2) v kids split: sum.split)
qed simp

lemma sandboxed_walk_sources:
  assumes "names_ok d" "\<And>name kind rel st. confined rel \<Longrightarrow> visit' name kind rel st = visit name kind rel st"
  shows "\<forall>p\<in>set ps. confined p \<Longrightarrow> walk_sources fuel (sandboxed d) visit' ps st = walk_sources fuel d visit ps st"
  by (induction ps arbitrary: st) (auto simp: sandboxed_walk [OF assms] split: option.splits sum.splits)

lemma sandboxed_copy_with_quota:
  "confined target \<Longrightarrow> copy_with_quota (sandboxed d) target cs total' fs = copy_with_quota d target cs total' fs"
  by (induction d target cs total' fs rule: copy_with_quota.induct) (auto split: prod.splits sum.splits)

lemma sandboxed_extract:
  "confined target \<Longrightarrow> extract_file (sandboxed d) target cs created bytes fs = extract_file d target cs created bytes fs"
  "confined target \<Longrightarrow> extract_dir (sandboxed d) target created bytes fs = extract_dir d target created bytes fs"
  by (auto simp: extract_file_def extract_dir_def sandboxed_copy_with_quota confined_butlast
      split: prod.splits sum.splits)

lemma extract_created:
  "extract_file d target cs created bytes fs = (r, created', fs') \<Longrightarrow> set created' \<subseteq> insert target (set created)"
  "extract_dir d target created bytes fs = (r, created', fs') \<Longrightarrow> set created' \<subseteq> insert target (set created)"
  by (auto simp: extract_file_def extract_dir_def split: prod.splits sum.splits)

lemma sandboxed_zip_loop:
  "confined dest \<Longrightarrow> zip_loop (sandboxed d) dest es out created fs = zip_loop d dest es out created fs"
proof (induction es arbitrary: out created fs)
  case (Cons x es)
  show ?case
  proof (cases x)
    case (Inr e)
    show ?thesis
    proof (cases "safe_entry_path (ze_name e)")
      case (Inr safe)
      let ?t = "if ze_dir e then extract_dir d (dest @ safe) created (ao_bytes out) fs
        else extract_file d (dest @ safe) (ze_data e) created (ao_bytes out) fs"
      obtain r c f where t: "?t = (r, c, f)" by (cases ?t)
      have "confined (dest @ safe)" using safe_entry_confined [OF Inr] Cons.prems by simp
      with Inr \<open>x = Inr e\<close> t Cons show ?thesis
        by (cases r) (auto simp: sandboxed_extract split: if_splits)
    qed (use \<open>x = Inr e\<close> in simp)
  qed simp
qed simp

lemma sandboxed_tar_loop:
  "confined dest \<Longrightarrow> tar_loop (sandboxed d) dest es out created fs = tar_loop d dest es out created fs"
proof (induction es arbitrary: out created fs)
  case (Cons x es)
  show ?case
  proof (cases x)
    case (Inr e)
    show ?thesis
    proof (cases "res_bind (te_path e) Inr")
      case p: (Inr raw)
      show ?thesis
      proof (cases "safe_entry_path raw")
        case (Inr safe)
        let ?t = "if te_type e = TDir then extract_dir d (dest @ safe) created (ao_bytes out) fs
          else extract_file d (dest @ safe) (te_data e) created (ao_bytes out) fs"
        obtain r c f where t: "?t = (r, c, f)" by (cases ?t)
        have "confined (dest @ safe)" using safe_entry_confined [OF Inr] Cons.prems by simp
        with Inr p \<open>x = Inr e\<close> t Cons show ?thesis
          by (cases r) (auto simp: sandboxed_extract res_bind_ok split: if_splits)
      qed (use p \<open>x = Inr e\<close> in \<open>simp add: res_bind_ok\<close>)
    qed (use \<open>x = Inr e\<close> in \<open>cases "te_path e"; simp\<close>)
  qed simp
qed simp

text \<open>Whatever was recorded for the clean-up lies below the destination.\<close>

definition recorded_below :: "string list \<Rightarrow> string list list \<Rightarrow> bool" where
  "recorded_below dest created \<longleftrightarrow> (\<forall>p\<in>set created. \<exists>safe. p = dest @ safe \<and> confined safe \<and> safe \<noteq> [])"

lemma recorded_extract:
  assumes "safe_entry_path raw = Inr safe" "recorded_below dest created"
  shows "extract_file d (dest @ safe) cs created bytes fs = (r, created', fs') \<Longrightarrow> recorded_below dest created'"
    and "extract_dir d (dest @ safe) created bytes fs = (r, created', fs') \<Longrightarrow> recorded_below dest created'"
  using extract_created [of d "dest @ safe"] assms safe_entry_ok [OF assms(1)]
  unfolding recorded_below_def by blast+

lemma zip_loop_recorded:
  "zip_loop d dest es out created fs = (r, created', fs') \<Longrightarrow> recorded_below dest created \<Longrightarrow> recorded_below dest created'"
proof (induction es arbitrary: out created fs)
  case (Cons x es)
  then show ?case
    by (cases x) (auto split: if_splits sum.splits prod.splits dest: recorded_extract intro: Cons.IH)
qed simp

lemma tar_loop_recorded:
  "tar_loop d dest es out created fs = (r, created', fs') \<Longrightarrow> recorded_below dest created \<Longrightarrow> recorded_below dest created'"
proof (induction es arbitrary: out created fs)
  case (Cons x es)
  then show ?case
    by (cases x) (auto split: if_splits sum.splits prod.splits dest: recorded_extract intro: Cons.IH)
qed simp

lemma recorded_confined: "recorded_below dest created \<Longrightarrow> confined dest \<Longrightarrow> p \<in> set created \<Longrightarrow> confined p"
  by (auto simp: recorded_below_def)

lemma extract_recorded:
  "extract_zip d a dest fs = (r, created, fs') \<Longrightarrow> recorded_below dest created"
  "extract_tar_gz d a dest fs = (r, created, fs') \<Longrightarrow> recorded_below dest created"
  by (auto simp: extract_zip_def extract_tar_gz_def recorded_below_def [of dest "[]"]
      split: sum.splits if_splits dest!: zip_loop_recorded tar_loop_recorded)

lemma sandboxed_cleanup:
  assumes "\<forall>p\<in>set created. confined p"
  shows "cleanup_partial_extraction (sandboxed d) created fs = cleanup_partial_extraction d created fs"
proof -
  have "fold (\<lambda>p fs. snd (d_remove_file (sandboxed d) p fs)) ps fs = fold (\<lambda>p fs. snd (d_remove_file d p fs)) ps fs"
    "fold (\<lambda>p fs. snd (d_remove_dir (sandboxed d) p fs)) ps fs = fold (\<lambda>p fs. snd (d_remove_dir d p fs)) ps fs"
    if "\<forall>p\<in>set ps. confined p" for ps fs
    using that by (induction ps arbitrary: fs) auto
  with assms show ?thesis by (simp add: cleanup_partial_extraction_def)
qed

lemma sandboxed_extract_archive:
  "extract_archive (sandboxed_provider p) a b format fs = extract_archive p a b format fs"
proof (cases "normalize_virtual_path a False")
  case a: (Inr ar)
  show ?thesis
  proof (cases "normalize_virtual_path b True")
    case b: (Inr dest)
    have ok: "confined ar" "confined dest" using a b normalize_confined by blast+
    let ?x = "\<lambda>d fs1. case format of Zip \<Rightarrow> extract_zip d ar dest fs1 | TarGz \<Rightarrow> extract_tar_gz d ar dest fs1"
    have x: "?x (sandboxed (lp_dir p)) fs1 = ?x (lp_dir p) fs1" for fs1
      using ok by (auto simp: extract_zip_def extract_tar_gz_def sandboxed_zip_loop sandboxed_tar_loop
          split: ArchiveFormat.splits sum.splits)
    have "\<forall>q\<in>set created. confined q" if "?x (lp_dir p) fs1 = (r, created, fs2)" for fs1 r created fs2
    proof -
      have "recorded_below dest created"
        using that extract_recorded by (cases format) auto
      then show ?thesis using recorded_confined ok(2) by blast
    qed
    moreover obtain r0 fs1 where c: "d_create_dir_all (lp_dir p) dest fs = (r0, fs1)"
      by (cases "d_create_dir_all (lp_dir p) dest fs")
    moreover obtain r created fs2 where y: "?x (lp_dir p) fs1 = (r, created, fs2)"
      by (cases "?x (lp_dir p) fs1")
    moreover have y': "?x (sandboxed (lp_dir p)) fs1 = (r, created, fs2)" using x y by simp
    ultimately show ?thesis
      using a b ok
      by (cases format; cases r0; cases r) (auto simp: extract_archive_def sandboxed_cleanup)
  qed (use a in \<open>simp add: extract_archive_def\<close>)
qed (simp add: extract_archive_def)

lemma normalize_all_confined: "normalize_all ss = Inr ps \<Longrightarrow> \<forall>p\<in>set ps. confined p"
  by (induction ss arbitrary: ps) (auto simp: res_bind_ok dest: normalize_confined)

lemma sandboxed_create_archive:
  assumes "names_ok (lp_dir p)"
  shows "create_archive fuel (sandboxed_provider p) sources b format fs = create_archive fuel p sources b format fs"
proof (cases "normalize_virtual_path b False")
  case b: (Inr dest)
  have ok: "confined dest" "confined (butlast dest)" using b normalize_confined confined_butlast by blast+
  let ?v = "\<lambda>d. case format of Zip \<Rightarrow> zip_visit d | TarGz \<Rightarrow> tar_visit d"
  have "?v (sandboxed (lp_dir p)) name kind rel st = ?v (lp_dir p) name kind rel st" if "confined rel" for name kind rel st
    using that by (simp add: sandboxed_visit split: ArchiveFormat.split)
  then have ws: "walk_sources fuel (sandboxed (lp_dir p)) (?v (sandboxed (lp_dir p))) ps st =
      walk_sources fuel (lp_dir p) (?v (lp_dir p)) ps st" if "\<forall>q\<in>set ps. confined q" for ps st
    using that by (intro sandboxed_walk_sources [OF assms]) simp_all
  have w: "write_archive fuel (sandboxed (lp_dir p)) (?v (sandboxed (lp_dir p))) resolved dest fs1 =
      write_archive fuel (lp_dir p) (?v (lp_dir p)) resolved dest fs1" if "normalize_all sources = Inr resolved" for resolved fs1
    unfolding write_archive_def ws [OF normalize_all_confined [OF that]] sandboxed_ops(12) [OF ok(1)]
      sandboxed_ops(22-27) ..
  show ?thesis
    using b ok w by (cases "normalize_all sources"; cases format) (simp_all add: create_archive_def split: sum.split prod.split)
qed (simp add: create_archive_def)

lemma sandboxed_vfs_stat: "vfs_stat (sandboxed_provider p) path fs = vfs_stat p path fs"
  by (cases "normalize_virtual_path path False") (auto simp: vfs_stat_def provider_entry_def require_write_def dest!: normalize_confined)

lemma sandboxed_create_directory: "create_directory (sandboxed_provider p) path fs = create_directory p path fs"
  by (cases "normalize_virtual_path path False") (auto simp: create_directory_def require_write_def dest!: normalize_confined)

lemma sandboxed_vfs_rename: "vfs_rename (sandboxed_provider p) path b fs = vfs_rename p path b fs"
  by (cases "normalize_virtual_path path False"; cases "normalize_virtual_path b False") (auto simp: vfs_rename_def require_write_def dest!: normalize_confined)

lemma sandboxed_copy_file: "copy_file (sandboxed_provider p) path b fs = copy_file p path b fs"
  by (cases "normalize_virtual_path path False"; cases "normalize_virtual_path b False") (auto simp: copy_file_def require_write_def dest!: normalize_confined)

lemma sandboxed_read_limited: "read_limited (sandboxed_provider p) path n fs = read_limited p path n fs"
  by (cases "normalize_virtual_path path False") (auto simp: read_limited_def dest!: normalize_confined cong: if_cong)

lemma sandboxed_write_file: "write_file (sandboxed_provider p) path content fs = write_file p path content fs"
  by (cases "normalize_virtual_path path False") (auto simp: write_file_def confined_butlast require_write_def dest!: normalize_confined)

lemma sandboxed_chmod: "chmod (sandboxed_provider p) path n fs = chmod p path n fs"
  by (cases "normalize_virtual_path path False") (auto simp: chmod_def require_write_def dest!: normalize_confined)

lemma sandboxed_read_acl: "read_acl (sandboxed_provider p) path fs = read_acl p path fs"
  by (cases "normalize_virtual_path path False") (auto simp: read_acl_def require_write_def dest!: normalize_confined)

lemma sandboxed_set_acl: "set_acl (sandboxed_provider p) path acls fs = set_acl p path acls fs"
  by (cases "normalize_virtual_path path False") (auto simp: set_acl_def require_write_def dest!: normalize_confined)

lemmas sandboxed_simple =
  sandboxed_vfs_stat sandboxed_create_directory sandboxed_vfs_rename sandboxed_copy_file sandboxed_read_limited
  sandboxed_write_file sandboxed_chmod sandboxed_read_acl sandboxed_set_acl

lemma digit_plain: "k < 10 \<Longrightarrow> char_of (48 + k) \<noteq> CHR ''/'' \<and> char_of (48 + k) \<noteq> CHR 0x00" for k :: nat
proof -
  assume "k < 10"
  then have "code_of (char_of (48 + k)) = 48 + k" by (simp add: code_of_def)
  note c = this
  have z: "code_of CHR ''/'' = 47" "code_of (CHR 0x00) = 0" by (simp_all add: code_of_def)
  show ?thesis
  proof (intro conjI notI)
    assume "char_of (48 + k) = CHR ''/''"
    from arg_cong [OF this, of code_of] show False unfolding c z by linarith
  next
    assume "char_of (48 + k) = CHR 0x00"
    from arg_cong [OF this, of code_of] show False unfolding c z by linarith
  qed
qed

lemma decimal_plain: "CHR ''/'' \<notin> set (decimal n) \<and> CHR 0x00 \<notin> set (decimal n)"
proof (induction n rule: decimal.induct)
  case (1 n)
  show ?case
  proof (cases "n < 10")
    case True
    with digit_plain [of n] show ?thesis by (auto simp: decimal.simps [of n])
  next
    case False
    with 1 digit_plain [of "n mod 10"] show ?thesis by (auto simp: decimal.simps [of n])
  qed
qed

lemma trash_name_plain:
  assumes "confined_component name"
  shows "confined_component (decimal now @ CHR ''-'' # name)"
proof -
  have "length (decimal now @ CHR ''-'' # name) \<ge> 2" using assms by (cases name) (auto simp: confined_component_def)
  moreover have "CHR ''-'' \<in> set (decimal now @ CHR ''-'' # name)" by simp
  ultimately show ?thesis
    using assms decimal_plain [of now]
    by (auto simp: confined_component_def dest: arg_cong [where f = set])
qed

lemma sandboxed_trash: "trash (sandboxed_provider p) now path fs = trash p now path fs"
proof (cases "normalize_virtual_path path False")
  case (Inr rel)
  have ok: "confined rel" using Inr normalize_confined by blast
  have t: "confined [''.Trash'', ''clouddesk'']" by (simp add: confined_component_def)
  show ?thesis
  proof (cases "rel = []")
    case False
    then have "confined_component (last rel)" using ok by (auto simp: confined_def list_all_iff)
    then have "confined ([''.Trash'', ''clouddesk''] @ [decimal now @ CHR ''-'' # last rel])"
      using t trash_name_plain by simp
    with False Inr ok t show ?thesis by (auto simp: trash_def require_write_def Let_def)
  qed (use Inr in \<open>simp add: trash_def require_write_def\<close>)
qed (simp add: trash_def require_write_def)

lemma sandboxed_vfs_list: "names_ok (lp_dir p) \<Longrightarrow> vfs_list (sandboxed_provider p) path fs = vfs_list p path fs"
  by (cases "normalize_virtual_path path True"; cases "d_entries (lp_dir p) (projr (normalize_virtual_path path True)) fs")
    (auto simp: vfs_list_def names_ok_def sandboxed_list_items dest!: normalize_confined)

lemma sandboxed_vfs_search:
  "names_ok (lp_dir p) \<Longrightarrow> vfs_search fuel (sandboxed_provider p) path query n fs = vfs_search fuel p path query n fs"
  by (cases "normalize_virtual_path path True")
    (auto simp: vfs_search_def sandboxed_search_loop dest!: normalize_confined)


lemma demo_names_ok: "names_ok demo_dir"
  by (auto simp: names_ok_def demo_dir_def list_all_iff plain_name_def confined_component_def split: if_splits)


section \<open>Extraction\<close>

lemma copy_with_quota_total:
  "copy_with_quota d target cs n fs = (Inr m, fs') \<Longrightarrow> n \<le> MAX_EXTRACT_BYTES \<Longrightarrow> n \<le> m \<and> m \<le> MAX_EXTRACT_BYTES"
proof (induction d target cs n fs rule: copy_with_quota.induct)
  case (3 d target b cs n fs)
  then show ?case
    by (cases "d_append d target b fs"; cases "fst (d_append d target b fs)") (auto split: if_splits)
qed auto

lemma extract_bytes:
  "extract_file d target cs created n fs = (Inr m, created', fs') \<Longrightarrow> n \<le> MAX_EXTRACT_BYTES \<Longrightarrow> m \<le> MAX_EXTRACT_BYTES"
  "extract_dir d target created n fs = (Inr m, created', fs') \<Longrightarrow> n \<le> MAX_EXTRACT_BYTES \<Longrightarrow> m \<le> MAX_EXTRACT_BYTES"
  by (auto simp: extract_file_def extract_dir_def split: prod.splits sum.splits dest: copy_with_quota_total)

lemma zip_loop_quota:
  "zip_loop d dest es out created fs = (Inr out', created', fs') \<Longrightarrow> ao_bytes out \<le> MAX_EXTRACT_BYTES \<Longrightarrow>
    ao_bytes out' \<le> MAX_EXTRACT_BYTES \<and> ao_entries out' = ao_entries out + length es"
proof (induction es arbitrary: out created fs)
  case (Cons x es)
  show ?case
  proof (cases x)
    case (Inl m)
    with Cons.prems show ?thesis by simp
  next
    case (Inr e)
    from Cons.prems Inr obtain safe bytes c f where
      step: "(if ze_dir e then extract_dir d (dest @ safe) created (ao_bytes out) fs
        else extract_file d (dest @ safe) (ze_data e) created (ao_bytes out) fs) = (Inr bytes, c, f)"
      and rest: "zip_loop d dest es \<lparr>ao_entries = ao_entries out + 1, ao_bytes = bytes\<rparr> c f = (Inr out', created', fs')"
      by (auto split: if_splits sum.splits prod.splits)
    have "bytes \<le> MAX_EXTRACT_BYTES" using step Cons.prems(2) extract_bytes by (auto split: if_splits)
    with Cons.IH [OF rest] show ?thesis by simp
  qed
qed simp

lemma tar_loop_quota:
  "tar_loop d dest es out created fs = (Inr out', created', fs') \<Longrightarrow> ao_bytes out \<le> MAX_EXTRACT_BYTES \<Longrightarrow>
    ao_entries out \<le> MAX_EXTRACT_ENTRIES \<Longrightarrow>
    ao_bytes out' \<le> MAX_EXTRACT_BYTES \<and> ao_entries out' \<le> MAX_EXTRACT_ENTRIES"
proof (induction es arbitrary: out created fs)
  case (Cons x es)
  show ?case
  proof (cases x)
    case (Inl m)
    with Cons.prems show ?thesis by simp
  next
    case (Inr e)
    from Cons.prems Inr obtain safe bytes c f where
      n: "ao_entries out + 1 \<le> MAX_EXTRACT_ENTRIES" and
      step: "(if te_type e = TDir then extract_dir d (dest @ safe) created (ao_bytes out) fs
        else extract_file d (dest @ safe) (te_data e) created (ao_bytes out) fs) = (Inr bytes, c, f)"
      and rest: "tar_loop d dest es \<lparr>ao_entries = ao_entries out + 1, ao_bytes = bytes\<rparr> c f = (Inr out', created', fs')"
      by (auto split: if_splits sum.splits prod.splits)
    have "bytes \<le> MAX_EXTRACT_BYTES" using step Cons.prems(2) extract_bytes by (auto split: if_splits)
    with Cons.IH [OF rest] n show ?thesis by simp
  qed
qed simp



text \<open>What removal promises: the file is gone, and no file appears.\<close>

definition removal_ok :: "('w, 'fs) dir_ops \<Rightarrow> ('fs \<Rightarrow> string list \<Rightarrow> bool) \<Rightarrow> bool" where
  "removal_ok d file_at \<longleftrightarrow> (\<forall>p q fs.
     \<not> file_at (snd (d_remove_file d p fs)) p \<and>
     (file_at (snd (d_remove_file d p fs)) q \<longrightarrow> file_at fs q) \<and>
     (file_at (snd (d_remove_dir d p fs)) q \<longrightarrow> file_at fs q))"

lemma removal_one:
  assumes "removal_ok d file_at" "\<not> file_at fs q"
  shows "\<not> file_at (snd (d_remove_file d p fs)) q" "\<not> file_at (snd (d_remove_dir d p fs)) q"
  using assms unfolding removal_ok_def by blast+

lemma removal_keeps_gone:
  assumes "removal_ok d file_at"
  shows "\<not> file_at fs q \<Longrightarrow> \<not> file_at (fold (\<lambda>p fs. snd (d_remove_file d p fs)) ps fs) q"
    and "\<not> file_at fs q \<Longrightarrow> \<not> file_at (fold (\<lambda>p fs. snd (d_remove_dir d p fs)) ps fs) q"
  by (induction ps arbitrary: fs) (simp_all add: removal_one [OF assms])

lemma cleanup_removes:
  assumes "removal_ok d file_at" "q \<in> set created"
  shows "\<not> file_at (cleanup_partial_extraction d created fs) q"
proof -
  have "q \<in> set ps \<Longrightarrow> \<not> file_at (fold (\<lambda>p fs. snd (d_remove_file d p fs)) ps fs) q" for ps fs
  proof (induction ps arbitrary: fs)
    case (Cons p ps)
    show ?case
    proof (cases "q \<in> set ps")
      case True
      with Cons.IH show ?thesis by simp
    next
      case False
      with Cons.prems have "p = q" by simp
      then have "\<not> file_at (snd (d_remove_file d p fs)) q" using assms(1) unfolding removal_ok_def by blast
      then show ?thesis using removal_keeps_gone(1) [OF assms(1)] by simp
    qed
  qed simp
  then show ?thesis
    unfolding cleanup_partial_extraction_def using assms(2) by (intro removal_keeps_gone(2) [OF assms(1)]) simp
qed

text \<open>
  A failed extraction deletes every file it had opened, also one that was there before with other content:
  files are recorded when they are created over, and the clean-up removes what was recorded.
\<close>

theorem failed_extraction_deletes:
  assumes "removal_ok (lp_dir p) file_at" "lp_writable p"
    and "normalize_virtual_path a False = Inr ar" "normalize_virtual_path b True = Inr dest"
    and "d_create_dir_all (lp_dir p) dest fs = (Inr (), fs1)"
    and "(case format of Zip \<Rightarrow> extract_zip (lp_dir p) ar dest fs1 | TarGz \<Rightarrow> extract_tar_gz (lp_dir p) ar dest fs1) =
      (Inl e, created, fs2)"
    and "q \<in> set created"
  shows "\<exists>fs'. extract_archive p a b format fs = (Inl e, fs') \<and> \<not> file_at fs' q"
  using assms cleanup_removes [OF assms(1,7)] by (cases format) (auto simp: extract_archive_def)

definition demo_file_at :: "demo_fs \<Rightarrow> string list \<Rightarrow> bool" where
  "demo_file_at fs p \<longleftrightarrow> p \<in> fst ` set fs"

theorem failed_extraction_deletes_witness:
  "demo_file_at demo_files [''a''] \<and>
   \<not> demo_file_at (snd (extract_archive (demo_provider True) ''z.zip'' ''/'' Zip demo_files)) [''a'']"
proof -
  have r: "removal_ok (lp_dir (demo_provider True)) demo_file_at"
    by (auto simp: removal_ok_def demo_provider_def demo_dir_def demo_del_def demo_file_at_def)
  have n: "normalize_virtual_path ''z.zip'' False = Inr [''z.zip'']" "normalize_virtual_path ''/'' True = Inr []"
    by code_simp+
  have "extract_zip demo_dir [''z.zip''] [] demo_files =
      (Inl (UnsafeArchiveEntry ''../b''), [[''a'']], [([''a''], ''new''), ([''z.zip''], []), ([''y.zip''], [])])"
    by (simp add: components_def path_components_def
        extract_zip_def demo_dir_def demo_zip_def demo_files_def safe_entry_path_def is_ascii_alphabetic_def
        extract_file_def demo_put_def MAX_EXTRACT_BYTES_def MAX_EXTRACT_ENTRIES_def)
  then show ?thesis
    using failed_extraction_deletes [OF r _ n, of demo_files demo_files Zip "UnsafeArchiveEntry ''../b''" "[[''a'']]" _ "[''a'']"]
    by (auto simp: demo_provider_def demo_dir_def demo_file_at_def demo_files_def)
qed

section \<open>Search ends\<close>

text \<open>The number of directories below a path, to the depth \<open>k\<close>; it bounds the fuel that a search needs.\<close>

fun tree_size :: "('w, 'fs) dir_ops \<Rightarrow> 'fs \<Rightarrow> nat \<Rightarrow> string list \<Rightarrow> nat" where
  "tree_size d fs 0 p = 1"
| "tree_size d fs (Suc k) p =
     1 + (case d_entries d p fs of
            Inl _ \<Rightarrow> 0
          | Inr items \<Rightarrow> sum_list (map (\<lambda>i. case i of Inr (Some n) \<Rightarrow> tree_size d fs k (p @ [n]) | _ \<Rightarrow> 0) items))"

definition tree_depth :: "('w, 'fs) dir_ops \<Rightarrow> 'fs \<Rightarrow> nat \<Rightarrow> bool" where
  "tree_depth d fs n \<longleftrightarrow> (\<forall>p. n \<le> length p \<longrightarrow> \<not> is_ok (d_entries d p fs))"

definition stack_size :: "('w, 'fs) dir_ops \<Rightarrow> 'fs \<Rightarrow> nat \<Rightarrow> (string list \<times> string) list \<Rightarrow> nat" where
  "stack_size d fs n stack = sum_list (map (\<lambda>x. tree_size d fs (n - length (fst x)) (fst x)) stack)"

definition items_size :: "('w, 'fs) dir_ops \<Rightarrow> 'fs \<Rightarrow> nat \<Rightarrow> string list \<Rightarrow> (io_error + string option) list \<Rightarrow> nat" where
  "items_size d fs k p items =
     sum_list (map (\<lambda>i. case i of Inr (Some n) \<Rightarrow> tree_size d fs k (p @ [n]) | _ \<Rightarrow> 0) items)"

lemma stack_size_simps [simp]:
  "stack_size d fs n [] = 0"
  "stack_size d fs n ((p, v) # st) = tree_size d fs (n - length p) p + stack_size d fs n st"
  by (simp_all add: stack_size_def)

lemma items_size_simps [simp]:
  "items_size d fs k p [] = 0"
  "items_size d fs k p (Inr (Some n) # is) = tree_size d fs k (p @ [n]) + items_size d fs k p is"
  "items_size d fs k p (Inr None # is) = items_size d fs k p is"
  "items_size d fs k p (Inl e # is) = items_size d fs k p is"
  by (simp_all add: items_size_def)

lemma search_items_size:
  assumes "search_items d rel virt query limit items fs stack results = (False, stack', results')"
  shows "stack_size d fs n stack' \<le> stack_size d fs n stack + items_size d fs (n - Suc (length rel)) rel items"
  using assms
proof (induction items arbitrary: stack results)
  case (Cons i items)
  have IH: "search_items d rel virt query limit items fs st rs = (False, stack', results') \<Longrightarrow>
      stack_size d fs n stack' \<le> stack_size d fs n st + items_size d fs (n - Suc (length rel)) rel items" for st rs
    using Cons.IH by blast
  show ?case
  proof (cases i)
    case (Inl e)
    with Cons.prems IH show ?thesis by simp
  next
    case (Inr on)
    show ?thesis
    proof (cases on)
      case None
      with Inr Cons.prems IH show ?thesis by simp
    next
      case (Some name)
      from Inr Some Cons.prems show ?thesis
        by (auto simp: Let_def split: sum.splits if_splits dest!: IH)
    qed
  qed
qed simp

lemma search_items_count:
  assumes "search_items d rel virt query limit items fs stack results = (b, stack', results')" "length results < limit"
  shows "length results' \<le> limit \<and> (b = False \<longrightarrow> length results' < limit)"
  using assms
proof (induction items arbitrary: stack results)
  case (Cons i items)
  have IH: "search_items d rel virt query limit items fs st rs = (b, stack', results') \<Longrightarrow> length rs < limit \<Longrightarrow>
      length results' \<le> limit \<and> (b = False \<longrightarrow> length results' < limit)" for st rs
    using Cons.IH by blast
  show ?case
  proof (cases i)
    case (Inl e)
    with Cons.prems IH [of stack results] show ?thesis by simp
  next
    case (Inr on)
    show ?thesis
    proof (cases on)
      case None
      with Inr Cons.prems IH [of stack results] show ?thesis by simp
    next
      case (Some name)
      show ?thesis
      proof (cases "d_child_metadata d rel name fs")
        case (Inl e)
        with Inr Some \<open>i = Inr on\<close> Cons.prems IH [of stack results] show ?thesis by simp
      next
        case md: (Inr m)
        show ?thesis
          using Cons.prems \<open>i = Inr on\<close> Some md
          by (auto simp: Let_def split: if_splits dest!: IH)
      qed
    qed
  qed
qed simp

lemma search_loop_ends:
  assumes "tree_depth d fs n"
  shows "stack_size d fs n stack \<le> fuel \<Longrightarrow> length results < limit \<Longrightarrow>
    \<exists>rs. search_loop fuel d query limit fs stack results = Some rs \<and> length rs \<le> limit"
proof (induction fuel arbitrary: stack results)
  case 0
  show ?case
  proof (cases stack)
    case (Cons x rest)
    have "tree_size d fs k p \<noteq> 0" for k p by (cases k) auto
    with 0 Cons show ?thesis by (cases x) auto
  qed (use 0 in auto)
next
  case (Suc fuel)
  show ?case
  proof (cases stack)
    case (Cons x rest)
    obtain p v where x: "x = (p, v)" by (cases x)
    have size1: "tree_size d fs k q \<ge> 1" for k q by (cases k) auto
    show ?thesis
    proof (cases "d_entries d p fs")
      case (Inl e)
      have "stack_size d fs n rest \<le> fuel" using Suc.prems(1) Cons x size1 [of "n - length p" p] by simp
      with Suc.IH [of rest results] Suc.prems(2) Inl Cons x show ?thesis by simp
    next
      case (Inr items)
      then have "length p < n" using assms by (auto simp: tree_depth_def not_less dest!: spec [of _ p])
      then have sz: "tree_size d fs (n - length p) p = 1 + items_size d fs (n - Suc (length p)) p items"
        using Inr by (simp add: items_size_def Suc_diff_Suc [symmetric])
      obtain b st rs where si: "search_items d p v query limit items fs rest results = (b, st, rs)"
        by (cases "search_items d p v query limit items fs rest results")
      note count = search_items_count [OF si Suc.prems(2)]
      show ?thesis
      proof (cases b)
        case True
        with Cons x Inr si count show ?thesis by simp
      next
        case False
        with si have "search_items d p v query limit items fs rest results = (False, st, rs)" by simp
        from search_items_size [OF this, of n] have "stack_size d fs n st \<le> fuel"
          using Suc.prems(1) Cons x sz by simp
        with Suc.IH [of st rs] count False Cons x Inr si show ?thesis by simp
      qed
    qed
  qed (use Suc in auto)
qed

text \<open>
  (C19) A search always comes to an end, on every tree of bounded depth, and returns at most the number of results
  asked for, never more than 200: as many rounds as there are directories below the starting point are
  enough, so that links between directories cannot make it run for ever.
\<close>

theorem search_terminates:
  assumes "tree_depth (lp_dir p) fs n" "normalize_virtual_path path True = Inr rel"
    and "tree_size (lp_dir p) fs (n - length rel) rel \<le> fuel"
  shows "\<exists>rs. vfs_search fuel p path query maximum_results fs = Some (Inr rs) \<and>
    length rs \<le> max 1 maximum_results \<and> length rs \<le> 200"
proof -
  have "stack_size (lp_dir p) fs n [(rel, canonical_virtual path)] \<le> fuel" using assms(3) by simp
  from search_loop_ends [OF assms(1) this, of "[]" "max 1 (min 200 maximum_results)" "to_lowercase query"]
  show ?thesis using assms(2) by (fastforce simp: vfs_search_def)
qed

theorem search_terminates_witness:
  "vfs_search 4 (demo_provider False) ''/'' ''a'' 0 demo_files \<noteq> None"
proof -
  have d: "tree_depth (lp_dir (demo_provider False)) demo_files 1"
    by (auto simp: tree_depth_def demo_provider_def demo_dir_def demo_is_dir_def demo_files_def)
  have n: "normalize_virtual_path ''/'' True = Inr []" by code_simp
  have "tree_size (lp_dir (demo_provider False)) demo_files 1 [] = 4" by code_simp
  then show ?thesis using search_terminates [OF d n, of 4 "''a''" 0] by auto
qed

end
