(* ===== verification/Privilege.thy ===== *)
theory Privilege
  imports Vfs
begin

text \<open>
  The protocol between the web service and the root helper (\<open>crates/privilege/src/lib.rs\<close>): the typed actions, the
  capability each one needs, and the signed, short-lived grants that carry them. HMAC-SHA256, base64 and the JSON
  form of the claims are the fields of \<open>grant_env\<close>; the random nonce is an argument. Times are \<open>i64\<close>: additions and
  subtractions wrap around, as they do in a release build.
\<close>

section \<open>Actions\<close>

datatype WorkerKind = IdentityProbe | FilesWorker | TerminalWorker

datatype ServiceUnit = ServiceUnit string

datatype ServiceOperation = SvcStart | SvcStop | SvcRestart | SvcEnable | SvcDisable

datatype PowerOperation = Reboot | Shutdown

datatype PrivilegedAction =
    SpawnUserWorker nat nat WorkerKind
  | ActLocalFile nat nat string bool LocalFileOperation
  | OpenTerminalSession nat nat nat nat "string option"
  | ServiceControl ServiceUnit ServiceOperation
  | Power PowerOperation

fun required_capability :: "PrivilegedAction \<Rightarrow> string" where
  "required_capability (SpawnUserWorker _ _ worker) =
     (case worker of
        TerminalWorker \<Rightarrow> ''terminal.local.open''
      | _ \<Rightarrow> ''files.local.read'')"
| "required_capability (ActLocalFile _ _ _ _ operation) =
     (case operation of
        OpSetAcl _ _ \<Rightarrow> ''files.permissions.change''
      | _ \<Rightarrow> if requires_write operation then ''files.local.write'' else ''files.local.read'')"
| "required_capability (OpenTerminalSession _ _ _ _ _) = ''terminal.local.open''"
| "required_capability (ServiceControl _ _) = ''system.services.manage''"
| "required_capability (Power _) = ''system.power.manage''"

fun requires_step_up :: "PrivilegedAction \<Rightarrow> bool" where
  "requires_step_up (ServiceControl _ _) = True"
| "requires_step_up (Power _) = True"
| "requires_step_up _ = False"

datatype GrantError = InvalidKey | InvalidLifetime | Expired | InvalidSignature | InvalidServiceUnit | Serialization string

definition new_service_unit :: "string \<Rightarrow> GrantError + ServiceUnit" where
  "new_service_unit value =
     (if value = [] \<or> length value > 128 \<or>
         \<not> list_all (\<lambda>c. is_ascii_alphanumeric c \<or> c = CHR ''.'' \<or> c = CHR ''@'' \<or> c = CHR ''_'' \<or> c = CHR ''-'') value
      then Inl InvalidServiceUnit
      else Inr (ServiceUnit value))"

fun unit_str :: "ServiceUnit \<Rightarrow> string" where
  "unit_str (ServiceUnit s) = s"

section \<open>Grants\<close>

record GrantClaims =
  gc_subject_user_id :: string
  gc_session_id_hash :: string
  gc_action :: PrivilegedAction
  gc_issued_at :: int
  gc_expires_at :: int
  gc_nonce :: string

record SignedGrant =
  sg_claims :: GrantClaims
  sg_signature :: string

record GrantSigner =
  gs_key :: bytes

record grant_env =
  ge_json :: "GrantClaims \<Rightarrow> string + bytes"
  ge_hmac :: "bytes \<Rightarrow> bytes \<Rightarrow> bytes" \<comment> \<open>key, message\<close>
  ge_encode :: "bytes \<Rightarrow> string"
  ge_decode :: "string \<Rightarrow> bytes option"

definition wrap_i64 :: "int \<Rightarrow> int" where
  "wrap_i64 n = (n + 2 ^ 63) mod 2 ^ 64 - 2 ^ 63"

definition new_signer :: "bytes \<Rightarrow> GrantError + GrantSigner" where
  "new_signer key = (if length key = 32 then Inr \<lparr>gs_key = key\<rparr> else Inl InvalidKey)"

definition claims_json :: "grant_env \<Rightarrow> GrantClaims \<Rightarrow> GrantError + bytes" where
  "claims_json env c = (case ge_json env c of Inl e \<Rightarrow> Inl (Serialization e) | Inr j \<Rightarrow> Inr j)"

definition grant_signature :: "grant_env \<Rightarrow> GrantSigner \<Rightarrow> GrantClaims \<Rightarrow> GrantError + string" where
  "grant_signature env s c =
     res_bind (claims_json env c) (\<lambda>j. Inr (ge_encode env (ge_hmac env (gs_key s) j)))"

definition issue ::
    "grant_env \<Rightarrow> GrantSigner \<Rightarrow> string \<Rightarrow> string \<Rightarrow> string \<Rightarrow> PrivilegedAction \<Rightarrow> int \<Rightarrow> int \<Rightarrow> GrantError + SignedGrant" where
  "issue env s nonce subject_user_id session_id_hash action issued_at lifetime_seconds =
     (if \<not> (1 \<le> lifetime_seconds \<and> lifetime_seconds \<le> 300) then Inl InvalidLifetime
      else
        let claims = \<lparr>gc_subject_user_id = subject_user_id, gc_session_id_hash = session_id_hash, gc_action = action,
              gc_issued_at = issued_at, gc_expires_at = wrap_i64 (issued_at + lifetime_seconds), gc_nonce = nonce\<rparr> in
        res_bind (grant_signature env s claims) (\<lambda>signature.
          Inr \<lparr>sg_claims = claims, sg_signature = signature\<rparr>))"

definition grant_verify :: "grant_env \<Rightarrow> GrantSigner \<Rightarrow> SignedGrant \<Rightarrow> int \<Rightarrow> GrantError + unit" where
  "grant_verify env s grant now =
     (let c = sg_claims grant in
      if gc_expires_at c < now \<or> gc_issued_at c > wrap_i64 (now + 30) then Inl Expired
      else if wrap_i64 (gc_expires_at c - gc_issued_at c) > 300 then Inl InvalidLifetime
      else
        res_bind (res_of_option InvalidSignature (ge_decode env (sg_signature grant))) (\<lambda>actual.
        res_bind (claims_json env c) (\<lambda>j.
        if ge_hmac env (gs_key s) j = actual then Inr () else Inl InvalidSignature)))"

section \<open>What grants guarantee\<close>

definition base64_law :: "grant_env \<Rightarrow> bool" where
  "base64_law env \<longleftrightarrow> (\<forall>b. ge_decode env (ge_encode env b) = Some b)"

text \<open>On the messages of a set the code under one key has no collision.\<close>

definition mac_distinct :: "grant_env \<Rightarrow> bytes \<Rightarrow> bytes set \<Rightarrow> bool" where
  "mac_distinct env key msgs \<longleftrightarrow> inj_on (ge_hmac env key) msgs"

definition json_faithful :: "grant_env \<Rightarrow> bool" where
  "json_faithful env \<longleftrightarrow> (\<forall>c c' j. ge_json env c = Inr j \<longrightarrow> ge_json env c' = Inr j \<longrightarrow> c = c')"

lemma wrap_i64_id: "- (2 ^ 63) \<le> n \<Longrightarrow> n < 2 ^ 63 \<Longrightarrow> wrap_i64 n = n"
  by (simp add: wrap_i64_def)

lemma claims_json_ok: "claims_json env c = Inr j \<longleftrightarrow> ge_json env c = Inr j"
  by (auto simp: claims_json_def split: sum.splits)

lemma grant_verify_ok:
  "grant_verify env s g now = Inr () \<longleftrightarrow>
     now \<le> gc_expires_at (sg_claims g) \<and> gc_issued_at (sg_claims g) \<le> wrap_i64 (now + 30) \<and>
     wrap_i64 (gc_expires_at (sg_claims g) - gc_issued_at (sg_claims g)) \<le> 300 \<and>
     (\<exists>j. ge_json env (sg_claims g) = Inr j \<and>
        ge_decode env (sg_signature g) = Some (ge_hmac env (gs_key s) j))"
  by (auto simp: grant_verify_def Let_def res_bind_ok res_of_option_ok claims_json_ok split: if_splits)

lemma issue_ok:
  assumes "issue env s nonce subj sess action t life = Inr g"
  shows "1 \<le> life \<and> life \<le> 300 \<and> gc_issued_at (sg_claims g) = t \<and> gc_expires_at (sg_claims g) = wrap_i64 (t + life) \<and>
    gc_nonce (sg_claims g) = nonce \<and> gc_action (sg_claims g) = action \<and> gc_subject_user_id (sg_claims g) = subj \<and>
    gc_session_id_hash (sg_claims g) = sess \<and>
    (\<exists>j. ge_json env (sg_claims g) = Inr j \<and> sg_signature g = ge_encode env (ge_hmac env (gs_key s) j))"
  using assms
  by (auto simp: issue_def grant_signature_def claims_json_ok Let_def res_bind_ok split: if_splits)

text \<open>
  (C20) A grant is accepted from 30 seconds before it was issued until it expires, at most 300 seconds later, and at no
  other time; and no other claims are accepted under its signature, whatever part of them was changed.
\<close>

theorem grant_round_trip:
  assumes "issue env s nonce subj sess action t life = Inr g"
    and "base64_law env" "json_faithful env"
    and "0 \<le> t" "t < 2 ^ 62" "0 \<le> now" "now < 2 ^ 62"
    and "sg_claims g' \<noteq> sg_claims g" "sg_signature g' = sg_signature g"
    and "\<And>j. ge_json env (sg_claims g) = Inr j \<Longrightarrow> j \<in> msgs"
    and "\<And>j. ge_json env (sg_claims g') = Inr j \<Longrightarrow> j \<in> msgs"
    and "mac_distinct env (gs_key s) msgs"
  shows "(grant_verify env s g now = Inr () \<longleftrightarrow> t - 30 \<le> now \<and> now \<le> t + life) \<and> t + life \<le> t + 300 \<and>
    grant_verify env s g' now \<noteq> Inr ()"
proof (intro conjI)
  note i = issue_ok [OF assms(1)]
  then obtain j where j: "ge_json env (sg_claims g) = Inr j" "sg_signature g = ge_encode env (ge_hmac env (gs_key s) j)"
    by blast
  have w: "wrap_i64 (t + life) = t + life" "wrap_i64 (now + 30) = now + 30" "wrap_i64 life = life"
    using i assms(4-7) by (auto intro!: wrap_i64_id)
  show "grant_verify env s g now = Inr () \<longleftrightarrow> t - 30 \<le> now \<and> now \<le> t + life"
    using i j w assms(2) by (auto simp: grant_verify_ok base64_law_def)
  show "t + life \<le> t + 300" using i by simp
  show "grant_verify env s g' now \<noteq> Inr ()"
  proof
    assume "grant_verify env s g' now = Inr ()"
    then obtain j' where j': "ge_json env (sg_claims g') = Inr j'"
        "ge_decode env (sg_signature g') = Some (ge_hmac env (gs_key s) j')"
      by (auto simp: grant_verify_ok)
    then have "ge_hmac env (gs_key s) j' = ge_hmac env (gs_key s) j"
      using j assms(2,9) by (simp add: base64_law_def)
    then have "j' = j" using assms(10) [OF j(1)] assms(11) [OF j'(1)] assms(12)
      by (auto simp: mac_distinct_def dest: inj_onD)
    with j j' assms(3,8) show False by (auto simp: json_faithful_def)
  qed
qed

text \<open>A concrete environment: two sets of claims have a JSON form, the code of a message is key and message.\<close>

definition demo_claims :: "PrivilegedAction \<Rightarrow> GrantClaims" where
  "demo_claims a = \<lparr>gc_subject_user_id = ''u'', gc_session_id_hash = ''s'', gc_action = a, gc_issued_at = 100,
     gc_expires_at = 160, gc_nonce = ''n1''\<rparr>"

definition demo_probe :: PrivilegedAction where
  "demo_probe = SpawnUserWorker 7 7 IdentityProbe"

definition demo_grants :: grant_env where
  "demo_grants = \<lparr>
     ge_json = (\<lambda>c. if c = demo_claims demo_probe then Inr ''probe''
        else if c = demo_claims (Power Reboot) then Inr ''reboot'' else Inl ''unsupported''),
     ge_hmac = (\<lambda>k m. k @ m), ge_encode = (\<lambda>b. b), ge_decode = Some\<rparr>"

definition demo_signer :: GrantSigner where
  "demo_signer = \<lparr>gs_key = replicate 32 CHR 0x03\<rparr>"

definition demo_grant :: "PrivilegedAction \<Rightarrow> SignedGrant" where
  "demo_grant a = \<lparr>sg_claims = demo_claims a, sg_signature = replicate 32 CHR 0x03 @ ''probe''\<rparr>"

lemma demo_grants_laws: "base64_law demo_grants" "json_faithful demo_grants" "mac_distinct demo_grants k M"
  by (auto simp: demo_grants_def base64_law_def json_faithful_def mac_distinct_def inj_on_def demo_claims_def
      demo_probe_def split: if_splits)

lemma demo_issue: "issue demo_grants demo_signer ''n1'' ''u'' ''s'' demo_probe 100 60 = Inr (demo_grant demo_probe)"
  by (simp add: issue_def grant_signature_def claims_json_def demo_grants_def demo_signer_def demo_grant_def
      demo_claims_def Let_def wrap_i64_def)

theorem grant_round_trip_witness:
  "grant_verify demo_grants demo_signer (demo_grant demo_probe) 120 = Inr () \<and>
   grant_verify demo_grants demo_signer (demo_grant demo_probe) 161 \<noteq> Inr () \<and>
   grant_verify demo_grants demo_signer (demo_grant (Power Reboot)) 120 \<noteq> Inr ()"
proof -
  have d: "sg_claims (demo_grant (Power Reboot)) \<noteq> sg_claims (demo_grant demo_probe)"
      "sg_signature (demo_grant (Power Reboot)) = sg_signature (demo_grant demo_probe)"
    by (simp_all add: demo_grant_def demo_claims_def demo_probe_def)
  note r = grant_round_trip [OF demo_issue demo_grants_laws(1,2) _ _ _ _ d UNIV_I UNIV_I demo_grants_laws(3)]
  from r [of 120] r [of 161] show ?thesis by simp
qed

end
