(* ===== verification/Linux_Identity.thy ===== *)
theory Linux_Identity
  imports Prelude "HOL-Library.Sublist"
begin

text \<open>
  Linux accounts and assigned roots (\<open>crates/linux/src/lib.rs\<close>). The account database (\<open>getpwnam\<close>, \<open>getpwuid\<close>,
  \<open>getgrouplist\<close>) and \<open>canonicalize\<close> are parameters. A canonical path is absolute and is kept as its text;
  \<open>Path::starts_with\<close> compares components.
\<close>

section \<open>Accounts\<close>

record LinuxIdentity =
  li_username :: string
  li_uid :: nat
  li_gid :: nat
  li_groups :: "nat list"
  li_home :: string
  li_shell :: string

datatype LinuxError = Nix string | InvalidLinuxUsername | RootNotAbsolute | Canonicalize string | OutsideAssignedRoot | ReadOnlyRoot

record unix_user =
  pw_name :: string
  pw_uid :: nat
  pw_gid :: nat
  pw_dir :: string
  pw_shell :: string

record accounts =
  ac_from_name :: "string \<Rightarrow> string + unix_user option"
  ac_from_uid :: "nat \<Rightarrow> string + unix_user option"
  ac_groups :: "string \<Rightarrow> nat \<Rightarrow> string + nat list"

definition nix :: "string + 'a \<Rightarrow> LinuxError + 'a" where
  "nix r = (case r of Inl e \<Rightarrow> Inl (Nix e) | Inr a \<Rightarrow> Inr a)"

definition lookup_user :: "accounts \<Rightarrow> string \<Rightarrow> LinuxError + LinuxIdentity option" where
  "lookup_user ac username =
     (if CHR 0x00 \<in> set username then Inl InvalidLinuxUsername
      else res_bind (nix (ac_from_name ac username)) (\<lambda>found.
        case found of
          None \<Rightarrow> Inr None
        | Some user \<Rightarrow>
          res_bind (nix (ac_groups ac username (pw_gid user))) (\<lambda>groups.
            Inr (Some \<lparr>li_username = pw_name user, li_uid = pw_uid user, li_gid = pw_gid user,
              li_groups = remdups_adj (sort groups), li_home = pw_dir user, li_shell = pw_shell user\<rparr>))))"

definition lookup_uid :: "accounts \<Rightarrow> nat \<Rightarrow> LinuxError + LinuxIdentity option" where
  "lookup_uid ac uid =
     res_bind (nix (ac_from_uid ac uid)) (\<lambda>found.
       case found of None \<Rightarrow> Inr None | Some user \<Rightarrow> lookup_user ac (pw_name user))"

section \<open>Assigned roots\<close>

datatype AccessMode = ReadAccess | ReadWriteAccess

record AssignedRoot =
  asr_canonical_path :: string
  asr_access_mode :: AccessMode

definition is_absolute :: "string \<Rightarrow> bool" where
  "is_absolute p \<longleftrightarrow> (case p of c # _ \<Rightarrow> c = CHR ''/'' | [] \<Rightarrow> False)"

definition path_starts_with :: "string \<Rightarrow> string \<Rightarrow> bool" where
  "path_starts_with p base \<longleftrightarrow> prefix (components base) (components p)"

definition canonicalized :: "string + string \<Rightarrow> LinuxError + string" where
  "canonicalized r = (case r of Inl e \<Rightarrow> Inl (Canonicalize e) | Inr p \<Rightarrow> Inr p)"

definition new_assigned_root :: "(string \<Rightarrow> string + string) \<Rightarrow> string \<Rightarrow> AccessMode \<Rightarrow> LinuxError + AssignedRoot" where
  "new_assigned_root canonicalize path mode =
     res_bind (canonicalized (canonicalize path)) (\<lambda>p.
       if \<not> is_absolute p then Inl RootNotAbsolute
       else Inr \<lparr>asr_canonical_path = p, asr_access_mode = mode\<rparr>)"

definition authorize_existing :: "(string \<Rightarrow> string + string) \<Rightarrow> AssignedRoot \<Rightarrow> string \<Rightarrow> bool \<Rightarrow> LinuxError + string" where
  "authorize_existing canonicalize root candidate write =
     (if write \<and> asr_access_mode root \<noteq> ReadWriteAccess then Inl ReadOnlyRoot
      else res_bind (canonicalized (canonicalize candidate)) (\<lambda>p.
        if \<not> path_starts_with p (asr_canonical_path root) then Inl OutsideAssignedRoot else Inr p))"

section \<open>Facts\<close>

lemma lookup_uid_ok:
  assumes "lookup_uid ac uid = Inr (Some i)"
  shows "\<exists>u v. ac_from_uid ac uid = Inr (Some u) \<and> ac_from_name ac (pw_name u) = Inr (Some v) \<and>
    li_uid i = pw_uid v \<and> li_gid i = pw_gid v \<and> li_home i = pw_dir v \<and> li_username i = pw_name v \<and>
    sorted (li_groups i) \<and> distinct (li_groups i)"
proof -
  have "sorted xs \<Longrightarrow> distinct (remdups_adj xs)" for xs :: "nat list"
    by (induction xs rule: remdups_adj.induct) (force split: if_splits)+
  then have "distinct (remdups_adj (sort gs))" for gs :: "nat list" by simp
  then show ?thesis
    using assms
    by (auto simp: lookup_uid_def lookup_user_def nix_def res_bind_ok split: sum.splits option.splits if_splits)
qed

text \<open>What an account database guarantees: the entry found by number carries that number, by name as well.\<close>

definition accounts_consistent :: "accounts \<Rightarrow> bool" where
  "accounts_consistent ac \<longleftrightarrow>
     (\<forall>uid u v. ac_from_uid ac uid = Inr (Some u) \<longrightarrow> ac_from_name ac (pw_name u) = Inr (Some v) \<longrightarrow> v = u \<and> pw_uid u = uid)"

lemma lookup_uid_same: "accounts_consistent ac \<Longrightarrow> lookup_uid ac uid = Inr (Some i) \<Longrightarrow> li_uid i = uid"
  by (metis accounts_consistent_def lookup_uid_ok)

end
