(* ===== verification/Privd.thy ===== *)
theory Privd
  imports Privilege Linux_Identity
begin

text \<open>
  The root helper (\<open>services/cloudesk-privd/src/lib.rs\<close>) and the worker it starts under the account of a user
  (\<open>services/cloudesk-sessiond/src/lib.rs\<close>). The operating system is the record \<open>privd_os\<close> over a state \<open>'w\<close>; what the
  helper changes or starts is also written to a trace of events, in order. Error texts are the constructors of
  \<open>PrivdError\<close>. Absolute paths that the helper builds are lists of components.
\<close>

section \<open>The operating system\<close>

datatype node_kind = NFile | NDir | NSymlink | NSocket

datatype privd_event =
    EvCreateDirAll "string list"
  | EvCreateDir "string list"
  | EvSetMode "string list" nat
  | EvChown "string list" nat nat
  | EvRemoveDirAll "string list"
  | EvRemoveFile "string list"
  | EvBind "string list"
  | EvProgram string "string list" \<comment> \<open>a program is started with these arguments\<close>
  | EvKill

record ('j, 'w) privd_os =
  os_accounts :: accounts
  os_kind :: "string list \<Rightarrow> 'w \<Rightarrow> node_kind option" \<comment> \<open>\<open>symlink_metadata\<close>\<close>
  os_is_file :: "string \<Rightarrow> bool"
  os_canonicalize :: "string \<Rightarrow> 'w \<Rightarrow> string + string"
  os_create_dir_all :: "string list \<Rightarrow> 'w \<Rightarrow> (string + unit) \<times> 'w"
  os_create_dir :: "string list \<Rightarrow> 'w \<Rightarrow> (string + unit) \<times> 'w"
  os_set_mode :: "string list \<Rightarrow> nat \<Rightarrow> 'w \<Rightarrow> (string + unit) \<times> 'w"
  os_chown :: "string list \<Rightarrow> nat \<Rightarrow> nat \<Rightarrow> 'w \<Rightarrow> (string + unit) \<times> 'w"
  os_remove_dir_all :: "string list \<Rightarrow> 'w \<Rightarrow> (string + unit) \<times> 'w"
  os_remove_file :: "string list \<Rightarrow> 'w \<Rightarrow> (string + unit) \<times> 'w"
  os_bind :: "string list \<Rightarrow> 'w \<Rightarrow> (string + unit) \<times> 'w"
  os_spawn :: "string \<Rightarrow> string list \<Rightarrow> 'w \<Rightarrow> (string + unit) \<times> 'w"
  os_try_wait :: "'w \<Rightarrow> string + string option"
  os_sleep :: "'w \<Rightarrow> 'w"
  os_kill :: "'w \<Rightarrow> (string + unit) \<times> 'w"
  os_output :: "string \<Rightarrow> string list \<Rightarrow> 'w \<Rightarrow> (string + program_output) \<times> 'w"
  os_pty :: "string \<Rightarrow> string list \<Rightarrow> 'w \<Rightarrow> (string + bool \<times> string) \<times> 'w" \<comment> \<open>a program on a pseudo terminal\<close>
  os_operation_json :: "LocalFileOperation \<Rightarrow> string + string"
  os_parse_json :: "string \<Rightarrow> string + 'j"
  os_parse_request :: "bytes \<Rightarrow> string + SignedGrant"

datatype PrivdError =
    PrivdOs string
  | PrivdLinux LinuxError
  | PrivdJson string
  | PrivdKey GrantError
  | UnknownTargetUid
  | InvalidTargetIdentity
  | GidMismatch
  | RootForbidden
  | InvalidDimensions
  | InvalidSessionId
  | NoParent
  | SymlinkRefused
  | NotASocket
  | WorkerExited string
  | WorkerNotReady
  | WorkerFailed string
  | OwnService
  | NoServiceManager
  | ProgramUnavailable
  | OperationFailed string
  | ReadOnlyWorker
  | RootNotHome
  | PeerNotAllowed nat
  | InvalidRequestLength
  | ResponseTooLarge

type_synonym ('a, 'w) helper = "privd_event list \<times> 'w \<Rightarrow> (PrivdError + 'a) \<times> privd_event list \<times> 'w"

definition h_return :: "'a \<Rightarrow> ('a, 'w) helper" where
  "h_return a s = (Inr a, s)"

definition h_fail :: "PrivdError \<Rightarrow> ('a, 'w) helper" where
  "h_fail e s = (Inl e, s)"

definition h_bind :: "('a, 'w) helper \<Rightarrow> ('a \<Rightarrow> ('b, 'w) helper) \<Rightarrow> ('b, 'w) helper" where
  "h_bind m f s = (case m s of (Inl e, s') \<Rightarrow> (Inl e, s') | (Inr a, s') \<Rightarrow> f a s')"

text \<open>An observation of the system, an action on it, and an action whose error is dropped (\<open>let _ = ...\<close>).\<close>

definition h_read :: "('w \<Rightarrow> PrivdError + 'a) \<Rightarrow> ('a, 'w) helper" where
  "h_read f s = (f (snd s), s)"

definition os_result :: "string + 'a \<Rightarrow> PrivdError + 'a" where
  "os_result r = (case r of Inl e \<Rightarrow> Inl (PrivdOs e) | Inr a \<Rightarrow> Inr a)"

definition h_do :: "privd_event \<Rightarrow> ('w \<Rightarrow> (string + 'a) \<times> 'w) \<Rightarrow> ('a, 'w) helper" where
  "h_do ev f s = (case f (snd s) of (r, w) \<Rightarrow> (os_result r, fst s @ [ev], w))"

definition h_ignore :: "('a, 'w) helper \<Rightarrow> (unit, 'w) helper" where
  "h_ignore m s = (Inr (), snd (m s))"

definition h_tick :: "('w \<Rightarrow> 'w) \<Rightarrow> (unit, 'w) helper" where
  "h_tick f s = (Inr (), fst s, f (snd s))"

abbreviation mode_0750 :: nat where
  "mode_0750 \<equiv> 488"

abbreviation mode_0660 :: nat where
  "mode_0660 \<equiv> 432"

definition path_text :: "string list \<Rightarrow> string" where
  "path_text p = CHR ''/'' # join_with CHR ''/'' p"

definition path_push :: "string list \<Rightarrow> string \<Rightarrow> string list" where
  "path_push p n = (if n = [] then p else p @ [n])"

section \<open>Configuration and responses\<close>

record PrivdConfig =
  pc_socket_path :: "string list"
  pc_socket_gid :: nat
  pc_allowed_peer_uid :: nat
  pc_sessiond_path :: string
  pc_setpriv_path :: string

definition MAX_REQUEST_BYTES :: nat where
  "MAX_REQUEST_BYTES = 64 * 1024"

definition MAX_RESPONSE_BYTES :: nat where
  "MAX_RESPONSE_BYTES = 4 * 1024 * 1024"

datatype 'j privd_output =
    OutSocket string
  | OutService string ServiceOperation
  | OutPower PowerOperation
  | OutFile 'j
  | OutWorker WorkerKind 'j

datatype privd_message =
    MsgInvalidGrant GrantError
  | MsgAlreadyUsed
  | MsgCompleted
  | MsgError PrivdError

record 'j PrivdResponse =
  pr_accepted :: bool
  pr_message :: privd_message
  pr_output :: "'j privd_output option"

definition rejected :: "privd_message \<Rightarrow> 'j PrivdResponse" where
  "rejected message = \<lparr>pr_accepted = False, pr_message = message, pr_output = None\<rparr>"

section \<open>Start-up\<close>

definition prepare_socket_path :: "('j, 'w) privd_os \<Rightarrow> string list \<Rightarrow> nat \<Rightarrow> (unit, 'w) helper" where
  "prepare_socket_path os path socket_gid =
     h_bind (h_read (\<lambda>w. Inr (os_kind os path w))) (\<lambda>kind.
     h_bind (case kind of
         None \<Rightarrow> h_return ()
       | Some k \<Rightarrow> if k \<noteq> NSocket then h_fail NotASocket else h_do (EvRemoveFile path) (os_remove_file os path)) (\<lambda>_.
     if path = [] then h_fail NoParent
     else
       let parent = butlast path in
       h_bind (h_read (\<lambda>w. if os_kind os parent w = Some NSymlink then Inl SymlinkRefused else Inr ())) (\<lambda>_.
       h_bind (h_do (EvCreateDirAll parent) (os_create_dir_all os parent)) (\<lambda>_.
       h_bind (h_do (EvSetMode parent mode_0750) (os_set_mode os parent mode_0750)) (\<lambda>_.
       h_do (EvChown parent 0 socket_gid) (os_chown os parent 0 socket_gid))))))"

definition privd_start :: "('j, 'w) privd_os \<Rightarrow> PrivdConfig \<Rightarrow> bytes \<Rightarrow> (GrantSigner, 'w) helper" where
  "privd_start os config key =
     (let path = pc_socket_path config in
      h_bind (prepare_socket_path os path (pc_socket_gid config)) (\<lambda>_.
      h_bind (h_do (EvBind path) (os_bind os path)) (\<lambda>_.
      h_bind (h_do (EvSetMode path mode_0660) (os_set_mode os path mode_0660)) (\<lambda>_.
      h_bind (h_do (EvChown path 0 (pc_socket_gid config)) (os_chown os path 0 (pc_socket_gid config))) (\<lambda>_.
      case new_signer key of Inl e \<Rightarrow> h_fail (PrivdKey e) | Inr s \<Rightarrow> h_return s)))))"

section \<open>Workers of a user\<close>

definition setpriv_arguments :: "PrivdConfig \<Rightarrow> nat \<Rightarrow> nat \<Rightarrow> string \<Rightarrow> string list" where
  "setpriv_arguments config uid gid command =
     [''--reuid'', decimal uid, ''--regid'', decimal gid, ''--init-groups'', ''--reset-env'', pc_sessiond_path config,
      command, ''--expected-uid'', decimal uid, ''--expected-gid'', decimal gid]"

definition target_identity :: "('j, 'w) privd_os \<Rightarrow> nat \<Rightarrow> (LinuxIdentity, 'w) helper" where
  "target_identity os uid =
     h_read (\<lambda>_. case lookup_uid (os_accounts os) uid of
       Inl e \<Rightarrow> Inl (PrivdLinux e)
     | Inr None \<Rightarrow> Inl UnknownTargetUid
     | Inr (Some i) \<Rightarrow> Inr i)"

text \<open>Up to 80 rounds until the worker has created its socket.\<close>

fun await_socket :: "nat \<Rightarrow> ('j, 'w) privd_os \<Rightarrow> PrivdConfig \<Rightarrow> nat \<Rightarrow> string list \<Rightarrow> string list \<Rightarrow> ('j privd_output, 'w) helper" where
  "await_socket 0 os config uid directory socket =
     h_bind (h_ignore (h_do EvKill (os_kill os))) (\<lambda>_.
     h_bind (h_ignore (h_do (EvRemoveDirAll directory) (os_remove_dir_all os directory))) (\<lambda>_.
     h_fail WorkerNotReady))"
| "await_socket (Suc rounds) os config uid directory socket =
     h_bind (h_read (\<lambda>w. Inr (os_kind os socket w = Some NSocket))) (\<lambda>ready.
     if ready then
       h_bind (h_do (EvSetMode socket mode_0660) (os_set_mode os socket mode_0660)) (\<lambda>_.
       h_bind (h_do (EvChown socket uid (pc_socket_gid config)) (os_chown os socket uid (pc_socket_gid config))) (\<lambda>_.
       h_return (OutSocket (path_text socket))))
     else
       h_bind (h_read (\<lambda>w. os_result (os_try_wait os w))) (\<lambda>status.
       case status of
         Some text \<Rightarrow>
           h_bind (h_ignore (h_do (EvRemoveDirAll directory) (os_remove_dir_all os directory))) (\<lambda>_.
           h_fail (WorkerExited text))
       | None \<Rightarrow>
           h_bind (h_tick (os_sleep os)) (\<lambda>_. await_socket rounds os config uid directory socket)))"

definition terminal_arguments ::
    "PrivdConfig \<Rightarrow> nat \<Rightarrow> nat \<Rightarrow> string list \<Rightarrow> nat \<Rightarrow> nat \<Rightarrow> string option \<Rightarrow> string list" where
  "terminal_arguments config uid gid socket rows cols shell =
     setpriv_arguments config uid gid ''terminal'' @
     [''--socket'', path_text socket, ''--rows'', decimal rows, ''--cols'', decimal cols] @
     (case shell of None \<Rightarrow> [] | Some s \<Rightarrow> [''--shell'', s])"

definition start_terminal ::
    "('j, 'w) privd_os \<Rightarrow> PrivdConfig \<Rightarrow> nat \<Rightarrow> nat \<Rightarrow> nat \<Rightarrow> nat \<Rightarrow> string option \<Rightarrow> string list \<Rightarrow> string list \<Rightarrow>
     ('j privd_output, 'w) helper" where
  "start_terminal os config uid gid rows cols shell sessions_root directory =
     (let gid0 = pc_socket_gid config; socket = directory @ [''terminal.sock''] in
      h_bind (h_do (EvCreateDirAll sessions_root) (os_create_dir_all os sessions_root)) (\<lambda>_.
      h_bind (h_do (EvSetMode sessions_root mode_0750) (os_set_mode os sessions_root mode_0750)) (\<lambda>_.
      h_bind (h_do (EvChown sessions_root 0 gid0) (os_chown os sessions_root 0 gid0)) (\<lambda>_.
      h_bind (h_do (EvCreateDir directory) (os_create_dir os directory)) (\<lambda>_.
      h_bind (h_do (EvSetMode directory mode_0750) (os_set_mode os directory mode_0750)) (\<lambda>_.
      h_bind (h_do (EvChown directory uid gid0) (os_chown os directory uid gid0)) (\<lambda>_.
      h_bind (h_do (EvProgram (pc_setpriv_path config) (terminal_arguments config uid gid socket rows cols shell))
                (os_spawn os (pc_setpriv_path config) (terminal_arguments config uid gid socket rows cols shell))) (\<lambda>_.
      await_socket 80 os config uid directory socket))))))))"

definition session_id_ok :: "string \<Rightarrow> bool" where
  "session_id_ok nonce \<longleftrightarrow> list_all (\<lambda>c. is_ascii_alphanumeric c \<or> c = CHR ''-'' \<or> c = CHR ''_'') nonce"

definition spawn_terminal_session ::
    "('j, 'w) privd_os \<Rightarrow> PrivdConfig \<Rightarrow> nat \<Rightarrow> nat \<Rightarrow> nat \<Rightarrow> nat \<Rightarrow> string option \<Rightarrow> string \<Rightarrow> ('j privd_output, 'w) helper" where
  "spawn_terminal_session os config uid gid rows cols shell nonce =
     h_bind (target_identity os uid) (\<lambda>identity.
     if uid = 0 \<or> gid = 0 \<or> li_gid identity \<noteq> gid then h_fail InvalidTargetIdentity
     else if \<not> (2 \<le> rows \<and> rows \<le> 500) \<or> \<not> (2 \<le> cols \<and> cols \<le> 500) then h_fail InvalidDimensions
     else if \<not> session_id_ok nonce then h_fail InvalidSessionId
     else if pc_socket_path config = [] then h_fail NoParent
     else
       let sessions_root = butlast (pc_socket_path config) @ [''sessions''] in
       h_bind (h_read (\<lambda>w. if os_kind os sessions_root w = Some NSymlink then Inl SymlinkRefused else Inr ())) (\<lambda>_.
       start_terminal os config uid gid rows cols shell sessions_root (path_push sessions_root nonce)))"

definition file_arguments :: "PrivdConfig \<Rightarrow> nat \<Rightarrow> nat \<Rightarrow> string \<Rightarrow> bool \<Rightarrow> string \<Rightarrow> string list" where
  "file_arguments config uid gid root writable operation =
     setpriv_arguments config uid gid ''files'' @ [''--root'', root] @ (if writable then [''--writable''] else []) @
     [''--operation'', operation]"

definition parse_output :: "('j, 'w) privd_os \<Rightarrow> string \<Rightarrow> ('j, 'w) helper" where
  "parse_output os text =
     h_read (\<lambda>_. case os_parse_json os text of Inl e \<Rightarrow> Inl (PrivdJson e) | Inr j \<Rightarrow> Inr j)"

definition spawn_file_worker ::
    "('j, 'w) privd_os \<Rightarrow> PrivdConfig \<Rightarrow> nat \<Rightarrow> nat \<Rightarrow> string \<Rightarrow> bool \<Rightarrow> LocalFileOperation \<Rightarrow> ('j privd_output, 'w) helper" where
  "spawn_file_worker os config uid gid root writable operation =
     h_bind (target_identity os uid) (\<lambda>identity.
     if uid = 0 \<or> gid = 0 \<or> li_gid identity \<noteq> gid then h_fail InvalidTargetIdentity
     else if requires_write operation \<and> \<not> writable then h_fail ReadOnlyWorker
     else
       h_bind (h_read (\<lambda>w. os_result (os_canonicalize os root w))) (\<lambda>requested_root.
       h_bind (h_read (\<lambda>w. os_result (os_canonicalize os (li_home identity) w))) (\<lambda>expected_home.
       if requested_root \<noteq> expected_home then h_fail RootNotHome
       else
         h_bind (h_read (\<lambda>_. case os_operation_json os operation of Inl e \<Rightarrow> Inl (PrivdJson e) | Inr t \<Rightarrow> Inr t)) (\<lambda>text.
         let arguments = file_arguments config uid gid requested_root writable text in
         h_bind (h_do (EvProgram (pc_setpriv_path config) arguments)
                   (os_output os (pc_setpriv_path config) arguments)) (\<lambda>out.
         if \<not> po_success out then h_fail (WorkerFailed (trim (po_stderr out)))
         else h_bind (parse_output os (po_stdout out)) (\<lambda>j. h_return (OutFile j)))))))"

definition terminal_identity_probe :: "('j, 'w) privd_os \<Rightarrow> PrivdConfig \<Rightarrow> nat \<Rightarrow> nat \<Rightarrow> ('j, 'w) helper" where
  "terminal_identity_probe os config uid gid =
     (let arguments = setpriv_arguments config uid gid ''identity'' in
      h_bind (h_do (EvProgram (pc_setpriv_path config) arguments) (os_pty os (pc_setpriv_path config) arguments)) (\<lambda>out.
      if \<not> fst out then h_fail (WorkerFailed (trim (snd out)))
      else parse_output os (trim (filter (\<lambda>c. c \<noteq> CHR 0x0D) (snd out)))))"

definition spawn_user_worker ::
    "('j, 'w) privd_os \<Rightarrow> PrivdConfig \<Rightarrow> nat \<Rightarrow> nat \<Rightarrow> WorkerKind \<Rightarrow> ('j privd_output, 'w) helper" where
  "spawn_user_worker os config uid gid worker =
     h_bind (target_identity os uid) (\<lambda>identity.
     if li_gid identity \<noteq> gid then h_fail GidMismatch
     else if uid = 0 \<or> gid = 0 then h_fail RootForbidden
     else if worker = TerminalWorker then
       h_bind (terminal_identity_probe os config uid gid) (\<lambda>j. h_return (OutWorker worker j))
     else
       let arguments = setpriv_arguments config uid gid ''identity'' in
       h_bind (h_do (EvProgram (pc_setpriv_path config) arguments)
                 (os_output os (pc_setpriv_path config) arguments)) (\<lambda>out.
       if \<not> po_success out then h_fail (WorkerFailed (trim (po_stderr out)))
       else h_bind (parse_output os (po_stdout out)) (\<lambda>j. h_return (OutWorker worker j))))"

section \<open>Services and power\<close>

datatype ServiceManager = Systemd | OpenRc

record CommandSpec =
  cs_program :: string
  cs_arguments :: "string list"

definition detect_service_manager :: "('j, 'w) privd_os \<Rightarrow> PrivdError + ServiceManager" where
  "detect_service_manager os =
     (if os_is_file os ''/usr/bin/systemctl'' then Inr Systemd
      else if os_is_file os ''/sbin/rc-service'' then Inr OpenRc
      else Inl NoServiceManager)"

fun operation_word :: "ServiceOperation \<Rightarrow> string" where
  "operation_word SvcStart = ''start''"
| "operation_word SvcStop = ''stop''"
| "operation_word SvcRestart = ''restart''"
| "operation_word SvcEnable = ''enable''"
| "operation_word SvcDisable = ''disable''"

definition strip_service :: "string \<Rightarrow> string" where
  "strip_service unit =
     (if length unit \<ge> 8 \<and> drop (length unit - 8) unit = ''.service'' then take (length unit - 8) unit else unit)"

definition service_command :: "ServiceManager \<Rightarrow> string \<Rightarrow> ServiceOperation \<Rightarrow> CommandSpec" where
  "service_command manager unit operation =
     (case manager of
        Systemd \<Rightarrow>
          \<lparr>cs_program = ''/usr/bin/systemctl'', cs_arguments = [''--no-ask-password'', operation_word operation, unit]\<rparr>
      | OpenRc \<Rightarrow>
          (case operation of
             SvcEnable \<Rightarrow> \<lparr>cs_program = ''/sbin/rc-update'', cs_arguments = [''add'', strip_service unit, ''default'']\<rparr>
           | SvcDisable \<Rightarrow> \<lparr>cs_program = ''/sbin/rc-update'', cs_arguments = [''del'', strip_service unit, ''default'']\<rparr>
           | _ \<Rightarrow> \<lparr>cs_program = ''/sbin/rc-service'', cs_arguments = [strip_service unit, operation_word operation]\<rparr>))"

definition run_fixed_command :: "('j, 'w) privd_os \<Rightarrow> CommandSpec \<Rightarrow> (unit, 'w) helper" where
  "run_fixed_command os spec =
     (if \<not> os_is_file os (cs_program spec) then h_fail ProgramUnavailable
      else
        h_bind (h_do (EvProgram (cs_program spec) (cs_arguments spec))
                  (os_output os (cs_program spec) (cs_arguments spec))) (\<lambda>out.
        if \<not> po_success out then h_fail (OperationFailed (take 1024 (trim (po_stderr out)))) else h_return ()))"

definition own_services :: "string list" where
  "own_services = [''clouddesk'', ''clouddesk.service'', ''cloudesk-privd'', ''cloudesk-privd.service'']"

definition execute_service_control ::
    "('j, 'w) privd_os \<Rightarrow> ServiceUnit \<Rightarrow> ServiceOperation \<Rightarrow> ('j privd_output, 'w) helper" where
  "execute_service_control os unit operation =
     (if unit_str unit \<in> set own_services then h_fail OwnService
      else
        h_bind (h_read (\<lambda>_. detect_service_manager os)) (\<lambda>manager.
        h_bind (run_fixed_command os (service_command manager (unit_str unit) operation)) (\<lambda>_.
        h_return (OutService (unit_str unit) operation))))"

definition power_command :: "bool \<Rightarrow> PowerOperation \<Rightarrow> CommandSpec" where
  "power_command systemctl operation =
     (if systemctl then
        \<lparr>cs_program = ''/usr/bin/systemctl'',
         cs_arguments = [''--no-ask-password'', case operation of Reboot \<Rightarrow> ''reboot'' | Shutdown \<Rightarrow> ''poweroff'']\<rparr>
      else
        \<lparr>cs_program = (case operation of Reboot \<Rightarrow> ''/sbin/reboot'' | Shutdown \<Rightarrow> ''/sbin/poweroff''), cs_arguments = []\<rparr>)"

definition execute_power :: "('j, 'w) privd_os \<Rightarrow> PowerOperation \<Rightarrow> ('j privd_output, 'w) helper" where
  "execute_power os operation =
     h_bind (run_fixed_command os (power_command (os_is_file os ''/usr/bin/systemctl'') operation)) (\<lambda>_.
     h_return (OutPower operation))"

section \<open>Requests\<close>

fun perform :: "('j, 'w) privd_os \<Rightarrow> PrivdConfig \<Rightarrow> string \<Rightarrow> PrivilegedAction \<Rightarrow> ('j privd_output, 'w) helper" where
  "perform os config nonce (SpawnUserWorker uid gid worker) = spawn_user_worker os config uid gid worker"
| "perform os config nonce (ActLocalFile uid gid root writable operation) =
     spawn_file_worker os config uid gid root writable operation"
| "perform os config nonce (OpenTerminalSession uid gid rows cols shell) =
     spawn_terminal_session os config uid gid rows cols shell nonce"
| "perform os config nonce (ServiceControl unit operation) = execute_service_control os unit operation"
| "perform os config nonce (Power operation) = execute_power os operation"

type_synonym nonces = "string \<rightharpoonup> int"

definition retain_nonces :: "int \<Rightarrow> nonces \<Rightarrow> nonces" where
  "retain_nonces timestamp used n = (case used n of Some e \<Rightarrow> if e \<ge> timestamp then Some e else None | None \<Rightarrow> None)"

record State =
  ps_signer :: GrantSigner
  ps_used_nonces :: nonces
  ps_config :: PrivdConfig

text \<open>The response, and the state with the nonces, the trace and the system after it.\<close>

definition process_request ::
    "grant_env \<Rightarrow> ('j, 'w) privd_os \<Rightarrow> int \<Rightarrow> SignedGrant \<Rightarrow> State \<Rightarrow> privd_event list \<times> 'w \<Rightarrow>
     'j PrivdResponse \<times> State \<times> privd_event list \<times> 'w" where
  "process_request env os timestamp grant state s =
     (case grant_verify env (ps_signer state) grant timestamp of
        Inl e \<Rightarrow> (rejected (MsgInvalidGrant e), state, s)
      | Inr _ \<Rightarrow>
        let used = retain_nonces timestamp (ps_used_nonces state); nonce = gc_nonce (sg_claims grant) in
        if used nonce \<noteq> None then (rejected MsgAlreadyUsed, state\<lparr>ps_used_nonces := used\<rparr>, s)
        else
          let state' = state\<lparr>ps_used_nonces := used(nonce \<mapsto> gc_expires_at (sg_claims grant))\<rparr> in
          (case perform os (ps_config state) nonce (gc_action (sg_claims grant)) s of
             (Inl e, s') \<Rightarrow> (rejected (MsgError e), state', s')
           | (Inr output, s') \<Rightarrow>
             (\<lparr>pr_accepted = True, pr_message = MsgCompleted, pr_output = Some output\<rparr>, state', s')))"

definition handle_connection ::
    "grant_env \<Rightarrow> ('j, 'w) privd_os \<Rightarrow> ('j PrivdResponse \<Rightarrow> string + bytes) \<Rightarrow> int \<Rightarrow> nat \<Rightarrow> nat \<Rightarrow> (nat \<Rightarrow> string + bytes) \<Rightarrow>
     State \<Rightarrow> privd_event list \<times> 'w \<Rightarrow> (PrivdError + bytes) \<times> State \<times> privd_event list \<times> 'w" where
  "handle_connection env os response_json timestamp peer_uid length_field read_exact state s =
     (if peer_uid \<noteq> pc_allowed_peer_uid (ps_config state) then (Inl (PeerNotAllowed peer_uid), state, s)
      else if length_field = 0 \<or> length_field > MAX_REQUEST_BYTES then (Inl InvalidRequestLength, state, s)
      else case read_exact length_field of
          Inl e \<Rightarrow> (Inl (PrivdOs e), state, s)
        | Inr bytes \<Rightarrow>
          (case os_parse_request os bytes of
             Inl e \<Rightarrow> (Inl (PrivdJson e), state, s)
           | Inr grant \<Rightarrow>
             (case process_request env os timestamp grant state s of
                (response, state', s') \<Rightarrow>
                  (case response_json response of
                     Inl e \<Rightarrow> (Inl (PrivdJson e), state', s')
                   | Inr text \<Rightarrow>
                     if length text > MAX_RESPONSE_BYTES then (Inl ResponseTooLarge, state', s')
                     else (Inr text, state', s')))))"

section \<open>The worker\<close>

datatype SessionError =
    RootWorker
  | IdentityMismatch nat nat nat nat
  | UnknownIdentity
  | SessionLinux LinuxError
  | SessionVfs VfsError

record IdentitySnapshot =
  is_effective_uid :: nat
  is_effective_gid :: nat
  is_username :: string
  is_groups :: "nat list"
  is_home :: string

definition identity_snapshot :: "accounts \<Rightarrow> nat \<Rightarrow> nat \<Rightarrow> nat \<Rightarrow> nat \<Rightarrow> SessionError + IdentitySnapshot" where
  "identity_snapshot ac effective_uid effective_gid expected_uid expected_gid =
     (if effective_uid = 0 then Inl RootWorker
      else if effective_uid \<noteq> expected_uid \<or> effective_gid \<noteq> expected_gid
      then Inl (IdentityMismatch expected_uid expected_gid effective_uid effective_gid)
      else case lookup_uid ac effective_uid of
          Inl e \<Rightarrow> Inl (SessionLinux e)
        | Inr None \<Rightarrow> Inl UnknownIdentity
        | Inr (Some i) \<Rightarrow>
          Inr \<lparr>is_effective_uid = effective_uid, is_effective_gid = effective_gid, is_username = li_username i,
            is_groups = li_groups i, is_home = li_home i\<rparr>)"

definition execute_file_operation ::
    "nat \<Rightarrow> accounts \<Rightarrow> nat \<Rightarrow> nat \<Rightarrow> nat \<Rightarrow> nat \<Rightarrow> io_error + ('w, 'fs) dir_ops \<Rightarrow> bool \<Rightarrow> nat \<Rightarrow> LocalFileOperation \<Rightarrow> 'fs \<Rightarrow>
     ((SessionError + LocalFileResult) \<times> 'fs) option" where
  "execute_file_operation fuel ac effective_uid effective_gid expected_uid expected_gid opened writable now operation fs =
     (case identity_snapshot ac effective_uid effective_gid expected_uid expected_gid of
        Inl e \<Rightarrow> Some (Inl e, fs)
      | Inr _ \<Rightarrow>
        (case execute_local fuel opened writable now operation fs of
           None \<Rightarrow> None
         | Some (Inl e, fs') \<Rightarrow> Some (Inl (SessionVfs e), fs')
         | Some (Inr r, fs') \<Rightarrow> Some (Inr r, fs')))"

record shell_env =
  sh_shells :: "string option" \<comment> \<open>the content of \<open>/etc/shells\<close>\<close>
  sh_executable :: "string \<Rightarrow> bool"

definition select_shell :: "accounts \<Rightarrow> shell_env \<Rightarrow> IdentitySnapshot \<Rightarrow> string option \<Rightarrow> PrivdError + string" where
  "select_shell ac env identity requested =
     (case lookup_uid ac (is_effective_uid identity) of
        Inl e \<Rightarrow> Inl (PrivdLinux e)
      | Inr None \<Rightarrow> Inl UnknownTargetUid
      | Inr (Some i) \<Rightarrow>
        let shell = (case requested of None \<Rightarrow> li_shell i | Some s \<Rightarrow> s);
            allowed = (case sh_shells env of None \<Rightarrow> [] | Some t \<Rightarrow> t);
            entries = filter (\<lambda>l. l \<noteq> [] \<and> hd l \<noteq> CHR ''#'') (map trim (text_lines allowed));
            listed = list_ex (\<lambda>l. components l = components shell) entries in
        if \<not> is_absolute shell \<or> \<not> listed \<or> \<not> sh_executable env shell then Inl ProgramUnavailable else Inr shell)"

record socket_parent =
  sp_is_dir :: bool
  sp_symlink :: bool
  sp_uid :: nat
  sp_mode :: nat

definition validate_terminal_socket_parent :: "string list \<Rightarrow> (string list \<Rightarrow> string + socket_parent) \<Rightarrow> nat \<Rightarrow> PrivdError + unit" where
  "validate_terminal_socket_parent path stat expected_uid =
     (if path = [] then Inl NoParent
      else res_bind (os_result (stat (butlast path))) (\<lambda>m.
        if \<not> sp_is_dir m \<or> sp_symlink m \<or> sp_uid m \<noteq> expected_uid \<or> sp_mode m div 2 mod 2 \<noteq> 0
        then Inl SymlinkRefused else Inr ()))"

end
