(* ===== verification/Privd_Properties.thy ===== *)
theory Privd_Properties
  imports Privd
begin

text \<open>
  What the root helper does at most (\<open>privd_effects_confined\<close>), how often it honours a grant (\<open>grant_performed_once\<close>),
  and that every request is answered after a bounded wait. Effects are followed through the computations of the
  helper by the rules for \<open>keeps\<close>: every event that a computation adds satisfies a predicate.
\<close>

named_theorems keeps_rules \<open>rules for the events of a computation of the helper\<close>

definition keeps :: "(privd_event \<Rightarrow> bool) \<Rightarrow> ('a, 'w) helper \<Rightarrow> bool" where
  "keeps P m \<longleftrightarrow> (\<forall>s. \<exists>new. fst (snd (m s)) = fst s @ new \<and> list_all P new)"

lemma keeps_silent: "(\<And>s. fst (snd (m s)) = fst s) \<Longrightarrow> keeps P m"
  by (simp add: keeps_def)

lemma keeps_pure [keeps_rules]: "keeps P (h_return a)" "keeps P (h_fail e)" "keeps P (h_read f)" "keeps P (h_tick g)"
  by (auto intro!: keeps_silent simp: h_return_def h_fail_def h_read_def h_tick_def)

lemma keeps_do [keeps_rules]: "P ev \<Longrightarrow> keeps P (h_do ev f)"
  by (auto simp: keeps_def h_do_def split: prod.splits)

lemma keeps_ignore [keeps_rules]: "keeps P m \<Longrightarrow> keeps P (h_ignore m)"
  by (simp add: keeps_def h_ignore_def)

lemma keeps_bind_result:
  assumes "keeps P m" "\<And>a s s'. m s = (Inr a, s') \<Longrightarrow> keeps P (f a)"
  shows "keeps P (h_bind m f)"
  unfolding keeps_def
proof
  fix s
  obtain r s' where m: "m s = (r, s')" by (cases "m s")
  obtain new where new: "fst s' = fst s @ new" "list_all P new"
    using assms(1) m by (metis keeps_def snd_conv)
  show "\<exists>new. fst (snd (h_bind m f s)) = fst s @ new \<and> list_all P new"
  proof (cases r)
    case (Inl e)
    then show ?thesis using m new by (auto simp: h_bind_def)
  next
    case (Inr a)
    then obtain new' where "fst (snd (f a s')) = fst s' @ new'" "list_all P new'"
      using assms(2) m by (metis keeps_def)
    then show ?thesis using m new Inr by (intro exI [of _ "new @ new'"]) (simp add: h_bind_def)
  qed
qed

lemma keeps_bind [keeps_rules]: "keeps P m \<Longrightarrow> (\<And>a. keeps P (f a)) \<Longrightarrow> keeps P (h_bind m f)"
  by (rule keeps_bind_result)

lemma keeps_read_bind [keeps_rules]:
  "(\<And>a w. g w = Inr a \<Longrightarrow> keeps P (f a)) \<Longrightarrow> keeps P (h_bind (h_read g) f)"
  by (rule keeps_bind_result) (auto intro: keeps_pure simp: h_read_def)

lemma keeps_if [keeps_rules]: "(c \<Longrightarrow> keeps P m) \<Longrightarrow> (\<not> c \<Longrightarrow> keeps P m') \<Longrightarrow> keeps P (if c then m else m')"
  by simp

lemma keeps_option [keeps_rules]:
  "keeps P m \<Longrightarrow> (\<And>a. keeps P (f a)) \<Longrightarrow> keeps P (case x of None \<Rightarrow> m | Some a \<Rightarrow> f a)"
  by (cases x) auto

section \<open>What a request may do\<close>

definition fixed_programs :: "string set" where
  "fixed_programs = {''/usr/bin/systemctl'', ''/sbin/rc-service'', ''/sbin/rc-update'', ''/sbin/reboot'', ''/sbin/poweroff''}"

fun identity_of :: "PrivilegedAction \<Rightarrow> (nat \<times> nat) option" where
  "identity_of (SpawnUserWorker uid gid _) = Some (uid, gid)"
| "identity_of (ActLocalFile uid gid _ _ _) = Some (uid, gid)"
| "identity_of (OpenTerminalSession uid gid _ _ _) = Some (uid, gid)"
| "identity_of _ = None"

definition sessions_path :: "PrivdConfig \<Rightarrow> string list \<Rightarrow> bool" where
  "sessions_path config p \<longleftrightarrow> (\<exists>rest. confined rest \<and> p = butlast (pc_socket_path config) @ ''sessions'' # rest)"

text \<open>
  The call of the worker that belongs to an action: \<open>setpriv\<close> changes to exactly the account of the action before it starts
  the worker, the root of a file operation is the home of that account, the socket of a terminal lies in the
  directory of sessions.
\<close>

fun worker_call :: "('j, 'w) privd_os \<Rightarrow> PrivdConfig \<Rightarrow> LinuxIdentity \<Rightarrow> PrivilegedAction \<Rightarrow> string list \<Rightarrow> bool" where
  "worker_call os config i (SpawnUserWorker uid gid _) arguments \<longleftrightarrow>
     arguments = setpriv_arguments config uid gid ''identity''"
| "worker_call os config i (ActLocalFile uid gid root writable operation) arguments \<longleftrightarrow>
     (requires_write operation \<longrightarrow> writable) \<and>
     (\<exists>home w json. os_canonicalize os (li_home i) w = Inr home \<and> os_operation_json os operation = Inr json \<and>
        arguments = file_arguments config uid gid home writable json)"
| "worker_call os config i (OpenTerminalSession uid gid rows cols shell) arguments \<longleftrightarrow>
     2 \<le> rows \<and> rows \<le> 500 \<and> 2 \<le> cols \<and> cols \<le> 500 \<and>
     (\<exists>socket. sessions_path config socket \<and> arguments = terminal_arguments config uid gid socket rows cols shell)"
| "worker_call os config i _ arguments \<longleftrightarrow> False"

text \<open>Neither number of the account is root's, and the account exists with this primary group.\<close>

definition worker_program :: "('j, 'w) privd_os \<Rightarrow> PrivdConfig \<Rightarrow> PrivilegedAction \<Rightarrow> string \<Rightarrow> string list \<Rightarrow> bool" where
  "worker_program os config action program arguments \<longleftrightarrow>
     program = pc_setpriv_path config \<and>
     (\<exists>uid gid i. identity_of action = Some (uid, gid) \<and> uid \<noteq> 0 \<and> gid \<noteq> 0 \<and>
        lookup_uid (os_accounts os) uid = Inr (Some i) \<and> li_gid i = gid \<and> worker_call os config i action arguments)"

definition system_program :: "PrivilegedAction \<Rightarrow> string \<Rightarrow> string list \<Rightarrow> bool" where
  "system_program action program arguments \<longleftrightarrow>
     requires_step_up action \<and> program \<in> fixed_programs \<and>
     ''clouddesk'' \<notin> set arguments \<and> ''cloudesk-privd'' \<notin> set arguments \<and>
     (program = ''/usr/bin/systemctl'' \<longrightarrow> set own_services \<inter> set arguments = {})"

definition opens_terminal :: "PrivilegedAction \<Rightarrow> bool" where
  "opens_terminal action \<longleftrightarrow> (case action of OpenTerminalSession _ _ _ _ _ \<Rightarrow> True | _ \<Rightarrow> False)"

fun event_ok :: "('j, 'w) privd_os \<Rightarrow> PrivdConfig \<Rightarrow> PrivilegedAction \<Rightarrow> privd_event \<Rightarrow> bool" where
  "event_ok os config action (EvProgram program arguments) \<longleftrightarrow>
     worker_program os config action program arguments \<or> system_program action program arguments"
| "event_ok os config action (EvCreateDirAll p) \<longleftrightarrow> opens_terminal action \<and> sessions_path config p"
| "event_ok os config action (EvCreateDir p) \<longleftrightarrow> opens_terminal action \<and> sessions_path config p"
| "event_ok os config action (EvSetMode p _) \<longleftrightarrow> opens_terminal action \<and> sessions_path config p"
| "event_ok os config action (EvChown p _ _) \<longleftrightarrow> opens_terminal action \<and> sessions_path config p"
| "event_ok os config action (EvRemoveDirAll p) \<longleftrightarrow> opens_terminal action \<and> sessions_path config p"
| "event_ok os config action EvKill \<longleftrightarrow> opens_terminal action"
| "event_ok os config action (EvBind _) \<longleftrightarrow> False"
| "event_ok os config action (EvRemoveFile _) \<longleftrightarrow> False"

declare event_ok.simps(1) [simp del]

lemma event_worker [keeps_rules]:
  assumes "lookup_uid (os_accounts os) uid = Inr (Some i)" "identity_of action = Some (uid, gid)" "uid \<noteq> 0" "gid \<noteq> 0"
    and "li_gid i = gid" "worker_call os config i action arguments"
  shows "event_ok os config action (EvProgram (pc_setpriv_path config) arguments)"
  unfolding event_ok.simps worker_program_def using assms by blast

lemma event_system:
  "system_program action program arguments \<Longrightarrow> event_ok os config action (EvProgram program arguments)"
  by (simp add: event_ok.simps)

lemma target_identity_ok:
  "target_identity os uid s = (Inr i, s') \<Longrightarrow> lookup_uid (os_accounts os) uid = Inr (Some i)"
  by (auto simp: target_identity_def h_read_def split: sum.splits option.splits)

lemma keeps_target [keeps_rules]:
  assumes "\<And>i. lookup_uid (os_accounts os) uid = Inr (Some i) \<Longrightarrow> keeps P (f i)"
  shows "keeps P (h_bind (target_identity os uid) f)"
proof (rule keeps_bind_result)
  show "keeps P (target_identity os uid)" by (simp add: target_identity_def keeps_rules)
qed (use assms target_identity_ok in blast)

lemma keeps_parse [keeps_rules]: "keeps P (parse_output os t)"
  by (simp add: parse_output_def keeps_rules)

lemma keeps_await [keeps_rules]:
  assumes "P EvKill" "P (EvRemoveDirAll directory)" "\<And>m. P (EvSetMode socket m)" "\<And>g. P (EvChown socket uid g)"
  shows "keeps P (await_socket n os config uid directory socket)"
  by (induction n) (auto intro!: keeps_rules simp: assms)

lemma session_dir_confined:
  assumes "session_id_ok nonce" "rest \<in> {[], [''terminal.sock'']}"
  shows "sessions_path config (path_push (butlast (pc_socket_path config) @ [''sessions'']) nonce @ rest)"
proof -
  have "confined_component nonce" if "nonce \<noteq> []"
    using assms(1) that
    by (auto simp: confined_component_def session_id_ok_def char_class_defs list_all_iff)
  moreover have "confined_component ''terminal.sock''" by code_simp
  ultimately have "confined ((if nonce = [] then [] else [nonce]) @ rest)"
    using assms(2) by (auto simp: confined_def)
  then show ?thesis
    unfolding sessions_path_def path_push_def by (intro exI [of _ "(if nonce = [] then [] else [nonce]) @ rest"]) simp
qed

lemma keeps_terminal:
  "keeps (event_ok os config (OpenTerminalSession uid gid rows cols shell))
     (spawn_terminal_session os config uid gid rows cols shell nonce)"
proof -
  have root: "sessions_path config (butlast (pc_socket_path config) @ [''sessions''])"
    by (auto simp: sessions_path_def confined_def)
  show ?thesis
    unfolding spawn_terminal_session_def start_terminal_def Let_def
    using session_dir_confined [of nonce "[]" config] session_dir_confined [of nonce "[''terminal.sock'']" config]
    by (auto intro!: keeps_rules simp: root opens_terminal_def)
qed

lemma keeps_file:
  "keeps (event_ok os config (ActLocalFile uid gid root writable operation))
     (spawn_file_worker os config uid gid root writable operation)"
  unfolding spawn_file_worker_def Let_def
  by (auto intro!: keeps_rules simp: os_result_def split: sum.splits) blast+

lemma keeps_worker:
  "keeps (event_ok os config (SpawnUserWorker uid gid worker)) (spawn_user_worker os config uid gid worker)"
  unfolding spawn_user_worker_def terminal_identity_probe_def Let_def
  by (auto intro!: keeps_rules)

lemma strip_service_cases: "unit = strip_service unit \<or> unit = strip_service unit @ ''.service''"
  by (auto simp: strip_service_def) (metis append_take_drop_id)

lemma service_command_safe:
  assumes "unit_str unit \<notin> set own_services"
  shows "system_program (ServiceControl unit operation) (cs_program (service_command manager (unit_str unit) operation))
    (cs_arguments (service_command manager (unit_str unit) operation))"
proof -
  have "strip_service (unit_str unit) \<noteq> ''clouddesk'' \<and> strip_service (unit_str unit) \<noteq> ''cloudesk-privd''"
    using assms strip_service_cases [of "unit_str unit"] by (auto simp: own_services_def)
  with assms show ?thesis
    by (cases manager; cases operation)
      (auto simp: service_command_def system_program_def fixed_programs_def own_services_def)
qed

lemma keeps_service:
  "keeps (event_ok os config (ServiceControl unit operation)) (execute_service_control os unit operation)"
  unfolding execute_service_control_def run_fixed_command_def
  by (auto intro!: keeps_rules event_system service_command_safe)

lemma keeps_power: "keeps (event_ok os config (Power operation)) (execute_power os operation)"
  unfolding execute_power_def run_fixed_command_def
  by (cases operation)
    (auto intro!: keeps_rules event_system simp: power_command_def system_program_def fixed_programs_def own_services_def)

lemma keeps_perform: "keeps (event_ok os config action) (perform os config nonce action)"
  by (cases action) (simp_all add: keeps_terminal keeps_file keeps_worker keeps_service keeps_power)

lemma process_request_cases:
  assumes "process_request env os t grant state s = (r, state', s')"
  obtains
    (refused) e where "grant_verify env (ps_signer state) grant t = Inl e" "r = rejected (MsgInvalidGrant e)"
      "state' = state" "s' = s"
  | (replayed) "grant_verify env (ps_signer state) grant t = Inr ()"
      "retain_nonces t (ps_used_nonces state) (gc_nonce (sg_claims grant)) \<noteq> None"
      "r = rejected MsgAlreadyUsed" "state' = state\<lparr>ps_used_nonces := retain_nonces t (ps_used_nonces state)\<rparr>" "s' = s"
  | (performed) x where "grant_verify env (ps_signer state) grant t = Inr ()"
      "retain_nonces t (ps_used_nonces state) (gc_nonce (sg_claims grant)) = None"
      "perform os (ps_config state) (gc_nonce (sg_claims grant)) (gc_action (sg_claims grant)) s = (x, s')"
      "pr_message r = (case x of Inl e \<Rightarrow> MsgError e | Inr _ \<Rightarrow> MsgCompleted)" "pr_accepted r = is_ok x"
      "state' = state\<lparr>ps_used_nonces := (retain_nonces t (ps_used_nonces state))
        (gc_nonce (sg_claims grant) \<mapsto> gc_expires_at (sg_claims grant))\<rparr>"
  using assms
  by (auto simp: process_request_def Let_def rejected_def split: sum.splits if_splits prod.splits)

lemma handle_connection_confined:
  assumes "handle_connection env os json t peer len rd state (trace, w) = (r, state', trace', w')"
  shows "\<exists>new. trace' = trace @ new \<and>
    (new \<noteq> [] \<longrightarrow>
      peer = pc_allowed_peer_uid (ps_config state) \<and> 0 < len \<and> len \<le> 65536 \<and>
      (\<exists>bytes grant. rd len = Inr bytes \<and> os_parse_request os bytes = Inr grant \<and>
         grant_verify env (ps_signer state) grant t = Inr () \<and>
         retain_nonces t (ps_used_nonces state) (gc_nonce (sg_claims grant)) = None \<and>
         ps_used_nonces state' (gc_nonce (sg_claims grant)) = Some (gc_expires_at (sg_claims grant)) \<and>
         list_all (event_ok os (ps_config state) (gc_action (sg_claims grant))) new))"
proof (cases "trace' = trace")
  case False
  with assms obtain bytes grant x where p: "rd len = Inr bytes" "os_parse_request os bytes = Inr grant"
      "process_request env os t grant state (trace, w) = (x, state', trace', w')"
      "peer = pc_allowed_peer_uid (ps_config state)" "0 < len" "len \<le> 65536"
    by (auto simp: handle_connection_def MAX_REQUEST_BYTES_def split: if_splits sum.splits prod.splits)
  show ?thesis
  proof (rule process_request_cases [OF p(3)])
    fix y
    let ?n = "gc_nonce (sg_claims grant)" and ?a = "gc_action (sg_claims grant)"
    assume q: "grant_verify env (ps_signer state) grant t = Inr ()" "retain_nonces t (ps_used_nonces state) ?n = None"
        "perform os (ps_config state) ?n ?a (trace, w) = (y, trace', w')"
        "state' = state\<lparr>ps_used_nonces := (retain_nonces t (ps_used_nonces state))
          (?n \<mapsto> gc_expires_at (sg_claims grant))\<rparr>"
    have "\<exists>new. fst (snd (perform os (ps_config state) ?n ?a (trace, w))) = fst (trace, w) @ new \<and>
        list_all (event_ok os (ps_config state) ?a) new"
      using keeps_perform unfolding keeps_def by blast
    with q(3) obtain new where "trace' = trace @ new" "list_all (event_ok os (ps_config state) ?a) new"
      by auto
    with p q show ?thesis by (intro exI [of _ new]) auto
  qed (use False in auto)
qed simp


section \<open>No grant is performed twice\<close>

fun privd_run ::
    "grant_env \<Rightarrow> ('j, 'w) privd_os \<Rightarrow> (int \<times> SignedGrant) list \<Rightarrow> State \<Rightarrow> privd_event list \<times> 'w \<Rightarrow>
     'j PrivdResponse list \<times> State \<times> privd_event list \<times> 'w" where
  "privd_run env os [] state s = ([], state, s)"
| "privd_run env os ((t, grant) # reqs) state s =
     (case process_request env os t grant state s of
        (r, state', s') \<Rightarrow>
          (case privd_run env os reqs state' s' of (rs, state'', s'') \<Rightarrow> (r # rs, state'', s'')))"

definition performs :: "'j PrivdResponse \<Rightarrow> bool" where
  "performs r \<longleftrightarrow> (case pr_message r of MsgInvalidGrant _ \<Rightarrow> False | MsgAlreadyUsed \<Rightarrow> False | _ \<Rightarrow> True)"

lemma retain_nonces_Some: "retain_nonces t used n = Some e \<longleftrightarrow> used n = Some e \<and> t \<le> e"
  by (auto simp: retain_nonces_def split: option.splits)

lemma performs_recorded:
  assumes "process_request env os t grant state s = (r, state', s')" "performs r"
  shows "grant_verify env (ps_signer state) grant t = Inr () \<and>
    retain_nonces t (ps_used_nonces state) (gc_nonce (sg_claims grant)) = None \<and>
    ps_used_nonces state' (gc_nonce (sg_claims grant)) = Some (gc_expires_at (sg_claims grant))"
  using assms by (auto elim!: process_request_cases simp: performs_def rejected_def)

text \<open>A nonce on record stays there with its expiry until a request comes after it.\<close>

lemma recorded_stays:
  assumes "process_request env os t grant state s = (r, state', s')" "ps_used_nonces state n = Some e" "t \<le> e"
  shows "ps_used_nonces state' n = Some e"
  using assms(1)
proof (cases rule: process_request_cases)
  case (performed x)
  have "retain_nonces t (ps_used_nonces state) n = Some e" using assms by (simp add: retain_nonces_Some)
  with performed show ?thesis by auto
qed (use assms in \<open>auto simp: retain_nonces_Some\<close>)

lemma recorded_blocks:
  assumes "privd_run env os reqs state s = (rs, x)" "sorted (map fst reqs)"
    and "ps_used_nonces state n = Some e" "j < length reqs" "gc_nonce (sg_claims (snd (reqs ! j))) = n"
    and "gc_expires_at (sg_claims (snd (reqs ! j))) \<le> e"
  shows "\<not> performs (rs ! j)"
  using assms
proof (induction reqs arbitrary: state s rs x j)
  case (Cons req reqs)
  obtain t grant where req: "req = (t, grant)" by (cases req)
  obtain r state' s' where p: "process_request env os t grant state s = (r, state', s')"
    by (cases "process_request env os t grant state s")
  obtain rs' x' where run: "privd_run env os reqs state' s' = (rs', x')"
    by (cases "privd_run env os reqs state' s'")
  then have rs: "rs = r # rs'" using Cons.prems(1) req p by (auto split: prod.splits)
  show ?case
  proof (cases "t \<le> e")
    case True
    show ?thesis
    proof (cases j)
      case 0
      then show ?thesis
        using rs req Cons.prems(3,5) True performs_recorded [OF p] by (auto simp: retain_nonces_def)
    next
      case (Suc k)
      with Cons.IH [OF run _ recorded_stays [OF p Cons.prems(3) True], of k] Cons.prems rs show ?thesis by simp
    qed
  next
    case False
    have gone: "\<not> performs r'" if "process_request env os t' grant' st u = (r', v)" "e < t'"
        "gc_expires_at (sg_claims grant') \<le> e" for t' grant' st u r' v
      using performs_recorded [of env os t' grant' st u r'] that by (cases v) (auto simp: grant_verify_ok)
    have later: "\<not> performs (rs'' ! k)"
      if "privd_run env os qs st u = (rs'', y)" "k < length qs" "\<forall>q\<in>set qs. e < fst q"
        "gc_expires_at (sg_claims (snd (qs ! k))) \<le> e" for qs st u rs'' y k
      using that
    proof (induction qs arbitrary: st u rs'' y k)
      case (Cons q qs)
      then show ?case
        by (cases q; cases k; cases y rule: prod_cases3) (auto split: prod.splits dest: gone)
    qed simp
    have "\<forall>q\<in>set (req # reqs). e < fst q" using Cons.prems(2) False req by fastforce
    with later [OF Cons.prems(1,4)] Cons.prems(6) show ?thesis by simp
  qed
qed simp

text \<open>
  (C22) No grant is performed twice. In every sequence of requests whose clock never goes back, of two requests with the
  same nonce at most one is performed, provided the later grant does not expire after the earlier one: the same
  grant sent again in particular, however many other requests come in between and however the helper's memory of
  nonces was purged meanwhile.
\<close>

theorem grant_performed_once:
  assumes "privd_run env os reqs state s = (rs, x)" "sorted (map fst reqs)" "i < j" "j < length reqs"
    and "gc_nonce (sg_claims (snd (reqs ! i))) = gc_nonce (sg_claims (snd (reqs ! j)))"
    and "gc_expires_at (sg_claims (snd (reqs ! j))) \<le> gc_expires_at (sg_claims (snd (reqs ! i)))"
  shows "\<not> (performs (rs ! i) \<and> performs (rs ! j))"
  using assms
proof (induction reqs arbitrary: state s rs x i j)
  case (Cons req reqs)
  obtain t grant where req: "req = (t, grant)" by (cases req)
  obtain r state' s' where p: "process_request env os t grant state s = (r, state', s')"
    by (cases "process_request env os t grant state s")
  obtain rs' x' where run: "privd_run env os reqs state' s' = (rs', x')"
    by (cases "privd_run env os reqs state' s'")
  then have rs: "rs = r # rs'" using Cons.prems(1) req p by (auto split: prod.splits)
  obtain k where k: "j = Suc k" using Cons.prems(3) by (cases j) auto
  show ?case
  proof (cases i)
    case 0
    show ?thesis
    proof
      assume "performs (rs ! i) \<and> performs (rs ! j)"
      then have "performs r" "performs (rs' ! k)" using 0 k rs by auto
      then show False
        using recorded_blocks [OF run, of _ _ k] performs_recorded [OF p] Cons.prems k 0 req by auto
    qed
  next
    case (Suc h)
    then show ?thesis using Cons.IH [OF run, of h k] Cons.prems k rs by simp
  qed
qed simp

section \<open>A concrete helper\<close>

definition demo_account :: unix_user where
  "demo_account = \<lparr>pw_name = ''eve'', pw_uid = 7, pw_gid = 7, pw_dir = ''/home/eve'', pw_shell = ''/bin/sh''\<rparr>"

definition demo_accounts :: accounts where
  "demo_accounts = \<lparr>ac_from_name = (\<lambda>n. Inr (if n = ''eve'' then Some demo_account else None)),
     ac_from_uid = (\<lambda>u. Inr (if u = 7 then Some demo_account else None)), ac_groups = (\<lambda>n g. Inr [g])\<rparr>"

definition demo_os :: "(string, unit) privd_os" where
  "demo_os = \<lparr>os_accounts = demo_accounts, os_kind = (\<lambda>p w. None), os_is_file = (\<lambda>p. p = ''/usr/bin/systemctl''),
     os_canonicalize = (\<lambda>p w. Inr p), os_create_dir_all = (\<lambda>p w. (Inr (), w)), os_create_dir = (\<lambda>p w. (Inr (), w)),
     os_set_mode = (\<lambda>p m w. (Inr (), w)), os_chown = (\<lambda>p u g w. (Inr (), w)),
     os_remove_dir_all = (\<lambda>p w. (Inr (), w)), os_remove_file = (\<lambda>p w. (Inr (), w)), os_bind = (\<lambda>p w. (Inr (), w)),
     os_spawn = (\<lambda>p a w. (Inr (), w)), os_try_wait = (\<lambda>w. Inr None), os_sleep = (\<lambda>w. w), os_kill = (\<lambda>w. (Inr (), w)),
     os_output = (\<lambda>p a w. (Inr \<lparr>po_success = True, po_stdout = ''{}'', po_stderr = []\<rparr>, w)),
     os_pty = (\<lambda>p a w. (Inr (True, ''{}''), w)), os_operation_json = (\<lambda>op. Inr ''op''), os_parse_json = Inr,
     os_parse_request = (\<lambda>b. if b = ''probe'' then Inr (demo_grant demo_probe) else Inl ''syntax'')\<rparr>"

definition demo_config :: PrivdConfig where
  "demo_config = \<lparr>pc_socket_path = [''run'', ''privd.sock''], pc_socket_gid = 5, pc_allowed_peer_uid = 6,
     pc_sessiond_path = ''/sessiond'', pc_setpriv_path = ''/setpriv''\<rparr>"

definition demo_state :: State where
  "demo_state = \<lparr>ps_signer = demo_signer, ps_used_nonces = (\<lambda>n. None), ps_config = demo_config\<rparr>"

lemma demo_process:
  "process_request demo_grants demo_os 120 (demo_grant demo_probe) demo_state ([], ()) =
     (\<lparr>pr_accepted = True, pr_message = MsgCompleted, pr_output = Some (OutWorker IdentityProbe ''{}'')\<rparr>,
      demo_state\<lparr>ps_used_nonces := [''n1'' \<mapsto> 160]\<rparr>,
      [EvProgram ''/setpriv'' (setpriv_arguments demo_config 7 7 ''identity'')], ())"
proof -
  have v: "grant_verify demo_grants demo_signer (demo_grant demo_probe) 120 = Inr ()"
    by (simp add: grant_verify_def claims_json_def demo_grants_def demo_signer_def demo_grant_def demo_claims_def
        wrap_i64_def)
  have l: "lookup_uid demo_accounts 7 = Inr (Some \<lparr>li_username = ''eve'', li_uid = 7, li_gid = 7, li_groups = [7],
      li_home = ''/home/eve'', li_shell = ''/bin/sh''\<rparr>)"
    by code_simp
  have c: "gc_nonce (sg_claims (demo_grant demo_probe)) = ''n1''" "gc_expires_at (sg_claims (demo_grant demo_probe)) = 160"
      "gc_action (sg_claims (demo_grant demo_probe)) = SpawnUserWorker 7 7 IdentityProbe"
    by (simp_all add: demo_grant_def demo_claims_def demo_probe_def)
  have none: "retain_nonces 120 (ps_used_nonces demo_state) = (\<lambda>n. None)"
    by (auto simp: retain_nonces_def demo_state_def)
  show ?thesis
    using v l unfolding process_request_def Let_def c none
    by (simp add: demo_state_def spawn_user_worker_def target_identity_def demo_os_def
        h_bind_def h_read_def h_do_def h_return_def os_result_def parse_output_def demo_config_def)
qed


theorem grant_performed_once_witness:
  "\<not> (performs (fst (privd_run demo_grants demo_os
        [(120, demo_grant demo_probe), (121, demo_grant demo_probe)] demo_state ([], ())) ! 0) \<and>
      performs (fst (privd_run demo_grants demo_os
        [(120, demo_grant demo_probe), (121, demo_grant demo_probe)] demo_state ([], ())) ! 1))"
  by (rule grant_performed_once [OF surjective_pairing]) simp_all

text \<open>
  The clock has to be monotonic: once it has passed the expiry of a grant the nonce is forgotten, and a clock that is
  set back finds the grant valid and unused.
\<close>

lemma clock_set_back_forgets:
  assumes "grant_verify env (ps_signer state) other late = Inr ()" "gc_nonce (sg_claims other) \<noteq> n" "e < late"
    and "ps_used_nonces state n = Some e" "process_request env os late other state s = (r, state', s')"
  shows "ps_used_nonces state' n = None"
  using assms(5,1-4) by (cases rule: process_request_cases) (auto simp: retain_nonces_def)

text \<open>
  A unit name may begin with a hyphen, so that the helper hands \<open>systemctl\<close> an option in the place of a unit, here the
  one that selects another host.
\<close>

lemma option_like_unit:
  "new_service_unit ''-Hroot@host'' = Inr (ServiceUnit ''-Hroot@host'') \<and>
   cs_arguments (service_command Systemd (unit_str (ServiceUnit ''-Hroot@host'')) SvcStart) =
     [''--no-ask-password'', ''start'', ''-Hroot@host'']"
  by code_simp

end
