(* ===== verification/Privileged_Api.thy ===== *)
theory Privileged_Api
  imports Auth_Properties Privd_Properties
begin

text \<open>
  The privileged part of the web service (\<open>services/clouddeskd/src/lib.rs\<close>): how a request is authenticated and
  authorised, how the action is signed, audited and sent to the root helper, and what the client is told. The
  authentication service and the helper are the ones of the other theories, so that a request runs through the whole
  system; the two sides of the socket exchange JSON, which is a parameter on both. Every read of the clock is a field
  of \<open>times\<close>.
\<close>

section \<open>Errors of the interface\<close>

datatype internal_detail =
    DetailText string
  | DetailAuth AuthError
  | DetailGrant GrantError
  | DetailLinux LinuxError

record ApiError =
  api_status :: nat
  api_public_message :: string
  api_internal :: "internal_detail option"

definition bad_request :: "string \<Rightarrow> ApiError" where
  "bad_request message = \<lparr>api_status = 400, api_public_message = message, api_internal = None\<rparr>"

definition not_found :: "string \<Rightarrow> ApiError" where
  "not_found message = \<lparr>api_status = 404, api_public_message = message, api_internal = None\<rparr>"

definition unauthorized :: ApiError where
  "unauthorized = \<lparr>api_status = 401, api_public_message = ''authentication required'', api_internal = None\<rparr>"

definition forbidden :: ApiError where
  "forbidden = \<lparr>api_status = 403, api_public_message = ''permission denied'', api_internal = None\<rparr>"

definition step_up_required :: ApiError where
  "step_up_required =
     \<lparr>api_status = 403, api_public_message = ''recent step-up authentication required'', api_internal = None\<rparr>"

definition privilege_unavailable :: ApiError where
  "privilege_unavailable =
     \<lparr>api_status = 503, api_public_message = ''privileged helper is not enabled'', api_internal = None\<rparr>"

definition privilege_rejected :: ApiError where
  "privilege_rejected =
     \<lparr>api_status = 502, api_public_message = ''privileged helper rejected the action'', api_internal = None\<rparr>"

definition internal_error :: "internal_detail \<Rightarrow> ApiError" where
  "internal_error detail =
     \<lparr>api_status = 500, api_public_message = ''internal server error'', api_internal = Some detail\<rparr>"

definition not_initialized :: ApiError where
  "not_initialized = internal_error (DetailText ''authentication service is not initialized'')"

fun api_of_auth :: "AuthError \<Rightarrow> ApiError" where
  "api_of_auth InvalidCredentials = \<lparr>api_status = 401, api_public_message = ''invalid credentials'', api_internal = None\<rparr>"
| "api_of_auth InvalidSecondFactor = \<lparr>api_status = 401, api_public_message = ''invalid credentials'', api_internal = None\<rparr>"
| "api_of_auth InvalidSession = unauthorized"
| "api_of_auth RateLimited =
     \<lparr>api_status = 429, api_public_message = ''too many authentication attempts; try again later'', api_internal = None\<rparr>"
| "api_of_auth AuthError.InvalidUsername = bad_request ''invalid account details''"
| "api_of_auth InvalidPassword = bad_request ''invalid account details''"
| "api_of_auth BootstrapComplete =
     \<lparr>api_status = 409, api_public_message = ''initial setup is already complete'', api_internal = None\<rparr>"
| "api_of_auth TotpNotConfigured = bad_request ''TOTP is not configured''"
| "api_of_auth PermissionDenied = forbidden"
| "api_of_auth StepUpRequired = step_up_required"
| "api_of_auth UnknownRole = bad_request ''unknown role or capability''"
| "api_of_auth UnknownCapability = bad_request ''unknown role or capability''"
| "api_of_auth UnknownUser = bad_request ''unknown user''"
| "api_of_auth InvalidLinuxIdentity = bad_request ''invalid Linux identity''"
| "api_of_auth LinuxIdentityNotMapped = bad_request ''user has no mapped Linux identity''"
| "api_of_auth UnknownAssignedRoot = not_found ''workspace not found''"
| "api_of_auth e = internal_error (DetailAuth e)"

section \<open>The system\<close>

record times =
  t_authenticate :: int
  t_authorization :: int
  t_step_up :: int
  t_issue :: int
  t_granted :: int
  t_helper :: int
  t_complete :: int

record ('n, 'j, 'w) AppState =
  as_auth :: "'n auth_env option"
  as_signer :: "GrantSigner option"
  as_grants :: grant_env
  as_accounts :: accounts
  as_uid :: nat \<comment> \<open>the user the web service runs as\<close>
  as_os :: "('j, 'w) privd_os" \<comment> \<open>the system of the helper\<close>
  as_request_json :: "SignedGrant \<Rightarrow> string + bytes"
  as_response_json :: "'j PrivdResponse \<Rightarrow> string + bytes"
  as_response_parse :: "bytes \<Rightarrow> string + 'j PrivdResponse"
  as_action_json :: "PrivilegedAction \<Rightarrow> string + 'n json"

record HeaderMap =
  h_cookie :: "string option"
  h_user_agent :: "string option"

record 'w system =
  sy_db :: auth_db
  sy_privd :: State
  sy_trace :: "privd_event list"
  sy_world :: 'w

type_synonym ('a, 'w) api = "'w system \<Rightarrow> (ApiError + 'a) \<times> 'w system"

definition api_return :: "'a \<Rightarrow> ('a, 'w) api" where
  "api_return a s = (Inr a, s)"

definition api_fail :: "ApiError \<Rightarrow> ('a, 'w) api" where
  "api_fail e s = (Inl e, s)"

definition api_bind :: "('a, 'w) api \<Rightarrow> ('a \<Rightarrow> ('b, 'w) api) \<Rightarrow> ('b, 'w) api" where
  "api_bind m f s = (case m s of (Inl e, s') \<Rightarrow> (Inl e, s') | (Inr a, s') \<Rightarrow> f a s')"

definition api_auth :: "(auth_db \<Rightarrow> (AuthError + 'a) \<times> auth_db) \<Rightarrow> ('a, 'w) api" where
  "api_auth f s =
     (case f (sy_db s) of
        (Inl e, db) \<Rightarrow> (Inl (api_of_auth e), s\<lparr>sy_db := db\<rparr>)
      | (Inr a, db) \<Rightarrow> (Inr a, s\<lparr>sy_db := db\<rparr>))"

section \<open>Authentication of a request\<close>

definition SESSION_COOKIE :: string where
  "SESSION_COOKIE = ''clouddesk_session''"

definition split_once :: "char \<Rightarrow> string \<Rightarrow> (string \<times> string) option" where
  "split_once c s =
     (if c \<in> set s then Some (takeWhile (\<lambda>x. x \<noteq> c) s, tl (dropWhile (\<lambda>x. x \<noteq> c) s)) else None)"

definition session_token :: "HeaderMap \<Rightarrow> ApiError + string" where
  "session_token headers =
     res_bind (res_of_option unauthorized (h_cookie headers)) (\<lambda>cookies.
       let pairs = List.map_filter (\<lambda>cookie. split_once CHR ''='' (trim cookie)) (split_char CHR '';'' cookies) in
       case find (\<lambda>(name, value). name = SESSION_COOKIE) pairs of
         Some (_, value) \<Rightarrow> if value \<noteq> [] then Inr value else Inl unauthorized
       | None \<Rightarrow> Inl unauthorized)"

definition request_metadata :: "string \<Rightarrow> HeaderMap \<Rightarrow> string \<times> string" where
  "request_metadata connect headers =
     (connect, take 512 (case h_user_agent headers of None \<Rightarrow> ''unknown'' | Some v \<Rightarrow> v))"

definition require_auth_service :: "('n, 'j, 'w) AppState \<Rightarrow> ('n auth_env, 'w) api" where
  "require_auth_service app =
     (case as_auth app of None \<Rightarrow> api_fail not_initialized | Some auth \<Rightarrow> api_return auth)"

definition principal_of :: "('n, 'j, 'w) AppState \<Rightarrow> times \<Rightarrow> HeaderMap \<Rightarrow> (SessionPrincipal, 'w) api" where
  "principal_of app ts headers =
     api_bind (require_auth_service app) (\<lambda>auth.
     case session_token headers of
       Inl e \<Rightarrow> api_fail e
     | Inr token \<Rightarrow> api_auth (authenticate auth (t_authenticate ts) token))"

definition require_step_up :: "times \<Rightarrow> SessionPrincipal \<Rightarrow> (unit, 'w) api" where
  "require_step_up ts p = (if has_fresh_step_up (t_step_up ts) p then api_return () else api_fail step_up_required)"

definition authorize_request ::
    "'n auth_env \<Rightarrow> times \<Rightarrow> SessionPrincipal \<Rightarrow> string \<Rightarrow> bool \<Rightarrow> string \<Rightarrow> HeaderMap \<Rightarrow> (unit, 'w) api" where
  "authorize_request auth ts p capability need_step_up connect headers =
     (let allowed = principal_can p capability; (source_ip, user_agent) = request_metadata connect headers in
      api_bind (api_auth (audit_authorization auth (t_authorization ts) (Some p) capability allowed source_ip user_agent)) (\<lambda>_.
      if \<not> allowed then api_fail forbidden
      else if need_step_up then require_step_up ts p
      else api_return ()))"

definition mapped_identity :: "('n, 'j, 'w) AppState \<Rightarrow> SessionPrincipal \<Rightarrow> (LinuxIdentity, 'w) api" where
  "mapped_identity app p =
     api_bind (api_auth (\<lambda>db. (linux_identity p db, db))) (\<lambda>mapping.
     case lookup_uid (as_accounts app) (lim_uid mapping) of
       Inl e \<Rightarrow> api_fail (internal_error (DetailLinux e))
     | Inr None \<Rightarrow> api_fail (bad_request ''mapped Linux UID no longer exists'')
     | Inr (Some identity) \<Rightarrow>
       if li_gid identity \<noteq> lim_gid mapping \<or> lim_uid mapping = 0 \<or> lim_gid mapping = 0
       then api_fail (bad_request ''mapped Linux identity is no longer valid'')
       else api_return identity)"

section \<open>The helper at the other end of the socket\<close>

text \<open>
  \<open>cloudesk_privd::request\<close>. The connection is served by \<open>handle_connection\<close>; an error there closes it, and the
  client fails to read the answer.
\<close>

definition privd_request :: "('n, 'j, 'w) AppState \<Rightarrow> times \<Rightarrow> SignedGrant \<Rightarrow> (string + 'j PrivdResponse, 'w) api" where
  "privd_request app ts grant s =
     (case as_request_json app grant of
        Inl e \<Rightarrow> (Inr (Inl e), s)
      | Inr text \<Rightarrow>
        if length text > MAX_REQUEST_BYTES then (Inr (Inl ''request is too large''), s)
        else
          (case handle_connection (as_grants app) (as_os app) (as_response_json app) (t_helper ts) (as_uid app)
                  (length text) (\<lambda>n. Inr text) (sy_privd s) (sy_trace s, sy_world s) of
             (r, privd, trace, w) \<Rightarrow>
               (Inr (case r of
                   Inl _ \<Rightarrow> Inl ''early eof''
                 | Inr response \<Rightarrow>
                   if length response = 0 \<or> length response > MAX_RESPONSE_BYTES
                   then Inl ''response length is invalid''
                   else as_response_parse app response),
                s\<lparr>sy_privd := privd, sy_trace := trace, sy_world := w\<rparr>)))"

definition response_word :: "string + 'j PrivdResponse \<Rightarrow> string" where
  "response_word r =
     (case r of Inr response \<Rightarrow> if pr_accepted response then ''success'' else ''denied'' | Inl _ \<Rightarrow> ''failure'')"

text \<open>Sign, record, send, record: the part that both callers share.\<close>

definition send_grant ::
    "('n, 'j, 'w) AppState \<Rightarrow> 'n auth_env \<Rightarrow> times \<Rightarrow> string \<Rightarrow> SessionPrincipal \<Rightarrow> PrivilegedAction \<Rightarrow> string \<Rightarrow> string option \<Rightarrow>
     string \<Rightarrow> HeaderMap \<Rightarrow> ('j PrivdResponse, 'w) api" where
  "send_grant app auth ts nonce p action resource_type done_id connect headers =
     (let (source_ip, user_agent) = request_metadata connect headers in
      case as_signer app of
        None \<Rightarrow> api_fail privilege_unavailable
      | Some signer \<Rightarrow>
        (case as_action_json app action of
           Inl e \<Rightarrow> api_fail (internal_error (DetailText e))
         | Inr metadata \<Rightarrow>
           (case issue (as_grants app) signer nonce (sp_user_id p) (sp_session_id_hash p) action (t_issue ts) 30 of
              Inl e \<Rightarrow> api_fail (internal_error (DetailGrant e))
            | Inr grant \<Rightarrow>
              api_bind (api_auth (audit_action auth (t_granted ts) p ''privilege.grant.issue'' resource_type
                (Some (gc_nonce (sg_claims grant))) ''success'' metadata source_ip user_agent)) (\<lambda>_.
              api_bind (privd_request app ts grant) (\<lambda>response.
              api_bind (api_auth (audit_action auth (t_complete ts) p ''privilege.action.complete'' resource_type
                done_id (response_word response) metadata source_ip user_agent)) (\<lambda>_.
              case response of
                Inl e \<Rightarrow> api_fail (internal_error (DetailText e))
              | Inr r \<Rightarrow> if \<not> pr_accepted r then api_fail privilege_rejected else api_return r))))))"

definition dispatch_privileged_action ::
    "('n, 'j, 'w) AppState \<Rightarrow> times \<Rightarrow> string \<Rightarrow> SessionPrincipal \<Rightarrow> PrivilegedAction \<Rightarrow> string \<Rightarrow> HeaderMap \<Rightarrow>
     ('j PrivdResponse, 'w) api" where
  "dispatch_privileged_action app ts nonce p action connect headers =
     api_bind (require_auth_service app) (\<lambda>auth.
     api_bind (authorize_request auth ts p (required_capability action) (requires_step_up action) connect headers) (\<lambda>_.
     send_grant app auth ts nonce p action ''privileged_action'' None connect headers))"

section \<open>Handlers\<close>

definition api_spawn_user_worker ::
    "('n, 'j, 'w) AppState \<Rightarrow> times \<Rightarrow> string \<Rightarrow> WorkerKind \<Rightarrow> string \<Rightarrow> HeaderMap \<Rightarrow> ('j PrivdResponse, 'w) api" where
  "api_spawn_user_worker app ts nonce worker connect headers =
     api_bind (require_auth_service app) (\<lambda>auth.
     api_bind (principal_of app ts headers) (\<lambda>p.
     api_bind (mapped_identity app p) (\<lambda>identity.
     dispatch_privileged_action app ts nonce p (SpawnUserWorker (li_uid identity) (li_gid identity) worker) connect headers)))"

definition is_set_acl :: "LocalFileOperation \<Rightarrow> bool" where
  "is_set_acl operation \<longleftrightarrow> (case operation of OpSetAcl _ _ \<Rightarrow> True | _ \<Rightarrow> False)"

definition local_file_action ::
    "('n, 'j, 'w) AppState \<Rightarrow> times \<Rightarrow> string \<Rightarrow> LocalFileOperation \<Rightarrow> string \<Rightarrow> HeaderMap \<Rightarrow> ('j PrivdResponse, 'w) api" where
  "local_file_action app ts nonce operation connect headers =
     api_bind (require_auth_service app) (\<lambda>auth.
     api_bind (principal_of app ts headers) (\<lambda>p.
     api_bind (mapped_identity app p) (\<lambda>identity.
     let writable = (principal_can p ''files.local.write'' \<or>
           is_set_acl operation \<and> principal_can p ''files.permissions.change'') in
     dispatch_privileged_action app ts nonce p
       (ActLocalFile (li_uid identity) (li_gid identity) (li_home identity) writable operation) connect headers)))"

definition api_service_control ::
    "('n, 'j, 'w) AppState \<Rightarrow> times \<Rightarrow> string \<Rightarrow> string \<Rightarrow> ServiceOperation \<Rightarrow> string \<Rightarrow> HeaderMap \<Rightarrow> ('j PrivdResponse, 'w) api" where
  "api_service_control app ts nonce unit operation connect headers =
     api_bind (principal_of app ts headers) (\<lambda>p.
     case new_service_unit unit of
       Inl _ \<Rightarrow> api_fail (bad_request ''invalid service unit'')
     | Inr u \<Rightarrow> dispatch_privileged_action app ts nonce p (ServiceControl u operation) connect headers)"

definition power_control ::
    "('n, 'j, 'w) AppState \<Rightarrow> times \<Rightarrow> string \<Rightarrow> PowerOperation \<Rightarrow> string \<Rightarrow> HeaderMap \<Rightarrow> ('j PrivdResponse, 'w) api" where
  "power_control app ts nonce operation connect headers =
     api_bind (principal_of app ts headers) (\<lambda>p.
     dispatch_privileged_action app ts nonce p (Power operation) connect headers)"

text \<open>The terminal up to the upgrade of the connection: the path of the worker's socket.\<close>

definition open_terminal ::
    "('n, 'j, 'w) AppState \<Rightarrow> times \<Rightarrow> string \<Rightarrow> string \<Rightarrow> HeaderMap \<Rightarrow> (string, 'w) api" where
  "open_terminal app ts nonce connect headers =
     api_bind (require_auth_service app) (\<lambda>auth.
     api_bind (principal_of app ts headers) (\<lambda>p.
     api_bind (authorize_request auth ts p ''terminal.local.open'' False connect headers) (\<lambda>_.
     api_bind (mapped_identity app p) (\<lambda>identity.
     api_bind (send_grant app auth ts nonce p (OpenTerminalSession (li_uid identity) (li_gid identity) 24 80 None)
       ''terminal_session'' (Some nonce) connect headers) (\<lambda>response.
     case pr_output response of
       Some (OutSocket path) \<Rightarrow> api_return path
     | _ \<Rightarrow> api_fail (internal_error (DetailText ''terminal helper returned no socket path'')))))))"

end
