(* ===== verification/Privileged_Api_Properties.thy ===== *)
theory Privileged_Api_Properties
  imports Privileged_Api
begin

text \<open>
  Privileged requests from end to end: whatever the root helper does on behalf of a request was authorised, is in the
  audit log, and happens under the Linux account of the user whose session sent it.
\<close>

section \<open>What the steps of a request change\<close>

definition quiet :: "('a, 'w) api \<Rightarrow> bool" where
  "quiet m \<longleftrightarrow> (\<forall>s. sy_trace (snd (m s)) = sy_trace s \<and> sy_privd (snd (m s)) = sy_privd s)"

lemma quiet_simple: "quiet (api_return a)" "quiet (api_fail e)" "quiet (api_auth f)"
  by (auto simp: quiet_def api_return_def api_fail_def api_auth_def split: prod.splits sum.splits)

lemma quiet_bind: "quiet m \<Longrightarrow> (\<And>a. quiet (f a)) \<Longrightarrow> quiet (api_bind m f)"
  by (auto simp: quiet_def api_bind_def split: prod.splits sum.splits) (metis snd_conv)+

lemma quiet_steps [simp]:
  "quiet (require_auth_service app)" "quiet (principal_of app ts headers)" "quiet (require_step_up ts p)"
  "quiet (authorize_request auth ts p c need connect headers)" "quiet (mapped_identity app p)"
  by (auto simp: require_auth_service_def principal_of_def require_step_up_def authorize_request_def mapped_identity_def
      Let_def intro!: quiet_bind quiet_simple split: option.splits sum.splits prod.splits)

lemma api_bind_cases:
  assumes "api_bind m f s = (r, s')"
  obtains (failed) e where "m s = (Inl e, s')" "r = Inl e"
    | (continued) a s1 where "m s = (Inr a, s1)" "f a s1 = (r, s')"
  using assms by (auto simp: api_bind_def split: prod.splits sum.splits)

lemma quiet_eq: "quiet m \<Longrightarrow> m s = (r, s') \<Longrightarrow> sy_trace s' = sy_trace s \<and> sy_privd s' = sy_privd s"
  by (metis quiet_def snd_conv)

text \<open>After a quiet step either nothing else happens, or the rest of the request runs on the same trace.\<close>

lemma quiet_bind_cases:
  assumes "api_bind m f s = (r, s')" "quiet m"
  obtains (failed) "sy_trace s' = sy_trace s"
    | (continued) a s1 where "m s = (Inr a, s1)" "f a s1 = (r, s')" "sy_trace s1 = sy_trace s" "sy_privd s1 = sy_privd s"
  using assms by (cases rule: api_bind_cases) (auto dest: quiet_eq)

section \<open>The audit log\<close>

definition recorded :: "SessionPrincipal \<Rightarrow> string \<Rightarrow> string option \<Rightarrow> string \<Rightarrow> auth_db \<Rightarrow> bool" where
  "recorded p action resource_id result db \<longleftrightarrow>
     (\<exists>row\<in>set (audit_events (db_audit db)). ce_action row = action \<and> ce_user_id row = Some (sp_user_id p) \<and>
        ce_session_id_hash row = Some (sp_session_id_hash p) \<and> ce_resource_id row = resource_id \<and> ce_result row = result)"

lemma append_audit_events:
  assumes "append_audit env locked ev db = (r, db')"
  shows "set (audit_events db) \<subseteq> set (audit_events db')"
    and "is_ok r \<Longrightarrow> \<exists>row\<in>set (audit_events db'). ce_action row = ev_action ev \<and> ce_user_id row = ev_user_id ev \<and>
      ce_session_id_hash row = ev_session_id_hash ev \<and> ce_resource_id row = ev_resource_id ev \<and> ce_result row = ev_result ev"
proof -
  have "(\<exists>e. r = Inl e \<and> db' = db) \<or> (\<exists>rc. r = Inr rc \<and> append_in_transaction env ev db = Inr (rc, db'))"
    using assms by (cases r) (auto simp: append_audit_def dest: append_attempts_cases)
  then show "set (audit_events db) \<subseteq> set (audit_events db')"
    and "is_ok r \<Longrightarrow> \<exists>row\<in>set (audit_events db'). ce_action row = ev_action ev \<and> ce_user_id row = ev_user_id ev \<and>
      ce_session_id_hash row = ev_session_id_hash ev \<and> ce_resource_id row = ev_resource_id ev \<and> ce_result row = ev_result ev"
    by (auto elim!: append_in_transaction_cases
        simp: canonical_event_def audit_row_of_def CanonicalEvent.extend_def audit_row.fields_def)
qed

lemma audited_recorded:
  assumes "audited env ev a db = (r, db')"
  shows "recorded p action rid result db \<Longrightarrow> recorded p action rid result db'"
    and "is_ok r \<Longrightarrow> ev_user_id ev = Some (sp_user_id p) \<Longrightarrow> ev_session_id_hash ev = Some (sp_session_id_hash p) \<Longrightarrow>
      recorded p (ev_action ev) (ev_resource_id ev) (ev_result ev) db'"
proof -
  obtain x log where x: "append_audit (ae_audit env) (ae_locked env) ev (db_audit db) = (x, log)"
    by (cases "append_audit (ae_audit env) (ae_locked env) ev (db_audit db)")
  then have "db' = db\<lparr>db_audit := log\<rparr>" "is_ok r = is_ok x"
    using assms by (auto simp: audited_def split: sum.splits)
  with append_audit_events [OF x] show "recorded p action rid result db \<Longrightarrow> recorded p action rid result db'"
    and "is_ok r \<Longrightarrow> ev_user_id ev = Some (sp_user_id p) \<Longrightarrow> ev_session_id_hash ev = Some (sp_session_id_hash p) \<Longrightarrow>
      recorded p (ev_action ev) (ev_resource_id ev) (ev_result ev) db'"
    by (fastforce simp: recorded_def)+
qed

lemma api_audit_recorded:
  assumes "api_auth (audit_action auth t p action rt rid result md ip ua) s = (r, s')"
  shows "recorded q action' rid' result' (sy_db s) \<Longrightarrow> recorded q action' rid' result' (sy_db s')"
    and "is_ok r \<Longrightarrow> recorded p action rid result (sy_db s')"
proof -
  let ?ev = "(actor_event p t action rt rid result ip ua)\<lparr>ev_metadata := md\<rparr>"
  obtain x db where x: "audited auth ?ev () (sy_db s) = (x, db)" by (cases "audited auth ?ev () (sy_db s)")
  then have s': "sy_db s' = db" "is_ok r = is_ok x"
    using assms by (auto simp: api_auth_def audit_action_def split: sum.splits)
  show "recorded q action' rid' result' (sy_db s) \<Longrightarrow> recorded q action' rid' result' (sy_db s')"
    using audited_recorded(1) [OF x] s' by simp
  show "is_ok r \<Longrightarrow> recorded p action rid result (sy_db s')"
    using audited_recorded(2) [OF x, of p] s' by (simp add: actor_event_def audit_event_def)
qed

section \<open>Sending a grant\<close>

definition request_law :: "('n, 'j, 'w) AppState \<Rightarrow> bool" where
  "request_law app \<longleftrightarrow>
     (\<forall>g body. as_request_json app g = Inr body \<longrightarrow> os_parse_request (as_os app) body = Inr g)"

lemma privd_request_events:
  assumes "request_law app" "privd_request app ts grant s = (r, s')"
  shows "sy_db s' = sy_db s \<and> is_ok r \<and> (\<exists>new. sy_trace s' = sy_trace s @ new \<and>
    list_all (event_ok (as_os app) (ps_config (sy_privd s)) (gc_action (sg_claims grant))) new)"
proof (cases "sy_trace s' = sy_trace s")
  case False
  with assms(2) obtain body x w where t: "as_request_json app grant = Inr body"
      "handle_connection (as_grants app) (as_os app) (as_response_json app) (t_helper ts) (as_uid app)
        (length body) (\<lambda>n. Inr body) (sy_privd s) (sy_trace s, sy_world s) = (x, sy_privd s', sy_trace s', w)"
      "sy_db s' = sy_db s" "is_ok r"
    by (auto simp: privd_request_def split: sum.splits if_splits prod.splits)
  have "os_parse_request (as_os app) body = Inr grant" using assms(1) t(1) by (simp add: request_law_def)
  with handle_connection_confined [OF t(2)] t(3,4) False show ?thesis by auto
next
  case True
  then show ?thesis
    using assms(2) by (auto simp: privd_request_def split: sum.splits if_splits prod.splits)
qed

lemma send_grant_events:
  assumes "request_law app" "send_grant app auth ts nonce p action rt did connect headers s = (r, s')"
  shows "\<exists>new. sy_trace s' = sy_trace s @ new \<and>
    (new \<noteq> [] \<longrightarrow> list_all (event_ok (as_os app) (ps_config (sy_privd s)) action) new \<and>
       recorded p ''privilege.grant.issue'' (Some nonce) ''success'' (sy_db s'))"
proof (cases "sy_trace s' = sy_trace s")
  case False
  let ?ip = "fst (request_metadata connect headers)" and ?ua = "snd (request_metadata connect headers)"
  from assms(2) False obtain signer md grant where g:
      "issue (as_grants app) signer nonce (sp_user_id p) (sp_session_id_hash p) action (t_issue ts) 30 = Inr grant"
      "api_bind (api_auth (audit_action auth (t_granted ts) p ''privilege.grant.issue'' rt (Some (gc_nonce (sg_claims grant)))
          ''success'' md ?ip ?ua)) (\<lambda>_.
        api_bind (privd_request app ts grant) (\<lambda>response.
        api_bind (api_auth (audit_action auth (t_complete ts) p ''privilege.action.complete'' rt did (response_word response)
          md ?ip ?ua)) (\<lambda>_.
        case response of
          Inl e \<Rightarrow> api_fail (internal_error (DetailText e))
        | Inr r \<Rightarrow> if \<not> pr_accepted r then api_fail privilege_rejected else api_return r))) s = (r, s')"
    by (auto simp: send_grant_def Let_def api_fail_def split: option.splits sum.splits prod.splits)
  have c: "gc_nonce (sg_claims grant) = nonce" "gc_action (sg_claims grant) = action"
    using issue_ok [OF g(1)] by auto
  from g(2) quiet_simple(3) show ?thesis
  proof (cases rule: quiet_bind_cases)
    case (continued u s1)
    note rec = api_audit_recorded(2) [OF continued(1)]
    from continued(2) show ?thesis
    proof (cases rule: api_bind_cases)
      case (failed e)
      then show ?thesis using privd_request_events [OF assms(1) failed(1)] by simp
    next
      case (continued response s2)
      note ev = privd_request_events [OF assms(1) this(1)]
      from continued(2) obtain x s3 where s3: "api_auth (audit_action auth (t_complete ts) p ''privilege.action.complete'' rt
          did (response_word response) md ?ip ?ua) s2 = (x, s3)" "s' = s3"
        by (auto elim!: api_bind_cases simp: api_fail_def api_return_def split: sum.splits if_splits)
      from rec c have "recorded p ''privilege.grant.issue'' (Some nonce) ''success'' (sy_db s1)" by simp
      then have "recorded p ''privilege.grant.issue'' (Some nonce) ''success'' (sy_db s')"
        using ev api_audit_recorded(1) [OF s3(1)] s3(2) by simp
      then show ?thesis
        using ev quiet_eq [OF quiet_simple(3) s3(1)] s3(2) \<open>sy_trace s1 = sy_trace s\<close> \<open>sy_privd s1 = sy_privd s\<close> c by auto
    qed
  qed simp
qed simp

section \<open>Authorised actions\<close>

lemma authorize_request_ok:
  assumes "authorize_request auth ts p c need connect headers s = (Inr u, s')"
  shows "principal_can p c \<and> (need \<longrightarrow> has_fresh_step_up (t_step_up ts) p)"
  using assms
  by (auto simp: authorize_request_def Let_def require_step_up_def api_fail_def split: prod.splits if_splits
      elim!: api_bind_cases)

lemma dispatch_events:
  assumes "request_law app" "dispatch_privileged_action app ts nonce p action connect headers s = (r, s')"
  shows "\<exists>new. sy_trace s' = sy_trace s @ new \<and>
    (new \<noteq> [] \<longrightarrow>
      principal_can p (required_capability action) \<and>
      (requires_step_up action \<longrightarrow> has_fresh_step_up (t_step_up ts) p) \<and>
      list_all (event_ok (as_os app) (ps_config (sy_privd s)) action) new \<and>
      recorded p ''privilege.grant.issue'' (Some nonce) ''success'' (sy_db s'))"
  using assms(2) quiet_steps(1) unfolding dispatch_privileged_action_def
proof (cases rule: quiet_bind_cases)
  case (continued auth s1)
  note c1 = continued
  from continued(2) quiet_steps(4) show ?thesis
  proof (cases rule: quiet_bind_cases)
    case (continued u s2)
    from send_grant_events [OF assms(1) continued(2)] authorize_request_ok [OF continued(1)] continued(3,4) c1(3,4)
    show ?thesis by (cases u) auto
  qed (use c1 in simp)
qed simp


section \<open>File operations from end to end\<close>

lemma principal_of_ok:
  assumes "principal_of app ts headers s = (Inr p, s')"
  shows "\<exists>auth token. as_auth app = Some auth \<and> session_token headers = Inr token \<and>
    authenticate auth (t_authenticate ts) token (sy_db s) = (Inr p, sy_db s')"
  using assms
  by (auto simp: principal_of_def require_auth_service_def api_return_def api_fail_def api_auth_def
      elim!: api_bind_cases split: option.splits sum.splits prod.splits)

lemma mapped_identity_ok:
  assumes "mapped_identity app p s = (Inr i, s')"
  shows "\<exists>m. linux_identity p (sy_db s) = Inr m \<and> lookup_uid (as_accounts app) (lim_uid m) = Inr (Some i) \<and>
    li_gid i = lim_gid m \<and> lim_uid m \<noteq> 0 \<and> lim_gid m \<noteq> 0"
  using assms
  by (auto simp: mapped_identity_def api_return_def api_fail_def api_auth_def
      elim!: api_bind_cases split: option.splits sum.splits prod.splits if_splits)

lemma file_event:
  assumes "event_ok os config (ActLocalFile uid gid root writable operation) ev"
  shows "\<exists>i w home json. lookup_uid (os_accounts os) uid = Inr (Some i) \<and> os_canonicalize os (li_home i) w = Inr home \<and>
    ev = EvProgram (pc_setpriv_path config) (file_arguments config uid gid home writable json)"
proof (cases ev)
  case (EvProgram program arguments)
  with assms show ?thesis
    by (auto simp: event_ok.simps worker_program_def system_program_def)
qed (use assms in \<open>auto simp: opens_terminal_def\<close>)

text \<open>
  (C24) A file operation that a client sends runs, if at all, as the Linux account mapped to the user of its session: the
  cookie authenticates, the user holds the capability for this kind of operation, and the one program the root
  helper starts is the file worker under the mapped user and group, neither of them root, on the home of that
  account; with write access only for a user who may write files or, when the operation sets an access control list,
  who may change permissions.
\<close>

theorem file_action_runs_as_mapped_user:
  assumes "request_law app" "accounts_consistent (as_accounts app)"
    and "local_file_action app ts nonce operation connect headers s = (r, s')" "sy_trace s' \<noteq> sy_trace s"
  shows "\<exists>auth token p db m new.
    as_auth app = Some auth \<and> session_token headers = Inr token \<and>
    authenticate auth (t_authenticate ts) token (sy_db s) = (Inr p, db) \<and>
    linux_identity p db = Inr m \<and> lim_uid m \<noteq> 0 \<and> lim_gid m \<noteq> 0 \<and>
    principal_can p (required_capability (ActLocalFile 0 0 [] False operation)) \<and>
    sy_trace s' = sy_trace s @ new \<and>
    (\<forall>ev\<in>set new. \<exists>i w home json writable.
       lookup_uid (os_accounts (as_os app)) (lim_uid m) = Inr (Some i) \<and>
       os_canonicalize (as_os app) (li_home i) w = Inr home \<and>
       ev = EvProgram (pc_setpriv_path (ps_config (sy_privd s)))
         (file_arguments (ps_config (sy_privd s)) (lim_uid m) (lim_gid m) home writable json) \<and>
       (writable \<longrightarrow> principal_can p ''files.local.write'' \<or>
          is_set_acl operation \<and> principal_can p ''files.permissions.change''))"
proof -
  from assms(3,4) obtain p s1 i s2 where steps: "principal_of app ts headers s = (Inr p, s1)"
      "mapped_identity app p s1 = (Inr i, s2)" "sy_trace s2 = sy_trace s" "sy_privd s2 = sy_privd s"
    and run: "dispatch_privileged_action app ts nonce p (ActLocalFile (li_uid i) (li_gid i) (li_home i)
        (principal_can p ''files.local.write'' \<or> is_set_acl operation \<and> principal_can p ''files.permissions.change'')
        operation) connect headers s2 = (r, s')"
    unfolding local_file_action_def Let_def
    by (elim quiet_bind_cases [OF _ quiet_steps(1)] quiet_bind_cases [OF _ quiet_steps(2)]
        quiet_bind_cases [OF _ quiet_steps(5)]) (auto simp: require_auth_service_def api_return_def api_fail_def split: option.splits)
  obtain auth token where a: "as_auth app = Some auth" "session_token headers = Inr token"
      "authenticate auth (t_authenticate ts) token (sy_db s) = (Inr p, sy_db s1)"
    using principal_of_ok [OF steps(1)] by blast
  obtain m where m: "linux_identity p (sy_db s1) = Inr m" "lookup_uid (as_accounts app) (lim_uid m) = Inr (Some i)"
      "li_gid i = lim_gid m" "lim_uid m \<noteq> 0" "lim_gid m \<noteq> 0"
    using mapped_identity_ok [OF steps(2)] by blast
  have "li_uid i = lim_uid m" using lookup_uid_same [OF assms(2) m(2)] .
  with dispatch_events [OF assms(1) run] assms(4) steps(3,4) m(3) obtain new where
    new: "sy_trace s' = sy_trace s @ new" and
    can: "principal_can p (required_capability (ActLocalFile 0 0 [] False operation))" and
    ok: "\<forall>ev\<in>set new. event_ok (as_os app) (ps_config (sy_privd s)) (ActLocalFile (lim_uid m) (lim_gid m) (li_home i)
        (principal_can p ''files.local.write'' \<or> is_set_acl operation \<and> principal_can p ''files.permissions.change'')
        operation) ev"
    by (auto simp: list_all_iff)
  have "\<exists>i w home json writable.
       lookup_uid (os_accounts (as_os app)) (lim_uid m) = Inr (Some i) \<and>
       os_canonicalize (as_os app) (li_home i) w = Inr home \<and>
       ev = EvProgram (pc_setpriv_path (ps_config (sy_privd s)))
         (file_arguments (ps_config (sy_privd s)) (lim_uid m) (lim_gid m) home writable json) \<and>
       (writable \<longrightarrow> principal_can p ''files.local.write'' \<or>
          is_set_acl operation \<and> principal_can p ''files.permissions.change'')" if "ev \<in> set new" for ev
    using file_event [OF bspec [OF ok that]] by blast
  with a m(1,4,5) new can show ?thesis by blast
qed

section \<open>A concrete request\<close>

definition demo_file_action :: PrivilegedAction where
  "demo_file_action = ActLocalFile 7 7 ''/home/eve'' False (OpStat ''/a'')"

definition demo_file_grant :: SignedGrant where
  "demo_file_grant = \<lparr>sg_claims = \<lparr>gc_subject_user_id = ''u1'', gc_session_id_hash = ''#t'', gc_action = demo_file_action,
     gc_issued_at = 100, gc_expires_at = 130, gc_nonce = ''n1''\<rparr>, sg_signature = replicate 32 CHR 0x03 @ ''j''\<rparr>"

definition demo_app :: "(int, string, unit) AppState" where
  "demo_app = \<lparr>as_auth = Some demo_auth_env, as_signer = Some demo_signer,
     as_grants = demo_grants\<lparr>ge_json := (\<lambda>c. Inr ''j'')\<rparr>, as_accounts = demo_accounts, as_uid = 6,
     as_os = demo_os\<lparr>os_parse_request := (\<lambda>b. if b = ''req'' then Inr demo_file_grant else Inl ''syntax'')\<rparr>,
     as_request_json = (\<lambda>g. if g = demo_file_grant then Inr ''req'' else Inl ''unsupported''),
     as_response_json = (\<lambda>r. Inr ''ok''),
     as_response_parse = (\<lambda>b. Inr \<lparr>pr_accepted = True, pr_message = MsgCompleted, pr_output = None\<rparr>),
     as_action_json = (\<lambda>a. Inr (JObject []))\<rparr>"

definition demo_times :: times where
  "demo_times = \<lparr>t_authenticate = 90, t_authorization = 91, t_step_up = 92, t_issue = 100, t_granted = 101, t_helper = 102,
     t_complete = 103\<rparr>"

definition demo_headers :: HeaderMap where
  "demo_headers = \<lparr>h_cookie = Some ''a=b; clouddesk_session=t'', h_user_agent = None\<rparr>"

definition demo_file_db :: auth_db where
  "demo_file_db = snd (login demo_auth_env ''t'' 10 (demo_login ''ada'' ''pw'')
     (demo_db\<lparr>db_users := [(demo_user ''u1'' ''ada'')\<lparr>u_linux_uid := Some 7, u_linux_gid := Some 7\<rparr>],
        db_permissions := [''files.local.read''], db_user_permissions := [(''u1'', ''files.local.read'', ''allow'')]\<rparr>))"

definition demo_system :: "unit system" where
  "demo_system = \<lparr>sy_db = demo_file_db, sy_privd = demo_state, sy_trace = [], sy_world = ()\<rparr>"

definition demo_principal :: SessionPrincipal where
  "demo_principal = \<lparr>sp_user_id = ''u1'', sp_username = ''ada'', sp_session_id_hash = ''#t'', sp_roles = [],
     sp_capabilities = {''files.local.read''}, sp_step_up_expires_at = None\<rparr>"

lemma demo_app_law: "request_law demo_app"
  by (simp add: request_law_def demo_app_def)

lemma demo_accounts_consistent: "accounts_consistent (as_accounts demo_app)"
  by (auto simp: accounts_consistent_def demo_app_def demo_accounts_def demo_account_def split: if_splits)

lemma demo_helper:
  "handle_connection (as_grants demo_app) (as_os demo_app) (as_response_json demo_app) 102 6 (length ''req'') (\<lambda>n. Inr ''req'')
     demo_state ([], ()) =
   (Inr ''ok'', demo_state\<lparr>ps_used_nonces := [''n1'' \<mapsto> 130]\<rparr>,
    [EvProgram ''/setpriv'' (file_arguments demo_config 7 7 ''/home/eve'' False ''op'')], ())"
proof -
  have l: "lookup_uid demo_accounts 7 = Inr (Some \<lparr>li_username = ''eve'', li_uid = 7, li_gid = 7, li_groups = [7],
      li_home = ''/home/eve'', li_shell = ''/bin/sh''\<rparr>)"
    by code_simp
  have none: "retain_nonces 102 (\<lambda>n. None) = (\<lambda>n. None)"
    by (auto simp: retain_nonces_def)
  have v: "grant_verify (as_grants demo_app) demo_signer demo_file_grant 102 = Inr ()"
    by (simp add: grant_verify_def claims_json_def demo_app_def demo_grants_def demo_signer_def demo_file_grant_def
        wrap_i64_def)
  have c: "gc_nonce (sg_claims demo_file_grant) = ''n1''" "gc_expires_at (sg_claims demo_file_grant) = 130"
      "gc_action (sg_claims demo_file_grant) = ActLocalFile 7 7 ''/home/eve'' False (OpStat ''/a'')"
    by (simp_all add: demo_file_grant_def demo_file_action_def)
  have p: "process_request (as_grants demo_app) (as_os demo_app) 102 demo_file_grant demo_state ([], ()) =
    (\<lparr>pr_accepted = True, pr_message = MsgCompleted, pr_output = Some (OutFile ''{}'')\<rparr>,
     demo_state\<lparr>ps_used_nonces := [''n1'' \<mapsto> 130]\<rparr>,
     [EvProgram ''/setpriv'' (file_arguments demo_config 7 7 ''/home/eve'' False ''op'')], ())"
    using v l unfolding process_request_def Let_def c
    by (simp add: demo_app_def none demo_state_def spawn_file_worker_def target_identity_def demo_os_def
        h_bind_def h_read_def h_do_def h_return_def os_result_def parse_output_def demo_config_def Let_def)
  have f: "pc_allowed_peer_uid (ps_config demo_state) = 6" "os_parse_request (as_os demo_app) ''req'' = Inr demo_file_grant"
      "as_response_json demo_app x = Inr ''ok''" for x
    by (simp_all add: demo_state_def demo_config_def demo_app_def)
  show ?thesis
    by (simp add: handle_connection_def f p MAX_REQUEST_BYTES_def MAX_RESPONSE_BYTES_def)
qed

lemma api_auth_eq: "fst (f (sy_db s)) = Inr a \<Longrightarrow> api_auth f s = (Inr a, s\<lparr>sy_db := snd (f (sy_db s))\<rparr>)"
  by (cases "f (sy_db s)") (simp add: api_auth_def)

definition demo_db1 :: auth_db where
  "demo_db1 = snd (authenticate demo_auth_env 90 ''t'' demo_file_db)"

definition demo_db2 :: auth_db where
  "demo_db2 = snd (audit_authorization demo_auth_env 91 (Some demo_principal) ''files.local.read'' True ''ip'' ''unknown'' demo_db1)"

lemma demo_authenticated: "fst (authenticate demo_auth_env 90 ''t'' demo_file_db) = Inr demo_principal"
  unfolding demo_file_db_def by code_simp

lemma demo_authorised:
  "fst (audit_authorization demo_auth_env 91 (Some demo_principal) ''files.local.read'' True ''ip'' ''unknown'' demo_db1) = Inr ()"
  unfolding demo_db1_def demo_file_db_def by code_simp

lemma demo_granted:
  "fst (audit_action demo_auth_env 101 demo_principal ''privilege.grant.issue'' ''privileged_action'' (Some ''n1'') ''success''
     (JObject []) ''ip'' ''unknown'' demo_db2) = Inr ()"
  unfolding demo_db2_def demo_db1_def demo_file_db_def by code_simp

lemma demo_mapping: "linux_identity demo_principal demo_db1 = Inr \<lparr>lim_uid = 7, lim_gid = 7\<rparr>"
  unfolding demo_db1_def demo_file_db_def by code_simp

lemma demo_sent:
  assumes "sy_db s = demo_db2" "sy_privd s = demo_state" "sy_trace s = []" "sy_world s = ()"
  shows "sy_trace (snd (send_grant demo_app demo_auth_env demo_times ''n1'' demo_principal demo_file_action ''privileged_action''
      None ''ip'' demo_headers s)) =
    [EvProgram ''/setpriv'' (file_arguments demo_config 7 7 ''/home/eve'' False ''op'')]"
proof -
  have i: "issue (as_grants demo_app) demo_signer ''n1'' ''u1'' ''#t'' demo_file_action 100 30 = Inr demo_file_grant"
    by (simp add: issue_def grant_signature_def claims_json_def demo_app_def demo_grants_def demo_signer_def
        demo_file_grant_def wrap_i64_def Let_def)
  let ?s1 = "s\<lparr>sy_db := snd (audit_action demo_auth_env 101 demo_principal ''privilege.grant.issue'' ''privileged_action''
    (Some ''n1'') ''success'' (JObject []) ''ip'' ''unknown'' demo_db2)\<rparr>"
  have a: "api_auth (audit_action demo_auth_env 101 demo_principal ''privilege.grant.issue'' ''privileged_action''
      (Some ''n1'') ''success'' (JObject []) ''ip'' ''unknown'') s = (Inr (), ?s1)"
    using demo_granted assms(1) api_auth_eq [of "audit_action demo_auth_env 101 demo_principal ''privilege.grant.issue''
      ''privileged_action'' (Some ''n1'') ''success'' (JObject []) ''ip'' ''unknown''" s "()"] by simp
  have j: "as_request_json demo_app demo_file_grant = Inr ''req''" "as_uid demo_app = 6" "as_signer demo_app = Some demo_signer"
      "as_action_json demo_app x = Inr (JObject [])" for x
    by (simp_all add: demo_app_def)
  obtain x s2 where r: "privd_request demo_app demo_times demo_file_grant ?s1 = (Inr x, s2)"
      "sy_trace s2 = [EvProgram ''/setpriv'' (file_arguments demo_config 7 7 ''/home/eve'' False ''op'')]"
    using demo_helper assms j by (simp add: privd_request_def demo_times_def MAX_REQUEST_BYTES_def)
  have m: "request_metadata ''ip'' demo_headers = (''ip'', ''unknown'')"
    by (simp add: request_metadata_def demo_headers_def)
  have n: "gc_nonce (sg_claims demo_file_grant) = ''n1''" "sp_user_id demo_principal = ''u1''"
      "sp_session_id_hash demo_principal = ''#t''"
    by (simp_all add: demo_file_grant_def demo_principal_def)
  have a': "api_bind (api_auth (audit_action demo_auth_env 101 demo_principal ''privilege.grant.issue'' ''privileged_action''
      (Some ''n1'') ''success'' (JObject []) ''ip'' ''unknown'')) f s = f () ?s1"
    for f :: "unit \<Rightarrow> (string PrivdResponse, unit) api"
    by (simp add: api_bind_def a)
  have r': "api_bind (privd_request demo_app demo_times demo_file_grant) f ?s1 = f x s2"
    for f :: "string + string PrivdResponse \<Rightarrow> (string PrivdResponse, unit) api"
    by (simp add: api_bind_def r(1))
  have quiet: "sy_trace (snd (api_bind (api_auth g) (\<lambda>_. case y of Inl e \<Rightarrow> api_fail (f e)
      | Inr r \<Rightarrow> if \<not> pr_accepted r then api_fail privilege_rejected else api_return r) s2)) = sy_trace s2"
    for g :: "auth_db \<Rightarrow> (AuthError + unit) \<times> auth_db" and y :: "'a + string PrivdResponse" and f
    using quiet_bind [OF quiet_simple(3), of "\<lambda>_. case y of Inl e \<Rightarrow> api_fail (f e)
      | Inr r \<Rightarrow> if \<not> pr_accepted r then api_fail privilege_rejected else api_return r" g]
    by (auto simp: quiet_def quiet_simple(1,2) [unfolded quiet_def] split: sum.splits)
  show ?thesis
    unfolding send_grant_def m
    by (simp add: j n i demo_times_def [THEN arg_cong [of _ _ t_issue]] demo_times_def [THEN arg_cong [of _ _ t_granted]]
        a' r' quiet r(2))
qed

lemma demo_dispatched:
  "sy_trace (snd (dispatch_privileged_action demo_app demo_times ''n1'' demo_principal demo_file_action ''ip'' demo_headers
      (demo_system\<lparr>sy_db := demo_db1\<rparr>))) =
    [EvProgram ''/setpriv'' (file_arguments demo_config 7 7 ''/home/eve'' False ''op'')]"
proof -
  let ?s1 = "demo_system\<lparr>sy_db := demo_db1\<rparr>" and ?s2 = "demo_system\<lparr>sy_db := demo_db2\<rparr>"
  have auth: "require_auth_service demo_app = api_return demo_auth_env"
    by (simp add: require_auth_service_def demo_app_def)
  have z: "authorize_request demo_auth_env demo_times demo_principal ''files.local.read'' False ''ip'' demo_headers ?s1 =
      (Inr (), ?s2)"
    using demo_authorised api_auth_eq [of "audit_authorization demo_auth_env 91 (Some demo_principal) ''files.local.read''
        True ''ip'' ''unknown''" ?s1 "()"]
    by (simp add: authorize_request_def principal_can_def demo_principal_def demo_times_def request_metadata_def
        demo_headers_def api_bind_def api_return_def demo_db2_def)
  have c: "required_capability demo_file_action = ''files.local.read''" "\<not> requires_step_up demo_file_action"
    by (simp_all add: demo_file_action_def)
  show ?thesis
    using demo_sent [of ?s2]
    by (simp add: dispatch_privileged_action_def auth api_bind_def [where s = ?s1] api_return_def c z)
      (simp add: demo_system_def)
qed


theorem file_action_runs_as_mapped_user_witness:
  "sy_trace (snd (local_file_action demo_app demo_times ''n1'' (OpStat ''/a'') ''ip'' demo_headers demo_system)) =
     [EvProgram ''/setpriv'' (file_arguments demo_config 7 7 ''/home/eve'' False ''op'')] \<and>
   (\<exists>auth token p db m. as_auth demo_app = Some auth \<and> session_token demo_headers = Inr token \<and>
      authenticate auth (t_authenticate demo_times) token (sy_db demo_system) = (Inr p, db) \<and>
      linux_identity p db = Inr m \<and> lim_uid m \<noteq> 0 \<and> principal_can p ''files.local.read'')"
proof -
  let ?s1 = "demo_system\<lparr>sy_db := demo_db1\<rparr>"
  let ?i = "\<lparr>li_username = ''eve'', li_uid = 7, li_gid = 7, li_groups = [7], li_home = ''/home/eve'', li_shell = ''/bin/sh''\<rparr>"
  have auth: "require_auth_service demo_app = api_return demo_auth_env"
    by (simp add: require_auth_service_def demo_app_def)
  have p: "principal_of demo_app demo_times demo_headers demo_system = (Inr demo_principal, ?s1)"
  proof -
    have "session_token demo_headers = Inr ''t''" by code_simp
    then show ?thesis
      using demo_authenticated api_auth_eq [of "authenticate demo_auth_env 90 ''t''" demo_system demo_principal]
      by (simp add: principal_of_def auth api_bind_def api_return_def demo_times_def demo_system_def demo_db1_def)
  qed
  have i: "mapped_identity demo_app demo_principal ?s1 = (Inr ?i, ?s1)"
  proof -
    have "lookup_uid demo_accounts 7 = Inr (Some ?i)" by code_simp
    moreover have "as_accounts demo_app = demo_accounts" by (simp add: demo_app_def)
    ultimately show ?thesis
      using demo_mapping by (simp add: mapped_identity_def api_bind_def api_auth_def api_return_def)
  qed
  have c: "\<not> principal_can demo_principal ''files.local.write''" "\<not> is_set_acl (OpStat ''/a'')"
    by (simp_all add: principal_can_def demo_principal_def is_set_acl_def)
  have t: "sy_trace (snd (local_file_action demo_app demo_times ''n1'' (OpStat ''/a'') ''ip'' demo_headers demo_system)) =
     [EvProgram ''/setpriv'' (file_arguments demo_config 7 7 ''/home/eve'' False ''op'')]"
    using demo_dispatched
    by (simp add: local_file_action_def auth api_bind_def api_return_def p i c demo_file_action_def)
  obtain r s' where run: "local_file_action demo_app demo_times ''n1'' (OpStat ''/a'') ''ip'' demo_headers demo_system = (r, s')"
    by (cases "local_file_action demo_app demo_times ''n1'' (OpStat ''/a'') ''ip'' demo_headers demo_system")
  have "sy_trace s' \<noteq> sy_trace demo_system" using t run by (simp add: demo_system_def)
  from file_action_runs_as_mapped_user [OF demo_app_law demo_accounts_consistent run this] t show ?thesis by auto
qed

end
