(* ===== verification/Office.thy ===== *)
theory Office
  imports Privileged_Api
begin

text \<open>
  The WOPI host of the office integration (\<open>services/clouddeskd/src/wopi.rs\<close> and the module \<open>wopi_api\<close> of
  \<open>services/clouddeskd/src/lib.rs\<close>) over the tables \<open>office_wopi_files\<close>, \<open>office_wopi_tokens\<close> and \<open>office_locks\<close>
  (\<open>migrations/0015_office_wopi.sql\<close>, \<open>0016_office_wopi_remote.sql\<close>).

  Local documents live in a store of files by canonical path; which calls of the file system fail, and how much of
  a failed write reaches the file, is the parameter \<open>oe_fault\<close>. Documents on a remote server are reached through the
  operations of \<open>remote_ops\<close>. Random identifiers and every read of the clock are arguments. Statements on the tables succeed.
\<close>

section \<open>Data\<close>

definition TOKEN_TTL_SECONDS :: int where
  "TOKEN_TTL_SECONDS = 30 * 60"

definition LOCK_TTL_SECONDS :: int where
  "LOCK_TTL_SECONDS = 10 * 60"

definition MAX_OFFICE_FILE_BYTES :: nat where
  "MAX_OFFICE_FILE_BYTES = 200 * 1024 * 1024"

definition MAX_WOPI_LOCK_BYTES :: nat where
  "MAX_WOPI_LOCK_BYTES = 1024"

datatype WopiError = NotAuthorized | WopiNotFound | InvalidToken | TokenExpired | FileMismatch | WopiDatabase | WopiIo string

record wopi_file_row =
  wf_id :: string
  wf_remote_server_id :: "string option"
  wf_canonical_path :: string
  wf_identity_key :: string
  wf_generation :: int
  wf_created_at :: int

record wopi_token_row =
  wt_token_hash :: string
  wt_user_id :: string
  wt_file_id :: string
  wt_read_write :: bool
  wt_runtime_instance_id :: string
  wt_created_at :: int
  wt_expires_at :: int

record office_lock_row =
  ol_file_id :: string
  ol_lock_value :: string
  ol_owner_user_id :: string
  ol_snapshot_size :: nat
  ol_snapshot_mtime :: int
  ol_created_at :: int
  ol_expires_at :: int

record document =
  doc_content :: bytes
  doc_mtime :: int
  doc_mode :: nat

type_synonym documents = "string \<rightharpoonup> document"

datatype fs_call = CallCreate string | CallWrite string nat | CallSync string | CallChmod string | CallRename string string | CallRemove string

record 'r remote_ops =
  r_get :: "string \<Rightarrow> string \<Rightarrow> 'r \<Rightarrow> bool" \<comment> \<open>\<open>RemoteServerStore::get\<close>: owner, server\<close>
  r_stat :: "string \<Rightarrow> string \<Rightarrow> string \<Rightarrow> 'r \<Rightarrow> string + nat \<times> int" \<comment> \<open>owner, server, path\<close>
  r_read :: "string \<Rightarrow> string \<Rightarrow> string \<Rightarrow> nat \<Rightarrow> 'r \<Rightarrow> string + bytes"
  r_connect :: "string \<Rightarrow> string \<Rightarrow> 'r \<Rightarrow> string option"
  r_write :: "string \<Rightarrow> string \<Rightarrow> bytes \<Rightarrow> 'r \<Rightarrow> (string + unit) \<times> 'r" \<comment> \<open>server, path\<close>
  r_rename :: "string \<Rightarrow> string \<Rightarrow> string \<Rightarrow> 'r \<Rightarrow> (string + unit) \<times> 'r"
  r_trash :: "string \<Rightarrow> string \<Rightarrow> 'r \<Rightarrow> (string + unit) \<times> 'r"

record ('n, 'r) office_env =
  oe_auth :: "'n auth_env"
  oe_accounts :: accounts
  oe_canonicalize :: "string \<Rightarrow> documents \<Rightarrow> string + string"
  oe_fault :: "fs_call \<Rightarrow> (string \<times> nat) option" \<comment> \<open>error, and for a write the bytes that got through\<close>
  oe_remote :: "'r remote_ops"

record 'r office =
  of_db :: auth_db
  of_files :: "wopi_file_row list"
  of_tokens :: "wopi_token_row list"
  of_locks :: "office_lock_row list"
  of_docs :: documents
  of_remote :: 'r

record ResolvedFile =
  rf_file_id :: string
  rf_canonical_path :: string
  rf_read_write :: bool
  rf_remote_server_id :: "string option"

record FileLocation =
  fl_canonical_path :: string
  fl_remote_server_id :: "string option"

record VerifiedToken =
  vt_user_id :: string
  vt_file_id :: string
  vt_canonical_path :: string
  vt_read_write :: bool
  vt_remote_server_id :: "string option"

record LockInfo =
  lk_value :: string
  lk_owner_user_id :: string
  lk_expires_at :: int

section \<open>Authorisation\<close>

definition auth_error_to_wopi :: "AuthError \<Rightarrow> WopiError" where
  "auth_error_to_wopi e = (if e = AuthDatabase then WopiDatabase else NotAuthorized)"

text \<open>The most specific containing root so far: its length and whether it may be written.\<close>

fun best_root :: "SessionPrincipal \<Rightarrow> auth_db \<Rightarrow> string \<Rightarrow> AssignedRootSummary list \<Rightarrow> (nat \<times> bool) option \<Rightarrow> (nat \<times> bool) option" where
  "best_root p db path [] best = best"
| "best_root p db path (root # roots) best =
     (case resolve_own_assigned_root p (ars_id root) db of
        Inl _ \<Rightarrow> best_root p db path roots best
      | Inr resolved \<Rightarrow>
        best_root p db path roots
          (if path_starts_with path (rar_path resolved) \<and>
              (case best of None \<Rightarrow> True | Some (l, _) \<Rightarrow> length (rar_path resolved) > l)
           then Some (length (rar_path resolved), rar_read_write resolved) else best))"

definition authorize_path :: "SessionPrincipal \<Rightarrow> string \<Rightarrow> string \<Rightarrow> auth_db \<Rightarrow> WopiError + bool option" where
  "authorize_path p home canonical_path db =
     (case list_own_assigned_roots p db of
        Inl e \<Rightarrow> Inl (auth_error_to_wopi e)
      | Inr roots \<Rightarrow>
        Inr (map_option snd (best_root p db canonical_path roots
          (if path_starts_with canonical_path home then Some (length home, True) else None))))"

section \<open>Files and tokens\<close>

definition register_identity :: "string \<Rightarrow> int \<Rightarrow> string \<Rightarrow> string \<Rightarrow> string option \<Rightarrow> 'r office \<Rightarrow> (WopiError + string) \<times> 'r office" where
  "register_identity fresh now identity_key canonical_path remote_server_id s =
     (case sql_first (\<lambda>r. wf_identity_key r = identity_key) (of_files s) of
        Some r \<Rightarrow> (Inr (wf_id r), s)
      | None \<Rightarrow>
        if fresh \<in> wf_id ` set (of_files s) then (Inl WopiDatabase, s)
        else (Inr fresh, s\<lparr>of_files := of_files s @
          [\<lparr>wf_id = fresh, wf_remote_server_id = remote_server_id, wf_canonical_path = canonical_path,
            wf_identity_key = identity_key, wf_generation = 0, wf_created_at = now\<rparr>]\<rparr>))"

definition resolve_and_register_file ::
    "('n, 'r) office_env \<Rightarrow> string \<Rightarrow> int \<Rightarrow> SessionPrincipal \<Rightarrow> string \<Rightarrow> string \<Rightarrow> 'r office \<Rightarrow> (WopiError + ResolvedFile) \<times> 'r office" where
  "resolve_and_register_file env fresh now p home absolute_path s =
     (case oe_canonicalize env absolute_path (of_docs s) of
        Inl e \<Rightarrow> (Inl (WopiIo e), s)
      | Inr canonical \<Rightarrow>
        (case authorize_path p home canonical (of_db s) of
           Inl e \<Rightarrow> (Inl e, s)
         | Inr None \<Rightarrow> (Inl NotAuthorized, s)
         | Inr (Some read_write) \<Rightarrow>
           (case register_identity fresh now canonical canonical None s of
              (Inl e, s') \<Rightarrow> (Inl e, s')
            | (Inr file_id, s') \<Rightarrow>
              (Inr \<lparr>rf_file_id = file_id, rf_canonical_path = canonical, rf_read_write = read_write,
                 rf_remote_server_id = None\<rparr>, s'))))"

definition resolve_and_register_remote_file ::
    "('n, 'r) office_env \<Rightarrow> string \<Rightarrow> int \<Rightarrow> string \<Rightarrow> string \<Rightarrow> string \<Rightarrow> 'r office \<Rightarrow> (WopiError + ResolvedFile) \<times> 'r office" where
  "resolve_and_register_remote_file env fresh now owner_user_id server_id remote_path s =
     (if \<not> r_get (oe_remote env) owner_user_id server_id (of_remote s) then (Inl NotAuthorized, s)
      else
        (case register_identity fresh now (''remote:'' @ server_id @ '':'' @ remote_path) remote_path (Some server_id) s of
           (Inl e, s') \<Rightarrow> (Inl e, s')
         | (Inr file_id, s') \<Rightarrow>
           (Inr \<lparr>rf_file_id = file_id, rf_canonical_path = remote_path, rf_read_write = True,
              rf_remote_server_id = Some server_id\<rparr>, s')))"

definition lookup_file :: "string \<Rightarrow> 'r office \<Rightarrow> WopiError + FileLocation" where
  "lookup_file file_id s =
     res_bind (res_of_option WopiNotFound (sql_first (\<lambda>r. wf_id r = file_id) (of_files s))) (\<lambda>r.
       Inr \<lparr>fl_canonical_path = wf_canonical_path r, fl_remote_server_id = wf_remote_server_id r\<rparr>)"

definition hash_token :: "('n, 'r) office_env \<Rightarrow> string \<Rightarrow> string" where
  "hash_token env raw = ae_sha256_hex (oe_auth env) raw"

definition issue_token ::
    "('n, 'r) office_env \<Rightarrow> string \<Rightarrow> int \<Rightarrow> string \<Rightarrow> string \<Rightarrow> bool \<Rightarrow> string \<Rightarrow> 'r office \<Rightarrow> (WopiError + string) \<times> 'r office" where
  "issue_token env raw now user_id file_id read_write runtime_instance_id s =
     (if hash_token env raw \<in> wt_token_hash ` set (of_tokens s) then (Inl WopiDatabase, s)
      else (Inr raw, s\<lparr>of_tokens := of_tokens s @
        [\<lparr>wt_token_hash = hash_token env raw, wt_user_id = user_id, wt_file_id = file_id, wt_read_write = read_write,
          wt_runtime_instance_id = runtime_instance_id, wt_created_at = now, wt_expires_at = now + TOKEN_TTL_SECONDS\<rparr>]\<rparr>))"

definition synthetic_principal :: "string \<Rightarrow> SessionPrincipal" where
  "synthetic_principal user_id =
     \<lparr>sp_user_id = user_id, sp_username = [], sp_session_id_hash = [], sp_roles = [], sp_capabilities = {},
      sp_step_up_expires_at = None\<rparr>"

text \<open>The account of a user, as \<open>verify_token\<close> reads it: a \<open>NULL\<close> in the column does not decode.\<close>

definition token_identity :: "('n, 'r) office_env \<Rightarrow> string \<Rightarrow> 'r office \<Rightarrow> WopiError + LinuxIdentity" where
  "token_identity env user_id s =
     (case sql_first (\<lambda>u. u_id u = user_id) (db_users (of_db s)) of
        None \<Rightarrow> Inl NotAuthorized
      | Some u \<Rightarrow>
        (case u_linux_uid u of
           None \<Rightarrow> Inl WopiDatabase
         | Some v \<Rightarrow>
           if \<not> (0 \<le> v \<and> v < 2 ^ 32) then Inl NotAuthorized
           else case lookup_uid (oe_accounts env) (nat v) of
               Inr (Some i) \<Rightarrow> Inr i
             | _ \<Rightarrow> Inl NotAuthorized))"

definition verify_token ::
    "('n, 'r) office_env \<Rightarrow> int \<Rightarrow> string \<Rightarrow> string option \<Rightarrow> 'r office \<Rightarrow> WopiError + VerifiedToken" where
  "verify_token env now token expected_file_id s =
     res_bind (res_of_option InvalidToken
       (sql_first (\<lambda>t. wt_token_hash t = hash_token env token) (of_tokens s))) (\<lambda>t.
     if now \<ge> wt_expires_at t then Inl TokenExpired
     else if (case expected_file_id of None \<Rightarrow> False | Some f \<Rightarrow> f \<noteq> wt_file_id t) then Inl FileMismatch
     else res_bind (lookup_file (wt_file_id t) s) (\<lambda>location.
       case fl_remote_server_id location of
         Some server_id \<Rightarrow>
           if \<not> r_get (oe_remote env) (wt_user_id t) server_id (of_remote s) then Inl NotAuthorized
           else Inr \<lparr>vt_user_id = wt_user_id t, vt_file_id = wt_file_id t, vt_canonical_path = fl_canonical_path location,
             vt_read_write = True, vt_remote_server_id = Some server_id\<rparr>
       | None \<Rightarrow>
           res_bind (token_identity env (wt_user_id t) s) (\<lambda>identity.
           res_bind (authorize_path (synthetic_principal (wt_user_id t)) (li_home identity)
             (fl_canonical_path location) (of_db s)) (\<lambda>allowed.
           res_bind (res_of_option NotAuthorized allowed) (\<lambda>read_write.
             Inr \<lparr>vt_user_id = wt_user_id t, vt_file_id = wt_file_id t, vt_canonical_path = fl_canonical_path location,
               vt_read_write = read_write, vt_remote_server_id = None\<rparr>)))))"

section \<open>Versions and locks\<close>

definition stat_snapshot :: "string \<Rightarrow> 'r office \<Rightarrow> WopiError + nat \<times> int" where
  "stat_snapshot path s =
     (case of_docs s path of None \<Rightarrow> Inl (WopiIo ''not found'') | Some d \<Rightarrow> Inr (length (doc_content d), doc_mtime d))"

definition current_version_from_stat :: "string \<Rightarrow> nat \<Rightarrow> int \<Rightarrow> 'r office \<Rightarrow> WopiError + int \<times> nat \<times> int" where
  "current_version_from_stat file_id sz mtime s =
     res_bind (res_of_option WopiDatabase (sql_first (\<lambda>r. wf_id r = file_id) (of_files s))) (\<lambda>r.
       Inr (wf_generation r, sz, mtime))"

definition current_version :: "string \<Rightarrow> string \<Rightarrow> 'r office \<Rightarrow> WopiError + int \<times> nat \<times> int" where
  "current_version file_id path s =
     (case stat_snapshot path s of
        Inr (sz, mtime) \<Rightarrow> current_version_from_stat file_id sz mtime s
      | Inl _ \<Rightarrow> current_version_from_stat file_id 0 0 s)"

definition get_lock :: "int \<Rightarrow> string \<Rightarrow> 'r office \<Rightarrow> LockInfo option" where
  "get_lock now file_id s =
     (case sql_first (\<lambda>l. ol_file_id l = file_id) (of_locks s) of
        None \<Rightarrow> None
      | Some l \<Rightarrow>
        if now \<ge> ol_expires_at l then None
        else Some \<lparr>lk_value = ol_lock_value l, lk_owner_user_id = ol_owner_user_id l, lk_expires_at = ol_expires_at l\<rparr>)"

definition acquire_lock :: "int \<Rightarrow> string \<Rightarrow> string \<Rightarrow> string \<Rightarrow> nat \<Rightarrow> int \<Rightarrow> 'r office \<Rightarrow> 'r office" where
  "acquire_lock now file_id lock_value owner_user_id sz mtime s =
     (let row = \<lparr>ol_file_id = file_id, ol_lock_value = lock_value, ol_owner_user_id = owner_user_id,
            ol_snapshot_size = sz, ol_snapshot_mtime = mtime, ol_created_at = now,
            ol_expires_at = now + LOCK_TTL_SECONDS\<rparr> in
      if file_id \<in> ol_file_id ` set (of_locks s)
      then s\<lparr>of_locks := sql_update (\<lambda>l. ol_file_id l = file_id) (\<lambda>_. row) (of_locks s)\<rparr>
      else s\<lparr>of_locks := of_locks s @ [row]\<rparr>)"

definition refresh_lock :: "int \<Rightarrow> string \<Rightarrow> 'r office \<Rightarrow> 'r office" where
  "refresh_lock now file_id s =
     s\<lparr>of_locks := sql_update (\<lambda>l. ol_file_id l = file_id)
        (\<lambda>l. l\<lparr>ol_expires_at := now + LOCK_TTL_SECONDS\<rparr>) (of_locks s)\<rparr>"

definition release_lock :: "string \<Rightarrow> 'r office \<Rightarrow> 'r office" where
  "release_lock file_id s = s\<lparr>of_locks := sql_delete (\<lambda>l. ol_file_id l = file_id) (of_locks s)\<rparr>"

definition lock_snapshot :: "string \<Rightarrow> 'r office \<Rightarrow> (nat \<times> int) option" where
  "lock_snapshot file_id s =
     map_option (\<lambda>l. (ol_snapshot_size l, ol_snapshot_mtime l)) (sql_first (\<lambda>l. ol_file_id l = file_id) (of_locks s))"

definition sweep_expired_locks :: "int \<Rightarrow> 'r office \<Rightarrow> nat \<times> 'r office" where
  "sweep_expired_locks now s =
     (sql_affected (\<lambda>l. ol_expires_at l \<le> now) (of_locks s),
      s\<lparr>of_locks := sql_delete (\<lambda>l. ol_expires_at l \<le> now) (of_locks s)\<rparr>)"

definition bump_generation :: "string \<Rightarrow> 'r office \<Rightarrow> 'r office" where
  "bump_generation file_id s =
     s\<lparr>of_files := sql_update (\<lambda>r. wf_id r = file_id) (\<lambda>r. r\<lparr>wf_generation := wf_generation r + 1\<rparr>) (of_files s)\<rparr>"

definition update_snapshot :: "string \<Rightarrow> nat \<Rightarrow> int \<Rightarrow> 'r office \<Rightarrow> 'r office" where
  "update_snapshot file_id sz mtime s =
     s\<lparr>of_locks := sql_update (\<lambda>l. ol_file_id l = file_id)
        (\<lambda>l. l\<lparr>ol_snapshot_size := sz, ol_snapshot_mtime := mtime\<rparr>) (of_locks s)\<rparr>"

section \<open>Saving a document\<close>

record wopi_headers =
  wh_override :: "string option"
  wh_lock :: "string option"

record wopi_response =
  wr_status :: nat
  wr_lock :: "string option"
  wr_body :: bytes

definition status_response :: "nat \<Rightarrow> wopi_response" where
  "status_response n = \<lparr>wr_status = n, wr_lock = None, wr_body = []\<rparr>"

definition conflict_response :: "string \<Rightarrow> wopi_response" where
  "conflict_response value = \<lparr>wr_status = 409, wr_lock = Some value, wr_body = []\<rparr>"

definition wopi_error_to_api :: "WopiError \<Rightarrow> ApiError" where
  "wopi_error_to_api e =
     (case e of
        NotAuthorized \<Rightarrow> forbidden
      | WopiNotFound \<Rightarrow> not_found ''file not found''
      | InvalidToken \<Rightarrow> unauthorized
      | TokenExpired \<Rightarrow> unauthorized
      | FileMismatch \<Rightarrow> unauthorized
      | WopiDatabase \<Rightarrow> internal_error (DetailText ''database'')
      | WopiIo t \<Rightarrow> internal_error (DetailText t))"

type_synonym body = "bytes option list" \<comment> \<open>the frames of a request; \<open>None\<close> is an error of the connection\<close>

definition put_bytes :: "string \<Rightarrow> bytes \<Rightarrow> int \<Rightarrow> documents \<Rightarrow> documents" where
  "put_bytes path b now docs =
     (case docs path of
        None \<Rightarrow> docs
      | Some d \<Rightarrow> docs(path \<mapsto> d\<lparr>doc_content := doc_content d @ b, doc_mtime := now\<rparr>))"

fun stream_chunks ::
    "('n, 'r) office_env \<Rightarrow> int \<Rightarrow> string \<Rightarrow> body \<Rightarrow> nat \<Rightarrow> documents \<Rightarrow> (ApiError + nat) \<times> documents" where
  "stream_chunks env now path [] written docs = (Inr written, docs)"
| "stream_chunks env now path (None # cs) written docs = (Inl (bad_request ''upload read error''), docs)"
| "stream_chunks env now path (Some chunk # cs) written docs =
     (if written + length chunk > MAX_OFFICE_FILE_BYTES
      then (Inl (bad_request ''file exceeds the configured Office size policy''), docs)
      else case oe_fault env (CallWrite path written) of
          Some (e, n) \<Rightarrow> (Inl (internal_error (DetailText e)), put_bytes path (take n chunk) now docs)
        | None \<Rightarrow> stream_chunks env now path cs (written + length chunk) (put_bytes path chunk now docs))"

definition stream_to_bounded_file ::
    "('n, 'r) office_env \<Rightarrow> int \<Rightarrow> string \<Rightarrow> body \<Rightarrow> documents \<Rightarrow> (ApiError + nat) \<times> documents" where
  "stream_to_bounded_file env now path body docs =
     (case oe_fault env (CallCreate path) of
        Some (e, _) \<Rightarrow> (Inl (internal_error (DetailText e)), docs)
      | None \<Rightarrow>
        (case stream_chunks env now path body 0 (docs(path \<mapsto> \<lparr>doc_content = [], doc_mtime = now, doc_mode = 420\<rparr>)) of
           (Inl e, docs') \<Rightarrow> (Inl e, docs')
         | (Inr written, docs') \<Rightarrow>
           (case oe_fault env (CallSync path) of
              Some (e, _) \<Rightarrow> (Inl (internal_error (DetailText e)), docs')
            | None \<Rightarrow> (Inr written, docs'))))"

definition remove_doc :: "('n, 'r) office_env \<Rightarrow> string \<Rightarrow> documents \<Rightarrow> documents" where
  "remove_doc env path docs = (if oe_fault env (CallRemove path) = None then docs(path := None) else docs)"

definition rename_doc :: "('n, 'r) office_env \<Rightarrow> string \<Rightarrow> string \<Rightarrow> documents \<Rightarrow> (string + unit) \<times> documents" where
  "rename_doc env a b docs =
     (case oe_fault env (CallRename a b) of
        Some (e, _) \<Rightarrow> (Inl e, docs)
      | None \<Rightarrow>
        (case docs a of
           None \<Rightarrow> (Inl ''not found'', docs)
         | Some d \<Rightarrow> (Inr (), docs(a := None, b \<mapsto> d))))"

definition set_doc_mode :: "('n, 'r) office_env \<Rightarrow> string \<Rightarrow> nat \<Rightarrow> documents \<Rightarrow> (string + unit) \<times> documents" where
  "set_doc_mode env path mode docs =
     (case oe_fault env (CallChmod path) of
        Some (e, _) \<Rightarrow> (Inl e, docs)
      | None \<Rightarrow>
        (case docs path of
           None \<Rightarrow> (Inl ''not found'', docs)
         | Some d \<Rightarrow> (Inr (), docs(path \<mapsto> d\<lparr>doc_mode := mode\<rparr>))))"

text \<open>The lock and the snapshot that a save of a document with content must match.\<close>

definition lock_check :: "int \<Rightarrow> string \<Rightarrow> wopi_headers \<Rightarrow> (WopiError + nat \<times> int) \<Rightarrow> 'r office \<Rightarrow> wopi_response option" where
  "lock_check now file_id headers live s =
     (let presented = (case wh_lock headers of None \<Rightarrow> [] | Some v \<Rightarrow> v) in
      case get_lock now file_id s of
        None \<Rightarrow> Some (status_response 409)
      | Some l \<Rightarrow>
        if lk_value l \<noteq> presented then Some (conflict_response (lk_value l))
        else
          (case lock_snapshot file_id s of
             None \<Rightarrow> None
           | Some snap \<Rightarrow>
             (case live of
                Inl _ \<Rightarrow> None
              | Inr st \<Rightarrow> if st \<noteq> snap then Some (status_response 409) else None)))"

text \<open>The temporary file takes the place of the document.\<close>

definition replace_document ::
    "('n, 'r) office_env \<Rightarrow> int \<Rightarrow> string \<Rightarrow> string \<Rightarrow> body \<Rightarrow> documents \<Rightarrow> (ApiError + unit) \<times> documents" where
  "replace_document env now tmp path body docs =
     (case stream_to_bounded_file env now tmp body docs of
        (Inl e, docs1) \<Rightarrow> (Inl e, remove_doc env tmp docs1)
      | (Inr _, docs1) \<Rightarrow>
        (case (case docs1 path of None \<Rightarrow> (Inr (), docs1) | Some d \<Rightarrow> set_doc_mode env tmp (doc_mode d) docs1) of
           (Inl e, docs2) \<Rightarrow> (Inl (internal_error (DetailText e)), remove_doc env tmp docs2)
         | (Inr _, docs2) \<Rightarrow>
           (case rename_doc env tmp path docs2 of
              (Inl e, docs3) \<Rightarrow> (Inl (internal_error (DetailText e)), remove_doc env tmp docs3)
            | (Inr _, docs3) \<Rightarrow> (Inr (), docs3))))"

definition put_local ::
    "('n, 'r) office_env \<Rightarrow> int \<Rightarrow> string \<Rightarrow> string \<Rightarrow> string \<Rightarrow> wopi_headers \<Rightarrow> body \<Rightarrow> 'r office \<Rightarrow> (ApiError + wopi_response) \<times> 'r office" where
  "put_local env now tmp file_id path headers body s =
     (let existing_size = (case of_docs s path of None \<Rightarrow> 0 | Some d \<Rightarrow> length (doc_content d)) in
      case (if existing_size > 0 then lock_check now file_id headers (stat_snapshot path s) s else None) of
        Some response \<Rightarrow> (Inr response, s)
      | None \<Rightarrow>
        if path_components path = [] then (Inl (internal_error (DetailText ''file has no parent directory'')), s)
        else
          (case replace_document env now tmp path body (of_docs s) of
             (Inl e, docs) \<Rightarrow> (Inl e, s\<lparr>of_docs := docs\<rparr>)
           | (Inr _, docs) \<Rightarrow>
             let s1 = bump_generation file_id (s\<lparr>of_docs := docs\<rparr>) in
             (Inr (status_response 200),
              case stat_snapshot path s1 of Inl _ \<Rightarrow> s1 | Inr (sz, mtime) \<Rightarrow> update_snapshot file_id sz mtime s1)))"

fun collect_bounded_body :: "body \<Rightarrow> bytes \<Rightarrow> ApiError + bytes" where
  "collect_bounded_body [] buffer = Inr buffer"
| "collect_bounded_body (None # cs) buffer = Inl (bad_request ''upload read error'')"
| "collect_bounded_body (Some chunk # cs) buffer =
     (if length (buffer @ chunk) > MAX_OFFICE_FILE_BYTES
      then Inl (bad_request ''file exceeds the configured Office size policy'')
      else collect_bounded_body cs (buffer @ chunk))"

definition write_safely ::
    "('n, 'r) office_env \<Rightarrow> string \<Rightarrow> string \<Rightarrow> string \<Rightarrow> string \<Rightarrow> bytes \<Rightarrow> 'r \<Rightarrow> (WopiError + unit) \<times> 'r" where
  "write_safely env mark owner server_id remote_path content r =
     (let ops = oe_remote env; tmp = remote_path @ ''.cloudesk-office-'' @ mark @ ''.tmp'' in
      case r_connect ops owner server_id r of
        Some e \<Rightarrow> (Inl (WopiIo e), r)
      | None \<Rightarrow>
        (case r_write ops server_id tmp content r of
           (Inl e, r1) \<Rightarrow> (Inl (WopiIo e), r1)
         | (Inr _, r1) \<Rightarrow>
           (case r_rename ops server_id tmp remote_path r1 of
              (Inr _, r2) \<Rightarrow> (Inr (), r2)
            | (Inl _, r2) \<Rightarrow>
              (case r_trash ops server_id remote_path r2 of
                 (Inl e, r3) \<Rightarrow> (Inl (WopiIo e), snd (r_trash ops server_id tmp r3))
               | (Inr _, r3) \<Rightarrow>
                 (case r_rename ops server_id tmp remote_path r3 of
                    (Inr _, r4) \<Rightarrow> (Inr (), r4)
                  | (Inl e, r4) \<Rightarrow> (Inl (WopiIo e), snd (r_trash ops server_id tmp r4)))))))"

definition put_file_remote ::
    "('n, 'r) office_env \<Rightarrow> int \<Rightarrow> string \<Rightarrow> string \<Rightarrow> VerifiedToken \<Rightarrow> string \<Rightarrow> wopi_headers \<Rightarrow> body \<Rightarrow> 'r office \<Rightarrow>
     (ApiError + wopi_response) \<times> 'r office" where
  "put_file_remote env now mark file_id v server_id headers body s =
     (let stat = (\<lambda>s. r_stat (oe_remote env) (vt_user_id v) server_id (vt_canonical_path v) (of_remote s));
          live = (case stat s of Inl e \<Rightarrow> Inl (WopiIo e) | Inr x \<Rightarrow> Inr x) in
      case (case stat s of
              Inr (existing_size, _) \<Rightarrow> if existing_size > 0 then lock_check now file_id headers live s else None
            | Inl _ \<Rightarrow> None) of
        Some response \<Rightarrow> (Inr response, s)
      | None \<Rightarrow>
        (case collect_bounded_body body [] of
           Inl e \<Rightarrow> (Inl e, s)
         | Inr content \<Rightarrow>
           (case write_safely env mark (vt_user_id v) server_id (vt_canonical_path v) content (of_remote s) of
              (Inl e, r) \<Rightarrow>
                (Inr (status_response (api_status (wopi_error_to_api e))), s\<lparr>of_remote := r\<rparr>)
            | (Inr _, r) \<Rightarrow>
              let s1 = bump_generation file_id (s\<lparr>of_remote := r\<rparr>) in
              (Inr (status_response 200),
               case stat s1 of Inl _ \<Rightarrow> s1 | Inr (sz, mtime) \<Rightarrow> update_snapshot file_id sz mtime s1))))"

text \<open>\<open>now_lock\<close> is the time at which the lock is read, \<open>now_write\<close> the time of the write.\<close>

definition put_file ::
    "('n, 'r) office_env \<Rightarrow> int \<Rightarrow> int \<Rightarrow> string \<Rightarrow> string \<Rightarrow> string \<Rightarrow> wopi_headers \<Rightarrow> body \<Rightarrow> 'r office \<Rightarrow>
     (ApiError + wopi_response) \<times> 'r office" where
  "put_file env now_token now tmp file_id access_token headers body s =
     (case verify_token env now_token access_token (Some file_id) s of
        Inl e \<Rightarrow> (Inl (wopi_error_to_api e), s)
      | Inr v \<Rightarrow>
        if \<not> vt_read_write v then (Inr (status_response 403), s)
        else case vt_remote_server_id v of
            Some server_id \<Rightarrow> put_file_remote env now tmp file_id v server_id headers body s
          | None \<Rightarrow> put_local env now tmp file_id (vt_canonical_path v) headers body s)"

section \<open>Reading a document\<close>

definition get_file ::
    "('n, 'r) office_env \<Rightarrow> int \<Rightarrow> string \<Rightarrow> string \<Rightarrow> 'r office \<Rightarrow> ApiError + wopi_response" where
  "get_file env now file_id access_token s =
     (case verify_token env now access_token (Some file_id) s of
        Inl e \<Rightarrow> Inl (wopi_error_to_api e)
      | Inr v \<Rightarrow>
        (case vt_remote_server_id v of
           Some server_id \<Rightarrow>
             (case r_read (oe_remote env) (vt_user_id v) server_id (vt_canonical_path v) MAX_OFFICE_FILE_BYTES (of_remote s) of
                Inl _ \<Rightarrow> Inl (not_found ''file not found'')
              | Inr b \<Rightarrow> Inr \<lparr>wr_status = 200, wr_lock = None, wr_body = b\<rparr>)
         | None \<Rightarrow>
             (case of_docs s (vt_canonical_path v) of
                None \<Rightarrow> Inl (not_found ''file not found'')
              | Some d \<Rightarrow> Inr \<lparr>wr_status = 200, wr_lock = None, wr_body = doc_content d\<rparr>)))"

record file_info =
  fi_base_file_name :: string
  fi_size :: nat
  fi_version :: "int \<times> nat \<times> int"
  fi_owner_id :: string
  fi_user_can_write :: bool
  fi_read_only :: bool

definition check_file_info ::
    "('n, 'r) office_env \<Rightarrow> int \<Rightarrow> string \<Rightarrow> string \<Rightarrow> 'r office \<Rightarrow> ApiError + file_info" where
  "check_file_info env now file_id access_token s =
     (case verify_token env now access_token (Some file_id) s of
        Inl e \<Rightarrow> Inl (wopi_error_to_api e)
      | Inr v \<Rightarrow>
        let stat = (case vt_remote_server_id v of
              Some server_id \<Rightarrow> r_stat (oe_remote env) (vt_user_id v) server_id (vt_canonical_path v) (of_remote s)
            | None \<Rightarrow>
                (case stat_snapshot (vt_canonical_path v) s of Inl _ \<Rightarrow> Inl [] | Inr x \<Rightarrow> Inr x)) in
        case stat of
          Inl _ \<Rightarrow> Inl (not_found ''file not found'')
        | Inr (sz, mtime) \<Rightarrow>
          (case current_version_from_stat file_id sz mtime s of
             Inl e \<Rightarrow> Inl (wopi_error_to_api e)
           | Inr version \<Rightarrow>
             Inr \<lparr>fi_base_file_name = (case path_file_name (vt_canonical_path v) of None \<Rightarrow> [] | Some n \<Rightarrow> n),
               fi_size = sz, fi_version = version, fi_owner_id = vt_user_id v, fi_user_can_write = vt_read_write v,
               fi_read_only = (\<not> vt_read_write v)\<rparr>))"

section \<open>Lock operations\<close>

definition current_stat :: "('n, 'r) office_env \<Rightarrow> VerifiedToken \<Rightarrow> 'r office \<Rightarrow> nat \<times> int" where
  "current_stat env v s =
     (case vt_remote_server_id v of
        Some server_id \<Rightarrow>
          (case r_stat (oe_remote env) (vt_user_id v) server_id (vt_canonical_path v) (of_remote s) of
             Inl _ \<Rightarrow> (0, 0) | Inr x \<Rightarrow> x)
      | None \<Rightarrow> (case stat_snapshot (vt_canonical_path v) s of Inl _ \<Rightarrow> (0, 0) | Inr x \<Rightarrow> x))"

definition lock_operation ::
    "('n, 'r) office_env \<Rightarrow> int \<Rightarrow> string \<Rightarrow> VerifiedToken \<Rightarrow> string \<Rightarrow> string \<Rightarrow> 'r office \<Rightarrow> wopi_response \<times> 'r office" where
  "lock_operation env now file_id v override presented s =
     (let current = get_lock now file_id s in
      if override = ''LOCK'' then
        (if \<not> vt_read_write v then (status_response 403, s)
         else case current of
             None \<Rightarrow>
               (case current_stat env v s of
                  (sz, mtime) \<Rightarrow> (status_response 200, acquire_lock now file_id presented (vt_user_id v) sz mtime s))
           | Some l \<Rightarrow>
               if lk_value l = presented then (status_response 200, refresh_lock now file_id s)
               else (conflict_response (lk_value l), s))
      else if override = ''REFRESH_LOCK'' then
        (case current of
           Some l \<Rightarrow>
             if lk_value l = presented then (status_response 200, refresh_lock now file_id s)
             else (conflict_response (lk_value l), s)
         | None \<Rightarrow> (status_response 404, s))
      else if override = ''UNLOCK'' then
        (case current of
           Some l \<Rightarrow>
             if lk_value l = presented then (status_response 200, release_lock file_id s)
             else (conflict_response (lk_value l), s)
         | None \<Rightarrow> (status_response 409, s))
      else if override = ''GET_LOCK'' then
        (\<lparr>wr_status = 200, wr_lock = Some (case current of None \<Rightarrow> [] | Some l \<Rightarrow> lk_value l), wr_body = []\<rparr>, s)
      else if override = ''RENAME_FILE'' then (status_response 501, s)
      else (status_response 400, s))"

definition file_operation ::
    "('n, 'r) office_env \<Rightarrow> int \<Rightarrow> int \<Rightarrow> string \<Rightarrow> string \<Rightarrow> wopi_headers \<Rightarrow> 'r office \<Rightarrow> (ApiError + wopi_response) \<times> 'r office" where
  "file_operation env now_token now file_id access_token headers s =
     (case verify_token env now_token access_token (Some file_id) s of
        Inl e \<Rightarrow> (Inl (wopi_error_to_api e), s)
      | Inr v \<Rightarrow>
        (case wh_override headers of
           None \<Rightarrow> (Inr (status_response 400), s)
         | Some override \<Rightarrow>
           let presented = (case wh_lock headers of None \<Rightarrow> [] | Some x \<Rightarrow> x) in
           if length presented > MAX_WOPI_LOCK_BYTES then (Inr (status_response 400), s)
           else (case lock_operation env now file_id v override presented s of (r, s') \<Rightarrow> (Inr r, s'))))"

end
