(* ===== verification/Office_Properties.thy ===== *)
theory Office_Properties
  imports Office Privd_Properties Auth_Properties
begin

text \<open>
  What the WOPI host guarantees: a token is worth what its user is authorised to at the moment of the call, a document
  is replaced as a whole or not at all, and a lock lasts until its value is presented for its release or its time
  is over.
\<close>

section \<open>Authorisation\<close>

text \<open>The roots that contain a path: the home, which may be written, and the assigned roots of the user.\<close>

definition containing_roots :: "string \<Rightarrow> string \<Rightarrow> string \<Rightarrow> auth_db \<Rightarrow> (nat \<times> bool) set" where
  "containing_roots user_id home path db =
     (if path_starts_with path home then {(length home, True)} else {}) \<union>
     {(length (ar_path r), ar_access_mode r = access_str RootReadWrite) |r.
        r \<in> set (db_roots db) \<and> ar_user_id r = user_id \<and> path_starts_with path (ar_path r)}"

definition is_most_specific :: "(nat \<times> bool) set \<Rightarrow> (nat \<times> bool) option \<Rightarrow> bool" where
  "is_most_specific S best \<longleftrightarrow>
     (case best of None \<Rightarrow> S = {} | Some b \<Rightarrow> b \<in> S \<and> (\<forall>c\<in>S. fst c \<le> fst b))"

definition root_candidate :: "SessionPrincipal \<Rightarrow> auth_db \<Rightarrow> string \<Rightarrow> AssignedRootSummary \<Rightarrow> (nat \<times> bool) set" where
  "root_candidate p db path root =
     (case resolve_own_assigned_root p (ars_id root) db of
        Inl _ \<Rightarrow> {}
      | Inr res \<Rightarrow> if path_starts_with path (rar_path res) then {(length (rar_path res), rar_read_write res)} else {})"

lemma best_root_most_specific:
  "is_most_specific S best \<Longrightarrow>
    is_most_specific (S \<union> (\<Union>root\<in>set roots. root_candidate p db path root)) (best_root p db path roots best)"
proof (induction roots arbitrary: S best)
  case (Cons root roots)
  let ?best = "case resolve_own_assigned_root p (ars_id root) db of Inl _ \<Rightarrow> best
    | Inr res \<Rightarrow> if path_starts_with path (rar_path res) \<and>
        (case best of None \<Rightarrow> True | Some (l, _) \<Rightarrow> length (rar_path res) > l)
        then Some (length (rar_path res), rar_read_write res) else best"
  have "is_most_specific (S \<union> root_candidate p db path root) ?best"
    using Cons.prems
    by (cases "resolve_own_assigned_root p (ars_id root) db"; cases best)
      (auto simp: is_most_specific_def root_candidate_def not_less split: if_splits)
  from Cons.IH [OF this] show ?case
    by (cases "resolve_own_assigned_root p (ars_id root) db") (simp_all add: Un_assoc)
qed simp

lemma sql_first_key:
  "distinct (map k t) \<Longrightarrow> r \<in> set t \<Longrightarrow> sql_first (\<lambda>x. k x = k r \<and> P x) t = (if P r then Some r else None)"
  by (induction t) (auto simp: sql_first_def find_None_iff image_iff split: if_splits)

lemma root_candidates:
  assumes "distinct (map ar_root_id (db_roots db))"
  shows "(\<Union>root\<in>set (map (\<lambda>r. \<lparr>ars_id = ar_root_id r, ars_label = l r, ars_read_write = b r\<rparr>)
        (sort_key k (filter (\<lambda>r. ar_user_id r = sp_user_id p) (db_roots db)))). root_candidate p db path root) =
    {(length (ar_path r), ar_access_mode r = access_str RootReadWrite) |r.
        r \<in> set (db_roots db) \<and> ar_user_id r = sp_user_id p \<and> path_starts_with path (ar_path r)}"
proof -
  have "resolve_own_assigned_root p (ar_root_id r) db = Inr \<lparr>rar_id = ar_root_id r, rar_path = ar_path r,
      rar_read_write = (ar_access_mode r = access_str RootReadWrite)\<rparr>"
    if "r \<in> set (db_roots db)" "ar_user_id r = sp_user_id p" for r
    using sql_first_key [OF assms that(1), of "\<lambda>x. ar_user_id x = sp_user_id p"] that(2)
    by (simp add: resolve_own_assigned_root_def resolve_assigned_root_for_user_def)
  then show ?thesis by (auto simp: root_candidate_def split: if_splits)
qed

lemma authorize_path_most_specific:
  assumes "distinct (map ar_root_id (db_roots db))"
  shows "\<exists>best. authorize_path p home path db = Inr (map_option snd best) \<and>
    is_most_specific (containing_roots (sp_user_id p) home path db) best"
proof -
  let ?start = "if path_starts_with path home then Some (length home, True) else None"
  let ?S = "(if path_starts_with path home then {(length home, True)} else {})"
  have "is_most_specific ?S ?start" by (auto simp: is_most_specific_def)
  moreover obtain roots where roots: "list_own_assigned_roots p db = Inr roots"
    and "(\<Union>root\<in>set roots. root_candidate p db path root) =
      {(length (ar_path r), ar_access_mode r = access_str RootReadWrite) |r.
        r \<in> set (db_roots db) \<and> ar_user_id r = sp_user_id p \<and> path_starts_with path (ar_path r)}"
    using root_candidates [OF assms] by (simp add: list_own_assigned_roots_def)
  ultimately have "is_most_specific (containing_roots (sp_user_id p) home path db) (best_root p db path roots ?start)"
    using best_root_most_specific [where S = ?S and best = ?start and roots = roots and p = p and db = db and path = path] by (simp add: containing_roots_def)
  with roots show ?thesis by (auto simp: authorize_path_def)
qed

text \<open>
  (C25) A token of the office integration is worth what its user is authorised to at the moment of the call. A token that
  is accepted is on record, has not expired and belongs to the document it is presented for. For a local document
  its user has an account, and some root of the user, the home or one that is assigned to them now, contains the
  document; the token may write exactly if the most specific of these roots may be written, whatever was recorded when
  the token was issued. Without such a root every call is refused. For a document on a remote server the user owns
  that connection now.
\<close>

theorem wopi_token_reauthorised:
  assumes "distinct (map ar_root_id (db_roots (of_db s)))"
  shows "verify_token env now tok (Some f) s = Inr v \<Longrightarrow>
    vt_file_id v = f \<and>
    (\<exists>t\<in>set (of_tokens s). wt_token_hash t = hash_token env tok \<and> now < wt_expires_at t \<and> wt_file_id t = f \<and>
       vt_user_id v = wt_user_id t) \<and>
    (\<exists>r\<in>set (of_files s). wf_id r = f \<and> vt_canonical_path v = wf_canonical_path r \<and>
       vt_remote_server_id v = wf_remote_server_id r) \<and>
    (case vt_remote_server_id v of
       Some server \<Rightarrow> r_get (oe_remote env) (vt_user_id v) server (of_remote s)
     | None \<Rightarrow> \<exists>i b. token_identity env (vt_user_id v) s = Inr i \<and>
         is_most_specific (containing_roots (vt_user_id v) (li_home i) (vt_canonical_path v) (of_db s))
           (Some (b, vt_read_write v)))"
proof -
  assume "verify_token env now tok (Some f) s = Inr v"
  then obtain t r where t: "sql_first (\<lambda>t. wt_token_hash t = hash_token env tok) (of_tokens s) = Some t"
      "now < wt_expires_at t" "wt_file_id t = f"
      "sql_first (\<lambda>r. wf_id r = f) (of_files s) = Some r"
    and v: "(case wf_remote_server_id r of
         Some server_id \<Rightarrow>
           if \<not> r_get (oe_remote env) (wt_user_id t) server_id (of_remote s) then Inl NotAuthorized
           else Inr \<lparr>vt_user_id = wt_user_id t, vt_file_id = f, vt_canonical_path = wf_canonical_path r,
             vt_read_write = True, vt_remote_server_id = Some server_id\<rparr>
       | None \<Rightarrow>
           res_bind (token_identity env (wt_user_id t) s) (\<lambda>identity.
           res_bind (authorize_path (synthetic_principal (wt_user_id t)) (li_home identity)
             (wf_canonical_path r) (of_db s)) (\<lambda>allowed.
           res_bind (res_of_option NotAuthorized allowed) (\<lambda>read_write.
             Inr \<lparr>vt_user_id = wt_user_id t, vt_file_id = f, vt_canonical_path = wf_canonical_path r,
               vt_read_write = read_write, vt_remote_server_id = None\<rparr>)))) = Inr v"
    by (auto simp: verify_token_def lookup_file_def res_bind_ok res_of_option_ok cong: option.case_cong if_cong split: if_splits)
  have tr: "t \<in> set (of_tokens s)" "wt_token_hash t = hash_token env tok" "r \<in> set (of_files s)" "wf_id r = f"
    using t sql_first_Some by fastforce+
  show ?thesis
  proof (cases "wf_remote_server_id r")
    case (Some server)
    with v tr t show ?thesis by (auto split: if_splits)
  next
    case None
    with v obtain i where i: "token_identity env (wt_user_id t) s = Inr i"
        "authorize_path (synthetic_principal (wt_user_id t)) (li_home i) (wf_canonical_path r) (of_db s) =
          Inr (Some (vt_read_write v))"
        "v = \<lparr>vt_user_id = wt_user_id t, vt_file_id = f, vt_canonical_path = wf_canonical_path r,
          vt_read_write = vt_read_write v, vt_remote_server_id = None\<rparr>"
      by (auto simp: res_bind_ok res_of_option_ok)
    have "\<exists>b. is_most_specific (containing_roots (wt_user_id t) (li_home i) (wf_canonical_path r) (of_db s))
        (Some (b, vt_read_write v))"
    proof -
      from authorize_path_most_specific [OF assms, of "synthetic_principal (wt_user_id t)" "li_home i" "wf_canonical_path r"] i(2)
      obtain best where "is_most_specific (containing_roots (wt_user_id t) (li_home i) (wf_canonical_path r) (of_db s)) best"
          "Some (vt_read_write v) = map_option snd best"
        by (auto simp: synthetic_principal_def)
      then show ?thesis by (cases best) auto
    qed
    moreover have "vt_user_id v = wt_user_id t" "vt_canonical_path v = wf_canonical_path r" "vt_file_id v = f"
        "vt_remote_server_id v = None"
      by (subst i(3), simp)+
    ultimately show ?thesis using i(1) tr t None by auto
  qed
qed

section \<open>Saving\<close>

lemma put_bytes_other [simp]: "q \<noteq> path \<Longrightarrow> put_bytes path b now docs q = docs q"
  by (auto simp: put_bytes_def split: option.splits)

lemma stream_chunks_other: "q \<noteq> path \<Longrightarrow> snd (stream_chunks env now path body w docs) q = docs q"
  by (induction env now path body w docs rule: stream_chunks.induct) (auto split: option.splits)

lemma stream_chunks_ok:
  assumes "stream_chunks env now path body w docs = (Inr n, docs')" "docs path = Some d" "doc_mtime d = now" "w \<le> MAX_OFFICE_FILE_BYTES"
  shows "None \<notin> set body \<and> n = w + length (concat (map the body)) \<and> n \<le> MAX_OFFICE_FILE_BYTES \<and>
    docs' path = Some (d\<lparr>doc_content := doc_content d @ concat (map the body)\<rparr>)"
  using assms
proof (induction env now path body w docs arbitrary: d rule: stream_chunks.induct)
  case (3 env now path chunk cs written docs)
  then have f: "written + length chunk \<le> MAX_OFFICE_FILE_BYTES" "oe_fault env (CallWrite path written) = None"
      "stream_chunks env now path cs (written + length chunk) (put_bytes path chunk now docs) = (Inr n, docs')"
    by (auto split: if_splits option.splits)
  have "put_bytes path chunk now docs path = Some (d\<lparr>doc_content := doc_content d @ chunk\<rparr>)"
    using "3.prems"(2,3) by (auto simp: put_bytes_def)
  from "3.IH" [OF _ f(2,3) this] f(1) "3.prems"(3) show ?case by auto
qed auto

lemma stream_to_bounded_file_cases:
  assumes "stream_to_bounded_file env now tmp body docs = (r, docs')"
  shows "q \<noteq> tmp \<Longrightarrow> docs' q = docs q"
    and "r = Inr n \<Longrightarrow> None \<notin> set body \<and> n = length (concat (map the body)) \<and> n \<le> MAX_OFFICE_FILE_BYTES \<and>
      docs' tmp = Some \<lparr>doc_content = concat (map the body), doc_mtime = now, doc_mode = 420\<rparr>"
proof -
  let ?d = "docs(tmp \<mapsto> \<lparr>doc_content = [], doc_mtime = now, doc_mode = 420\<rparr>)"
  obtain x docs1 where x: "stream_chunks env now tmp body 0 ?d = (x, docs1)" by fastforce
  show "docs' q = docs q" if "q \<noteq> tmp"
    using assms x stream_chunks_other [OF that, of env now body 0 ?d] that
    by (auto simp: stream_to_bounded_file_def split: option.splits sum.splits)
  show "None \<notin> set body \<and> n = length (concat (map the body)) \<and> n \<le> MAX_OFFICE_FILE_BYTES \<and>
      docs' tmp = Some \<lparr>doc_content = concat (map the body), doc_mtime = now, doc_mode = 420\<rparr>" if "r = Inr n"
  proof -
    from assms x that have "x = Inr n" "docs' = docs1"
      by (auto simp: stream_to_bounded_file_def split: option.splits sum.splits)
    with stream_chunks_ok [of env now tmp body 0 ?d n docs1] x show ?thesis by auto
  qed
qed

lemma remove_doc_at: "remove_doc env tmp docs q = (if q = tmp \<and> oe_fault env (CallRemove tmp) = None then None else docs q)"
  by (simp add: remove_doc_def)

lemma replace_document_cases:
  assumes "replace_document env now tmp path body docs = (r, docs')" "tmp \<noteq> path"
  shows "q \<noteq> tmp \<Longrightarrow> q \<noteq> path \<Longrightarrow> docs' q = docs q"
    and "r = Inl e \<Longrightarrow> docs' path = docs path"
    and "r = Inr u \<Longrightarrow> None \<notin> set body \<and> length (concat (map the body)) \<le> MAX_OFFICE_FILE_BYTES \<and> docs' tmp = None \<and>
      docs' path = Some \<lparr>doc_content = concat (map the body), doc_mtime = now,
        doc_mode = (case docs path of None \<Rightarrow> 420 | Some d \<Rightarrow> doc_mode d)\<rparr>"
    and "r = Inl e \<Longrightarrow> oe_fault env (CallRemove tmp) = None \<Longrightarrow> docs' tmp = None"
proof -
  obtain x docs1 where x: "stream_to_bounded_file env now tmp body docs = (x, docs1)" by fastforce
  note st = stream_to_bounded_file_cases [OF x]
  have p: "docs1 path = docs path" using st(1) assms(2) by metis
  show "docs' q = docs q" if "q \<noteq> tmp" "q \<noteq> path"
    using assms(1) x st(1) [OF that(1)] that
    by (auto simp: replace_document_def remove_doc_at set_doc_mode_def rename_doc_def split: sum.splits option.splits prod.splits)
  show "docs' path = docs path" if "r = Inl e"
    using assms x p that
    by (auto simp: replace_document_def remove_doc_at set_doc_mode_def rename_doc_def split: sum.splits option.splits prod.splits)
  show "docs' tmp = None" if "r = Inl e" "oe_fault env (CallRemove tmp) = None"
    using assms x that
    by (auto simp: replace_document_def remove_doc_at split: sum.splits option.splits prod.splits)
  show "None \<notin> set body \<and> length (concat (map the body)) \<le> MAX_OFFICE_FILE_BYTES \<and> docs' tmp = None \<and>
      docs' path = Some \<lparr>doc_content = concat (map the body), doc_mtime = now,
        doc_mode = (case docs path of None \<Rightarrow> 420 | Some d \<Rightarrow> doc_mode d)\<rparr>" if "r = Inr u"
  proof -
    from assms(1) x that obtain n where n: "x = Inr n" by (auto simp: replace_document_def split: sum.splits)
    with assms x p that st(2) [OF n] show ?thesis
      by (auto simp: replace_document_def set_doc_mode_def rename_doc_def split: sum.splits option.splits prod.splits if_splits)
  qed
qed

lemma office_steps_docs [simp]:
  "of_docs (bump_generation f s) = of_docs s" "of_docs (update_snapshot f n m s) = of_docs s"
  "of_locks (bump_generation f s) = of_locks s"
  by (simp_all add: bump_generation_def update_snapshot_def)

lemma lock_check_refuses: "lock_check now f h live s = Some r \<Longrightarrow> wr_status r = 409"
  by (auto simp: lock_check_def Let_def status_response_def conflict_response_def split: option.splits sum.splits if_splits)

lemma put_local_cases:
  assumes "put_local env now tmp f path h body s = (r, s')"
  obtains (refused) e where "r = Inr e" "wr_status e = 409" "s' = s"
    | (failed) e where "r = Inl e" "of_locks s' = of_locks s"
        "replace_document env now tmp path body (of_docs s) = (Inl e, of_docs s') \<or> of_docs s' = of_docs s"
    | (saved) docs where "r = Inr (status_response 200)" "of_docs s' = docs"
        "replace_document env now tmp path body (of_docs s) = (Inr (), docs)"
        "of_locks s' = (case docs path of None \<Rightarrow> of_locks s
          | Some d \<Rightarrow> of_locks (update_snapshot f (length (doc_content d)) (doc_mtime d) s))"
  using assms
  by (auto simp: put_local_def Let_def stat_snapshot_def update_snapshot_def split: option.splits sum.splits if_splits prod.splits
      dest: lock_check_refuses)


section \<open>Locks\<close>

text \<open>Everything that happens to the host, at one time each.\<close>

datatype office_op =
    OpWopi string string wopi_headers \<comment> \<open>file, token\<close>
  | OpPut string string string wopi_headers body \<comment> \<open>temporary file, file, token\<close>
  | OpSweep
  | OpIssue string string string bool string
  | OpRegister string SessionPrincipal string string
  | OpRegisterRemote string string string string

fun office_do :: "('n, 'r) office_env \<Rightarrow> int \<Rightarrow> office_op \<Rightarrow> 'r office \<Rightarrow> 'r office" where
  "office_do env now (OpWopi f tok h) s = snd (file_operation env now now f tok h s)"
| "office_do env now (OpPut tmp f tok h body) s = snd (put_file env now now tmp f tok h body s)"
| "office_do env now OpSweep s = snd (sweep_expired_locks now s)"
| "office_do env now (OpIssue raw user f rw inst) s = snd (issue_token env raw now user f rw inst s)"
| "office_do env now (OpRegister fresh p home path) s = snd (resolve_and_register_file env fresh now p home path s)"
| "office_do env now (OpRegisterRemote fresh owner server path) s =
     snd (resolve_and_register_remote_file env fresh now owner server path s)"

fun office_run :: "('n, 'r) office_env \<Rightarrow> (int \<times> office_op) list \<Rightarrow> 'r office \<Rightarrow> 'r office" where
  "office_run env [] s = s"
| "office_run env ((now, op) # ops) s = office_run env ops (office_do env now op s)"

definition lock_header :: "wopi_headers \<Rightarrow> string" where
  "lock_header h = (case wh_lock h of None \<Rightarrow> [] | Some v \<Rightarrow> v)"

definition releases :: "string \<Rightarrow> string \<Rightarrow> office_op \<Rightarrow> bool" where
  "releases v f op \<longleftrightarrow>
     (case op of OpWopi g _ h \<Rightarrow> g = f \<and> wh_override h = Some ''UNLOCK'' \<and> lock_header h = v | _ \<Rightarrow> False)"

definition held :: "string \<Rightarrow> string \<Rightarrow> int \<Rightarrow> 'r office \<Rightarrow> bool" where
  "held f v e s \<longleftrightarrow>
     (\<exists>row. sql_first (\<lambda>l. ol_file_id l = f) (of_locks s) = Some row \<and> ol_lock_value row = v \<and> e \<le> ol_expires_at row)"

lemma held_get_lock: "held f v e s \<Longrightarrow> now < e \<Longrightarrow> \<exists>l. get_lock now f s = Some l \<and> lk_value l = v"
  by (auto simp: held_def get_lock_def)

lemma sql_first_update_on:
  assumes "\<And>r. P r \<Longrightarrow> key (f r) = key r"
  shows "sql_first (\<lambda>r. key r = k) (sql_update P f t) =
    map_option (\<lambda>r. if P r then f r else r) (sql_first (\<lambda>r. key r = k) t)"
  using assms by (induction t) (auto simp: sql_first_def sql_update_def)

lemma held_update:
  assumes "held f v e s" "of_locks s' = sql_update P u (of_locks s)"
    and "\<And>l. P l \<Longrightarrow> ol_file_id (u l) = ol_file_id l"
    and "\<And>l. P l \<Longrightarrow> ol_file_id l = f \<Longrightarrow> ol_lock_value l = v \<Longrightarrow> e \<le> ol_expires_at l \<Longrightarrow>
      ol_lock_value (u l) = v \<and> e \<le> ol_expires_at (u l)"
  shows "held f v e s'"
proof -
  obtain row where row: "sql_first (\<lambda>l. ol_file_id l = f) (of_locks s) = Some row" "ol_lock_value row = v" "e \<le> ol_expires_at row"
    using assms(1) by (auto simp: held_def)
  then have "ol_file_id row = f" using sql_first_Some by fastforce
  with row assms(2,4) show ?thesis
    by (auto simp: held_def sql_first_update_on [where key = ol_file_id, OF assms(3)])
qed

lemma sql_first_delete: "sql_first P t = Some r \<Longrightarrow> \<not> Q r \<Longrightarrow> sql_first P (sql_delete Q t) = Some r"
  by (induction t) (auto simp: sql_first_def sql_delete_def split: if_splits)

lemma held_delete:
  assumes "held f v e s" "of_locks s' = sql_delete P (of_locks s)"
    and "\<And>l. ol_file_id l = f \<Longrightarrow> ol_lock_value l = v \<Longrightarrow> e \<le> ol_expires_at l \<Longrightarrow> \<not> P l"
  shows "held f v e s'"
proof -
  obtain row where row: "sql_first (\<lambda>l. ol_file_id l = f) (of_locks s) = Some row" "ol_lock_value row = v" "e \<le> ol_expires_at row"
    using assms(1) by (auto simp: held_def)
  then have "ol_file_id row = f" using sql_first_Some by fastforce
  with row assms(3) have "sql_first (\<lambda>l. ol_file_id l = f) (of_locks s') = Some row"
    unfolding assms(2) by (intro sql_first_delete) auto
  with row show ?thesis by (auto simp: held_def)
qed

lemma held_acquire:
  assumes "held f v e s" "g \<noteq> f"
  shows "held f v e (acquire_lock now g w owner sz mtime s)"
proof (cases "g \<in> ol_file_id ` set (of_locks s)")
  case True
  let ?row = "\<lparr>ol_file_id = g, ol_lock_value = w, ol_owner_user_id = owner, ol_snapshot_size = sz,
    ol_snapshot_mtime = mtime, ol_created_at = now, ol_expires_at = now + LOCK_TTL_SECONDS\<rparr>"
  from True show ?thesis
    by (intro held_update [OF assms(1), of _ "\<lambda>l. ol_file_id l = g" "\<lambda>_. ?row"])
      (use assms(2) in \<open>auto simp: acquire_lock_def Let_def\<close>)
next
  case False
  with assms(1) show ?thesis by (auto simp: acquire_lock_def held_def sql_first_append)
qed

lemma lock_operation_held:
  assumes "lock_operation env now g v override presented s = (r, s')"
    and "held f w e s" "now < e" "e \<le> now + LOCK_TTL_SECONDS"
    and "\<not> (g = f \<and> override = ''UNLOCK'' \<and> presented = w)"
  shows "held f w e s'"
proof -
  have "of_locks (refresh_lock now g s) = sql_update (\<lambda>l. ol_file_id l = g)
      (\<lambda>l. l\<lparr>ol_expires_at := now + LOCK_TTL_SECONDS\<rparr>) (of_locks s)"
    by (simp add: refresh_lock_def)
  from held_update [OF assms(2) this] have refresh: "held f w e (refresh_lock now g s)"
    using assms(4) by simp
  have release: "held f w e (release_lock g s)" if "g \<noteq> f"
  proof -
    have "of_locks (release_lock g s) = sql_delete (\<lambda>l. ol_file_id l = g) (of_locks s)"
      by (simp add: release_lock_def)
    from held_delete [OF assms(2) this] that show ?thesis by simp
  qed
  obtain l where l: "get_lock now f s = Some l" "lk_value l = w" using held_get_lock [OF assms(2,3)] by blast
  show ?thesis
    using assms(1,2,5) l refresh release held_acquire [OF assms(2), of g]
    by (cases "g = f") (auto simp: lock_operation_def Let_def split: if_splits option.splits prod.splits)
qed

lemma put_file_locks:
  assumes "put_file env nt now tmp g tok h body s = (r, s')"
  shows "of_locks s' = of_locks s \<or> (\<exists>sz mtime. of_locks s' = of_locks (update_snapshot g sz mtime s))"
proof (cases "verify_token env nt tok (Some g) s")
  case (Inr v)
  show ?thesis
  proof (cases "vt_remote_server_id v")
    case None
    with assms Inr show ?thesis
      by (auto simp: put_file_def split: if_splits elim!: put_local_cases split: option.splits) blast
  next
    case (Some server)
    with assms Inr show ?thesis
      by (auto simp: put_file_def put_file_remote_def Let_def update_snapshot_def bump_generation_def
          split: if_splits option.splits sum.splits prod.splits) blast+
  qed
qed (use assms in \<open>simp add: put_file_def\<close>)

lemma office_do_held:
  assumes "held f w e s" "now < e" "e \<le> now + LOCK_TTL_SECONDS" "\<not> releases w f op"
  shows "held f w e (office_do env now op s)"
proof (cases op)
  case (OpWopi g tok h)
  show ?thesis
  proof (cases "verify_token env now tok (Some g) s")
    case (Inr v)
    obtain r s' where lo: "lock_operation env now g v (the (wh_override h)) (lock_header h) s = (r, s')" by fastforce
    have "held f w e s'" if "wh_override h \<noteq> None"
      by (rule lock_operation_held [OF lo assms(1-3)]) (use assms(4) OpWopi that in \<open>auto simp: releases_def\<close>)
    with lo Inr OpWopi assms(1) show ?thesis
      by (auto simp: file_operation_def lock_header_def Let_def split: option.splits)
  qed (use assms(1) OpWopi in \<open>simp add: file_operation_def\<close>)
next
  case (OpPut tmp g tok h body)
  obtain r s' where p: "put_file env now now tmp g tok h body s = (r, s')" by fastforce
  have "held f w e s'" if "of_locks s' = of_locks (update_snapshot g sz mtime s)" for sz mtime
  proof -
    have "of_locks s' = sql_update (\<lambda>l. ol_file_id l = g)
        (\<lambda>l. l\<lparr>ol_snapshot_size := sz, ol_snapshot_mtime := mtime\<rparr>) (of_locks s)"
      using that by (simp add: update_snapshot_def)
    from held_update [OF assms(1) this] show ?thesis by simp
  qed
  with put_file_locks [OF p] assms(1) p OpPut show ?thesis by (auto simp: held_def)
next
  case OpSweep
  have "of_locks (office_do env now op s) = sql_delete (\<lambda>l. ol_expires_at l \<le> now) (of_locks s)"
    using OpSweep by (simp add: sweep_expired_locks_def)
  from held_delete [OF assms(1) this] assms(2) show ?thesis by auto
qed (use assms(1) in \<open>auto simp: held_def issue_token_def resolve_and_register_file_def
    resolve_and_register_remote_file_def register_identity_def split: sum.splits option.splits\<close>)

lemma office_run_held:
  assumes "held f w e s" "\<forall>(t, op)\<in>set ops. t0 \<le> t \<and> t < e \<and> \<not> releases w f op" "e \<le> t0 + LOCK_TTL_SECONDS"
  shows "held f w e (office_run env ops s)"
  using assms
proof (induction ops arbitrary: s)
  case (Cons x ops)
  obtain t op where x: "x = (t, op)" by (cases x)
  with Cons.prems have "held f w e (office_do env t op s)" by (intro office_do_held) auto
  from Cons.IH [OF this] Cons.prems x show ?case by simp
qed simp

lemma wrong_value_refused:
  assumes "get_lock now f s = Some l" "lock_header h \<noteq> lk_value l"
  shows "snd (file_operation env nt now f tok h s) = s"
  using assms
  by (auto simp: file_operation_def lock_operation_def lock_header_def Let_def split: sum.splits option.splits if_splits prod.splits)

lemma wrong_value_not_saved:
  assumes "get_lock now f s = Some l" "lock_header h \<noteq> lk_value l"
    and "verify_token env nt tok (Some f) s = Inr v" "vt_remote_server_id v = None"
    and "of_docs s (vt_canonical_path v) = Some d" "doc_content d \<noteq> []"
  shows "snd (put_file env nt now tmp f tok h body s) = s"
  using assms
  by (auto simp: put_file_def put_local_def lock_check_def lock_header_def Let_def split: option.splits if_splits)


section \<open>A concrete host\<close>

text \<open>
  The user \<open>u1\<close> has the account \<open>eve\<close>; inside the home \<open>/home/eve\<close>, the directory \<open>docs\<close> is an assigned root that may
  only be read. \<open>f1\<close> is a document in it, locked by another user, \<open>f2\<close> one beside it.
\<close>

definition demo_remote :: "unit remote_ops" where
  "demo_remote = \<lparr>r_get = (\<lambda>_ _ _. False), r_stat = (\<lambda>_ _ _ _. Inl ''no server''), r_read = (\<lambda>_ _ _ _ _. Inl ''no server''),
     r_connect = (\<lambda>_ _ _. Some ''no server''), r_write = (\<lambda>_ _ _ r. (Inl ''no server'', r)),
     r_rename = (\<lambda>_ _ _ r. (Inl ''no server'', r)), r_trash = (\<lambda>_ _ r. (Inl ''no server'', r))\<rparr>"

definition demo_office_env :: "(int, unit) office_env" where
  "demo_office_env = \<lparr>oe_auth = demo_auth_env, oe_accounts = demo_accounts, oe_canonicalize = (\<lambda>p docs. Inr p),
     oe_fault = (\<lambda>c. if c = CallWrite ''/home/eve/t2'' 2 then Some (''disk full'', 1) else None), oe_remote = demo_remote\<rparr>"

definition demo_wopi_file :: "string \<Rightarrow> string \<Rightarrow> wopi_file_row" where
  "demo_wopi_file f path = \<lparr>wf_id = f, wf_remote_server_id = None, wf_canonical_path = path, wf_identity_key = path,
     wf_generation = 0, wf_created_at = 0\<rparr>"

definition demo_wopi_token :: "string \<Rightarrow> string \<Rightarrow> wopi_token_row" where
  "demo_wopi_token raw f = \<lparr>wt_token_hash = CHR ''#'' # raw, wt_user_id = ''u1'', wt_file_id = f, wt_read_write = True,
     wt_runtime_instance_id = ''i'', wt_created_at = 0, wt_expires_at = 1800\<rparr>"

definition demo_office :: "unit office" where
  "demo_office =
     \<lparr>of_db = empty_auth_db\<lparr>db_users := [(demo_user ''u1'' ''ada'')\<lparr>u_linux_uid := Some 7\<rparr>],
        db_roots := [\<lparr>ar_root_id = ''r1'', ar_user_id = ''u1'', ar_path = ''/home/eve/docs'', ar_access_mode = ''read'',
          ar_created_at = 0\<rparr>]\<rparr>,
      of_files = [demo_wopi_file ''f1'' ''/home/eve/docs/a'', demo_wopi_file ''f2'' ''/home/eve/b''],
      of_tokens = [demo_wopi_token ''t1'' ''f1'', demo_wopi_token ''t2'' ''f2''],
      of_locks = [\<lparr>ol_file_id = ''f1'', ol_lock_value = ''L'', ol_owner_user_id = ''u2'', ol_snapshot_size = 1,
        ol_snapshot_mtime = 0, ol_created_at = 0, ol_expires_at = 600\<rparr>],
      of_docs = [''/home/eve/docs/a'' \<mapsto> \<lparr>doc_content = ''x'', doc_mtime = 0, doc_mode = 384\<rparr>],
      of_remote = ()\<rparr>"

definition demo_verified :: "string \<Rightarrow> string \<Rightarrow> bool \<Rightarrow> VerifiedToken" where
  "demo_verified f path rw = \<lparr>vt_user_id = ''u1'', vt_file_id = f, vt_canonical_path = path, vt_read_write = rw,
     vt_remote_server_id = None\<rparr>"

lemma demo_tokens:
  "verify_token demo_office_env 10 ''t1'' (Some ''f1'') demo_office = Inr (demo_verified ''f1'' ''/home/eve/docs/a'' False)"
  "verify_token demo_office_env 10 ''t2'' (Some ''f2'') demo_office = Inr (demo_verified ''f2'' ''/home/eve/b'' True)"
  by code_simp+

theorem wopi_token_reauthorised_witness:
  "\<exists>i b. token_identity demo_office_env ''u1'' demo_office = Inr i \<and>
     is_most_specific (containing_roots ''u1'' (li_home i) ''/home/eve/docs/a'' (of_db demo_office)) (Some (b, False))"
  using wopi_token_reauthorised [OF _ demo_tokens(1)]
  by (simp add: demo_verified_def) (simp add: demo_office_def)



section \<open>What the host does not check\<close>

text \<open>Disabling a user does not touch the tokens of documents: verification never reads the column.\<close>

lemma token_of_disabled_user:
  "verify_token env now tok f (s\<lparr>of_db := (of_db s)\<lparr>db_users := map (\<lambda>u. u\<lparr>u_disabled := True\<rparr>) (db_users (of_db s))\<rparr>\<rparr>) =
   verify_token env now tok f s"
proof -
  let ?db = "(of_db s)\<lparr>db_users := map (\<lambda>u. u\<lparr>u_disabled := True\<rparr>) (db_users (of_db s))\<rparr>"
  have m: "sql_first (\<lambda>u. u_id u = x) (map (\<lambda>u. u\<lparr>u_disabled := True\<rparr>) us) =
      map_option (\<lambda>u. u\<lparr>u_disabled := True\<rparr>) (sql_first (\<lambda>u. u_id u = x) us)" for x us
    by (induction us) (auto simp: sql_first_def)
  have i: "token_identity env x (s\<lparr>of_db := ?db\<rparr>) = token_identity env x s" for x
    by (cases "sql_first (\<lambda>u. u_id u = x) (db_users (of_db s))") (simp_all add: token_identity_def m)
  have b: "best_root p ?db path roots best = best_root p (of_db s) path roots best" for p path roots best
    by (induction p "of_db s" path roots best rule: best_root.induct)
      (simp_all add: resolve_own_assigned_root_def resolve_assigned_root_for_user_def split: sum.splits)
  then have "authorize_path p home path ?db = authorize_path p home path (of_db s)" for p home path
    by (simp add: authorize_path_def list_own_assigned_roots_def)
  then show ?thesis by (simp add: verify_token_def lookup_file_def i cong: option.case_cong if_cong)
qed

text \<open>A token that may only read learns the value of another user's lock and releases it.\<close>

lemma reader_releases_lock:
  "fst (file_operation demo_office_env 10 10 ''f1'' ''t1'' \<lparr>wh_override = Some ''GET_LOCK'', wh_lock = None\<rparr> demo_office) =
     Inr \<lparr>wr_status = 200, wr_lock = Some ''L'', wr_body = []\<rparr>"
  "of_locks (snd (file_operation demo_office_env 10 10 ''f1'' ''t1'' \<lparr>wh_override = Some ''UNLOCK'', wh_lock = Some ''L''\<rparr>
     demo_office)) = []"
  by (simp_all add: file_operation_def demo_tokens demo_verified_def MAX_WOPI_LOCK_BYTES_def lock_operation_def Let_def
      get_lock_def release_lock_def) (simp_all add: demo_office_def sql_first_def sql_delete_def release_lock_def)

text \<open>Nor is the instance of the runtime a token was issued for read again.\<close>

lemma token_outlives_runtime:
  "verify_token env now tok f (s\<lparr>of_tokens := map (\<lambda>t. t\<lparr>wt_runtime_instance_id := i\<rparr>) (of_tokens s)\<rparr>) =
   verify_token env now tok f s"
proof -
  have m: "sql_first (\<lambda>t. wt_token_hash t = x) (map (\<lambda>t. t\<lparr>wt_runtime_instance_id := i\<rparr>) ts) =
      map_option (\<lambda>t. t\<lparr>wt_runtime_instance_id := i\<rparr>) (sql_first (\<lambda>t. wt_token_hash t = x) ts)" for x ts
    by (induction ts) (auto simp: sql_first_def)
  have i: "token_identity env u (s\<lparr>of_tokens := ts\<rparr>) = token_identity env u s" for u ts
    by (simp add: token_identity_def)
  show ?thesis
    by (cases "sql_first (\<lambda>t. wt_token_hash t = hash_token env tok) (of_tokens s)")
      (simp_all add: verify_token_def lookup_file_def res_of_option_def m i cong: option.case_cong if_cong)
qed

text \<open>When the second rename on a remote server fails, the old document and the new content are both in the trash.\<close>

lemma failed_replace_trashes_both:
  assumes "r_connect ops owner server r = None"
    and "r_write ops server tmp content r = (Inr (), r1)" "r_rename ops server tmp path r1 = (Inl e1, r2)"
    and "r_trash ops server path r2 = (Inr (), r3)" "r_rename ops server tmp path r3 = (Inl e2, r4)"
    and "tmp = path @ ''.cloudesk-office-'' @ mark @ ''.tmp''" "ops = oe_remote env"
  shows "write_safely env mark owner server path content r = (Inl (WopiIo e2), snd (r_trash ops server tmp r4))"
  using assms by (simp add: write_safely_def)

end
