(* ===== verification/Local_Files.thy ===== *)
theory Local_Files
  imports Privileged_Api
begin

text \<open>
  Files of the mapped account that the web service reads and writes itself (\<open>services/clouddeskd/src/lib.rs\<close>): the
  resolution of a virtual path below the home, uploads in one request, resumable uploads with their table
  \<open>upload_sessions\<close> (\<open>migrations/0009_upload_sessions.sql\<close>), and downloads with byte ranges.

  The file system is a map from canonical paths to directories, files and symbolic links, with the path resolution of
  Linux: a relative link continues in its directory, at most 40 links are followed. Refusals of the operating system
  that do not follow from the tree, such as permissions or a full disk, are the parameter \<open>fault\<close>. Home directories
  are absolute.
\<close>

section \<open>The file system\<close>

datatype fnode = FDir | FFile bytes | FLink "path_component list"

type_synonym ftree = "string list \<rightharpoonup> fnode"

datatype file_call = CallMkdir | CallCreate | CallOpen | CallRead | CallWriteAt nat | CallFlush | CallRenameTo | CallUnlink

type_synonym faults = "file_call \<Rightarrow> (string \<times> nat) option" \<comment> \<open>for a write, the bytes that got through\<close>

definition node_at :: "ftree \<Rightarrow> string list \<Rightarrow> fnode option" where
  "node_at fs p = (if p = [] then Some FDir else fs p)"

text \<open>Walks from a canonical directory; with \<open>mk\<close> the last name may be missing, as for \<open>O_CREAT\<close>.\<close>

function follow :: "ftree \<Rightarrow> bool \<Rightarrow> nat \<Rightarrow> string list \<Rightarrow> path_component list \<Rightarrow> io_error + string list" where
  "follow fs mk fuel cur [] = Inr cur"
| "follow fs mk fuel cur (RootDir # rest) = follow fs mk fuel [] rest"
| "follow fs mk fuel cur (CurDir # rest) = follow fs mk fuel cur rest"
| "follow fs mk fuel cur (ParentDir # rest) = follow fs mk fuel (butlast cur) rest"
| "follow fs mk fuel cur (Normal n # rest) =
     (case fs (cur @ [n]) of
        None \<Rightarrow> if mk \<and> rest = [] then Inr (cur @ [n]) else Inl IoNotFound
      | Some FDir \<Rightarrow> follow fs mk fuel (cur @ [n]) rest
      | Some (FFile _) \<Rightarrow> if rest = [] then Inr (cur @ [n]) else Inl (IoOther ''not a directory'')
      | Some (FLink target) \<Rightarrow>
          if fuel = 0 then Inl (IoOther ''too many levels of symbolic links'')
          else follow fs mk (fuel - 1) cur (target @ rest))"
  by pat_completeness auto
termination
  by (relation "measures [\<lambda>(fs, mk, fuel, cur, cs). fuel, \<lambda>(fs, mk, fuel, cur, cs). length cs]") auto

definition MAX_LINKS :: nat where
  "MAX_LINKS = 40"

definition canonicalize :: "ftree \<Rightarrow> path_component list \<Rightarrow> io_error + string list" where
  "canonicalize fs p = follow fs False MAX_LINKS [] p"

definition path_exists :: "ftree \<Rightarrow> path_component list \<Rightarrow> bool" where
  "path_exists fs p = is_ok (canonicalize fs p)"

definition path_is_dir :: "ftree \<Rightarrow> path_component list \<Rightarrow> bool" where
  "path_is_dir fs p = (case canonicalize fs p of Inl _ \<Rightarrow> False | Inr c \<Rightarrow> node_at fs c = Some FDir)"

definition path_parent :: "path_component list \<Rightarrow> path_component list option" where
  "path_parent p = (if p = [] \<or> last p = RootDir then None else Some (butlast p))"

text \<open>The directory of the last name, with that name: links in it are followed, the name itself is not.\<close>

definition last_entry :: "ftree \<Rightarrow> path_component list \<Rightarrow> io_error + string list" where
  "last_entry fs p =
     (if p = [] then Inl IoNotFound
      else case last p of
        Normal n \<Rightarrow>
          res_bind (canonicalize fs (butlast p)) (\<lambda>d.
            if node_at fs d = Some FDir then Inr (d @ [n]) else Inl (IoOther ''not a directory''))
      | _ \<Rightarrow> Inl (IoOther ''file exists''))"

definition mkdir :: "faults \<Rightarrow> ftree \<Rightarrow> path_component list \<Rightarrow> io_error + ftree" where
  "mkdir fault fs p =
     res_bind (last_entry fs p) (\<lambda>c.
       if fs c \<noteq> None then Inl (IoOther ''file exists'')
       else case fault CallMkdir of Some (e, _) \<Rightarrow> Inl (IoOther e) | None \<Rightarrow> Inr (fs(c \<mapsto> FDir)))"

function create_dir_all :: "faults \<Rightarrow> ftree \<Rightarrow> path_component list \<Rightarrow> io_error + ftree" where
  "create_dir_all fault fs p =
     (if p = [] then Inr fs
      else case mkdir fault fs p of
          Inr fs' \<Rightarrow> Inr fs'
        | Inl IoNotFound \<Rightarrow>
            (case path_parent p of
               None \<Rightarrow> Inl (IoOther ''failed to create whole tree'')
             | Some q \<Rightarrow>
               res_bind (create_dir_all fault fs q) (\<lambda>fs'.
                 case mkdir fault fs' p of
                   Inr fs'' \<Rightarrow> Inr fs''
                 | Inl e \<Rightarrow> if path_is_dir fs' p then Inr fs' else Inl e))
        | Inl e \<Rightarrow> if path_is_dir fs p then Inr fs else Inl e)"
  by pat_completeness auto
termination
  by (relation "measure (\<lambda>(fault, fs, p). length p)") (auto simp: path_parent_def split: if_splits)

declare create_dir_all.simps [simp del]

definition file_create :: "faults \<Rightarrow> ftree \<Rightarrow> path_component list \<Rightarrow> io_error + string list \<times> ftree" where
  "file_create fault fs p =
     res_bind (follow fs True MAX_LINKS [] p) (\<lambda>c.
       if node_at fs c = Some FDir then Inl (IoOther ''is a directory'')
       else case fault CallCreate of Some (e, _) \<Rightarrow> Inl (IoOther e) | None \<Rightarrow> Inr (c, fs(c \<mapsto> FFile [])))"

text \<open>\<open>File::open\<close>, also for writing: the canonical place of an existing file.\<close>

definition file_open :: "faults \<Rightarrow> ftree \<Rightarrow> path_component list \<Rightarrow> io_error + string list" where
  "file_open fault fs p =
     res_bind (canonicalize fs p) (\<lambda>c.
       case fault CallOpen of Some (e, _) \<Rightarrow> Inl (IoOther e) | None \<Rightarrow> Inr c)"

definition file_content :: "ftree \<Rightarrow> string list \<Rightarrow> bytes" where
  "file_content fs c = (case fs c of Some (FFile b) \<Rightarrow> b | _ \<Rightarrow> [])"

text \<open>Bytes written at an offset; a gap before it reads as zeros.\<close>

definition put_at :: "bytes \<Rightarrow> nat \<Rightarrow> bytes \<Rightarrow> bytes" where
  "put_at old off new = take off old @ replicate (off - length old) (CHR 0x00) @ new @ drop (off + length new) old"

definition write_at :: "ftree \<Rightarrow> string list \<Rightarrow> nat \<Rightarrow> bytes \<Rightarrow> ftree" where
  "write_at fs c off new = fs(c \<mapsto> FFile (put_at (file_content fs c) off new))"

definition rename_file :: "faults \<Rightarrow> ftree \<Rightarrow> path_component list \<Rightarrow> path_component list \<Rightarrow> io_error + ftree" where
  "rename_file fault fs a b =
     res_bind (last_entry fs a) (\<lambda>ca.
     res_bind (last_entry fs b) (\<lambda>cb.
       case fs ca of
         None \<Rightarrow> Inl IoNotFound
       | Some FDir \<Rightarrow> Inl (IoOther ''source is a directory'')
       | Some x \<Rightarrow>
         if fs cb = Some FDir then Inl (IoOther ''is a directory'')
         else case fault CallRenameTo of
             Some (e, _) \<Rightarrow> Inl (IoOther e)
           | None \<Rightarrow> Inr ((fs(ca := None))(cb \<mapsto> x))))"

definition remove_file :: "faults \<Rightarrow> ftree \<Rightarrow> path_component list \<Rightarrow> io_error + ftree" where
  "remove_file fault fs p =
     res_bind (last_entry fs p) (\<lambda>c.
       case fs c of
         None \<Rightarrow> Inl IoNotFound
       | Some FDir \<Rightarrow> Inl (IoOther ''is a directory'')
       | Some _ \<Rightarrow> (case fault CallUnlink of Some (e, _) \<Rightarrow> Inl (IoOther e) | None \<Rightarrow> Inr (fs(c := None))))"

section \<open>Virtual paths\<close>

definition io_internal :: "io_error \<Rightarrow> ApiError" where
  "io_internal e = internal_error (DetailText (case e of IoNotFound \<Rightarrow> ''not found'' | IoOther t \<Rightarrow> t))"

definition io_result :: "io_error + 'a \<Rightarrow> ApiError + 'a" where
  "io_result r = (case r of Inl e \<Rightarrow> Inl (io_internal e) | Inr a \<Rightarrow> Inr a)"

fun push_relative :: "path_component list \<Rightarrow> string list \<Rightarrow> ApiError + string list" where
  "push_relative [] acc = Inr acc"
| "push_relative (Normal c # cs) acc = push_relative cs (acc @ [c])"
| "push_relative (CurDir # cs) acc = push_relative cs acc"
| "push_relative (RootDir # cs) acc = push_relative cs acc"
| "push_relative (ParentDir # cs) acc = Inl (bad_request ''path traversal denied'')"

definition absolute_path :: "string list \<Rightarrow> path_component list" where
  "absolute_path c = RootDir # map Normal c"

definition resolve_safe_path :: "ftree \<Rightarrow> path_component list \<Rightarrow> string \<Rightarrow> ApiError + path_component list" where
  "resolve_safe_path fs root virtual_path =
     (if CHR 0x00 \<in> set virtual_path then Inl (bad_request ''invalid path'')
      else res_bind (push_relative (components virtual_path) []) (\<lambda>relative.
        let combined = root @ map Normal relative in
        if path_exists fs combined then
          res_bind (io_result (canonicalize fs combined)) (\<lambda>canonical.
          res_bind (io_result (canonicalize fs root)) (\<lambda>canonical_root.
            if \<not> prefix canonical_root canonical then Inl (bad_request ''path traversal denied'')
            else Inr (absolute_path canonical)))
        else
          res_bind (io_result (canonicalize fs root)) (\<lambda>canonical_root.
            case path_parent combined of
              None \<Rightarrow> Inr combined
            | Some p \<Rightarrow>
              if path_exists fs p then
                res_bind (io_result (canonicalize fs p)) (\<lambda>canonical_parent.
                  if \<not> prefix canonical_root canonical_parent then Inl (bad_request ''path traversal denied'')
                  else Inr combined)
              else Inr combined)))"

end
