(* ===== verification/Uploads.thy ===== *)
theory Uploads
  imports Local_Files
begin

text \<open>
  Uploads to the home of the mapped account (\<open>upload_local_file\<close> and the module \<open>resumable_upload\<close> of
  \<open>services/clouddeskd/src/lib.rs\<close>). The state of a handler is the one of the privileged interface, with the file
  system and the table \<open>upload_sessions\<close> as its world. The body of a request is the list of its frames; statements on
  the table succeed, an \<open>INSERT\<close> with a used key apart.
\<close>

section \<open>State\<close>

record upload_row =
  up_id :: string
  up_owner_user_id :: string
  up_virtual_path :: string
  up_temp_path :: "path_component list"
  up_total_size :: int
  up_bytes_received :: int
  up_expected_sha256 :: "string option"
  up_created_at :: int
  up_updated_at :: int

record uworld =
  uw_fs :: ftree
  uw_sessions :: "upload_row list"

datatype frame = FrameError | FrameData bytes | FrameTrailers

record UploadStatus =
  us_upload_id :: string
  us_bytes_received :: int
  us_total_size :: int

definition ABANDONED_SESSION_TTL_SECS :: int where
  "ABANDONED_SESSION_TTL_SECS = 24 * 60 * 60"

definition get_fs :: "(ftree, uworld) api" where
  "get_fs s = (Inr (uw_fs (sy_world s)), s)"

definition put_fs :: "ftree \<Rightarrow> (unit, uworld) api" where
  "put_fs fs s = (Inr (), s\<lparr>sy_world := (sy_world s)\<lparr>uw_fs := fs\<rparr>\<rparr>)"

definition api_of :: "ApiError + 'a \<Rightarrow> ('a, 'w) api" where
  "api_of r s = (r, s)"

definition modify_sessions :: "(upload_row list \<Rightarrow> upload_row list) \<Rightarrow> (unit, uworld) api" where
  "modify_sessions f s = (Inr (), s\<lparr>sy_world := (sy_world s)\<lparr>uw_sessions := f (uw_sessions (sy_world s))\<rparr>\<rparr>)"

section \<open>Upload in one request\<close>

fun write_frames :: "faults \<Rightarrow> string list \<Rightarrow> frame list \<Rightarrow> nat \<Rightarrow> ftree \<Rightarrow> (ApiError + nat) \<times> ftree" where
  "write_frames fault c [] n fs =
     (case fault CallFlush of Some (e, _) \<Rightarrow> (Inl (internal_error (DetailText e)), fs) | None \<Rightarrow> (Inr n, fs))"
| "write_frames fault c (FrameError # frames) n fs = (Inl (bad_request ''upload read error''), fs)"
| "write_frames fault c (FrameTrailers # frames) n fs = write_frames fault c frames n fs"
| "write_frames fault c (FrameData d # frames) n fs =
     (case fault (CallWriteAt n) of
        Some (e, k) \<Rightarrow> (Inl (internal_error (DetailText e)), write_at fs c n (take k d))
      | None \<Rightarrow> write_frames fault c frames (n + length d) (write_at fs c n d))"

definition api_write :: "(ftree \<Rightarrow> (ApiError + 'a) \<times> ftree) \<Rightarrow> ('a, uworld) api" where
  "api_write f = api_bind get_fs (\<lambda>fs. case f fs of (r, fs') \<Rightarrow> api_bind (put_fs fs') (\<lambda>_. api_of r))"

definition make_parent :: "faults \<Rightarrow> path_component list \<Rightarrow> (unit, uworld) api" where
  "make_parent fault path =
     (case path_parent path of
        None \<Rightarrow> api_return ()
      | Some parent \<Rightarrow>
        if parent = [] then api_return ()
        else api_bind get_fs (\<lambda>fs. api_bind (api_of (io_result (create_dir_all fault fs parent))) put_fs))"

definition upload_local_file ::
    "('n, 'j, uworld) AppState \<Rightarrow> faults \<Rightarrow> (string \<Rightarrow> int \<Rightarrow> bool \<Rightarrow> 'n json) \<Rightarrow> times \<Rightarrow> string \<Rightarrow> frame list \<Rightarrow> string \<Rightarrow> HeaderMap \<Rightarrow>
     (nat, uworld) api" where
  "upload_local_file app fault meta ts path body connect headers =
     api_bind (require_auth_service app) (\<lambda>auth.
     api_bind (principal_of app ts headers) (\<lambda>p.
     api_bind (authorize_request auth ts p ''files.local.write'' False connect headers) (\<lambda>_.
     api_bind (mapped_identity app p) (\<lambda>identity.
     api_bind get_fs (\<lambda>fs.
     api_bind (api_of (resolve_safe_path fs (components (li_home identity)) path)) (\<lambda>target.
     api_bind (make_parent fault target) (\<lambda>_.
     api_bind (api_write (\<lambda>fs. case file_create fault fs target of
         Inl e \<Rightarrow> (Inl (io_internal e), fs)
       | Inr (c, fs') \<Rightarrow> write_frames fault c body 0 fs')) (\<lambda>bytes_written.
     let (source_ip, user_agent) = request_metadata connect headers in
     api_bind (api_auth (audit_action auth (t_complete ts) p ''files.local.upload'' ''file'' (Some path) ''success''
       (meta path (int bytes_written) False) source_ip user_agent)) (\<lambda>_.
     api_return bytes_written)))))))))"

section \<open>Resumable uploads\<close>

definition upload_dir :: "path_component list \<Rightarrow> path_component list" where
  "upload_dir home = home @ [Normal ''.clouddesk-uploads'']"

definition load_session :: "string \<Rightarrow> string \<Rightarrow> (upload_row, uworld) api" where
  "load_session session_id user_id s =
     (case sql_first (\<lambda>r. up_id r = session_id) (uw_sessions (sy_world s)) of
        None \<Rightarrow> (Inl (not_found ''upload session not found''), s)
      | Some r \<Rightarrow> if up_owner_user_id r \<noteq> user_id then (Inl forbidden, s) else (Inr r, s))"

definition insert_session :: "upload_row \<Rightarrow> (unit, uworld) api" where
  "insert_session row s =
     (if up_id row \<in> up_id ` set (uw_sessions (sy_world s)) then (Inl (internal_error (DetailText ''UNIQUE'')), s)
      else modify_sessions (\<lambda>t. t @ [row]) s)"

definition create_upload_session ::
    "('n, 'j, uworld) AppState \<Rightarrow> faults \<Rightarrow> times \<Rightarrow> int \<Rightarrow> string \<Rightarrow> string \<Rightarrow> int \<Rightarrow> string option \<Rightarrow> string \<Rightarrow> HeaderMap \<Rightarrow>
     (UploadStatus, uworld) api" where
  "create_upload_session app fault ts now session_id path total_size sha256 connect headers =
     api_bind (require_auth_service app) (\<lambda>auth.
     api_bind (principal_of app ts headers) (\<lambda>p.
     api_bind (authorize_request auth ts p ''files.local.write'' False connect headers) (\<lambda>_.
     api_bind (mapped_identity app p) (\<lambda>identity.
     api_bind get_fs (\<lambda>fs.
     api_bind (api_of (resolve_safe_path fs (components (li_home identity)) path)) (\<lambda>_.
     let dir = upload_dir (components (li_home identity)); temp_path = dir @ [Normal (session_id @ ''.part'')] in
     api_bind (api_of (io_result (create_dir_all fault fs dir))) (\<lambda>fs1.
     api_bind (put_fs fs1) (\<lambda>_.
     api_bind (api_of (io_result (file_create fault fs1 temp_path))) (\<lambda>(c, fs2).
     api_bind (put_fs fs2) (\<lambda>_.
     api_bind (insert_session \<lparr>up_id = session_id, up_owner_user_id = sp_user_id p, up_virtual_path = path,
       up_temp_path = temp_path, up_total_size = min total_size I64_MAX, up_bytes_received = 0,
       up_expected_sha256 = sha256, up_created_at = now, up_updated_at = now\<rparr>) (\<lambda>_.
     api_return \<lparr>us_upload_id = session_id, us_bytes_received = 0, us_total_size = total_size\<rparr>)))))))))))"

definition require_write :: "SessionPrincipal \<Rightarrow> (unit, 'w) api" where
  "require_write p = (if principal_can p ''files.local.write'' then api_return () else api_fail forbidden)"

definition upload_session_status ::
    "('n, 'j, uworld) AppState \<Rightarrow> times \<Rightarrow> string \<Rightarrow> HeaderMap \<Rightarrow> (UploadStatus, uworld) api" where
  "upload_session_status app ts session_id headers =
     api_bind (require_auth_service app) (\<lambda>auth.
     api_bind (principal_of app ts headers) (\<lambda>p.
     api_bind (require_write p) (\<lambda>_.
     api_bind (load_session session_id (sp_user_id p)) (\<lambda>r.
     api_return \<lparr>us_upload_id = session_id, us_bytes_received = up_bytes_received r, us_total_size = up_total_size r\<rparr>))))"

fun chunk_frames :: "faults \<Rightarrow> string list \<Rightarrow> int \<Rightarrow> int \<Rightarrow> frame list \<Rightarrow> int \<Rightarrow> ftree \<Rightarrow> (ApiError + int) \<times> ftree" where
  "chunk_frames fault c declared received [] now_received fs =
     (case fault CallFlush of Some (e, _) \<Rightarrow> (Inl (internal_error (DetailText e)), fs) | None \<Rightarrow> (Inr now_received, fs))"
| "chunk_frames fault c declared received (FrameError # frames) now_received fs =
     (Inl (bad_request ''upload read error''), fs)"
| "chunk_frames fault c declared received (FrameTrailers # frames) now_received fs =
     chunk_frames fault c declared received frames now_received fs"
| "chunk_frames fault c declared received (FrameData d # frames) now_received fs =
     (let remaining = declared - received - now_received; off = nat received + nat now_received in
      if int (length d) > max remaining 0
      then (Inl (bad_request ''chunk exceeds the declared total upload size''), fs)
      else case fault (CallWriteAt off) of
          Some (e, k) \<Rightarrow> (Inl (internal_error (DetailText e)), write_at fs c off (take k d))
        | None \<Rightarrow> chunk_frames fault c declared received frames (now_received + int (length d)) (write_at fs c off d))"

definition upload_chunk ::
    "('n, 'j, uworld) AppState \<Rightarrow> faults \<Rightarrow> times \<Rightarrow> int \<Rightarrow> string \<Rightarrow> frame list \<Rightarrow> HeaderMap \<Rightarrow> (UploadStatus, uworld) api" where
  "upload_chunk app fault ts now session_id body headers =
     api_bind (require_auth_service app) (\<lambda>auth.
     api_bind (principal_of app ts headers) (\<lambda>p.
     api_bind (require_write p) (\<lambda>_.
     api_bind (load_session session_id (sp_user_id p)) (\<lambda>r.
     api_bind (api_write (\<lambda>fs. case file_open fault fs (up_temp_path r) of
         Inl e \<Rightarrow> (Inl (io_internal e), fs)
       | Inr c \<Rightarrow>
         if node_at fs c = Some FDir then (Inl (io_internal (IoOther ''is a directory'')), fs)
         else chunk_frames fault c (up_total_size r) (up_bytes_received r) body 0 fs)) (\<lambda>received_now.
     let new_total = up_bytes_received r + received_now in
     api_bind (modify_sessions (sql_update (\<lambda>x. up_id x = session_id)
       (\<lambda>x. x\<lparr>up_bytes_received := new_total, up_updated_at := now\<rparr>))) (\<lambda>_.
     api_return \<lparr>us_upload_id = session_id, us_bytes_received = new_total, us_total_size = up_total_size r\<rparr>))))))"

definition checksum_ok :: "'n auth_env \<Rightarrow> faults \<Rightarrow> ftree \<Rightarrow> upload_row \<Rightarrow> ApiError + unit" where
  "checksum_ok auth fault fs r =
     (case up_expected_sha256 r of
        None \<Rightarrow> Inr ()
      | Some expected \<Rightarrow>
        res_bind (io_result (file_open fault fs (up_temp_path r))) (\<lambda>c.
        if node_at fs c = Some FDir then Inl (io_internal (IoOther ''is a directory''))
        else case fault CallRead of
          Some (e, _) \<Rightarrow> Inl (internal_error (DetailText e))
        | None \<Rightarrow>
          if to_lowercase (ae_sha256_hex auth (file_content fs c)) \<noteq> to_lowercase expected
          then Inl (bad_request ''checksum mismatch: uploaded content does not match the declared sha256'')
          else Inr ()))"

definition finalize_upload_session ::
    "('n, 'j, uworld) AppState \<Rightarrow> faults \<Rightarrow> (string \<Rightarrow> int \<Rightarrow> bool \<Rightarrow> 'n json) \<Rightarrow> times \<Rightarrow> string \<Rightarrow> string \<Rightarrow> HeaderMap \<Rightarrow>
     (string \<times> int, uworld) api" where
  "finalize_upload_session app fault meta ts session_id connect headers =
     api_bind (require_auth_service app) (\<lambda>auth.
     api_bind (principal_of app ts headers) (\<lambda>p.
     api_bind (authorize_request auth ts p ''files.local.write'' False connect headers) (\<lambda>_.
     api_bind (mapped_identity app p) (\<lambda>identity.
     api_bind (load_session session_id (sp_user_id p)) (\<lambda>r.
     if up_bytes_received r \<noteq> up_total_size r
     then api_fail (bad_request ''upload is incomplete: bytes received does not match the declared total size'')
     else
       api_bind get_fs (\<lambda>fs.
       api_bind (api_of (checksum_ok auth fault fs r)) (\<lambda>_.
       api_bind (api_of (resolve_safe_path fs (components (li_home identity)) (up_virtual_path r))) (\<lambda>destination.
       api_bind (make_parent fault destination) (\<lambda>_.
       api_bind get_fs (\<lambda>fs1.
       api_bind (api_of (io_result (rename_file fault fs1 (up_temp_path r) destination))) (\<lambda>fs2.
       api_bind (put_fs fs2) (\<lambda>_.
       api_bind (modify_sessions (sql_delete (\<lambda>x. up_id x = session_id))) (\<lambda>_.
       let (source_ip, user_agent) = request_metadata connect headers in
       api_bind (api_auth (audit_action auth (t_complete ts) p ''files.local.upload'' ''file'' (Some (up_virtual_path r))
         ''success'' (meta (up_virtual_path r) (up_total_size r) True) source_ip user_agent)) (\<lambda>_.
       api_return (up_virtual_path r, up_total_size r)))))))))))))))"

definition drop_temp :: "faults \<Rightarrow> upload_row \<Rightarrow> ftree \<Rightarrow> ftree" where
  "drop_temp fault r fs = (case remove_file fault fs (up_temp_path r) of Inl _ \<Rightarrow> fs | Inr fs' \<Rightarrow> fs')"

definition cancel_upload_session ::
    "('n, 'j, uworld) AppState \<Rightarrow> faults \<Rightarrow> times \<Rightarrow> string \<Rightarrow> HeaderMap \<Rightarrow> (unit, uworld) api" where
  "cancel_upload_session app fault ts session_id headers =
     api_bind (require_auth_service app) (\<lambda>auth.
     api_bind (principal_of app ts headers) (\<lambda>p.
     api_bind (require_write p) (\<lambda>_.
     api_bind (load_session session_id (sp_user_id p)) (\<lambda>r.
     api_bind get_fs (\<lambda>fs.
     api_bind (put_fs (drop_temp fault r fs)) (\<lambda>_.
     modify_sessions (sql_delete (\<lambda>x. up_id x = session_id))))))))"

definition cleanup_abandoned_sessions :: "faults \<Rightarrow> int \<Rightarrow> uworld \<Rightarrow> uworld" where
  "cleanup_abandoned_sessions fault now w =
     (let cutoff = now - ABANDONED_SESSION_TTL_SECS in
      fold (\<lambda>r w. w\<lparr>uw_fs := drop_temp fault r (uw_fs w),
          uw_sessions := sql_delete (\<lambda>x. up_id x = up_id r) (uw_sessions w)\<rparr>)
        (filter (\<lambda>r. up_updated_at r < cutoff) (uw_sessions w)) w)"

end
