(* ===== verification/Downloads.thy ===== *)
theory Downloads
  imports Uploads
begin

text \<open>
  Downloads of files below the home (\<open>download_local_file\<close>, \<open>stream_media\<close>, \<open>preview_media\<close> and \<open>serve_file_stream\<close> of
  \<open>services/clouddeskd/src/lib.rs\<close>) with byte ranges. Numbers are parsed the way \<open>u64::from_str\<close> does. Whether a text can
  be the value of a header is the parameter \<open>header_ok\<close>.
\<close>

section \<open>Numbers\<close>

definition U64_MAX :: nat where
  "U64_MAX = 2 ^ 64 - 1"

definition parse_u64 :: "string \<Rightarrow> nat option" where
  "parse_u64 s = parse_unsigned U64_MAX s"

section \<open>Ranges\<close>

definition parse_single_range :: "string \<Rightarrow> nat \<Rightarrow> (unit + nat \<times> nat) option" where
  "parse_single_range spec total_len =
     (case split_once CHR ''-'' spec of
        None \<Rightarrow> None
      | Some (start_str, end_str) \<Rightarrow>
        if start_str = [] then
          (case parse_u64 end_str of
             None \<Rightarrow> None
           | Some suffix_len \<Rightarrow>
             if suffix_len = 0 \<or> total_len = 0 then Some (Inl ())
             else Some (Inr (total_len - suffix_len, total_len - 1)))
        else
          (case parse_u64 start_str of
             None \<Rightarrow> None
           | Some start \<Rightarrow>
             (case (if end_str = [] then Some None else map_option Some (parse_u64 end_str)) of
                None \<Rightarrow> None
              | Some last_byte \<Rightarrow>
                if start \<ge> total_len then Some (Inl ())
                else
                  let e = min (case last_byte of None \<Rightarrow> total_len - 1 | Some e \<Rightarrow> e) (total_len - 1) in
                  if start > e then Some (Inl ()) else Some (Inr (start, e)))))"

definition mime_for_path :: "string \<Rightarrow> string" where
  "mime_for_path path =
     (let ext = last (split_char CHR ''.'' (to_lowercase path)) in
      if ext = ''png'' then ''image/png''
      else if ext \<in> {''jpg'', ''jpeg''} then ''image/jpeg''
      else if ext = ''gif'' then ''image/gif''
      else if ext = ''webp'' then ''image/webp''
      else if ext = ''svg'' then ''image/svg+xml''
      else if ext = ''bmp'' then ''image/bmp''
      else if ext = ''ico'' then ''image/x-icon''
      else if ext \<in> {''tiff'', ''tif''} then ''image/tiff''
      else if ext \<in> {''mp4'', ''m4v''} then ''video/mp4''
      else if ext = ''webm'' then ''video/webm''
      else if ext = ''mkv'' then ''video/x-matroska''
      else if ext = ''mov'' then ''video/quicktime''
      else if ext = ''mp3'' then ''audio/mpeg''
      else if ext \<in> {''ogg'', ''oga''} then ''audio/ogg''
      else if ext = ''wav'' then ''audio/wav''
      else if ext = ''flac'' then ''audio/flac''
      else if ext = ''aac'' then ''audio/aac''
      else if ext = ''m4a'' then ''audio/mp4''
      else if ext = ''pdf'' then ''application/pdf''
      else if ext = ''json'' then ''application/json''
      else if ext \<in> {''txt'', ''log'', ''md'', ''toml'', ''yaml'', ''yml'', ''sh'', ''rs'', ''ts'', ''js'', ''css'', ''html''}
      then ''text/plain; charset=utf-8''
      else ''application/octet-stream'')"

section \<open>Responses\<close>

record file_response =
  fr_status :: nat
  fr_body :: bytes
  fr_accept_ranges :: bool
  fr_content_range :: "string option"
  fr_content_length :: "string option"
  fr_content_type :: "string option"
  fr_disposition :: "string option"

definition header_value :: "(string \<Rightarrow> bool) \<Rightarrow> string \<Rightarrow> ApiError + string" where
  "header_value header_ok v = (if header_ok v then Inr v else Inl (internal_error (DetailText ''failed to parse header value'')))"

definition strip_prefix :: "string \<Rightarrow> string \<Rightarrow> string option" where
  "strip_prefix p s = (if prefix p s then Some (drop (length p) s) else None)"

definition component_text :: "path_component \<Rightarrow> string" where
  "component_text c = (case c of RootDir \<Rightarrow> [] | CurDir \<Rightarrow> ''.'' | ParentDir \<Rightarrow> ''..'' | Normal n \<Rightarrow> n)"

definition shown_path :: "path_component list \<Rightarrow> string" where
  "shown_path p =
     (if p = [RootDir] then ''/'' else concat (case map component_text p of [] \<Rightarrow> [] | t # ts \<Rightarrow> t # map (\<lambda>n. CHR ''/'' # n) ts))"

definition path_name :: "path_component list \<Rightarrow> string" where
  "path_name p = (if p = [] then ''file'' else case last p of Normal n \<Rightarrow> n | _ \<Rightarrow> ''file'')"

definition full_response :: "(string \<Rightarrow> bool) \<Rightarrow> bytes \<Rightarrow> string \<Rightarrow> string \<Rightarrow> bool \<Rightarrow> ApiError + file_response" where
  "full_response header_ok content content_type filename attachment =
     res_bind (header_value header_ok (decimal (length content))) (\<lambda>len.
     res_bind (header_value header_ok content_type) (\<lambda>ct.
     res_bind (if attachment then
         res_bind (header_value header_ok (''attachment; filename='' @ [CHR 0x22] @ filename @ [CHR 0x22])) (\<lambda>d. Inr (Some d))
       else Inr None) (\<lambda>d.
     Inr \<lparr>fr_status = 200, fr_body = content, fr_accept_ranges = True, fr_content_range = None, fr_content_length = Some len,
       fr_content_type = Some ct, fr_disposition = d\<rparr>)))"

definition partial_response :: "(string \<Rightarrow> bool) \<Rightarrow> bytes \<Rightarrow> string \<Rightarrow> nat \<Rightarrow> nat \<Rightarrow> ApiError + file_response" where
  "partial_response header_ok content content_type start e =
     (let chunk_size = e - start + 1 in
      res_bind (header_value header_ok
        (''bytes '' @ decimal start @ ''-'' @ decimal e @ ''/'' @ decimal (length content))) (\<lambda>range.
      res_bind (header_value header_ok (decimal chunk_size)) (\<lambda>len.
      res_bind (header_value header_ok content_type) (\<lambda>ct.
      Inr \<lparr>fr_status = 206, fr_body = take chunk_size (drop start content), fr_accept_ranges = True,
        fr_content_range = Some range, fr_content_length = Some len, fr_content_type = Some ct, fr_disposition = None\<rparr>))))"

definition unsatisfiable_response :: "(string \<Rightarrow> bool) \<Rightarrow> nat \<Rightarrow> ApiError + file_response" where
  "unsatisfiable_response header_ok total_len =
     res_bind (header_value header_ok (''bytes */'' @ decimal total_len)) (\<lambda>range.
     Inr \<lparr>fr_status = 416, fr_body = [], fr_accept_ranges = False, fr_content_range = Some range, fr_content_length = None,
       fr_content_type = None, fr_disposition = None\<rparr>)"

text \<open>The range of a request, if it names a single one.\<close>

definition requested_range :: "string option \<Rightarrow> nat \<Rightarrow> (unit + nat \<times> nat) option" where
  "requested_range range_header total_len =
     (case range_header of
        None \<Rightarrow> None
      | Some h \<Rightarrow>
        (case strip_prefix ''bytes='' h of
           None \<Rightarrow> None
         | Some spec \<Rightarrow> if CHR '','' \<in> set spec then None else parse_single_range spec total_len))"

definition serve_file_stream ::
    "(string \<Rightarrow> bool) \<Rightarrow> faults \<Rightarrow> ftree \<Rightarrow> path_component list \<Rightarrow> string option \<Rightarrow> bool \<Rightarrow> ApiError + file_response" where
  "serve_file_stream header_ok fault fs path range_header attachment =
     (case file_open fault fs path of
        Inl _ \<Rightarrow> Inl (not_found ''file not found'')
      | Inr c \<Rightarrow>
        (case node_at fs c of
           Some (FFile content) \<Rightarrow>
             (case requested_range range_header (length content) of
                Some (Inr (start, e)) \<Rightarrow> partial_response header_ok content (mime_for_path (shown_path path)) start e
              | Some (Inl _) \<Rightarrow> unsatisfiable_response header_ok (length content)
              | None \<Rightarrow> full_response header_ok content (mime_for_path (shown_path path)) (path_name path) attachment)
         | _ \<Rightarrow> Inl (bad_request ''target is not a regular file'')))"

section \<open>Handlers\<close>

definition read_local_file ::
    "bool \<Rightarrow> (string \<Rightarrow> bool) \<Rightarrow> ('n, 'j, uworld) AppState \<Rightarrow> faults \<Rightarrow> times \<Rightarrow> string \<Rightarrow> string option \<Rightarrow> string \<Rightarrow> HeaderMap \<Rightarrow>
     (file_response, uworld) api" where
  "read_local_file attachment header_ok app fault ts path range_header connect headers =
     api_bind (require_auth_service app) (\<lambda>auth.
     api_bind (principal_of app ts headers) (\<lambda>p.
     api_bind (authorize_request auth ts p ''files.local.read'' False connect headers) (\<lambda>_.
     api_bind (mapped_identity app p) (\<lambda>identity.
     api_bind get_fs (\<lambda>fs.
     api_bind (api_of (resolve_safe_path fs (components (li_home identity)) path)) (\<lambda>target.
     api_of (serve_file_stream header_ok fault fs target range_header attachment)))))))"

definition download_local_file ::
    "(string \<Rightarrow> bool) \<Rightarrow> ('n, 'j, uworld) AppState \<Rightarrow> faults \<Rightarrow> times \<Rightarrow> string \<Rightarrow> string option \<Rightarrow> string \<Rightarrow> HeaderMap \<Rightarrow>
     (file_response, uworld) api" where
  "download_local_file = read_local_file True"

definition stream_media ::
    "(string \<Rightarrow> bool) \<Rightarrow> ('n, 'j, uworld) AppState \<Rightarrow> faults \<Rightarrow> times \<Rightarrow> string \<Rightarrow> string option \<Rightarrow> string \<Rightarrow> HeaderMap \<Rightarrow>
     (file_response, uworld) api" where
  "stream_media = read_local_file False"

definition preview_media ::
    "(string \<Rightarrow> bool) \<Rightarrow> ('n, 'j, uworld) AppState \<Rightarrow> faults \<Rightarrow> times \<Rightarrow> string \<Rightarrow> string option \<Rightarrow> string \<Rightarrow> HeaderMap \<Rightarrow>
     (file_response, uworld) api" where
  "preview_media = read_local_file False"

end
