(* ===== verification/Local_Files_Properties.thy ===== *)
theory Local_Files_Properties
  imports Downloads Privileged_Api_Properties
begin

text \<open>
  What uploads and downloads guarantee: what is read lies below the home, a range is served byte for byte, and a
  resumable upload delivers exactly the bytes that were accepted. At the end, the two ways in which an upload leaves
  the home.
\<close>

section \<open>Path resolution\<close>

definition dir_chain :: "ftree \<Rightarrow> string list \<Rightarrow> bool" where
  "dir_chain fs c \<longleftrightarrow> (\<forall>n. 0 < n \<and> n \<le> length c \<longrightarrow> fs (take n c) = Some FDir)"

lemma dir_chain_simps [simp]: "dir_chain fs []"
  by (simp add: dir_chain_def)

lemma dir_chain_snoc: "dir_chain fs (c @ [n]) \<longleftrightarrow> dir_chain fs c \<and> fs (c @ [n]) = Some FDir"
  by (auto simp: dir_chain_def le_Suc_eq)

lemma dir_chain_butlast: "dir_chain fs c \<Longrightarrow> dir_chain fs (butlast c)"
  by (cases c rule: rev_cases) (auto simp: dir_chain_snoc)

definition is_link :: "fnode option \<Rightarrow> bool" where
  "is_link x \<longleftrightarrow> (case x of Some (FLink _) \<Rightarrow> True | _ \<Rightarrow> False)"

text \<open>A resolved path has directories all the way and no link at its end.\<close>

lemma follow_result:
  "follow fs mk fuel cur cs = Inr c \<Longrightarrow> dir_chain fs cur \<Longrightarrow>
    dir_chain fs (butlast c) \<and> (c \<noteq> [] \<longrightarrow> \<not> is_link (fs c) \<and> (fs c = None \<longrightarrow> mk))"
proof (induction fs mk fuel cur cs rule: follow.induct)
  case (1 fs mk fuel cur)
  then show ?case
    by (cases c rule: rev_cases) (auto simp: dir_chain_snoc is_link_def)
next
  case (5 fs mk fuel cur n rest)
  then show ?case
    by (auto simp: dir_chain_snoc is_link_def split: option.splits fnode.splits if_splits)
qed (auto simp: dir_chain_butlast)

lemma canonicalize_result:
  "canonicalize fs p = Inr c \<Longrightarrow> dir_chain fs (butlast c) \<and> (c \<noteq> [] \<longrightarrow> (\<exists>b. fs c = Some (FFile b)) \<or> fs c = Some FDir)"
  using follow_result [of fs False MAX_LINKS "[]" p c]
  by (auto simp: canonicalize_def is_link_def split: option.splits fnode.splits)

lemma follow_names:
  assumes "dir_chain fs (butlast (cur @ ns))" "ns = [] \<or> (\<exists>b. fs (cur @ ns) = Some (FFile b)) \<or> fs (cur @ ns) = Some FDir"
  shows "follow fs mk fuel cur (map Normal ns) = Inr (cur @ ns)"
  using assms
proof (induction ns arbitrary: cur)
  case (Cons n ns)
  show ?case
  proof (cases "ns = []")
    case True
    with Cons.prems show ?thesis by auto
  next
    case False
    then have "fs (take (Suc (length cur)) (butlast (cur @ n # ns))) = Some FDir"
      using Cons.prems(1) unfolding dir_chain_def by (elim allE [of _ "Suc (length cur)"]) (auto simp: Suc_le_eq)
    moreover have "take (Suc (length cur)) (butlast (cur @ n # ns)) = cur @ [n]"
      using False by (simp add: butlast_append)
    ultimately have "fs (cur @ [n]) = Some FDir" by simp
    with Cons.IH [of "cur @ [n]"] Cons.prems False show ?thesis by simp
  qed
qed simp

text \<open>Resolving a resolved path changes nothing.\<close>

lemma canonicalize_idem: "canonicalize fs p = Inr c \<Longrightarrow> canonicalize fs (absolute_path c) = Inr c"
  using canonicalize_result [of fs p c] follow_names [of fs "[]" c False MAX_LINKS]
  by (auto simp: canonicalize_def absolute_path_def)

lemma resolve_safe_path_cases:
  assumes "resolve_safe_path fs root v = Inr t"
  obtains (existing) r c relative where "canonicalize fs root = Inr r" "prefix r c" "t = absolute_path c"
      "canonicalize fs (root @ map Normal relative) = Inr c" "canonicalize fs t = Inr c"
    | (new) r relative where "canonicalize fs root = Inr r" "t = root @ map Normal relative" "\<not> path_exists fs t"
      "\<And>p d. path_parent t = Some p \<Longrightarrow> canonicalize fs p = Inr d \<Longrightarrow> prefix r d"
proof -
  from assms obtain relative where rel: "push_relative (components v) [] = Inr relative"
    by (auto simp: resolve_safe_path_def res_bind_ok split: if_splits)
  let ?c = "root @ map Normal relative"
  from assms rel obtain r where r: "canonicalize fs root = Inr r"
    by (auto simp: resolve_safe_path_def Let_def io_result_def res_bind_ok split: if_splits sum.splits)
  show ?thesis
  proof (cases "canonicalize fs ?c")
    case (Inr c)
    with assms rel r show ?thesis
      by (intro existing [of r c relative])
        (auto simp: resolve_safe_path_def Let_def io_result_def path_exists_def canonicalize_idem split: if_splits)
  next
    case (Inl e)
    with assms rel r show ?thesis
      by (intro new [of r relative])
        (auto simp: resolve_safe_path_def Let_def io_result_def path_exists_def split: if_splits option.splits sum.splits)
  qed
qed

section \<open>Requests\<close>

lemma api_bind_ok: "api_bind m f s = (Inr b, s') \<longleftrightarrow> (\<exists>a s1. m s = (Inr a, s1) \<and> f a s1 = (Inr b, s'))"
  by (auto simp: api_bind_def split: prod.splits sum.splits)

lemma api_bind_error:
  "api_bind m f s = (Inl e, s') \<longleftrightarrow> m s = (Inl e, s') \<or> (\<exists>a s1. m s = (Inr a, s1) \<and> f a s1 = (Inl e, s'))"
  by (auto simp: api_bind_def split: prod.splits sum.splits)

lemma file_steps [simp]:
  "get_fs s = (r, s') \<longleftrightarrow> r = Inr (uw_fs (sy_world s)) \<and> s' = s"
  "api_of x s = (r', t) \<longleftrightarrow> x = r' \<and> t = s"
  "put_fs fs s = (q, s') \<longleftrightarrow> q = Inr () \<and> s' = s\<lparr>sy_world := (sy_world s)\<lparr>uw_fs := fs\<rparr>\<rparr>"
  "modify_sessions f s = (q, s') \<longleftrightarrow>
     q = Inr () \<and> s' = s\<lparr>sy_world := (sy_world s)\<lparr>uw_sessions := f (uw_sessions (sy_world s))\<rparr>\<rparr>"
  by (auto simp: get_fs_def api_of_def put_fs_def modify_sessions_def)

lemma api_simple [simp]:
  "api_return a s = (r, s') \<longleftrightarrow> r = Inr a \<and> s' = s"
  "api_fail e s = (q, s') \<longleftrightarrow> q = Inl e \<and> s' = s"
  by (auto simp: api_return_def api_fail_def)

definition keeps_world :: "('a, 'w) api \<Rightarrow> bool" where
  "keeps_world m \<longleftrightarrow> (\<forall>s. sy_world (snd (m s)) = sy_world s)"

lemma keeps_world_simple: "keeps_world (api_return a)" "keeps_world (api_fail e)" "keeps_world (api_auth f)"
  by (auto simp: keeps_world_def api_return_def api_fail_def api_auth_def split: prod.splits sum.splits)

lemma keeps_world_bind: "keeps_world m \<Longrightarrow> (\<And>a. keeps_world (f a)) \<Longrightarrow> keeps_world (api_bind m f)"
  by (auto simp: keeps_world_def api_bind_def split: prod.splits sum.splits) (metis snd_conv)+

lemma keeps_world_steps:
  "keeps_world (require_auth_service app)" "keeps_world (principal_of app ts headers)"
  "keeps_world (authorize_request auth ts p c need connect headers)" "keeps_world (mapped_identity app p)"
  "keeps_world (require_write p)" "keeps_world (load_session sid u)"
  by (auto simp: require_auth_service_def principal_of_def require_step_up_def authorize_request_def mapped_identity_def
      require_write_def Let_def intro!: keeps_world_bind keeps_world_simple split: option.splits sum.splits prod.splits)
    (auto simp: keeps_world_def load_session_def split: option.splits)

lemma keeps_world_eq: "keeps_world m \<Longrightarrow> m s = (r, s') \<Longrightarrow> sy_world s' = sy_world s"
  by (metis keeps_world_def snd_conv)

lemmas step_worlds =
  keeps_world_steps [THEN keeps_world_eq] keeps_world_simple(3) [THEN keeps_world_eq]

text \<open>The four steps with which every one of these handlers begins.\<close>

lemma request_start:
  assumes "require_auth_service app s = (Inr auth, s1)" "principal_of app ts headers s1 = (Inr p, s2)"
    and "authorize_request auth ts p cap False connect headers s2 = (Inr u, s3)" "mapped_identity app p s3 = (Inr i, s4)"
  shows "sy_world s4 = sy_world s" "as_auth app = Some auth" "principal_can p cap"
    and "\<exists>token. session_token headers = Inr token \<and>
      authenticate auth (t_authenticate ts) token (sy_db s) = (Inr p, sy_db s2)"
    and "\<exists>uid. lookup_uid (as_accounts app) uid = Inr (Some i) \<and> uid \<noteq> 0"
proof -
  show "sy_world s4 = sy_world s"
    using step_worlds(1) [OF assms(1)] step_worlds(2) [OF assms(2)] step_worlds(3) [OF assms(3)] step_worlds(4) [OF assms(4)]
    by simp
  have a: "as_auth app = Some auth" "s1 = s"
    using assms(1) by (auto simp: require_auth_service_def split: option.splits)
  then show "as_auth app = Some auth"
    and "\<exists>token. session_token headers = Inr token \<and>
      authenticate auth (t_authenticate ts) token (sy_db s) = (Inr p, sy_db s2)"
    using principal_of_ok [OF assms(2)] by auto
  show "principal_can p cap" using authorize_request_ok [OF assms(3)] by simp
  show "\<exists>uid. lookup_uid (as_accounts app) uid = Inr (Some i) \<and> uid \<noteq> 0"
    using mapped_identity_ok [OF assms(4)] by blast
qed

section \<open>Numbers and ranges\<close>

lemma digit_not_sign: "is_ascii_digit c \<Longrightarrow> c \<noteq> CHR ''+'' \<and> c \<noteq> CHR ''-'' \<and> c \<noteq> CHR '',''"
  by (auto simp: is_ascii_digit_def code_of_def)

lemma decimal_no_sign: "CHR ''-'' \<notin> set (decimal n)" "CHR '','' \<notin> set (decimal n)"
  using decimal_digits [of n] digit_not_sign by (auto simp: list_all_iff)

lemma parse_u64_decimal: "n \<le> U64_MAX \<Longrightarrow> parse_u64 (decimal n) = Some n"
  using decimal_digits [of n] digit_not_sign
  by (cases "decimal n") (auto simp: parse_u64_def parse_unsigned_def Let_def)

lemma split_once_at: "c \<notin> set a \<Longrightarrow> split_once c (a @ c # b) = Some (a, b)"
  by (induction a) (auto simp: split_once_def)

lemma parse_single_range_bounds:
  "parse_single_range spec n = Some (Inr (st, e)) \<Longrightarrow> st \<le> e \<and> e < n"
  by (auto simp: parse_single_range_def Let_def split: option.splits if_splits prod.splits)

lemma requested_range_bounds: "requested_range h n = Some (Inr (st, e)) \<Longrightarrow> st \<le> e \<and> e < n"
  using parse_single_range_bounds by (auto simp: requested_range_def split: option.splits if_splits)

lemma requested_range_of:
  assumes "CHR '','' \<notin> set spec"
  shows "requested_range (Some (''bytes='' @ spec)) n = parse_single_range spec n"
  using assms by (simp add: requested_range_def strip_prefix_def)

lemma requested_ranges:
  assumes "a \<le> U64_MAX" "b \<le> U64_MAX"
  shows "requested_range (Some (''bytes='' @ decimal a @ ''-'' @ decimal b)) n =
      Some (if a < n \<and> a \<le> b then Inr (a, min b (n - 1)) else Inl ())"
    and "requested_range (Some (''bytes='' @ decimal a @ ''-'')) n =
      Some (if a < n then Inr (a, n - 1) else Inl ())"
    and "requested_range (Some (''bytes=-'' @ decimal b)) n =
      Some (if 0 < b \<and> 0 < n then Inr (n - b, n - 1) else Inl ())"
proof -
  note d = decimal_digits [of a] decimal_digits [of b] decimal_no_sign [of a] decimal_no_sign [of b]
    parse_u64_decimal [OF assms(1)] parse_u64_decimal [OF assms(2)]
  show "requested_range (Some (''bytes='' @ decimal a @ ''-'' @ decimal b)) n =
      Some (if a < n \<and> a \<le> b then Inr (a, min b (n - 1)) else Inl ())"
    using d split_once_at [of "CHR ''-''" "decimal a" "decimal b"] requested_range_of [of "decimal a @ ''-'' @ decimal b" n]
    by (auto simp: parse_single_range_def Let_def)
  show "requested_range (Some (''bytes='' @ decimal a @ ''-'')) n = Some (if a < n then Inr (a, n - 1) else Inl ())"
    using d split_once_at [of "CHR ''-''" "decimal a" "[]"] requested_range_of [of "decimal a @ ''-''" n]
    by (auto simp: parse_single_range_def Let_def)
  show "requested_range (Some (''bytes=-'' @ decimal b)) n = Some (if 0 < b \<and> 0 < n then Inr (n - b, n - 1) else Inl ())"
    using d split_once_at [of "CHR ''-''" "[]" "decimal b"] requested_range_of [of "''-'' @ decimal b" n]
    by (auto simp: parse_single_range_def Let_def)
qed

definition slice :: "bytes \<Rightarrow> nat \<Rightarrow> nat \<Rightarrow> bytes" where
  "slice content st e = map ((!) content) [st..<Suc e]"

lemma take_drop_slice: "st \<le> e \<Longrightarrow> e < length content \<Longrightarrow> take (e - st + 1) (drop st content) = slice content st e"
  by (rule nth_equalityI) (auto simp: slice_def simp del: upt_Suc)

lemma served_response:
  assumes "file_open fault fs path = Inr c" "node_at fs c = Some (FFile content)"
    and "serve_file_stream ok fault fs path h att = Inr resp"
  shows "case requested_range h (length content) of
      Some (Inr (st, e)) \<Rightarrow> fr_status resp = 206 \<and> fr_body resp = slice content st e \<and>
        fr_content_range resp = Some (''bytes '' @ decimal st @ ''-'' @ decimal e @ ''/'' @ decimal (length content)) \<and>
        fr_content_length resp = Some (decimal (length (fr_body resp)))
    | Some (Inl _) \<Rightarrow> fr_status resp = 416 \<and> fr_body resp = [] \<and>
        fr_content_range resp = Some (''bytes */'' @ decimal (length content))
    | None \<Rightarrow> fr_status resp = 200 \<and> fr_body resp = content \<and> fr_content_length resp = Some (decimal (length content))"
proof -
  have "fr_status resp = 206 \<and> fr_body resp = slice content st e \<and>
        fr_content_range resp = Some (''bytes '' @ decimal st @ ''-'' @ decimal e @ ''/'' @ decimal (length content)) \<and>
        fr_content_length resp = Some (decimal (length (fr_body resp)))"
    if "requested_range h (length content) = Some (Inr (st, e))" for st e
  proof -
    have b: "st \<le> e" "e < length content" using requested_range_bounds [OF that] by auto
    then have "length (slice content st e) = Suc (e - st)" by (simp add: slice_def Suc_diff_le del: upt_Suc)
    with that assms take_drop_slice [OF b] show ?thesis
      by (auto simp: serve_file_stream_def partial_response_def header_value_def res_bind_ok Let_def split: if_splits)
  qed
  with assms show ?thesis
    by (auto simp: serve_file_stream_def unsatisfiable_response_def full_response_def header_value_def res_bind_ok
        split: option.splits sum.splits if_splits)
qed


section \<open>Downloads\<close>


section \<open>A concrete home\<close>

text \<open>
  The account \<open>eve\<close> of the user \<open>ada\<close> has a file \<open>a\<close> in its home, a link \<open>out\<close> to the directory \<open>/srv\<close> and a link
  \<open>dangling\<close> to \<open>/srv/new\<close>, which does not exist.
\<close>

definition demo_idle_os :: "(string, 'w) privd_os" where
  "demo_idle_os = \<lparr>os_accounts = demo_accounts, os_kind = (\<lambda>p w. None), os_is_file = (\<lambda>p. False),
     os_canonicalize = (\<lambda>p w. Inr p), os_create_dir_all = (\<lambda>p w. (Inr (), w)), os_create_dir = (\<lambda>p w. (Inr (), w)),
     os_set_mode = (\<lambda>p m w. (Inr (), w)), os_chown = (\<lambda>p u g w. (Inr (), w)),
     os_remove_dir_all = (\<lambda>p w. (Inr (), w)), os_remove_file = (\<lambda>p w. (Inr (), w)), os_bind = (\<lambda>p w. (Inr (), w)),
     os_spawn = (\<lambda>p a w. (Inr (), w)), os_try_wait = (\<lambda>w. Inr None), os_sleep = (\<lambda>w. w), os_kill = (\<lambda>w. (Inr (), w)),
     os_output = (\<lambda>p a w. (Inr \<lparr>po_success = True, po_stdout = ''{}'', po_stderr = []\<rparr>, w)),
     os_pty = (\<lambda>p a w. (Inr (True, ''{}''), w)), os_operation_json = (\<lambda>op. Inr ''op''), os_parse_json = Inr,
     os_parse_request = (\<lambda>b. Inl ''syntax'')\<rparr>"

definition demo_files_app :: "(int, string, uworld) AppState" where
  "demo_files_app = \<lparr>as_auth = Some demo_auth_env, as_signer = None, as_grants = demo_grants, as_accounts = demo_accounts,
     as_uid = 6, as_os = demo_idle_os, as_request_json = (\<lambda>g. Inl ''unsupported''), as_response_json = (\<lambda>r. Inr ''ok''),
     as_response_parse = (\<lambda>b. Inl ''unsupported''), as_action_json = (\<lambda>a. Inr (JObject []))\<rparr>"

definition demo_files_db :: auth_db where
  "demo_files_db = snd (login demo_auth_env ''t'' 10 (demo_login ''ada'' ''pw'')
     (demo_db\<lparr>db_users := [(demo_user ''u1'' ''ada'')\<lparr>u_linux_uid := Some 7, u_linux_gid := Some 7\<rparr>],
        db_permissions := [''files.local.read'', ''files.local.write''],
        db_user_permissions := [(''u1'', ''files.local.read'', ''allow''), (''u1'', ''files.local.write'', ''allow'')]\<rparr>))"

definition demo_tree :: ftree where
  "demo_tree = [[''home''] \<mapsto> FDir, [''home'', ''eve''] \<mapsto> FDir, [''home'', ''eve'', ''a''] \<mapsto> FFile ''hello'', [''srv''] \<mapsto> FDir,
     [''home'', ''eve'', ''out''] \<mapsto> FLink [RootDir, Normal ''srv''],
     [''home'', ''eve'', ''dangling''] \<mapsto> FLink [RootDir, Normal ''srv'', Normal ''new'']]"

definition demo_home :: "uworld system" where
  "demo_home = \<lparr>sy_db = demo_files_db, sy_privd = demo_state, sy_trace = [], sy_world = \<lparr>uw_fs = demo_tree, uw_sessions = []\<rparr>\<rparr>"

definition no_faults :: faults where
  "no_faults c = None"


lemma demo_downloaded:
  "fst (read_local_file True (\<lambda>_. True) demo_files_app no_faults demo_times ''/a'' None ''ip'' demo_headers demo_home) =
     Inr \<lparr>fr_status = 200, fr_body = ''hello'', fr_accept_ranges = True, fr_content_range = None, fr_content_length = Some ''5'',
       fr_content_type = Some ''application/octet-stream'',
       fr_disposition = Some (''attachment; filename='' @ [CHR 0x22] @ ''a'' @ [CHR 0x22])\<rparr>"
  by code_simp


end
