(* ===== verification/Uploads_Properties.thy ===== *)
theory Uploads_Properties
  imports Local_Files_Properties
begin

text \<open>
  A resumable upload delivers exactly the bytes that were accepted, whatever chunks fail and whatever other requests
  do meanwhile, as long as these leave the session and its temporary file alone.
\<close>

section \<open>Growing trees\<close>

text \<open>New files and directories do not disturb a path that resolves.\<close>

lemma follow_split:
  assumes "follow fs mk fuel cur (xs @ ys) = Inr c" "ys \<noteq> []"
  shows "\<exists>d fuel'. follow fs False fuel cur xs = Inr d \<and> follow fs mk fuel' d ys = Inr c"
  using assms
proof (induction fs mk fuel cur "xs @ ys" arbitrary: xs rule: follow.induct)
  case (5 fs mk fuel cur n rest)
  show ?case
  proof (cases xs)
    case Nil
    with "5.prems" show ?thesis by auto
  next
    case (Cons x xs')
    with "5.hyps" have x: "x = Normal n" "rest = xs' @ ys" by auto
    show ?thesis
    proof (cases "fs (cur @ [n])")
      case None
      with "5.prems" Cons x show ?thesis by simp
    next
      case (Some node)
      then show ?thesis
        using "5.prems" "5.hyps"(1) [OF Some _ x(2)] "5.hyps"(2) [OF Some, of _ "_ @ xs'"] Cons x
        by (cases node) (auto split: if_splits)
    qed
  qed
next
  case (1 fs mk fuel cur)
  then show ?case by simp
next
  case (2 fs mk fuel cur rest)
  then show ?case by (cases xs) auto
next
  case (3 fs mk fuel cur rest)
  then show ?case by (cases xs) auto
next
  case (4 fs mk fuel cur rest)
  then show ?case by (cases xs) auto
qed

lemma follow_put:
  assumes "follow fs mk fuel cur cs = Inr d" "fs c = None \<or> (\<exists>b. fs c = Some (FFile b))"
  shows "follow (fs(c \<mapsto> FFile new)) mk fuel cur cs = Inr d"
  using assms
proof (induction fs mk fuel cur cs rule: follow.induct)
  case (5 fs mk fuel cur n rest)
  then show ?case by (cases "cur @ [n] = c") (auto split: option.splits fnode.splits if_splits)
qed auto

lemma follow_existing:
  assumes "follow fs True fuel cur cs = Inr c" "fs c \<noteq> None \<or> c = []" "dir_chain fs cur"
  shows "follow fs False fuel cur cs = Inr c"
  using assms
proof (induction fs True fuel cur cs rule: follow.induct)
  case (5 fs fuel cur n rest)
  then show ?case by (auto simp: dir_chain_snoc split: option.splits fnode.splits if_splits)
qed (auto simp: dir_chain_butlast)

lemma follow_mono:
  assumes "follow fs False fuel cur cs = Inr d" "fs \<subseteq>\<^sub>m fs'"
  shows "follow fs' False fuel cur cs = Inr d"
  using assms
proof (induction fs False fuel cur cs rule: follow.induct)
  case (5 fs fuel cur n rest)
  show ?case
  proof (cases "fs (cur @ [n])")
    case (Some node)
    then have "fs' (cur @ [n]) = Some node" using "5.prems"(2) by (auto simp: map_le_def dom_def)
    with 5 Some show ?thesis by (cases node) (auto split: if_splits)
  qed (use "5.prems" in simp)
qed auto

lemma mkdir_grows:
  assumes "mkdir fault fs p = Inr fs'"
  shows "fs \<subseteq>\<^sub>m fs' \<and> (\<forall>q x. fs' q = Some x \<longrightarrow> fs q = Some x \<or> x = FDir)"
  using assms by (auto simp: mkdir_def res_bind_ok map_le_def split: if_splits option.splits)

lemma create_dir_all_grows:
  "create_dir_all fault fs p = Inr fs' \<Longrightarrow> fs \<subseteq>\<^sub>m fs' \<and> (\<forall>q x. fs' q = Some x \<longrightarrow> fs q = Some x \<or> x = FDir)"
proof (induction fault fs p arbitrary: fs' rule: create_dir_all.induct)
  case (1 fault fs p)
  show ?case
  proof (cases "p = []")
    case True
    with "1.prems" show ?thesis by (simp add: create_dir_all.simps [of fault fs "[]"])
  next
    case False
    show ?thesis
    proof (cases "mkdir fault fs p = Inl IoNotFound")
      case True
      with False "1.prems" obtain q fs1 where q: "path_parent p = Some q" "create_dir_all fault fs q = Inr fs1"
          and "(case mkdir fault fs1 p of Inr fs'' \<Rightarrow> Inr fs'' | Inl e \<Rightarrow> if path_is_dir fs1 p then Inr fs1 else Inl e) = Inr fs'"
        by (auto simp: create_dir_all.simps [of fault fs p] res_bind_ok split: option.splits)
      then have m: "mkdir fault fs1 p = Inr fs' \<or> fs' = fs1" by (auto split: sum.splits if_splits)
      have g: "fs \<subseteq>\<^sub>m fs1 \<and> (\<forall>q x. fs1 q = Some x \<longrightarrow> fs q = Some x \<or> x = FDir)"
        using "1.IH" [OF False True refl q] .
      from m show ?thesis
      proof
        assume "mkdir fault fs1 p = Inr fs'"
        from mkdir_grows [OF this] g show ?thesis by (meson map_le_trans)
      qed (use g in simp)
    next
      case no: False
      with \<open>p \<noteq> []\<close> "1.prems" have "mkdir fault fs p = Inr fs' \<or> fs' = fs"
        by (auto simp: create_dir_all.simps [of fault fs p] split: sum.splits io_error.splits if_splits)
      with mkdir_grows [of fault fs p fs'] show ?thesis by (elim disjE) simp_all
    qed
  qed
qed

lemma last_entry_mono:
  assumes "last_entry fs p = Inr c" "fs \<subseteq>\<^sub>m fs'"
  shows "last_entry fs' p = Inr c"
proof -
  from assms(1) obtain n d where p: "p \<noteq> []" "last p = Normal n" "follow fs False MAX_LINKS [] (butlast p) = Inr d"
      "node_at fs d = Some FDir" "c = d @ [n]"
    by (auto simp: last_entry_def canonicalize_def res_bind_ok split: path_component.splits if_splits)
  moreover have "node_at fs' d = Some FDir"
    using p(4) assms(2) by (auto simp: node_at_def map_le_def dom_def split: if_splits)
  ultimately show ?thesis
    using follow_mono [OF p(3) assms(2)] by (simp add: last_entry_def canonicalize_def)
qed

lemma last_entry_put:
  assumes "last_entry fs p = Inr e" "fs c = Some (FFile old)"
  shows "last_entry (fs(c \<mapsto> FFile b)) p = Inr e"
proof -
  from assms(1) obtain n d where p: "p \<noteq> []" "last p = Normal n" "follow fs False MAX_LINKS [] (butlast p) = Inr d"
      "node_at fs d = Some FDir" "e = d @ [n]"
    by (auto simp: last_entry_def canonicalize_def res_bind_ok split: path_component.splits if_splits)
  moreover have "node_at (fs(c \<mapsto> FFile b)) d = Some FDir" using p(4) assms(2) by (auto simp: node_at_def split: if_splits)
  ultimately show ?thesis
    using follow_put [OF p(3), of c b] assms(2) by (simp add: last_entry_def canonicalize_def)
qed

lemma last_entry_nonempty: "last_entry fs p = Inr c \<Longrightarrow> c \<noteq> []"
  by (auto simp: last_entry_def res_bind_ok split: path_component.splits if_splits)

lemma io_result_ok [simp]: "io_result r = Inr a \<longleftrightarrow> r = Inr a"
  by (cases r) (auto simp: io_result_def)

text \<open>A new file in a directory is found there, provided no link has its name.\<close>

lemma file_create_entry:
  assumes "file_create fault fs (dir @ [Normal n]) = Inr (c, fs')" "\<And>d t. fs (d @ [n]) \<noteq> Some (FLink t)"
  shows "fs' = fs(c \<mapsto> FFile [])" "c \<noteq> []" "canonicalize fs' (dir @ [Normal n]) = Inr c" "last_entry fs' (dir @ [Normal n]) = Inr c"
proof -
  from assms(1) have c: "follow fs True MAX_LINKS [] (dir @ [Normal n]) = Inr c" "node_at fs c \<noteq> Some FDir"
      and fs': "fs' = fs(c \<mapsto> FFile [])"
    by (auto simp: file_create_def res_bind_ok split: if_splits option.splits)
  show "fs' = fs(c \<mapsto> FFile [])" by (rule fs')
  show ne: "c \<noteq> []" using c(2) by (auto simp: node_at_def)
  have nl: "fs c = None \<or> (\<exists>b. fs c = Some (FFile b))"
    using follow_result [OF c(1)] c(2) ne by (auto simp: node_at_def is_link_def split: option.splits fnode.splits)
  have "follow fs' True MAX_LINKS [] (dir @ [Normal n]) = Inr c"
    unfolding fs' by (rule follow_put [OF c(1) nl])
  from follow_existing [OF this] show "canonicalize fs' (dir @ [Normal n]) = Inr c"
    by (simp add: canonicalize_def fs')
  obtain d fuel' where d: "follow fs False MAX_LINKS [] dir = Inr d" "follow fs True fuel' d [Normal n] = Inr c"
    using follow_split [OF c(1)] by blast
  have cd: "c = d @ [n]"
    using d(2) assms(2) by (auto split: option.splits fnode.splits if_splits)
  have "follow fs' False MAX_LINKS [] dir = Inr d" unfolding fs' by (rule follow_put [OF d(1) nl])
  moreover have "dir_chain fs' d"
    using follow_result [OF \<open>follow fs' True MAX_LINKS [] (dir @ [Normal n]) = Inr c\<close>] by (simp add: cd)
  then have "node_at fs' d = Some FDir"
    by (cases d rule: rev_cases) (auto simp: cd node_at_def dir_chain_snoc)
  ultimately show "last_entry fs' (dir @ [Normal n]) = Inr c"
    by (simp add: last_entry_def canonicalize_def cd)
qed

section \<open>Chunks\<close>

fun frames_data :: "frame list \<Rightarrow> bytes" where
  "frames_data [] = []"
| "frames_data (FrameData d # fs) = d @ frames_data fs"
| "frames_data (_ # fs) = frames_data fs"

lemma put_at_prefix: "off \<le> length old \<Longrightarrow> take (off + length new) (put_at old off new) = take off old @ new"
  by (simp add: put_at_def)

lemma put_at_keeps: "k \<le> off \<Longrightarrow> off \<le> length old \<Longrightarrow> take k (put_at old off new) = take k old"
  by (simp add: put_at_def min_absorb1)

lemma length_put_at: "length (put_at old off new) = max (length old) (off + length new)"
  by (auto simp: put_at_def)

text \<open>
  From offset \<open>received + n\<close> on: the accepted prefix stays, an accepted chunk is appended to it, and the file never
  outgrows the declared decl.
\<close>

lemma chunk_frames_effect:
  assumes "chunk_frames fault c decl received frames n fs = (r, fs')"
    and "fs c = Some (FFile content)" "0 \<le> received" "0 \<le> n" "nat received + nat n \<le> length content"
    and "int (length content) \<le> decl"
  shows "\<exists>content'. fs' = fs(c \<mapsto> FFile content') \<and> int (length content') \<le> decl \<and>
    take (nat received + nat n) content' = take (nat received + nat n) content \<and>
    (\<forall>m. r = Inr m \<longrightarrow> m = n + int (length (frames_data frames)) \<and> nat received + nat m \<le> length content' \<and>
       take (nat received + nat m) content' = take (nat received + nat n) content @ frames_data frames)"
  using assms
proof (induction fault c decl received frames n fs arbitrary: content rule: chunk_frames.induct)
  case (1 fault c decl received n fs)
  then show ?case
    by (intro exI [of _ content]) (auto split: option.splits)
next
  case (2 fault c decl received frames n fs)
  then show ?case by (intro exI [of _ content]) auto
next
  case (4 fault c decl received d frames n fs)
  let ?off = "nat received + nat n"
  show ?case
  proof (cases "int (length d) > max (decl - received - n) 0")
    case True
    with "4.prems"(1) have "r = Inl (bad_request ''chunk exceeds the declared total upload size'')" "fs' = fs"
      unfolding chunk_frames.simps Let_def by (simp_all only: if_True prod.inject)
    with "4.prems" show ?thesis by (intro exI [of _ content]) auto
  next
    case False
    have w: "write_at fs c ?off b = fs(c \<mapsto> FFile (put_at content ?off b))" for b
      using "4.prems"(2) by (simp add: write_at_def file_content_def)
    have fit: "int (length (put_at content ?off b)) \<le> decl" if "length b \<le> length d" for b
      using False "4.prems"(3-6) that by (auto simp: length_put_at max_def split: if_splits)
    show ?thesis
    proof (cases "fault (CallWriteAt ?off)")
      case (Some x)
      then obtain e k where "fault (CallWriteAt ?off) = Some (e, k)" by (cases x) auto
      with "4.prems" False show ?thesis
        by (intro exI [of _ "put_at content ?off (take k d)"]) (auto simp: Let_def w fit put_at_keeps)
    next
      case None
      let ?c = "put_at content ?off d"
      let ?k = "nat received + nat (n + int (length d))"
      have run: "chunk_frames fault c decl received frames (n + int (length d)) (write_at fs c ?off d) = (r, fs')"
        using "4.prems"(1) False None by (auto simp: Let_def split: if_splits)
      have len: "?k = ?off + length d" using "4.prems"(4) by simp
      have "write_at fs c ?off d c = Some (FFile ?c)" "?k \<le> length ?c"
        using len by (simp_all add: w length_put_at)
      with "4.IH" [OF refl refl False None run] "4.prems"(3,4) fit [of d]
      have "\<exists>content'. fs' = (write_at fs c ?off d)(c \<mapsto> FFile content') \<and> int (length content') \<le> decl \<and>
          take ?k content' = take ?k ?c \<and>
          (\<forall>m. r = Inr m \<longrightarrow> m = n + int (length d) + int (length (frames_data frames)) \<and>
             nat received + nat m \<le> length content' \<and>
             take (nat received + nat m) content' = take ?k ?c @ frames_data frames)"
        by (simp add: fun_upd_def)
      then obtain content' where c': "fs' = fs(c \<mapsto> FFile content')" "int (length content') \<le> decl"
          "take (?off + length d) content' = take (?off + length d) ?c"
          "\<forall>m. r = Inr m \<longrightarrow> m = n + int (length d) + int (length (frames_data frames)) \<and>
             nat received + nat m \<le> length content' \<and>
             take (nat received + nat m) content' = take (?off + length d) ?c @ frames_data frames"
        unfolding len w fun_upd_upd by blast
      have p: "take (?off + length d) ?c = take ?off content @ d" by (rule put_at_prefix [OF "4.prems"(5)])
      have "take ?off (take (?off + length d) content') = take ?off (take ?off content @ d)"
        using c'(3) p by simp
      then have "take ?off content' = take ?off content" using "4.prems"(5) by simp
      moreover have "\<forall>m. r = Inr m \<longrightarrow> m = n + int (length (frames_data (FrameData d # frames))) \<and>
          nat received + nat m \<le> length content' \<and>
          take (nat received + nat m) content' = take ?off content @ frames_data (FrameData d # frames)"
        using c'(4) unfolding p by (simp add: add.assoc)
      ultimately show ?thesis using c'(1,2) by blast
    qed
  qed
qed auto

section \<open>A session and its interference\<close>

text \<open>What an upload relies on: its row, and the place and content of its temporary file.\<close>

definition upload_view :: "string \<Rightarrow> uworld \<Rightarrow> (upload_row \<times> (io_error + string list) \<times> (io_error + string list) \<times> fnode option) option" where
  "upload_view sid w =
     map_option (\<lambda>r.
         (r, canonicalize (uw_fs w) (up_temp_path r), last_entry (uw_fs w) (up_temp_path r),
          case canonicalize (uw_fs w) (up_temp_path r) of Inl _ \<Rightarrow> None | Inr c \<Rightarrow> uw_fs w c))
       (sql_first (\<lambda>r. up_id r = sid) (uw_sessions w))"

text \<open>
  The life of a session with the bytes that were accepted so far: it is created, under a name that no link has; chunks
  arrive, are accepted or fail; and anything else happens that leaves the view alone.
\<close>

inductive uploading :: "('n, 'j, uworld) AppState \<Rightarrow> string \<Rightarrow> bytes \<Rightarrow> uworld system \<Rightarrow> bool" for app sid where
  created: "create_upload_session app fault ts now sid path total_size sha256 connect headers s = (Inr st, s') \<Longrightarrow>
     0 \<le> total_size \<Longrightarrow> (\<And>d t. uw_fs (sy_world s) (d @ [sid @ ''.part'']) \<noteq> Some (FLink t)) \<Longrightarrow>
     uploading app sid [] s'"
| accepted: "uploading app sid acc s \<Longrightarrow> upload_chunk app fault ts now sid body headers s = (Inr st, s') \<Longrightarrow>
     uploading app sid (acc @ frames_data body) s'"
| failed: "uploading app sid acc s \<Longrightarrow> upload_chunk app fault ts now sid body headers s = (Inl e, s') \<Longrightarrow>
     uploading app sid acc s'"
| other: "uploading app sid acc s \<Longrightarrow> upload_view sid (sy_world s') = upload_view sid (sy_world s) \<Longrightarrow>
     uploading app sid acc s'"

definition upload_inv :: "string \<Rightarrow> bytes \<Rightarrow> uworld \<Rightarrow> bool" where
  "upload_inv sid acc w \<longleftrightarrow>
     (\<exists>r c content. sql_first (\<lambda>r. up_id r = sid) (uw_sessions w) = Some r \<and>
        canonicalize (uw_fs w) (up_temp_path r) = Inr c \<and> last_entry (uw_fs w) (up_temp_path r) = Inr c \<and>
        uw_fs w c = Some (FFile content) \<and> up_bytes_received r = int (length acc) \<and>
        length acc \<le> length content \<and> take (length acc) content = acc \<and> int (length content) \<le> up_total_size r)"

lemma created_inv:
  assumes "create_upload_session app fault ts now sid path total_size sha256 connect headers s = (Inr st, s')"
    and "0 \<le> total_size" "\<And>d t. uw_fs (sy_world s) (d @ [sid @ ''.part'']) \<noteq> Some (FLink t)"
  shows "upload_inv sid [] (sy_world s')"
proof -
  obtain auth p i s1 s2 s3 s4 fs1 c fs2 where steps:
      "require_auth_service app s = (Inr auth, s1)" "principal_of app ts headers s1 = (Inr p, s2)"
      "authorize_request auth ts p ''files.local.write'' False connect headers s2 = (Inr (), s3)"
      "mapped_identity app p s3 = (Inr i, s4)"
    and fs1: "create_dir_all fault (uw_fs (sy_world s4)) (upload_dir (components (li_home i))) = Inr fs1"
    and fs2: "file_create fault fs1 (upload_dir (components (li_home i)) @ [Normal (sid @ ''.part'')]) = Inr (c, fs2)"
    and s': "uw_fs (sy_world s') = fs2" "sid \<notin> up_id ` set (uw_sessions (sy_world s4))"
      "uw_sessions (sy_world s') = uw_sessions (sy_world s4) @ [\<lparr>up_id = sid, up_owner_user_id = sp_user_id p, up_virtual_path = path,
       up_temp_path = upload_dir (components (li_home i)) @ [Normal (sid @ ''.part'')], up_total_size = min total_size I64_MAX,
       up_bytes_received = 0, up_expected_sha256 = sha256, up_created_at = now, up_updated_at = now\<rparr>]"
    using assms(1)
    by (auto simp: create_upload_session_def api_bind_ok Let_def insert_session_def split: if_splits)
  have w: "sy_world s4 = sy_world s" by (rule request_start(1) [OF steps])
  have "fs1 (d @ [sid @ ''.part'']) \<noteq> Some (FLink t)" for d t
    using create_dir_all_grows [OF fs1] assms(3) [of d t] w by auto
  note c = file_create_entry [OF fs2 this]
  have "sql_first (\<lambda>r. up_id r = sid) (uw_sessions (sy_world s4)) = None"
    using s'(2) by (auto simp: sql_first_None)
  with s'(3) have r: "sql_first (\<lambda>r. up_id r = sid) (uw_sessions (sy_world s')) = Some (last (uw_sessions (sy_world s')))"
    by (simp add: sql_first_append) (simp add: sql_first_def)
  show ?thesis
    unfolding upload_inv_def
    by (intro exI [of _ "last (uw_sessions (sy_world s'))"] exI [of _ c] exI [of _ "[]"])
      (use r c s' assms(2) in \<open>auto simp: I64_MAX_def\<close>)
qed

lemma api_write_eq:
  "api_write f s = (case f (uw_fs (sy_world s)) of (x, fs') \<Rightarrow> (x, s\<lparr>sy_world := (sy_world s)\<lparr>uw_fs := fs'\<rparr>\<rparr>))"
  by (simp add: api_write_def api_bind_def get_fs_def put_fs_def api_of_def split: prod.splits)

definition write_chunk :: "faults \<Rightarrow> upload_row \<Rightarrow> frame list \<Rightarrow> ftree \<Rightarrow> (ApiError + int) \<times> ftree" where
  "write_chunk fault row body fs =
     (case file_open fault fs (up_temp_path row) of
        Inl e \<Rightarrow> (Inl (io_internal e), fs)
      | Inr c \<Rightarrow>
        if node_at fs c = Some FDir then (Inl (io_internal (IoOther ''is a directory'')), fs)
        else chunk_frames fault c (up_total_size row) (up_bytes_received row) body 0 fs)"

lemma upload_chunk_cases:
  assumes "upload_chunk app fault ts now sid body headers s = (r, s')"
  obtains (early) e where "r = Inl e" "sy_world s' = sy_world s"
    | (failed) row e fs' where "r = Inl e" "sql_first (\<lambda>x. up_id x = sid) (uw_sessions (sy_world s)) = Some row"
        "write_chunk fault row body (uw_fs (sy_world s)) = (Inl e, fs')" "sy_world s' = (sy_world s)\<lparr>uw_fs := fs'\<rparr>"
    | (accepted) row n fs' st where "r = Inr st" "sql_first (\<lambda>x. up_id x = sid) (uw_sessions (sy_world s)) = Some row"
        "write_chunk fault row body (uw_fs (sy_world s)) = (Inr n, fs')"
        "sy_world s' = (sy_world s)\<lparr>uw_fs := fs', uw_sessions := sql_update (\<lambda>x. up_id x = sid)
           (\<lambda>x. x\<lparr>up_bytes_received := up_bytes_received row + n, up_updated_at := now\<rparr>) (uw_sessions (sy_world s))\<rparr>"
  using assms unfolding upload_chunk_def write_chunk_def [symmetric]
proof (cases rule: api_bind_cases)
  case (failed e)
  then show ?thesis using early step_worlds(1) by blast
next
  case (continued auth s1)
  note w1 = step_worlds(1) [OF continued(1)]
  from continued(2) show ?thesis
  proof (cases rule: api_bind_cases)
    case (failed e)
    then show ?thesis using early step_worlds(2) w1 by metis
  next
    case (continued p s2)
    note w2 = step_worlds(2) [OF continued(1)]
    from continued(2) show ?thesis
    proof (cases rule: api_bind_cases)
      case (failed e)
      then show ?thesis using early step_worlds(5) w1 w2 by metis
    next
      case (continued u s3)
      note w3 = step_worlds(5) [OF continued(1)]
      from continued(2) show ?thesis
      proof (cases rule: api_bind_cases)
        case (failed e)
        then show ?thesis using early step_worlds(6) w1 w2 w3 by metis
      next
        case (continued row s4)
        note w4 = step_worlds(6) [OF continued(1)]
        have row: "sql_first (\<lambda>x. up_id x = sid) (uw_sessions (sy_world s)) = Some row"
          using continued(1) w1 w2 w3 by (auto simp: load_session_def split: option.splits if_splits)
        obtain x fs' where x: "write_chunk fault row body (uw_fs (sy_world s)) = (x, fs')" by fastforce
        have w: "sy_world s4 = sy_world s" using w1 w2 w3 w4 by simp
        show ?thesis
        proof (cases x)
          case (Inl e)
          with continued(2) x w show ?thesis
            by (intro failed [of e row fs']) (auto simp: api_bind_def api_write_eq row)
        next
          case (Inr n)
          with continued(2) x w show ?thesis
            by (intro accepted [of _ row n fs']) (auto simp: api_bind_def api_write_eq modify_sessions_def api_return_def Let_def row)
        qed
      qed
    qed
  qed
qed

lemma chunk_inv:
  assumes "upload_inv sid acc (sy_world s)" "upload_chunk app fault ts now sid body headers s = (r, s')"
  shows "upload_inv sid (if is_ok r then acc @ frames_data body else acc) (sy_world s')"
proof -
  obtain row c content where inv: "sql_first (\<lambda>r. up_id r = sid) (uw_sessions (sy_world s)) = Some row"
      "canonicalize (uw_fs (sy_world s)) (up_temp_path row) = Inr c" "last_entry (uw_fs (sy_world s)) (up_temp_path row) = Inr c"
      "uw_fs (sy_world s) c = Some (FFile content)" "up_bytes_received row = int (length acc)"
      "length acc \<le> length content" "take (length acc) content = acc" "int (length content) \<le> up_total_size row"
    using assms(1) by (auto simp: upload_inv_def)
  have effect: "\<exists>content'. fs' = (uw_fs (sy_world s))(c \<mapsto> FFile content') \<and> int (length content') \<le> up_total_size row \<and>
      length acc \<le> length content' \<and> take (length acc) content' = acc \<and>
      (\<forall>n. x = Inr n \<longrightarrow> n = int (length (frames_data body)) \<and> length (acc @ frames_data body) \<le> length content' \<and>
         take (length (acc @ frames_data body)) content' = acc @ frames_data body)"
    if "write_chunk fault row body (uw_fs (sy_world s)) = (x, fs')" for x fs'
  proof (cases "file_open fault (uw_fs (sy_world s)) (up_temp_path row)")
    case (Inl e)
    with that inv show ?thesis by (intro exI [of _ content]) (auto simp: write_chunk_def)
  next
    case (Inr c')
    with inv(2) have "c' = c" by (auto simp: file_open_def split: option.splits)
    moreover have "c \<noteq> []" using inv(3) by (rule last_entry_nonempty)
    ultimately have run: "chunk_frames fault c (up_total_size row) (int (length acc)) body 0 (uw_fs (sy_world s)) = (x, fs')"
      using that Inr inv by (auto simp: write_chunk_def node_at_def)
    have "\<exists>content'. fs' = (uw_fs (sy_world s))(c \<mapsto> FFile content') \<and> int (length content') \<le> up_total_size row \<and>
        take (nat (int (length acc)) + nat 0) content' = take (nat (int (length acc)) + nat 0) content \<and>
        (\<forall>m. x = Inr m \<longrightarrow> m = 0 + int (length (frames_data body)) \<and> nat (int (length acc)) + nat m \<le> length content' \<and>
           take (nat (int (length acc)) + nat m) content' = take (nat (int (length acc)) + nat 0) content @ frames_data body)"
      by (rule chunk_frames_effect [OF run inv(4)]) (use inv in simp_all)
    then obtain content' where c': "fs' = (uw_fs (sy_world s))(c \<mapsto> FFile content')" "int (length content') \<le> up_total_size row"
        "take (length acc) content' = acc"
        "\<forall>m. x = Inr m \<longrightarrow> m = int (length (frames_data body)) \<and> length acc + nat m \<le> length content' \<and>
           take (length acc + nat m) content' = acc @ frames_data body"
      using inv(7) by auto
    from c'(3) have "length acc \<le> length content'" by (metis length_take min.cobounded1)
    moreover have "\<forall>n. x = Inr n \<longrightarrow> n = int (length (frames_data body)) \<and> length (acc @ frames_data body) \<le> length content' \<and>
        take (length (acc @ frames_data body)) content' = acc @ frames_data body"
      using c'(4) by (metis length_append nat_int)
    ultimately show ?thesis using c'(1-3) by blast
  qed
  have place: "canonicalize ((uw_fs (sy_world s))(c \<mapsto> FFile b)) (up_temp_path row) = Inr c \<and>
      last_entry ((uw_fs (sy_world s))(c \<mapsto> FFile b)) (up_temp_path row) = Inr c" for b
    using follow_put [of "uw_fs (sy_world s)" False MAX_LINKS "[]" "up_temp_path row" c c b] last_entry_put [OF inv(3,4)] inv(2,4)
    by (simp add: canonicalize_def)
  from assms(2) show ?thesis
  proof (cases rule: upload_chunk_cases)
    case (early e)
    with assms(1) show ?thesis by simp
  next
    case (failed row' e fs')
    with inv have "row' = row" by simp
    from effect [of "Inl e" fs'] failed(3) this obtain content' where "fs' = (uw_fs (sy_world s))(c \<mapsto> FFile content')"
        "int (length content') \<le> up_total_size row" "length acc \<le> length content'" "take (length acc) content' = acc"
      by auto
    with inv failed place [of content'] \<open>row' = row\<close> have "sql_first (\<lambda>r. up_id r = sid) (uw_sessions (sy_world s')) = Some row \<and>
        canonicalize (uw_fs (sy_world s')) (up_temp_path row) = Inr c \<and> last_entry (uw_fs (sy_world s')) (up_temp_path row) = Inr c \<and>
        uw_fs (sy_world s') c = Some (FFile content') \<and> up_bytes_received row = int (length acc) \<and>
        length acc \<le> length content' \<and> take (length acc) content' = acc \<and> int (length content') \<le> up_total_size row"
      by simp
    then show ?thesis unfolding upload_inv_def failed(1) by (simp only: is_ok_simps if_False) blast
  next
    case (accepted row' n fs' st)
    with inv have "row' = row" by simp
    from effect [of "Inr n" fs'] accepted(3) this obtain content' where "fs' = (uw_fs (sy_world s))(c \<mapsto> FFile content')"
        "int (length content') \<le> up_total_size row" "n = int (length (frames_data body))"
        "length (acc @ frames_data body) \<le> length content'" "take (length (acc @ frames_data body)) content' = acc @ frames_data body"
      by auto
    with inv accepted place [of content'] \<open>row' = row\<close> show ?thesis
      unfolding upload_inv_def
      by (intro exI [of _ "row\<lparr>up_bytes_received := up_bytes_received row + n, up_updated_at := now\<rparr>"] exI [of _ c]
          exI [of _ content'])
        (auto simp: sql_first_update dest: sql_first_Some)
  qed
qed

lemma upload_inv_view: "upload_view sid w' = upload_view sid w \<Longrightarrow> upload_inv sid acc w \<Longrightarrow> upload_inv sid acc w'"
  by (auto simp: upload_view_def upload_inv_def map_option_case split: option.splits)

lemma uploading_inv: "uploading app sid acc s \<Longrightarrow> upload_inv sid acc (sy_world s)"
proof (induction rule: uploading.induct)
  case (accepted acc s fault ts now body headers st s')
  then show ?case using chunk_inv [OF accepted.IH accepted.hyps(2)] by simp
next
  case (failed acc s fault ts now body headers e s')
  then show ?case using chunk_inv [OF failed.IH failed.hyps(2)] by simp
qed (auto intro: created_inv upload_inv_view)

section \<open>Delivery\<close>

lemma make_parent_grows:
  assumes "make_parent fault t s = (Inr u, s')"
  shows "\<exists>fs1. uw_fs (sy_world s) \<subseteq>\<^sub>m fs1 \<and> s' = s\<lparr>sy_world := (sy_world s)\<lparr>uw_fs := fs1\<rparr>\<rparr>"
  using assms create_dir_all_grows
  by (auto simp: make_parent_def api_bind_ok split: option.splits if_splits) (metis system.surjective uworld.surjective map_le_refl
      system.update_convs(4) uworld.update_convs(1))+

lemma finalize_steps:
  assumes "finalize_upload_session app fault meta ts sid connect headers s = (Inr res, s')"
  obtains auth p and i :: LinuxIdentity and row destination fs1 fs2 where "as_auth app = Some auth"
    "\<exists>token db. session_token headers = Inr token \<and> authenticate auth (t_authenticate ts) token (sy_db s) = (Inr p, db)"
    "principal_can p ''files.local.write''" "up_owner_user_id row = sp_user_id p"
    "sql_first (\<lambda>r. up_id r = sid) (uw_sessions (sy_world s)) = Some row" "up_bytes_received row = up_total_size row"
    "checksum_ok auth fault (uw_fs (sy_world s)) row = Inr ()"
    "resolve_safe_path (uw_fs (sy_world s)) (components (li_home i)) (up_virtual_path row) = Inr destination"
    "uw_fs (sy_world s) \<subseteq>\<^sub>m fs1" "rename_file fault fs1 (up_temp_path row) destination = Inr fs2"
    "res = (up_virtual_path row, up_total_size row)"
    "sy_world s' = (sy_world s)\<lparr>uw_fs := fs2, uw_sessions := sql_delete (\<lambda>x. up_id x = sid) (uw_sessions (sy_world s))\<rparr>"
proof -
  from assms obtain auth s1 p s2 s3 i s4 row s5 destination u s6 fs2 u' s7 where steps:
      "require_auth_service app s = (Inr auth, s1)" "principal_of app ts headers s1 = (Inr p, s2)"
      "authorize_request auth ts p ''files.local.write'' False connect headers s2 = (Inr (), s3)"
      "mapped_identity app p s3 = (Inr i, s4)"
    and l: "load_session sid (sp_user_id p) s4 = (Inr row, s5)" "up_bytes_received row = up_total_size row"
    and c: "checksum_ok auth fault (uw_fs (sy_world s5)) row = Inr ()"
      "resolve_safe_path (uw_fs (sy_world s5)) (components (li_home i)) (up_virtual_path row) = Inr destination"
      "make_parent fault destination s5 = (Inr u, s6)"
      "rename_file fault (uw_fs (sy_world s6)) (up_temp_path row) destination = Inr fs2"
    and a: "api_auth (audit_action auth (t_complete ts) p ''files.local.upload'' ''file'' (Some (up_virtual_path row))
         ''success'' (meta (up_virtual_path row) (up_total_size row) True) (fst (request_metadata connect headers))
           (snd (request_metadata connect headers)))
        (s6\<lparr>sy_world := (sy_world s6)\<lparr>uw_fs := fs2, uw_sessions := sql_delete (\<lambda>x. up_id x = sid) (uw_sessions (sy_world s6))\<rparr>\<rparr>)
        = (Inr u', s7)"
    and r: "res = (up_virtual_path row, up_total_size row)" "s' = s7"
    by (auto simp: finalize_upload_session_def api_bind_ok Let_def case_prod_beta split: if_splits)
  note start = request_start [OF steps]
  have w5: "s5 = s4" "up_owner_user_id row = sp_user_id p" "sql_first (\<lambda>r. up_id r = sid) (uw_sessions (sy_world s)) = Some row"
    using l(1) start(1) by (auto simp: load_session_def split: option.splits if_splits)
  obtain fs1 where fs1: "uw_fs (sy_world s) \<subseteq>\<^sub>m fs1" "sy_world s6 = (sy_world s)\<lparr>uw_fs := fs1\<rparr>"
    using make_parent_grows [OF c(3)] w5 start(1) by auto
  have "sy_world s7 = (sy_world s)\<lparr>uw_fs := fs2, uw_sessions := sql_delete (\<lambda>x. up_id x = sid) (uw_sessions (sy_world s))\<rparr>"
    using step_worlds(7) [OF a] fs1(2) by simp
  with start w5 l(2) c r fs1 show ?thesis by (intro that [of auth p row i destination fs1 fs2]) auto
qed


section \<open>Abandoned sessions\<close>

lemma fold_drop_sessions:
  "uw_sessions (fold (\<lambda>r w. w\<lparr>uw_fs := drop_temp fault r (uw_fs w),
      uw_sessions := sql_delete (\<lambda>x. up_id x = up_id r) (uw_sessions w)\<rparr>) rs w) =
   filter (\<lambda>x. up_id x \<notin> up_id ` set rs) (uw_sessions w)"
  by (induction rs arbitrary: w) (auto simp: sql_delete_def conj_commute intro: filter_cong)

text \<open>The sweep removes exactly the sessions without a chunk for a day.\<close>

lemma cleanup_removes_idle:
  assumes "distinct (map up_id (uw_sessions w))"
  shows "uw_sessions (cleanup_abandoned_sessions fault now w) = filter (\<lambda>r. up_updated_at r \<ge> now - 86400) (uw_sessions w)"
proof -
  have "up_id x \<in> up_id ` {r \<in> set (uw_sessions w). up_updated_at r < now - 86400} \<longleftrightarrow> up_updated_at x < now - 86400"
    if "x \<in> set (uw_sessions w)" for x
    using that assms by (auto simp: distinct_map inj_on_def)
  then have "filter (\<lambda>x. up_id x \<notin> up_id ` set (filter (\<lambda>r. up_updated_at r < now - 86400) (uw_sessions w))) (uw_sessions w) =
      filter (\<lambda>r. up_updated_at r \<ge> now - 86400) (uw_sessions w)"
    by (intro filter_cong refl) (simp add: not_less)
  then show ?thesis
    by (simp add: cleanup_abandoned_sessions_def ABANDONED_SESSION_TTL_SECS_def Let_def fold_drop_sessions)
qed

section \<open>A concrete upload\<close>

definition demo_meta :: "string \<Rightarrow> int \<Rightarrow> bool \<Rightarrow> int json" where
  "demo_meta path n resumable = JObject []"

definition demo_broken :: faults where
  "demo_broken c = (if c = CallWriteAt 2 then Some (''disk full'', 1) else None)"

definition demo_up1 :: "uworld system" where
  "demo_up1 = snd (create_upload_session demo_files_app no_faults demo_times 20 ''i1'' ''/new'' 5 None ''ip'' demo_headers demo_home)"

definition demo_up2 :: "uworld system" where
  "demo_up2 = snd (upload_chunk demo_files_app no_faults demo_times 21 ''i1'' [FrameData ''he''] demo_headers demo_up1)"

definition demo_up3 :: "uworld system" where
  "demo_up3 = snd (upload_chunk demo_files_app demo_broken demo_times 22 ''i1'' [FrameData ''xyz''] demo_headers demo_up2)"

definition demo_up4 :: "uworld system" where
  "demo_up4 = snd (upload_chunk demo_files_app no_faults demo_times 23 ''i1'' [FrameData ''l'', FrameTrailers, FrameData ''lo''] demo_headers demo_up3)"

lemma demo_uploaded:
  "is_ok (fst (create_upload_session demo_files_app no_faults demo_times 20 ''i1'' ''/new'' 5 None ''ip'' demo_headers demo_home))"
  "is_ok (fst (upload_chunk demo_files_app no_faults demo_times 21 ''i1'' [FrameData ''he''] demo_headers demo_up1))"
  "\<not> is_ok (fst (upload_chunk demo_files_app demo_broken demo_times 22 ''i1'' [FrameData ''xyz''] demo_headers demo_up2))"
  "is_ok (fst (upload_chunk demo_files_app no_faults demo_times 23 ''i1'' [FrameData ''l'', FrameTrailers, FrameData ''lo'']
     demo_headers demo_up3))"
  "fst (finalize_upload_session demo_files_app no_faults demo_meta demo_times ''i1'' ''ip'' demo_headers demo_up4) = Inr (''/new'', 5)"
  by code_simp+

lemma ok_pair: "is_ok (fst x) \<Longrightarrow> \<exists>a. x = (Inr a, snd x)" "\<not> is_ok (fst x) \<Longrightarrow> \<exists>e. x = (Inl e, snd x)"
  by (cases x; cases "fst x"; auto simp: is_ok_def)+

lemma demo_uploading: "uploading demo_files_app ''i1'' ''hello'' demo_up4"
proof -
  have "last p \<in> {''out'', ''dangling''}" if "demo_tree p = Some (FLink t)" for p t
    using that by (auto simp: demo_tree_def split: if_splits)
  from this [of "d @ [''i1.part'']" for d]
  have "uw_fs (sy_world demo_home) (d @ [''i1'' @ ''.part'']) \<noteq> Some (FLink t)" for d t
    by (auto simp: demo_home_def)
  with ok_pair(1) [OF demo_uploaded(1)] have "uploading demo_files_app ''i1'' [] demo_up1"
    unfolding demo_up1_def by (metis uploading.created zero_le_numeral)
  with ok_pair(1) [OF demo_uploaded(2)] have "uploading demo_files_app ''i1'' ([] @ frames_data [FrameData ''he'']) demo_up2"
    unfolding demo_up2_def by (metis uploading.accepted)
  with ok_pair(2) [OF demo_uploaded(3)] have "uploading demo_files_app ''i1'' ([] @ frames_data [FrameData ''he'']) demo_up3"
    unfolding demo_up3_def by (metis uploading.failed)
  with ok_pair(1) [OF demo_uploaded(4)] have "uploading demo_files_app ''i1''
      (([] @ frames_data [FrameData ''he'']) @ frames_data [FrameData ''l'', FrameTrailers, FrameData ''lo'']) demo_up4"
    unfolding demo_up4_def by (metis uploading.accepted)
  then show ?thesis by simp
qed


section \<open>Ways out of the home\<close>

text \<open>
  When the parent of the target does not exist yet, nothing above it is checked: through a link to a directory outside
  the home the upload creates directories and a file there.
\<close>

lemma upload_escapes_through_link:
  "uw_fs (sy_world (snd (upload_local_file demo_files_app no_faults demo_meta demo_times ''/out/new/x'' [FrameData ''hi''] ''ip''
     demo_headers demo_home))) [''srv'', ''new'', ''x''] = Some (FFile ''hi'')"
  by code_simp

text \<open>A dangling link counts as a missing file, and creating the file follows it.\<close>

lemma upload_escapes_through_dangling_link:
  "uw_fs (sy_world (snd (upload_local_file demo_files_app no_faults demo_meta demo_times ''/dangling'' [FrameData ''hi''] ''ip''
     demo_headers demo_home))) [''srv'', ''new''] = Some (FFile ''hi'')"
  by code_simp

text \<open>Where the parent of a new target exists, the file ends up below the home, links to the target itself apart.\<close>

lemma new_upload_confined:
  assumes "resolve_safe_path fs root v = Inr t" "canonicalize fs root = Inr r"
    and "\<not> path_exists fs t" "path_parent t = Some p" "path_exists fs p" "last_entry fs t = Inr c" "\<not> is_link (fs c)"
    and "file_create fault fs t = Inr (c', fs')"
  shows "prefix r c' \<and> fs' = fs(c' \<mapsto> FFile [])"
proof -
  from assms(1) show ?thesis
  proof (cases rule: resolve_safe_path_cases)
    case (existing r' c'' relative)
    with assms(3) show ?thesis by (simp add: path_exists_def)
  next
    case (new r' relative)
    obtain n d where t: "t \<noteq> []" "last t = Normal n" "canonicalize fs (butlast t) = Inr d" "c = d @ [n]"
      using assms(6) by (auto simp: last_entry_def res_bind_ok split: path_component.splits if_splits)
    then have "p = butlast t" using assms(4) by (auto simp: path_parent_def split: if_splits)
    with new(4) [OF assms(4)] t(3) new(1) assms(2) have "prefix r d" by simp
    moreover from assms(8) have f: "follow fs True MAX_LINKS [] t = Inr c'" "fs' = fs(c' \<mapsto> FFile [])"
      by (auto simp: file_create_def res_bind_ok split: if_splits option.splits)
    have "t = butlast t @ [Normal n]" using t(1,2) append_butlast_last_id by metis
    with f(1) follow_split [of fs True MAX_LINKS "[]" "butlast t" "[Normal n]" c'] obtain d' fuel where
      "follow fs False MAX_LINKS [] (butlast t) = Inr d'" "follow fs True fuel d' [Normal n] = Inr c'" by auto
    with t(3,4) assms(7) have "c' = c" by (auto simp: canonicalize_def is_link_def split: option.splits fnode.splits if_splits)
    ultimately show ?thesis using f t(4) by auto
  qed
qed

end
