(* ===== verification/Egress_Proxy.thy ===== *)
theory Egress_Proxy
  imports Prelude "HOL-Library.Word" "HOL-Library.Sublist"
begin

unbundle bit_operations_syntax

text \<open>
  The proxy through which the browser runtime reaches the network (\<open>services/clouddeskd/src/browser_egress_proxy.rs\<close>):
  its address policy on the octets and segments of addresses, and the whole handling of a connection. What the client
  sends is the list of its reads; name resolution, connecting and the replacement of invalid UTF-8 are parameters; the
  copying between two open connections is one event.
\<close>

section \<open>Addresses\<close>

datatype Ipv4Addr = Ipv4 "8 word" "8 word" "8 word" "8 word"

datatype Ipv6Addr = Ipv6 "16 word" "16 word" "16 word" "16 word" "16 word" "16 word" "16 word" "16 word"

datatype IpAddr = V4 Ipv4Addr | V6 Ipv6Addr

record SocketAddr =
  sa_ip :: IpAddr
  sa_port :: nat

fun is_loopback_v4 :: "Ipv4Addr \<Rightarrow> bool" where
  "is_loopback_v4 (Ipv4 a b c d) \<longleftrightarrow> a = 127"

fun is_link_local_v4 :: "Ipv4Addr \<Rightarrow> bool" where
  "is_link_local_v4 (Ipv4 a b c d) \<longleftrightarrow> a = 169 \<and> b = 254"

fun is_private_v4 :: "Ipv4Addr \<Rightarrow> bool" where
  "is_private_v4 (Ipv4 a b c d) \<longleftrightarrow> a = 10 \<or> a = 172 \<and> 16 \<le> b \<and> b \<le> 31 \<or> a = 192 \<and> b = 168"

fun is_unspecified_v4 :: "Ipv4Addr \<Rightarrow> bool" where
  "is_unspecified_v4 (Ipv4 a b c d) \<longleftrightarrow> a = 0 \<and> b = 0 \<and> c = 0 \<and> d = 0"

fun is_broadcast_v4 :: "Ipv4Addr \<Rightarrow> bool" where
  "is_broadcast_v4 (Ipv4 a b c d) \<longleftrightarrow> a = 255 \<and> b = 255 \<and> c = 255 \<and> d = 255"

fun is_documentation_v4 :: "Ipv4Addr \<Rightarrow> bool" where
  "is_documentation_v4 (Ipv4 a b c d) \<longleftrightarrow>
     a = 192 \<and> b = 0 \<and> c = 2 \<or> a = 198 \<and> b = 51 \<and> c = 100 \<or> a = 203 \<and> b = 0 \<and> c = 113"

fun octets0 :: "Ipv4Addr \<Rightarrow> 8 word" where
  "octets0 (Ipv4 a b c d) = a"

fun octets1 :: "Ipv4Addr \<Rightarrow> 8 word" where
  "octets1 (Ipv4 a b c d) = b"

definition is_blocked_v4 :: "Ipv4Addr \<Rightarrow> bool" where
  "is_blocked_v4 ip \<longleftrightarrow>
     is_loopback_v4 ip \<or> is_link_local_v4 ip \<or> is_private_v4 ip \<or> is_unspecified_v4 ip \<or> is_broadcast_v4 ip \<or>
     is_documentation_v4 ip \<or> octets0 ip = 100 \<and> 64 \<le> octets1 ip \<and> octets1 ip \<le> 127"

fun segments0 :: "Ipv6Addr \<Rightarrow> 16 word" where
  "segments0 (Ipv6 s0 s1 s2 s3 s4 s5 s6 s7) = s0"

definition to_ipv4_mapped :: "Ipv6Addr \<Rightarrow> Ipv4Addr option" where
  "to_ipv4_mapped ip =
     (case ip of Ipv6 s0 s1 s2 s3 s4 s5 s6 s7 \<Rightarrow>
        if s0 = 0 \<and> s1 = 0 \<and> s2 = 0 \<and> s3 = 0 \<and> s4 = 0 \<and> s5 = 0xffff
        then Some (Ipv4 (ucast (drop_bit 8 s6)) (ucast s6) (ucast (drop_bit 8 s7)) (ucast s7)) else None)"

definition is_blocked_v6 :: "Ipv6Addr \<Rightarrow> bool" where
  "is_blocked_v6 ip \<longleftrightarrow>
     ip = Ipv6 0 0 0 0 0 0 0 1 \<or> ip = Ipv6 0 0 0 0 0 0 0 0 \<or>
     segments0 ip AND 0xfe00 = 0xfc00 \<or> segments0 ip AND 0xffc0 = 0xfe80 \<or>
     (case to_ipv4_mapped ip of None \<Rightarrow> False | Some v4 \<Rightarrow> is_blocked_v4 v4)"

text \<open>The allow list that only tests fill.\<close>

definition is_test_allowed :: "Ipv4Addr list \<Rightarrow> IpAddr \<Rightarrow> bool" where
  "is_test_allowed allowlist ip \<longleftrightarrow> (case ip of V4 v4 \<Rightarrow> v4 \<in> set allowlist | V6 _ \<Rightarrow> False)"

definition is_blocked_destination :: "Ipv4Addr list \<Rightarrow> IpAddr \<Rightarrow> bool" where
  "is_blocked_destination allowlist ip \<longleftrightarrow>
     (if is_test_allowed allowlist ip then False
      else case ip of V4 v4 \<Rightarrow> is_blocked_v4 v4 | V6 v6 \<Rightarrow> is_blocked_v6 v6)"

definition all_safe :: "Ipv4Addr list \<Rightarrow> SocketAddr list \<Rightarrow> bool" where
  "all_safe allowlist addrs \<longleftrightarrow> addrs \<noteq> [] \<and> list_all (\<lambda>a. \<not> is_blocked_destination allowlist (sa_ip a)) addrs"

section \<open>Reading\<close>

definition MAX_REQUEST_LINE_BYTES :: nat where
  "MAX_REQUEST_LINE_BYTES = 8192"

text \<open>What the client sends, one element per arrival; \<open>None\<close> is an error. A read takes at most \<open>n\<close> bytes.\<close>

type_synonym client = "bytes option list"

fun client_read :: "nat \<Rightarrow> client \<Rightarrow> bytes option \<times> client" where
  "client_read n [] = (None, [])"
| "client_read n (None # cs) = (None, cs)"
| "client_read n (Some b # cs) =
     (if b = [] then (None, cs) else if length b \<le> n then (Some b, cs) else (Some (take n b), Some (drop n b) # cs))"

definition client_size :: "client \<Rightarrow> nat" where
  "client_size cs = (\<Sum>c\<leftarrow>cs. Suc (case c of None \<Rightarrow> 0 | Some b \<Rightarrow> length b))"

lemma client_read_less: "client_read n cs = (Some b, cs') \<Longrightarrow> 0 < n \<Longrightarrow> client_size cs' < client_size cs"
  by (induction n cs rule: client_read.induct) (auto simp: client_size_def split: if_splits)

text \<open>The position of the first occurrence of a pattern, as \<open>windows(n).position(..)\<close> finds it.\<close>

fun position_of :: "bytes \<Rightarrow> bytes \<Rightarrow> nat option" where
  "position_of pat [] = (if pat = [] then Some 0 else None)"
| "position_of pat (c # cs) = (if prefix pat (c # cs) then Some 0 else map_option Suc (position_of pat cs))"

definition CRLF :: bytes where
  "CRLF = [CHR 0x0D, CHR 0x0A]"

definition find_header_end :: "bytes \<Rightarrow> nat option" where
  "find_header_end buf = map_option (\<lambda>p. p + 4) (position_of (CRLF @ CRLF) buf)"

datatype 'a read_result = Closed | TooLong | Done 'a

text \<open>The loop that reads the request line: the bytes read, and where the line ends.\<close>

function read_line :: "bytes \<Rightarrow> client \<Rightarrow> (bytes \<times> nat) read_result \<times> client" where
  "read_line buf cs =
     (case client_read 2048 cs of
        (None, cs') \<Rightarrow> (Closed, cs')
      | (Some b, cs') \<Rightarrow>
        (case position_of CRLF (buf @ b) of
           Some pos \<Rightarrow> (Done (buf @ b, pos + 2), cs')
         | None \<Rightarrow>
           if length (buf @ b) > MAX_REQUEST_LINE_BYTES then (TooLong, cs')
           else read_line (buf @ b) cs'))"
  by pat_completeness auto
termination
  by (relation "measure (\<lambda>(buf, cs). client_size cs)") (auto dest: client_read_less [OF sym])

declare read_line.simps [simp del]

text \<open>The loop of \<open>handle_plain_http\<close> that completes the headers.\<close>

function read_headers :: "bytes \<Rightarrow> client \<Rightarrow> (bytes \<times> nat) read_result \<times> client" where
  "read_headers headers cs =
     (case find_header_end headers of
        Some pos \<Rightarrow> (Done (headers, pos), cs)
      | None \<Rightarrow>
        if length headers > MAX_REQUEST_LINE_BYTES then (TooLong, cs)
        else
          (case client_read 4096 cs of
             (None, cs') \<Rightarrow> (Closed, cs')
           | (Some b, cs') \<Rightarrow> read_headers (headers @ b) cs'))"
  by pat_completeness auto
termination
  by (relation "measure (\<lambda>(headers, cs). client_size cs)") (auto dest: client_read_less [OF sym])

declare read_headers.simps [simp del]

text \<open>The loop that drains the headers of a \<open>CONNECT\<close>.\<close>

function drain_headers :: "bytes \<Rightarrow> client \<Rightarrow> client" where
  "drain_headers discard cs =
     (if find_header_end discard = None \<and> length discard \<le> MAX_REQUEST_LINE_BYTES
      then case client_read 2048 cs of
          (None, cs') \<Rightarrow> cs'
        | (Some b, cs') \<Rightarrow> drain_headers (discard @ b) cs'
      else cs)"
  by pat_completeness auto
termination
  by (relation "measure (\<lambda>(discard, cs). client_size cs)") (auto dest: client_read_less [OF sym])

declare drain_headers.simps [simp del]

section \<open>Connections\<close>

datatype event = EvReply string | EvDial SocketAddr | EvForward bytes | EvTunnel

record egress_env =
  ee_allowlist :: "Ipv4Addr list"
  ee_resolve :: "string \<Rightarrow> nat \<Rightarrow> string + SocketAddr list"
  ee_connect :: "SocketAddr \<Rightarrow> bool" \<comment> \<open>within the time limit\<close>
  ee_client_write :: bool
  ee_upstream_write :: bool
  ee_lossy :: "bytes \<Rightarrow> string"

definition write_error :: "string \<Rightarrow> event list" where
  "write_error status_line = [EvReply status_line]"

text \<open>The checks that both kinds of requests share, up to the open connection.\<close>

definition dial :: "egress_env \<Rightarrow> string \<Rightarrow> nat \<Rightarrow> event list + SocketAddr" where
  "dial env host port =
     (case ee_resolve env host port of
        Inl _ \<Rightarrow> Inl (write_error ''HTTP/1.1 502 Bad Gateway'')
      | Inr addrs \<Rightarrow>
        if \<not> all_safe (ee_allowlist env) addrs then Inl (write_error ''HTTP/1.1 403 Forbidden'')
        else case addrs of
            [] \<Rightarrow> Inl (write_error ''HTTP/1.1 502 Bad Gateway'')
          | addr # _ \<Rightarrow>
            if ee_connect env addr then Inr addr
            else Inl (EvDial addr # write_error ''HTTP/1.1 502 Bad Gateway''))"

definition handle_connect :: "egress_env \<Rightarrow> string \<Rightarrow> nat \<Rightarrow> event list" where
  "handle_connect env host port =
     (case dial env host port of
        Inl evs \<Rightarrow> evs
      | Inr addr \<Rightarrow>
        EvDial addr #
        (if ee_client_write env then [EvReply ''HTTP/1.1 200 Connection Established'', EvTunnel] else []))"

definition rsplit_once :: "char \<Rightarrow> string \<Rightarrow> (string \<times> string) option" where
  "rsplit_once c s =
     (if c \<in> set s
      then Some (rev (tl (dropWhile (\<lambda>x. x \<noteq> c) (rev s))), rev (takeWhile (\<lambda>x. x \<noteq> c) (rev s))) else None)"

text \<open>\<open>str::lines\<close>: split at line feeds, without a carriage return before them and without an empty last line.\<close>

definition text_lines :: "string \<Rightarrow> string list" where
  "text_lines s =
     (let ls = split_char (CHR 0x0A) s; ls' = (if last ls = [] then butlast ls else ls) in
      map (\<lambda>l. if l \<noteq> [] \<and> last l = CHR 0x0D then butlast l else l) ls')"

definition strip_start :: "string \<Rightarrow> string \<Rightarrow> string option" where
  "strip_start p s = (if prefix p s then Some (drop (length p) s) else None)"

fun find_map :: "('a \<Rightarrow> 'b option) \<Rightarrow> 'a list \<Rightarrow> 'b option" where
  "find_map f [] = None"
| "find_map f (x # xs) = (case f x of None \<Rightarrow> find_map f xs | Some y \<Rightarrow> Some y)"

definition host_header :: "string \<Rightarrow> string option" where
  "host_header text_block =
     map_option trim (find_map (\<lambda>line. case strip_start ''Host:'' line of
         Some v \<Rightarrow> Some v | None \<Rightarrow> strip_start ''host:'' line) (text_lines text_block))"

definition split_host :: "string \<Rightarrow> string \<times> nat" where
  "split_host h =
     (case rsplit_once CHR '':'' h of
        Some (host, p) \<Rightarrow> (host, case parse_unsigned 65535 p of None \<Rightarrow> 80 | Some n \<Rightarrow> n)
      | None \<Rightarrow> (h, 80))"

definition handle_plain_http :: "egress_env \<Rightarrow> string \<Rightarrow> bytes \<Rightarrow> client \<Rightarrow> event list" where
  "handle_plain_http env request_line rest cs =
     (case read_headers rest cs of
        (TooLong, _) \<Rightarrow> write_error ''HTTP/1.1 431 Request Header Fields Too Large''
      | (Closed, _) \<Rightarrow> write_error ''HTTP/1.1 400 Bad Request''
      | (Done (headers, header_end), _) \<Rightarrow>
        (case host_header (ee_lossy env (take header_end headers)) of
           None \<Rightarrow> write_error ''HTTP/1.1 400 Bad Request''
         | Some h \<Rightarrow>
           (case split_host h of (host, port) \<Rightarrow>
              (case dial env host port of
                 Inl evs \<Rightarrow> evs
               | Inr addr \<Rightarrow>
                 [EvDial addr, EvForward (request_line @ headers)] @ (if ee_upstream_write env then [EvTunnel] else [])))))"

text \<open>\<open>str::split_whitespace\<close>.\<close>

fun split_whitespace :: "string \<Rightarrow> string list" where
  "split_whitespace [] = []"
| "split_whitespace (c # cs) =
     (if is_whitespace c then split_whitespace cs
      else case cs of
          [] \<Rightarrow> [[c]]
        | d # _ \<Rightarrow>
          if is_whitespace d then [c] # split_whitespace cs
          else case split_whitespace cs of [] \<Rightarrow> [[c]] | w # ws \<Rightarrow> (c # w) # ws)"

definition eq_ignore_case :: "string \<Rightarrow> string \<Rightarrow> bool" where
  "eq_ignore_case a b \<longleftrightarrow> to_lowercase a = to_lowercase b"

definition trim_end :: "string \<Rightarrow> string" where
  "trim_end s = rev (dropWhile is_whitespace (rev s))"

definition connect_target :: "string \<Rightarrow> (string \<times> nat) option" where
  "connect_target target =
     (case rsplit_once CHR '':'' target of
        None \<Rightarrow> None
      | Some (h, p) \<Rightarrow> map_option (\<lambda>port. (h, port)) (parse_unsigned 65535 (trim_end p)))"

definition handle_connection :: "egress_env \<Rightarrow> client \<Rightarrow> event list" where
  "handle_connection env cs =
     (case read_line [] cs of
        (Closed, _) \<Rightarrow> []
      | (TooLong, _) \<Rightarrow> write_error ''HTTP/1.1 414 URI Too Long''
      | (Done (buf, line_end), cs1) \<Rightarrow>
        let request_line = ee_lossy env (take line_end buf); rest = drop line_end buf;
            parts = split_whitespace request_line;
            method = (case parts of [] \<Rightarrow> [] | w # _ \<Rightarrow> w);
            target = (case parts of _ # w # _ \<Rightarrow> w | _ \<Rightarrow> []) in
        if eq_ignore_case method ''CONNECT'' then
          (case connect_target target of
             None \<Rightarrow> write_error ''HTTP/1.1 400 Bad Request''
           | Some (host, port) \<Rightarrow>
             let cs2 = drain_headers rest cs1 in handle_connect env host port)
        else if list_ex (eq_ignore_case method) [''GET'', ''HEAD'', ''POST'', ''PUT'', ''OPTIONS''] then
          handle_plain_http env request_line rest cs1
        else write_error ''HTTP/1.1 405 Method Not Allowed'')"

end
