(* ===== verification/Egress_Properties.thy ===== *)
theory Egress_Properties
  imports Egress_Proxy
begin

text \<open>
  The policy of the egress proxy blocks exactly a list of networks, and the proxy never dials an address in one of them.
\<close>

section \<open>Networks\<close>

text \<open>An address as a number, and a network as an address with the length of its prefix.\<close>

fun ipv4_value :: "Ipv4Addr \<Rightarrow> nat" where
  "ipv4_value (Ipv4 a b c d) = unat a * 2 ^ 24 + unat b * 2 ^ 16 + unat c * 2 ^ 8 + unat d"

fun ipv6_value :: "Ipv6Addr \<Rightarrow> nat" where
  "ipv6_value (Ipv6 s0 s1 s2 s3 s4 s5 s6 s7) =
     unat s0 * 2 ^ 112 + unat s1 * 2 ^ 96 + unat s2 * 2 ^ 80 + unat s3 * 2 ^ 64 + unat s4 * 2 ^ 48 + unat s5 * 2 ^ 32 +
     unat s6 * 2 ^ 16 + unat s7"

definition in_net :: "nat \<Rightarrow> nat \<Rightarrow> nat \<times> nat \<Rightarrow> bool" where
  "in_net width v net = (v div 2 ^ (width - snd net) = fst net div 2 ^ (width - snd net))"

definition reserved_v4 :: "(nat \<times> nat) list" where
  "reserved_v4 =
     [(127 * 2 ^ 24, 8), (169 * 2 ^ 24 + 254 * 2 ^ 16, 16), (10 * 2 ^ 24, 8), (172 * 2 ^ 24 + 16 * 2 ^ 16, 12),
      (192 * 2 ^ 24 + 168 * 2 ^ 16, 16), (0, 32), (2 ^ 32 - 1, 32), (192 * 2 ^ 24 + 2 * 2 ^ 8, 24),
      (198 * 2 ^ 24 + 51 * 2 ^ 16 + 100 * 2 ^ 8, 24), (203 * 2 ^ 24 + 113 * 2 ^ 8, 24), (100 * 2 ^ 24 + 64 * 2 ^ 16, 10)]"

definition reserved_v6 :: "(nat \<times> nat) list" where
  "reserved_v6 = [(1, 128), (0, 128), (0xfc00 * 2 ^ 112, 7), (0xfe80 * 2 ^ 112, 10)]"

definition reserved_ip :: "IpAddr \<Rightarrow> bool" where
  "reserved_ip ip \<longleftrightarrow>
     (case ip of
        V4 v4 \<Rightarrow> list_ex (in_net 32 (ipv4_value v4)) reserved_v4
      | V6 v6 \<Rightarrow>
        list_ex (in_net 128 (ipv6_value v6)) reserved_v6 \<or>
        ipv6_value v6 div 2 ^ 32 = 0xffff \<and> list_ex (in_net 32 (ipv6_value v6 mod 2 ^ 32)) reserved_v4)"

lemma blocked_v4_octets:
  "is_blocked_v4 (Ipv4 a b c d) \<longleftrightarrow>
     unat a = 127 \<or> unat a = 169 \<and> unat b = 254 \<or> unat a = 10 \<or> unat a = 172 \<and> 16 \<le> unat b \<and> unat b \<le> 31 \<or>
     unat a = 192 \<and> unat b = 168 \<or> unat a = 0 \<and> unat b = 0 \<and> unat c = 0 \<and> unat d = 0 \<or>
     unat a = 255 \<and> unat b = 255 \<and> unat c = 255 \<and> unat d = 255 \<or>
     unat a = 192 \<and> unat b = 0 \<and> unat c = 2 \<or> unat a = 198 \<and> unat b = 51 \<and> unat c = 100 \<or>
     unat a = 203 \<and> unat b = 0 \<and> unat c = 113 \<or> unat a = 100 \<and> 64 \<le> unat b \<and> unat b \<le> 127"
  by (simp add: is_blocked_v4_def word_unat_eq_iff word_le_nat_alt)

lemma v4_prefixes:
  assumes "a < 256" "b < 256" "c < 256" "d < (256::nat)"
  defines "v \<equiv> a * 2 ^ 24 + b * 2 ^ 16 + c * 2 ^ 8 + d"
  shows "v div 2 ^ 24 = a" "v div 2 ^ 16 = 256 * a + b" "v div 2 ^ 8 = 65536 * a + 256 * b + c"
    "v div 2 ^ 20 = 16 * a + b div 16" "v div 2 ^ 22 = 4 * a + b div 64"
  using assms(1-4) unfolding v_def by simp_all

lemma octet_bound: "unat (w :: 8 word) < 256" and segment_bound: "unat (x :: 16 word) < 65536"
  using unsigned_less [where 'a = nat, of w] unsigned_less [where 'a = nat, of x] by simp_all

lemma digits_eq:
  assumes "b < m" "k < m"
  shows "m * a + b = m * h + k \<longleftrightarrow> a = h \<and> b = (k :: nat)"
proof
  assume e: "m * a + b = m * h + k"
  then have "(m * a + b) div m = (m * h + k) div m" by simp
  then have "a = h" using assms by simp
  with e show "a = h \<and> b = k" by simp
qed simp

lemmas two_octets = digits_eq [where m = 256]

lemma three_octets:
  assumes "b < 256" "c < 256" "k < 256" "l < (256 :: nat)"
  shows "65536 * a + 256 * b + c = 65536 * h + 256 * k + l \<longleftrightarrow> a = h \<and> b = k \<and> c = l"
  using two_octets [of c l "256 * a + b" "256 * h + k"] two_octets [of b k a h] assms by auto

lemma in_net_v4:
  assumes "a < 256" "b < 256" "c < 256" "d < (256::nat)"
  defines "v \<equiv> a * 2 ^ 24 + b * 2 ^ 16 + c * 2 ^ 8 + d"
  shows "in_net 32 v (h * 2 ^ 24, 8) \<longleftrightarrow> a = h"
    and "k < 256 \<Longrightarrow> in_net 32 v (h * 2 ^ 24 + k * 2 ^ 16, 16) \<longleftrightarrow> a = h \<and> b = k"
    and "k < 256 \<Longrightarrow> l < 256 \<Longrightarrow> in_net 32 v (h * 2 ^ 24 + k * 2 ^ 16 + l * 2 ^ 8, 24) \<longleftrightarrow> a = h \<and> b = k \<and> c = l"
    and "in_net 32 v (172 * 2 ^ 24 + 16 * 2 ^ 16, 12) \<longleftrightarrow> a = 172 \<and> 16 \<le> b \<and> b \<le> 31"
    and "in_net 32 v (100 * 2 ^ 24 + 64 * 2 ^ 16, 10) \<longleftrightarrow> a = 100 \<and> 64 \<le> b \<and> b \<le> 127"
    and "in_net 32 v (0, 32) \<longleftrightarrow> a = 0 \<and> b = 0 \<and> c = 0 \<and> d = 0"
    and "in_net 32 v (2 ^ 32 - 1, 32) \<longleftrightarrow> a = 255 \<and> b = 255 \<and> c = 255 \<and> d = 255"
proof -
  note p = v4_prefixes [OF assms(1-4), folded v_def]
  show "in_net 32 v (h * 2 ^ 24, 8) \<longleftrightarrow> a = h" using p(1) by (simp add: in_net_def)
  show "in_net 32 v (h * 2 ^ 24 + k * 2 ^ 16, 16) \<longleftrightarrow> a = h \<and> b = k" if "k < 256"
    using p(2) two_octets [OF assms(2) that, of a h] by (simp add: in_net_def)
  show "in_net 32 v (h * 2 ^ 24 + k * 2 ^ 16 + l * 2 ^ 8, 24) \<longleftrightarrow> a = h \<and> b = k \<and> c = l" if "k < 256" "l < 256"
    using p(3) three_octets [OF assms(2,3) that, of a h] by (simp add: in_net_def)
  show "in_net 32 v (172 * 2 ^ 24 + 16 * 2 ^ 16, 12) \<longleftrightarrow> a = 172 \<and> 16 \<le> b \<and> b \<le> 31"
    using p(4) digits_eq [of "b div 16" 16 1 a 172] div_nat_eqI [of 16 1 b] assms(2)
    by (simp add: in_net_def) linarith
  show "in_net 32 v (100 * 2 ^ 24 + 64 * 2 ^ 16, 10) \<longleftrightarrow> a = 100 \<and> 64 \<le> b \<and> b \<le> 127"
    using p(5) digits_eq [of "b div 64" 4 1 a 100] div_nat_eqI [of 64 1 b] assms(2)
    by (simp add: in_net_def) linarith
  show "in_net 32 v (0, 32) \<longleftrightarrow> a = 0 \<and> b = 0 \<and> c = 0 \<and> d = 0"
    by (simp add: in_net_def v_def)
  show "in_net 32 v (2 ^ 32 - 1, 32) \<longleftrightarrow> a = 255 \<and> b = 255 \<and> c = 255 \<and> d = 255"
    using assms(1-4) by (simp add: in_net_def v_def) linarith
qed

lemma blocked_v4_reserved: "is_blocked_v4 ip \<longleftrightarrow> list_ex (in_net 32 (ipv4_value ip)) reserved_v4"
proof (cases ip)
  case (Ipv4 a b c d)
  note n = in_net_v4 [OF octet_bound [of a] octet_bound [of b] octet_bound [of c] octet_bound [of d]]
  show ?thesis
    using n(2) [of 254 169] n(2) [of 168 192] n(3) [of 0 2 192] n(3) [of 51 100 198] n(3) [of 0 113 203]
    unfolding Ipv4 blocked_v4_octets ipv4_value.simps reserved_v4_def
    by (simp only: list_ex_iff list.set bex_simps n(1,4-7)) auto
qed

lemma masked_segment:
  fixes w :: "16 word"
  assumes "n < 16"
  shows "unat (w AND NOT (mask n)) = 2 ^ n * (unat w div 2 ^ n)"
proof -
  have "w AND NOT (mask n) = push_bit n (drop_bit n w)"
    by (rule bit_word_eqI) (auto simp: bit_simps)
  moreover have "2 ^ n * (unat w div 2 ^ n) < 2 ^ 16"
    using le_less_trans [OF times_div_less_eq_dividend segment_bound [of w], of "2 ^ n"] by simp
  moreover have "unat (push_bit n (drop_bit n w)) = 2 ^ n * (unat w div 2 ^ n) mod 2 ^ 16"
    using assms by (simp only: unsigned_push_bit_eq unsigned_drop_bit_eq)
      (use segment_bound [of w] in \<open>simp add: push_bit_eq_mult take_bit_eq_mod drop_bit_eq_div mult.commute\<close>)
  ultimately show ?thesis by simp
qed

lemma segment_nets:
  fixes w :: "16 word"
  shows "w AND 0xfe00 = 0xfc00 \<longleftrightarrow> unat w div 2 ^ 9 = 126" "w AND 0xffc0 = 0xfe80 \<longleftrightarrow> unat w div 2 ^ 6 = 1018"
proof -
  have m: "(0xfe00 :: 16 word) = NOT (mask 9)" "(0xffc0 :: 16 word) = NOT (mask 6)" by (simp_all add: mask_eq_exp_minus_1)
  show "w AND 0xfe00 = 0xfc00 \<longleftrightarrow> unat w div 2 ^ 9 = 126" "w AND 0xffc0 = 0xfe80 \<longleftrightarrow> unat w div 2 ^ 6 = 1018"
    using masked_segment [of 9 w] masked_segment [of 6 w] unfolding m by (simp_all add: word_unat_eq_iff flip: m)
qed

lemma v6_parts:
  fixes s0 s1 s2 s3 s4 s5 s6 s7 :: nat
  assumes "s1 < 65536" "s2 < 65536" "s3 < 65536" "s4 < 65536" "s5 < 65536" "s6 < 65536" "s7 < (65536 :: nat)"
  defines "v \<equiv> s0 * 2 ^ 112 + s1 * 2 ^ 96 + s2 * 2 ^ 80 + s3 * 2 ^ 64 + s4 * 2 ^ 48 + s5 * 2 ^ 32 + s6 * 2 ^ 16 + s7"
  shows "v div 2 ^ 112 = s0" "v div 2 ^ 32 = 0xffff \<longleftrightarrow> s0 = 0 \<and> s1 = 0 \<and> s2 = 0 \<and> s3 = 0 \<and> s4 = 0 \<and> s5 = 0xffff"
    "v mod 2 ^ 32 = s6 * 2 ^ 16 + s7"
    "v = 0 \<longleftrightarrow> s0 = 0 \<and> s1 = 0 \<and> s2 = 0 \<and> s3 = 0 \<and> s4 = 0 \<and> s5 = 0 \<and> s6 = 0 \<and> s7 = 0"
    "v = 1 \<longleftrightarrow> s0 = 0 \<and> s1 = 0 \<and> s2 = 0 \<and> s3 = 0 \<and> s4 = 0 \<and> s5 = 0 \<and> s6 = 0 \<and> s7 = 1"
proof -
  let ?r = "s1 * 2 ^ 96 + s2 * 2 ^ 80 + s3 * 2 ^ 64 + s4 * 2 ^ 48 + s5 * 2 ^ 32 + s6 * 2 ^ 16 + s7"
  have "v = s0 * 2 ^ 112 + ?r" "?r < 2 ^ 112" using assms(1-7) by (simp_all add: v_def)
  then show "v div 2 ^ 112 = s0" by simp
  let ?h = "s0 * 2 ^ 80 + s1 * 2 ^ 64 + s2 * 2 ^ 48 + s3 * 2 ^ 32 + s4 * 2 ^ 16 + s5"
  have h: "v = ?h * 2 ^ 32 + (s6 * 2 ^ 16 + s7)" "s6 * 2 ^ 16 + s7 < 2 ^ 32" using assms(6,7) by (simp_all add: v_def)
  have "v = h * m + l \<Longrightarrow> l < m \<Longrightarrow> v div m = h \<and> v mod m = l" for h m l by auto
  from this [OF h] have q: "v div 2 ^ 32 = ?h" "v mod 2 ^ 32 = s6 * 2 ^ 16 + s7" by blast+
  show "v mod 2 ^ 32 = s6 * 2 ^ 16 + s7" by (rule q(2))
  show "v div 2 ^ 32 = 0xffff \<longleftrightarrow> s0 = 0 \<and> s1 = 0 \<and> s2 = 0 \<and> s3 = 0 \<and> s4 = 0 \<and> s5 = 0xffff"
    unfolding q(1)
  proof
    assume e: "?h = 0xffff"
    then have "s0 = 0" "s1 = 0" "s2 = 0" "s3 = 0" "s4 = 0" by simp_all
    with e show "s0 = 0 \<and> s1 = 0 \<and> s2 = 0 \<and> s3 = 0 \<and> s4 = 0 \<and> s5 = 0xffff" by simp
  qed simp
  show "v = 0 \<longleftrightarrow> s0 = 0 \<and> s1 = 0 \<and> s2 = 0 \<and> s3 = 0 \<and> s4 = 0 \<and> s5 = 0 \<and> s6 = 0 \<and> s7 = 0"
    by (simp add: v_def)
  show "v = 1 \<longleftrightarrow> s0 = 0 \<and> s1 = 0 \<and> s2 = 0 \<and> s3 = 0 \<and> s4 = 0 \<and> s5 = 0 \<and> s6 = 0 \<and> s7 = 1"
  proof
    assume "v = 1"
    then have e: "s0 * 2 ^ 112 + s1 * 2 ^ 96 + s2 * 2 ^ 80 + s3 * 2 ^ 64 + s4 * 2 ^ 48 + s5 * 2 ^ 32 + s6 * 2 ^ 16 + s7 = 1"
      by (simp only: v_def)
    then have "s0 = 0" "s1 = 0" "s2 = 0" "s3 = 0" "s4 = 0" "s5 = 0" "s6 = 0" by simp_all
    with e show "s0 = 0 \<and> s1 = 0 \<and> s2 = 0 \<and> s3 = 0 \<and> s4 = 0 \<and> s5 = 0 \<and> s6 = 0 \<and> s7 = 1" by simp
  qed (simp add: v_def)
qed

lemma mapped_value: "ipv4_value (Ipv4 (ucast (drop_bit 8 x)) (ucast x) (ucast (drop_bit 8 y)) (ucast y)) = unat x * 2 ^ 16 + unat y"
  for x y :: "16 word"
proof -
  have a: "unat (ucast (drop_bit 8 w) :: 8 word) = unat w div 256" "unat (ucast w :: 8 word) = unat w mod 256" for w :: "16 word"
    using segment_bound [of w]
    by (simp_all add: unsigned_ucast_eq drop_bit_eq_div take_bit_eq_mod unat_div)
  have "q * 2 ^ 24 + r * 2 ^ 16 + q' * 2 ^ 8 + r' = (q * 256 + r) * 2 ^ 16 + (q' * 256 + r')" for q r q' r' :: nat
    by simp
  then show ?thesis
    unfolding ipv4_value.simps a(1) unfolding a(2) by (simp only: div_mult_mod_eq)
qed

lemma blocked_v6_reserved: "is_blocked_v6 ip \<longleftrightarrow> reserved_ip (V6 ip)"
proof (cases ip)
  case (Ipv6 s0 s1 s2 s3 s4 s5 s6 s7)
  note b = segment_bound
  note p = v6_parts [OF b [of s1] b [of s2] b [of s3] b [of s4] b [of s5] b [of s6] b [of s7], of "unat s0"]
  let ?v = "ipv6_value ip"
  have nets: "in_net 128 ?v (1, 128) \<longleftrightarrow> ip = Ipv6 0 0 0 0 0 0 0 1" "in_net 128 ?v (0, 128) \<longleftrightarrow> ip = Ipv6 0 0 0 0 0 0 0 0"
    using p(4,5) by (simp_all add: Ipv6 in_net_def word_unat_eq_iff)
  have d: "?v div 2 ^ 112 = unat s0" using p(1) by (simp add: Ipv6)
  have "?v div 2 ^ 121 = unat s0 div 2 ^ 9" "?v div 2 ^ 118 = unat s0 div 2 ^ 6"
    using div_mult2_eq [of ?v "2 ^ 112" "2 ^ 9"] div_mult2_eq [of ?v "2 ^ 112" "2 ^ 6"] unfolding d by simp_all
  then have nets': "in_net 128 ?v (0xfc00 * 2 ^ 112, 7) \<longleftrightarrow> segments0 ip AND 0xfe00 = 0xfc00"
      "in_net 128 ?v (0xfe80 * 2 ^ 112, 10) \<longleftrightarrow> segments0 ip AND 0xffc0 = 0xfe80"
    using segment_nets [of s0] by (simp_all add: Ipv6 in_net_def)
  have "(case to_ipv4_mapped ip of None \<Rightarrow> False | Some v4 \<Rightarrow> is_blocked_v4 v4) \<longleftrightarrow>
      ?v div 2 ^ 32 = 0xffff \<and> list_ex (in_net 32 (?v mod 2 ^ 32)) reserved_v4"
    using p(2,3) mapped_value [of s6 s7]
    by (simp add: Ipv6 to_ipv4_mapped_def blocked_v4_reserved word_unat_eq_iff)
  then show ?thesis
    unfolding is_blocked_v6_def reserved_ip_def reserved_v6_def using nets nets' by auto
qed

text \<open>
  (C32) The address policy of the egress proxy is exactly a list of networks. Outside the allow list of the tests, an
  IPv4 address is blocked if and only if it lies in 127/8, 169.254/16, 10/8, 172.16/12, 192.168/16, 0.0.0.0/32,
  255.255.255.255/32, 192.0.2/24, 198.51.100/24, 203.0.113/24 or 100.64/10; an IPv6 address if and only if it is the
  loopback or the unspecified address, lies in fc00::/7 or fe80::/10, or is an IPv4 address of these networks in the mapped
  form ::ffff:0:0/96. The tests on octets and the bit masks on segments compute membership by prefix.
\<close>

theorem egress_policy_exact:
  "is_blocked_destination allowlist ip \<longleftrightarrow> \<not> is_test_allowed allowlist ip \<and> reserved_ip ip"
  using blocked_v4_reserved blocked_v6_reserved
  by (cases ip) (auto simp: is_blocked_destination_def reserved_ip_def)

section \<open>Connections\<close>

definition is_dial :: "event \<Rightarrow> bool" where
  "is_dial e \<longleftrightarrow> (case e of EvDial _ \<Rightarrow> True | _ \<Rightarrow> False)"

definition opens :: "event \<Rightarrow> bool" where
  "opens e \<longleftrightarrow> (case e of EvTunnel \<Rightarrow> True | EvForward _ \<Rightarrow> True | _ \<Rightarrow> False)"

text \<open>The traces that the policy allows: at most one connection, to the first of addresses that are all safe.\<close>

definition trace_safe :: "egress_env \<Rightarrow> event list \<Rightarrow> bool" where
  "trace_safe env evs \<longleftrightarrow>
     filter is_dial evs = [] \<and> \<not> list_ex opens evs \<or>
     (\<exists>host port addr addrs rest. evs = EvDial addr # rest \<and> filter is_dial rest = [] \<and>
        ee_resolve env host port = Inr (addr # addrs) \<and>
        (\<forall>a\<in>set (addr # addrs). \<not> is_blocked_destination (ee_allowlist env) (sa_ip a)))"

lemma reply_safe: "trace_safe env (write_error t)" "trace_safe env []"
  by (simp_all add: trace_safe_def write_error_def is_dial_def opens_def)

lemma dial_safe:
  assumes "dial env host port = r"
  shows "case r of Inl evs \<Rightarrow> trace_safe env evs
    | Inr addr \<Rightarrow> \<forall>rest. filter is_dial rest = [] \<longrightarrow> trace_safe env (EvDial addr # rest)"
proof (cases "ee_resolve env host port")
  case (Inl e)
  with assms show ?thesis by (auto simp: dial_def reply_safe)
next
  case (Inr addrs)
  show ?thesis
  proof (cases "all_safe (ee_allowlist env) addrs")
    case True
    then obtain addr rest where "addrs = addr # rest"
        "\<forall>a\<in>set addrs. \<not> is_blocked_destination (ee_allowlist env) (sa_ip a)"
      by (cases addrs) (auto simp: all_safe_def list_all_iff)
    with Inr have ok: "trace_safe env (EvDial addr # evs)" if "filter is_dial evs = []" for evs
      using that unfolding trace_safe_def by blast
    from assms Inr True \<open>addrs = addr # rest\<close> show ?thesis
      using ok by (auto simp: dial_def write_error_def is_dial_def)
  qed (use assms Inr in \<open>auto simp: dial_def reply_safe\<close>)
qed

lemma dial_refused: "dial env host port = Inl evs \<Longrightarrow> trace_safe env evs"
  and dial_connected: "dial env host port = Inr addr \<Longrightarrow> filter is_dial rest = [] \<Longrightarrow> trace_safe env (EvDial addr # rest)"
  using dial_safe [of env host port] by fastforce+

lemma handle_connect_safe: "trace_safe env (handle_connect env host port)"
  by (auto simp: handle_connect_def is_dial_def intro: dial_refused dial_connected split: sum.splits)

lemma handle_plain_http_safe: "trace_safe env (handle_plain_http env line rest cs)"
  by (auto simp: handle_plain_http_def reply_safe is_dial_def intro: dial_refused dial_connected split: sum.splits prod.splits read_result.splits option.splits)

lemma handle_connection_safe: "trace_safe env (handle_connection env cs)"
  by (auto simp: handle_connection_def Let_def reply_safe handle_connect_safe handle_plain_http_safe
      split: prod.splits read_result.splits option.splits)

text \<open>
  (C31) The browser reaches only public addresses. Whatever bytes a client sends to the proxy, in whatever pieces, and
  whatever name resolution answers, the proxy opens at most one connection for it, to the first address of one answer
  in which no address at all lies in a reserved network; it forwards or tunnels nothing without such a connection. The
  address that is checked is the one that is dialled, so that a second answer for the same name plays no role.
\<close>

theorem egress_only_public:
  assumes "ee_allowlist env = []"
  shows "(EvDial addr \<in> set (handle_connection env cs) \<longrightarrow>
      (\<exists>host port addrs. ee_resolve env host port = Inr (addr # addrs) \<and>
         (\<forall>a\<in>set (addr # addrs). \<not> reserved_ip (sa_ip a)))) \<and>
    length (filter is_dial (handle_connection env cs)) \<le> 1 \<and>
    (list_ex opens (handle_connection env cs) \<longrightarrow> list_ex is_dial (handle_connection env cs))"
proof -
  have b: "is_blocked_destination [] ip \<longleftrightarrow> reserved_ip ip" for ip
    using blocked_v4_reserved blocked_v6_reserved
    by (cases ip) (auto simp: is_blocked_destination_def reserved_ip_def is_test_allowed_def)
  from handle_connection_safe [of env cs] show ?thesis
    unfolding trace_safe_def assms b
  proof (elim disjE exE conjE)
    assume "filter is_dial (handle_connection env cs) = []" "\<not> list_ex opens (handle_connection env cs)"
    then show ?thesis by (auto simp: filter_empty_conv is_dial_def)
  next
    fix host port a addrs rest
    assume t: "handle_connection env cs = EvDial a # rest" "filter is_dial rest = []"
        "ee_resolve env host port = Inr (a # addrs)" "\<forall>x\<in>set (a # addrs). \<not> reserved_ip (sa_ip x)"
    then have "EvDial x \<notin> set rest" for x by (auto simp: filter_empty_conv is_dial_def)
    with t show ?thesis by (auto simp: is_dial_def)
  qed
qed

definition demo_egress :: egress_env where
  "demo_egress = \<lparr>ee_allowlist = [],
     ee_resolve = (\<lambda>h p. if h = ''a.b'' then Inr [\<lparr>sa_ip = V4 (Ipv4 1 1 1 1), sa_port = p\<rparr>]
       else Inr [\<lparr>sa_ip = V4 (Ipv4 1 1 1 1), sa_port = p\<rparr>, \<lparr>sa_ip = V6 (Ipv6 0 0 0 0 0 0xffff 0x7f00 1), sa_port = p\<rparr>]),
     ee_connect = (\<lambda>a. True), ee_client_write = True, ee_upstream_write = True, ee_lossy = (\<lambda>b. b)\<rparr>"

definition demo_request :: "string \<Rightarrow> client" where
  "demo_request host = [Some (''CONNECT '' @ host @ '':443 HTTP/1.1'' @ CRLF @ ''Host: '' @ host @ CRLF @ CRLF)]"

lemma demo_proxied:
  "handle_connection demo_egress (demo_request ''a.b'') =
     [EvDial \<lparr>sa_ip = V4 (Ipv4 1 1 1 1), sa_port = 443\<rparr>, EvReply ''HTTP/1.1 200 Connection Established'', EvTunnel]"
proof -
  let ?line = "''CONNECT a.b:443 HTTP/1.1'' @ CRLF"
  let ?buf = "?line @ ''Host: a.b'' @ CRLF @ CRLF"
  have "read_line [] (demo_request ''a.b'') = (Done (?buf, length ?line), [])"
    by (simp add: read_line.simps demo_request_def CRLF_def)
  moreover have "split_whitespace ?line = [''CONNECT'', ''a.b:443'', ''HTTP/1.1'']" by code_simp
  moreover have "connect_target ''a.b:443'' = Some (''a.b'', 443)"
    by (simp add: connect_target_def rsplit_once_def parse_unsigned_def digits_value_def trim_end_def char_class_defs)
  moreover have "handle_connect demo_egress ''a.b'' 443 =
      [EvDial \<lparr>sa_ip = V4 (Ipv4 1 1 1 1), sa_port = 443\<rparr>, EvReply ''HTTP/1.1 200 Connection Established'', EvTunnel]"
    by (simp add: handle_connect_def dial_def demo_egress_def all_safe_def is_blocked_destination_def is_test_allowed_def
        is_blocked_v4_def)
  moreover have "ee_lossy demo_egress = (\<lambda>b. b)" by (simp add: demo_egress_def)
  ultimately show ?thesis
    by (simp add: handle_connection_def eq_ignore_case_def)
qed

theorem egress_only_public_witness:
  "EvDial \<lparr>sa_ip = V4 (Ipv4 1 1 1 1), sa_port = 443\<rparr> \<in> set (handle_connection demo_egress (demo_request ''a.b'')) \<and>
   \<not> reserved_ip (V4 (Ipv4 1 1 1 1))"
  using egress_only_public [of demo_egress "\<lparr>sa_ip = V4 (Ipv4 1 1 1 1), sa_port = 443\<rparr>" "demo_request ''a.b''"]
  unfolding demo_proxied by (auto simp: demo_egress_def)

section \<open>Bounds and gaps\<close>

lemma client_read_bound: "client_read n cs = (Some b, cs') \<Longrightarrow> length b \<le> n"
  by (induction n cs rule: client_read.induct) (auto split: if_splits)

text \<open>The proxy never holds more than the limit and one more read.\<close>

lemma read_line_bound:
  "read_line buf cs = (Done (b, e), cs') \<Longrightarrow> length buf \<le> MAX_REQUEST_LINE_BYTES \<Longrightarrow> length b \<le> 8192 + 2048"
proof (induction buf cs rule: read_line.induct)
  case (1 buf cs)
  then show ?case
    by (auto simp: read_line.simps [of buf cs] MAX_REQUEST_LINE_BYTES_def dest!: client_read_bound
        split: prod.splits option.splits if_splits)
qed

lemma read_headers_bound:
  "read_headers h cs = (Done (b, e), cs') \<Longrightarrow> length b \<le> max (length h) (8192 + 4096)"
proof (induction h cs rule: read_headers.induct)
  case (1 h cs)
  then show ?case
    by (fastforce simp: read_headers.simps [of h cs] MAX_REQUEST_LINE_BYTES_def dest!: client_read_bound
        split: prod.splits option.splits if_splits)
qed

text \<open>Other encodings of a blocked IPv4 address in IPv6 than the mapped one pass: NAT64, 6to4 and the compatible form.\<close>

lemma embedded_loopback_allowed:
  "\<not> is_blocked_v6 (Ipv6 0x64 0xff9b 0 0 0 0 0x7f00 1)"
  "\<not> is_blocked_v6 (Ipv6 0x2002 0x7f00 1 0 0 0 0 0)"
  "\<not> is_blocked_v6 (Ipv6 0 0 0 0 0 0 0x7f00 1)"
  by (simp_all add: is_blocked_v6_def to_ipv4_mapped_def)

end
