(* ===== verification/Library.thy ===== *)
theory Library
  imports Prelude "HOL-Library.Option_ord" "HOL-Library.Product_Lexorder" "HOL-Library.Sublist"
begin

text \<open>
  The music library (\<open>crates/library/src/store.rs\<close>) over its tables (\<open>migrations/0012_music_library.sql\<close>). Foreign keys
  are on: deletions cascade. Random identifiers and the clock are arguments; durations are values of an abstract type.
  Rows that \<open>ORDER BY\<close> does not separate come in row order. \<open>LIKE\<close> is the one of SQLite, which ignores the case of ASCII
  letters; the JSON of the queue is a parameter.
\<close>

section \<open>Tables\<close>

record 'f TrackMetadata =
  tm_title :: "string option"
  tm_artist :: "string option"
  tm_album :: "string option"
  tm_album_artist :: "string option"
  tm_track_number :: "int option"
  tm_disc_number :: "int option"
  tm_duration_seconds :: "'f option"
  tm_codec :: "string option"
  tm_bit_rate :: "int option"
  tm_year :: "string option"
  tm_genre :: "string option"

record lib_root_row =
  lr_id :: string
  lr_owner :: string
  lr_virtual_path :: string
  lr_created_at :: int

record 'f track_row =
  tk_id :: string
  tk_owner :: string
  tk_root_id :: string
  tk_virtual_path :: string
  tk_metadata :: "'f TrackMetadata"
  tk_fingerprint :: string
  tk_created_at :: int
  tk_updated_at :: int

record playlist_row =
  pl_id :: string
  pl_owner :: string
  pl_name :: string
  pl_created_at :: int
  pl_updated_at :: int

record entry_row =
  pe_id :: string
  pe_playlist_id :: string
  pe_track_id :: string
  pe_position :: int

record favorite_row =
  fv_owner :: string
  fv_track_id :: string
  fv_created_at :: int

record played_row =
  rp_id :: string
  rp_owner :: string
  rp_track_id :: string
  rp_played_at :: int

record queue_row =
  qu_owner :: string
  qu_items_json :: string
  qu_updated_at :: int

record 'f library =
  lb_roots :: "lib_root_row list"
  lb_tracks :: "'f track_row list"
  lb_playlists :: "playlist_row list"
  lb_entries :: "entry_row list"
  lb_favorites :: "favorite_row list"
  lb_played :: "played_row list"
  lb_queue :: "queue_row list"

datatype db_error = UniqueViolation | ForeignKeyViolation

record LibraryRoot =
  lro_id :: string
  lro_virtual_path :: string
  lro_created_at :: int

record 'f Track =
  tr_id :: string
  tr_root_id :: string
  tr_virtual_path :: string
  tr_metadata :: "'f TrackMetadata"
  tr_updated_at :: int

record Playlist =
  pls_id :: string
  pls_name :: string
  pls_created_at :: int
  pls_updated_at :: int

definition row_to_track :: "'f track_row \<Rightarrow> 'f Track" where
  "row_to_track r = \<lparr>tr_id = tk_id r, tr_root_id = tk_root_id r, tr_virtual_path = tk_virtual_path r,
     tr_metadata = tk_metadata r, tr_updated_at = tk_updated_at r\<rparr>"

section \<open>Cascading deletions\<close>

definition drop_tracks :: "('f track_row \<Rightarrow> bool) \<Rightarrow> 'f library \<Rightarrow> 'f library" where
  "drop_tracks P db =
     (let gone = tk_id ` {t \<in> set (lb_tracks db). P t} in
      db\<lparr>lb_tracks := sql_delete P (lb_tracks db),
         lb_entries := sql_delete (\<lambda>e. pe_track_id e \<in> gone) (lb_entries db),
         lb_favorites := sql_delete (\<lambda>f. fv_track_id f \<in> gone) (lb_favorites db),
         lb_played := sql_delete (\<lambda>p. rp_track_id p \<in> gone) (lb_played db)\<rparr>)"

definition drop_roots :: "(lib_root_row \<Rightarrow> bool) \<Rightarrow> 'f library \<Rightarrow> 'f library" where
  "drop_roots P db =
     (let gone = lr_id ` {r \<in> set (lb_roots db). P r} in
      drop_tracks (\<lambda>t. tk_root_id t \<in> gone) (db\<lparr>lb_roots := sql_delete P (lb_roots db)\<rparr>))"

definition drop_playlists :: "(playlist_row \<Rightarrow> bool) \<Rightarrow> 'f library \<Rightarrow> 'f library" where
  "drop_playlists P db =
     (let gone = pl_id ` {r \<in> set (lb_playlists db). P r} in
      db\<lparr>lb_playlists := sql_delete P (lb_playlists db),
         lb_entries := sql_delete (\<lambda>e. pe_playlist_id e \<in> gone) (lb_entries db)\<rparr>)"

section \<open>Roots\<close>

definition add_root :: "string \<Rightarrow> int \<Rightarrow> string \<Rightarrow> string \<Rightarrow> 'f library \<Rightarrow> (db_error + LibraryRoot) \<times> 'f library" where
  "add_root fresh now owner virtual_path db =
     (if list_ex (\<lambda>r. lr_id r = fresh \<or> lr_owner r = owner \<and> lr_virtual_path r = virtual_path) (lb_roots db)
      then (Inl UniqueViolation, db)
      else (Inr \<lparr>lro_id = fresh, lro_virtual_path = virtual_path, lro_created_at = now\<rparr>,
        db\<lparr>lb_roots := lb_roots db @ [\<lparr>lr_id = fresh, lr_owner = owner, lr_virtual_path = virtual_path, lr_created_at = now\<rparr>]\<rparr>))"

definition root_of_row :: "lib_root_row \<Rightarrow> LibraryRoot" where
  "root_of_row r = \<lparr>lro_id = lr_id r, lro_virtual_path = lr_virtual_path r, lro_created_at = lr_created_at r\<rparr>"

definition list_roots :: "string \<Rightarrow> 'f library \<Rightarrow> LibraryRoot list" where
  "list_roots owner db = map root_of_row (sort_key lr_created_at (filter (\<lambda>r. lr_owner r = owner) (lb_roots db)))"

definition get_root :: "string \<Rightarrow> string \<Rightarrow> 'f library \<Rightarrow> LibraryRoot option" where
  "get_root owner root_id db =
     map_option root_of_row (sql_first (\<lambda>r. lr_id r = root_id \<and> lr_owner r = owner) (lb_roots db))"

definition remove_root :: "string \<Rightarrow> string \<Rightarrow> 'f library \<Rightarrow> 'f library" where
  "remove_root owner root_id db = drop_roots (\<lambda>r. lr_id r = root_id \<and> lr_owner r = owner) db"

section \<open>Tracks\<close>

definition upsert_track ::
    "string \<Rightarrow> int \<Rightarrow> string \<Rightarrow> string \<Rightarrow> string \<Rightarrow> 'f TrackMetadata \<Rightarrow> string \<Rightarrow> 'f library \<Rightarrow> (db_error + unit) \<times> 'f library" where
  "upsert_track fresh now owner root_id virtual_path metadata fingerprint db =
     (let same = (\<lambda>t. tk_owner t = owner \<and> tk_virtual_path t = virtual_path) in
      if list_ex same (lb_tracks db) then
        (Inr (), db\<lparr>lb_tracks := sql_update same
          (\<lambda>t. t\<lparr>tk_metadata := metadata, tk_fingerprint := fingerprint, tk_updated_at := now\<rparr>) (lb_tracks db)\<rparr>)
      else if fresh \<in> tk_id ` set (lb_tracks db) then (Inl UniqueViolation, db)
      else if root_id \<notin> lr_id ` set (lb_roots db) then (Inl ForeignKeyViolation, db)
      else (Inr (), db\<lparr>lb_tracks := lb_tracks db @
        [\<lparr>tk_id = fresh, tk_owner = owner, tk_root_id = root_id, tk_virtual_path = virtual_path, tk_metadata = metadata,
          tk_fingerprint = fingerprint, tk_created_at = now, tk_updated_at = now\<rparr>]\<rparr>))"

definition fingerprints_for_root :: "string \<Rightarrow> 'f library \<Rightarrow> string \<rightharpoonup> string" where
  "fingerprints_for_root root_id db =
     map_of (rev (map (\<lambda>t. (tk_virtual_path t, tk_fingerprint t)) (filter (\<lambda>t. tk_root_id t = root_id) (lb_tracks db))))"

text \<open>The paths are visited in the order of the hash map, which does not matter: the deletions are independent.\<close>

definition prune_missing :: "string \<Rightarrow> string set \<Rightarrow> 'f library \<Rightarrow> nat \<times> 'f library" where
  "prune_missing root_id still_present db =
     (let paths = filter (\<lambda>p. p \<notin> still_present)
            (remdups (map tk_virtual_path (filter (\<lambda>t. tk_root_id t = root_id) (lb_tracks db)))) in
      (length paths,
       fold (\<lambda>p. drop_tracks (\<lambda>t. tk_root_id t = root_id \<and> tk_virtual_path t = p)) paths db))"

definition get_track :: "string \<Rightarrow> string \<Rightarrow> 'f library \<Rightarrow> 'f Track option" where
  "get_track owner track_id db =
     map_option row_to_track (sql_first (\<lambda>t. tk_id t = track_id \<and> tk_owner t = owner) (lb_tracks db))"

definition own_tracks :: "string \<Rightarrow> 'f library \<Rightarrow> 'f track_row list" where
  "own_tracks owner db = filter (\<lambda>t. tk_owner t = owner) (lb_tracks db)"

definition clamp :: "int \<Rightarrow> int \<Rightarrow> int \<Rightarrow> int" where
  "clamp lo hi n = max lo (min hi n)"

abbreviation (input) meta_of :: "('f TrackMetadata \<Rightarrow> 'a) \<Rightarrow> 'f track_row \<Rightarrow> 'a" where
  "meta_of g t \<equiv> g (tk_metadata t)"

definition list_tracks :: "string \<Rightarrow> int \<Rightarrow> int \<Rightarrow> 'f library \<Rightarrow> 'f Track list" where
  "list_tracks owner limit offset db =
     map row_to_track (take (nat (clamp 1 500 limit)) (drop (nat (max offset 0))
       (sort_key (\<lambda>t. (meta_of tm_artist t, meta_of tm_album t, meta_of tm_disc_number t, meta_of tm_track_number t,
          meta_of tm_title t)) (own_tracks owner db))))"

definition count_tracks :: "string \<Rightarrow> 'f library \<Rightarrow> nat" where
  "count_tracks owner db = length (own_tracks owner db)"

definition list_artists :: "string \<Rightarrow> 'f library \<Rightarrow> string list" where
  "list_artists owner db =
     sort (remdups (filter (\<lambda>a. a \<noteq> []) (List.map_filter (meta_of tm_artist) (own_tracks owner db))))"

definition tracks_by_artist :: "string \<Rightarrow> string \<Rightarrow> 'f library \<Rightarrow> 'f Track list" where
  "tracks_by_artist owner artist db =
     map row_to_track (sort_key (\<lambda>t. (meta_of tm_album t, meta_of tm_disc_number t, meta_of tm_track_number t, meta_of tm_title t))
       (filter (\<lambda>t. meta_of tm_artist t = Some artist) (own_tracks owner db)))"

definition list_albums :: "string \<Rightarrow> 'f library \<Rightarrow> (string \<times> string option \<times> string option) list" where
  "list_albums owner db =
     sort_key fst (remdups (List.map_filter
       (\<lambda>t. case meta_of tm_album t of
          None \<Rightarrow> None
        | Some a \<Rightarrow>
          if a = [] then None
          else Some (a, case meta_of tm_album_artist t of None \<Rightarrow> meta_of tm_artist t | Some x \<Rightarrow> Some x, meta_of tm_year t))
       (own_tracks owner db)))"

definition tracks_by_album :: "string \<Rightarrow> string \<Rightarrow> 'f library \<Rightarrow> 'f Track list" where
  "tracks_by_album owner album db =
     map row_to_track (sort_key (\<lambda>t. (meta_of tm_disc_number t, meta_of tm_track_number t, meta_of tm_title t))
       (filter (\<lambda>t. meta_of tm_album t = Some album) (own_tracks owner db)))"

definition tracks_by_root :: "string \<Rightarrow> string \<Rightarrow> 'f library \<Rightarrow> 'f Track list" where
  "tracks_by_root owner root_id db =
     map row_to_track (sort_key tk_virtual_path (filter (\<lambda>t. tk_root_id t = root_id) (own_tracks owner db)))"

section \<open>Search\<close>

definition escape_like :: "string \<Rightarrow> string" where
  "escape_like input = concat (map (\<lambda>c. if c \<in> {CHR ''%'', CHR ''_'', CHR 0x5C} then [CHR 0x5C, c] else [c]) input)"

text \<open>\<open>text LIKE pattern ESCAPE '\'\<close>: an escape at the very end matches nothing.\<close>

fun like :: "string \<Rightarrow> string \<Rightarrow> bool" where
  "like [] s = (s = [])"
| "like (p # ps) s =
     (if p = CHR 0x5C then
        (case ps of
           [] \<Rightarrow> False
         | q # qs \<Rightarrow> (case s of [] \<Rightarrow> False | c # cs \<Rightarrow> to_lower c = to_lower q \<and> like qs cs))
      else if p = CHR ''%'' then (\<exists>k \<le> length s. like ps (drop k s))
      else case s of [] \<Rightarrow> False | c # cs \<Rightarrow> (p = CHR ''_'' \<or> to_lower c = to_lower p) \<and> like ps cs)"

definition like_null :: "string \<Rightarrow> string option \<Rightarrow> bool" where
  "like_null pattern column = (case column of None \<Rightarrow> False | Some s \<Rightarrow> like pattern s)"

definition search :: "string \<Rightarrow> string \<Rightarrow> int \<Rightarrow> 'f library \<Rightarrow> 'f Track list" where
  "search owner query limit db =
     (let pattern = ''%'' @ escape_like query @ ''%'' in
      map row_to_track (take (nat (clamp 1 200 limit))
        (sort_key (\<lambda>t. (meta_of tm_artist t, meta_of tm_album t, meta_of tm_title t))
          (filter (\<lambda>t. like_null pattern (meta_of tm_title t) \<or> like_null pattern (meta_of tm_artist t) \<or>
             like_null pattern (meta_of tm_album t) \<or> like_null pattern (meta_of tm_genre t)) (own_tracks owner db)))))"

section \<open>Playlists\<close>

definition create_playlist :: "string \<Rightarrow> int \<Rightarrow> string \<Rightarrow> string \<Rightarrow> 'f library \<Rightarrow> (db_error + Playlist) \<times> 'f library" where
  "create_playlist fresh now owner name db =
     (if fresh \<in> pl_id ` set (lb_playlists db) then (Inl UniqueViolation, db)
      else (Inr \<lparr>pls_id = fresh, pls_name = name, pls_created_at = now, pls_updated_at = now\<rparr>,
        db\<lparr>lb_playlists := lb_playlists db @
          [\<lparr>pl_id = fresh, pl_owner = owner, pl_name = name, pl_created_at = now, pl_updated_at = now\<rparr>]\<rparr>))"

definition list_playlists :: "string \<Rightarrow> 'f library \<Rightarrow> Playlist list" where
  "list_playlists owner db =
     map (\<lambda>r. \<lparr>pls_id = pl_id r, pls_name = pl_name r, pls_created_at = pl_created_at r, pls_updated_at = pl_updated_at r\<rparr>)
       (sort_key pl_created_at (filter (\<lambda>r. pl_owner r = owner) (lb_playlists db)))"

definition owns_playlist :: "string \<Rightarrow> string \<Rightarrow> 'f library \<Rightarrow> bool" where
  "owns_playlist owner playlist_id db =
     (sql_first (\<lambda>r. pl_id r = playlist_id \<and> pl_owner r = owner) (lb_playlists db) \<noteq> None)"

definition rename_playlist :: "int \<Rightarrow> string \<Rightarrow> string \<Rightarrow> string \<Rightarrow> 'f library \<Rightarrow> bool \<times> 'f library" where
  "rename_playlist now owner playlist_id name db =
     (if \<not> owns_playlist owner playlist_id db then (False, db)
      else (True, db\<lparr>lb_playlists := sql_update (\<lambda>r. pl_id r = playlist_id)
        (\<lambda>r. r\<lparr>pl_name := name, pl_updated_at := now\<rparr>) (lb_playlists db)\<rparr>))"

definition delete_playlist :: "string \<Rightarrow> string \<Rightarrow> 'f library \<Rightarrow> 'f library" where
  "delete_playlist owner playlist_id db = drop_playlists (\<lambda>r. pl_id r = playlist_id \<and> pl_owner r = owner) db"

definition entries_of :: "string \<Rightarrow> 'f library \<Rightarrow> entry_row list" where
  "entries_of playlist_id db = filter (\<lambda>e. pe_playlist_id e = playlist_id) (lb_entries db)"

definition next_position :: "string \<Rightarrow> 'f library \<Rightarrow> int" where
  "next_position playlist_id db =
     (case map pe_position (entries_of playlist_id db) of [] \<Rightarrow> - 1 | p # ps \<Rightarrow> fold max ps p) + 1"

definition add_playlist_entry ::
    "string \<Rightarrow> int \<Rightarrow> string \<Rightarrow> string \<Rightarrow> string \<Rightarrow> 'f library \<Rightarrow> (db_error + bool) \<times> 'f library" where
  "add_playlist_entry fresh now owner playlist_id track_id db =
     (if \<not> owns_playlist owner playlist_id db then (Inr False, db)
      else if get_track owner track_id db = None then (Inr False, db)
      else if fresh \<in> pe_id ` set (lb_entries db) then (Inl UniqueViolation, db)
      else (Inr True, db\<lparr>
        lb_entries := lb_entries db @
          [\<lparr>pe_id = fresh, pe_playlist_id = playlist_id, pe_track_id = track_id, pe_position = next_position playlist_id db\<rparr>],
        lb_playlists := sql_update (\<lambda>r. pl_id r = playlist_id) (\<lambda>r. r\<lparr>pl_updated_at := now\<rparr>) (lb_playlists db)\<rparr>))"

definition remove_playlist_entry :: "string \<Rightarrow> string \<Rightarrow> string \<Rightarrow> 'f library \<Rightarrow> bool \<times> 'f library" where
  "remove_playlist_entry owner playlist_id entry_id db =
     (if \<not> owns_playlist owner playlist_id db then (False, db)
      else (True, db\<lparr>lb_entries := sql_delete (\<lambda>e. pe_id e = entry_id \<and> pe_playlist_id e = playlist_id) (lb_entries db)\<rparr>))"

fun set_positions :: "string \<Rightarrow> int \<Rightarrow> string list \<Rightarrow> entry_row list \<Rightarrow> entry_row list" where
  "set_positions playlist_id n [] es = es"
| "set_positions playlist_id n (i # is) es =
     set_positions playlist_id (n + 1) is
       (sql_update (\<lambda>e. pe_id e = i \<and> pe_playlist_id e = playlist_id) (\<lambda>e. e\<lparr>pe_position := min n I64_MAX\<rparr>) es)"

definition reorder_playlist :: "string \<Rightarrow> string \<Rightarrow> string list \<Rightarrow> 'f library \<Rightarrow> bool \<times> 'f library" where
  "reorder_playlist owner playlist_id ordered_entry_ids db =
     (if \<not> owns_playlist owner playlist_id db then (False, db)
      else (True, db\<lparr>lb_entries := set_positions playlist_id 0 ordered_entry_ids (lb_entries db)\<rparr>))"

definition playlist_entries :: "string \<Rightarrow> string \<Rightarrow> 'f library \<Rightarrow> (string \<times> 'f Track) list option" where
  "playlist_entries owner playlist_id db =
     (if \<not> owns_playlist owner playlist_id db then None
      else Some (List.map_filter
        (\<lambda>e. map_option (\<lambda>t. (pe_id e, row_to_track t)) (sql_first (\<lambda>t. tk_id t = pe_track_id e) (lb_tracks db)))
        (sort_key pe_position (entries_of playlist_id db))))"

section \<open>Favourites, history and queue\<close>

definition favorite :: "int \<Rightarrow> string \<Rightarrow> string \<Rightarrow> 'f library \<Rightarrow> bool \<times> 'f library" where
  "favorite now owner track_id db =
     (if get_track owner track_id db = None then (False, db)
      else (True,
        if list_ex (\<lambda>f. fv_owner f = owner \<and> fv_track_id f = track_id) (lb_favorites db) then db
        else db\<lparr>lb_favorites := lb_favorites db @ [\<lparr>fv_owner = owner, fv_track_id = track_id, fv_created_at = now\<rparr>]\<rparr>))"

definition unfavorite :: "string \<Rightarrow> string \<Rightarrow> 'f library \<Rightarrow> 'f library" where
  "unfavorite owner track_id db =
     db\<lparr>lb_favorites := sql_delete (\<lambda>f. fv_owner f = owner \<and> fv_track_id f = track_id) (lb_favorites db)\<rparr>"

definition track_by_id :: "string \<Rightarrow> 'f library \<Rightarrow> 'f Track option" where
  "track_by_id track_id db = map_option row_to_track (sql_first (\<lambda>t. tk_id t = track_id) (lb_tracks db))"

definition list_favorites :: "string \<Rightarrow> 'f library \<Rightarrow> 'f Track list" where
  "list_favorites owner db =
     List.map_filter (\<lambda>f. track_by_id (fv_track_id f) db)
       (sort_key (\<lambda>f. - fv_created_at f) (filter (\<lambda>f. fv_owner f = owner) (lb_favorites db)))"

definition record_played :: "string \<Rightarrow> int \<Rightarrow> string \<Rightarrow> string \<Rightarrow> 'f library \<Rightarrow> (db_error + bool) \<times> 'f library" where
  "record_played fresh now owner track_id db =
     (if get_track owner track_id db = None then (Inr False, db)
      else if fresh \<in> rp_id ` set (lb_played db) then (Inl UniqueViolation, db)
      else (Inr True, db\<lparr>lb_played := lb_played db @
        [\<lparr>rp_id = fresh, rp_owner = owner, rp_track_id = track_id, rp_played_at = now\<rparr>]\<rparr>))"

definition last_played :: "string \<Rightarrow> played_row list \<Rightarrow> int" where
  "last_played track_id rows =
     (case map rp_played_at (filter (\<lambda>r. rp_track_id r = track_id) rows) of [] \<Rightarrow> 0 | p # ps \<Rightarrow> fold max ps p)"

definition recently_played :: "string \<Rightarrow> int \<Rightarrow> 'f library \<Rightarrow> 'f Track list" where
  "recently_played owner limit db =
     (let rows = filter (\<lambda>r. rp_owner r = owner) (lb_played db);
          ids = remdups (filter (\<lambda>i. track_by_id i db \<noteq> None) (map rp_track_id rows)) in
      List.map_filter (\<lambda>i. track_by_id i db)
        (take (nat (clamp 1 200 limit)) (sort_key (\<lambda>i. - last_played i rows) ids)))"

definition get_queue :: "(string \<Rightarrow> string list option) \<Rightarrow> string \<Rightarrow> 'f library \<Rightarrow> string list" where
  "get_queue from_json owner db =
     (case sql_first (\<lambda>q. qu_owner q = owner) (lb_queue db) of
        None \<Rightarrow> []
      | Some q \<Rightarrow> (case from_json (qu_items_json q) of None \<Rightarrow> [] | Some items \<Rightarrow> items))"

definition set_queue :: "(string list \<Rightarrow> string option) \<Rightarrow> int \<Rightarrow> string \<Rightarrow> string list \<Rightarrow> 'f library \<Rightarrow> 'f library" where
  "set_queue to_json now owner items db =
     (let json = (case to_json items of None \<Rightarrow> ''[]'' | Some j \<Rightarrow> j) in
      if list_ex (\<lambda>q. qu_owner q = owner) (lb_queue db)
      then db\<lparr>lb_queue := sql_update (\<lambda>q. qu_owner q = owner)
        (\<lambda>q. q\<lparr>qu_items_json := json, qu_updated_at := now\<rparr>) (lb_queue db)\<rparr>
      else db\<lparr>lb_queue := lb_queue db @ [\<lparr>qu_owner = owner, qu_items_json = json, qu_updated_at = now\<rparr>]\<rparr>)"

end
