(* ===== verification/Media.thy ===== *)
theory Media
  imports Prelude
begin

text \<open>
  Discovery of \<open>ffmpeg\<close>, probing and the compatibility decision of \<open>crates/media\<close> (\<open>ffmpeg.rs\<close>, \<open>probe.rs\<close>,
  \<open>compat.rs\<close>). The child processes are parameters: what they print and how they end. The JSON decoder and the
  parser of floating-point numbers are parameters too; numbers with a fraction are values of an abstract type.
\<close>

section \<open>Discovery\<close>

record BinaryInfo =
  bi_path :: string
  bi_version :: string

datatype FfmpegAvailability = FfDisabled | FfUnavailable string | FfAvailable BinaryInfo BinaryInfo

definition is_available :: "FfmpegAvailability \<Rightarrow> bool" where
  "is_available a = (case a of FfAvailable _ _ \<Rightarrow> True | _ \<Rightarrow> False)"

definition FFMPEG_CANDIDATES :: "string list" where
  "FFMPEG_CANDIDATES = [''ffmpeg'', ''/usr/bin/ffmpeg'', ''/usr/local/bin/ffmpeg'']"

definition FFPROBE_CANDIDATES :: "string list" where
  "FFPROBE_CANDIDATES = [''ffprobe'', ''/usr/bin/ffprobe'', ''/usr/local/bin/ffprobe'']"

text \<open>\<open>run_version c\<close>: \<open>None\<close> when the candidate cannot be started or does not answer in time, otherwise whether it
  succeeded and what it printed.\<close>

definition first_line :: "string \<Rightarrow> string option" where
  "first_line s = (if s = [] then None else Some (takeWhile (\<lambda>c. c \<noteq> CHR 0x0A) s))"

fun probe_binary :: "(string \<Rightarrow> (bool \<times> string) option) \<Rightarrow> string list \<Rightarrow> BinaryInfo option" where
  "probe_binary run_version [] = None"
| "probe_binary run_version (candidate # rest) =
     (case run_version candidate of
        Some (True, out) \<Rightarrow>
          (case first_line out of
             None \<Rightarrow> probe_binary run_version rest
           | Some line \<Rightarrow> Some \<lparr>bi_path = candidate, bi_version = trim line\<rparr>)
      | _ \<Rightarrow> probe_binary run_version rest)"

definition detect :: "(string \<Rightarrow> (bool \<times> string) option) \<Rightarrow> bool \<Rightarrow> FfmpegAvailability" where
  "detect run_version enabled =
     (if \<not> enabled then FfDisabled
      else case (probe_binary run_version FFMPEG_CANDIDATES, probe_binary run_version FFPROBE_CANDIDATES) of
          (Some ffmpeg, Some ffprobe) \<Rightarrow> FfAvailable ffmpeg ffprobe
        | (None, _) \<Rightarrow> FfUnavailable ''ffmpeg binary not found''
        | (_, None) \<Rightarrow> FfUnavailable ''ffprobe binary not found'')"

section \<open>Probing\<close>

datatype ProbeError = ProbeUnavailable | ProbeTimeout | ProbeSpawn string | ProbeExitedWithFailure | ProbeMalformed

record StreamInfo =
  si_index :: nat
  si_codec_type :: string
  si_codec_name :: "string option"
  si_profile :: "string option"
  si_width :: "nat option"
  si_height :: "nat option"
  si_frame_rate :: "string option"
  si_sample_rate :: "string option"
  si_channel_layout :: "string option"
  si_bit_rate :: "string option"
  si_language :: "string option"

record 'f MediaProbe =
  mp_format_name :: string
  mp_duration_seconds :: "'f option"
  mp_bit_rate :: "string option"
  mp_streams :: "StreamInfo list"
  mp_tags :: "string \<rightharpoonup> string"

definition video_streams :: "'f MediaProbe \<Rightarrow> StreamInfo list" where
  "video_streams p = filter (\<lambda>s. si_codec_type s = ''video'') (mp_streams p)"

definition audio_streams :: "'f MediaProbe \<Rightarrow> StreamInfo list" where
  "audio_streams p = filter (\<lambda>s. si_codec_type s = ''audio'') (mp_streams p)"

definition subtitle_streams :: "'f MediaProbe \<Rightarrow> StreamInfo list" where
  "subtitle_streams p = filter (\<lambda>s. si_codec_type s = ''subtitle'') (mp_streams p)"

text \<open>The tags of the JSON in the order of the decoder's map; a value that is not a string is \<open>None\<close>.\<close>

type_synonym raw_tags = "(string \<times> string option) list"

record RawFormat =
  rf_format_name :: "string option"
  rf_duration :: "string option"
  rf_bit_rate :: "string option"
  rf_tags :: "raw_tags option"

record RawStream =
  rs_index :: "nat option"
  rs_codec_type :: "string option"
  rs_codec_name :: "string option"
  rs_profile :: "string option"
  rs_width :: "nat option"
  rs_height :: "nat option"
  rs_r_frame_rate :: "string option"
  rs_sample_rate :: "string option"
  rs_channel_layout :: "string option"
  rs_bit_rate :: "string option"
  rs_tags :: "raw_tags option"

record RawProbe =
  raw_format :: "RawFormat option"
  raw_streams :: "RawStream list"

definition lowercased_pairs :: "raw_tags \<Rightarrow> (string \<times> string) list" where
  "lowercased_pairs tags = List.map_filter (\<lambda>(k, v). map_option (\<lambda>s. (to_lowercase k, s)) v) tags"

definition lowercased_str_tags :: "raw_tags \<Rightarrow> string \<rightharpoonup> string" where
  "lowercased_str_tags tags = map_of (rev (lowercased_pairs tags))"

definition stream_info :: "RawStream \<Rightarrow> StreamInfo option" where
  "stream_info s =
     (case (rs_codec_type s, rs_index s) of
        (Some codec_type, Some i) \<Rightarrow> Some
          \<lparr>si_index = i, si_codec_type = codec_type, si_codec_name = rs_codec_name s, si_profile = rs_profile s,
           si_width = rs_width s, si_height = rs_height s, si_frame_rate = rs_r_frame_rate s,
           si_sample_rate = rs_sample_rate s, si_channel_layout = rs_channel_layout s, si_bit_rate = rs_bit_rate s,
           si_language = Option.bind (rs_tags s) (\<lambda>t. Option.bind (map_of t ''language'') id)\<rparr>
      | _ \<Rightarrow> None)"

text \<open>The tags of the first audio stream that has any; a stream that is dropped for want of an index counts.\<close>

definition first_audio_stream_tags :: "RawStream list \<Rightarrow> (string \<rightharpoonup> string) option" where
  "first_audio_stream_tags streams =
     (case List.map_filter (\<lambda>s. if rs_codec_type s = Some ''audio'' then rs_tags s else None) streams of
        [] \<Rightarrow> None
      | tags # _ \<Rightarrow> Some (lowercased_str_tags tags))"

definition parse_raw ::
    "(bytes \<Rightarrow> RawProbe option) \<Rightarrow> (string \<Rightarrow> 'f option) \<Rightarrow> bytes \<Rightarrow> ProbeError + 'f MediaProbe" where
  "parse_raw from_slice parse_f64 buf =
     (case from_slice buf of
        None \<Rightarrow> Inl ProbeMalformed
      | Some raw \<Rightarrow>
        (case raw_format raw of
           None \<Rightarrow> Inl ProbeMalformed
         | Some format \<Rightarrow>
           (case rf_format_name format of
              None \<Rightarrow> Inl ProbeMalformed
            | Some format_name \<Rightarrow>
              (let format_tags = (case rf_tags format of None \<Rightarrow> [] | Some t \<Rightarrow> t) in
               Inr \<lparr>mp_format_name = format_name,
                    mp_duration_seconds = Option.bind (rf_duration format) parse_f64,
                    mp_bit_rate = rf_bit_rate format,
                    mp_streams = List.map_filter stream_info (raw_streams raw),
                    mp_tags = (if lowercased_pairs format_tags = []
                       then (case first_audio_stream_tags (raw_streams raw) of None \<Rightarrow> Map.empty | Some t \<Rightarrow> t)
                       else lowercased_str_tags format_tags)\<rparr>))))"

definition MAX_PROBE_OUTPUT_BYTES :: nat where
  "MAX_PROBE_OUTPUT_BYTES = 8 * 1024 * 1024"

datatype read_event = Chunk bytes | ReadError string | ReadTimeout
datatype wait_event = Exited bool | WaitError string | WaitTimeout

text \<open>The events of the pipe in order; the end of the list is the end of the output.\<close>

fun read_output :: "bytes \<Rightarrow> read_event list \<Rightarrow> ProbeError + bytes" where
  "read_output buf [] = Inr buf"
| "read_output buf (ReadError e # _) = Inl (ProbeSpawn e)"
| "read_output buf (ReadTimeout # _) = Inl ProbeTimeout"
| "read_output buf (Chunk b # rest) =
     (if b = [] then Inr buf
      else if MAX_PROBE_OUTPUT_BYTES < length buf + length b then Inl ProbeMalformed
      else read_output (buf @ b) rest)"

record probe_process =
  pp_spawn :: "string option" \<comment> \<open>the error, if the program cannot be started\<close>
  pp_reads :: "read_event list"
  pp_wait :: wait_event

definition probe_media ::
    "(bytes \<Rightarrow> RawProbe option) \<Rightarrow> (string \<Rightarrow> 'f option) \<Rightarrow> probe_process \<Rightarrow> ProbeError + 'f MediaProbe" where
  "probe_media from_slice parse_f64 p =
     (case pp_spawn p of
        Some e \<Rightarrow> Inl (ProbeSpawn e)
      | None \<Rightarrow> res_bind (read_output [] (pp_reads p)) (\<lambda>buf.
          case pp_wait p of
            WaitError e \<Rightarrow> Inl (ProbeSpawn e)
          | WaitTimeout \<Rightarrow> Inl ProbeTimeout
          | Exited success \<Rightarrow> if \<not> success then Inl ProbeExitedWithFailure else parse_raw from_slice parse_f64 buf))"

section \<open>Compatibility\<close>

datatype StreamPlan = Direct | Remux | Transcode | Unsupported

definition DIRECT_CONTAINERS :: "string list" where
  "DIRECT_CONTAINERS = [''mov,mp4,m4a,3gp,3g2,mj2'', ''webm'', ''mp3'', ''wav'', ''flac'', ''ogg'']"

definition REMUXABLE_CONTAINERS :: "string list" where
  "REMUXABLE_CONTAINERS = [''matroska,webm'', ''avi'', ''mpegts'']"

definition DIRECT_VIDEO_CODECS :: "string list" where
  "DIRECT_VIDEO_CODECS = [''h264'', ''vp8'', ''vp9'', ''av1'']"

definition DIRECT_AUDIO_CODECS :: "string list" where
  "DIRECT_AUDIO_CODECS = [''aac'', ''mp3'', ''opus'', ''vorbis'', ''flac'', ''pcm_s16le'', ''pcm_u8'', ''pcm_s24le'',
     ''pcm_s32le'', ''pcm_f32le'']"

definition container_is :: "'f MediaProbe \<Rightarrow> string list \<Rightarrow> bool" where
  "container_is probe cs \<longleftrightarrow> mp_format_name probe \<in> set cs"

definition codec_in :: "string list \<Rightarrow> StreamInfo \<Rightarrow> bool" where
  "codec_in cs s = (case si_codec_name s of None \<Rightarrow> False | Some c \<Rightarrow> c \<in> set cs)"

definition decide :: "'f MediaProbe \<Rightarrow> StreamPlan" where
  "decide probe =
     (let video = video_streams probe; audio = audio_streams probe in
      if video = [] \<and> audio = [] then Unsupported
      else if \<not> list_all (codec_in DIRECT_VIDEO_CODECS) video \<or> \<not> list_all (codec_in DIRECT_AUDIO_CODECS) audio
      then Transcode
      else if container_is probe DIRECT_CONTAINERS then Direct
      else if container_is probe REMUXABLE_CONTAINERS then Remux
      else Remux)"

section \<open>What discovery, probing and the decision guarantee\<close>

lemma disabled_starts_nothing: "detect run_version False = FfDisabled"
  by (simp add: detect_def)

lemma probe_binary_known: "probe_binary run_version candidates = Some b \<Longrightarrow>
    bi_path b \<in> set candidates \<and> (\<exists>out. run_version (bi_path b) = Some (True, out))"
  by (induction run_version candidates rule: probe_binary.induct) (auto split: option.splits bool.splits prod.splits)

text \<open>However much the program prints, at most \<open>MAX_PROBE_OUTPUT_BYTES\<close> bytes are kept.\<close>

lemma read_output_bound:
  "length buf \<le> MAX_PROBE_OUTPUT_BYTES \<Longrightarrow> read_output buf events = Inr out \<Longrightarrow> length out \<le> MAX_PROBE_OUTPUT_BYTES"
  by (induction buf events rule: read_output.induct) (auto split: if_splits)

text \<open>Original bytes are sent only if the container and every audio and video codec is on the lists of the browser.\<close>

lemma decide_direct_iff:
  "decide p = Direct \<longleftrightarrow> video_streams p @ audio_streams p \<noteq> [] \<and> mp_format_name p \<in> set DIRECT_CONTAINERS \<and>
     (\<forall>s\<in>set (video_streams p). \<exists>c\<in>set DIRECT_VIDEO_CODECS. si_codec_name s = Some c) \<and>
     (\<forall>s\<in>set (audio_streams p). \<exists>c\<in>set DIRECT_AUDIO_CODECS. si_codec_name s = Some c)"
proof -
  have "codec_in cs s \<longleftrightarrow> (\<exists>c\<in>set cs. si_codec_name s = Some c)" for cs s
    by (auto simp: codec_in_def split: option.splits)
  then show ?thesis by (simp add: decide_def Let_def list_all_iff container_is_def)
qed

end
