(* ===== verification/Library_Scan.thy ===== *)
theory Library_Scan
  imports Library Media
begin

text \<open>
  The scan of a music folder (\<open>crates/library/src/scan.rs\<close>). The folder is a tree that does not change during the walk;
  paths are relative to it. The clock, the second look at each file, the identifiers and the probe are parameters. An
  entry that vanished before its first look is \<open>ScanGone\<close>, a directory that cannot be listed has no list.
\<close>

section \<open>The walk\<close>

datatype scan_node =
    ScanDir "(string \<times> scan_node) list option"
  | ScanFile
  | ScanLink
  | ScanOther
  | ScanGone

definition AUDIO_EXTENSIONS :: "string list" where
  "AUDIO_EXTENSIONS = [''mp3'', ''flac'', ''wav'', ''ogg'', ''oga'', ''opus'', ''m4a'', ''aac'', ''wma'', ''aiff'', ''aif'', ''alac'', ''mka'']"

definition MAX_SCAN_FILES :: nat where
  "MAX_SCAN_FILES = 20000"

text \<open>\<open>Path::extension\<close> of a file name: what follows the last dot, unless that dot is the first character.\<close>

definition extension :: "string \<Rightarrow> string option" where
  "extension name =
     (let ext = rev (takeWhile (\<lambda>c. c \<noteq> CHR ''.'') (rev name)) in
      if length name \<le> length ext + 1 then None else Some ext)"

definition has_audio_extension :: "string list \<Rightarrow> bool" where
  "has_audio_extension path =
     (path \<noteq> [] \<and> (case extension (last path) of None \<Rightarrow> False | Some ext \<Rightarrow> to_lowercase ext \<in> set AUDIO_EXTENSIONS))"

text \<open>The entries of one directory: the stack and the candidates grow, and the loop stops at the limit.\<close>

fun visit_entries ::
    "string list \<Rightarrow> (string \<times> scan_node) list \<Rightarrow> (string list \<times> scan_node) list \<Rightarrow> string list list \<Rightarrow>
       (string list \<times> scan_node) list \<times> string list list \<times> bool" where
  "visit_entries dir [] stack candidates = (stack, candidates, False)"
| "visit_entries dir ((name, node) # entries) stack candidates =
     (if MAX_SCAN_FILES \<le> length candidates then (stack, candidates, True)
      else let path = dir @ [name] in
        case node of
          ScanDir _ \<Rightarrow> visit_entries dir entries ((path, node) # stack) candidates
        | ScanFile \<Rightarrow>
            if has_audio_extension path then visit_entries dir entries stack (candidates @ [path])
            else visit_entries dir entries stack candidates
        | _ \<Rightarrow> visit_entries dir entries stack candidates)"

definition pending_size :: "(string list \<times> scan_node) list \<Rightarrow> nat" where
  "pending_size stack = sum_list (map (\<lambda>(_, node). size node + 1) stack)"

lemma visit_pending_size:
  "visit_entries dir entries stack candidates = (stack', rest) \<Longrightarrow>
    pending_size stack' \<le> pending_size stack + size_list (size_prod (\<lambda>_. 0) size) entries"
  by (induction dir entries stack candidates rule: visit_entries.induct)
    (fastforce simp: pending_size_def Let_def split: if_splits scan_node.splits)+

lemma pending_size_Cons: "pending_size ((dir, node) # stack) = size node + 1 + pending_size stack"
  by (simp add: pending_size_def)

text \<open>\<open>late k\<close>: the deadline has passed at the \<open>k\<close>-th look at the clock.\<close>

function walk ::
    "(nat \<Rightarrow> bool) \<Rightarrow> nat \<Rightarrow> (string list \<times> scan_node) list \<Rightarrow> string list list \<Rightarrow> bool \<Rightarrow> string list list \<times> bool" where
  "walk late k [] candidates truncated = (candidates, truncated)"
| "walk late k ((dir, node) # stack) candidates truncated =
     (if late k \<or> MAX_SCAN_FILES \<le> length candidates then (candidates, True)
      else case node of
        ScanDir (Some entries) \<Rightarrow>
          (case visit_entries dir entries stack candidates of
             (stack', candidates', full) \<Rightarrow> walk late (k + 1) stack' candidates' (truncated \<or> full))
      | _ \<Rightarrow> walk late (k + 1) stack candidates truncated)"
  by pat_completeness auto
termination
  by (relation "measure (\<lambda>(late, k, stack, candidates, truncated). pending_size stack)")
    (auto simp: pending_size_Cons dest!: visit_pending_size [OF sym])

definition collect_candidates :: "(nat \<Rightarrow> bool) \<Rightarrow> scan_node \<Rightarrow> string list list \<times> bool" where
  "collect_candidates late root = walk late 0 [([], root)] [] False"

section \<open>Metadata\<close>

text \<open>Length of the file and seconds of its modification time, where the platform has one after 1970.\<close>

definition fingerprint :: "nat \<times> nat option \<Rightarrow> string" where
  "fingerprint metadata =
     (case metadata of (len, mtime) \<Rightarrow> decimal len @ '':'' @ decimal (case mtime of None \<Rightarrow> 0 | Some t \<Rightarrow> t))"

definition parse_leading_int :: "string \<Rightarrow> int option" where
  "parse_leading_int value =
     (let digits = takeWhile is_ascii_digit value in
      if digits = [] then None
      else if I64_MAX < int (digits_value digits) then None
      else Some (int (digits_value digits)))"

definition tag_of :: "(string \<rightharpoonup> string) \<Rightarrow> string \<Rightarrow> string option" where
  "tag_of tags key =
     (case tags key of None \<Rightarrow> None | Some v \<Rightarrow> if trim v = [] then None else Some (trim v))"

definition metadata_from_probe ::
    "(string \<Rightarrow> 'f option) \<Rightarrow> ('f \<Rightarrow> int) \<Rightarrow> 'f MediaProbe \<Rightarrow> 'f TrackMetadata" where
  "metadata_from_probe parse_f64 round_i64 probe =
     (let tag = tag_of (mp_tags probe) in
      \<lparr>tm_title = tag ''title'', tm_artist = tag ''artist'', tm_album = tag ''album'', tm_album_artist = tag ''album_artist'',
       tm_track_number = Option.bind (tag ''track'') parse_leading_int,
       tm_disc_number = Option.bind (tag ''disc'') parse_leading_int,
       tm_duration_seconds = mp_duration_seconds probe,
       tm_codec = (case audio_streams probe of [] \<Rightarrow> None | s # _ \<Rightarrow> si_codec_name s),
       tm_bit_rate = map_option round_i64 (Option.bind (mp_bit_rate probe) parse_f64),
       tm_year = (case tag ''date'' of None \<Rightarrow> tag ''year'' | Some d \<Rightarrow> Some d),
       tm_genre = tag ''genre''\<rparr>)"

section \<open>The scan\<close>

record 'f scan_env =
  sc_walk_late :: "nat \<Rightarrow> bool"
  sc_late :: "nat \<Rightarrow> bool"
  sc_stat :: "string list \<Rightarrow> (nat \<times> nat option) option"
  sc_version :: "string \<Rightarrow> (bool \<times> string) option"
  sc_probe :: "string list \<Rightarrow> ProbeError + 'f MediaProbe"
  sc_fresh :: "nat \<Rightarrow> string"
  sc_now :: "nat \<Rightarrow> int"
  sc_parse_f64 :: "string \<Rightarrow> 'f option"
  sc_round_i64 :: "'f \<Rightarrow> int"

record ScanSummary =
  ss_added :: nat
  ss_updated :: nat
  ss_unchanged :: nat
  ss_removed :: nat
  ss_skipped_errors :: nat
  ss_truncated :: bool

definition ffprobe_binary :: "(string \<Rightarrow> (bool \<times> string) option) \<Rightarrow> string option" where
  "ffprobe_binary run_version =
     (case detect run_version True of FfAvailable _ ffprobe \<Rightarrow> Some (bi_path ffprobe) | _ \<Rightarrow> None)"

fun join_names :: "string list \<Rightarrow> string" where
  "join_names [] = []"
| "join_names [n] = n"
| "join_names (n # ns) = n @ ''/'' @ join_names ns"

definition trim_end_slashes :: "string \<Rightarrow> string" where
  "trim_end_slashes s = rev (dropWhile (\<lambda>c. c = CHR ''/'') (rev s))"

definition scan_virtual_path :: "string \<Rightarrow> string list \<Rightarrow> string" where
  "scan_virtual_path virtual_root path =
     (let relative_str = map (\<lambda>c. if c = CHR 0x5C then CHR ''/'' else c) (join_names path) in
      if virtual_root = [] \<or> virtual_root = ''/'' then ''/'' @ relative_str
      else trim_end_slashes virtual_root @ ''/'' @ relative_str)"

fun scan_files ::
    "'f scan_env \<Rightarrow> string \<Rightarrow> string \<Rightarrow> string \<Rightarrow> (string \<rightharpoonup> string) \<Rightarrow> nat \<Rightarrow> string list list \<Rightarrow>
       string set \<Rightarrow> ScanSummary \<Rightarrow> 'f library \<Rightarrow> (db_error + string set \<times> ScanSummary) \<times> 'f library" where
  "scan_files env owner root_id virtual_root existing k [] present summary db = (Inr (present, summary), db)"
| "scan_files env owner root_id virtual_root existing k (path # paths) present summary db =
     (if sc_late env k then (Inr (present, summary\<lparr>ss_truncated := True\<rparr>), db)
      else case sc_stat env path of
        None \<Rightarrow> scan_files env owner root_id virtual_root existing (k + 1) paths present
          (summary\<lparr>ss_skipped_errors := ss_skipped_errors summary + 1\<rparr>) db
      | Some fs_meta \<Rightarrow>
        (let virtual_path = scan_virtual_path virtual_root path;
             present' = insert virtual_path present;
             current = fingerprint fs_meta;
             skip = scan_files env owner root_id virtual_root existing (k + 1) paths present'
               (summary\<lparr>ss_skipped_errors := ss_skipped_errors summary + 1\<rparr>) db in
         if existing virtual_path = Some current then
           scan_files env owner root_id virtual_root existing (k + 1) paths present'
             (summary\<lparr>ss_unchanged := ss_unchanged summary + 1\<rparr>) db
         else case ffprobe_binary (sc_version env) of
             None \<Rightarrow> skip
           | Some _ \<Rightarrow>
             (case sc_probe env path of
                Inl _ \<Rightarrow> skip
              | Inr probe \<Rightarrow>
                if audio_streams probe = [] then skip
                else case upsert_track (sc_fresh env k) (sc_now env k) owner root_id virtual_path
                       (metadata_from_probe (sc_parse_f64 env) (sc_round_i64 env) probe) current db of
                    (Inl e, db') \<Rightarrow> (Inl e, db')
                  | (Inr _, db') \<Rightarrow>
                    scan_files env owner root_id virtual_root existing (k + 1) paths present'
                      (if existing virtual_path = None then summary\<lparr>ss_added := ss_added summary + 1\<rparr>
                       else summary\<lparr>ss_updated := ss_updated summary + 1\<rparr>) db')))"

definition scan_root ::
    "'f scan_env \<Rightarrow> string \<Rightarrow> string \<Rightarrow> scan_node \<Rightarrow> string \<Rightarrow> 'f library \<Rightarrow> (db_error + ScanSummary) \<times> 'f library" where
  "scan_root env owner root_id real_root virtual_root db =
     (case collect_candidates (sc_walk_late env) real_root of
        (candidates, trunc) \<Rightarrow>
          (case scan_files env owner root_id virtual_root (fingerprints_for_root root_id db) 0 candidates {}
              \<lparr>ss_added = 0, ss_updated = 0, ss_unchanged = 0, ss_removed = 0, ss_skipped_errors = 0, ss_truncated = trunc\<rparr> db of
             (Inl e, db') \<Rightarrow> (Inl e, db')
           | (Inr (present, summary), db') \<Rightarrow>
             if ss_truncated summary then (Inr summary, db')
             else (case prune_missing root_id present db' of
               (n, db'') \<Rightarrow> (Inr (summary\<lparr>ss_removed := n\<rparr>), db''))))"

end
