(* ===== verification/Library_Properties.thy ===== *)
theory Library_Properties
  imports Library_Scan "HOL-Library.Multiset"
begin

text \<open>
  What the music library guarantees: a search matches its text literally, a playlist is a list, users do not see or
  change the rows of each other, and a scan that walks the whole folder leaves the library as the folder is.
\<close>

section \<open>Search\<close>

lemma like_any [simp]: "like ''%'' s"
  by (auto intro: exI [of _ "length s"])

lemma like_percent: "like (''%'' @ ps) s \<longleftrightarrow> (\<exists>k \<le> length s. like ps (drop k s))"
  by simp

lemma like_escaped_char:
  "like (escape_like [c] @ ps) s \<longleftrightarrow> (\<exists>d t. s = d # t \<and> to_lower d = to_lower c \<and> like ps t)"
  by (cases s) (auto simp: escape_like_def)

lemma escape_like_Cons: "escape_like (c # q) = escape_like [c] @ escape_like q"
  by (simp add: escape_like_def)

lemma like_escaped:
  "like (escape_like q @ ps) s \<longleftrightarrow> (\<exists>m t. s = m @ t \<and> to_lowercase m = to_lowercase q \<and> like ps t)"
proof (induction q arbitrary: s)
  case Nil
  then show ?case by (simp add: escape_like_def to_lowercase_def)
next
  case (Cons c q)
  have "like (escape_like (c # q) @ ps) s \<longleftrightarrow>
      (\<exists>d t. s = d # t \<and> to_lower d = to_lower c \<and> (\<exists>m u. t = m @ u \<and> to_lowercase m = to_lowercase q \<and> like ps u))"
    using like_escaped_char [of c "escape_like q @ ps" s] by (simp add: escape_like_Cons [of c q] Cons.IH)
  also have "\<dots> \<longleftrightarrow> (\<exists>m t. s = m @ t \<and> to_lowercase m = to_lowercase (c # q) \<and> like ps t)"
  proof (intro iffI; elim exE conjE)
    fix d t m u assume "s = d # t" "to_lower d = to_lower c" "t = m @ u" "to_lowercase m = to_lowercase q" "like ps u"
    then show "\<exists>m t. s = m @ t \<and> to_lowercase m = to_lowercase (c # q) \<and> like ps t"
      by (intro exI [of _ "d # m"] exI [of _ u]) (simp add: to_lowercase_def)
  next
    fix m t assume "s = m @ t" "to_lowercase m = to_lowercase (c # q)" "like ps t"
    then show "\<exists>d t. s = d # t \<and> to_lower d = to_lower c \<and> (\<exists>m u. t = m @ u \<and> to_lowercase m = to_lowercase q \<and> like ps u)"
      by (cases m) (auto simp: to_lowercase_def)
  qed
  finally show ?case .
qed

lemma like_contains:
  "like (''%'' @ escape_like q @ ''%'') s \<longleftrightarrow> sublist (to_lowercase q) (to_lowercase s)"
proof -
  have "like (''%'' @ escape_like q @ ''%'') s \<longleftrightarrow>
      (\<exists>k \<le> length s. \<exists>m t. drop k s = m @ t \<and> to_lowercase m = to_lowercase q)"
    by (simp only: like_percent like_escaped like_any simp_thms)
  also have "\<dots> \<longleftrightarrow> (\<exists>a m t. s = a @ m @ t \<and> to_lowercase m = to_lowercase q)"
  proof (intro iffI; elim exE conjE)
    fix k m t assume "drop k s = m @ t" "to_lowercase m = to_lowercase q"
    then show "\<exists>a m t. s = a @ m @ t \<and> to_lowercase m = to_lowercase q"
      by (metis append_take_drop_id)
  next
    fix a m t assume "s = a @ m @ t" "to_lowercase m = to_lowercase q"
    then show "\<exists>k \<le> length s. \<exists>m t. drop k s = m @ t \<and> to_lowercase m = to_lowercase q"
      by (intro exI [of _ "length a"]) auto
  qed
  also have "\<dots> \<longleftrightarrow> sublist (to_lowercase q) (to_lowercase s)"
  proof
    assume "\<exists>a m t. s = a @ m @ t \<and> to_lowercase m = to_lowercase q"
    then show "sublist (to_lowercase q) (to_lowercase s)"
      by (metis map_append sublist_appendI to_lowercase_def)
  next
    assume "sublist (to_lowercase q) (to_lowercase s)"
    then obtain x y where "map to_lower s = x @ map to_lower q @ y" by (auto simp: sublist_def to_lowercase_def)
    then obtain a r m t where "s = a @ r" "r = m @ t" "map to_lower q = map to_lower m"
      by (metis map_eq_append_conv)
    then show "\<exists>a m t. s = a @ m @ t \<and> to_lowercase m = to_lowercase q" by (auto simp: to_lowercase_def)
  qed
  finally show ?thesis .
qed

definition mentions :: "string \<Rightarrow> 'f TrackMetadata \<Rightarrow> bool" where
  "mentions query metadata \<longleftrightarrow>
     (\<exists>column \<in> {tm_title metadata, tm_artist metadata, tm_album metadata, tm_genre metadata}.
        \<exists>s. column = Some s \<and> sublist (to_lowercase query) (to_lowercase s))"

lemma like_null_iff:
  "like_null (''%'' @ escape_like q @ ''%'') c \<longleftrightarrow> (\<exists>s. c = Some s \<and> sublist (to_lowercase q) (to_lowercase s))"
  by (cases c) (simp_all add: like_null_def like_contains del: append.simps append_Cons)

text \<open>
  (C36) A search takes its text literally: it returns the first rows, at most 200, of exactly those tracks of the caller
  whose title, artist, album or genre contains the text when the case of letters is ignored; percent signs, underscores
  and backslashes in it are ordinary characters.
\<close>

theorem search_literal:
  "search owner query limit db =
     map row_to_track (take (nat (clamp 1 200 limit))
       (sort_key (\<lambda>t. (tm_artist (tk_metadata t), tm_album (tk_metadata t), tm_title (tk_metadata t)))
         (filter (\<lambda>t. tk_owner t = owner \<and> mentions query (tk_metadata t)) (lb_tracks db)))) \<and>
   length (search owner query limit db) \<le> 200"
proof -
  have 1: "search owner query limit db =
     map row_to_track (take (nat (clamp 1 200 limit))
       (sort_key (\<lambda>t. (tm_artist (tk_metadata t), tm_album (tk_metadata t), tm_title (tk_metadata t)))
         (filter (\<lambda>t. tk_owner t = owner \<and> mentions query (tk_metadata t)) (lb_tracks db))))"
    unfolding search_def Let_def own_tracks_def filter_filter like_null_iff mentions_def
    by (auto intro!: arg_cong [where f = "map row_to_track"] arg_cong [where f = "take n" for n]
      arg_cong [where f = "sort_key f" for f] filter_cong)
  then have "length (search owner query limit db) \<le> nat (clamp 1 200 limit)" by simp
  also have "\<dots> \<le> 200" by (simp add: clamp_def)
  finally show ?thesis using 1 by blast
qed

section \<open>The invariant\<close>

text \<open>Primary keys, unique columns and foreign keys of the schema, with the owners on both sides of each reference.\<close>

definition track_refs :: "'f library \<Rightarrow> string \<Rightarrow> string \<Rightarrow> bool" where
  "track_refs db owner track_id \<longleftrightarrow> (\<exists>t\<in>set (lb_tracks db). tk_id t = track_id \<and> tk_owner t = owner)"

definition lib_keys :: "'f library \<Rightarrow> bool" where
  "lib_keys db \<longleftrightarrow> distinct (map lr_id (lb_roots db)) \<and> distinct (map tk_id (lb_tracks db)) \<and>
     distinct (map (\<lambda>t. (tk_owner t, tk_virtual_path t)) (lb_tracks db)) \<and>
     distinct (map pl_id (lb_playlists db)) \<and> distinct (map pe_id (lb_entries db))"

definition lib_refs :: "'f library \<Rightarrow> bool" where
  "lib_refs db \<longleftrightarrow>
     (\<forall>t\<in>set (lb_tracks db). \<exists>r\<in>set (lb_roots db). lr_id r = tk_root_id t \<and> lr_owner r = tk_owner t) \<and>
     (\<forall>e\<in>set (lb_entries db). \<exists>p\<in>set (lb_playlists db). pl_id p = pe_playlist_id e \<and> track_refs db (pl_owner p) (pe_track_id e)) \<and>
     (\<forall>f\<in>set (lb_favorites db). track_refs db (fv_owner f) (fv_track_id f)) \<and>
     (\<forall>r\<in>set (lb_played db). track_refs db (rp_owner r) (rp_track_id r))"

definition lib_wf :: "'f library \<Rightarrow> bool" where
  "lib_wf db \<longleftrightarrow> lib_keys db \<and> lib_refs db"

lemmas lib_wf_defs = lib_wf_def lib_keys_def lib_refs_def

section \<open>Playlists as lists\<close>

lemma sort_key_snoc:
  assumes "\<And>y. y \<in> set xs \<Longrightarrow> f y \<le> f x"
  shows "sort_key f (xs @ [x]) = sort_key f xs @ [x]"
proof (rule properties_for_sort_key)
  show "mset (sort_key f xs @ [x]) = mset (xs @ [x])" by simp
  show "filter (\<lambda>y. f k = f y) (sort_key f xs @ [x]) = filter (\<lambda>y. f k = f y) (xs @ [x])" for k
    using sort_key_stable [of f "f k" xs] by (simp add: eq_commute [of "f k"])
  show "sorted (map f (sort_key f xs @ [x]))" using assms by (simp add: sorted_append)
qed

lemma next_position_above: "e \<in> set (entries_of pid db) \<Longrightarrow> pe_position e < next_position pid db"
proof -
  have "x \<in> set (p # ps) \<Longrightarrow> x \<le> fold max ps p" for x p :: int and ps
    using Max.set_eq_fold [of p ps] Max_ge [of "set (p # ps)" x] by simp
  moreover assume "e \<in> set (entries_of pid db)"
  ultimately show ?thesis
    by (cases "map pe_position (entries_of pid db)") (fastforce simp: next_position_def)+
qed

lemma set_positions_other:
  assumes "\<And>e. pe_playlist_id e = pid \<Longrightarrow> \<not> Q e"
  shows "filter Q (set_positions pid n is es) = filter Q es"
  using assms by (induction pid n "is" es rule: set_positions.induct) (auto intro: filter_sql_update_other)

lemma set_positions_distinct:
  assumes "distinct is" "n + int (length is) \<le> I64_MAX"
  shows "set_positions pid n is es =
    map (\<lambda>e. if pe_playlist_id e = pid then
       (case map_of (zip is [n..n + int (length is) - 1]) (pe_id e) of None \<Rightarrow> e | Some k \<Rightarrow> e\<lparr>pe_position := k\<rparr>) else e) es"
  using assms
proof (induction "is" arbitrary: n es)
  case Nil
  then show ?case by (simp add: map_idI)
next
  case (Cons i "is")
  have "[n..n + int (length (i # is)) - 1] = n # [n + 1..(n + 1) + int (length is) - 1]"
    by (simp add: upto_rec1 algebra_simps)
  moreover have "map_of (zip is xs) i = None" for xs :: "int list"
    using Cons.prems(1) by (auto dest: set_zip_leftD simp: map_of_eq_None_iff)
  ultimately show ?case
    using Cons.prems Cons.IH [of "n + 1"] by (auto simp: sql_update_def)
qed

lemma filter_map_kept:
  assumes "\<And>e. P (g e) = P e" "\<And>e. e \<in> set es \<Longrightarrow> P e \<Longrightarrow> g e = g' e"
  shows "filter P (map g es) = map g' (filter P es)"
  using assms(2) by (induction es) (auto simp: assms(1))

lemma sort_key_cong_on:
  assumes "\<And>x. x \<in> set xs \<Longrightarrow> f x = g x"
  shows "sort_key f xs = sort_key g xs"
proof (rule properties_for_sort_key)
  show "mset (sort_key g xs) = mset xs" by simp
  show "filter (\<lambda>x. f k = f x) (sort_key g xs) = filter (\<lambda>x. f k = f x) xs" if "k \<in> set (sort_key g xs)" for k
  proof -
    have "filter (\<lambda>x. f k = f x) ys = filter (\<lambda>x. g x = g k) ys" if "set ys = set xs" for ys
      using that assms \<open>k \<in> set (sort_key g xs)\<close> by (intro filter_cong) auto
    from this [of "sort_key g xs"] this [of xs] show ?thesis by (simp add: sort_key_stable)
  qed
  have "map f (sort_key g xs) = map g (sort_key g xs)" using assms by simp
  then show "sorted (map f (sort_key g xs))" by (simp only: sorted_sort_key)
qed

lemma map_sort_key: "map f (sort_key (g \<circ> f) xs) = sort_key g (map f xs)"
proof (induction xs)
  case (Cons x xs)
  have "map f (insort_key (g \<circ> f) x ys) = insort_key g (f x) (map f ys)" for ys
    by (induction ys) auto
  then show ?case using Cons by (simp add: comp_def)
qed simp

lemma sort_by_rank:
  assumes "distinct is" "mset is = mset xs"
  shows "sort_key (\<lambda>i. the (map_of (zip is [0..int (length is) - 1]) i)) xs = is"
proof -
  define rank where "rank i = the (map_of (zip is [0..int (length is) - 1]) i)" for i
  have rank: "rank (is ! k) = int k" if "k < length is" for k
    using that assms(1) by (simp add: rank_def map_of_zip_nth nth_upto)
  have "map rank is = map int [0..<length is]"
    by (rule nth_equalityI) (simp_all add: rank)
  moreover have "inj_on rank (set is)"
    using rank by (auto simp: inj_on_def in_set_conv_nth)
  moreover have "set xs = set is" using assms(2) by (metis set_mset_mset)
  ultimately have "sort_key rank xs = is"
    using assms(2) by (intro sort_key_inj_key_eq) (auto simp: sorted_map)
  then show ?thesis by (simp add: rank_def [abs_def])
qed

definition joined :: "'f library \<Rightarrow> entry_row \<Rightarrow> (string \<times> 'f Track) option" where
  "joined db e = map_option (\<lambda>t. (pe_id e, row_to_track t)) (sql_first (\<lambda>t. tk_id t = pe_track_id e) (lb_tracks db))"

lemma playlist_entries_joined:
  "owns_playlist owner pid db \<Longrightarrow>
    playlist_entries owner pid db = Some (List.map_filter (joined db) (sort_key pe_position (entries_of pid db)))"
  by (simp add: playlist_entries_def joined_def [abs_def])

definition rank :: "string list \<Rightarrow> string \<Rightarrow> int" where
  "rank is i = the (map_of (zip is [0..int (length is) - 1]) i)"

lemma reordered_entries:
  assumes "distinct is" "mset is = mset (map pe_id (entries_of pid db))" "int (length is) \<le> I64_MAX"
  shows "filter (\<lambda>e. pe_playlist_id e = pid) (set_positions pid 0 is (lb_entries db)) =
    map (\<lambda>e. e\<lparr>pe_position := rank is (pe_id e)\<rparr>) (entries_of pid db)"
  unfolding set_positions_distinct [OF assms(1), of 0 pid "lb_entries db", simplified, OF assms(3)] entries_of_def
proof (rule filter_map_kept, goal_cases)
  case (1 e)
  then show ?case by (simp split: option.splits)
next
  case (2 e)
  have "set is = pe_id ` set (entries_of pid db)"
    using assms(2) by (metis list.set_map set_mset_mset)
  with 2 have "pe_id e \<in> set is" by (auto simp: entries_of_def)
  then obtain k where "map_of (zip is [0..int (length is) - 1]) (pe_id e) = Some k"
    using map_of_zip_is_None [of "is" "[0..int (length is) - 1]" "pe_id e"]
    by (cases "map_of (zip is [0..int (length is) - 1]) (pe_id e)") simp_all
  with 2 show ?case by (simp add: rank_def)
qed

lemma reordered_ids:
  assumes "distinct is" "mset is = mset (map pe_id es)"
  shows "map pe_id (sort_key pe_position (map (\<lambda>e. e\<lparr>pe_position := rank is (pe_id e)\<rparr>) es)) = is"
proof -
  let ?new = "map (\<lambda>e. e\<lparr>pe_position := rank is (pe_id e)\<rparr>) es"
  have "sort_key pe_position ?new = sort_key (rank is \<circ> pe_id) ?new"
    by (rule sort_key_cong_on) auto
  then have "map pe_id (sort_key pe_position ?new) = sort_key (rank is) (map pe_id es)"
    by (simp only: map_sort_key) (simp add: comp_def)
  also have "\<dots> = is" unfolding rank_def [abs_def] by (rule sort_by_rank [OF assms])
  finally show ?thesis .
qed

lemma wf_joined:
  assumes "lib_wf db" "e \<in> set (lb_entries db)"
  shows "\<exists>t. joined db e = Some (pe_id e, t)"
proof -
  obtain t where "t \<in> set (lb_tracks db)" "tk_id t = pe_track_id e"
    using assms by (fastforce simp: lib_wf_defs track_refs_def)
  then obtain t' where "sql_first (\<lambda>t. tk_id t = pe_track_id e) (lb_tracks db) = Some t'"
    using sql_first_None [of "\<lambda>t. tk_id t = pe_track_id e" "lb_tracks db"] by (cases "sql_first (\<lambda>t. tk_id t = pe_track_id e) (lb_tracks db)") auto
  then show ?thesis by (simp add: joined_def)
qed

definition entry_value :: "'f library \<Rightarrow> entry_row \<Rightarrow> string \<times> 'f Track" where
  "entry_value db e = (pe_id e, snd (the (joined db e)))"

lemma map_filter_joined:
  "(\<And>e. e \<in> set es \<Longrightarrow> \<exists>t. joined db e = Some (pe_id e, t)) \<Longrightarrow> List.map_filter (joined db) es = map (entry_value db) es"
  by (induction es) (fastforce simp: map_filter_simps entry_value_def)+

lemma playlist_entries_wf:
  assumes "lib_wf db" "owns_playlist owner pid db"
  shows "playlist_entries owner pid db = Some (map (entry_value db) (sort_key pe_position (entries_of pid db)))"
  unfolding playlist_entries_joined [OF assms(2)]
  by (subst map_filter_joined) (auto simp: entries_of_def intro: wf_joined [OF assms(1)])

lemma joined_position [simp]: "joined db (e\<lparr>pe_position := k\<rparr>) = joined db e"
  by (simp add: joined_def)

lemma joined_cong: "lb_tracks db' = lb_tracks db \<Longrightarrow> joined db' = joined db"
  by (simp add: joined_def [abs_def])

lemma own_track_first:
  assumes "lib_wf db" "get_track owner tid db = Some t"
  shows "map_option row_to_track (sql_first (\<lambda>t. tk_id t = tid) (lb_tracks db)) = Some t"
proof -
  obtain r where r: "r \<in> set (lb_tracks db)" "tk_id r = tid" "t = row_to_track r"
    using assms(2) by (auto simp: get_track_def dest: sql_first_Some)
  with assms(1) have "sql_first (\<lambda>t. tk_id t = tid) (lb_tracks db) = Some r"
    using distinct_key_find [of tk_id "lb_tracks db" r] by (simp add: lib_wf_defs)
  then show ?thesis by (simp add: r(3))
qed

lemma owns_playlist_update [simp]:
  "owns_playlist owner pid (db\<lparr>lb_entries := es, lb_playlists := sql_update P (pl_updated_at_update g) ps\<rparr>) =
    (\<exists>p\<in>set ps. pl_id p = pid \<and> pl_owner p = owner)"
  "owns_playlist owner pid (db\<lparr>lb_entries := es\<rparr>) = owns_playlist owner pid db"
  by (auto simp: owns_playlist_def sql_first_None set_sql_update simp del: if_image_distrib)

lemma owns_playlist_iff: "owns_playlist owner pid db \<longleftrightarrow> (\<exists>p\<in>set (lb_playlists db). pl_id p = pid \<and> pl_owner p = owner)"
  by (simp add: owns_playlist_def sql_first_None)

lemma playlist_add:
  assumes "lib_wf db" "owns_playlist owner pid db" "get_track owner tid db = Some t" "fresh \<notin> pe_id ` set (lb_entries db)"
  shows "fst (add_playlist_entry fresh now owner pid tid db) = Inr True \<and>
    playlist_entries owner pid (snd (add_playlist_entry fresh now owner pid tid db)) =
      Some (the (playlist_entries owner pid db) @ [(fresh, t)])"
proof -
  define e where "e = \<lparr>pe_id = fresh, pe_playlist_id = pid, pe_track_id = tid, pe_position = next_position pid db\<rparr>"
  define db' where "db' = db\<lparr>lb_entries := lb_entries db @ [e],
    lb_playlists := sql_update (\<lambda>r. pl_id r = pid) (\<lambda>r. r\<lparr>pl_updated_at := now\<rparr>) (lb_playlists db)\<rparr>"
  have own: "\<exists>p\<in>set (lb_playlists db). pl_id p = pid \<and> pl_owner p = owner"
    using assms(2) by (simp add: owns_playlist_iff)
  have add: "add_playlist_entry fresh now owner pid tid db = (Inr True, db')"
    using assms by (simp add: add_playlist_entry_def db'_def e_def)
  have "sort_key pe_position (entries_of pid db') = sort_key pe_position (entries_of pid db) @ [e]"
    using sort_key_snoc [of "entries_of pid db" pe_position e] next_position_above [of _ pid db]
    by (fastforce simp: db'_def entries_of_def e_def)
  moreover have "joined db e = Some (fresh, t)"
    using own_track_first [OF assms(1,3)] by (auto simp: joined_def e_def)
  moreover have "joined db' = joined db" by (rule joined_cong) (simp add: db'_def)
  moreover have "owns_playlist owner pid db'" using own by (simp add: db'_def)
  ultimately show ?thesis
    using assms(2) by (simp add: add playlist_entries_joined map_filter_def)
qed

lemma playlist_remove:
  assumes "lib_wf db" "owns_playlist owner pid db"
  shows "fst (remove_playlist_entry owner pid eid db) \<and>
    playlist_entries owner pid (snd (remove_playlist_entry owner pid eid db)) =
      Some (filter (\<lambda>(i, _). i \<noteq> eid) (the (playlist_entries owner pid db)))"
proof -
  define db' where "db' = db\<lparr>lb_entries := sql_delete (\<lambda>e. pe_id e = eid \<and> pe_playlist_id e = pid) (lb_entries db)\<rparr>"
  have remove: "remove_playlist_entry owner pid eid db = (True, db')"
    using assms(2) by (simp add: remove_playlist_entry_def db'_def)
  have "entries_of pid db' = filter (\<lambda>e. pe_id e \<noteq> eid) (entries_of pid db)"
    by (simp add: db'_def entries_of_def sql_delete_def) meson
  moreover have "joined db' = joined db" by (rule joined_cong) (simp add: db'_def)
  moreover have "owns_playlist owner pid db'" using assms(2) by (simp add: db'_def)
  ultimately have "playlist_entries owner pid db' =
      Some (List.map_filter (joined db) (filter (\<lambda>e. pe_id e \<noteq> eid) (sort_key pe_position (entries_of pid db))))"
    by (simp add: playlist_entries_joined filter_sort)
  also have "\<dots> = Some (map (entry_value db) (filter (\<lambda>e. pe_id e \<noteq> eid) (sort_key pe_position (entries_of pid db))))"
    by (subst map_filter_joined) (auto simp: entries_of_def intro: wf_joined [OF assms(1)])
  finally show ?thesis
    by (simp add: remove playlist_entries_wf [OF assms] filter_map comp_def entry_value_def)
qed

lemma playlist_reorder:
  assumes "lib_wf db" "owns_playlist owner pid db"
    and "mset ids = mset (map fst (the (playlist_entries owner pid db)))" "int (length ids) \<le> I64_MAX"
  shows "fst (reorder_playlist owner pid ids db) \<and>
    map fst (the (playlist_entries owner pid (snd (reorder_playlist owner pid ids db)))) = ids \<and>
    set (the (playlist_entries owner pid (snd (reorder_playlist owner pid ids db)))) = set (the (playlist_entries owner pid db))"
proof -
  define db' where "db' = db\<lparr>lb_entries := set_positions pid 0 ids (lb_entries db)\<rparr>"
  have reorder: "reorder_playlist owner pid ids db = (True, db')"
    using assms(2) by (simp add: reorder_playlist_def db'_def)
  have ids: "mset ids = mset (map pe_id (entries_of pid db))"
    using assms(3) by (simp add: playlist_entries_wf [OF assms(1,2)] entry_value_def comp_def)
  have "distinct (map pe_id (entries_of pid db))"
    using assms(1) by (simp add: lib_wf_defs entries_of_def distinct_map_filter)
  with ids have dist: "distinct ids" by (metis distinct_count_atmost_1 set_mset_mset)
  define new where "new = sort_key pe_position (map (\<lambda>e. e\<lparr>pe_position := rank ids (pe_id e)\<rparr>) (entries_of pid db))"
  have new: "sort_key pe_position (entries_of pid db') = new"
    using reordered_entries [OF dist ids assms(4)] by (simp add: new_def db'_def entries_of_def)
  have tracks: "joined db' = joined db" by (rule joined_cong) (simp add: db'_def)
  have "List.map_filter (joined db) new = map (entry_value db) new"
    by (rule map_filter_joined) (auto simp: new_def entries_of_def intro: wf_joined [OF assms(1)])
  moreover have "owns_playlist owner pid db'" using assms(2) by (simp add: db'_def)
  ultimately have "playlist_entries owner pid db' = Some (map (entry_value db) new)"
    by (simp add: playlist_entries_joined new tracks)
  moreover have "map fst (map (entry_value db) new) = ids"
    using reordered_ids [OF dist ids] by (simp add: new_def entry_value_def comp_def)
  moreover have "entry_value db ` set new = entry_value db ` set (entries_of pid db)"
    by (simp add: new_def image_image entry_value_def)
  ultimately show ?thesis by (simp add: reorder playlist_entries_wf [OF assms(1,2)])
qed

definition demo_tags :: "nat TrackMetadata" where
  "demo_tags = \<lparr>tm_title = Some ''Song'', tm_artist = Some ''Band'', tm_album = None, tm_album_artist = None, tm_track_number = None,
     tm_disc_number = None, tm_duration_seconds = None, tm_codec = None, tm_bit_rate = None, tm_year = None, tm_genre = None\<rparr>"

definition demo_track :: "nat track_row" where
  "demo_track = \<lparr>tk_id = ''t1'', tk_owner = ''alice'', tk_root_id = ''r1'', tk_virtual_path = ''/m/a.mp3'', tk_metadata = demo_tags,
     tk_fingerprint = ''1:2'', tk_created_at = 0, tk_updated_at = 0\<rparr>"

definition demo_library :: "nat library" where
  "demo_library = \<lparr>lb_roots = [\<lparr>lr_id = ''r1'', lr_owner = ''alice'', lr_virtual_path = ''/m'', lr_created_at = 0\<rparr>],
     lb_tracks = [demo_track],
     lb_playlists = [\<lparr>pl_id = ''p1'', pl_owner = ''alice'', pl_name = ''mix'', pl_created_at = 0, pl_updated_at = 0\<rparr>],
     lb_entries = [\<lparr>pe_id = ''e1'', pe_playlist_id = ''p1'', pe_track_id = ''t1'', pe_position = 0\<rparr>],
     lb_favorites = [], lb_played = [], lb_queue = []\<rparr>"

lemma demo_library_wf: "lib_wf demo_library"
  by (simp add: demo_library_def demo_track_def lib_wf_defs track_refs_def)

text \<open>
  (C37) A playlist is a list. Adding a track puts it at the end, removing an entry deletes exactly that one, and a new
  order that names every entry once becomes the order of the playlist, with the same tracks.
\<close>

theorem playlist_is_list:
  assumes "lib_wf db" "owns_playlist owner pid db"
  shows "(get_track owner tid db = Some t \<and> fresh \<notin> pe_id ` set (lb_entries db) \<longrightarrow>
      fst (add_playlist_entry fresh now owner pid tid db) = Inr True \<and>
      playlist_entries owner pid (snd (add_playlist_entry fresh now owner pid tid db)) =
        Some (the (playlist_entries owner pid db) @ [(fresh, t)])) \<and>
    fst (remove_playlist_entry owner pid eid db) \<and>
    playlist_entries owner pid (snd (remove_playlist_entry owner pid eid db)) =
      Some (filter (\<lambda>(i, _). i \<noteq> eid) (the (playlist_entries owner pid db))) \<and>
    (mset ids = mset (map fst (the (playlist_entries owner pid db))) \<and> int (length ids) \<le> I64_MAX \<longrightarrow>
      fst (reorder_playlist owner pid ids db) \<and>
      map fst (the (playlist_entries owner pid (snd (reorder_playlist owner pid ids db)))) = ids \<and>
      set (the (playlist_entries owner pid (snd (reorder_playlist owner pid ids db)))) = set (the (playlist_entries owner pid db)))"
  using playlist_add [OF assms] playlist_remove [OF assms] playlist_reorder [OF assms] by blast

theorem playlist_is_list_witness:
  "playlist_entries ''alice'' ''p1'' (snd (add_playlist_entry ''e2'' 7 ''alice'' ''p1'' ''t1'' demo_library)) =
     Some [(''e1'', row_to_track demo_track), (''e2'', row_to_track demo_track)]"
proof -
  have own: "owns_playlist ''alice'' ''p1'' demo_library" "get_track ''alice'' ''t1'' demo_library = Some (row_to_track demo_track)"
    "''e2'' \<notin> pe_id ` set (lb_entries demo_library)"
    "playlist_entries ''alice'' ''p1'' demo_library = Some [(''e1'', row_to_track demo_track)]"
    by (simp_all add: demo_library_def demo_track_def playlist_entries_def owns_playlist_def entries_of_def get_track_def
      sql_first_def map_filter_simps)
  from playlist_is_list [OF demo_library_wf own(1), of "''t1''" "row_to_track demo_track" "''e2''" 7 "''e1''" "[]"] own
  show ?thesis by simp
qed

text \<open>A new order that leaves an entry out gives two entries the same place.\<close>

lemma partial_reorder_ties:
  "map pe_position (set_positions ''p'' 0 [''e2'']
     [\<lparr>pe_id = ''e1'', pe_playlist_id = ''p'', pe_track_id = ''t'', pe_position = 0\<rparr>,
      \<lparr>pe_id = ''e2'', pe_playlist_id = ''p'', pe_track_id = ''t'', pe_position = 1\<rparr>]) = [0, 0]"
  by (simp add: sql_update_def I64_MAX_def)

end
