(* ===== verification/Library_Tenants.thy ===== *)
theory Library_Tenants
  imports Library_Properties
begin

text \<open>
  The users of the music library do not interfere: what a user reads depends on the rows of that user only, and no
  command of another user, scans included, changes them. The commands are those of the handlers of
  \<open>services/clouddeskd/src/lib.rs\<close>, module \<open>music\<close>, after their authorisation.
\<close>

section \<open>Commands\<close>

datatype 'f lib_cmd =
    AddRoot string int string
  | RemoveRoot string
  | ScanRoot "'f scan_env" scan_node string
  | CreatePlaylist string int string
  | RenamePlaylist int string string
  | DeletePlaylist string
  | AddEntry string int string string
  | RemoveEntry string string
  | Reorder string "string list"
  | Favorite int string
  | Unfavorite string
  | RecordPlayed string int string
  | SetQueue "string list \<Rightarrow> string option" int "string list"

text \<open>The handler of a scan looks the folder up among those of the caller first.\<close>

definition scan_own_root ::
    "'f scan_env \<Rightarrow> scan_node \<Rightarrow> string \<Rightarrow> string \<Rightarrow> 'f library \<Rightarrow> (db_error + ScanSummary) option \<times> 'f library" where
  "scan_own_root env real_root u root_id db =
     (case get_root u root_id db of
        None \<Rightarrow> (None, db)
      | Some root \<Rightarrow>
        (case scan_root env u (lro_id root) real_root (lro_virtual_path root) db of (r, db') \<Rightarrow> (Some r, db')))"

fun lib_act :: "string \<Rightarrow> 'f lib_cmd \<Rightarrow> 'f library \<Rightarrow> 'f library" where
  "lib_act u (AddRoot fresh now path) db = snd (add_root fresh now u path db)"
| "lib_act u (RemoveRoot root_id) db = remove_root u root_id db"
| "lib_act u (ScanRoot env node root_id) db = snd (scan_own_root env node u root_id db)"
| "lib_act u (CreatePlaylist fresh now name) db = snd (create_playlist fresh now u name db)"
| "lib_act u (RenamePlaylist now pid name) db = snd (rename_playlist now u pid name db)"
| "lib_act u (DeletePlaylist pid) db = delete_playlist u pid db"
| "lib_act u (AddEntry fresh now pid tid) db = snd (add_playlist_entry fresh now u pid tid db)"
| "lib_act u (RemoveEntry pid eid) db = snd (remove_playlist_entry u pid eid db)"
| "lib_act u (Reorder pid ids) db = snd (reorder_playlist u pid ids db)"
| "lib_act u (Favorite now tid) db = snd (favorite now u tid db)"
| "lib_act u (Unfavorite tid) db = unfavorite u tid db"
| "lib_act u (RecordPlayed fresh now tid) db = snd (record_played fresh now u tid db)"
| "lib_act u (SetQueue to_json now items) db = set_queue to_json now u items db"

section \<open>The rows of one user\<close>

definition entry_of_user :: "string \<Rightarrow> 'f library \<Rightarrow> entry_row \<Rightarrow> bool" where
  "entry_of_user v db e \<longleftrightarrow> (\<exists>p\<in>set (lb_playlists db). pl_id p = pe_playlist_id e \<and> pl_owner p = v)"

definition rows_of :: "string \<Rightarrow> 'f library \<Rightarrow> 'f library" where
  "rows_of v db =
     \<lparr>lb_roots = filter (\<lambda>r. lr_owner r = v) (lb_roots db),
      lb_tracks = filter (\<lambda>t. tk_owner t = v) (lb_tracks db),
      lb_playlists = filter (\<lambda>p. pl_owner p = v) (lb_playlists db),
      lb_entries = filter (entry_of_user v db) (lb_entries db),
      lb_favorites = filter (\<lambda>f. fv_owner f = v) (lb_favorites db),
      lb_played = filter (\<lambda>r. rp_owner r = v) (lb_played db),
      lb_queue = filter (\<lambda>q. qu_owner q = v) (lb_queue db)\<rparr>"

text \<open>A command keeps the rows of \<open>v\<close> and the invariant.\<close>

definition lib_keeps :: "string \<Rightarrow> 'f library \<Rightarrow> 'f library \<Rightarrow> bool" where
  "lib_keeps v db db' \<longleftrightarrow> lib_wf db' \<and> rows_of v db' = rows_of v db"

lemma lib_keeps_refl: "lib_wf db \<Longrightarrow> lib_keeps v db db"
  by (simp add: lib_keeps_def)

lemma lib_keeps_trans: "lib_keeps v a b \<Longrightarrow> lib_keeps v b c \<Longrightarrow> lib_keeps v a c"
  by (simp add: lib_keeps_def)

lemma same_track:
  "lib_wf db \<Longrightarrow> t \<in> set (lb_tracks db) \<Longrightarrow> t' \<in> set (lb_tracks db) \<Longrightarrow> tk_id t = tk_id t' \<Longrightarrow> t = t'"
  by (auto simp: lib_wf_defs distinct_map inj_on_def)

lemma same_playlist:
  "lib_wf db \<Longrightarrow> p \<in> set (lb_playlists db) \<Longrightarrow> p' \<in> set (lb_playlists db) \<Longrightarrow> pl_id p = pl_id p' \<Longrightarrow> p = p'"
  by (auto simp: lib_wf_defs distinct_map inj_on_def)

lemma same_root:
  "lib_wf db \<Longrightarrow> r \<in> set (lb_roots db) \<Longrightarrow> r' \<in> set (lb_roots db) \<Longrightarrow> lr_id r = lr_id r' \<Longrightarrow> r = r'"
  by (auto simp: lib_wf_defs distinct_map inj_on_def)

lemma wf_track:
  "lib_wf db \<Longrightarrow> t \<in> set (lb_tracks db) \<Longrightarrow> \<exists>r\<in>set (lb_roots db). lr_id r = tk_root_id t \<and> lr_owner r = tk_owner t"
  by (simp add: lib_wf_def lib_refs_def)

lemma wf_entry:
  "lib_wf db \<Longrightarrow> e \<in> set (lb_entries db) \<Longrightarrow>
    \<exists>p\<in>set (lb_playlists db). pl_id p = pe_playlist_id e \<and> track_refs db (pl_owner p) (pe_track_id e)"
  by (simp add: lib_wf_def lib_refs_def)

lemma wf_favorite: "lib_wf db \<Longrightarrow> f \<in> set (lb_favorites db) \<Longrightarrow> track_refs db (fv_owner f) (fv_track_id f)"
  by (simp add: lib_wf_def lib_refs_def)

lemma wf_played: "lib_wf db \<Longrightarrow> r \<in> set (lb_played db) \<Longrightarrow> track_refs db (rp_owner r) (rp_track_id r)"
  by (simp add: lib_wf_def lib_refs_def)

lemma wf_entry_of_user:
  assumes "lib_wf db" "e \<in> set (lb_entries db)" "entry_of_user v db e"
  shows "track_refs db v (pe_track_id e)"
  using wf_entry [OF assms(1,2)] same_playlist [OF assms(1)] assms(3) by (metis entry_of_user_def)

lemma filter_delete_kept: "(\<And>x. x \<in> set xs \<Longrightarrow> Q x \<Longrightarrow> \<not> P x) \<Longrightarrow> filter Q (sql_delete P xs) = filter Q xs"
  by (induction xs) (auto simp: sql_delete_def)

lemma filter_update_kept:
  "(\<And>x. x \<in> set xs \<Longrightarrow> P x \<Longrightarrow> \<not> Q x \<and> \<not> Q (f x)) \<Longrightarrow> filter Q (sql_update P f xs) = filter Q xs"
  by (induction xs) (auto simp: sql_update_def)

lemma drop_tracks_refs:
  "lib_wf db \<Longrightarrow> track_refs db v i \<Longrightarrow> i \<notin> tk_id ` {t \<in> set (lb_tracks db). P t} \<Longrightarrow> track_refs (drop_tracks P db) v i"
  by (auto simp: track_refs_def drop_tracks_def sql_delete_def Let_def)

lemma drop_tracks_wf:
  assumes "lib_wf db"
  shows "lib_wf (drop_tracks P db)"
proof -
  have "lib_keys (drop_tracks P db)"
    using assms by (simp add: drop_tracks_def sql_delete_def Let_def lib_wf_defs distinct_map_filter)
  moreover have "lib_refs (drop_tracks P db)"
    using assms drop_tracks_refs [OF assms]
    unfolding lib_wf_def lib_refs_def
    by (auto simp: drop_tracks_def sql_delete_def Let_def) blast+
  ultimately show ?thesis by (simp add: lib_wf_def)
qed

lemma drop_tracks_keeps:
  assumes "lib_wf db" "\<And>t. t \<in> set (lb_tracks db) \<Longrightarrow> P t \<Longrightarrow> tk_owner t \<noteq> v"
  shows "lib_keeps v db (drop_tracks P db)"
proof -
  let ?gone = "tk_id ` {t \<in> set (lb_tracks db). P t}"
  have own: "i \<notin> ?gone" if "track_refs db v i" for i
    using that assms(2) same_track [OF assms(1)] by (fastforce simp: track_refs_def)
  have "entry_of_user v (drop_tracks P db) = entry_of_user v db"
    by (simp add: entry_of_user_def [abs_def] drop_tracks_def Let_def)
  then have "rows_of v (drop_tracks P db) = rows_of v db"
    using own wf_entry_of_user [OF assms(1)] wf_favorite [OF assms(1)] wf_played [OF assms(1)] assms(2)
    unfolding rows_of_def
    by (simp add: drop_tracks_def Let_def)
      (intro conjI filter_delete_kept; blast)
  then show ?thesis using drop_tracks_wf [OF assms(1)] by (simp add: lib_keeps_def)
qed

section \<open>Changes of one table\<close>

lemma lib_keeps_roots:
  assumes "lib_wf db" "distinct (map lr_id rs)" "filter (\<lambda>r. lr_owner r = v) rs = filter (\<lambda>r. lr_owner r = v) (lb_roots db)"
    and "\<And>t. t \<in> set (lb_tracks db) \<Longrightarrow> \<exists>r\<in>set rs. lr_id r = tk_root_id t \<and> lr_owner r = tk_owner t"
  shows "lib_keeps v db (db\<lparr>lb_roots := rs\<rparr>)"
  using assms by (simp add: lib_keeps_def lib_wf_defs track_refs_def rows_of_def entry_of_user_def [abs_def])

lemma lib_keeps_tracks:
  assumes "lib_wf db" "distinct (map tk_id ts)" "distinct (map (\<lambda>t. (tk_owner t, tk_virtual_path t)) ts)"
    and "filter (\<lambda>t. tk_owner t = v) ts = filter (\<lambda>t. tk_owner t = v) (lb_tracks db)"
    and "\<And>t. t \<in> set ts \<Longrightarrow> \<exists>r\<in>set (lb_roots db). lr_id r = tk_root_id t \<and> lr_owner r = tk_owner t"
    and refs: "\<And>u i. track_refs db u i \<Longrightarrow> track_refs (db\<lparr>lb_tracks := ts\<rparr>) u i"
  shows "lib_keeps v db (db\<lparr>lb_tracks := ts\<rparr>)"
proof -
  have "lib_refs (db\<lparr>lb_tracks := ts\<rparr>)"
    using assms(5) wf_entry [OF assms(1)] wf_favorite [OF assms(1)] wf_played [OF assms(1)] refs
    unfolding lib_refs_def by simp blast
  with assms show ?thesis by (simp add: lib_keeps_def lib_wf_def lib_keys_def rows_of_def entry_of_user_def [abs_def])
qed

lemma lib_keeps_playlists:
  assumes "lib_wf db" "distinct (map pl_id ps)" "filter (\<lambda>p. pl_owner p = v) ps = filter (\<lambda>p. pl_owner p = v) (lb_playlists db)"
    and "\<And>e. e \<in> set (lb_entries db) \<Longrightarrow>
      \<exists>p\<in>set ps. pl_id p = pe_playlist_id e \<and> track_refs db (pl_owner p) (pe_track_id e)"
  shows "lib_keeps v db (db\<lparr>lb_playlists := ps\<rparr>)"
proof -
  have "set (filter (\<lambda>p. pl_owner p = v) ps) = set (filter (\<lambda>p. pl_owner p = v) (lb_playlists db))"
    using assms(3) by (rule arg_cong)
  then have "entry_of_user v (db\<lparr>lb_playlists := ps\<rparr>) = entry_of_user v db"
    by (auto simp: entry_of_user_def [abs_def] fun_eq_iff set_eq_iff)
  moreover have "track_refs (db\<lparr>lb_playlists := ps\<rparr>) = track_refs db" by (simp add: track_refs_def [abs_def])
  ultimately show ?thesis using assms by (simp add: lib_keeps_def lib_wf_defs rows_of_def)
qed

lemma lib_keeps_entries:
  assumes "lib_wf db" "distinct (map pe_id es)" "filter (entry_of_user v db) es = filter (entry_of_user v db) (lb_entries db)"
    and "\<And>e. e \<in> set es \<Longrightarrow>
      \<exists>p\<in>set (lb_playlists db). pl_id p = pe_playlist_id e \<and> track_refs db (pl_owner p) (pe_track_id e)"
  shows "lib_keeps v db (db\<lparr>lb_entries := es\<rparr>)"
  using assms by (simp add: lib_keeps_def lib_wf_defs track_refs_def rows_of_def entry_of_user_def [abs_def])

lemma lib_keeps_favorites:
  assumes "lib_wf db" "filter (\<lambda>f. fv_owner f = v) fs = filter (\<lambda>f. fv_owner f = v) (lb_favorites db)"
    and "\<And>f. f \<in> set fs \<Longrightarrow> track_refs db (fv_owner f) (fv_track_id f)"
  shows "lib_keeps v db (db\<lparr>lb_favorites := fs\<rparr>)"
  using assms by (simp add: lib_keeps_def lib_wf_defs track_refs_def rows_of_def entry_of_user_def [abs_def])

lemma lib_keeps_played:
  assumes "lib_wf db" "filter (\<lambda>r. rp_owner r = v) rs = filter (\<lambda>r. rp_owner r = v) (lb_played db)"
    and "\<And>r. r \<in> set rs \<Longrightarrow> track_refs db (rp_owner r) (rp_track_id r)"
  shows "lib_keeps v db (db\<lparr>lb_played := rs\<rparr>)"
  using assms by (simp add: lib_keeps_def lib_wf_defs track_refs_def rows_of_def entry_of_user_def [abs_def])

lemma lib_keeps_queue:
  assumes "lib_wf db" "filter (\<lambda>q. qu_owner q = v) qs = filter (\<lambda>q. qu_owner q = v) (lb_queue db)"
  shows "lib_keeps v db (db\<lparr>lb_queue := qs\<rparr>)"
  using assms by (simp add: lib_keeps_def lib_wf_defs track_refs_def rows_of_def entry_of_user_def [abs_def])

section \<open>Every command keeps the rows of the others\<close>

lemma drop_roots_keeps:
  assumes "lib_wf db" "\<And>r. r \<in> set (lb_roots db) \<Longrightarrow> P r \<Longrightarrow> lr_owner r \<noteq> v"
  shows "lib_keeps v db (drop_roots P db)"
proof -
  define gone where "gone = lr_id ` {r \<in> set (lb_roots db). P r}"
  define db1 where "db1 = drop_tracks (\<lambda>t. tk_root_id t \<in> gone) db"
  have 1: "lib_keeps v db db1"
    unfolding db1_def using assms wf_track [OF assms(1)] same_root [OF assms(1)]
    by (intro drop_tracks_keeps) (fastforce simp: gone_def)+
  then have wf: "lib_wf db1" by (simp add: lib_keeps_def)
  have roots: "lb_roots db1 = lb_roots db" by (simp add: db1_def drop_tracks_def Let_def)
  have "lib_keeps v db1 (db1\<lparr>lb_roots := sql_delete P (lb_roots db)\<rparr>)"
  proof (rule lib_keeps_roots [OF wf])
    show "distinct (map lr_id (sql_delete P (lb_roots db)))"
      using assms(1) by (simp add: lib_wf_defs sql_delete_def distinct_map_filter)
    show "filter (\<lambda>r. lr_owner r = v) (sql_delete P (lb_roots db)) = filter (\<lambda>r. lr_owner r = v) (lb_roots db1)"
      unfolding roots using assms(2) by (intro filter_delete_kept) blast
    show "\<exists>r\<in>set (sql_delete P (lb_roots db)). lr_id r = tk_root_id t \<and> lr_owner r = tk_owner t"
      if t: "t \<in> set (lb_tracks db1)" for t
    proof -
      have "tk_root_id t \<notin> gone" using that by (simp add: db1_def drop_tracks_def sql_delete_def Let_def)
      moreover obtain r where "r \<in> set (lb_roots db)" "lr_id r = tk_root_id t" "lr_owner r = tk_owner t"
        using wf_track [OF wf t] unfolding roots by blast
      ultimately show ?thesis by (intro bexI [of _ r]) (force simp: sql_delete_def gone_def image_iff)+
    qed
  qed
  moreover have "drop_roots P db = db1\<lparr>lb_roots := sql_delete P (lb_roots db)\<rparr>"
    by (simp add: drop_roots_def drop_tracks_def db1_def gone_def Let_def)
  ultimately show ?thesis using 1 lib_keeps_trans by simp
qed

lemma drop_playlists_keeps:
  assumes "lib_wf db" "\<And>p. p \<in> set (lb_playlists db) \<Longrightarrow> P p \<Longrightarrow> pl_owner p \<noteq> v"
  shows "lib_keeps v db (drop_playlists P db)"
proof -
  define gone where "gone = pl_id ` {r \<in> set (lb_playlists db). P r}"
  define db1 where "db1 = db\<lparr>lb_entries := sql_delete (\<lambda>e. pe_playlist_id e \<in> gone) (lb_entries db)\<rparr>"
  have 1: "lib_keeps v db db1"
    unfolding db1_def
  proof (rule lib_keeps_entries [OF assms(1)])
    show "distinct (map pe_id (sql_delete (\<lambda>e. pe_playlist_id e \<in> gone) (lb_entries db)))"
      using assms(1) by (simp add: lib_wf_defs sql_delete_def distinct_map_filter)
    show "filter (entry_of_user v db) (sql_delete (\<lambda>e. pe_playlist_id e \<in> gone) (lb_entries db)) =
        filter (entry_of_user v db) (lb_entries db)"
    proof (rule filter_delete_kept, rule notI)
      fix e assume "entry_of_user v db e" "pe_playlist_id e \<in> gone"
      then obtain p q where "p \<in> set (lb_playlists db)" "pl_id p = pe_playlist_id e" "pl_owner p = v"
        and "q \<in> set (lb_playlists db)" "pl_id q = pe_playlist_id e" "P q"
        by (auto simp: entry_of_user_def gone_def)
      with same_playlist [OF assms(1), of p q] assms(2) [of q] show False by simp
    qed
  qed (use wf_entry [OF assms(1)] in \<open>auto simp: sql_delete_def\<close>)
  then have wf: "lib_wf db1" by (simp add: lib_keeps_def)
  have "lib_keeps v db1 (db1\<lparr>lb_playlists := sql_delete P (lb_playlists db)\<rparr>)"
  proof (rule lib_keeps_playlists [OF wf])
    show "distinct (map pl_id (sql_delete P (lb_playlists db)))"
      using assms(1) by (simp add: lib_wf_defs sql_delete_def distinct_map_filter)
    show "filter (\<lambda>p. pl_owner p = v) (sql_delete P (lb_playlists db)) = filter (\<lambda>p. pl_owner p = v) (lb_playlists db1)"
      using assms(2) by (simp add: db1_def) (intro filter_delete_kept; blast)
    show "\<exists>p\<in>set (sql_delete P (lb_playlists db)). pl_id p = pe_playlist_id e \<and> track_refs db1 (pl_owner p) (pe_track_id e)"
      if e: "e \<in> set (lb_entries db1)" for e
    proof -
      have "pe_playlist_id e \<notin> gone" using that by (simp add: db1_def sql_delete_def)
      moreover obtain p where "p \<in> set (lb_playlists db)" "pl_id p = pe_playlist_id e" "track_refs db1 (pl_owner p) (pe_track_id e)"
        using wf_entry [OF wf e] by (auto simp: db1_def)
      ultimately show ?thesis by (intro bexI [of _ p]) (force simp: sql_delete_def gone_def image_iff)+
    qed
  qed
  moreover have "drop_playlists P db = db1\<lparr>lb_playlists := sql_delete P (lb_playlists db)\<rparr>"
    by (simp add: drop_playlists_def db1_def gone_def Let_def)
  ultimately show ?thesis using 1 lib_keeps_trans by simp
qed

lemma own_track_refs: "get_track u tid db = Some t \<Longrightarrow> track_refs db u tid"
  by (auto simp: get_track_def track_refs_def dest: sql_first_Some)

lemma owner_same:
  assumes "lib_wf db" "owns_playlist u pid db" "u \<noteq> v"
  shows "p \<in> set (lb_playlists db) \<Longrightarrow> pl_id p = pid \<Longrightarrow> pl_owner p = u"
    and "pe_playlist_id e = pid \<Longrightarrow> \<not> entry_of_user v db e"
  using assms same_playlist [OF assms(1)] unfolding owns_playlist_iff entry_of_user_def by metis+

lemma upsert_keeps:
  assumes wf: "lib_wf db" and root: "\<exists>r\<in>set (lb_roots db). lr_id r = root_id \<and> lr_owner r = u" and "u \<noteq> v"
  shows "lib_keeps v db (snd (upsert_track fresh now u root_id path metadata fp db))"
proof -
  let ?same = "\<lambda>t. tk_owner t = u \<and> tk_virtual_path t = path"
  let ?set = "\<lambda>t. t\<lparr>tk_metadata := metadata, tk_fingerprint := fp, tk_updated_at := now\<rparr>"
  let ?row = "\<lparr>tk_id = fresh, tk_owner = u, tk_root_id = root_id, tk_virtual_path = path, tk_metadata = metadata,
    tk_fingerprint = fp, tk_created_at = now, tk_updated_at = now\<rparr>"
  have ids: "map k (sql_update ?same ?set ts) = map k ts" if "\<And>t. k (?set t) = k t" for k :: "'a track_row \<Rightarrow> 'k" and ts
    using that by (simp add: sql_update_def)
  have upd: "lib_keeps v db (db\<lparr>lb_tracks := sql_update ?same ?set (lb_tracks db)\<rparr>)"
  proof (rule lib_keeps_tracks [OF wf])
    show "filter (\<lambda>t. tk_owner t = v) (sql_update ?same ?set (lb_tracks db)) = filter (\<lambda>t. tk_owner t = v) (lb_tracks db)"
      using assms(3) by (intro filter_update_kept) auto
    show "\<exists>r\<in>set (lb_roots db). lr_id r = tk_root_id t \<and> lr_owner r = tk_owner t"
      if "t \<in> set (sql_update ?same ?set (lb_tracks db))" for t
      using that wf_track [OF wf] by (auto simp: sql_update_def)
    show "track_refs (db\<lparr>lb_tracks := sql_update ?same ?set (lb_tracks db)\<rparr>) w i" if "track_refs db w i" for w i
      using that by (auto simp: track_refs_def set_sql_update simp del: if_image_distrib)
  qed (use wf in \<open>simp_all add: ids lib_wf_defs\<close>)
  have ins: "lib_keeps v db (db\<lparr>lb_tracks := lb_tracks db @ [?row]\<rparr>)"
    if "\<not> list_ex ?same (lb_tracks db)" "fresh \<notin> tk_id ` set (lb_tracks db)"
    using that wf root assms(3) wf_track [OF wf]
    by (intro lib_keeps_tracks) (auto simp: lib_wf_defs track_refs_def list_ex_iff)
  show ?thesis
    using upd ins lib_keeps_refl [OF wf] by (auto simp: upsert_track_def Let_def)
qed

lemma fold_drop_tracks_keeps:
  assumes "lib_wf db" "\<And>p t. t \<in> set (lb_tracks db) \<Longrightarrow> P p t \<Longrightarrow> tk_owner t \<noteq> v"
  shows "lib_keeps v db (fold (\<lambda>p. drop_tracks (P p)) ps db)"
  using assms
proof (induction ps arbitrary: db)
  case Nil
  then show ?case by (simp add: lib_keeps_refl)
next
  case (Cons p ps)
  have 1: "lib_keeps v db (drop_tracks (P p) db)" using Cons.prems by (intro drop_tracks_keeps) blast+
  have "set (lb_tracks (drop_tracks (P p) db)) \<subseteq> set (lb_tracks db)"
    by (auto simp: drop_tracks_def sql_delete_def Let_def)
  then have "lib_keeps v (drop_tracks (P p) db) (fold (\<lambda>p. drop_tracks (P p)) ps (drop_tracks (P p) db))"
    using 1 Cons.prems(2) by (intro Cons.IH) (auto simp: lib_keeps_def)
  with 1 show ?case using lib_keeps_trans by simp
qed

lemma prune_keeps:
  assumes "lib_wf db" "\<exists>r\<in>set (lb_roots db). lr_id r = root_id \<and> lr_owner r = u" "u \<noteq> v"
  shows "lib_keeps v db (snd (prune_missing root_id present db))"
proof -
  have "tk_owner t = u" if "t \<in> set (lb_tracks db)" "tk_root_id t = root_id" for t
    using wf_track [OF assms(1) that(1)] that(2) assms(2) same_root [OF assms(1)] by metis
  then show ?thesis
    unfolding prune_missing_def Let_def snd_conv using assms by (intro fold_drop_tracks_keeps) auto
qed

lemma upsert_roots [simp]: "lb_roots (snd (upsert_track fresh now u root_id path metadata fp db)) = lb_roots db"
  by (simp add: upsert_track_def Let_def)

definition scan_keeps :: "string \<Rightarrow> 'f library \<Rightarrow> 'f library \<Rightarrow> bool" where
  "scan_keeps v db db' \<longleftrightarrow> lib_keeps v db db' \<and> lb_roots db' = lb_roots db"

lemma scan_keeps_trans: "scan_keeps v a b \<Longrightarrow> scan_keeps v b c \<Longrightarrow> scan_keeps v a c"
  by (auto simp: scan_keeps_def intro: lib_keeps_trans)

lemma upsert_scan_keeps:
  assumes "lib_wf db" "\<exists>r\<in>set (lb_roots db). lr_id r = root_id \<and> lr_owner r = u" "u \<noteq> v"
    and "upsert_track fresh now u root_id path metadata fp db = (r, db')"
  shows "scan_keeps v db db'"
  using upsert_keeps [OF assms(1-3), of fresh now path metadata fp] upsert_roots [of fresh now u root_id path metadata fp db] assms(4)
  by (simp add: scan_keeps_def)

lemma scan_files_keeps:
  assumes "lib_wf db" "\<exists>r\<in>set (lb_roots db). lr_id r = root_id \<and> lr_owner r = u" "u \<noteq> v"
  shows "scan_keeps v db (snd (scan_files env u root_id vr existing k paths present summary db))"
  using assms(1,2)
proof (induction paths arbitrary: k present summary db)
  case Nil
  then show ?case by (simp add: scan_keeps_def lib_keeps_refl)
next
  case (Cons path paths)
  note ups = upsert_scan_keeps [OF Cons.prems assms(3)]
  have refl: "scan_keeps v db db" using Cons.prems by (simp add: scan_keeps_def lib_keeps_refl)
  have same: "scan_keeps v db (snd (scan_files env u root_id vr existing k' paths present' summary' db))" for k' present' summary'
    by (rule Cons.IH [OF Cons.prems])
  have rest: "scan_keeps v db (snd (scan_files env u root_id vr existing k' paths present' summary' db'))"
    if "scan_keeps v db db'" for k' present' summary' db'
    using that Cons.IH [of db' k' present' summary'] Cons.prems(2)
    by (intro scan_keeps_trans [OF that]) (simp add: scan_keeps_def lib_keeps_def)
  show ?case
    using refl same ups rest by (simp add: Let_def split: option.split sum.split prod.split)
qed

lemma scan_own_root_keeps:
  assumes "lib_wf db" "u \<noteq> v"
  shows "lib_keeps v db (snd (scan_own_root env node u root_id db))"
proof (cases "get_root u root_id db")
  case None
  then show ?thesis using assms by (simp add: scan_own_root_def lib_keeps_refl)
next
  case (Some root)
  then have root: "\<exists>r\<in>set (lb_roots db). lr_id r = lro_id root \<and> lr_owner r = u"
    by (auto simp: get_root_def root_of_row_def dest: sql_first_Some)
  have files: "scan_keeps v db db'" if "scan_files env u (lro_id root) vr ex k ps pr su db = (r, db')" for vr ex k ps pr su r db'
    using scan_files_keeps [OF assms(1) root assms(2), of env vr ex k ps pr su] that by simp
  have prune: "lib_keeps v db db''"
    if "scan_keeps v db db'" "prune_missing (lro_id root) pr db' = (n, db'')" for pr n db' db''
    using that root prune_keeps [of db' "lro_id root" u v pr] assms(2)
    by (auto simp: scan_keeps_def lib_keeps_def)
  have "lib_keeps v db (snd (scan_root env u (lro_id root) node (lro_virtual_path root) db))"
    unfolding scan_root_def
    by (auto split: prod.split sum.split intro: prune dest!: files simp: scan_keeps_def)
  then show ?thesis using Some by (simp add: scan_own_root_def split: prod.split_asm) (auto split: prod.split)
qed

lemma set_positions_ids [simp]: "map pe_id (set_positions pid n is es) = map pe_id es"
  by (induction pid n "is" es rule: set_positions.induct) (simp_all add: sql_update_def)

lemma set_positions_refs:
  "e \<in> set (set_positions pid n is es) \<Longrightarrow>
    \<exists>e'\<in>set es. pe_playlist_id e' = pe_playlist_id e \<and> pe_track_id e' = pe_track_id e"
  by (induction pid n "is" es rule: set_positions.induct) (fastforce simp: sql_update_def)+

lemma lib_keeps_playlist_columns:
  assumes wf: "lib_wf db" and "owns_playlist u pid db" "u \<noteq> v" and g: "\<And>p. pl_id (g p) = pl_id p \<and> pl_owner (g p) = pl_owner p"
  shows "lib_keeps v db (db\<lparr>lb_playlists := sql_update (\<lambda>p. pl_id p = pid) g (lb_playlists db)\<rparr>)"
proof (rule lib_keeps_playlists [OF wf])
  show "distinct (map pl_id (sql_update (\<lambda>p. pl_id p = pid) g (lb_playlists db)))"
  proof -
    have "map pl_id (sql_update (\<lambda>p. pl_id p = pid) g (lb_playlists db)) = map pl_id (lb_playlists db)"
      using g by (simp add: sql_update_def)
    then show ?thesis using wf by (simp only: lib_wf_defs)
  qed
  show "filter (\<lambda>p. pl_owner p = v) (sql_update (\<lambda>p. pl_id p = pid) g (lb_playlists db)) = filter (\<lambda>p. pl_owner p = v) (lb_playlists db)"
    using owner_same(1) [OF assms(1-3)] assms(3) g by (intro filter_update_kept) auto
  show "\<exists>p\<in>set (sql_update (\<lambda>p. pl_id p = pid) g (lb_playlists db)). pl_id p = pe_playlist_id e \<and> track_refs db (pl_owner p) (pe_track_id e)"
    if e: "e \<in> set (lb_entries db)" for e
  proof -
    obtain p where "p \<in> set (lb_playlists db)" "pl_id p = pe_playlist_id e" "track_refs db (pl_owner p) (pe_track_id e)"
      using wf_entry [OF wf e] by blast
    then show ?thesis using g
      by (intro bexI [of _ "if pl_id p = pid then g p else p"]) (auto simp: sql_update_def)
  qed
qed

lemma add_entry_keeps:
  assumes "lib_wf db" "u \<noteq> v"
  shows "lib_keeps v db (snd (add_playlist_entry fresh now u pid tid db))"
proof (cases "owns_playlist u pid db \<and> get_track u tid db \<noteq> None \<and> fresh \<notin> pe_id ` set (lb_entries db)")
  case True
  define e where "e = \<lparr>pe_id = fresh, pe_playlist_id = pid, pe_track_id = tid, pe_position = next_position pid db\<rparr>"
  define db1 where "db1 = db\<lparr>lb_entries := lb_entries db @ [e]\<rparr>"
  have own: "owns_playlist u pid db" using True by simp
  then obtain p where p: "p \<in> set (lb_playlists db)" "pl_id p = pid" "pl_owner p = u" by (auto simp: owns_playlist_iff)
  have "track_refs db u tid" using True own_track_refs by blast
  then have 1: "lib_keeps v db db1"
    unfolding db1_def using True assms p owner_same(2) [OF assms(1) own assms(2)] wf_entry [OF assms(1)]
    by (intro lib_keeps_entries) (auto simp: e_def lib_wf_defs)
  then have "lib_keeps v db1 (db1\<lparr>lb_playlists := sql_update (\<lambda>r. pl_id r = pid) (\<lambda>r. r\<lparr>pl_updated_at := now\<rparr>) (lb_playlists db1)\<rparr>)"
    using own assms(2) by (intro lib_keeps_playlist_columns [of _ u]) (auto simp: lib_keeps_def db1_def)
  with 1 True show ?thesis
    by (auto simp: add_playlist_entry_def db1_def e_def dest: lib_keeps_trans)
next
  case False
  then show ?thesis using lib_keeps_refl [OF assms(1)] by (auto simp: add_playlist_entry_def)
qed

lemma lib_act_keeps:
  assumes "lib_wf db" "u \<noteq> v"
  shows "lib_keeps v db (lib_act u c db)"
proof (cases c)
  case (AddRoot fresh now path)
  have "\<not> list_ex (\<lambda>r. lr_id r = fresh \<or> lr_owner r = u \<and> lr_virtual_path r = path) (lb_roots db) \<Longrightarrow>
    lib_keeps v db (db\<lparr>lb_roots := lb_roots db @ [\<lparr>lr_id = fresh, lr_owner = u, lr_virtual_path = path, lr_created_at = now\<rparr>]\<rparr>)"
    using assms wf_track [OF assms(1)] by (intro lib_keeps_roots) (auto simp: lib_wf_defs list_ex_iff)
  then show ?thesis using AddRoot lib_keeps_refl [OF assms(1)] by (simp add: add_root_def)
next
  case (RemoveRoot root_id)
  then show ?thesis using assms by (auto simp: remove_root_def intro: drop_roots_keeps)
next
  case (ScanRoot env node root_id)
  then show ?thesis using assms by (simp add: scan_own_root_keeps)
next
  case (CreatePlaylist fresh now name)
  have "fresh \<notin> pl_id ` set (lb_playlists db) \<Longrightarrow> lib_keeps v db (db\<lparr>lb_playlists := lb_playlists db @
      [\<lparr>pl_id = fresh, pl_owner = u, pl_name = name, pl_created_at = now, pl_updated_at = now\<rparr>]\<rparr>)"
    using assms wf_entry [OF assms(1)] by (intro lib_keeps_playlists) (auto simp: lib_wf_defs)
  then show ?thesis using CreatePlaylist lib_keeps_refl [OF assms(1)] by (simp add: create_playlist_def)
next
  case (RenamePlaylist now pid name)
  then show ?thesis
    using assms lib_keeps_refl [OF assms(1)] lib_keeps_playlist_columns [OF assms(1) _ assms(2)] by (simp add: rename_playlist_def)
next
  case (DeletePlaylist pid)
  then show ?thesis using assms by (auto simp: delete_playlist_def intro: drop_playlists_keeps)
next
  case (AddEntry fresh now pid tid)
  then show ?thesis using assms by (simp add: add_entry_keeps)
next
  case (RemoveEntry pid eid)
  have "owns_playlist u pid db \<Longrightarrow>
      lib_keeps v db (db\<lparr>lb_entries := sql_delete (\<lambda>e. pe_id e = eid \<and> pe_playlist_id e = pid) (lb_entries db)\<rparr>)"
    using assms owner_same(2) [OF assms(1) _ assms(2)] wf_entry [OF assms(1)]
    by (intro lib_keeps_entries filter_delete_kept) (auto simp: lib_wf_defs sql_delete_def distinct_map_filter)
  then show ?thesis using RemoveEntry lib_keeps_refl [OF assms(1)] by (simp add: remove_playlist_entry_def)
next
  case (Reorder pid ids)
  have "owns_playlist u pid db \<Longrightarrow> lib_keeps v db (db\<lparr>lb_entries := set_positions pid 0 ids (lb_entries db)\<rparr>)"
    using assms owner_same(2) [OF assms(1) _ assms(2)] wf_entry [OF assms(1)]
    by (intro lib_keeps_entries set_positions_other) (auto simp: lib_wf_defs dest!: set_positions_refs, metis)
  then show ?thesis using Reorder lib_keeps_refl [OF assms(1)] by (simp add: reorder_playlist_def)
next
  case (Favorite now tid)
  have "track_refs db u tid \<Longrightarrow>
      lib_keeps v db (db\<lparr>lb_favorites := lb_favorites db @ [\<lparr>fv_owner = u, fv_track_id = tid, fv_created_at = now\<rparr>]\<rparr>)"
    using assms wf_favorite [OF assms(1)] by (intro lib_keeps_favorites) auto
  then show ?thesis
    using Favorite lib_keeps_refl [OF assms(1)] own_track_refs [of u tid db] by (auto simp: favorite_def)
next
  case (Unfavorite tid)
  then show ?thesis
    unfolding Unfavorite lib_act.simps unfavorite_def using assms wf_favorite [OF assms(1)]
    by (intro lib_keeps_favorites filter_delete_kept) (auto simp: sql_delete_def)
next
  case (RecordPlayed fresh now tid)
  have "track_refs db u tid \<Longrightarrow>
      lib_keeps v db (db\<lparr>lb_played := lb_played db @ [\<lparr>rp_id = fresh, rp_owner = u, rp_track_id = tid, rp_played_at = now\<rparr>]\<rparr>)"
    using assms wf_played [OF assms(1)] by (intro lib_keeps_played) auto
  then show ?thesis
    using RecordPlayed lib_keeps_refl [OF assms(1)] own_track_refs [of u tid db] by (auto simp: record_played_def)
next
  case (SetQueue to_json now items)
  then show ?thesis
    using assms by (auto simp: set_queue_def Let_def intro!: lib_keeps_queue filter_update_kept)
qed

interpretation library_users: tenants rows_of lib_wf lib_act
proof
  fix db :: "'f library" and u v c
  assume wf: "lib_wf db"
  show "lib_wf (lib_act u c db)" using lib_act_keeps [OF wf, of u "''x'' @ u" c] by (simp add: lib_keeps_def)
  show "rows_of v (lib_act u c db) = rows_of v db" if "u \<noteq> v"
    using lib_act_keeps [OF wf that, of c] by (simp add: lib_keeps_def)
qed

section \<open>What a user reads\<close>

lemma sql_first_filter: "(\<And>x. P x \<Longrightarrow> Q x) \<Longrightarrow> sql_first P (filter Q xs) = sql_first P xs"
  by (induction xs) (auto simp: sql_first_def)

lemma sql_first_filter_both: "sql_first (\<lambda>x. P x \<and> Q x) (filter Q xs) = sql_first (\<lambda>x. P x \<and> Q x) xs"
  by (rule sql_first_filter) simp

lemma own_rows [simp]:
  "own_tracks v (rows_of v db) = own_tracks v db"
  "list_roots v (rows_of v db) = list_roots v db"
  "list_playlists v (rows_of v db) = list_playlists v db"
  "get_track v i (rows_of v db) = get_track v i db"
  "get_root v i (rows_of v db) = get_root v i db"
  "owns_playlist v i (rows_of v db) = owns_playlist v i db"
  "get_queue from_json v (rows_of v db) = get_queue from_json v db"
  by (simp_all add: own_tracks_def list_roots_def list_playlists_def get_track_def get_root_def owns_playlist_def get_queue_def
    rows_of_def sql_first_filter sql_first_filter_both)

lemma own_track_first_rows:
  assumes "lib_wf db" "track_refs db v i"
  shows "sql_first (\<lambda>t. tk_id t = i) (lb_tracks (rows_of v db)) = sql_first (\<lambda>t. tk_id t = i) (lb_tracks db)"
proof -
  obtain t where t: "t \<in> set (lb_tracks db)" "tk_id t = i" "tk_owner t = v" using assms(2) by (auto simp: track_refs_def)
  have "sql_first (\<lambda>t. tk_id t = i) (lb_tracks db) = Some t"
    using distinct_key_find [of tk_id "lb_tracks db" t] assms(1) t by (simp add: lib_wf_defs)
  moreover have "sql_first (\<lambda>t. tk_id t = i) (lb_tracks (rows_of v db)) = Some t"
    using distinct_key_find [of tk_id "lb_tracks (rows_of v db)" t] assms(1) t
    by (simp add: lib_wf_defs rows_of_def distinct_map_filter)
  ultimately show ?thesis by simp
qed

lemma track_by_id_rows: "lib_wf db \<Longrightarrow> track_refs db v i \<Longrightarrow> track_by_id i (rows_of v db) = track_by_id i db"
  by (simp add: track_by_id_def own_track_first_rows)

lemma map_filter_cong: "(\<And>x. x \<in> set xs \<Longrightarrow> f x = g x) \<Longrightarrow> List.map_filter f xs = List.map_filter g xs"
  by (induction xs) (simp_all add: map_filter_simps split: option.split)

lemma playlist_entries_rows:
  assumes "lib_wf db"
  shows "playlist_entries v pid (rows_of v db) = playlist_entries v pid db"
proof (cases "owns_playlist v pid db")
  case True
  have own: "entry_of_user v db e" if "pe_playlist_id e = pid" for e
    using True that by (auto simp: owns_playlist_iff entry_of_user_def)
  then have es: "entries_of pid (rows_of v db) = entries_of pid db"
    unfolding entries_of_def rows_of_def library.simps filter_filter by (intro filter_cong) auto
  have "joined (rows_of v db) e = joined db e" if "e \<in> set (entries_of pid db)" for e
    using that own wf_entry_of_user [OF assms, of e v] own_track_first_rows [OF assms]
    by (simp add: joined_def entries_of_def)
  then have "List.map_filter (joined (rows_of v db)) (sort_key pe_position (entries_of pid db)) =
      List.map_filter (joined db) (sort_key pe_position (entries_of pid db))"
    by (intro map_filter_cong) simp
  then show ?thesis using True by (simp add: playlist_entries_joined es)
next
  case False
  then show ?thesis by (simp add: playlist_entries_def)
qed

lemma favorites_rows:
  assumes "lib_wf db"
  shows "list_favorites v (rows_of v db) = list_favorites v db"
proof -
  have rows: "filter (\<lambda>f. fv_owner f = v) (lb_favorites (rows_of v db)) = filter (\<lambda>f. fv_owner f = v) (lb_favorites db)"
    by (simp add: rows_of_def)
  show ?thesis
    unfolding list_favorites_def rows using wf_favorite [OF assms]
    by (intro map_filter_cong) (auto intro!: track_by_id_rows [OF assms])
qed

lemma recently_played_rows:
  assumes "lib_wf db"
  shows "recently_played v limit (rows_of v db) = recently_played v limit db"
proof -
  have rows: "filter (\<lambda>r. rp_owner r = v) (lb_played (rows_of v db)) = filter (\<lambda>r. rp_owner r = v) (lb_played db)"
    by (simp add: rows_of_def)
  let ?ids = "map rp_track_id (filter (\<lambda>r. rp_owner r = v) (lb_played db))"
  have same: "track_by_id i (rows_of v db) = track_by_id i db" if "i \<in> set ?ids" for i
    using that wf_played [OF assms] by (auto intro: track_by_id_rows [OF assms])
  then have "filter (\<lambda>i. track_by_id i (rows_of v db) \<noteq> None) ?ids = filter (\<lambda>i. track_by_id i db \<noteq> None) ?ids"
    by (intro filter_cong) auto
  moreover have "List.map_filter (\<lambda>i. track_by_id i (rows_of v db)) is = List.map_filter (\<lambda>i. track_by_id i db) is"
    if "set is \<subseteq> set ?ids" for "is"
    using that same by (intro map_filter_cong) blast
  moreover have "set (take n (sort_key f (remdups (filter P ?ids)))) \<subseteq> set ?ids" for n P and f :: "string \<Rightarrow> int"
    using set_take_subset [of n "sort_key f (remdups (filter P ?ids))"] by auto
  ultimately show ?thesis unfolding recently_played_def Let_def rows by simp
qed

lemma list_rows [simp]:
  "search v q lim (rows_of v db) = search v q lim db"
  "list_tracks v lim off (rows_of v db) = list_tracks v lim off db"
  by (simp_all add: search_def list_tracks_def)

lemma same_rows_same_read:
  assumes "lib_wf db" "lib_wf db'" "rows_of v db' = rows_of v db"
    and "\<And>d. lib_wf d \<Longrightarrow> f (rows_of v d) = f d"
  shows "f db' = f db"
  using assms by metis

lemma same_rows_same_reads:
  assumes "lib_wf db" "lib_wf db'" "rows_of v db' = rows_of v db"
  shows "list_roots v db' = list_roots v db" "list_tracks v lim off db' = list_tracks v lim off db"
    "get_track v tid db' = get_track v tid db" "search v q lim db' = search v q lim db"
    "list_playlists v db' = list_playlists v db" "playlist_entries v pid db' = playlist_entries v pid db"
    "list_favorites v db' = list_favorites v db" "recently_played v lim db' = recently_played v lim db"
    "get_queue from_json v db' = get_queue from_json v db"
  using same_rows_same_read [OF assms, of "list_roots v"] same_rows_same_read [OF assms, of "list_tracks v lim off"]
    same_rows_same_read [OF assms, of "get_track v tid"] same_rows_same_read [OF assms, of "search v q lim"]
    same_rows_same_read [OF assms, of "list_playlists v"] same_rows_same_read [OF assms, of "playlist_entries v pid"]
    same_rows_same_read [OF assms, of "list_favorites v"] same_rows_same_read [OF assms, of "recently_played v lim"]
    same_rows_same_read [OF assms, of "get_queue from_json v"]
  by (simp_all add: playlist_entries_rows favorites_rows recently_played_rows)



end
