(* ===== verification/Library_Scan_Properties.thy ===== *)
theory Library_Scan_Properties
  imports Library_Tenants
begin

text \<open>
  The scan of a music folder: the walk finds exactly the audio files below the folder, and the library afterwards holds
  what the folder holds.
\<close>

section \<open>The walk\<close>

text \<open>A regular file below a directory, reached through listed directories only, never through a link.\<close>

inductive found :: "scan_node \<Rightarrow> string list \<Rightarrow> bool" where
  here: "(name, ScanFile) \<in> set entries \<Longrightarrow> found (ScanDir (Some entries)) [name]"
| below: "(name, node) \<in> set entries \<Longrightarrow> found node path \<Longrightarrow> found (ScanDir (Some entries)) (name # path)"

inductive_simps found_dir: "found (ScanDir (Some entries)) path"
inductive_simps found_other [simp]:
  "found (ScanDir None) path" "found ScanFile path" "found ScanLink path" "found ScanOther path" "found ScanGone path"

definition pending :: "(string list \<times> scan_node) list \<Rightarrow> string list set" where
  "pending stack = {dir @ path | dir node path. (dir, node) \<in> set stack \<and> found node path \<and> has_audio_extension (dir @ path)}"

lemma pending_Nil [simp]: "pending [] = {}"
  by (simp add: pending_def)

lemma pending_Cons: "pending ((dir, node) # stack) = pending [(dir, node)] \<union> pending stack"
  by (auto simp: pending_def)

lemma pending_entries:
  "pending [(dir, ScanDir (Some ((name, node) # entries)))] =
     (if node = ScanFile \<and> has_audio_extension (dir @ [name]) then {dir @ [name]} else {}) \<union>
     pending [(dir @ [name], node)] \<union> pending [(dir, ScanDir (Some entries))]"
  by (auto simp: pending_def found_dir)

lemma pending_leaf [simp]:
  "pending [(dir, ScanDir (Some []))] = {}" "pending [(dir, ScanDir None)] = {}" "pending [(dir, ScanFile)] = {}"
  "pending [(dir, ScanLink)] = {}" "pending [(dir, ScanOther)] = {}" "pending [(dir, ScanGone)] = {}"
  by (auto simp: pending_def found_dir)

definition found_so_far :: "string list list \<Rightarrow> (string list \<times> scan_node) list \<Rightarrow> string list set" where
  "found_so_far cs stack = set cs \<union> pending stack"

lemma found_so_far_Cons:
  "found_so_far cs stack \<subseteq> found_so_far cs ((dir, node) # stack)"
  "pending [(dir, node)] = {} \<Longrightarrow> found_so_far cs ((dir, node) # stack) = found_so_far cs stack"
  unfolding found_so_far_def pending_Cons [of dir node stack] by auto

lemma found_so_far_step:
  "found_so_far cs ((dir @ [name], node) # stack) \<union> pending [(dir, ScanDir (Some entries))] \<subseteq>
    found_so_far cs ((dir, ScanDir (Some ((name, node) # entries))) # stack)"
  "node \<noteq> ScanFile \<or> \<not> has_audio_extension (dir @ [name]) \<Longrightarrow>
    found_so_far cs ((dir @ [name], node) # stack) \<union> pending [(dir, ScanDir (Some entries))] =
    found_so_far cs ((dir, ScanDir (Some ((name, node) # entries))) # stack)"
  "has_audio_extension (dir @ [name]) \<Longrightarrow>
    found_so_far (cs @ [dir @ [name]]) ((dir, ScanDir (Some entries)) # stack) =
    found_so_far cs ((dir, ScanDir (Some ((name, ScanFile) # entries))) # stack)"
  unfolding found_so_far_def pending_Cons [of _ _ stack] pending_entries by auto

lemma visit_found:
  "visit_entries dir entries stack cs = (stack', cs', full) \<Longrightarrow>
    found_so_far cs' stack' \<subseteq> found_so_far cs ((dir, ScanDir (Some entries)) # stack) \<and>
    (\<not> full \<longrightarrow> found_so_far cs' stack' = found_so_far cs ((dir, ScanDir (Some entries)) # stack)) \<and>
    (length cs \<le> MAX_SCAN_FILES \<longrightarrow> length cs' \<le> MAX_SCAN_FILES)"
proof (induction entries arbitrary: stack cs)
  case Nil
  then show ?case by (simp add: found_so_far_Cons(2))
next
  case (Cons entry entries)
  obtain name node where entry: "entry = (name, node)" by (cases entry)
  show ?case
  proof (cases "MAX_SCAN_FILES \<le> length cs")
    case True
    with Cons.prems entry show ?thesis using found_so_far_Cons(1) [of cs stack] by auto
  next
    case False
    consider (dir) l where "node = ScanDir l" | (audio) "node = ScanFile" "has_audio_extension (dir @ [name])"
      | (skip) "node \<noteq> ScanFile \<or> \<not> has_audio_extension (dir @ [name])" "\<nexists>l. node = ScanDir l"
      by (cases node) auto
    then show ?thesis
    proof cases
      case dir
      with Cons.prems entry False have "visit_entries dir entries ((dir @ [name], node) # stack) cs = (stack', cs', full)" by simp
      from Cons.IH [OF this] show ?thesis
        using found_so_far_step(2) [of node dir name cs stack entries] dir entry
        unfolding found_so_far_def pending_Cons [of _ _ stack] pending_Cons [of _ _ "_ # stack"] by auto
    next
      case audio
      with Cons.prems entry False have "visit_entries dir entries stack (cs @ [dir @ [name]]) = (stack', cs', full)" by simp
      from Cons.IH [OF this] show ?thesis
        using found_so_far_step(3) [of dir name cs entries stack] audio entry False by simp
    next
      case skip
      with Cons.prems entry False have "visit_entries dir entries stack cs = (stack', cs', full)"
        by (cases node) auto
      moreover have "pending [(dir @ [name], node)] = {}" using skip by (cases node) auto
      then have "pending [(dir, ScanDir (Some (entry # entries)))] = pending [(dir, ScanDir (Some entries))]"
        using skip(1) unfolding entry pending_entries by auto
      then have "found_so_far cs ((dir, ScanDir (Some (entry # entries))) # stack) = found_so_far cs ((dir, ScanDir (Some entries)) # stack)"
        unfolding found_so_far_def pending_Cons [of _ _ stack] by simp
      ultimately show ?thesis using Cons.IH [of stack cs] by simp
    qed
  qed
qed

lemma walk_found:
  "walk late k stack cs tr = (cs', tr') \<Longrightarrow> length cs \<le> MAX_SCAN_FILES \<Longrightarrow>
    length cs' \<le> MAX_SCAN_FILES \<and> set cs' \<subseteq> found_so_far cs stack \<and> (\<not> tr' \<longrightarrow> \<not> tr \<and> set cs' = found_so_far cs stack)"
proof (induction late k stack cs tr arbitrary: cs' tr' rule: walk.induct)
  case (1 late k candidates truncated)
  then show ?case by (simp add: found_so_far_def)
next
  case (2 late k dir node stack candidates truncated)
  show ?case
  proof (cases "late k \<or> MAX_SCAN_FILES \<le> length candidates")
    case True
    with "2.prems" show ?thesis by (auto simp: found_so_far_def)
  next
    case False
    show ?thesis
    proof (cases "\<exists>entries. node = ScanDir (Some entries)")
      case True
      then obtain entries where node: "node = ScanDir (Some entries)" by blast
      obtain stack1 cs1 full where v: "visit_entries dir entries stack candidates = (stack1, cs1, full)"
        by (metis prod_cases3)
      have "walk late (k + 1) stack1 cs1 (truncated \<or> full) = (cs', tr')"
        using "2.prems"(1) False node v by simp
      from "2.IH"(2) [OF False node refl v [symmetric] refl this] visit_found [OF v] "2.prems"(2)
      show ?thesis unfolding node by blast
    next
      case other: False
      then have "pending [(dir, node)] = {}"
      proof (cases node)
        case (ScanDir l)
        with other show ?thesis by (cases l) auto
      qed auto
      then have same: "found_so_far candidates ((dir, node) # stack) = found_so_far candidates stack"
        by (rule found_so_far_Cons(2))
      have "walk late (k + 1) stack candidates truncated = (cs', tr')"
        using "2.prems"(1) False other by (auto split: scan_node.splits option.splits)
      with other False "2.IH" "2.prems"(2) show ?thesis
        unfolding same by (cases node) (auto split: option.splits)
    qed
  qed
qed

text \<open>
  (C35) The walk of a music folder: whatever the clock says, it collects at most 20000 files, all of them regular files
  with an audio extension below the folder, reached without following a link; when it does not report a truncation it
  has collected all of them that listed directories lead to.
\<close>

theorem scan_walk_exact:
  assumes "collect_candidates late root = (candidates, truncated)"
  shows "length candidates \<le> MAX_SCAN_FILES \<and>
    set candidates \<subseteq> {path. found root path \<and> has_audio_extension path} \<and>
    (\<not> truncated \<longrightarrow> set candidates = {path. found root path \<and> has_audio_extension path})"
proof -
  have "found_so_far [] [([], root)] = {path. found root path \<and> has_audio_extension path}"
    by (auto simp: found_so_far_def pending_def)
  with walk_found [of late 0 "[([], root)]" "[]" False candidates truncated] assms show ?thesis
    by (simp add: collect_candidates_def)
qed

definition demo_folder :: scan_node where
  "demo_folder = ScanDir (Some [(''a.mp3'', ScanFile), (''b.txt'', ScanFile), (''out'', ScanLink),
     (''sub'', ScanDir (Some [(''c.flac'', ScanFile)])), (''locked'', ScanDir None)])"

lemma demo_walk: "collect_candidates (\<lambda>_. False) demo_folder = ([[''a.mp3''], [''sub'', ''c.flac'']], False)"
  by (simp add: collect_candidates_def demo_folder_def has_audio_extension_def extension_def Let_def AUDIO_EXTENSIONS_def
    MAX_SCAN_FILES_def to_lowercase_def char_class_defs)

theorem scan_walk_exact_witness:
  "{path. found demo_folder path \<and> has_audio_extension path} = {[''a.mp3''], [''sub'', ''c.flac'']}"
  using scan_walk_exact [OF demo_walk] by simp

text \<open>A directory that cannot be listed counts as walked: the files below it are missing though nothing was truncated.\<close>

lemma unlisted_not_truncated: "collect_candidates (\<lambda>_. False) (ScanDir None) = ([], False)"
  by (simp add: collect_candidates_def MAX_SCAN_FILES_def)

text \<open>A backslash in a file name becomes a separator: the track gets the path of another file.\<close>

lemma backslash_aliases:
  "scan_virtual_path ''/m'' [''a'' @ [CHR 0x5C] @ ''b.mp3''] = scan_virtual_path ''/m'' [''a'', ''b.mp3'']"
  by (simp add: scan_virtual_path_def Let_def)

section \<open>The library after a scan\<close>

definition has_track :: "string \<Rightarrow> 'f library \<Rightarrow> string \<Rightarrow> string \<Rightarrow> bool" where
  "has_track u db q f \<longleftrightarrow> (\<exists>t\<in>set (lb_tracks db). tk_owner t = u \<and> tk_virtual_path t = q \<and> tk_fingerprint t = f)"

text \<open>\<open>ffprobe\<close> is there and finds an audio stream in the file.\<close>

definition indexable :: "'f scan_env \<Rightarrow> string list \<Rightarrow> bool" where
  "indexable env path \<longleftrightarrow> ffprobe_binary (sc_version env) \<noteq> None \<and>
     (case sc_probe env path of Inl _ \<Rightarrow> False | Inr probe \<Rightarrow> audio_streams probe \<noteq> [])"

definition counted_files :: "ScanSummary \<Rightarrow> nat" where
  "counted_files s = ss_added s + ss_updated s + ss_unchanged s + ss_skipped_errors s"

lemma upsert_has_track:
  assumes "upsert_track fresh now u rid q m f db = (Inr (), db')"
  shows "has_track u db' q f" "q' \<noteq> q \<Longrightarrow> has_track u db q' f' \<Longrightarrow> has_track u db' q' f'"
  using assms
  by (auto simp: upsert_track_def Let_def has_track_def list_ex_iff set_sql_update simp del: if_image_distrib split: if_splits)

lemma scan_step:
  assumes "scan_files env u rid vr existing k (path # paths) present summary db = (Inr (present', summary'), db')"
    and "\<not> ss_truncated summary'"
  shows "\<exists>summary1 db1. scan_files env u rid vr existing (k + 1) paths
      (present \<union> (if sc_stat env path = None then {} else {scan_virtual_path vr path})) summary1 db1 = (Inr (present', summary'), db') \<and>
    counted_files summary1 = counted_files summary + 1 \<and> ss_truncated summary1 = ss_truncated summary \<and>
    (db1 = db \<and> (\<forall>m. sc_stat env path = Some m \<and> indexable env path \<longrightarrow> existing (scan_virtual_path vr path) = Some (fingerprint m)) \<or>
     (\<exists>fresh now md m. sc_stat env path = Some m \<and>
        upsert_track fresh now u rid (scan_virtual_path vr path) md (fingerprint m) db = (Inr (), db1)))"
proof (cases "sc_stat env path")
  case None
  with assms show ?thesis by (fastforce simp: counted_files_def split: if_splits)
next
  case (Some m)
  consider (same) "existing (scan_virtual_path vr path) = Some (fingerprint m)"
    | (skip) "existing (scan_virtual_path vr path) \<noteq> Some (fingerprint m)" "\<not> indexable env path"
    | (probe) probe where "existing (scan_virtual_path vr path) \<noteq> Some (fingerprint m)" "ffprobe_binary (sc_version env) \<noteq> None"
        "sc_probe env path = Inr probe" "audio_streams probe \<noteq> []"
    by (cases "sc_probe env path"; cases "ffprobe_binary (sc_version env)"; cases "existing (scan_virtual_path vr path) = Some (fingerprint m)")
      (auto simp: indexable_def)
  then show ?thesis
  proof cases
    case same
    with assms Some show ?thesis by (fastforce simp: counted_files_def Let_def split: if_splits)
  next
    case skip
    with assms Some show ?thesis
      by (fastforce simp: counted_files_def Let_def indexable_def split: if_splits option.splits sum.splits)
  next
    case probe
    with assms Some show ?thesis
      by (fastforce simp: counted_files_def Let_def split: if_splits option.splits sum.splits prod.splits)
  qed
qed

lemma scan_files_result:
  assumes "scan_files env u rid vr existing k paths present summary db = (Inr (present', summary'), db')"
    and "\<not> ss_truncated summary'" "distinct (map (scan_virtual_path vr) paths)"
    and "\<And>p f. p \<in> set paths \<Longrightarrow> existing (scan_virtual_path vr p) = Some f \<Longrightarrow> has_track u db (scan_virtual_path vr p) f"
  shows "\<not> ss_truncated summary \<and> counted_files summary' = counted_files summary + length paths \<and>
    present' = present \<union> scan_virtual_path vr ` {p \<in> set paths. sc_stat env p \<noteq> None} \<and>
    (\<forall>p\<in>set paths. \<forall>m. sc_stat env p = Some m \<and> indexable env p \<longrightarrow> has_track u db' (scan_virtual_path vr p) (fingerprint m)) \<and>
    (\<forall>q f. q \<notin> scan_virtual_path vr ` set paths \<and> has_track u db q f \<longrightarrow> has_track u db' q f)"
  using assms
proof (induction paths arbitrary: k present summary db)
  case Nil
  then show ?case by simp
next
  case (Cons path paths)
  let ?vp = "scan_virtual_path vr"
  obtain summary1 db1 where rest: "scan_files env u rid vr existing (k + 1) paths
      (present \<union> (if sc_stat env path = None then {} else {?vp path})) summary1 db1 = (Inr (present', summary'), db')"
    and count: "counted_files summary1 = counted_files summary + 1" "ss_truncated summary1 = ss_truncated summary"
    and step: "db1 = db \<and> (\<forall>m. sc_stat env path = Some m \<and> indexable env path \<longrightarrow> existing (?vp path) = Some (fingerprint m)) \<or>
     (\<exists>fresh now md m. sc_stat env path = Some m \<and> upsert_track fresh now u rid (?vp path) md (fingerprint m) db = (Inr (), db1))"
    using scan_step [OF Cons.prems(1,2)] by blast
  have keep: "has_track u db1 q f" if "q \<noteq> ?vp path" "has_track u db q f" for q f
    using step that upsert_has_track(2) by blast
  have new: "has_track u db1 (?vp path) (fingerprint m)" if "sc_stat env path = Some m" "indexable env path" for m
    using step that Cons.prems(4) [of path] upsert_has_track(1) by fastforce
  have fresh: "?vp path \<notin> ?vp ` set paths" using Cons.prems(3) by simp
  have known: "has_track u db1 (?vp p) f" if "p \<in> set paths" "existing (?vp p) = Some f" for p f
  proof (rule keep)
    show "?vp p \<noteq> ?vp path" using fresh that(1) by (metis imageI)
    show "has_track u db (?vp p) f" using Cons.prems(4) that by simp
  qed
  have IH: "\<not> ss_truncated summary1 \<and> counted_files summary' = counted_files summary1 + length paths \<and>
    present' = present \<union> (if sc_stat env path = None then {} else {?vp path}) \<union> ?vp ` {p \<in> set paths. sc_stat env p \<noteq> None} \<and>
    (\<forall>p\<in>set paths. \<forall>m. sc_stat env p = Some m \<and> indexable env p \<longrightarrow> has_track u db' (?vp p) (fingerprint m)) \<and>
    (\<forall>q f. q \<notin> ?vp ` set paths \<and> has_track u db1 q f \<longrightarrow> has_track u db' q f)"
    by (rule Cons.IH [OF rest Cons.prems(2) _ known]) (use Cons.prems(3) in simp_all)
  show ?case
  proof (intro conjI)
    show "present' = present \<union> ?vp ` {p \<in> set (path # paths). sc_stat env p \<noteq> None}"
      using IH by auto
    show "\<forall>p\<in>set (path # paths). \<forall>m. sc_stat env p = Some m \<and> indexable env p \<longrightarrow> has_track u db' (?vp p) (fingerprint m)"
      using IH new fresh by (metis set_ConsD)
    show "\<forall>q f. q \<notin> ?vp ` set (path # paths) \<and> has_track u db q f \<longrightarrow> has_track u db' q f"
      using IH keep by simp
  qed (use IH count in simp_all)
qed

lemma fold_drop_tracks:
  "lb_tracks (fold (\<lambda>p. drop_tracks (P p)) ps db) = filter (\<lambda>t. \<forall>p\<in>set ps. \<not> P p t) (lb_tracks db)"
  by (induction ps arbitrary: db) (auto simp: drop_tracks_def sql_delete_def Let_def intro!: filter_cong)

lemma prune_tracks:
  "set (lb_tracks (snd (prune_missing rid present db))) =
    {t \<in> set (lb_tracks db). tk_root_id t = rid \<longrightarrow> tk_virtual_path t \<in> present}"
  by (auto simp: prune_missing_def Let_def fold_drop_tracks)

lemma fingerprints_tracks:
  assumes "lib_wf db" "\<exists>r\<in>set (lb_roots db). lr_id r = rid \<and> lr_owner r = u" "fingerprints_for_root rid db q = Some f"
  shows "has_track u db q f"
proof -
  obtain t where t: "t \<in> set (lb_tracks db)" "tk_root_id t = rid" "tk_virtual_path t = q" "tk_fingerprint t = f"
    using assms(3) by (auto simp: fingerprints_for_root_def dest!: map_of_SomeD)
  moreover have "tk_owner t = u"
    using wf_track [OF assms(1) t(1)] t(2) assms(2) same_root [OF assms(1)] by metis
  ultimately show ?thesis by (auto simp: has_track_def)
qed


definition demo_media :: "nat MediaProbe" where
  "demo_media = \<lparr>mp_format_name = ''mp3'', mp_duration_seconds = None, mp_bit_rate = None,
     mp_streams = [\<lparr>si_index = 0, si_codec_type = ''audio'', si_codec_name = Some ''mp3'', si_profile = None, si_width = None, si_height = None,
       si_frame_rate = None, si_sample_rate = None, si_channel_layout = None, si_bit_rate = None, si_language = None\<rparr>],
     mp_tags = [''title'' \<mapsto> ''New'']\<rparr>"

definition demo_scan :: "nat scan_env" where
  "demo_scan = \<lparr>sc_walk_late = (\<lambda>_. False), sc_late = (\<lambda>_. False), sc_stat = (\<lambda>_. Some (5, Some 9)),
     sc_version = (\<lambda>_. Some (True, ''v'')), sc_probe = (\<lambda>_. Inr demo_media), sc_fresh = (\<lambda>_. ''t2''), sc_now = (\<lambda>_. 3),
     sc_parse_f64 = (\<lambda>_. None), sc_round_i64 = int\<rparr>"

definition demo_new_folder :: scan_node where
  "demo_new_folder = ScanDir (Some [(''n.mp3'', ScanFile)])"

lemma demo_new_walk: "collect_candidates (\<lambda>_. False) demo_new_folder = ([[''n.mp3'']], False)"
  by (simp add: collect_candidates_def demo_new_folder_def has_audio_extension_def extension_def Let_def AUDIO_EXTENSIONS_def
    MAX_SCAN_FILES_def to_lowercase_def char_class_defs)

lemma demo_root: "get_root ''alice'' ''r1'' demo_library = Some \<lparr>lro_id = ''r1'', lro_virtual_path = ''/m'', lro_created_at = 0\<rparr>"
  by (simp add: get_root_def demo_library_def sql_first_def root_of_row_def)

lemma demo_path: "scan_virtual_path ''/m'' [''n.mp3''] = ''/m/n.mp3''"
  by (simp add: scan_virtual_path_def Let_def trim_end_slashes_def)

lemma demo_ffprobe: "ffprobe_binary (sc_version demo_scan) = Some ''ffprobe''"
  by (simp add: ffprobe_binary_def detect_def demo_scan_def FFMPEG_CANDIDATES_def FFPROBE_CANDIDATES_def first_line_def)

lemma demo_scan_fields:
  "sc_walk_late demo_scan = (\<lambda>_. False)" "sc_late demo_scan k = False" "sc_stat demo_scan p = Some (5, Some 9)"
  "sc_probe demo_scan p = Inr demo_media" "audio_streams demo_media \<noteq> []"
  "fingerprints_for_root ''r1'' demo_library ''/m/n.mp3'' = None"
  "fst (upsert_track (sc_fresh demo_scan k) now ''alice'' ''r1'' ''/m/n.mp3'' md f demo_library) = Inr ()"
  by (simp_all add: demo_scan_def demo_media_def audio_streams_def fingerprints_for_root_def demo_library_def demo_track_def upsert_track_def)

lemma demo_files:
  "\<exists>db'. scan_files demo_scan ''alice'' ''r1'' ''/m'' (fingerprints_for_root ''r1'' demo_library) 0 [[''n.mp3'']] {} summary demo_library =
     (Inr ({''/m/n.mp3''}, summary\<lparr>ss_added := ss_added summary + 1\<rparr>), db')"
  using demo_scan_fields(7) [of 0]
  by (simp add: Let_def demo_path demo_ffprobe demo_scan_fields(1-6) split: prod.split sum.split) (metis fst_conv sum.distinct(1))

lemma demo_scan_result:
  "\<exists>summary. fst (scan_own_root demo_scan demo_new_folder ''alice'' ''r1'' demo_library) = Some (Inr summary) \<and> \<not> ss_truncated summary"
proof -
  obtain db' where "scan_files demo_scan ''alice'' ''r1'' ''/m'' (fingerprints_for_root ''r1'' demo_library) 0 [[''n.mp3'']] {}
      \<lparr>ss_added = 0, ss_updated = 0, ss_unchanged = 0, ss_removed = 0, ss_skipped_errors = 0, ss_truncated = False\<rparr> demo_library =
      (Inr ({''/m/n.mp3''}, \<lparr>ss_added = 1, ss_updated = 0, ss_unchanged = 0, ss_removed = 0, ss_skipped_errors = 0, ss_truncated = False\<rparr>), db')"
    using demo_files [of "\<lparr>ss_added = 0, ss_updated = 0, ss_unchanged = 0, ss_removed = 0, ss_skipped_errors = 0, ss_truncated = False\<rparr>"]
    by auto
  then show ?thesis
    by (simp add: scan_own_root_def demo_root scan_root_def demo_scan_fields(1) demo_new_walk split: prod.split del: scan_files.simps)
qed


end
