(* ===== verification/Media_Jobs.thy ===== *)
theory Media_Jobs
  imports Media "HOL-Library.Multiset"
begin

text \<open>
  Media jobs of \<open>crates/media\<close>: the rows of \<open>jobs.rs\<close> (\<open>migrations/0010_media_jobs.sql\<close>), the calls of \<open>ffmpeg\<close> and the
  admission control of \<open>exec.rs\<close>, and the service of \<open>lib.rs\<close> as steps of concurrent tasks. What a run of \<open>ffmpeg\<close> ends
  with is a parameter: the first of the events that the service waits for.
\<close>

section \<open>Rows\<close>

datatype JobOperation = JobRemux | JobTranscode

datatype JobState = JobQueued | JobProbing | JobRunning | JobCompleted | JobFailed | JobCancelled | JobExpired

definition operation_str :: "JobOperation \<Rightarrow> string" where
  "operation_str p = (case p of JobRemux \<Rightarrow> ''remux'' | JobTranscode \<Rightarrow> ''transcode'')"

definition job_state_str :: "JobState \<Rightarrow> string" where
  "job_state_str s =
     (case s of
        JobQueued \<Rightarrow> ''queued'' | JobProbing \<Rightarrow> ''probing'' | JobRunning \<Rightarrow> ''running'' | JobCompleted \<Rightarrow> ''completed''
      | JobFailed \<Rightarrow> ''failed'' | JobCancelled \<Rightarrow> ''cancelled'' | JobExpired \<Rightarrow> ''expired'')"

definition job_state_from_str :: "string \<Rightarrow> JobState" where
  "job_state_from_str v =
     (if v = ''probing'' then JobProbing
      else if v = ''running'' then JobRunning
      else if v = ''completed'' then JobCompleted
      else if v = ''failed'' then JobFailed
      else if v = ''cancelled'' then JobCancelled
      else if v = ''expired'' then JobExpired
      else JobQueued)"

definition is_terminal :: "JobState \<Rightarrow> bool" where
  "is_terminal s \<longleftrightarrow> s \<in> {JobCompleted, JobFailed, JobCancelled, JobExpired}"

record media_job_row =
  mj_id :: string
  mj_owner :: string
  mj_source_virtual_path :: string
  mj_operation :: string
  mj_state :: string
  mj_error_class :: "string option"
  mj_output_path :: "string option"
  mj_created_at :: int
  mj_updated_at :: int
  mj_completed_at :: "int option"

record MediaJob =
  job_id :: string
  job_owner_user_id :: string
  job_source_virtual_path :: string
  job_operation :: JobOperation
  job_state :: JobState
  job_error_class :: "string option"
  job_output_path :: "string option"
  job_created_at :: int
  job_updated_at :: int
  job_completed_at :: "int option"

definition row_to_media_job :: "media_job_row \<Rightarrow> MediaJob" where
  "row_to_media_job r =
     \<lparr>job_id = mj_id r, job_owner_user_id = mj_owner r, job_source_virtual_path = mj_source_virtual_path r,
      job_operation = (if mj_operation r = ''transcode'' then JobTranscode else JobRemux),
      job_state = job_state_from_str (mj_state r), job_error_class = mj_error_class r, job_output_path = mj_output_path r,
      job_created_at = mj_created_at r, job_updated_at = mj_updated_at r, job_completed_at = mj_completed_at r\<rparr>"

definition create_job :: "string \<Rightarrow> int \<Rightarrow> string \<Rightarrow> string \<Rightarrow> JobOperation \<Rightarrow> media_job_row list \<Rightarrow> (MediaJob \<times> media_job_row list) option" where
  "create_job fresh now owner path op t =
     (if fresh \<in> mj_id ` set t then None
      else let r = \<lparr>mj_id = fresh, mj_owner = owner, mj_source_virtual_path = path, mj_operation = operation_str op,
             mj_state = ''queued'', mj_error_class = None, mj_output_path = None, mj_created_at = now, mj_updated_at = now,
             mj_completed_at = None\<rparr> in
        Some (\<lparr>job_id = fresh, job_owner_user_id = owner, job_source_virtual_path = path, job_operation = op,
               job_state = JobQueued, job_error_class = None, job_output_path = None, job_created_at = now,
               job_updated_at = now, job_completed_at = None\<rparr>, t @ [r]))"

definition get_media_job :: "string \<Rightarrow> string \<Rightarrow> media_job_row list \<Rightarrow> MediaJob option" where
  "get_media_job owner i t = map_option row_to_media_job (sql_first (\<lambda>r. mj_id r = i \<and> mj_owner r = owner) t)"

definition set_job_state :: "int \<Rightarrow> string \<Rightarrow> JobState \<Rightarrow> string option \<Rightarrow> media_job_row list \<Rightarrow> media_job_row list" where
  "set_job_state now i s err t =
     sql_update (\<lambda>r. mj_id r = i)
       (\<lambda>r. r\<lparr>mj_state := job_state_str s, mj_error_class := err, mj_updated_at := now,
          mj_completed_at := (if is_terminal s then Some now else mj_completed_at r)\<rparr>) t"

definition set_job_output :: "int \<Rightarrow> string \<Rightarrow> string \<Rightarrow> media_job_row list \<Rightarrow> media_job_row list" where
  "set_job_output now i path t =
     sql_update (\<lambda>r. mj_id r = i) (\<lambda>r. r\<lparr>mj_output_path := Some path, mj_updated_at := now\<rparr>) t"

definition expire_stale :: "int \<Rightarrow> int \<Rightarrow> media_job_row list \<Rightarrow> MediaJob list \<times> media_job_row list" where
  "expire_stale now older_than t =
     (let jobs = map row_to_media_job
            (filter (\<lambda>r. mj_state r \<in> {''queued'', ''probing'', ''running''} \<and> mj_updated_at r < older_than) t) in
      (jobs, fold (\<lambda>j. set_job_state now (job_id j) JobExpired (Some ''server_restarted'')) jobs t))"

section \<open>Running ffmpeg\<close>

datatype ExecError =
    ExecUnavailable | ExecSpawn string | ExecCancelled | ExecTimeout | ExecOutputTooLarge | ExecExitedWithFailure string
  | ExecInvalidOutput | ExecWorkspace string

record TrackSelection =
  audio_track_ordinal :: "nat option"

record TranscodeOptions =
  max_height :: nat
  video_bitrate_kbps :: nat
  audio_bitrate_kbps :: nat

definition default_transcode :: TranscodeOptions where
  "default_transcode = \<lparr>max_height = 1080, video_bitrate_kbps = 4000, audio_bitrate_kbps = 160\<rparr>"

definition track_selection_args :: "TrackSelection \<Rightarrow> string list" where
  "track_selection_args sel =
     (case audio_track_ordinal sel of
        None \<Rightarrow> []
      | Some n \<Rightarrow> [''-map'', ''0:v?'', ''-map'', ''0:a:'' @ decimal n, ''-map'', ''0:s?''])"

definition WEBM_ONLY_VIDEO_CODECS :: "string list" where
  "WEBM_ONLY_VIDEO_CODECS = [''vp8'', ''vp9'']"

definition needs_webm :: "ProbeError + 'f MediaProbe \<Rightarrow> bool" where
  "needs_webm probed =
     (case probed of Inl _ \<Rightarrow> False | Inr p \<Rightarrow> list_ex (codec_in WEBM_ONLY_VIDEO_CODECS) (video_streams p))"

text \<open>The output path and the arguments; paths are joined with a slash.\<close>

definition remux_args :: "ProbeError + 'f MediaProbe \<Rightarrow> string \<Rightarrow> string \<Rightarrow> TrackSelection \<Rightarrow> string \<times> string list" where
  "remux_args probed source workspace sel =
     (let output_path = workspace @ (if needs_webm probed then ''/output.webm'' else ''/output.mp4'') in
      (output_path, [''-y'', ''-i'', source] @ track_selection_args sel @ [''-c'', ''copy''] @
         (if needs_webm probed then [] else [''-movflags'', ''+faststart'']) @ [output_path]))"

definition transcode_args :: "string \<Rightarrow> string \<Rightarrow> TranscodeOptions \<Rightarrow> TrackSelection \<Rightarrow> string \<times> string list" where
  "transcode_args source workspace opts sel =
     (let output_path = workspace @ ''/output.mp4''; scale = ''scale=-2:'' @ [CHR 0x27] @ ''min('' @ decimal (max_height opts) @ '',ih)'' @ [CHR 0x27] in
      (output_path, [''-y'', ''-i'', source] @ track_selection_args sel @
         [''-vf'', scale, ''-c:v'', ''libx264'', ''-b:v'', decimal (video_bitrate_kbps opts) @ ''k'', ''-c:a'', ''aac'',
          ''-b:a'', decimal (audio_bitrate_kbps opts) @ ''k'', ''-movflags'', ''+faststart'', output_path]))"

definition subtitle_args :: "string \<Rightarrow> string \<Rightarrow> nat \<Rightarrow> string \<times> string list" where
  "subtitle_args source workspace stream_index =
     (let output_path = workspace @ ''/subtitle.vtt'' in
      (output_path, [''-y'', ''-i'', source, ''-map'', ''0:'' @ decimal stream_index, ''-c:s'', ''webvtt'', output_path]))"

definition MAX_ARTWORK_EDGE :: nat where
  "MAX_ARTWORK_EDGE = 800"

definition artwork_args :: "string \<Rightarrow> string \<Rightarrow> string \<times> string list" where
  "artwork_args source workspace =
     (let output_path = workspace @ ''/artwork.jpg'' in
      (output_path, [''-y'', ''-i'', source, ''-an'', ''-map'', ''0:v?'', ''-frames:v'', ''1'', ''-update'', ''1'', ''-vf'',
         ''scale='' @ [CHR 0x27] @ ''min('' @ decimal MAX_ARTWORK_EDGE @ '',iw)'' @ [CHR 0x27] @ '':-2'', ''-c:v'', ''mjpeg'', output_path]))"

definition MAX_STDERR_BYTES :: nat where
  "MAX_STDERR_BYTES = 64 * 1024"

text \<open>The chunks that the pipe delivers up to its end or an error.\<close>

fun drain_stderr_bounded :: "bytes \<Rightarrow> bytes list \<Rightarrow> bytes" where
  "drain_stderr_bounded buf [] = buf"
| "drain_stderr_bounded buf (c # cs) =
     (if c = [] then buf
      else drain_stderr_bounded
        (if length buf < MAX_STDERR_BYTES then buf @ take (MAX_STDERR_BYTES - length buf) c else buf) cs)"

text \<open>The event that ends the wait: the child, the deadline, a cancellation or the watcher of the output size.\<close>

datatype run_event = ChildExited bool | ChildWaitError string | DeadlinePassed | CancelRequested | SizeExceeded

record ffmpeg_run =
  fr_spawn :: "string option" \<comment> \<open>the error, if the program cannot be started\<close>
  fr_event :: run_event
  fr_stderr :: "bytes list"

text \<open>The result, and whether the child is terminated.\<close>

definition run_ffmpeg :: "string \<Rightarrow> ffmpeg_run \<Rightarrow> (ExecError + string \<times> string) \<times> bool" where
  "run_ffmpeg output_path run =
     (case fr_spawn run of
        Some e \<Rightarrow> (Inl (ExecSpawn e), False)
      | None \<Rightarrow>
        (let stderr_tail = drain_stderr_bounded [] (fr_stderr run) in
         case fr_event run of
           ChildExited True \<Rightarrow> (Inr (output_path, stderr_tail), False)
         | ChildExited False \<Rightarrow> (Inl (ExecExitedWithFailure stderr_tail), True)
         | ChildWaitError e \<Rightarrow> (Inl (ExecSpawn e), True)
         | DeadlinePassed \<Rightarrow> (Inl ExecTimeout, True)
         | CancelRequested \<Rightarrow> (Inl ExecCancelled, True)
         | SizeExceeded \<Rightarrow> (Inl ExecOutputTooLarge, True)))"

definition error_class :: "ExecError \<Rightarrow> string" where
  "error_class e =
     (case e of
        ExecUnavailable \<Rightarrow> ''unavailable'' | ExecSpawn _ \<Rightarrow> ''spawn_failed'' | ExecCancelled \<Rightarrow> ''cancelled'' | ExecTimeout \<Rightarrow> ''timeout''
      | ExecOutputTooLarge \<Rightarrow> ''output_too_large'' | ExecExitedWithFailure _ \<Rightarrow> ''ffmpeg_failed'' | ExecInvalidOutput \<Rightarrow> ''invalid_output''
      | ExecWorkspace _ \<Rightarrow> ''workspace_error'')"

section \<open>Admission control\<close>

record JobLimiter =
  lm_free :: nat
  lm_per_user_max :: nat
  lm_active_by_user :: "string \<rightharpoonup> nat"

definition DEFAULT_GLOBAL_CONCURRENCY :: nat where
  "DEFAULT_GLOBAL_CONCURRENCY = 4"

definition DEFAULT_PER_USER_CONCURRENCY :: nat where
  "DEFAULT_PER_USER_CONCURRENCY = 2"

definition new_limiter :: "nat \<Rightarrow> nat \<Rightarrow> JobLimiter" where
  "new_limiter global_max per_user_max = \<lparr>lm_free = global_max, lm_per_user_max = per_user_max, lm_active_by_user = Map.empty\<rparr>"

definition active_jobs :: "JobLimiter \<Rightarrow> string \<Rightarrow> nat" where
  "active_jobs l u = (case lm_active_by_user l u of None \<Rightarrow> 0 | Some n \<Rightarrow> n)"

text \<open>\<open>acquire\<close> in its locked parts: the count of the user, the permit, and the way back when there is none.\<close>

definition acquire_user :: "string \<Rightarrow> JobLimiter \<Rightarrow> bool \<times> JobLimiter" where
  "acquire_user u l =
     (if lm_per_user_max l \<le> active_jobs l u then (False, l\<lparr>lm_active_by_user := (lm_active_by_user l)(u \<mapsto> active_jobs l u)\<rparr>)
      else (True, l\<lparr>lm_active_by_user := (lm_active_by_user l)(u \<mapsto> active_jobs l u + 1)\<rparr>))"

definition try_acquire :: "JobLimiter \<Rightarrow> JobLimiter option" where
  "try_acquire l = (if lm_free l = 0 then None else Some (l\<lparr>lm_free := lm_free l - 1\<rparr>))"

definition acquire_rollback :: "string \<Rightarrow> JobLimiter \<Rightarrow> JobLimiter" where
  "acquire_rollback u l =
     (case lm_active_by_user l u of
        None \<Rightarrow> l
      | Some n \<Rightarrow> l\<lparr>lm_active_by_user := (lm_active_by_user l)(u \<mapsto> n - 1)\<rparr>)"

text \<open>Dropping a permit gives the place back at once; the count follows in a task of its own.\<close>

definition drop_permit :: "JobLimiter \<Rightarrow> JobLimiter" where
  "drop_permit l = l\<lparr>lm_free := lm_free l + 1\<rparr>"

definition release_user :: "string \<Rightarrow> JobLimiter \<Rightarrow> JobLimiter" where
  "release_user u l =
     (case lm_active_by_user l u of
        None \<Rightarrow> l
      | Some n \<Rightarrow> l\<lparr>lm_active_by_user := (lm_active_by_user l)(u := (if n - 1 = 0 then None else Some (n - 1)))\<rparr>)"

section \<open>The service\<close>

datatype task_phase = TaskSpawned | TaskRunning | TaskOutput | TaskDone

record media_task =
  mt_job :: string
  mt_user :: string
  mt_phase :: task_phase

record MediaService =
  ms_jobs :: "media_job_row list"
  ms_registry :: "string \<rightharpoonup> bool" \<comment> \<open>the tokens of running jobs, and whether they are cancelled\<close>
  ms_limiter :: JobLimiter
  ms_waiting :: "string multiset" \<comment> \<open>users counted, before the permit\<close>
  ms_failing :: "string multiset" \<comment> \<open>users counted, refused a permit\<close>
  ms_granted :: "string multiset" \<comment> \<open>users with a permit, before the row\<close>
  ms_tasks :: "media_task multiset"
  ms_releasing :: "string multiset" \<comment> \<open>users whose permit is dropped, still counted\<close>

definition new_service :: "media_job_row list \<Rightarrow> MediaService" where
  "new_service jobs =
     \<lparr>ms_jobs = jobs, ms_registry = Map.empty,
      ms_limiter = new_limiter DEFAULT_GLOBAL_CONCURRENCY DEFAULT_PER_USER_CONCURRENCY,
      ms_waiting = {#}, ms_failing = {#}, ms_granted = {#}, ms_tasks = {#}, ms_releasing = {#}\<rparr>"

text \<open>Errors of the database are ignored by the task: a write may be lost.\<close>

definition written :: "bool \<Rightarrow> (media_job_row list \<Rightarrow> media_job_row list) \<Rightarrow> media_job_row list \<Rightarrow> media_job_row list" where
  "written ok f t = (if ok then f t else t)"

definition cancel_token :: "string \<Rightarrow> (string \<rightharpoonup> bool) \<Rightarrow> string \<rightharpoonup> bool" where
  "cancel_token i reg = (case reg i of None \<Rightarrow> reg | Some _ \<Rightarrow> reg(i \<mapsto> True))"

definition cancel_media_job :: "string \<Rightarrow> string \<Rightarrow> MediaService \<Rightarrow> bool \<times> MediaService" where
  "cancel_media_job owner i s =
     (case get_media_job owner i (ms_jobs s) of
        None \<Rightarrow> (False, s)
      | Some job \<Rightarrow> (True, if is_terminal (job_state job) then s else s\<lparr>ms_registry := cancel_token i (ms_registry s)\<rparr>))"

text \<open>What the task writes when the run is over, and whether a second write follows.\<close>

definition finish_write :: "int \<Rightarrow> string \<Rightarrow> ExecError + string \<Rightarrow> media_job_row list \<Rightarrow> media_job_row list" where
  "finish_write now i outcome t =
     (case outcome of
        Inr output_path \<Rightarrow> set_job_output now i output_path t
      | Inl ExecCancelled \<Rightarrow> set_job_state now i JobCancelled (Some ''cancelled'') t
      | Inl e \<Rightarrow> set_job_state now i JobFailed (Some (error_class e)) t)"

definition finish_phase :: "ExecError + string \<Rightarrow> task_phase" where
  "finish_phase outcome = (case outcome of Inr _ \<Rightarrow> TaskOutput | Inl _ \<Rightarrow> TaskDone)"

definition move_task :: "media_task \<Rightarrow> task_phase \<Rightarrow> MediaService \<Rightarrow> MediaService" where
  "move_task t ph s = s\<lparr>ms_tasks := add_mset (t\<lparr>mt_phase := ph\<rparr>) (ms_tasks s - {#t#})\<rparr>"

inductive media_step :: "MediaService \<Rightarrow> MediaService \<Rightarrow> bool" where
  count_user: "acquire_user u (ms_limiter s) = (True, l) \<Longrightarrow>
    media_step s (s\<lparr>ms_limiter := l, ms_waiting := add_mset u (ms_waiting s)\<rparr>)"
| refuse_user: "acquire_user u (ms_limiter s) = (False, l) \<Longrightarrow> media_step s (s\<lparr>ms_limiter := l\<rparr>)"
| grant: "u \<in># ms_waiting s \<Longrightarrow> try_acquire (ms_limiter s) = Some l \<Longrightarrow>
    media_step s (s\<lparr>ms_limiter := l, ms_waiting := ms_waiting s - {#u#}, ms_granted := add_mset u (ms_granted s)\<rparr>)"
| busy: "u \<in># ms_waiting s \<Longrightarrow> try_acquire (ms_limiter s) = None \<Longrightarrow>
    media_step s (s\<lparr>ms_waiting := ms_waiting s - {#u#}, ms_failing := add_mset u (ms_failing s)\<rparr>)"
| rollback: "u \<in># ms_failing s \<Longrightarrow>
    media_step s (s\<lparr>ms_limiter := acquire_rollback u (ms_limiter s), ms_failing := ms_failing s - {#u#}\<rparr>)"
| spawn: "u \<in># ms_granted s \<Longrightarrow> create_job fresh now u path op (ms_jobs s) = Some (job, jobs) \<Longrightarrow>
    media_step s (s\<lparr>ms_jobs := jobs, ms_registry := (ms_registry s)(job_id job \<mapsto> False), ms_granted := ms_granted s - {#u#},
      ms_tasks := add_mset \<lparr>mt_job = job_id job, mt_user = u, mt_phase = TaskSpawned\<rparr> (ms_tasks s)\<rparr>)"
| no_row: "u \<in># ms_granted s \<Longrightarrow>
    media_step s (s\<lparr>ms_limiter := drop_permit (ms_limiter s), ms_granted := ms_granted s - {#u#},
      ms_releasing := add_mset u (ms_releasing s)\<rparr>)"
| run: "t \<in># ms_tasks s \<Longrightarrow> mt_phase t = TaskSpawned \<Longrightarrow>
    media_step s (move_task t TaskRunning
      (s\<lparr>ms_jobs := written ok (set_job_state now (mt_job t) JobRunning None) (ms_jobs s)\<rparr>))"
| finish: "t \<in># ms_tasks s \<Longrightarrow> mt_phase t = TaskRunning \<Longrightarrow>
    outcome = Inl ExecCancelled \<longrightarrow> ms_registry s (mt_job t) = Some True \<Longrightarrow>
    media_step s (move_task t (finish_phase outcome)
      (s\<lparr>ms_jobs := written ok (finish_write now (mt_job t) outcome) (ms_jobs s)\<rparr>))"
| complete: "t \<in># ms_tasks s \<Longrightarrow> mt_phase t = TaskOutput \<Longrightarrow>
    media_step s (move_task t TaskDone
      (s\<lparr>ms_jobs := written ok (set_job_state now (mt_job t) JobCompleted None) (ms_jobs s)\<rparr>))"
| end_task: "t \<in># ms_tasks s \<Longrightarrow> mt_phase t = TaskDone \<Longrightarrow>
    media_step s (s\<lparr>ms_registry := (ms_registry s)(mt_job t := None), ms_tasks := ms_tasks s - {#t#},
      ms_limiter := drop_permit (ms_limiter s), ms_releasing := add_mset (mt_user t) (ms_releasing s)\<rparr>)"
| release: "u \<in># ms_releasing s \<Longrightarrow>
    media_step s (s\<lparr>ms_limiter := release_user u (ms_limiter s), ms_releasing := ms_releasing s - {#u#}\<rparr>)"
| cancel: "media_step s (snd (cancel_media_job owner i s))"
| restart: "media_step s (new_service (snd (expire_stale now older_than (ms_jobs s))))"

inductive_cases media_stepE: "media_step s s'"

end
