(* ===== verification/Media_Jobs_Properties.thy ===== *)
theory Media_Jobs_Properties
  imports Media_Jobs
begin

text \<open>
  What the media service guarantees in every interleaving of requests, tasks, lost writes and restarts: never more jobs
  than admitted, per user and in all, and a job that has ended stays as it is.
\<close>

section \<open>Admission\<close>

definition tasks_of :: "string \<Rightarrow> MediaService \<Rightarrow> nat" where
  "tasks_of u s = size (filter_mset (\<lambda>t. mt_user t = u) (ms_tasks s))"

definition held :: "string \<Rightarrow> MediaService \<Rightarrow> nat" where
  "held u s = count (ms_waiting s) u + count (ms_failing s) u + count (ms_granted s) u + tasks_of u s + count (ms_releasing s) u"

definition limits_inv :: "MediaService \<Rightarrow> bool" where
  "limits_inv s \<longleftrightarrow> lm_per_user_max (ms_limiter s) = DEFAULT_PER_USER_CONCURRENCY \<and>
     lm_free (ms_limiter s) + size (ms_granted s) + size (ms_tasks s) = DEFAULT_GLOBAL_CONCURRENCY \<and>
     (\<forall>u. active_jobs (ms_limiter s) u = held u s \<and> held u s \<le> DEFAULT_PER_USER_CONCURRENCY)"

lemma active_simps:
  "active_jobs (l\<lparr>lm_free := n\<rparr>) u = active_jobs l u"
  "active_jobs (drop_permit l) u = active_jobs l u"
  "active_jobs (l\<lparr>lm_active_by_user := (lm_active_by_user l)(v \<mapsto> n)\<rparr>) u = (if u = v then n else active_jobs l u)"
  "active_jobs (acquire_rollback v l) u = (if u = v then active_jobs l u - 1 else active_jobs l u)"
  "active_jobs (release_user v l) u = (if u = v then active_jobs l u - 1 else active_jobs l u)"
  by (auto simp: active_jobs_def drop_permit_def acquire_rollback_def release_user_def split: option.splits)

lemma limiter_fields [simp]:
  "lm_free (acquire_rollback v l) = lm_free l" "lm_per_user_max (acquire_rollback v l) = lm_per_user_max l"
  "lm_free (release_user v l) = lm_free l" "lm_per_user_max (release_user v l) = lm_per_user_max l"
  "lm_free (drop_permit l) = lm_free l + 1" "lm_per_user_max (drop_permit l) = lm_per_user_max l"
  by (simp_all add: acquire_rollback_def release_user_def drop_permit_def split: option.splits)

lemma move_task_simps [simp]:
  "ms_limiter (move_task t ph s) = ms_limiter s" "ms_waiting (move_task t ph s) = ms_waiting s"
  "ms_failing (move_task t ph s) = ms_failing s" "ms_granted (move_task t ph s) = ms_granted s"
  "ms_releasing (move_task t ph s) = ms_releasing s" "ms_registry (move_task t ph s) = ms_registry s"
  "ms_jobs (move_task t ph s) = ms_jobs s"
  by (simp_all add: move_task_def)

lemma move_task_count:
  assumes "t \<in># ms_tasks s"
  shows "size (ms_tasks (move_task t ph s)) = size (ms_tasks s)" "tasks_of u (move_task t ph s) = tasks_of u s"
proof -
  obtain r where r: "ms_tasks s = add_mset t r" using assms by (meson multi_member_split)
  then show "size (ms_tasks (move_task t ph s)) = size (ms_tasks s)" "tasks_of u (move_task t ph s) = tasks_of u s"
    by (simp_all add: move_task_def tasks_of_def)
qed

lemma limits_moved: "limits_inv s \<Longrightarrow> t \<in># ms_tasks s \<Longrightarrow> limits_inv (move_task t ph (s\<lparr>ms_jobs := jobs\<rparr>))"
  using move_task_count [of t "s\<lparr>ms_jobs := jobs\<rparr>"] by (simp add: limits_inv_def held_def tasks_of_def)

text \<open>A step that hands one user on from one multiset to the next, or lets one go.\<close>

lemma limits_handed_on:
  assumes "limits_inv s" "lm_per_user_max (ms_limiter s') = lm_per_user_max (ms_limiter s)"
    and "lm_free (ms_limiter s') + size (ms_granted s') + size (ms_tasks s') = lm_free (ms_limiter s) + size (ms_granted s) + size (ms_tasks s)"
    and "\<And>v. held v s' = held v s - (if gone = Some v then 1 else 0)"
    and "\<And>v. active_jobs (ms_limiter s') v = active_jobs (ms_limiter s) v - (if gone = Some v then 1 else 0)"
  shows "limits_inv s'"
  using assms unfolding limits_inv_def by (auto intro: order_trans [OF diff_le_self])

lemma limits_step:
  assumes "media_step s s'" "limits_inv s"
  shows "limits_inv s'"
  using assms(1)
proof (cases rule: media_step.cases)
  case (count_user u l)
  with assms(2) show ?thesis
    by (auto simp: acquire_user_def limits_inv_def held_def active_simps tasks_of_def split: if_splits)
next
  case (refuse_user u l)
  with assms(2) show ?thesis
    by (auto simp: acquire_user_def limits_inv_def held_def active_simps tasks_of_def split: if_splits)
next
  case (grant u l)
  then show ?thesis
    by (intro limits_handed_on [OF assms(2), of _ None])
      (auto simp: try_acquire_def held_def active_simps tasks_of_def split: if_splits dest!: multi_member_split)
next
  case (busy u)
  then show ?thesis
    by (intro limits_handed_on [OF assms(2), of _ None]) (auto simp: held_def tasks_of_def dest!: multi_member_split)
next
  case (rollback u)
  then show ?thesis
    by (intro limits_handed_on [OF assms(2), of _ "Some u"]) (auto simp: held_def active_simps tasks_of_def dest!: multi_member_split)
next
  case (spawn u fresh now path op job jobs)
  then show ?thesis
    by (intro limits_handed_on [OF assms(2), of _ None]) (auto simp: held_def tasks_of_def dest!: multi_member_split)
next
  case (no_row u)
  then show ?thesis
    by (intro limits_handed_on [OF assms(2), of _ None]) (auto simp: held_def active_simps tasks_of_def dest!: multi_member_split)
next
  case (end_task t)
  then show ?thesis
    by (intro limits_handed_on [OF assms(2), of _ None]) (auto simp: held_def active_simps tasks_of_def dest!: multi_member_split)
next
  case (release u)
  then show ?thesis
    by (intro limits_handed_on [OF assms(2), of _ "Some u"]) (auto simp: held_def active_simps tasks_of_def dest!: multi_member_split)
next
  case (cancel owner i)
  then show ?thesis
    by (intro limits_handed_on [OF assms(2), of _ None]) (auto simp: held_def tasks_of_def cancel_media_job_def split: option.splits)
next
  case (restart now older_than)
  then show ?thesis
    by (simp add: limits_inv_def held_def new_service_def new_limiter_def active_jobs_def tasks_of_def)
qed (use assms(2) in \<open>auto intro: limits_moved\<close>)

section \<open>Jobs that have ended\<close>

definition row_ended :: "media_job_row \<Rightarrow> bool" where
  "row_ended r \<longleftrightarrow> is_terminal (job_state_from_str (mj_state r))"

lemma job_state_codec [simp]: "job_state_from_str (job_state_str x) = x"
  by (cases x) (simp_all add: job_state_str_def job_state_from_str_def)

lemma active_state_not_ended: "mj_state r \<in> {''queued'', ''probing'', ''running''} \<Longrightarrow> \<not> row_ended r"
  by (auto simp: row_ended_def job_state_from_str_def is_terminal_def)

text \<open>Rows have their own identifiers; a task that has not written its end has a row of its user that has not ended.\<close>

definition rows_inv :: "MediaService \<Rightarrow> bool" where
  "rows_inv s \<longleftrightarrow> distinct (map mj_id (ms_jobs s)) \<and>
     (\<forall>t. t \<in># ms_tasks s \<longrightarrow> (\<exists>r\<in>set (ms_jobs s). mj_id r = mt_job t \<and> mj_owner r = mt_user t \<and> (mt_phase t = TaskDone \<or> \<not> row_ended r))) \<and>
     (\<forall>i. size (filter_mset (\<lambda>t. mt_job t = i) (ms_tasks s)) \<le> 1)"

text \<open>Writes to one row that has not ended: every ended row stays.\<close>

definition ended_kept :: "media_job_row list \<Rightarrow> media_job_row list \<Rightarrow> bool" where
  "ended_kept rows rows' \<longleftrightarrow> (\<forall>r\<in>set rows. row_ended r \<longrightarrow> r \<in> set rows')"

lemma write_kept:
  assumes "distinct (map mj_id rows)" "r \<in> set rows" "mj_id r = i" "\<not> row_ended r"
  shows "ended_kept rows (sql_update (\<lambda>r. mj_id r = i) f rows)"
proof -
  have "x = r" if "x \<in> set rows" "mj_id x = i" for x
    using assms that by (auto simp: distinct_map inj_on_def)
  then show ?thesis using assms(4) sql_update_miss [of _ rows "\<lambda>r. mj_id r = i" f]
    by (auto simp: ended_kept_def)
qed

lemma writes_ids:
  "map mj_id (set_job_state now i st e rows) = map mj_id rows"
  "map mj_id (set_job_output now i path rows) = map mj_id rows"
  "map mj_id (finish_write now i outcome rows) = map mj_id rows"
  by (auto simp: set_job_state_def set_job_output_def finish_write_def sql_update_def split: sum.split ExecError.split)

definition updates_row :: "string \<Rightarrow> (media_job_row list \<Rightarrow> media_job_row list) \<Rightarrow> bool" where
  "updates_row i f \<longleftrightarrow> (\<exists>g. (\<forall>r. mj_id (g r) = mj_id r \<and> mj_owner (g r) = mj_owner r) \<and> f = sql_update (\<lambda>r. mj_id r = i) g)"

lemma writes_update:
  "updates_row i (set_job_state now i st e)" "updates_row i (set_job_output now i path)"
  "updates_row i (finish_write now i outcome)"
proof -
  show st: "updates_row i (set_job_state now i st e)" for st e
    unfolding updates_row_def set_job_state_def [abs_def] by (rule exI, rule conjI [OF _ refl]) simp
  show out: "updates_row i (set_job_output now i path)" for path
    unfolding updates_row_def set_job_output_def [abs_def] by (rule exI, rule conjI [OF _ refl]) simp
  show "updates_row i (finish_write now i outcome)"
  proof (cases outcome)
    case (Inl e)
    then show ?thesis using st by (cases e) (auto simp: finish_write_def [abs_def])
  next
    case (Inr path)
    then show ?thesis using out by (simp add: finish_write_def [abs_def])
  qed
qed

lemma updated_rows:
  assumes "updates_row i f"
  shows "map mj_id (f rows) = map mj_id rows"
    and "r \<in> set rows \<Longrightarrow> mj_id r \<noteq> i \<Longrightarrow> r \<in> set (f rows)"
    and "r \<in> set rows \<Longrightarrow> mj_id r = i \<Longrightarrow> \<exists>r'\<in>set (f rows). mj_id r' = i \<and> mj_owner r' = mj_owner r"
  using assms by (auto simp: updates_row_def sql_update_def)

lemma updates_kept:
  assumes "updates_row i f" "distinct (map mj_id rows)" "r \<in> set rows" "mj_id r = i" "\<not> row_ended r"
  shows "ended_kept rows (f rows)"
  using assms write_kept [OF assms(2-5)] by (auto simp: updates_row_def)

lemma other_task:
  assumes "t \<in># M" "size (filter_mset (\<lambda>x. mt_job x = mt_job t) M) \<le> 1" "x \<in># M - {#t#}"
  shows "mt_job x \<noteq> mt_job t"
proof
  assume same: "mt_job x = mt_job t"
  obtain A where M: "M = add_mset t A" using assms(1) by (meson multi_member_split)
  obtain B where "A = add_mset x B" using assms(3) M by (metis add_mset_remove_trivial multi_member_split)
  with M assms(2) same show False by simp
qed

lemma rows_inv_write:
  assumes inv: "rows_inv s" and t: "t \<in># ms_tasks s" "mt_phase t \<noteq> TaskDone" and eq: "f = sql_update (\<lambda>r. mj_id r = mt_job t) g"
    and g: "\<And>r. mj_id (g r) = mj_id r \<and> mj_owner (g r) = mj_owner r"
    and open_row: "\<And>r. ph \<noteq> TaskDone \<Longrightarrow> \<not> row_ended r \<Longrightarrow> \<not> row_ended (g r)"
  shows "rows_inv (move_task t ph (s\<lparr>ms_jobs := written ok f (ms_jobs s)\<rparr>)) \<and> ended_kept (ms_jobs s) (written ok f (ms_jobs s))"
proof -
  let ?s' = "move_task t ph (s\<lparr>ms_jobs := written ok f (ms_jobs s)\<rparr>)"
  have f: "updates_row (mt_job t) f" using eq g by (auto simp: updates_row_def)
  note upd = updated_rows [OF f]
  obtain r0 where r0: "r0 \<in> set (ms_jobs s)" "mj_id r0 = mt_job t" "mj_owner r0 = mt_user t" "\<not> row_ended r0"
    using inv t by (auto simp: rows_inv_def)
  have row: "\<exists>r\<in>set (written ok f (ms_jobs s)). mj_id r = mt_job x \<and> mj_owner r = mt_user x \<and> (mt_phase x = TaskDone \<or> \<not> row_ended r)"
    if "x \<in># ms_tasks ?s'" for x
  proof (cases "x = t\<lparr>mt_phase := ph\<rparr>")
    case True
    then show ?thesis
      using r0 g [of r0] open_row [OF _ r0(4)] sql_update_hit [of r0 "ms_jobs s" "\<lambda>r. mj_id r = mt_job t" g]
      by (intro bexI [of _ "if ok then g r0 else r0"]) (auto simp: written_def eq)
  next
    case False
    then have x: "x \<in># ms_tasks s - {#t#}" using that by (auto simp: move_task_def)
    then have "mt_job x \<noteq> mt_job t" using other_task [OF t(1) _ x] inv by (auto simp: rows_inv_def)
    moreover obtain r where "r \<in> set (ms_jobs s)" "mj_id r = mt_job x" "mj_owner r = mt_user x" "mt_phase x = TaskDone \<or> \<not> row_ended r"
      using inv in_diffD [OF x] by (auto simp: rows_inv_def)
    ultimately show ?thesis using upd(2) [of r] by (intro bexI [of _ r]) (auto simp: written_def)
  qed
  obtain A where A: "ms_tasks s = add_mset t A" using t(1) by (meson multi_member_split)
  have "size (filter_mset (\<lambda>x. mt_job x = i) (ms_tasks ?s')) = size (filter_mset (\<lambda>x. mt_job x = i) (ms_tasks s))" for i
    by (simp add: move_task_def A)
  with row inv upd(1) have "rows_inv ?s'" unfolding rows_inv_def by (simp add: written_def)
  moreover have "ended_kept (ms_jobs s) (written ok f (ms_jobs s))"
    using updates_kept [OF f _ r0(1,2,4)] inv by (auto simp: written_def rows_inv_def ended_kept_def)
  ultimately show ?thesis ..
qed

lemma ended_kept_refl [simp]: "ended_kept rows rows"
  by (simp add: ended_kept_def)

lemma expire_rows:
  assumes "distinct (map mj_id rows)" "\<And>j. j \<in> set jobs \<Longrightarrow> \<exists>r\<in>set rows. mj_id r = job_id j \<and> \<not> row_ended r"
    and "distinct (map job_id jobs)"
  shows "map mj_id (fold (\<lambda>j. set_job_state now (job_id j) JobExpired e) jobs rows) = map mj_id rows \<and>
    ended_kept rows (fold (\<lambda>j. set_job_state now (job_id j) JobExpired e) jobs rows)"
  using assms
proof (induction jobs arbitrary: rows)
  case (Cons j jobs)
  let ?rows = "set_job_state now (job_id j) JobExpired e rows"
  note upd = updated_rows [OF writes_update(1) [of "job_id j" now JobExpired e], where rows = rows]
  obtain r where r: "r \<in> set rows" "mj_id r = job_id j" "\<not> row_ended r" using Cons.prems(2) by auto
  have kept: "ended_kept rows ?rows"
    using updates_kept [OF writes_update(1) Cons.prems(1) r] by simp
  have "\<exists>r\<in>set ?rows. mj_id r = job_id x \<and> \<not> row_ended r" if "x \<in> set jobs" for x
  proof -
    obtain r where "r \<in> set rows" "mj_id r = job_id x" "\<not> row_ended r" using Cons.prems(2) \<open>x \<in> set jobs\<close> by auto
    moreover have "job_id x \<noteq> job_id j" using Cons.prems(3) \<open>x \<in> set jobs\<close> by (metis distinct.simps(2) image_eqI list.set_map list.simps(9))
    ultimately show ?thesis using upd(2) [of r] by auto
  qed
  with Cons.IH [of ?rows] Cons.prems(1,3) upd(1) kept show ?case by (auto simp: ended_kept_def)
qed simp

lemma state_write:
  "set_job_state now i st e = sql_update (\<lambda>r. mj_id r = i)
     (\<lambda>r. r\<lparr>mj_state := job_state_str st, mj_error_class := e, mj_updated_at := now,
        mj_completed_at := (if is_terminal st then Some now else mj_completed_at r)\<rparr>)"
  "set_job_output now i path = sql_update (\<lambda>r. mj_id r = i) (\<lambda>r. r\<lparr>mj_output_path := Some path, mj_updated_at := now\<rparr>)"
  by (simp_all add: set_job_state_def [abs_def] set_job_output_def [abs_def])

lemma rows_inv_state:
  assumes "rows_inv s" "t \<in># ms_tasks s" "mt_phase t \<noteq> TaskDone" "ph = TaskDone \<or> \<not> is_terminal st"
  shows "rows_inv (move_task t ph (s\<lparr>ms_jobs := written ok (set_job_state now (mt_job t) st e) (ms_jobs s)\<rparr>)) \<and>
    ended_kept (ms_jobs s) (written ok (set_job_state now (mt_job t) st e) (ms_jobs s))"
  using assms(4) by (intro rows_inv_write [OF assms(1-3) state_write(1)]) (auto simp: row_ended_def)

lemma rows_inv_output:
  assumes "rows_inv s" "t \<in># ms_tasks s" "mt_phase t \<noteq> TaskDone"
  shows "rows_inv (move_task t ph (s\<lparr>ms_jobs := written ok (set_job_output now (mt_job t) path) (ms_jobs s)\<rparr>)) \<and>
    ended_kept (ms_jobs s) (written ok (set_job_output now (mt_job t) path) (ms_jobs s))"
  by (intro rows_inv_write [OF assms state_write(2)]) (auto simp: row_ended_def)

lemma rows_inv_spawn:
  assumes inv: "rows_inv s" and job: "create_job fresh now u path op (ms_jobs s) = Some (job, jobs)"
  shows "rows_inv (s\<lparr>ms_jobs := jobs, ms_registry := reg, ms_granted := gr,
      ms_tasks := add_mset \<lparr>mt_job = job_id job, mt_user = u, mt_phase = TaskSpawned\<rparr> (ms_tasks s)\<rparr>) \<and> ended_kept (ms_jobs s) jobs"
proof -
  have fresh: "job_id job = fresh" "fresh \<notin> mj_id ` set (ms_jobs s)"
    and "\<exists>r. jobs = ms_jobs s @ [r] \<and> mj_id r = fresh \<and> mj_owner r = u \<and> mj_state r = ''queued''"
    using job by (auto simp: create_job_def Let_def split: if_splits)
  then have jobs: "\<exists>r. jobs = ms_jobs s @ [r] \<and> mj_id r = fresh \<and> mj_owner r = u \<and> \<not> row_ended r"
    using active_state_not_ended by blast
  have "filter_mset (\<lambda>t. mt_job t = fresh) (ms_tasks s) = {#}"
  proof (rule ccontr)
    assume "filter_mset (\<lambda>t. mt_job t = fresh) (ms_tasks s) \<noteq> {#}"
    then obtain x where "x \<in># ms_tasks s" "mt_job x = fresh" by (auto elim: multiset_nonemptyE)
    with inv obtain r where "r \<in> set (ms_jobs s)" "mj_id r = fresh" by (auto simp: rows_inv_def)
    with fresh(2) show False by blast
  qed
  with inv fresh jobs show ?thesis by (auto simp: rows_inv_def ended_kept_def)
qed

lemma rows_step:
  assumes "media_step s s'" "rows_inv s"
  shows "rows_inv s' \<and> ended_kept (ms_jobs s) (ms_jobs s')"
  using assms(1)
proof (cases rule: media_step.cases)
  case (spawn u fresh now path op job jobs)
  then show ?thesis using rows_inv_spawn [OF assms(2) spawn(3)] by simp
next
  case (run t ok now)
  then show ?thesis using rows_inv_state [OF assms(2), of t] by (simp add: is_terminal_def)
next
  case (finish t outcome ok now)
  show ?thesis
  proof (cases outcome)
    case (Inr path)
    with finish rows_inv_output [OF assms(2), of t] show ?thesis by (simp add: finish_write_def [abs_def])
  next
    case (Inl e)
    have "\<exists>st c. finish_write now (mt_job t) outcome = set_job_state now (mt_job t) st c"
      using Inl by (cases e) (auto simp: finish_write_def [abs_def])
    with finish Inl rows_inv_state [OF assms(2), of t TaskDone] show ?thesis by (auto simp: finish_phase_def)
  qed
next
  case (complete t ok now)
  then show ?thesis using rows_inv_state [OF assms(2), of t TaskDone] by simp
next
  case (end_task t)
  then obtain A where A: "ms_tasks s = add_mset t A" by (meson multi_member_split)
  have "size (filter_mset P A) \<le> size (filter_mset P (ms_tasks s))" for P by (simp add: A)
  then have "size (filter_mset (\<lambda>x. mt_job x = i) A) \<le> 1" for i
    using assms(2) order_trans unfolding rows_inv_def by blast
  with end_task assms(2) A show ?thesis unfolding rows_inv_def by auto
next
  case (cancel owner i)
  with assms(2) show ?thesis by (auto simp: rows_inv_def cancel_media_job_def split: option.splits)
next
  case (restart now older_than)
  let ?stale = "filter (\<lambda>r. mj_state r \<in> {''queued'', ''probing'', ''running''} \<and> mj_updated_at r < older_than) (ms_jobs s)"
  have d: "distinct (map mj_id (ms_jobs s))" using assms(2) by (simp add: rows_inv_def)
  have "\<exists>r\<in>set (ms_jobs s). mj_id r = job_id j \<and> \<not> row_ended r" if "j \<in> set (map row_to_media_job ?stale)" for j
    using that active_state_not_ended by (auto simp: row_to_media_job_def)
  moreover have "distinct (map job_id (map row_to_media_job ?stale))"
    using d by (simp add: row_to_media_job_def comp_def distinct_map_filter)
  ultimately have "map mj_id (snd (expire_stale now older_than (ms_jobs s))) = map mj_id (ms_jobs s) \<and>
      ended_kept (ms_jobs s) (snd (expire_stale now older_than (ms_jobs s)))"
    unfolding expire_stale_def Let_def snd_conv by (intro expire_rows [OF d])
  with restart d show ?thesis by (simp add: new_service_def rows_inv_def)
qed (use assms(2) in \<open>auto simp: rows_inv_def\<close>)

section \<open>Histories\<close>

definition media_start :: "MediaService \<Rightarrow> bool" where
  "media_start s \<longleftrightarrow> (\<exists>rows. distinct (map mj_id rows) \<and> s = new_service rows)"

interpretation media_sys: inv_system media_start media_step "\<lambda>s. limits_inv s \<and> rows_inv s"
proof
  fix s
  assume "media_start s"
  then show "limits_inv s \<and> rows_inv s"
    by (auto simp: media_start_def limits_inv_def rows_inv_def held_def new_service_def new_limiter_def active_jobs_def tasks_of_def)
qed (use limits_step rows_step in blast)

text \<open>
  (C38) Admission of media jobs: from a start on, in every interleaving of requests, tasks, lost writes and restarts, at
  most four jobs run at a time and at most two of one user, even though the count of a user and the permit are taken and
  given back at different moments.
\<close>

theorem media_jobs_bounded:
  assumes "media_start s\<^sub>0" "media_step\<^sup>*\<^sup>* s\<^sub>0 s"
  shows "size (ms_tasks s) \<le> DEFAULT_GLOBAL_CONCURRENCY \<and> tasks_of u s \<le> DEFAULT_PER_USER_CONCURRENCY"
proof -
  have "limits_inv s" using media_sys.reach_inv [OF assms] by blast
  then have "lm_free (ms_limiter s) + size (ms_granted s) + size (ms_tasks s) = DEFAULT_GLOBAL_CONCURRENCY"
    "held u s \<le> DEFAULT_PER_USER_CONCURRENCY" by (simp_all add: limits_inv_def)
  then show ?thesis by (simp add: held_def)
qed

text \<open>
  (C40) A media job ends once: a row that is completed, failed, cancelled or expired is never changed again, by whatever
  task, cancellation or restart, although no write of a state looks at the state before.
\<close>

theorem media_job_ends_once:
  assumes "media_start s\<^sub>0" "media_step\<^sup>*\<^sup>* s\<^sub>0 s" "media_step\<^sup>*\<^sup>* s s'"
    and "r \<in> set (ms_jobs s)" "is_terminal (job_state_from_str (mj_state r))"
  shows "r \<in> set (ms_jobs s')"
  using assms(3)
proof (induction rule: rtranclp_induct)
  case base
  then show ?case using assms(4) .
next
  case (step y z)
  have "media_step\<^sup>*\<^sup>* s\<^sub>0 y" using assms(2) step.hyps(1) by simp
  then have "rows_inv y" using media_sys.reach_inv [OF assms(1)] by blast
  from rows_step [OF step.hyps(2) this] step.IH assms(5) show ?case
    by (auto simp: ended_kept_def row_ended_def)
qed

definition outcome_state :: "ExecError + string \<Rightarrow> JobState" where
  "outcome_state outcome = (case outcome of Inr _ \<Rightarrow> JobCompleted | Inl ExecCancelled \<Rightarrow> JobCancelled | Inl _ \<Rightarrow> JobFailed)"

lemma written_row:
  assumes "r \<in> set rows" "mj_id r = i"
  shows "\<exists>r'\<in>set (set_job_state now i st e rows). mj_id r' = i \<and> mj_owner r' = mj_owner r \<and> mj_state r' = job_state_str st \<and>
      mj_output_path r' = mj_output_path r"
    and "\<exists>r'\<in>set (set_job_output now i path rows). mj_id r' = i \<and> mj_owner r' = mj_owner r \<and> mj_output_path r' = Some path"
  unfolding set_job_state_def set_job_output_def
  by (rule bexI [OF _ sql_update_hit [OF assms(1)]]; simp add: assms(2))+

lemma ended_task_leaves:
  assumes "rows_inv s" "t \<in># ms_tasks s" "mt_phase t = TaskDone"
  shows "\<exists>s'. media_step s s' \<and> ms_jobs s' = ms_jobs s \<and> (\<forall>x. x \<in># ms_tasks s' \<longrightarrow> mt_job x \<noteq> mt_job t) \<and>
    lm_free (ms_limiter s') = lm_free (ms_limiter s) + 1"
proof -
  have "\<forall>x. x \<in># ms_tasks s - {#t#} \<longrightarrow> mt_job x \<noteq> mt_job t"
    using other_task [OF assms(2)] assms(1) by (auto simp: rows_inv_def)
  with media_step.end_task [OF assms(2,3)] show ?thesis by (intro exI conjI) (assumption | simp)+
qed

lemma finished_task:
  assumes "rows_inv s" "t \<in># ms_tasks s" "mt_phase t = TaskRunning"
    and "outcome = Inl ExecCancelled \<longrightarrow> ms_registry s (mt_job t) = Some True"
  shows "\<exists>s' t'. media_step\<^sup>*\<^sup>* s s' \<and> rows_inv s' \<and> t' \<in># ms_tasks s' \<and> mt_phase t' = TaskDone \<and> mt_job t' = mt_job t \<and>
    ms_limiter s' = ms_limiter s \<and>
    (\<exists>r\<in>set (ms_jobs s'). mj_id r = mt_job t \<and> mj_owner r = mt_user t \<and> mj_state r = job_state_str (outcome_state outcome) \<and>
      (\<forall>p. outcome = Inr p \<longrightarrow> mj_output_path r = Some p))"
proof -
  let ?s1 = "move_task t (finish_phase outcome) (s\<lparr>ms_jobs := written True (finish_write 0 (mt_job t) outcome) (ms_jobs s)\<rparr>)"
  let ?t1 = "t\<lparr>mt_phase := finish_phase outcome\<rparr>"
  have step1: "media_step s ?s1" by (rule media_step.finish [OF assms(2-4)])
  then have inv1: "rows_inv ?s1" using rows_step [OF _ assms(1)] by blast
  obtain r where r: "r \<in> set (ms_jobs s)" "mj_id r = mt_job t" "mj_owner r = mt_user t"
    using assms(1,2) by (auto simp: rows_inv_def)
  show ?thesis
  proof (cases outcome)
    case (Inl e)
    have "\<exists>c. finish_write 0 (mt_job t) outcome = set_job_state 0 (mt_job t) (outcome_state outcome) c"
      unfolding Inl by (cases e) (auto simp: finish_write_def [abs_def] outcome_state_def)
    then obtain c where "finish_write 0 (mt_job t) outcome = set_job_state 0 (mt_job t) (outcome_state outcome) c" by blast
    then have "\<exists>r\<in>set (ms_jobs ?s1). mj_id r = mt_job t \<and> mj_owner r = mt_user t \<and> mj_state r = job_state_str (outcome_state outcome)"
      using written_row(1) [OF r(1,2), of 0 "outcome_state outcome" c] r(3) by (simp add: written_def) blast
    with step1 inv1 Inl show ?thesis
      by (intro exI [of _ ?s1] exI [of _ ?t1]) (auto simp: finish_phase_def move_task_def)
  next
    case (Inr path)
    let ?s2 = "move_task ?t1 TaskDone (?s1\<lparr>ms_jobs := written True (set_job_state 0 (mt_job ?t1) JobCompleted None) (ms_jobs ?s1)\<rparr>)"
    have "?t1 \<in># ms_tasks ?s1" by (simp add: move_task_def)
    then have step2: "media_step ?s1 ?s2" using Inr by (intro media_step.complete) (simp_all add: finish_phase_def)
    then have inv2: "rows_inv ?s2" using rows_step [OF _ inv1] by blast
    obtain r1 where r1: "r1 \<in> set (ms_jobs ?s1)" "mj_id r1 = mt_job t" "mj_owner r1 = mt_user t" "mj_output_path r1 = Some path"
      using written_row(2) [OF r(1,2), of 0 path] r(3) Inr by (auto simp: written_def finish_write_def)
    have "\<exists>r\<in>set (ms_jobs ?s2). mj_id r = mt_job t \<and> mj_owner r = mt_user t \<and> mj_state r = job_state_str JobCompleted \<and> mj_output_path r = Some path"
      using written_row(1) [OF r1(1,2), of 0 JobCompleted None] r1(3,4) by (simp add: written_def)
    moreover have "media_step\<^sup>*\<^sup>* s ?s2"
      by (rule rtranclp.rtrancl_into_rtrancl [OF r_into_rtranclp [of media_step, OF step1] step2])
    ultimately show ?thesis
      using inv2 Inr by (intro exI [of _ ?s2] exI [of _ "?t1\<lparr>mt_phase := TaskDone\<rparr>"]) (auto simp: move_task_def outcome_state_def)
  qed
qed


text \<open>A restart settles every row that was last written before the second of the restart, and no other.\<close>

lemma restart_same_second:
  "map mj_state (snd (expire_stale 5 5 [r\<lparr>mj_id := ''a'', mj_state := ''running'', mj_updated_at := 4\<rparr>,
     r\<lparr>mj_id := ''b'', mj_state := ''running'', mj_updated_at := 5\<rparr>])) = [''expired'', ''running'']"
  by (simp add: expire_stale_def set_job_state_def sql_update_def row_to_media_job_def job_state_str_def)

section \<open>An example\<close>

definition demo_counted :: MediaService where
  "demo_counted = (new_service [])\<lparr>ms_limiter := snd (acquire_user ''alice'' (ms_limiter (new_service []))), ms_waiting := {#''alice''#}\<rparr>"

definition demo_granted :: MediaService where
  "demo_granted = demo_counted\<lparr>ms_limiter := the (try_acquire (ms_limiter demo_counted)), ms_waiting := {#}, ms_granted := {#''alice''#}\<rparr>"

definition demo_job_row :: media_job_row where
  "demo_job_row = \<lparr>mj_id = ''j1'', mj_owner = ''alice'', mj_source_virtual_path = ''/v.mkv'', mj_operation = ''remux'', mj_state = ''queued'',
     mj_error_class = None, mj_output_path = None, mj_created_at = 1, mj_updated_at = 1, mj_completed_at = None\<rparr>"

definition demo_task :: "task_phase \<Rightarrow> media_task" where
  "demo_task ph = \<lparr>mt_job = ''j1'', mt_user = ''alice'', mt_phase = ph\<rparr>"

definition demo_spawned :: MediaService where
  "demo_spawned = demo_granted\<lparr>ms_jobs := [demo_job_row], ms_registry := [''j1'' \<mapsto> False], ms_granted := {#}, ms_tasks := {#demo_task TaskSpawned#}\<rparr>"

definition demo_running :: MediaService where
  "demo_running = move_task (demo_task TaskSpawned) TaskRunning (demo_spawned\<lparr>ms_jobs := set_job_state 2 ''j1'' JobRunning None [demo_job_row]\<rparr>)"

lemma demo_media_start: "media_start (new_service [])"
  by (simp add: media_start_def) (metis distinct.simps(1) list.simps(8))

lemma demo_media_reach: "media_step\<^sup>*\<^sup>* (new_service []) demo_running"
proof -
  note field_defs = new_service_def new_limiter_def acquire_user_def try_acquire_def active_jobs_def DEFAULT_GLOBAL_CONCURRENCY_def DEFAULT_PER_USER_CONCURRENCY_def
  have "media_step (new_service []) demo_counted"
    using media_step.count_user [of "''alice''" "new_service []"] by (simp add: demo_counted_def field_defs)
  moreover have "media_step demo_counted demo_granted"
    using media_step.grant [of "''alice''" demo_counted] by (simp add: demo_granted_def demo_counted_def field_defs)
  moreover have "media_step demo_granted demo_spawned"
    using media_step.spawn [of "''alice''" demo_granted "''j1''" 1 "''/v.mkv''" JobRemux]
    by (simp add: demo_spawned_def demo_granted_def demo_counted_def field_defs create_job_def demo_job_row_def demo_task_def operation_str_def)
  moreover have "media_step demo_spawned demo_running"
    using media_step.run [of "demo_task TaskSpawned" demo_spawned True 2]
    by (simp add: demo_running_def demo_spawned_def demo_task_def written_def)
  ultimately show ?thesis by (meson converse_rtranclp_into_rtranclp rtranclp.rtrancl_refl)
qed

theorem media_jobs_bounded_witness:
  "size (ms_tasks demo_running) \<le> 4 \<and> tasks_of ''alice'' demo_running \<le> 2"
  using media_jobs_bounded [OF demo_media_start demo_media_reach, of "''alice''"]
  by (simp add: DEFAULT_GLOBAL_CONCURRENCY_def DEFAULT_PER_USER_CONCURRENCY_def)


text \<open>A service that starts with an ended job: nothing that happens later changes it.\<close>

definition demo_old_row :: media_job_row where
  "demo_old_row = demo_job_row\<lparr>mj_state := ''failed'', mj_error_class := Some ''timeout''\<rparr>"

theorem media_job_ends_once_witness:
  "demo_old_row \<in> set (ms_jobs (new_service (snd (expire_stale 9 9 [demo_old_row]))))"
proof -
  have start: "media_start (new_service [demo_old_row])"
    by (auto simp: media_start_def intro!: exI [of _ "[demo_old_row]"])
  have "media_step\<^sup>*\<^sup>* (new_service [demo_old_row]) (new_service (snd (expire_stale 9 9 [demo_old_row])))"
    using media_step.restart [of "new_service [demo_old_row]" 9 9] by (simp add: new_service_def r_into_rtranclp)
  from media_job_ends_once [OF start rtranclp.rtrancl_refl this, of demo_old_row]
  show ?thesis by (simp add: new_service_def demo_old_row_def job_state_from_str_def is_terminal_def)
qed

end
