(* ===== verification/Spec2Isabelle.thy ===== *)
theory Spec2Isabelle
  imports Permissions Audit_Log Vault Transfer_Queue Transfer_Copy Runtime_Races Auth_Admin Vfs_Properties Privileged_Api_Properties Office_Properties Uploads_Properties Egress_Properties Library_Scan_Properties Media_Jobs_Properties
begin

text \<open>
  CloudDesk-OS is a desktop in the browser for the users of a Linux server. A web service (\<open>services/clouddeskd\<close>)
  authenticates users, serves their files, runs transfers, office documents, media and isolated runtimes, and keeps its
  state in SQLite. It has no privileges of its own: what must happen under another account it asks of a root helper
  (\<open>services/cloudesk-privd\<close>) with a signed grant, and the helper starts a worker (\<open>services/cloudesk-sessiond\<close>) under
  the account of the user. The crates under \<open>crates/\<close> hold the logic of the parts.

  \<^bold>\<open>Conventions\<close> (\<open>Prelude\<close>). Strings and byte slices are \<open>string\<close>; character classes are the ASCII ones. A table is the
  list of its rows in row order, with \<open>sql_first\<close>, \<open>sql_update\<close> and \<open>sql_delete\<close> for the statements; \<open>Result\<close> is a sum with
  the error on the left. Time, random identifiers, cryptographic primitives, the file system and child processes are
  parameters; what a property needs of them (a cipher opens what it sealed, a digest has no collision on the events of a
  log) is a named hypothesis, and each such property has a witness with concrete functions. The locales of the prelude are
  \<open>text_codec\<close> (enumerations stored as text), \<open>row_update\<close>, \<open>tenants\<close> and its case \<open>owner_scoped\<close> (users who do not
  interfere), \<open>row_history\<close> (rows that only move in a preorder) and \<open>inv_system\<close> (inductive invariants); the components
  interpret them on their own operations.

  \<^bold>\<open>Identity.\<close> \<open>Permissions\<close>: the capability registry and application manifests (\<open>crates/permissions\<close>, \<open>crates/runtime\<close>).
  \<open>Audit_Log\<close>: the hash chain of \<open>crates/audit\<close>; every log built by \<open>append\<close> verifies, a deletion in it is found.
  \<open>Secrets\<close> and \<open>Vault\<close>: the cipher of \<open>crates/secrets\<close> and the records of \<open>crates/vault\<close>; rewrapping keeps every secret,
  a transplanted ciphertext does not open, users are separate. \<open>Auth_Crypto\<close>, \<open>Linux_Identity\<close> and \<open>Auth_Service\<close>: the
  authentication service of \<open>crates/auth\<close> with accounts of \<open>crates/linux\<close>, operation by operation. \<open>Auth_History\<close>: its
  operations as a step relation and what every history keeps. \<open>Auth_Properties\<close> and \<open>Auth_Admin\<close>: soundness of logins and
  step-ups, finality of logout, throttling, single use of recovery codes, guards of the administrative operations.

  \<^bold>\<open>Files.\<close> \<open>Vfs_Paths\<close> and \<open>Vfs\<close>: paths, access control lists, the local provider and archives of \<open>crates/vfs\<close>.
  \<open>Vfs_Properties\<close>: no path leaves the root, extraction stays within its quota, a search ends. \<open>Local_Files\<close>, \<open>Uploads\<close> and
  \<open>Downloads\<close>: the files the web service reads and writes itself, over a file system with links of which at most
  \<open>MAX_LINKS\<close> = 40 are followed, as Linux does. \<open>Local_Files_Properties\<close> and \<open>Uploads_Properties\<close>: downloads stay below
  the home, ranges are exact, a resumable upload delivers what was accepted. \<open>Transfers\<close>: the queue of \<open>crates/transfers\<close>
  and the local copy of the worker; \<open>Transfer_Queue\<close>: histories of the queue; \<open>Transfer_Copy\<close>: the copy is correct.

  \<^bold>\<open>Privilege.\<close> \<open>Privilege\<close>: the actions and signed grants of \<open>crates/privilege\<close>. \<open>Privd\<close>: the helper and the worker.
  \<open>Privd_Properties\<close>: what the helper does at most, each grant once. \<open>Privileged_Api\<close>: the requests of the web service that
  end in the helper. \<open>Privileged_Api_Properties\<close>: from the request to the worker, every effect is authorised, audited and
  under the account of the user.

  \<^bold>\<open>Runtimes and office.\<close> \<open>Runtime_Store\<close> and \<open>Runtime_Manager\<close>: \<open>crates/orchestrator\<close>, with the locked regions of a start
  and a stop as separate steps. \<open>Runtime_Properties\<close>, \<open>Runtime_Recovery\<close> and \<open>Runtime_Races\<close>: ports are exclusive, crash loops
  end, and what overlapping operations do. \<open>Office\<close> and \<open>Office_Properties\<close>: the WOPI host; tokens are authorised again at
  every call, documents are replaced as a whole, locks exclude. \<open>Egress_Proxy\<close> and \<open>Egress_Properties\<close>: the proxy of the
  browser runtime dials public addresses only.

  \<^bold>\<open>Media.\<close> \<open>Media\<close>: discovery, probing and the compatibility decision of \<open>crates/media\<close>. \<open>Library\<close> and \<open>Library_Scan\<close>: the
  store and the scan of \<open>crates/library\<close>. \<open>Library_Properties\<close>, \<open>Library_Tenants\<close> and \<open>Library_Scan_Properties\<close>: searches are
  literal, playlists are lists, users are separate, a scan leaves the library as the folder is. \<open>Media_Jobs\<close>: the jobs that run
  \<open>ffmpeg\<close>, their rows, arguments and admission, with requests and tasks as interleaved steps; \<open>Media_Jobs_Properties\<close>: never
  more jobs than admitted, a job settles, and it ends once.

  \<^bold>\<open>Bounds.\<close> Every loop that the source bounds keeps its constant (30 attempts of the audit log, the quotas of an extraction,
  \<open>MAX_SCAN_FILES\<close>, the attempts of the port allocator). Loops over trees recurse on the tree or carry a depth that the
  termination property proves sufficient; the copy loop ends because each chunk moves the offset. No other fuel is used.

  \<^bold>\<open>Not modelled.\<close> The adapters that start processes, containers and control groups, the browser broker, the terminal bridge
  and the clients of SSH, SFTP, S3 and WebDAV: asynchronous input and output of third-party libraries. The records of
  remote servers and the loading of the configuration are left for later. Routing, response headers and the JSON forms of the HTTP interface are outside, except where a property speaks of them. The user interface
  is TypeScript.
\<close>

end
